(* ===== verification/Prelude.thy ===== *)
theory Prelude
  imports Main "HOL-Library.Word"
begin

text \<open>
  Shared vocabulary of the development.

  Go errors are values of \<open>err\<close>: the package-level sentinels (compared with \<open>==\<close> and
  \<open>errors.Is\<close>), errors built by \<open>fmt.Errorf\<close> (a label and the errors wrapped by \<open>%w\<close>;
  operands of \<open>%v\<close> and \<open>%s\<close> only shape the text and are dropped), a failure reported by
  the database driver, and a Go panic, which unwinds through every caller and is
  therefore never wrapped.  A fallible pure function returns \<open>err + 'a\<close>.

  Stateful code is a function \<open>'s \<Rightarrow> (err + 'a) \<times> 's\<close> (type \<open>op\<close>): the state is returned
  also when the operation fails, so partial effects before an error are visible.
  \<open>try_do m w k\<close> is the Go idiom \<open>x, err := m; if err != nil { return w(err) }; k\<close>.

  The lemma collections: \<open>wp\<close> computes weakest preconditions of operations,
  \<open>pres\<close> proves that an operation keeps an invariant.
\<close>

named_theorems wp \<open>weakest preconditions of the operations\<close>
named_theorems pres \<open>operations that keep an invariant\<close>
named_theorems run \<open>successful runs of the operations\<close>

section \<open>Go errors\<close>

datatype sentinel =
    PgxErrNoRows
  | ErrNotFound | ErrInvalidData | ErrAlreadyExists | ErrQueryFailed
  | ErrUserNotFound | ErrMFACertNotFound | ErrBadPassword | ErrBadUserData
  | ErrFeaturesRestriction | ErrOnlyForIntrUsers
  | ErrAuthenticatorIsNotSupported | ErrNoAuthenticatorForUser | ErrUserSecretNotFound
  | ErrDPULimitExceeded | ErrNoAvailableAddressInPool
  | ErrTooSmallUserID | ErrLDAPNotSupported | ErrTOTPReplay
  | VcmErrNotFound | VcmErrAlreadyExists | VcmErrDoesNotExist | VcmErrInvalidData
  | VcmErrDriverMisbehave | VcmErrAlreadyWatching
  | DrvErrNotFound | DrvErrQueryFailed
  | ErrMissingServerName | ErrMissingServerEndpoint | ErrInvalidServerEndpoint
  | ErrInvalidServerHealthCheckAddress
  | WgErrAlreadyRunning | WgErrAlreadyManaging | WgErrUseAfterDestroy
  | WgErrNotExist | WgErrNotManaging
  | RpcErrDisconnected | RpcErrNameNotFound | RestErrAuthenticationFailed
  | ErrSyncNotStarted | ErrSyncInProgress

datatype err =
    Panic
  | Sentinel sentinel
  | DbError
  | Errorf string "err list"

text \<open>\<open>fmt.Errorf\<close> around one error: \<open>%w\<close> keeps it in the chain, \<open>%v\<close> does not.\<close>

definition wrapw :: "string \<Rightarrow> err \<Rightarrow> err" where
  "wrapw l e = (if e = Panic then Panic else Errorf l [e])"

definition wrapv :: "string \<Rightarrow> err \<Rightarrow> err" where
  "wrapv l e = (if e = Panic then Panic else Errorf l [])"

definition errors_new :: "string \<Rightarrow> err" where
  "errors_new l = Errorf l []"

text \<open>\<open>return nil, E\<close> in an error branch: the error is replaced by another one.\<close>

definition replace_err :: "err \<Rightarrow> err \<Rightarrow> err" where
  "replace_err e' e = (if e = Panic then Panic else e')"

text \<open>\<open>errors.Is(e, target)\<close> for a sentinel target: it walks the chain of wrapped errors.\<close>

fun errors_is :: "err \<Rightarrow> sentinel \<Rightarrow> bool" where
  "errors_is Panic t = False"
| "errors_is (Sentinel x) t = (x = t)"
| "errors_is DbError t = False"
| "errors_is (Errorf l es) t = list_ex (\<lambda>e. errors_is e t) es"

lemma errors_is_wrapw [simp]: "errors_is (wrapw l e) t = errors_is e t"
  by (simp add: wrapw_def)

lemma errors_is_wrapv [simp]: "\<not> errors_is (wrapv l e) t"
  by (simp add: wrapv_def)

lemma errors_is_new [simp]: "\<not> errors_is (errors_new l) t"
  by (simp add: errors_new_def)

lemma wrap_ne [simp]:
  "wrapw l e \<noteq> Sentinel t" "wrapv l e \<noteq> Sentinel t" "errors_new l \<noteq> Sentinel t"
  "errors_new l \<noteq> Panic" "wrapw l e \<noteq> DbError" "wrapv l e \<noteq> DbError" "errors_new l \<noteq> DbError"
  by (auto simp: wrapw_def wrapv_def errors_new_def)

lemma wrap_panic [simp]:
  "wrapw l e = Panic \<longleftrightarrow> e = Panic" "wrapv l e = Panic \<longleftrightarrow> e = Panic"
  by (auto simp: wrapw_def wrapv_def)

section \<open>Fallible pure functions\<close>

definition bind_res :: "err + 'a \<Rightarrow> (err \<Rightarrow> err) \<Rightarrow> ('a \<Rightarrow> err + 'b) \<Rightarrow> err + 'b" where
  "bind_res r w k = (case r of Inl e \<Rightarrow> Inl (w e) | Inr x \<Rightarrow> k x)"

lemma bind_res_simps [simp]:
  "bind_res (Inl e) w k = Inl (w e)" "bind_res (Inr x) w k = k x"
  by (simp_all add: bind_res_def)

lemma bind_res_Inr_iff: "bind_res r w k = Inr y \<longleftrightarrow> (\<exists>x. r = Inr x \<and> k x = Inr y)"
  by (cases r) auto

fun map_res :: "('a \<Rightarrow> err + 'b) \<Rightarrow> (err \<Rightarrow> err) \<Rightarrow> 'a list \<Rightarrow> err + 'b list" where
  "map_res f w [] = Inr []"
| "map_res f w (x # xs) =
     bind_res (f x) w (\<lambda>y. bind_res (map_res f w xs) (\<lambda>e. e) (\<lambda>ys. Inr (y # ys)))"

lemma map_res_Inr_iff: "map_res f w xs = Inr ys \<longleftrightarrow> list_all2 (\<lambda>x y. f x = Inr y) xs ys"
  by (induction xs arbitrary: ys) (auto simp: bind_res_Inr_iff list_all2_Cons1)

definition is_ok :: "'e + 'a \<Rightarrow> bool" where
  "is_ok r = (case r of Inl _ \<Rightarrow> False | Inr _ \<Rightarrow> True)"

lemma is_ok_simps [simp]: "\<not> is_ok (Inl e)" "is_ok (Inr x)"
  by (simp_all add: is_ok_def)

lemma is_ok_run: "is_ok (fst r) \<Longrightarrow> \<exists>x s. r = (Inr x, s)"
  by (cases r; cases "fst r") auto

section \<open>Operations on a state\<close>

type_synonym ('s, 'a) op = "'s \<Rightarrow> (err + 'a) \<times> 's"

definition ret :: "'a \<Rightarrow> ('s, 'a) op" where
  "ret x = (\<lambda>s. (Inr x, s))"

definition throw :: "err \<Rightarrow> ('s, 'a) op" where
  "throw e = (\<lambda>s. (Inl e, s))"

definition lift :: "err + 'a \<Rightarrow> ('s, 'a) op" where
  "lift r = (\<lambda>s. (r, s))"

definition gets :: "('s \<Rightarrow> 'a) \<Rightarrow> ('s, 'a) op" where
  "gets f = (\<lambda>s. (Inr (f s), s))"

definition modify :: "('s \<Rightarrow> 's) \<Rightarrow> ('s, unit) op" where
  "modify f = (\<lambda>s. (Inr (), f s))"

definition try_do :: "('s, 'a) op \<Rightarrow> (err \<Rightarrow> err) \<Rightarrow> ('a \<Rightarrow> ('s, 'b) op) \<Rightarrow> ('s, 'b) op" where
  "try_do m w k = (\<lambda>s. case m s of (Inl e, s') \<Rightarrow> (Inl (w e), s') | (Inr x, s') \<Rightarrow> k x s')"

text \<open>The error is returned as it is.\<close>

abbreviation bind_do :: "('s, 'a) op \<Rightarrow> ('a \<Rightarrow> ('s, 'b) op) \<Rightarrow> ('s, 'b) op" where
  "bind_do m k \<equiv> try_do m (\<lambda>e. e) k"

text \<open>The caller inspects the error itself; a panic is not an error value.\<close>

definition attempt :: "('s, 'a) op \<Rightarrow> (err + 'a \<Rightarrow> ('s, 'b) op) \<Rightarrow> ('s, 'b) op" where
  "attempt m k = (\<lambda>s. case m s of (Inl Panic, s') \<Rightarrow> (Inl Panic, s') | (r, s') \<Rightarrow> k r s')"

definition guard_do :: "bool \<Rightarrow> err \<Rightarrow> ('s, 'b) op \<Rightarrow> ('s, 'b) op" where
  "guard_do b e k = (if b then throw e else k)"

definition when_do :: "bool \<Rightarrow> ('s, unit) op \<Rightarrow> ('s, unit) op" where
  "when_do b m = (if b then m else ret ())"

text \<open>\<open>for _, x := range xs { if err := f(x); err != nil { return err } }\<close>\<close>

fun for_each :: "('a \<Rightarrow> ('s, unit) op) \<Rightarrow> 'a list \<Rightarrow> ('s, unit) op" where
  "for_each f [] = ret ()"
| "for_each f (x # xs) = bind_do (f x) (\<lambda>_. for_each f xs)"

text \<open>The same loop with a value carried from one iteration to the next.\<close>

fun for_fold :: "('b \<Rightarrow> 'a \<Rightarrow> ('s, 'b) op) \<Rightarrow> 'b \<Rightarrow> 'a list \<Rightarrow> ('s, 'b) op" where
  "for_fold f acc [] = ret acc"
| "for_fold f acc (x # xs) = bind_do (f acc x) (\<lambda>acc'. for_fold f acc' xs)"

definition for_map :: "('a \<Rightarrow> ('s, 'b) op) \<Rightarrow> 'a list \<Rightarrow> ('s, 'b list) op" where
  "for_map f xs = for_fold (\<lambda>acc x. bind_do (f x) (\<lambda>y. ret (acc @ [y]))) [] xs"

section \<open>Weakest preconditions\<close>

definition wpo :: "('s, 'a) op \<Rightarrow> ('a \<Rightarrow> 's \<Rightarrow> bool) \<Rightarrow> (err \<Rightarrow> 's \<Rightarrow> bool) \<Rightarrow> 's \<Rightarrow> bool" where
  "wpo m Q E s = (case m s of (Inl e, s') \<Rightarrow> E e s' | (Inr x, s') \<Rightarrow> Q x s')"

lemma wpo_ret [wp]: "wpo (ret x) Q E s = Q x s"
  by (simp add: wpo_def ret_def)

lemma wpo_throw [wp]: "wpo (throw e) Q E s = E e s"
  by (simp add: wpo_def throw_def)

lemma wpo_lift [wp]: "wpo (lift r) Q E s = (case r of Inl e \<Rightarrow> E e s | Inr x \<Rightarrow> Q x s)"
  by (simp add: wpo_def lift_def)

lemma wpo_gets [wp]: "wpo (gets f) Q E s = Q (f s) s"
  by (simp add: wpo_def gets_def)

lemma wpo_modify [wp]: "wpo (modify f) Q E s = Q () (f s)"
  by (simp add: wpo_def modify_def)

lemma wpo_try_do [wp]:
  "wpo (try_do m w k) Q E s = wpo m (\<lambda>x. wpo (k x) Q E) (\<lambda>e. E (w e)) s"
  by (auto simp: wpo_def try_do_def split: sum.splits prod.splits)

lemma wpo_attempt [wp]:
  "wpo (attempt m k) Q E s =
     wpo m (\<lambda>x. wpo (k (Inr x)) Q E)
           (\<lambda>e s'. if e = Panic then E Panic s' else wpo (k (Inl e)) Q E s') s"
  by (auto simp: wpo_def attempt_def split: sum.splits prod.splits err.splits)

lemma wpo_guard_do [wp]: "wpo (guard_do b e k) Q E s = (if b then E e s else wpo k Q E s)"
  by (simp add: guard_do_def wpo_throw)

lemma wpo_when_do [wp]: "wpo (when_do b m) Q E s = (if b then wpo m Q E s else Q () s)"
  by (simp add: when_do_def wpo_ret)

lemma wpo_if: "wpo (if b then m else m') Q E s = (if b then wpo m Q E s else wpo m' Q E s)"
  by simp

lemma wpo_mono:
  assumes "wpo m Q E s"
    and "\<And>x s'. Q x s' \<Longrightarrow> Q' x s'" and "\<And>e s'. E e s' \<Longrightarrow> E' e s'"
  shows "wpo m Q' E' s"
  using assms by (auto simp: wpo_def split: sum.splits prod.splits)

lemma wpo_conj:
  "wpo m (\<lambda>x s. Q x s \<and> Q' x s) (\<lambda>e s. E e s \<and> E' e s) s \<longleftrightarrow> wpo m Q E s \<and> wpo m Q' E' s"
  by (auto simp: wpo_def split: sum.splits prod.splits)

text \<open>An operation's two outcomes, read off its weakest precondition.\<close>

lemma wpo_Inr: "wpo m Q E s \<Longrightarrow> m s = (Inr x, s') \<Longrightarrow> Q x s'"
  by (simp add: wpo_def)

lemma wpo_Inl: "wpo m Q E s \<Longrightarrow> m s = (Inl e, s') \<Longrightarrow> E e s'"
  by (simp add: wpo_def)

lemma wpoI:
  assumes "\<And>x s'. m s = (Inr x, s') \<Longrightarrow> Q x s'" and "\<And>e s'. m s = (Inl e, s') \<Longrightarrow> E e s'"
  shows "wpo m Q E s"
  using assms by (auto simp: wpo_def split: sum.splits prod.splits)

text \<open>Loops are verified with an invariant on the elements still to visit.\<close>

lemma wpo_for_each_inv:
  assumes "I xs s"
    and "\<And>x xs s. I (x # xs) s \<Longrightarrow> wpo (f x) (\<lambda>_. I xs) E s"
    and "\<And>s. I [] s \<Longrightarrow> Q () s"
  shows "wpo (for_each f xs) Q E s"
  using assms(1)
proof (induction xs arbitrary: s)
  case Nil
  then show ?case by (simp add: wp assms(3))
next
  case (Cons x xs)
  show ?case
    by (simp add: wp) (rule wpo_mono [OF assms(2) [OF Cons.prems]], auto intro: Cons.IH)
qed

lemma wpo_for_fold_inv:
  assumes "I acc xs s"
    and "\<And>acc x xs s. I acc (x # xs) s \<Longrightarrow> wpo (f acc x) (\<lambda>a. I a xs) E s"
    and "\<And>acc s. I acc [] s \<Longrightarrow> Q acc s"
  shows "wpo (for_fold f acc xs) Q E s"
  using assms(1)
proof (induction xs arbitrary: acc s)
  case Nil
  then show ?case by (simp add: wp assms(3))
next
  case (Cons x xs)
  show ?case
    by (simp add: wp) (rule wpo_mono [OF assms(2) [OF Cons.prems]], auto intro: Cons.IH)
qed

section \<open>Successful runs\<close>

lemma run_basic [run]:
  "ret x s = (Inr y, s') \<longleftrightarrow> y = x \<and> s' = s"
  "throw e s = (Inr y, s') \<longleftrightarrow> False"
  "lift r s = (Inr y, s') \<longleftrightarrow> r = Inr y \<and> s' = s"
  "gets f s = (Inr y, s') \<longleftrightarrow> y = f s \<and> s' = s"
  by (auto simp: ret_def throw_def lift_def gets_def)

lemma run_try_do [run]:
  "try_do m w k s = (Inr y, s') \<longleftrightarrow> (\<exists>x s1. m s = (Inr x, s1) \<and> k x s1 = (Inr y, s'))"
  by (auto simp: try_do_def split: sum.splits prod.splits)

lemma run_guard_do [run]: "guard_do b e k s = (Inr y, s') \<longleftrightarrow> \<not> b \<and> k s = (Inr y, s')"
  by (auto simp: guard_do_def throw_def)

lemma run_when_do [run]:
  "when_do b m s = (Inr y, s') \<longleftrightarrow> (if b then m s = (Inr y, s') else s' = s)"
  by (auto simp: when_do_def ret_def)

lemma run_for_each [run]:
  "for_each f [] s = (Inr y, s') \<longleftrightarrow> s' = s"
  "for_each f (x # xs) s = (Inr y, s') \<longleftrightarrow>
     (\<exists>s1. f x s = (Inr (), s1) \<and> for_each f xs s1 = (Inr y, s'))"
  by (auto simp: run)

section \<open>Operations that keep an invariant\<close>

definition preserves :: "('s \<Rightarrow> bool) \<Rightarrow> ('s, 'a) op \<Rightarrow> bool" where
  "preserves I m = (\<forall>s. I s \<longrightarrow> I (snd (m s)))"

lemma preservesI: "(\<And>s. I s \<Longrightarrow> I (snd (m s))) \<Longrightarrow> preserves I m"
  by (simp add: preserves_def)

lemma preservesD: "preserves I m \<Longrightarrow> I s \<Longrightarrow> I (snd (m s))"
  by (simp add: preserves_def)

lemma preserves_wpo: "preserves I m \<longleftrightarrow> (\<forall>s. I s \<longrightarrow> wpo m (\<lambda>_. I) (\<lambda>_. I) s)"
  by (auto simp: preserves_def wpo_def split: sum.splits prod.splits)
    (metis snd_conv sum.exhaust surj_pair)+

lemma preserves_ret [pres]: "preserves I (ret x)"
  and preserves_throw [pres]: "preserves I (throw e)"
  and preserves_lift [pres]: "preserves I (lift r)"
  and preserves_gets [pres]: "preserves I (gets f)"
  by (simp_all add: preserves_def ret_def throw_def lift_def gets_def)

lemma preserves_modify: "(\<And>s. I s \<Longrightarrow> I (f s)) \<Longrightarrow> preserves I (modify f)"
  by (simp add: preserves_def modify_def)

lemma preserves_try_do [pres]:
  "preserves I m \<Longrightarrow> (\<And>x. preserves I (k x)) \<Longrightarrow> preserves I (try_do m w k)"
  unfolding preserves_def try_do_def
  by (fastforce split: sum.splits prod.splits)

lemma preserves_attempt [pres]:
  "preserves I m \<Longrightarrow> (\<And>r. preserves I (k r)) \<Longrightarrow> preserves I (attempt m k)"
  unfolding preserves_def attempt_def
  by (fastforce split: sum.splits prod.splits err.splits)

lemma preserves_guard_do [pres]: "preserves I k \<Longrightarrow> preserves I (guard_do b e k)"
  by (simp add: guard_do_def preserves_throw)

lemma preserves_when_do [pres]: "preserves I m \<Longrightarrow> preserves I (when_do b m)"
  by (simp add: when_do_def preserves_ret)

lemma preserves_if [pres]:
  "preserves I m \<Longrightarrow> preserves I m' \<Longrightarrow> preserves I (if b then m else m')"
  by simp

lemma preserves_sum_case [pres]:
  "(\<And>e. preserves I (f e)) \<Longrightarrow> (\<And>x. preserves I (g x)) \<Longrightarrow>
   preserves I (case r of Inl e \<Rightarrow> f e | Inr x \<Rightarrow> g x)"
  by (simp split: sum.split)

lemma preserves_option_case [pres]:
  "preserves I n \<Longrightarrow> (\<And>x. preserves I (g x)) \<Longrightarrow>
   preserves I (case r of None \<Rightarrow> n | Some x \<Rightarrow> g x)"
  by (simp split: option.split)

lemma preserves_prod_case [pres]:
  "(\<And>x y. preserves I (g x y)) \<Longrightarrow> preserves I (case r of (x, y) \<Rightarrow> g x y)"
  by (simp split: prod.split)

lemma preserves_Let [pres]: "preserves I (f x) \<Longrightarrow> preserves I (Let x f)"
  by simp

lemma preserves_for_each [pres]:
  "(\<And>x. preserves I (f x)) \<Longrightarrow> preserves I (for_each f xs)"
  by (induction xs) (auto intro!: pres)

lemma preserves_for_fold [pres]:
  "(\<And>acc x. preserves I (f acc x)) \<Longrightarrow> preserves I (for_fold f acc xs)"
  by (induction xs arbitrary: acc) (auto intro!: pres)

lemma preserves_for_map [pres]:
  "(\<And>x. preserves I (f x)) \<Longrightarrow> preserves I (for_map f xs)"
  unfolding for_map_def by (intro pres)

section \<open>Strings\<close>

definition contains_char :: "char \<Rightarrow> string \<Rightarrow> bool" where
  "contains_char c s = (c \<in> set s)"

definition has_prefix :: "string \<Rightarrow> string \<Rightarrow> bool" where
  "has_prefix p s = (take (length p) s = p)"

definition has_suffix :: "string \<Rightarrow> string \<Rightarrow> bool" where
  "has_suffix p s = (length p \<le> length s \<and> drop (length s - length p) s = p)"

definition trim_prefix :: "string \<Rightarrow> string \<Rightarrow> string" where
  "trim_prefix p s = (if has_prefix p s then drop (length p) s else s)"

definition trim_suffix :: "string \<Rightarrow> string \<Rightarrow> string" where
  "trim_suffix p s = (if has_suffix p s then take (length s - length p) s else s)"

text \<open>\<open>strings.Split\<close> with a one-character separator.\<close>

fun split_on :: "char \<Rightarrow> string \<Rightarrow> string list" where
  "split_on c [] = [[]]"
| "split_on c (x # xs) =
     (if x = c then [] # split_on c xs
      else case split_on c xs of [] \<Rightarrow> [[x]] | p # ps \<Rightarrow> (x # p) # ps)"

lemma split_on_ne [simp]: "split_on c s \<noteq> []"
  by (induction s) (auto split: list.split)

lemma split_on_no: "c \<notin> set s \<Longrightarrow> split_on c s = [s]"
  by (induction s) auto

lemma split_on_append: "c \<notin> set s \<Longrightarrow> split_on c (s @ c # t) = s # split_on c t"
  by (induction s) auto

text \<open>\<open>strings.Join\<close>\<close>

fun join_with :: "string \<Rightarrow> string list \<Rightarrow> string" where
  "join_with sep [] = []"
| "join_with sep [x] = x"
| "join_with sep (x # y # ys) = x @ sep @ join_with sep (y # ys)"

lemma join_Cons: "ps \<noteq> [] \<Longrightarrow> join_with sep (p # ps) = p @ sep @ join_with sep ps"
  by (cases ps) auto

lemma join_Cons_head: "join_with sep ((x # p) # ps) = x # join_with sep (p # ps)"
  by (cases ps) auto

lemma join_split: "join_with [c] (split_on c s) = s"
proof (induction s)
  case (Cons x xs)
  show ?case
  proof (cases "x = c")
    case True
    then show ?thesis using Cons by (simp add: join_Cons)
  next
    case False
    obtain p ps where "split_on c xs = p # ps" by (cases "split_on c xs") auto
    with False Cons show ?thesis by (simp add: join_Cons_head)
  qed
qed simp

section \<open>Lists\<close>

lemma filter_map_unchanged:
  "(\<And>x. x \<in> set xs \<Longrightarrow> P (f x) = P x) \<Longrightarrow> (\<And>x. x \<in> set xs \<Longrightarrow> P x \<Longrightarrow> f x = x) \<Longrightarrow>
   filter P (map f xs) = filter P xs"
  by (induction xs) auto

end
