(* ===== verification/Netip.thy ===== *)
theory Netip
  imports Prelude "HOL-Library.Char_ord" "HOL-Library.List_Lexorder"
begin

text \<open>
  The part of Go's \<open>net/netip\<close> and \<open>strconv\<close> that the program uses: addresses (the zero
  value \<open>NoAddr\<close>, IPv4 as a 32-bit word, IPv6 as a 128-bit word with its zone), prefixes
  (an address with a netmask length, \<open>-1\<close> when invalid), their order, arithmetic and text
  forms.  Every function is executable.  The lemmas give the order (\<open>addr\<close> is a linear
  order), the meaning of masks as arithmetic on 32-bit words, and the IPv4 round trips
  between values and text.
\<close>

unbundle bit_operations_syntax

section \<open>Decimal and hexadecimal numerals\<close>

definition is_digit :: "char \<Rightarrow> bool" where
  "is_digit c = (48 \<le> (of_char c :: nat) \<and> (of_char c :: nat) \<le> 57)"

definition digit_val :: "char \<Rightarrow> nat" where
  "digit_val c = of_char c - 48"

definition digit_char :: "nat \<Rightarrow> char" where
  "digit_char d = char_of (48 + d)"

fun dec :: "nat \<Rightarrow> string" where
  "dec n = (if n < 10 then [digit_char n] else dec (n div 10) @ [digit_char (n mod 10)])"

declare dec.simps [simp del]

text \<open>\<open>strconv.Itoa\<close>, \<open>fmt.Sprint\<close> of an integer.\<close>

definition itoa :: "int \<Rightarrow> string" where
  "itoa i = (if i < 0 then CHR ''-'' # dec (nat (- i)) else dec (nat i))"

definition digits_val :: "nat \<Rightarrow> string \<Rightarrow> nat" where
  "digits_val = foldl (\<lambda>v c. v * 10 + digit_val c)"

text \<open>\<open>strconv.Atoi\<close>: an optional sign, decimal digits, the range of a 64-bit integer.\<close>

definition atoi :: "string \<Rightarrow> int option" where
  "atoi s =
     (let neg = (s \<noteq> [] \<and> hd s = CHR ''-'');
          ds = (if s \<noteq> [] \<and> (hd s = CHR ''-'' \<or> hd s = CHR ''+'') then tl s else s);
          v = int (digits_val 0 ds)
      in if ds = [] \<or> \<not> list_all is_digit ds then None
         else if neg then (if v \<le> 2 ^ 63 then Some (- v) else None)
         else (if v < 2 ^ 63 then Some v else None))"

lemma is_digit_digit_char [simp]: "d < 10 \<Longrightarrow> is_digit (digit_char d)"
  by (simp add: is_digit_def digit_char_def)

lemma digit_val_char [simp]: "d < 10 \<Longrightarrow> digit_val (digit_char d) = d"
  by (simp add: digit_val_def digit_char_def)

lemma digit_char_ne [simp]:
  assumes "d < 10"
  shows "digit_char d \<noteq> CHR ''.''" "digit_char d \<noteq> CHR ''-''" "digit_char d \<noteq> CHR ''/''"
    "digit_char d \<noteq> CHR '':''" "digit_char d \<noteq> CHR '',''" "digit_char d \<noteq> CHR ''%''"
    "digit_char d \<noteq> CHR ''+''" "digit_char d \<noteq> CHR ''(''" "digit_char d \<noteq> CHR '')''"
proof -
  have *: "digit_char d \<noteq> c" if "\<not> is_digit c" for c
    using is_digit_digit_char [OF assms] that by metis
  show "digit_char d \<noteq> CHR ''.''" "digit_char d \<noteq> CHR ''-''" "digit_char d \<noteq> CHR ''/''"
    "digit_char d \<noteq> CHR '':''" "digit_char d \<noteq> CHR '',''" "digit_char d \<noteq> CHR ''%''"
    "digit_char d \<noteq> CHR ''+''" "digit_char d \<noteq> CHR ''(''" "digit_char d \<noteq> CHR '')''"
    by (rule *; simp add: is_digit_def)+
qed

lemma dec_ne [simp]: "dec n \<noteq> []"
  by (subst dec.simps) simp

lemma dec_digits: "list_all is_digit (dec n)"
  by (induction n rule: dec.induct) (subst dec.simps, simp)

lemma digits_val_append: "digits_val v (s @ [c]) = digits_val v s * 10 + digit_val c"
  by (simp add: digits_val_def)

lemma digits_val_dec [simp]: "digits_val 0 (dec n) = n"
proof (induction n rule: dec.induct)
  case (1 n)
  show ?case
  proof (cases "n < 10")
    case True
    then show ?thesis by (subst dec.simps) (simp add: digits_val_def)
  next
    case False
    then show ?thesis by (subst dec.simps) (simp add: 1 digits_val_append)
  qed
qed

lemma non_digit_notin_dec: "\<not> is_digit c \<Longrightarrow> c \<notin> set (dec n)"
  using dec_digits [of n] by (auto simp: list_all_iff)

lemma chars_notin_dec [simp]:
  "CHR ''.'' \<notin> set (dec n)" "CHR ''-'' \<notin> set (dec n)" "CHR ''/'' \<notin> set (dec n)"
  "CHR '':'' \<notin> set (dec n)" "CHR '','' \<notin> set (dec n)" "CHR ''%'' \<notin> set (dec n)"
  "CHR ''('' \<notin> set (dec n)" "CHR '')'' \<notin> set (dec n)" "CHR ''+'' \<notin> set (dec n)"
  by (rule non_digit_notin_dec; simp add: is_digit_def)+

lemma hd_dec_ne [simp]: "hd (dec n) \<noteq> CHR ''-''" "hd (dec n) \<noteq> CHR ''+''"
  by (metis chars_notin_dec dec_ne hd_in_set)+

lemma atoi_dec [simp]: "n < 2 ^ 63 \<Longrightarrow> atoi (dec n) = Some (int n)"
  by (simp add: atoi_def dec_digits)

lemma atoi_itoa: "- (2 ^ 63) \<le> i \<Longrightarrow> i < 2 ^ 63 \<Longrightarrow> atoi (itoa i) = Some i"
  by (auto simp: atoi_def itoa_def dec_digits)

lemma atoi_empty [simp]: "atoi [] = None"
  by (simp add: atoi_def)

lemma hd_dec_zero: "n \<noteq> 0 \<Longrightarrow> hd (dec n) \<noteq> CHR ''0''"
proof (induction n rule: dec.induct)
  case (1 n)
  show ?case
  proof (cases "n < 10")
    case True
    have "digit_val CHR ''0'' = 0" by (simp add: digit_val_def)
    then have "digit_char n \<noteq> CHR ''0''" using True 1 digit_val_char by metis
    with True show ?thesis by (subst dec.simps) simp
  next
    case False
    then show ?thesis using 1 by (subst dec.simps) (simp add: hd_append)
  qed
qed

lemma length_dec: "n < 10 \<Longrightarrow> length (dec n) = 1" "10 \<le> n \<Longrightarrow> 1 < length (dec n)"
  by (subst dec.simps, simp)+

section \<open>Addresses\<close>

datatype addr = NoAddr | V4 "32 word" | V6 "128 word" string

definition addr_valid :: "addr \<Rightarrow> bool" where
  "addr_valid a = (a \<noteq> NoAddr)"

fun is4 :: "addr \<Rightarrow> bool" where
  "is4 (V4 w) = True" | "is4 a = False"

fun is6 :: "addr \<Rightarrow> bool" where
  "is6 (V6 w z) = True" | "is6 a = False"

fun is4in6 :: "addr \<Rightarrow> bool" where
  "is4in6 (V6 w z) = (drop_bit 32 w = 0xffff)" | "is4in6 a = False"

fun bit_len :: "addr \<Rightarrow> nat" where
  "bit_len NoAddr = 0" | "bit_len (V4 w) = 32" | "bit_len (V6 w z) = 128"

fun addr_num :: "addr \<Rightarrow> nat" where
  "addr_num NoAddr = 0" | "addr_num (V4 w) = unat w" | "addr_num (V6 w z) = unat w"

fun zone :: "addr \<Rightarrow> string" where
  "zone (V6 w z) = z" | "zone a = []"

fun without_zone :: "addr \<Rightarrow> addr" where
  "without_zone (V6 w z) = V6 w []" | "without_zone a = a"

text \<open>\<open>Addr.Compare\<close>: by length, by value, and for IPv6 by zone.\<close>

definition addr_compare :: "addr \<Rightarrow> addr \<Rightarrow> int" where
  "addr_compare a b =
     (if bit_len a < bit_len b then -1
      else if bit_len a > bit_len b then 1
      else if addr_num a < addr_num b then -1
      else if addr_num a > addr_num b then 1
      else if is6 a then (if zone a < zone b then -1 else if zone a > zone b then 1 else 0)
      else 0)"

text \<open>\<open>Addr.Next\<close>: the zero value when the address is the last of its family.\<close>

fun addr_next :: "addr \<Rightarrow> addr" where
  "addr_next NoAddr = NoAddr"
| "addr_next (V4 w) = (if w + 1 = 0 then NoAddr else V4 (w + 1))"
| "addr_next (V6 w z) = (if w + 1 = 0 then NoAddr else V6 (w + 1) z)"

lemma addr_key_eq:
  "bit_len a = bit_len b \<Longrightarrow> addr_num a = addr_num b \<Longrightarrow> zone a = zone b \<Longrightarrow> a = b"
  by (cases a; cases b) (auto simp: word_unat_eq_iff)

instantiation addr :: linorder
begin

definition less_eq_addr :: "addr \<Rightarrow> addr \<Rightarrow> bool" where
  "less_eq_addr a b = (addr_compare a b \<le> 0)"

definition less_addr :: "addr \<Rightarrow> addr \<Rightarrow> bool" where
  "less_addr a b = (addr_compare a b < 0)"

instance
proof
  fix a b c :: addr
  show "(a < b) = (a \<le> b \<and> \<not> b \<le> a)"
    by (cases a; cases b) (auto simp: less_eq_addr_def less_addr_def addr_compare_def)
  show "a \<le> a"
    by (simp add: less_eq_addr_def addr_compare_def)
  show "a \<le> b \<Longrightarrow> b \<le> c \<Longrightarrow> a \<le> c"
    by (cases a; cases b; cases c) (auto simp: less_eq_addr_def addr_compare_def split: if_splits)
  show "a \<le> b \<Longrightarrow> b \<le> a \<Longrightarrow> a = b"
    by (cases a; cases b)
      (auto simp: less_eq_addr_def addr_compare_def word_unat_eq_iff split: if_splits)
  show "a \<le> b \<or> b \<le> a"
    by (cases a; cases b) (auto simp: less_eq_addr_def addr_compare_def split: if_splits)
qed

end

lemma addr_compare_iff [simp]:
  "addr_compare a b \<le> 0 \<longleftrightarrow> a \<le> b" "addr_compare a b < 0 \<longleftrightarrow> a < b"
  "addr_compare a b = 1 \<longleftrightarrow> b < a" "addr_compare a b = -1 \<longleftrightarrow> a < b"
  "addr_compare a b > 0 \<longleftrightarrow> b < a" "addr_compare a b = 0 \<longleftrightarrow> a = b"
proof -
  have *: "addr_compare a b \<in> {-1, 0, 1}" by (auto simp: addr_compare_def)
  show 1: "addr_compare a b \<le> 0 \<longleftrightarrow> a \<le> b" "addr_compare a b < 0 \<longleftrightarrow> a < b"
    by (simp_all add: less_eq_addr_def less_addr_def)
  show "addr_compare a b = -1 \<longleftrightarrow> a < b" "addr_compare a b > 0 \<longleftrightarrow> b < a"
    "addr_compare a b = 1 \<longleftrightarrow> b < a" "addr_compare a b = 0 \<longleftrightarrow> a = b"
    using 1 * by auto
qed

lemma addr_le_V6 [simp]: "V6 x z \<le> V6 y z \<longleftrightarrow> x \<le> y" "V6 x z < V6 y z \<longleftrightarrow> x < y"
  by (auto simp: less_eq_addr_def less_addr_def addr_compare_def word_less_nat_alt word_le_nat_alt)

lemma addr_le_V4 [simp]: "V4 x \<le> V4 y \<longleftrightarrow> x \<le> y" "V4 x < V4 y \<longleftrightarrow> x < y"
  by (auto simp: less_eq_addr_def less_addr_def addr_compare_def word_less_nat_alt word_le_nat_alt)

lemma addr_le_mixed [simp]:
  "\<not> V4 x \<le> NoAddr" "NoAddr \<le> a" "V4 x \<le> V6 y z" "\<not> V6 y z \<le> V4 x" "\<not> V6 y z \<le> NoAddr"
  by (cases a; simp add: less_eq_addr_def addr_compare_def)+

text \<open>The same comparison on binary numerals, for evaluation.\<close>

lemma addr_compare_code [code]:
  "addr_compare a b =
     (case (a, b) of
        (V4 x, V4 y) \<Rightarrow> if x < y then -1 else if y < x then 1 else 0
      | (V6 x z, V6 y z') \<Rightarrow> if x < y then -1 else if y < x then 1
                            else if z < z' then -1 else if z > z' then 1 else 0
      | _ \<Rightarrow> if bit_len a < bit_len b then -1 else if bit_len a > bit_len b then 1 else 0)"
  by (cases a; cases b) (auto simp: addr_compare_def word_less_nat_alt)

lemma unat_succ: "w + 1 \<noteq> 0 \<Longrightarrow> unat (w + 1) = Suc (unat w)" for w :: "'a::len word"
  using unatSuc [of w] by (simp add: add.commute)

lemma word_succ_le: "w + 1 \<noteq> 0 \<Longrightarrow> w + 1 \<le> x \<longleftrightarrow> w \<le> x \<and> x \<noteq> w" for w :: "'a::len word"
  by (auto simp: word_le_nat_alt word_unat_eq_iff unat_succ)

lemma word_less_succ: "w + 1 \<noteq> 0 \<Longrightarrow> w < w + 1" for w :: "'a::len word"
  by (simp add: word_less_nat_alt unat_succ)

lemma addr_num_next:
  "a \<noteq> NoAddr \<Longrightarrow> addr_next a \<noteq> NoAddr \<Longrightarrow> addr_num (addr_next a) = Suc (addr_num a)"
  by (cases a) (auto simp: unat_succ split: if_splits)

lemma addr_num_less: "addr_num a < 2 ^ 128"
proof (cases a)
  case (V4 w)
  have "unat w < 2 ^ 32" using unsigned_less [of w, where 'a = nat] by simp
  then show ?thesis using V4 by simp
next
  case (V6 w z)
  then show ?thesis using unsigned_less [of w, where 'a = nat] by simp
qed simp

lemma V4_between:
  "V4 x \<le> a \<Longrightarrow> a \<le> V4 y \<Longrightarrow> \<exists>w. a = V4 w"
  by (cases a) (auto simp: less_eq_addr_def addr_compare_def split: if_splits)

section \<open>Prefixes\<close>

record prefix =
  pfx_addr :: addr
  pfx_bits :: int

abbreviation mk_prefix :: "addr \<Rightarrow> int \<Rightarrow> prefix" where
  "mk_prefix a b \<equiv> \<lparr>pfx_addr = a, pfx_bits = b\<rparr>"

text \<open>The zero value \<open>netip.Prefix{}\<close>.\<close>

definition no_prefix :: prefix where
  "no_prefix = mk_prefix NoAddr (-1)"

text \<open>\<open>PrefixFrom\<close>: an impossible length gives an invalid prefix (\<open>Bits\<close> is \<open>-1\<close>).\<close>

definition prefix_from :: "addr \<Rightarrow> int \<Rightarrow> prefix" where
  "prefix_from a b =
     mk_prefix (without_zone a)
       (if a \<noteq> NoAddr \<and> 0 \<le> b \<and> b \<le> int (bit_len a) then b else -1)"

definition prefix_valid :: "prefix \<Rightarrow> bool" where
  "prefix_valid p = (pfx_bits p \<ge> 0)"

definition net4 :: "nat \<Rightarrow> 32 word \<Rightarrow> 32 word" where
  "net4 n w = w AND NOT (mask (32 - n))"

definition net6 :: "nat \<Rightarrow> 128 word \<Rightarrow> 128 word" where
  "net6 n w = w AND NOT (mask (128 - n))"

text \<open>\<open>Addr.Prefix\<close> and \<open>Prefix.Masked\<close>: the error of the first is dropped by the second.\<close>

fun addr_prefix :: "addr \<Rightarrow> int \<Rightarrow> prefix" where
  "addr_prefix NoAddr b = no_prefix"
| "addr_prefix (V4 w) b =
     (if b < 0 \<or> b > 32 then no_prefix else prefix_from (V4 (net4 (nat b) w)) b)"
| "addr_prefix (V6 w z) b =
     (if b < 0 \<or> b > 128 then no_prefix else prefix_from (V6 (net6 (nat b) w) z) b)"

definition masked :: "prefix \<Rightarrow> prefix" where
  "masked p = addr_prefix (pfx_addr p) (pfx_bits p)"

text \<open>\<open>Prefix.Contains\<close>\<close>

definition prefix_contains :: "prefix \<Rightarrow> addr \<Rightarrow> bool" where
  "prefix_contains p a =
     (prefix_valid p \<and> zone a = [] \<and>
      (case (pfx_addr p, a) of
         (V4 v, V4 w) \<Rightarrow> drop_bit (32 - nat (pfx_bits p)) (v XOR w) = 0
       | (V6 v y, V6 w z) \<Rightarrow> net6 (nat (pfx_bits p)) (v XOR w) = 0
       | _ \<Rightarrow> False))"

text \<open>\<open>As4\<close>: panics on the zero value and on an IPv6 address that is not IPv4-mapped.\<close>

definition octets :: "32 word \<Rightarrow> 8 word list" where
  "octets w = [ucast (drop_bit 24 w), ucast (drop_bit 16 w), ucast (drop_bit 8 w), ucast w]"

fun of_octets :: "8 word list \<Rightarrow> 32 word" where
  "of_octets [a, b, c, d] =
     push_bit 24 (ucast a) OR push_bit 16 (ucast b) OR push_bit 8 (ucast c) OR ucast d"
| "of_octets _ = 0"

fun as4 :: "addr \<Rightarrow> err + 8 word list" where
  "as4 NoAddr = Inl Panic"
| "as4 (V4 w) = Inr (octets w)"
| "as4 (V6 w z) = (if is4in6 (V6 w z) then Inr (octets (ucast w)) else Inl Panic)"

lemma prefix_eq_iff: "p = q \<longleftrightarrow> pfx_addr p = pfx_addr q \<and> pfx_bits p = pfx_bits q" for p q :: prefix
  by (cases p; cases q) simp

lemma prefix_from_V4 [simp]:
  "0 \<le> b \<Longrightarrow> b \<le> 32 \<Longrightarrow> prefix_from (V4 w) b = mk_prefix (V4 w) b"
  by (simp add: prefix_from_def)

lemma net4_push_drop: "net4 n w = push_bit (32 - n) (drop_bit (32 - n) w)"
  unfolding net4_def by (rule bit_word_eqI) (auto simp: bit_simps)

lemma net4_idem [simp]: "net4 n (net4 n w) = net4 n w"
  unfolding net4_def by (rule bit_word_eqI) (auto simp: bit_simps)

lemma net4_le: "net4 n w \<le> w"
  unfolding net4_def by (rule word_and_le2)

lemma net4_32 [simp]: "net4 32 w = w"
  by (simp add: net4_def)

lemma unat_drop: "unat (drop_bit k w) = unat w div 2 ^ k" for w :: "'a::len word"
proof -
  have "unat (drop_bit k w) = drop_bit k (take_bit LENGTH('a) (unat w))"
    by (subst unsigned_drop_bit_eq) simp
  also have "take_bit LENGTH('a) (unat w) = unat w"
    using unsigned_less [of w] by (intro take_bit_nat_eq_self) simp
  finally show ?thesis by (simp add: drop_bit_eq_div)
qed

lemma unat_net4: "unat (net4 n w) = unat w div 2 ^ (32 - n) * 2 ^ (32 - n)"
proof -
  have "unat w div 2 ^ (32 - n) * 2 ^ (32 - n) \<le> unat w" by simp
  also have "unat w < 2 ^ 32" using unsigned_less [of w] by simp
  finally have *: "unat w div 2 ^ (32 - n) * 2 ^ (32 - n) < 2 ^ 32" .
  have "unat (net4 n w) = take_bit 32 (push_bit (32 - n) (unat (drop_bit (32 - n) w)))"
    by (simp add: net4_push_drop unsigned_push_bit_eq)
  also have "\<dots> = unat w div 2 ^ (32 - n) * 2 ^ (32 - n)"
    unfolding unat_drop push_bit_eq_mult by (rule take_bit_nat_eq_self [OF *])
  finally show ?thesis .
qed

lemma net4_eq_iff: "net4 n v = net4 n w \<longleftrightarrow> unat v div 2 ^ (32 - n) = unat w div 2 ^ (32 - n)"
  by (simp add: word_unat_eq_iff unat_net4)

lemma drop_xor_iff: "drop_bit (32 - n) (v XOR w) = 0 \<longleftrightarrow> net4 n v = net4 n w" for v w :: "32 word"
proof -
  have "drop_bit (32 - n) (v XOR w) = 0 \<longleftrightarrow> drop_bit (32 - n) v = drop_bit (32 - n) w"
    by (auto simp: bit_eq_iff bit_simps)
  also have "\<dots> \<longleftrightarrow> net4 n v = net4 n w"
    unfolding net4_eq_iff by (simp only: word_unat_eq_iff [of "drop_bit _ _"] unat_drop)
  finally show ?thesis .
qed

lemma prefix_contains_V4:
  "prefix_contains (mk_prefix (V4 v) b) (V4 w) \<longleftrightarrow> 0 \<le> b \<and> net4 (nat b) v = net4 (nat b) w"
  unfolding prefix_contains_def prefix_valid_def by (simp only: drop_xor_iff) (simp add: drop_xor_iff)

lemma masked_V4 [simp]:
  "0 \<le> b \<Longrightarrow> b \<le> 32 \<Longrightarrow> masked (mk_prefix (V4 w) b) = mk_prefix (V4 (net4 (nat b) w)) b"
  by (simp add: masked_def)

text \<open>The block of an IPv4 network: the addresses between the network and its last address.\<close>

definition bcast4 :: "nat \<Rightarrow> 32 word \<Rightarrow> 32 word" where
  "bcast4 n w = w OR mask (32 - n)"

lemma bcast4_plus: "bcast4 n w = net4 n w + mask (32 - n)"
proof -
  have "bcast4 n w = net4 n w OR mask (32 - n)"
    unfolding bcast4_def net4_def by (rule bit_word_eqI) (auto simp: bit_simps)
  also have "\<dots> = net4 n w + mask (32 - n)"
    unfolding net4_def by (rule disjunctive_add [symmetric]) (auto simp: bit_simps)
  finally show ?thesis .
qed

lemma unat_mask32: "unat (mask k :: 32 word) = 2 ^ min 32 k - 1"
proof -
  have "unat (mask k :: 32 word) = nat (uint (mask k :: 32 word))" by simp
  also have "uint (mask k :: 32 word) = mask (min 32 k)" by (simp only: uint_mask_eq) simp
  also have "nat (mask (min 32 k)) = 2 ^ min 32 k - 1"
    by (simp only: mask_eq_exp_minus_1) (simp add: nat_diff_distrib nat_power_eq)
  finally show ?thesis .
qed

lemma div_block: "x div d = y div d \<longleftrightarrow> y div d * d \<le> x \<and> x \<le> y div d * d + (d - 1)"
  if "0 < d" for x y d :: nat
proof -
  have "x div d = q \<longleftrightarrow> q * d \<le> x \<and> x < q * d + d" for q
    using that div_nat_eqI [of d q x] dividend_less_div_times [of d x]
    by (auto simp: mult.commute [of d] add.commute)
  moreover have "x < q * d + d \<longleftrightarrow> x \<le> q * d + (d - 1)" for q
    using that by linarith
  ultimately show ?thesis by simp
qed

lemma unat_bcast4: "unat (bcast4 n w) = unat (net4 n w) + (2 ^ (32 - n) - 1)"
proof -
  let ?d = "2 ^ (32 - n) :: nat"
  have d: "?d dvd 2 ^ 32" by (rule le_imp_power_dvd) simp
  have "unat w < 2 ^ 32" using unsigned_less [of w] by simp
  then have "unat w div ?d < 2 ^ 32 div ?d"
    using d by (auto simp: dvd_def div_less_iff_less_mult mult.commute)
  then have "(unat w div ?d + 1) * ?d \<le> 2 ^ 32 div ?d * ?d"
    by (intro mult_right_mono) simp_all
  then have "unat w div ?d * ?d + ?d \<le> 2 ^ 32" using d by simp
  then have *: "unat (net4 n w) + (?d - 1) < 2 ^ 32"
    by (simp add: unat_net4)
  have "min 32 (32 - n) = 32 - n" by simp
  then have "unat (mask (32 - n) :: 32 word) = ?d - 1" by (simp only: unat_mask32)
  with * show ?thesis
    unfolding bcast4_plus unat_word_ariths by simp
qed

lemma net4_eq_between: "net4 n v = net4 n w \<longleftrightarrow> net4 n w \<le> v \<and> v \<le> bcast4 n w"
  by (simp add: net4_eq_iff word_le_nat_alt unat_bcast4 unat_net4 div_block)

lemma net4_bcast4 [simp]: "net4 n (bcast4 n w) = net4 n w"
  unfolding net4_def bcast4_def by (rule bit_word_eqI) (auto simp: bit_simps)

lemma bcast4_net4 [simp]: "bcast4 n (net4 n w) = bcast4 n w"
  unfolding net4_def bcast4_def by (rule bit_word_eqI) (auto simp: bit_simps)

lemma bcast4_ge: "w \<le> bcast4 n w"
  using net4_eq_between [of n w w] by simp

lemma net4_le_bcast4: "net4 n w \<le> bcast4 n w"
  using net4_le bcast4_ge by (rule order.trans)

lemma of_octets_octets [simp]: "of_octets (octets w) = w"
proof (rule bit_word_eqI)
  fix n
  assume "n < LENGTH(32)"
  then consider "n < 8" | "8 \<le> n" "n < 16" | "16 \<le> n" "n < 24" | "24 \<le> n" "n < 32"
    by fastforce
  then show "bit (of_octets (octets w)) n = bit w n"
    by cases (auto simp: octets_def bit_simps)
qed

lemma net4_cong_bcast4: "net4 n v = net4 n w \<Longrightarrow> bcast4 n v = bcast4 n w"
  by (metis bcast4_net4)

end
