(* ===== verification/Netip_Text.thy ===== *)
theory Netip_Text
  imports Netip
begin

text \<open>
  Text forms of addresses and prefixes: \<open>Addr.String\<close>, \<open>Prefix.String\<close>, \<open>ParseAddr\<close> and
  \<open>ParsePrefix\<close> of \<open>net/netip\<close>.  A parser returns \<open>None\<close> where the Go one returns an error
  (its message is not modelled).  The IPv4 round trips are proved; the IPv6 forms
  (compressed groups, embedded IPv4, zones) are executable definitions.
\<close>

section \<open>Printing\<close>

definition string4 :: "32 word \<Rightarrow> string" where
  "string4 w = join_with ''.'' (map (\<lambda>b. dec (unat b)) (octets w))"

definition hex_digit :: "nat \<Rightarrow> char" where
  "hex_digit d = (if d < 10 then char_of (48 + d) else char_of (87 + d))"

fun hex :: "nat \<Rightarrow> string" where
  "hex n = (if n < 16 then [hex_digit n] else hex (n div 16) @ [hex_digit (n mod 16)])"

declare hex.simps [simp del]

definition groups6 :: "128 word \<Rightarrow> nat list" where
  "groups6 w = map (\<lambda>i. unat (drop_bit (16 * (7 - i)) w) mod 2 ^ 16) [0..<8]"

text \<open>The first longest run of at least two zero groups, as start and end.\<close>

definition zero_run_from :: "nat list \<Rightarrow> nat \<Rightarrow> nat" where
  "zero_run_from gs i = i + length (takeWhile (\<lambda>g. g = 0) (drop i gs))"

definition best_zero_run :: "nat list \<Rightarrow> (nat \<times> nat) option" where
  "best_zero_run gs =
     fold (\<lambda>i best.
        let j = zero_run_from gs i; l = j - i;
            cur = (case best of None \<Rightarrow> 0 | Some (s, e) \<Rightarrow> e - s)
        in if 2 \<le> l \<and> cur < l then Some (i, j) else best) [0..<8] None"

definition string6 :: "128 word \<Rightarrow> string" where
  "string6 w =
     (let gs = groups6 w in
      case best_zero_run gs of
        None \<Rightarrow> join_with '':'' (map hex gs)
      | Some (s, e) \<Rightarrow> join_with '':'' (map hex (take s gs)) @ ''::''
                       @ join_with '':'' (map hex (drop e gs)))"

definition zone_suffix :: "string \<Rightarrow> string" where
  "zone_suffix z = (if z = [] then [] else CHR ''%'' # z)"

fun addr_string :: "addr \<Rightarrow> string" where
  "addr_string NoAddr = ''invalid IP''"
| "addr_string (V4 w) = string4 w"
| "addr_string (V6 w z) =
     (if is4in6 (V6 w z) then ''::ffff:'' @ string4 (ucast w) @ zone_suffix z
      else string6 w @ zone_suffix z)"

definition prefix_string :: "prefix \<Rightarrow> string" where
  "prefix_string p =
     (if prefix_valid p then addr_string (pfx_addr p) @ ''/'' @ itoa (pfx_bits p)
      else ''invalid Prefix'')"

section \<open>Parsing\<close>

text \<open>
  \<open>parseIPv4Fields\<close>: one character at a time, with the current field's value and number
  of digits and the fields already read.
\<close>

fun parse4_fields :: "string \<Rightarrow> nat \<Rightarrow> nat \<Rightarrow> nat list \<Rightarrow> nat list option" where
  "parse4_fields [] val digs fs = (if length fs < 3 then None else Some (fs @ [val]))"
| "parse4_fields (c # cs) val digs fs =
     (if is_digit c then
        if digs = 1 \<and> val = 0 then None
        else let v = val * 10 + digit_val c in
             if v > 255 then None else parse4_fields cs v (digs + 1) fs
      else if c = CHR ''.'' then
        if digs = 0 \<or> cs = [] then None
        else if length fs = 3 then None
        else parse4_fields cs 0 0 (fs @ [val])
      else None)"

definition parse_v4 :: "string \<Rightarrow> 32 word option" where
  "parse_v4 s =
     map_option (\<lambda>fs. of_octets (map of_nat fs)) (parse4_fields s 0 0 [])"

definition hex_val :: "char \<Rightarrow> nat option" where
  "hex_val c =
     (let n = (of_char c :: nat) in
      if 48 \<le> n \<and> n \<le> 57 then Some (n - 48)
      else if 97 \<le> n \<and> n \<le> 102 then Some (n - 87)
      else if 65 \<le> n \<and> n \<le> 70 then Some (n - 55)
      else None)"

text \<open>The leading hexadecimal digits: their number, value and the rest.\<close>

fun take_hex :: "string \<Rightarrow> nat \<Rightarrow> nat \<Rightarrow> nat \<times> nat \<times> string" where
  "take_hex [] off acc = (off, acc, [])"
| "take_hex (c # cs) off acc =
     (case hex_val c of None \<Rightarrow> (off, acc, c # cs)
      | Some d \<Rightarrow> take_hex cs (off + 1) (acc * 16 + d))"

text \<open>
  The loop of \<open>parseIPv6\<close>: \<open>gs\<close> are the bytes read so far in 16-bit groups (at most eight),
  \<open>ell\<close> the position of the ellipsis.  An embedded IPv4 address ends the text.
\<close>

fun parse6_loop ::
  "nat \<Rightarrow> string \<Rightarrow> nat list \<Rightarrow> nat option \<Rightarrow> (nat list \<times> nat option \<times> string) option" where
  "parse6_loop 0 s gs ell = Some (gs, ell, s)"
| "parse6_loop (Suc n) s gs ell =
     (case take_hex s 0 0 of (off, acc, rest) \<Rightarrow>
        if off = 0 \<or> off > 4 then None
        else if rest \<noteq> [] \<and> hd rest = CHR ''.'' then
          if ell = None \<and> length gs \<noteq> 6 then None
          else if length gs + 2 > 8 then None
          else (case parse4_fields s 0 0 [] of
                  Some [a, b, c, d] \<Rightarrow> Some (gs @ [a * 256 + b, c * 256 + d], ell, [])
                | _ \<Rightarrow> None)
        else
          let gs' = gs @ [acc] in
          if rest = [] then Some (gs', ell, [])
          else if hd rest \<noteq> CHR '':'' then None
          else if tl rest = [] then None
          else
            let s' = tl rest in
            if hd s' = CHR '':'' then
              if ell \<noteq> None then None
              else if tl s' = [] then Some (gs', Some (length gs'), [])
              else parse6_loop n (tl s') gs' (Some (length gs'))
            else parse6_loop n s' gs' ell)"

definition word_of_groups :: "nat list \<Rightarrow> 128 word" where
  "word_of_groups gs = foldl (\<lambda>w g. push_bit 16 w OR of_nat g) 0 gs"

definition parse_v6 :: "string \<Rightarrow> addr option" where
  "parse_v6 str =
     (let s = takeWhile (\<lambda>c. c \<noteq> CHR ''%'') str;
          has_zone = contains_char (CHR ''%'') str;
          z = drop (length s + 1) str
      in if has_zone \<and> z = [] then None
         else let lead = has_prefix ''::'' s;
                  s' = (if lead then drop 2 s else s)
              in if lead \<and> s' = [] then Some (V6 0 z)
                 else case parse6_loop 8 s' [] (if lead then Some 0 else None) of
                        None \<Rightarrow> None
                      | Some (gs, ell, rest) \<Rightarrow>
                          if rest \<noteq> [] then None
                          else if length gs < 8 then
                            (case ell of None \<Rightarrow> None
                             | Some e \<Rightarrow> Some (V6 (word_of_groups
                                 (take e gs @ replicate (8 - length gs) 0 @ drop e gs)) z))
                          else if ell \<noteq> None then None
                          else Some (V6 (word_of_groups gs) z))"

text \<open>\<open>ParseAddr\<close> looks at the first of the characters \<open>.\<close>, \<open>:\<close> and \<open>%\<close>.\<close>

definition parse_addr :: "string \<Rightarrow> addr option" where
  "parse_addr s =
     (case dropWhile (\<lambda>c. c \<notin> {CHR ''.'', CHR '':'', CHR ''%''}) s of
        [] \<Rightarrow> None
      | c # _ \<Rightarrow> if c = CHR ''.'' then map_option V4 (parse_v4 s)
                 else if c = CHR '':'' then parse_v6 s
                 else None)"

text \<open>\<open>ParsePrefix\<close> splits at the last slash.\<close>

definition before_last_slash :: "string \<Rightarrow> string" where
  "before_last_slash s = rev (tl (dropWhile (\<lambda>c. c \<noteq> CHR ''/'') (rev s)))"

definition after_last_slash :: "string \<Rightarrow> string" where
  "after_last_slash s = rev (takeWhile (\<lambda>c. c \<noteq> CHR ''/'') (rev s))"

definition parse_prefix :: "string \<Rightarrow> prefix option" where
  "parse_prefix s =
     (if \<not> contains_char (CHR ''/'') s then None
      else case parse_addr (before_last_slash s) of
        None \<Rightarrow> None
      | Some a \<Rightarrow>
          if zone a \<noteq> [] then None
          else let b = after_last_slash s in
               if length b > 1 \<and> (\<not> is_digit (hd b) \<or> hd b = CHR ''0'') then None
               else case atoi b of
                 None \<Rightarrow> None
               | Some n \<Rightarrow> if n < 0 \<or> n > int (bit_len a) then None
                           else Some (prefix_from a n))"

section \<open>IPv4 round trips\<close>

lemma parse4_digit:
  "d < 10 \<Longrightarrow> parse4_fields (digit_char d # cs) val digs fs =
     (if digs = 1 \<and> val = 0 then None
      else if val * 10 + d > 255 then None
      else parse4_fields cs (val * 10 + d) (digs + 1) fs)"
  by (simp add: Let_def)

lemma parse4_dec:
  assumes "n \<le> 255"
  shows "parse4_fields (dec n @ rest) 0 0 fs = parse4_fields rest n (length (dec n)) fs"
proof -
  have two: "dec m = [digit_char (m div 10), digit_char (m mod 10)]" if "10 \<le> m" "m < 100" for m
    using that by (subst dec.simps, subst dec.simps) simp
  consider "n < 10" | "10 \<le> n" "n < 100" | "100 \<le> n" by linarith
  then show ?thesis
  proof cases
    case 1
    then show ?thesis by (simp add: dec.simps parse4_digit del: parse4_fields.simps)
  next
    case 2
    then have "n div 10 < 10" "n div 10 \<noteq> 0" by auto
    with 2 assms show ?thesis
      by (simp add: two parse4_digit del: parse4_fields.simps)
  next
    case 3
    let ?m = "n div 10"
    have m: "10 \<le> ?m" "?m < 100" "?m div 10 < 10" "?m div 10 \<noteq> 0" using 3 assms by auto
    have d: "dec n = [digit_char (?m div 10), digit_char (?m mod 10), digit_char (n mod 10)]"
      using 3 m by (subst dec.simps) (simp only: two [OF m(1,2)], simp)
    have e: "?m div 10 * 10 + ?m mod 10 = ?m" "?m * 10 + n mod 10 = n" by simp_all
    show ?thesis unfolding d append_Cons append_Nil
      using m assms by (simp add: parse4_digit e del: parse4_fields.simps)
  qed
qed

lemma parse4_dec_dot:
  "n \<le> 255 \<Longrightarrow> rest \<noteq> [] \<Longrightarrow> length fs < 3 \<Longrightarrow>
   parse4_fields (dec n @ CHR ''.'' # rest) 0 0 fs = parse4_fields rest 0 0 (fs @ [n])"
  by (simp add: parse4_dec is_digit_def)

lemma parse4_dec_end:
  "n \<le> 255 \<Longrightarrow> length fs = 3 \<Longrightarrow> parse4_fields (dec n) 0 0 fs = Some (fs @ [n])"
  using parse4_dec [of n "[]" fs] by simp

lemma unat8_le [simp]: "unat (b :: 8 word) \<le> 255"
  using unsigned_less [of b, where 'a = nat] by simp

lemma parse_v4_string4 [simp]: "parse_v4 (string4 w) = Some w"
proof -
  obtain a b c d where o: "octets w = [a, b, c, d]" by (simp add: octets_def)
  have "of_octets [a, b, c, d] = w" using o of_octets_octets [of w] by simp
  then show ?thesis
    by (simp add: parse_v4_def string4_def o parse4_dec_dot parse4_dec_end
        del: of_octets.simps parse4_fields.simps)
qed

lemma string4_chars: "set (string4 w) \<subseteq> {c. is_digit c} \<union> {CHR ''.''}"
  using dec_digits by (auto simp: string4_def octets_def list_all_iff)

lemma string4_notin [simp]:
  "CHR ''-'' \<notin> set (string4 w)" "CHR ''/'' \<notin> set (string4 w)" "CHR '','' \<notin> set (string4 w)"
  "CHR ''('' \<notin> set (string4 w)" "CHR '')'' \<notin> set (string4 w)"
  by (rule notI, drule subsetD [OF string4_chars], simp add: is_digit_def)+

lemma string4_dot: "dropWhile (\<lambda>c. c \<notin> {CHR ''.'', CHR '':'', CHR ''%''}) (string4 w @ s)
    = CHR ''.'' # tl (dropWhile (\<lambda>c. c \<notin> {CHR ''.'', CHR '':'', CHR ''%''}) (string4 w @ s))"
proof -
  have "dropWhile (\<lambda>c. c \<notin> {CHR ''.'', CHR '':'', CHR ''%''}) (dec n @ CHR ''.'' # t)
      = CHR ''.'' # t" for n t
    by (subst dropWhile_append2) (auto simp: dest: list_all_iff [THEN iffD1, OF dec_digits, THEN bspec])
  then show ?thesis by (simp add: string4_def octets_def)
qed

lemma parse_addr_string4 [simp]: "parse_addr (string4 w) = Some (V4 w)"
proof -
  obtain r where "dropWhile (\<lambda>c. c \<notin> {CHR ''.'', CHR '':'', CHR ''%''}) (string4 w)
      = CHR ''.'' # r"
    using string4_dot [of w "[]"] by (metis append_Nil2)
  then show ?thesis unfolding parse_addr_def by (simp only: list.case) simp
qed

lemma before_last_slash [simp]:
  "CHR ''/'' \<notin> set t \<Longrightarrow> before_last_slash (s @ CHR ''/'' # t) = s"
  by (simp add: before_last_slash_def) (subst dropWhile_append2, auto)

lemma after_last_slash [simp]:
  "CHR ''/'' \<notin> set t \<Longrightarrow> after_last_slash (s @ CHR ''/'' # t) = t"
  by (simp add: after_last_slash_def) (subst takeWhile_append2, auto)

lemma prefix_string_V4:
  "0 \<le> b \<Longrightarrow> prefix_string (mk_prefix (V4 w) b) = string4 w @ CHR ''/'' # dec (nat b)"
  by (simp add: prefix_string_def prefix_valid_def itoa_def)

lemma is_digit_hd_dec [simp]: "is_digit (hd (dec n))"
  using dec_digits [of n] by (cases "dec n") auto

lemma parse_prefix_string4:
  assumes "0 \<le> b" "b \<le> 32"
  shows "parse_prefix (string4 w @ CHR ''/'' # dec (nat b)) = Some (mk_prefix (V4 w) b)"
proof -
  have "\<not> (length (dec (nat b)) > 1 \<and> hd (dec (nat b)) = CHR ''0'')"
    using hd_dec_zero [of "nat b"] length_dec(1) [of "nat b"] by (cases "nat b = 0") auto
  then show ?thesis
    using assms by (auto simp: parse_prefix_def contains_char_def)
qed

lemma parse_prefix_string:
  "0 \<le> b \<Longrightarrow> b \<le> 32 \<Longrightarrow>
   parse_prefix (prefix_string (mk_prefix (V4 w) b)) = Some (mk_prefix (V4 w) b)"
  by (simp add: prefix_string_V4 parse_prefix_string4)

text \<open>A prefix returned by \<open>ParsePrefix\<close> has a valid length and no zone.\<close>

lemma parse_v6_valid: "parse_v6 s = Some a \<Longrightarrow> is6 a"
  by (auto simp: parse_v6_def Let_def split: if_splits option.splits prod.splits)

lemma parse_addr_valid: "parse_addr s = Some a \<Longrightarrow> a \<noteq> NoAddr"
  by (auto simp: parse_addr_def split: if_splits list.splits dest: parse_v6_valid)

lemma prefix_from_valid:
  "a \<noteq> NoAddr \<Longrightarrow> 0 \<le> b \<Longrightarrow> b \<le> int (bit_len a) \<Longrightarrow>
   prefix_from a b = mk_prefix (without_zone a) b"
  by (simp add: prefix_from_def)

lemma without_zone_simps [simp]:
  "bit_len (without_zone a) = bit_len a" "zone (without_zone a) = []"
  "without_zone a = NoAddr \<longleftrightarrow> a = NoAddr" "zone a = [] \<Longrightarrow> without_zone a = a"
  by (cases a; simp)+

lemma parse_prefix_valid:
  assumes "parse_prefix s = Some p"
  shows "prefix_valid p" "pfx_bits p \<le> int (bit_len (pfx_addr p))" "zone (pfx_addr p) = []"
    "pfx_addr p \<noteq> NoAddr"
proof -
  obtain a n where "p = mk_prefix a n" "0 \<le> n" "n \<le> int (bit_len a)" "a \<noteq> NoAddr" "zone a = []"
    using assms unfolding parse_prefix_def Let_def
    by (auto split: if_splits option.splits dest: parse_addr_valid simp: prefix_from_valid)
  then show "prefix_valid p" "pfx_bits p \<le> int (bit_len (pfx_addr p))"
    "zone (pfx_addr p) = []" "pfx_addr p \<noteq> NoAddr"
    by (simp_all add: prefix_valid_def)
qed

end
