(* ===== verification/Addr_Range.thy ===== *)
theory Addr_Range
  imports Netip_Text
begin

text \<open>
  \<open>src/pkg/ip/ip.go\<close>: subnet and broadcast addresses, and the type \<open>AddrRange\<close> of
  consecutive addresses in one subnet with its constructors, text and database forms,
  membership and the search for the first available address.

  \<open>range_wf\<close> is the invariant of the type; \<open>range4\<close> describes the IPv4 ranges the package
  supports.  The search loop of \<open>FirstAvailableAddress\<close> is a terminating recursion (the
  numeric value of the address grows towards the end of its family).
\<close>

section \<open>Subnet and broadcast addresses\<close>

definition to_subnet_addr :: "prefix \<Rightarrow> prefix" where
  "to_subnet_addr p = masked p"

definition to_broadcast_address :: "prefix \<Rightarrow> err + prefix" where
  "to_broadcast_address p =
     bind_res (as4 (pfx_addr p)) (\<lambda>e. e) (\<lambda>addr4.
       case parse_prefix (''255.255.255.255/'' @ itoa (pfx_bits p)) of
         None \<Rightarrow> Inl (errors_new ''ParsePrefix'')
       | Some pref \<Rightarrow>
           bind_res (as4 (pfx_addr (masked pref))) (\<lambda>e. e) (\<lambda>mask4.
             Inr (prefix_from (V4 (of_octets (map2 (\<lambda>a m. a OR NOT m) addr4 mask4)))
                    (pfx_bits p))))"

definition is_subnet_addr :: "prefix \<Rightarrow> bool" where
  "is_subnet_addr p = (p = to_subnet_addr p)"

definition is_broadcast_address :: "prefix \<Rightarrow> err + bool" where
  "is_broadcast_address p =
     bind_res (to_broadcast_address p) (wrapv ''ToBroadcastAddress'') (\<lambda>b. Inr (p = b))"

section \<open>Address ranges\<close>

record addr_range =
  lower :: addr
  upper :: addr
  rbits :: int

abbreviation mk_range :: "addr \<Rightarrow> addr \<Rightarrow> int \<Rightarrow> addr_range" where
  "mk_range l u b \<equiv> \<lparr>lower = l, upper = u, rbits = b\<rparr>"

definition lo_prefix :: "addr_range \<Rightarrow> prefix" where
  "lo_prefix r = prefix_from (lower r) (rbits r)"

definition up_prefix :: "addr_range \<Rightarrow> prefix" where
  "up_prefix r = prefix_from (upper r) (rbits r)"

definition addr_range_from_prefixes :: "prefix \<Rightarrow> prefix \<Rightarrow> err + addr_range" where
  "addr_range_from_prefixes lo up =
     (if pfx_bits lo \<noteq> pfx_bits up then Inl (errors_new ''different subnet masks'')
      else if addr_compare (pfx_addr lo) (pfx_addr up) = 1 then Inl (errors_new ''wrong order'')
      else if to_subnet_addr lo \<noteq> to_subnet_addr up
        then Inl (errors_new ''addresses in different subnets'')
      else Inr (mk_range (pfx_addr lo) (pfx_addr up) (pfx_bits lo)))"

definition parse_addr_range :: "string \<Rightarrow> err + addr_range" where
  "parse_addr_range s =
     (case split_on (CHR ''-'') s of
        [p0, p1] \<Rightarrow>
          (case parse_addr p0 of
             None \<Rightarrow> Inl (errors_new ''error parsing lower address'')
           | Some lowerA \<Rightarrow>
               (case parse_prefix p1 of
                  None \<Rightarrow> Inl (errors_new ''error parsing upper address'')
                | Some upperP \<Rightarrow>
                    addr_range_from_prefixes (prefix_from lowerA (pfx_bits upperP)) upperP))
      | _ \<Rightarrow> Inl (errors_new ''address range does not have two parts''))"

definition range_string :: "addr_range \<Rightarrow> string" where
  "range_string r = addr_string (lower r) @ ''-'' @ prefix_string (up_prefix r)"

definition add_slash32 :: "string \<Rightarrow> string" where
  "add_slash32 p = (if contains_char (CHR ''/'') p then p else p @ ''/32'')"

definition addr_range_from_db :: "string \<Rightarrow> err + addr_range" where
  "addr_range_from_db s =
     (if \<not> has_prefix ''('' s \<or> \<not> has_suffix '')'' s
      then Inl (errors_new ''address range has incorrect format'')
      else case split_on (CHR '','') (trim_suffix '')'' (trim_prefix ''('' s)) of
             [p0, p1] \<Rightarrow>
               (case parse_prefix (add_slash32 p0) of
                  None \<Rightarrow> Inl (errors_new ''error parsing lower address'')
                | Some lo \<Rightarrow>
                    (case parse_prefix (add_slash32 p1) of
                       None \<Rightarrow> Inl (errors_new ''error parsing upper address'')
                     | Some up \<Rightarrow> addr_range_from_prefixes lo up))
           | _ \<Rightarrow> Inl (errors_new ''address range does not have two parts''))"

definition to_db :: "addr_range \<Rightarrow> string" where
  "to_db r =
     ''('' @ prefix_string (lo_prefix r) @ '','' @ prefix_string (up_prefix r) @ '')''"

definition addr_range_from_subnet :: "prefix \<Rightarrow> err + addr_range" where
  "addr_range_from_subnet subnet =
     (if \<not> is_subnet_addr subnet then Inl (errors_new ''not a subnet address'')
      else bind_res (to_broadcast_address subnet) (wrapv ''ToBroadcastAddress'') (\<lambda>b.
             bind_res (addr_range_from_prefixes subnet b) (wrapv ''AddrRangeFromPrefixes'') Inr))"

definition to_containing_subnet :: "addr_range \<Rightarrow> prefix" where
  "to_containing_subnet r = to_subnet_addr (lo_prefix r)"

definition range_contains :: "addr_range \<Rightarrow> prefix \<Rightarrow> bool" where
  "range_contains r p =
     (if pfx_bits p \<noteq> rbits r then False
      else if addr_compare (pfx_addr p) (lower r) = -1 \<or> addr_compare (pfx_addr p) (upper r) = 1
      then False else True)"

fun addr_set_contains :: "addr list \<Rightarrow> addr \<Rightarrow> bool" where
  "addr_set_contains [] t = False"
| "addr_set_contains (a # as) t = (if t = a then True else addr_set_contains as t)"

lemma addr_set_contains_iff [simp]: "addr_set_contains as t \<longleftrightarrow> t \<in> set as"
  by (induction as) auto

definition no_address_left :: err where
  "no_address_left = errors_new ''no unused address remaining in address range''"

text \<open>The loop of \<open>FirstAvailableAddress\<close>.\<close>

function faa_loop :: "addr \<Rightarrow> addr list \<Rightarrow> addr \<Rightarrow> err + addr" where
  "faa_loop up used a =
     (if \<not> addr_valid a \<or> addr_compare a up = 1 then Inl no_address_left
      else if \<not> addr_set_contains used a then Inr a
      else faa_loop up used (addr_next a))"
  by pat_completeness auto

termination
proof (relation "measure (\<lambda>(up, used, a). if a = NoAddr then 0 else 2 ^ 128 - addr_num a)")
  fix up :: addr and used a
  assume "\<not> (\<not> addr_valid a \<or> addr_compare a up = 1)"
  then have "a \<noteq> NoAddr" by (simp add: addr_valid_def)
  then show "((up, used, addr_next a), (up, used, a))
      \<in> measure (\<lambda>(up, used, a). if a = NoAddr then 0 else 2 ^ 128 - addr_num a)"
    using addr_num_less [of a] addr_num_next [of a] by (auto intro!: diff_less_mono2)
qed simp

declare faa_loop.simps [simp del]

definition first_available_address :: "addr_range \<Rightarrow> addr list \<Rightarrow> err + prefix" where
  "first_available_address r used =
     (let start = (if is_subnet_addr (lo_prefix r) then addr_next (lower r) else lower r) in
      bind_res (faa_loop (upper r) used start) (\<lambda>e. e) (\<lambda>chosen.
        let p = prefix_from chosen (rbits r) in
        bind_res (is_broadcast_address p) (wrapv ''IsBroadcastAddress'') (\<lambda>ok.
          if ok then Inl no_address_left else Inr p)))"

section \<open>The invariant of the type\<close>

definition range_wf :: "addr_range \<Rightarrow> bool" where
  "range_wf r = (lower r \<noteq> NoAddr \<and> upper r \<noteq> NoAddr \<and> bit_len (lower r) = bit_len (upper r) \<and>
     0 \<le> rbits r \<and> rbits r \<le> int (bit_len (lower r)) \<and> lower r \<le> upper r \<and>
     zone (lower r) = [] \<and> zone (upper r) = [] \<and>
     masked (lo_prefix r) = masked (up_prefix r))"

definition range4 :: "32 word \<Rightarrow> 32 word \<Rightarrow> nat \<Rightarrow> addr_range" where
  "range4 l u b = mk_range (V4 l) (V4 u) (int b)"

definition range4_ok :: "32 word \<Rightarrow> 32 word \<Rightarrow> nat \<Rightarrow> bool" where
  "range4_ok l u b = (b \<le> 32 \<and> l \<le> u \<and> net4 b l = net4 b u)"

lemma range4_sel [simp]:
  "lower (range4 l u b) = V4 l" "upper (range4 l u b) = V4 u" "rbits (range4 l u b) = int b"
  by (simp_all add: range4_def)

lemma prefixes_range4 [simp]:
  assumes "b \<le> 32"
  shows "lo_prefix (range4 l u b) = mk_prefix (V4 l) (int b)"
    "up_prefix (range4 l u b) = mk_prefix (V4 u) (int b)"
  using assms by (simp_all add: lo_prefix_def up_prefix_def)

lemma range4_wf: "range4_ok l u b \<Longrightarrow> range_wf (range4 l u b)"
  by (simp add: range4_ok_def range_wf_def)

lemma range_wf_V4:
  assumes "range_wf r" "is4 (lower r)"
  obtains l u b where "r = range4 l u b" "range4_ok l u b"
proof -
  obtain l where l: "lower r = V4 l" using assms by (cases "lower r") auto
  then obtain u where u: "upper r = V4 u" using assms by (cases "upper r") (auto simp: range_wf_def)
  have "r = range4 l u (nat (rbits r))" "range4_ok l u (nat (rbits r))"
    using assms l u by (cases r, auto simp: range_wf_def range4_def range4_ok_def lo_prefix_def up_prefix_def)
  then show thesis by (rule that)
qed

lemma addr_range_from_prefixes_V4:
  assumes "0 \<le> b" "b \<le> 32"
  shows "addr_range_from_prefixes (mk_prefix (V4 l) b) (mk_prefix (V4 u) b) =
    (if u < l then Inl (errors_new ''wrong order'')
     else if net4 (nat b) l \<noteq> net4 (nat b) u then Inl (errors_new ''addresses in different subnets'')
     else Inr (range4 l u (nat b)))"
  using assms by (simp add: addr_range_from_prefixes_def to_subnet_addr_def range4_def)

lemma addr_prefix_bits:
  "pfx_bits (addr_prefix a b) = (if a \<noteq> NoAddr \<and> 0 \<le> b \<and> b \<le> int (bit_len a) then b else -1)"
  "bit_len (pfx_addr (addr_prefix a b)) =
     (if a \<noteq> NoAddr \<and> 0 \<le> b \<and> b \<le> int (bit_len a) then bit_len a else 0)"
  by (cases a; auto simp: no_prefix_def prefix_from_def)+

lemma addr_range_from_prefixes_wf:
  assumes "addr_range_from_prefixes p q = Inr r"
    and "prefix_valid p" "zone (pfx_addr p) = []" "pfx_addr p \<noteq> NoAddr"
      "pfx_bits p \<le> int (bit_len (pfx_addr p))"
    and "zone (pfx_addr q) = []" "pfx_addr q \<noteq> NoAddr" "pfx_bits q \<le> int (bit_len (pfx_addr q))"
  shows "range_wf r"
proof -
  have r: "r = mk_range (pfx_addr p) (pfx_addr q) (pfx_bits p)"
    and eq: "pfx_bits p = pfx_bits q" "pfx_addr p \<le> pfx_addr q" "masked p = masked q"
    using assms(1) by (auto simp: addr_range_from_prefixes_def to_subnet_addr_def split: if_splits)
  have len: "bit_len (pfx_addr p) = bit_len (pfx_addr q)"
    using arg_cong [OF eq(3), of "\<lambda>m. bit_len (pfx_addr m)"] assms eq
    by (simp add: masked_def addr_prefix_bits prefix_valid_def)
  have "prefix_from (pfx_addr p) (pfx_bits p) = p" "prefix_from (pfx_addr q) (pfx_bits q) = q"
    using assms eq by (auto simp: prefix_from_def prefix_valid_def prefix_eq_iff)
  with r eq len assms show ?thesis
    by (simp add: range_wf_def lo_prefix_def up_prefix_def prefix_valid_def)
qed

section \<open>IPv4 ranges\<close>

lemma octets_or_not:
  "of_octets (map2 (\<lambda>a m. a OR NOT m) (octets w) (octets m)) = w OR NOT m"
proof (rule bit_word_eqI)
  fix n
  assume "n < LENGTH(32)"
  then consider "n < 8" | "8 \<le> n" "n < 16" | "16 \<le> n" "n < 24" | "24 \<le> n" "n < 32"
    by fastforce
  then show "bit (of_octets (map2 (\<lambda>a m. a OR NOT m) (octets w) (octets m))) n = bit (w OR NOT m) n"
    by cases (auto simp: octets_def bit_simps)
qed

lemma all_ones_text: "''255.255.255.255/'' @ s = string4 (- 1) @ CHR ''/'' # s"
proof -
  have "string4 (- 1) = ''255.255.255.255''" by code_simp
  then show ?thesis by simp
qed

lemma to_broadcast_address_V4:
  assumes "b \<le> 32"
  shows "to_broadcast_address (mk_prefix (V4 w) (int b)) = Inr (mk_prefix (V4 (bcast4 b w)) (int b))"
proof -
  have "w OR NOT (net4 b (- 1)) = bcast4 b w"
    by (simp add: net4_def bcast4_def)
  moreover have "itoa (int b) = dec b" by (simp add: itoa_def)
  moreover have "parse_prefix (string4 (- 1) @ CHR ''/'' # dec b) = Some (mk_prefix (V4 (- 1)) (int b))"
    using parse_prefix_string4 [of "int b" "- 1"] assms by simp
  ultimately show ?thesis
    using assms unfolding to_broadcast_address_def all_ones_text
    by (simp add: octets_or_not del: of_octets.simps)
qed

lemma is_broadcast_address_V4:
  "b \<le> 32 \<Longrightarrow> is_broadcast_address (mk_prefix (V4 w) (int b)) = Inr (w = bcast4 b w)"
  by (simp add: is_broadcast_address_def to_broadcast_address_V4)

lemma is_subnet_addr_V4:
  "b \<le> 32 \<Longrightarrow> is_subnet_addr (mk_prefix (V4 w) (int b)) \<longleftrightarrow> w = net4 b w"
  by (simp add: is_subnet_addr_def to_subnet_addr_def)

text \<open>The loop returns the least unused address from its start to the upper bound.\<close>

lemma faa_loop_V4:
  "faa_loop (V4 u) used (V4 w) =
     (if \<exists>x. w \<le> x \<and> x \<le> u \<and> V4 x \<notin> set used
      then Inr (V4 (LEAST x. w \<le> x \<and> V4 x \<notin> set used)) else Inl no_address_left)"
proof (induction "unat u + 1 - unat w" arbitrary: w rule: less_induct)
  case less
  let ?P = "\<lambda>w x. w \<le> x \<and> V4 x \<notin> set used"
  show ?case
  proof (cases "w \<le> u")
    case False
    then show ?thesis by (subst faa_loop.simps) (auto simp: addr_valid_def)
  next
    case le: True
    show ?thesis
    proof (cases "V4 w \<in> set used")
      case False
      then have "(LEAST x. ?P w x) = w" by (intro Least_equality) auto
      with le False show ?thesis by (subst faa_loop.simps) (auto simp: addr_valid_def)
    next
      case used: True
      have step: "faa_loop (V4 u) used (V4 w) = faa_loop (V4 u) used (addr_next (V4 w))"
        using le used by (subst faa_loop.simps) (auto simp: addr_valid_def)
      show ?thesis
      proof (cases "w + 1 = 0")
        case True
        then have "w = - 1" by (simp add: eq_neg_iff_add_eq_0)
        then have "x = w" if "w \<le> x" for x using that by (simp add: word_order.extremum_unique)
        with used step True show ?thesis
          by (subst (asm) (2) faa_loop.simps) (auto simp: addr_valid_def)
      next
        case False
        have n: "unat (w + 1) = Suc (unat w)" using False by (rule unat_succ)
        have eq: "?P (w + 1) x \<longleftrightarrow> ?P w x" for x
          using used by (auto simp: word_succ_le [OF False])
        have "unat u + 1 - unat (w + 1) < unat u + 1 - unat w"
          using le n by (simp add: word_le_nat_alt)
        note IH = less [OF this]
        have ex: "(\<exists>x. w + 1 \<le> x \<and> x \<le> u \<and> V4 x \<notin> set used)
            \<longleftrightarrow> (\<exists>x. w \<le> x \<and> x \<le> u \<and> V4 x \<notin> set used)"
          using eq by blast
        show ?thesis
          unfolding step using False by (simp only: addr_next.simps if_False IH eq ex)
      qed
    qed
  qed
qed

text \<open>
  The addresses of a range that may be handed out: unused, and neither the subnet address
  nor the broadcast address.
\<close>

definition usable4 :: "32 word \<Rightarrow> 32 word \<Rightarrow> nat \<Rightarrow> addr list \<Rightarrow> 32 word set" where
  "usable4 l u b used =
     {x. l \<le> x \<and> x \<le> u \<and> V4 x \<notin> set used \<and> x \<noteq> net4 b l \<and> x \<noteq> bcast4 b l}"

lemma range4_net:
  "range4_ok l u b \<Longrightarrow> l \<le> x \<Longrightarrow> x \<le> u \<Longrightarrow> net4 b x = net4 b l"
  using net4_eq_between [of b l l] net4_eq_between [of b u l] net4_eq_between [of b x l]
  by (auto simp: range4_ok_def)

lemma loop_from:
  assumes ok: "range4_ok l u b" and s: "\<And>x. s \<le> x \<longleftrightarrow> l \<le> x \<and> x \<noteq> net4 b l"
  shows "bind_res (faa_loop (V4 u) used (V4 s)) (\<lambda>e. e) (\<lambda>chosen.
        let p = prefix_from chosen (int b) in
        bind_res (is_broadcast_address p) (wrapv ''IsBroadcastAddress'') (\<lambda>ok.
          if ok then Inl no_address_left else Inr p)) =
      (if usable4 l u b used = {} then Inl no_address_left
       else Inr (mk_prefix (V4 (LEAST x. x \<in> usable4 l u b used)) (int b)))"
    (is "?lhs = ?rhs")
proof (cases "\<exists>x. s \<le> x \<and> x \<le> u \<and> V4 x \<notin> set used")
  case False
  then have "usable4 l u b used = {}" using s by (auto simp: usable4_def)
  with False show ?thesis by (auto simp: faa_loop_V4)
next
  case True
  let ?P = "\<lambda>x. s \<le> x \<and> V4 x \<notin> set used"
  define m where "m = (LEAST x. ?P x)"
  obtain x where x: "?P x" "x \<le> u" using True by auto
  have m: "?P m" "m \<le> x"
    unfolding m_def using x(1) by (rule LeastI, rule Least_le)
  have least: "?P y \<Longrightarrow> m \<le> y" for y unfolding m_def by (rule Least_le)
  have mu: "m \<le> u" using m x by simp
  have b32: "b \<le> 32" using ok by (simp add: range4_ok_def)
  have ml: "l \<le> m" "m \<noteq> net4 b l" using m s by auto
  have bc: "bcast4 b m = bcast4 b l"
    using range4_net [OF ok ml(1) mu] by (rule net4_cong_bcast4)
  have ub: "u \<le> bcast4 b l"
    using ok net4_eq_between [of b u l] by (simp add: range4_ok_def)
  have lhs: "?lhs = (if m = bcast4 b l then Inl no_address_left else Inr (mk_prefix (V4 m) (int b)))"
    using True b32 bc by (simp add: faa_loop_V4 m_def [symmetric] is_broadcast_address_V4 Let_def)
  show ?thesis
  proof (cases "m = bcast4 b l")
    case True
    have "usable4 l u b used = {}"
    proof (rule ccontr)
      assume "usable4 l u b used \<noteq> {}"
      then obtain y where y: "y \<in> usable4 l u b used" by auto
      then have "m \<le> y" "y \<le> u" using least s by (auto simp: usable4_def)
      with True ub have "y = bcast4 b l" by simp
      with y show False by (simp add: usable4_def)
    qed
    with True lhs show ?thesis by simp
  next
    case False
    have mem: "m \<in> usable4 l u b used" using False m mu ml by (simp add: usable4_def)
    moreover have "(LEAST x. x \<in> usable4 l u b used) = m"
      by (rule Least_equality [of "\<lambda>x. x \<in> usable4 l u b used", OF mem]) (use least s in \<open>auto simp: usable4_def\<close>)
    ultimately show ?thesis using False lhs by auto
  qed
qed

lemma first_available_address_V4:
  assumes ok: "range4_ok l u b"
  shows "first_available_address (range4 l u b) used =
    (if usable4 l u b used = {} then Inl no_address_left
     else Inr (mk_prefix (V4 (LEAST x. x \<in> usable4 l u b used)) (int b)))"
proof -
  have b32: "b \<le> 32" using ok by (simp add: range4_ok_def)
  note unf = first_available_address_def Let_def prefixes_range4 [OF b32] is_subnet_addr_V4 [OF b32]
  consider "l \<noteq> net4 b l" | "l = net4 b l" "l + 1 = 0" | "l = net4 b l" "l + 1 \<noteq> 0" by blast
  then show ?thesis
  proof cases
    case 1
    then have "net4 b l < l" using net4_le [of b l] by simp
    then have "l \<le> x \<longleftrightarrow> l \<le> x \<and> x \<noteq> net4 b l" for x by auto
    from loop_from [OF ok this, of used] 1 show ?thesis by (simp add: unf)
  next
    case 2
    then have "l = - 1" by (simp add: eq_neg_iff_add_eq_0)
    then have "usable4 l u b used = {}"
      using 2 by (auto simp: usable4_def word_order.extremum_unique)
    moreover have "faa_loop (V4 u) used NoAddr = Inl no_address_left"
      by (subst faa_loop.simps) (simp add: addr_valid_def)
    ultimately show ?thesis using 2 by (simp add: unf)
  next
    case 3
    have "l + 1 \<le> x \<longleftrightarrow> l \<le> x \<and> x \<noteq> net4 b l" for x
      using word_succ_le [OF 3(2)] 3(1) by simp
    from loop_from [OF ok this, of used] 3 show ?thesis by (simp add: unf)
  qed
qed

lemma usable4_narrow:
  assumes "range4_ok l u b" "31 \<le> b"
  shows "usable4 l u b used = {}"
proof -
  have b32: "b \<le> 32" using assms by (simp add: range4_ok_def)
  have "x = net4 b l \<or> x = bcast4 b l" if "l \<le> x" "x \<le> u" for x
  proof -
    have "net4 b l \<le> x \<and> x \<le> bcast4 b l"
      using range4_net [OF assms(1) that] net4_eq_between by simp
    moreover have "unat (bcast4 b l) \<le> Suc (unat (net4 b l))"
      using assms(2) b32 by (cases "b = 31") (auto simp: unat_bcast4)
    ultimately show ?thesis by (auto simp: word_le_nat_alt word_unat_eq_iff)
  qed
  then show ?thesis by (auto simp: usable4_def)
qed

section \<open>Text and database forms\<close>

lemma split_range_string:
  "split_on (CHR ''-'') (string4 l @ CHR ''-'' # string4 u @ CHR ''/'' # dec b)
     = [string4 l, string4 u @ CHR ''/'' # dec b]"
proof -
  have "CHR ''-'' \<notin> set (string4 u @ CHR ''/'' # dec b)" by simp
  then show ?thesis by (simp only: split_on_append string4_notin split_on_no not_False_eq_True)
qed

lemma addr_range_from_range4:
  assumes "range4_ok l u b"
  shows "addr_range_from_prefixes (mk_prefix (V4 l) (int b)) (mk_prefix (V4 u) (int b))
    = Inr (range4 l u b)"
  using assms by (simp add: range4_ok_def addr_range_from_prefixes_V4 not_less)

lemma parse_range_string_V4:
  assumes "range4_ok l u b"
  shows "parse_addr_range (range_string (range4 l u b)) = Inr (range4 l u b)"
proof -
  have b: "b \<le> 32" using assms by (simp add: range4_ok_def)
  have "range_string (range4 l u b) = string4 l @ CHR ''-'' # string4 u @ CHR ''/'' # dec b"
    by (simp add: range_string_def prefixes_range4 [OF b] prefix_string_V4)
  moreover have "parse_prefix (string4 u @ CHR ''/'' # dec b) = Some (mk_prefix (V4 u) (int b))"
    using parse_prefix_string4 [of "int b" u] b by simp
  ultimately show ?thesis
    using b addr_range_from_range4 [OF assms]
    by (simp add: parse_addr_range_def split_range_string)
qed

lemma add_slash32_prefix [simp]: "add_slash32 (s @ CHR ''/'' # t) = s @ CHR ''/'' # t"
  by (simp add: add_slash32_def contains_char_def)

lemma parens:
  "trim_suffix '')'' (trim_prefix ''('' (''('' @ s @ '')'')) = s"
  "has_prefix ''('' (''('' @ s)" "has_suffix '')'' (s @ '')'')"
  by (simp_all add: trim_suffix_def trim_prefix_def has_prefix_def has_suffix_def)

lemma addr_range_db_V4:
  assumes "range4_ok l u b"
  shows "addr_range_from_db (to_db (range4 l u b)) = Inr (range4 l u b)"
proof -
  have b: "b \<le> 32" using assms by (simp add: range4_ok_def)
  let ?p = "\<lambda>w. string4 w @ CHR ''/'' # dec b"
  have db: "to_db (range4 l u b) = ''('' @ (?p l @ CHR '','' # ?p u) @ '')''"
    by (simp add: to_db_def prefixes_range4 [OF b] prefix_string_V4)
  have split: "split_on (CHR '','') (?p l @ CHR '','' # ?p u) = [?p l, ?p u]"
  proof -
    have "CHR '','' \<notin> set (?p w)" for w by simp
    then show ?thesis by (simp only: split_on_append split_on_no not_False_eq_True)
  qed
  have "has_prefix ''('' (to_db (range4 l u b))" "has_suffix '')'' (to_db (range4 l u b))"
    unfolding db using parens(2) parens(3) [of "''('' @ ?p l @ CHR '','' # ?p u"] by simp_all
  moreover have "parse_prefix (?p w) = Some (mk_prefix (V4 w) (int b))" for w
    using parse_prefix_string4 [of "int b" w] b by simp
  moreover have "trim_suffix '')'' (trim_prefix ''('' (to_db (range4 l u b)))
      = ?p l @ CHR '','' # ?p u"
    unfolding db by (rule parens)
  ultimately show ?thesis
    unfolding addr_range_from_db_def by (simp add: split [simplified] addr_range_from_range4 [OF assms])
qed

lemma prefix_from_zone: "zone (pfx_addr (prefix_from a b)) = []"
  by (simp add: prefix_from_def)

lemma parse_addr_range_wf:
  assumes "parse_addr_range s = Inr r"
  shows "range_wf r"
proof -
  obtain a p where a: "a \<noteq> NoAddr" and p: "\<exists>t. parse_prefix t = Some p"
    and r: "addr_range_from_prefixes (prefix_from a (pfx_bits p)) p = Inr r"
    using assms
    by (auto simp: parse_addr_range_def split: list.splits option.splits dest: parse_addr_valid)
  then obtain t where t: "parse_prefix t = Some p" by blast
  have bits: "pfx_bits (prefix_from a (pfx_bits p)) = pfx_bits p"
    using r by (simp add: addr_range_from_prefixes_def split: if_splits)
  then have "prefix_valid (prefix_from a (pfx_bits p))"
    using parse_prefix_valid(1) [OF t] by (simp add: prefix_valid_def)
  moreover have "pfx_bits p \<le> int (bit_len a)"
    using bits parse_prefix_valid(1) [OF t]
    by (auto simp: prefix_from_def prefix_valid_def split: if_splits)
  ultimately show ?thesis
    using addr_range_from_prefixes_wf [OF r] parse_prefix_valid [OF t] a
    by (simp add: prefix_from_def)
qed

section \<open>Membership and whole subnets\<close>

lemma range_contains_V4:
  "range_contains (range4 l u b) p \<longleftrightarrow>
     pfx_bits p = int b \<and> (\<exists>w. pfx_addr p = V4 w \<and> l \<le> w \<and> w \<le> u)"
  by (cases "pfx_addr p") (auto simp: range_contains_def not_less)

lemma addr_range_from_subnet_V4:
  assumes "b \<le> 32"
  shows "addr_range_from_subnet (mk_prefix (V4 w) (int b)) =
    (if w = net4 b w then Inr (range4 w (bcast4 b w) b)
     else Inl (errors_new ''not a subnet address''))"
  using assms bcast4_ge [of w b]
  by (auto simp: addr_range_from_subnet_def is_subnet_addr_V4 to_broadcast_address_V4
      addr_range_from_prefixes_V4 not_less)

lemma range4_ok_subnet: "b \<le> 32 \<Longrightarrow> w = net4 b w \<Longrightarrow> range4_ok w (bcast4 b w) b"
  by (simp add: range4_ok_def bcast4_ge)

lemma to_containing_subnet_V4:
  "b \<le> 32 \<Longrightarrow> to_containing_subnet (range4 l u b) = mk_prefix (V4 (net4 b l)) (int b)"
  by (simp add: to_containing_subnet_def to_subnet_addr_def)

text \<open>IPv6 ranges cannot be searched: the broadcast computation is defined for IPv4 only.\<close>

lemma to_broadcast_address_V6:
  "\<not> is4in6 (V6 w z) \<Longrightarrow> to_broadcast_address (mk_prefix (V6 w z) b) = Inl Panic"
  by (simp add: to_broadcast_address_def del: is4in6.simps)

lemma faa_loop_V6:
  "faa_loop up used (V6 w z) = Inr a \<Longrightarrow> \<exists>w'. a = V6 w' z \<and> w \<le> w'"
proof (induction up used "V6 w z" arbitrary: w rule: faa_loop.induct)
  case (1 up used w)
  have none: "faa_loop up used NoAddr = Inl no_address_left"
    by (subst faa_loop.simps) (simp add: addr_valid_def)
  show ?case
  proof (cases "V6 w z \<notin> set used")
    case True
    then show ?thesis using 1(2) by (subst (asm) faa_loop.simps) (auto split: if_splits)
  next
    case False
    have le: "V6 w z \<le> up" and next_a: "faa_loop up used (addr_next (V6 w z)) = Inr a"
      using 1(2) False by (subst (asm) faa_loop.simps, auto split: if_splits)+
    then have nz: "w + 1 \<noteq> 0" using none by (auto split: if_splits)
    with next_a le False have "\<exists>w'. a = V6 w' z \<and> w + 1 \<le> w'"
      using 1(1) [of "w + 1"] by (simp add: addr_valid_def)
    with word_less_succ [OF nz] show ?thesis by auto
  qed
qed

lemma not_mapped: "2 ^ 48 \<le> w \<Longrightarrow> \<not> is4in6 (V6 w z)"
proof
  assume w: "2 ^ 48 \<le> w" and "is4in6 (V6 w z)"
  then have "unat (drop_bit 32 w) = 0xffff" by simp
  then have "unat w div 2 ^ 32 = 0xffff" by (simp only: unat_drop)
  moreover have "2 ^ 48 \<le> unat w" using w by (simp add: word_le_nat_alt)
  then have "2 ^ 48 div 2 ^ 32 \<le> unat w div 2 ^ 32" by (rule div_le_mono)
  ultimately show False by simp
qed

lemma first_available_V6:
  assumes "lower r = V6 w []" "2 ^ 48 \<le> w"
  shows "first_available_address r used =
    (case faa_loop (upper r) used
       (if is_subnet_addr (lo_prefix r) then addr_next (lower r) else lower r)
     of Inl e \<Rightarrow> Inl e | Inr _ \<Rightarrow> Inl Panic)"
proof -
  let ?s = "if is_subnet_addr (lo_prefix r) then addr_next (lower r) else lower r"
  show ?thesis
  proof (cases "faa_loop (upper r) used ?s")
    case (Inr a)
    moreover have "faa_loop (upper r) used NoAddr = Inl no_address_left"
      by (subst faa_loop.simps) (simp add: addr_valid_def)
    ultimately obtain v where v: "?s = V6 v []" "w \<le> v"
      using assms word_less_succ [of w] by (auto split: if_splits)
    then obtain x where x: "a = V6 x []" "v \<le> x"
      using faa_loop_V6 [of "upper r" used v "[]" a] Inr by auto
    have "\<not> is4in6 (V6 x [])" using x v assms by (intro not_mapped) simp
    then have "is_broadcast_address (prefix_from a (rbits r)) = Inl Panic"
      unfolding is_broadcast_address_def x prefix_from_def
      by (simp add: to_broadcast_address_V6 wrapv_def del: is4in6.simps)
    with Inr show ?thesis
      by (simp add: first_available_address_def Let_def wrapv_def)
  qed (simp add: first_available_address_def Let_def)
qed

section \<open>Properties\<close>

text \<open>C33. The search of \<open>FirstAvailableAddress\<close> over an IPv4 range is sound and complete: it
  returns, with the netmask of the range, the least address of the range that is unused and
  is neither the subnet nor the broadcast address, and it reports exhaustion exactly when no
  such address is left (so it returns for every list of used addresses).\<close>

theorem first_available_least:
  assumes "range4_ok l u b"
  shows "first_available_address (range4 l u b) used =
    (if usable4 l u b used = {} then Inl no_address_left
     else Inr (mk_prefix (V4 (LEAST x. x \<in> usable4 l u b used)) (int b)))"
  using assms by (rule first_available_address_V4)

lemma first_available_least_witness:
  "first_available_address (range4 0x0A000000 0x0A000003 30) [V4 0x0A000001]
     = Inr (mk_prefix (V4 0x0A000002) 30)
   \<and> (LEAST x. x \<in> usable4 0x0A000000 0x0A000003 30 [V4 0x0A000001]) = 0x0A000002"
proof -
  have ok: "range4_ok 0x0A000000 0x0A000003 30" unfolding range4_ok_def by code_simp
  have mem: "0x0A000002 \<in> usable4 0x0A000000 0x0A000003 30 [V4 0x0A000001]"
    unfolding usable4_def mem_Collect_eq by code_simp
  have "0x0A000002 \<le> y" if "y \<in> usable4 0x0A000000 0x0A000003 30 [V4 0x0A000001]" for y
  proof -
    have "net4 30 0x0A000000 = 0x0A000000" by code_simp
    then have "y \<noteq> 0x0A000000" "y \<noteq> 0x0A000001" "0x0A000000 \<le> y"
      using that by (auto simp: usable4_def)
    then show ?thesis
      using word_succ_le [of "0x0A000000" y] word_succ_le [of "0x0A000001" y] by simp
  qed
  then have l: "(LEAST x. x \<in> usable4 0x0A000000 0x0A000003 30 [V4 0x0A000001]) = 0x0A000002"
    by (rule Least_equality
        [of "\<lambda>x. x \<in> usable4 0x0A000000 0x0A000003 30 [V4 0x0A000001]", OF mem])
  show ?thesis
    using first_available_least [OF ok, of "[V4 0x0A000001]"] mem l by (auto split: if_splits)
qed

text \<open>A range of an IPv4 network with a netmask of 31 or 32 bits never yields an address,
  whatever is in use: its only addresses are taken for the subnet and broadcast address.\<close>

theorem narrow_range_never_allocates:
  assumes "range4_ok l u b" and "31 \<le> b"
  shows "first_available_address (range4 l u b) used = Inl no_address_left"
  using assms by (simp add: first_available_address_V4 usable4_narrow)

lemma narrow_range_never_allocates_witness:
  "first_available_address (range4 0x0A000005 0x0A000005 32) [] = Inl no_address_left"
  by (rule narrow_range_never_allocates) (simp_all add: range4_ok_def)

text \<open>C40. On an IPv6 range (above the IPv4-mapped block) \<open>FirstAvailableAddress\<close> never returns
  an address: the search runs, and every candidate it finds makes the broadcast check panic
  in \<open>As4\<close>; an empty list of used addresses and a range of two or more addresses is enough.\<close>

theorem ipv6_range_panics:
  assumes "lower r = V6 w []" and "2 ^ 48 \<le> w"
  shows "\<not> is_ok (first_available_address r used)
    \<and> (\<forall>u. upper r = V6 u [] \<and> w < u \<longrightarrow> first_available_address r [] = Inl Panic)"
proof -
  have "first_available_address r [] = Inl Panic" if up: "upper r = V6 u []" and lt: "w < u" for u
  proof -
    let ?s = "if is_subnet_addr (lo_prefix r) then addr_next (lower r) else lower r"
    have "w + 1 \<noteq> 0" using lt by (metis word_n1_ge add.commute add_neg_numeral_special(7) add_right_imp_eq leD)
    then have "addr_next (lower r) \<le> upper r \<and> addr_next (lower r) \<noteq> NoAddr"
      using lt up assms(1) by (auto simp: word_succ_le)
    then have "faa_loop (upper r) [] ?s = Inr ?s"
      using lt up assms(1) by (subst faa_loop.simps) (auto simp: addr_valid_def)
    then show ?thesis by (simp add: first_available_V6 [OF assms])
  qed
  then show ?thesis
    by (auto simp: first_available_V6 [OF assms] split: sum.split)
qed

lemma ipv6_range_panics_witness:
  "first_available_address (mk_range (V6 (2 ^ 100) []) (V6 (2 ^ 100 + 9) []) 64) [] = Inl Panic"
  using ipv6_range_panics [of "mk_range (V6 (2 ^ 100) []) (V6 (2 ^ 100 + 9) []) 64" "2 ^ 100" "[]"]
  by simp

text \<open>What \<open>ParseAddrRange\<close> accepts satisfies the invariant of \<open>AddrRange\<close>: both bounds are
  zone-free addresses of one family, in order, with a possible netmask, in the same subnet.\<close>

theorem parsed_range_wf:
  assumes "parse_addr_range s = Inr r"
  shows "range_wf r"
  using assms by (rule parse_addr_range_wf)

lemma parsed_range_wf_witness:
  "range_wf (range4 0x01020332 0x01020363 24)"
proof -
  have "range4_ok 0x01020332 0x01020363 24" unfolding range4_ok_def by code_simp
  then show ?thesis
    by (rule parsed_range_wf [OF parse_range_string_V4])
qed

text \<open>C38. Printing a valid IPv4 range and reading it back gives the range, in the text form
  (\<open>String\<close>, \<open>ParseAddrRange\<close>) and in the database form (\<open>ToDB\<close>, \<open>AddrRangeFromDB\<close>).\<close>

theorem range_roundtrips:
  assumes "range_wf r" and "is4 (lower r)"
  shows "parse_addr_range (range_string r) = Inr r \<and> addr_range_from_db (to_db r) = Inr r"
  by (rule range_wf_V4 [OF assms]) (simp add: parse_range_string_V4 addr_range_db_V4)

lemma range_roundtrips_witness:
  "parse_addr_range ''1.2.3.50-1.2.3.99/24'' = Inr (range4 0x01020332 0x01020363 24)
   \<and> addr_range_from_db ''(1.2.3.50/24,1.2.3.99/24)'' = Inr (range4 0x01020332 0x01020363 24)"
proof -
  have "range4_ok 0x01020332 0x01020363 24" unfolding range4_ok_def by code_simp
  moreover have "range_string (range4 0x01020332 0x01020363 24) = ''1.2.3.50-1.2.3.99/24''"
    "to_db (range4 0x01020332 0x01020363 24) = ''(1.2.3.50/24,1.2.3.99/24)''"
    by code_simp+
  ultimately show ?thesis
    using range_roundtrips [of "range4 0x01020332 0x01020363 24"] by (simp add: range4_wf)
qed

text \<open>\<open>AddrRangeFromSubnet\<close> of an IPv4 subnet address succeeds with a valid range that
  contains exactly the addresses of the subnet; any other address is refused.\<close>

theorem subnet_range_exact:
  assumes "b \<le> 32"
  shows "(case addr_range_from_subnet (mk_prefix (V4 n) (int b)) of
            Inl e \<Rightarrow> \<not> is_subnet_addr (mk_prefix (V4 n) (int b))
          | Inr r \<Rightarrow> is_subnet_addr (mk_prefix (V4 n) (int b)) \<and> range_wf r \<and>
              (\<forall>w. range_contains r (mk_prefix (V4 w) (int b))
                   = prefix_contains (mk_prefix (V4 n) (int b)) (V4 w)))"
proof -
  have "n \<le> w \<and> w \<le> bcast4 b n \<longleftrightarrow> net4 b n = net4 b w" if "n = net4 b n" for w
    using net4_eq_between [of b w n] that by metis
  then show ?thesis
    using assms range4_wf [OF range4_ok_subnet [OF assms, of n]]
    by (auto simp: addr_range_from_subnet_V4 is_subnet_addr_V4 range_contains_V4 prefix_contains_V4)
qed

lemma subnet_range_exact_witness:
  "\<exists>r. addr_range_from_subnet (mk_prefix (V4 0x0A000000) 8) = Inr r \<and> range_wf r"
proof -
  have "is_subnet_addr (mk_prefix (V4 0x0A000000) (int 8))" by code_simp
  then show ?thesis
    using subnet_range_exact [of 8 "0x0A000000"] by (auto split: sum.splits)
qed

end
