(* ===== verification/Api_Model.thy ===== *)
theory Api_Model
  imports Addr_Range
begin

text \<open>
  The data of the service: the rows of the database tables (\<open>src/db/models.go\<close>), the values
  exchanged with the REST and gRPC layers (\<open>src/service/api/v1/rest.go\<close>), and the external
  services the code calls (cryptography, random generators), which are the fields of \<open>env\<close>,
  a parameter of every definition that uses them.  A Go pointer is an \<open>option\<close>; strings are
  byte sequences; times are integers.
\<close>

section \<open>Rows of the database\<close>

record address_pool =
  ap_id :: int
  ap_name :: string
  ap_description :: string
  ap_start :: addr
  ap_end :: addr
  ap_mask :: int

record user_row =
  u_id :: int
  u_username :: string
  u_password :: string
  u_is_admin :: bool
  u_auth_service :: string
  u_mfa_auth :: string
  u_ntf :: string
  u_updated_at :: int

record totp_row =
  totp_user :: int
  totp_key :: string
  totp_counter :: int

record mfa_cert_row =
  mc_id :: int
  mc_cert :: string
  mc_type :: string

record device_template_row =
  dt_id :: int
  dt_user :: int
  dt_iface :: string
  dt_port :: "int option"
  dt_mtu :: "int option"

record device_row =
  d_id :: int
  d_description :: string
  d_template :: int
  d_public_key :: string
  d_external_id :: string
  d_session :: string
  d_last_connected :: "int option"
  d_info :: "string option"
  d_private_key :: string

record server_row =
  s_id :: int
  s_name :: string
  s_endpoint :: addr
  s_description :: string
  s_replicas :: int
  s_healthcheck :: "addr option"

record server_cfg_row =
  sc_id :: int
  sc_server :: int
  sc_iface :: string
  sc_public_key :: string
  sc_port :: "int option"
  sc_mtu :: "int option"
  sc_keepalive :: "int option"
  sc_private_key :: string

record adjacency_row =
  adj_id :: int
  adj_server :: int
  adj_device :: int
  adj_server_ips :: "prefix list"
  adj_client_ips :: "prefix list"
  adj_psk :: string

record adj_template_row =
  at_id :: int
  at_server :: int
  at_user :: int
  at_client_ips :: "prefix list"
  at_use_psk :: bool

record ldap_template_server_row =
  lts_template :: int
  lts_server :: int
  lts_ips :: "prefix list"
  lts_use_psk :: bool

record ldap_row =
  l_id :: string
  l_priority :: int
  l_host :: string
  l_port :: int
  l_base_dn :: string
  l_bind_dn :: string
  l_list_filter :: string
  l_username_attr :: string
  l_uid_attr :: string
  l_use_tls :: bool
  l_fqdn :: string
  l_ca_cert :: string
  l_template :: "int option"
  l_bind_pw :: string

record user_ldap_row =
  ul_id :: int
  ul_user :: int
  ul_ldap :: "string option"
  ul_uid :: string
  ul_dn :: string
  ul_created :: int
  ul_updated :: int

record ldap_template_row =
  lt_id :: int
  lt_name :: string
  lt_filter :: "string option"
  lt_iface :: string
  lt_is_admin :: bool
  lt_mfa :: string
  lt_port :: "string option"
  lt_mtu :: "string option"
  lt_dns :: "string list"

section \<open>Values of the interface\<close>

record api_address_pool =
  aap_id :: int
  aap_name :: string
  aap_description :: string
  aap_start :: string
  aap_end :: string
  aap_mask :: int

record api_server =
  as_id :: int
  as_name :: string
  as_endpoint :: string
  as_healthcheck :: string
  as_description :: string

record api_wg_iface =
  aw_name :: string
  aw_private_key :: string
  aw_public_key :: string
  aw_addresses :: "string list"
  aw_port :: string
  aw_dns :: "string list"
  aw_mtu :: string
  aw_keepalive :: string

record api_device_template =
  adt_id :: int
  adt_iface :: string
  adt_pools :: "api_address_pool list"
  adt_port :: string
  adt_dns :: "string list"
  adt_mtu :: string

record api_adjacency =
  aa_psk :: string
  aa_allowed :: "string list"
  aa_other :: "string list"
  aa_server_side :: bool

record api_adj_template =
  aat_use_psk :: bool
  aat_client_ips :: "string list"

record api_peer_config =
  pc_public_key :: string
  pc_psk :: string
  pc_allowed :: "string list"
  pc_other :: "string list"
  pc_endpoint :: string
  pc_keepalive :: string

record api_peer =
  peer_id :: int
  peer_server :: "api_server option"
  peer_device :: int
  peer_config :: api_peer_config

record api_device_data =
  dd_description :: string
  dd_private_key :: string
  dd_public_key :: string
  dd_addresses :: "string list"

record api_device =
  ad_id :: int
  ad_data :: api_device_data
  ad_external_id :: string
  ad_session :: string
  ad_last_connected :: "int option"
  ad_info :: string

record api_user =
  au_id :: int
  au_username :: string
  au_is_admin :: bool
  au_mfa :: string
  au_auth :: string
  au_ntf :: string
  au_updated_at :: int

text \<open>Messages to the VPN servers (\<open>src/proto/v1/vpncfg.proto\<close>) and to the healthcheck service.\<close>

record proto_peer =
  pp_public_key :: string
  pp_psk :: string
  pp_allowed :: "string list"
  pp_endpoint :: string
  pp_keepalive :: string

record proto_wg =
  pw_name :: string
  pw_private_key :: string
  pw_addresses :: "string list"
  pw_port :: string
  pw_dns :: "string list"
  pw_mtu :: string
  pw_peers :: "proto_peer list"

datatype wg_ntf =
    NtfAddPeer string string "string list"
  | NtfDelPeer string
  | NtfConfig "proto_wg option"

datatype hc_ntf = HcAddSession string | HcDeleteSession string

section \<open>External services\<close>

text \<open>
  The authenticated cipher, the key generators and the random source are outside the
  repository.  Each takes the next value of the random source (a counter of the state) where
  it draws randomness.
\<close>

record env =
  env_key :: string
  env_seal :: "string \<Rightarrow> nat \<Rightarrow> string \<Rightarrow> err + string"
  env_open :: "string \<Rightarrow> string \<Rightarrow> err + string"
  env_keypair :: "nat \<Rightarrow> err + (string \<times> string)"
  env_psk :: "nat \<Rightarrow> err + string"
  env_rand :: "nat \<Rightarrow> nat \<Rightarrow> err + 8 word list"
  env_bcrypt :: "nat \<Rightarrow> string \<Rightarrow> err + string"
  env_bcrypt_ok :: "string \<Rightarrow> string \<Rightarrow> bool"
  env_k8s :: "(string \<Rightarrow> err + int) option"
  env_dpu_limit :: int

text \<open>What the code relies on: decryption undoes encryption under the same key.\<close>

definition cipher_ok :: "env \<Rightarrow> bool" where
  "cipher_ok E = (\<forall>seed p c. env_seal E (env_key E) seed p = Inr c
     \<longrightarrow> env_open E (env_key E) c = Inr p)"

section \<open>NULL columns\<close>

text \<open>\<open>db.IntToPtr\<close> and its relatives: zero and the empty string are stored as NULL.\<close>

definition int_to_ptr :: "int \<Rightarrow> int option" where
  "int_to_ptr i = (if i = 0 then None else Some i)"

definition int_from_ptr :: "int option \<Rightarrow> int" where
  "int_from_ptr i = (case i of None \<Rightarrow> 0 | Some x \<Rightarrow> x)"

definition string_to_ptr :: "string \<Rightarrow> string option" where
  "string_to_ptr s = (if s = [] then None else Some s)"

definition string_from_ptr :: "string option \<Rightarrow> string" where
  "string_from_ptr s = (case s of None \<Rightarrow> [] | Some x \<Rightarrow> x)"

lemma ptr_roundtrips [simp]:
  "int_from_ptr (int_to_ptr i) = i" "string_from_ptr (string_to_ptr s) = s"
  by (simp_all add: int_to_ptr_def int_from_ptr_def string_to_ptr_def string_from_ptr_def)

text \<open>\<open>COALESCE(column, -1)\<close> in the queries that read a port, an MTU or a keepalive.\<close>

definition coalesce :: "int option \<Rightarrow> int" where
  "coalesce c = (case c of None \<Rightarrow> -1 | Some x \<Rightarrow> x)"

section \<open>Base64 and hexadecimal\<close>

definition b64_val :: "char \<Rightarrow> nat option" where
  "b64_val c =
     (let n = (of_char c :: nat) in
      if 65 \<le> n \<and> n \<le> 90 then Some (n - 65)
      else if 97 \<le> n \<and> n \<le> 122 then Some (n - 71)
      else if 48 \<le> n \<and> n \<le> 57 then Some (n + 4)
      else if c = CHR ''+'' then Some 62
      else if c = CHR ''/'' then Some 63
      else None)"

text \<open>\<open>base64.StdEncoding.DecodeString\<close>: groups of four characters, padded at the end.\<close>

fun b64_groups :: "string \<Rightarrow> nat list option" where
  "b64_groups [] = Some []"
| "b64_groups (a # b # c # d # rest) =
     (case (b64_val a, b64_val b) of
        (Some x, Some y) \<Rightarrow>
          let b0 = x * 4 + y div 16 in
          if c = CHR ''='' then
            (if d = CHR ''='' \<and> rest = [] then Some [b0] else None)
          else (case b64_val c of None \<Rightarrow> None
            | Some z \<Rightarrow>
                let b1 = (y mod 16) * 16 + z div 4 in
                if d = CHR ''='' then (if rest = [] then Some [b0, b1] else None)
                else (case b64_val d of None \<Rightarrow> None
                  | Some v \<Rightarrow>
                      map_option (\<lambda>r. b0 # b1 # ((z mod 4) * 64 + v) # r) (b64_groups rest)))
      | _ \<Rightarrow> None)"
| "b64_groups _ = None"

definition b64_decode :: "string \<Rightarrow> nat list option" where
  "b64_decode s = b64_groups (filter (\<lambda>c. c \<noteq> CHR 0x0A \<and> c \<noteq> CHR 0x0D) s)"

text \<open>\<open>hex.EncodeToString\<close>\<close>

definition hex_encode :: "8 word list \<Rightarrow> string" where
  "hex_encode bs = concat (map (\<lambda>b. [hex_digit (unat b div 16), hex_digit (unat b mod 16)]) bs)"

lemma length_hex_encode [simp]: "length (hex_encode bs) = 2 * length bs"
  by (induction bs) (simp_all add: hex_encode_def)

end
