(* ===== verification/Store.thy ===== *)
theory Store
  imports Api_Model "HOL-Library.Option_ord"
begin

text \<open>
  The database: the tables of the PostgreSQL schema (\<open>src/db/migrations\<close>) as lists of rows in
  insertion order, the queries of \<open>src/db/query.sql\<close> in the form sqlc generates
  (\<open>src/db/query.sql.go\<close>), and transactions (\<open>src/pkg/db/postgres.go\<close>).

  Every query is one atomic step.  It first consumes the head of the fault schedule: on
  \<open>True\<close> the driver reports \<open>DbError\<close> and nothing changes, so that every error branch of the
  code is reachable; an empty schedule means no more failures.  A query with a \<open>RETURNING\<close>
  or \<open>:one\<close> clause that finds no row reports \<open>pgx.ErrNoRows\<close>.  Foreign keys are checked and
  cascade as the schema says.  Queries without \<open>ORDER BY\<close> return rows in table order.
  Sequences are not transactional, as in PostgreSQL.
\<close>

section \<open>Tables\<close>

record db =
  db_users :: "user_row list"
  db_totp :: "totp_row list"
  db_mfa_certs :: "mfa_cert_row list"
  db_templates :: "device_template_row list"
  db_tpools :: "(int \<times> int) list"
  db_tdns :: "(int \<times> string) list"
  db_pools :: "address_pool list"
  db_devices :: "device_row list"
  db_daddrs :: "(int \<times> prefix) list"
  db_servers :: "server_row list"
  db_scfgs :: "server_cfg_row list"
  db_saddrs :: "(int \<times> prefix) list"
  db_sdns :: "(int \<times> string) list"
  db_adjs :: "adjacency_row list"
  db_atemplates :: "adj_template_row list"
  db_lts :: "ldap_template_server_row list"
  db_ltpools :: "(int \<times> int) list"
  db_tags :: "(int \<times> string) list"
  db_ldaps :: "ldap_row list"
  db_uldaps :: "user_ldap_row list"
  db_ltemplates :: "ldap_template_row list"

lemma db_update_id [simp]:
  "db_users_update (\<lambda>l. l) d = d" "db_totp_update (\<lambda>l. l) d = d"
  "db_mfa_certs_update (\<lambda>l. l) d = d" "db_templates_update (\<lambda>l. l) d = d"
  "db_tpools_update (\<lambda>l. l) d = d" "db_tdns_update (\<lambda>l. l) d = d"
  "db_pools_update (\<lambda>l. l) d = d" "db_devices_update (\<lambda>l. l) d = d"
  "db_daddrs_update (\<lambda>l. l) d = d" "db_servers_update (\<lambda>l. l) d = d"
  "db_scfgs_update (\<lambda>l. l) d = d" "db_saddrs_update (\<lambda>l. l) d = d"
  "db_sdns_update (\<lambda>l. l) d = d" "db_adjs_update (\<lambda>l. l) d = d"
  "db_atemplates_update (\<lambda>l. l) d = d" "db_lts_update (\<lambda>l. l) d = d"
  "db_ltpools_update (\<lambda>l. l) d = d" "db_tags_update (\<lambda>l. l) d = d"
  "db_ldaps_update (\<lambda>l. l) d = d" "db_uldaps_update (\<lambda>l. l) d = d"
  "db_ltemplates_update (\<lambda>l. l) d = d"
  by (cases d; simp)+

datatype seq_name = SeqUser | SeqCert | SeqTemplate | SeqPool | SeqDevice | SeqServer | SeqScfg
  | SeqAdj | SeqAtemplate | SeqUserLdap | SeqLdapTemplate

datatype tx_state = NoTx | InTx | TxAborted

text \<open>
  The state of the service: the tables, the fault schedule, the transaction in progress, the
  sequences, the random source and the clock; the tags watched by connected VPN servers and
  the messages delivered to them and to the healthcheck service (a send that times out, as
  \<open>w_drops\<close> says, delivers nothing).
\<close>

record world =
  w_db :: db
  w_faults :: "bool list"
  w_tx :: tx_state
  w_seq :: "seq_name \<Rightarrow> int"
  w_rnd :: nat
  w_now :: int
  w_watchers :: "string list"
  w_wg_sent :: "(string \<times> wg_ntf) list"
  w_hc_sent :: "hc_ntf list"
  w_drops :: "bool list"

type_synonym 'a wop = "(world, 'a) op"

abbreviation no_rows :: err where
  "no_rows \<equiv> Sentinel PgxErrNoRows"

section \<open>Atomic steps\<close>

definition abort_tx :: "world \<Rightarrow> world" where
  "abort_tx w = (if w_tx w = InTx then w\<lparr>w_tx := TxAborted\<rparr> else w)"

fun is_db_error :: "err + 'a \<Rightarrow> bool" where
  "is_db_error (Inl DbError) = True"
| "is_db_error _ = False"

text \<open>An error aborts the transaction in progress: every later query in it fails too.\<close>

definition db_call :: "(db \<Rightarrow> (err + 'a) \<times> db) \<Rightarrow> 'a wop" where
  "db_call f = (\<lambda>w.
     if w_tx w = TxAborted then (Inl DbError, w)
     else
       let w' = w\<lparr>w_faults := tl (w_faults w)\<rparr> in
       if w_faults w \<noteq> [] \<and> hd (w_faults w) then (Inl DbError, abort_tx w')
       else case f (w_db w) of (r, d) \<Rightarrow>
              (r, (if is_db_error r then abort_tx else id) (w'\<lparr>w_db := d\<rparr>)))"

definition q_many :: "(db \<Rightarrow> 'a) \<Rightarrow> 'a wop" where
  "q_many f = db_call (\<lambda>d. (Inr (f d), d))"

definition q_one :: "(db \<Rightarrow> 'a list) \<Rightarrow> 'a wop" where
  "q_one f = db_call (\<lambda>d. (case f d of [] \<Rightarrow> Inl no_rows | x # _ \<Rightarrow> Inr x, d))"

definition q_exec :: "(db \<Rightarrow> bool) \<Rightarrow> (db \<Rightarrow> db) \<Rightarrow> unit wop" where
  "q_exec ok f = db_call (\<lambda>d. if ok d then (Inr (), f d) else (Inl DbError, d))"

text \<open>\<open>UPDATE ... RETURNING\<close>: all matching rows change, the first is returned.\<close>

definition q_update ::
  "(db \<Rightarrow> 'r list) \<Rightarrow> (('r list \<Rightarrow> 'r list) \<Rightarrow> db \<Rightarrow> db) \<Rightarrow> ('r \<Rightarrow> bool) \<Rightarrow> ('r \<Rightarrow> 'r) \<Rightarrow> 'r wop" where
  "q_update get upd p f = db_call (\<lambda>d.
     case filter p (get d) of
       [] \<Rightarrow> (Inl no_rows, d)
     | r # _ \<Rightarrow> (Inr (f r), upd (map (\<lambda>x. if p x then f x else x)) d))"

definition q_update_rows ::
  "(db \<Rightarrow> 'r list) \<Rightarrow> (('r list \<Rightarrow> 'r list) \<Rightarrow> db \<Rightarrow> db) \<Rightarrow> (db \<Rightarrow> 'r \<Rightarrow> bool) \<Rightarrow> ('r \<Rightarrow> 'r) \<Rightarrow> nat wop" where
  "q_update_rows get upd p f = db_call (\<lambda>d.
     (Inr (length (filter (p d) (get d))), upd (map (\<lambda>x. if p d x then f x else x)) d))"

text \<open>\<open>INSERT ... RETURNING\<close> with a serial key: the sequence advances even on failure.\<close>

definition nextval :: "seq_name \<Rightarrow> int wop" where
  "nextval n = (\<lambda>w. (Inr (w_seq w n), w\<lparr>w_seq := (w_seq w)(n := w_seq w n + 1)\<rparr>))"

definition q_insert ::
  "seq_name \<Rightarrow> (('r list \<Rightarrow> 'r list) \<Rightarrow> db \<Rightarrow> db) \<Rightarrow> (db \<Rightarrow> bool) \<Rightarrow> (int \<Rightarrow> 'r) \<Rightarrow> 'r wop" where
  "q_insert n upd ok mk =
     bind_do (nextval n) (\<lambda>i. db_call (\<lambda>d.
       if ok d then (Inr (mk i), upd (\<lambda>rs. rs @ [mk i]) d) else (Inl DbError, d)))"

section \<open>Transactions\<close>

text \<open>
  \<open>db.WithTx\<close>: an error of the body, or of the commit, leaves the tables as they were when the
  transaction began.
\<close>

definition with_tx :: "'a wop \<Rightarrow> 'a wop" where
  "with_tx body = (\<lambda>w.
     case db_call (\<lambda>d. (Inr (), d)) w of
       (Inl e, w1) \<Rightarrow> (Inl (wrapw ''failed to begin transaction'' e), w1)
     | (Inr _, w1) \<Rightarrow>
         (case body (w1\<lparr>w_tx := InTx\<rparr>) of
            (Inl e, w2) \<Rightarrow> (Inl e, w2\<lparr>w_db := w_db w, w_tx := NoTx\<rparr>)
          | (Inr x, w2) \<Rightarrow>
              (case db_call (\<lambda>d. (Inr (), d)) w2 of
                 (Inl e, w3) \<Rightarrow>
                   (Inl (wrapw ''failed to commit transaction'' e), w3\<lparr>w_db := w_db w, w_tx := NoTx\<rparr>)
               | (Inr _, w3) \<Rightarrow> (Inr x, w3\<lparr>w_tx := NoTx\<rparr>))))"

lemma w_db_abort_tx [simp]: "w_db (abort_tx w) = w_db w"
  by (simp add: abort_tx_def)

section \<open>Facts about steps\<close>

definition keeps :: "(db \<Rightarrow> bool) \<Rightarrow> 'a wop \<Rightarrow> bool" where
  "keeps J m = preserves (\<lambda>w. J (w_db w)) m"

lemma keepsD: "keeps J m \<Longrightarrow> J (w_db w) \<Longrightarrow> J (w_db (snd (m w)))"
  by (simp add: keeps_def preserves_def)

lemma keeps_outcome: "keeps J m \<Longrightarrow> J (w_db w) \<Longrightarrow> m w = (r, w') \<Longrightarrow> J (w_db w')"
  using keepsD by fastforce

lemma keeps_intros [pres]:
  "keeps J (ret x)" "keeps J (throw e)" "keeps J (lift r)" "keeps J (gets g)"
  "keeps J m \<Longrightarrow> (\<And>x. keeps J (k x)) \<Longrightarrow> keeps J (try_do m w k)"
  "keeps J m \<Longrightarrow> (\<And>r. keeps J (h r)) \<Longrightarrow> keeps J (attempt m h)"
  "keeps J k' \<Longrightarrow> keeps J (guard_do b e k')"
  "keeps J u \<Longrightarrow> keeps J (when_do b u)"
  "keeps J k' \<Longrightarrow> keeps J k'' \<Longrightarrow> keeps J (if b then k' else k'')"
  "(\<And>x. keeps J (f x)) \<Longrightarrow> keeps J (for_each f xs)"
  "(\<And>acc x. keeps J (g' acc x)) \<Longrightarrow> keeps J (for_fold g' a ys)"
  "(\<And>x. keeps J (h' x)) \<Longrightarrow> keeps J (for_map h' zs)"
  unfolding keeps_def by (rule pres; assumption)+

lemma keeps_cases [pres]:
  "(\<And>e. keeps J (f e)) \<Longrightarrow> (\<And>x. keeps J (g x)) \<Longrightarrow> keeps J (case r of Inl e \<Rightarrow> f e | Inr x \<Rightarrow> g x)"
  "keeps J n \<Longrightarrow> (\<And>x. keeps J (h x)) \<Longrightarrow> keeps J (case opt of None \<Rightarrow> n | Some x \<Rightarrow> h x)"
  "(\<And>x y. keeps J (p x y)) \<Longrightarrow> keeps J (case pr of (x, y) \<Rightarrow> p x y)"
  "keeps J (q z) \<Longrightarrow> keeps J (Let z q)"
  by (simp_all split: sum.split option.split prod.split)

lemma keeps_list_case [pres]:
  "keeps J n \<Longrightarrow> (\<And>x xs. keeps J (h x xs)) \<Longrightarrow> keeps J (case l of [] \<Rightarrow> n | x # xs \<Rightarrow> h x xs)"
  by (simp split: list.split)

lemma keeps_db_call:
  "(\<And>d. J d \<Longrightarrow> J (snd (f d))) \<Longrightarrow> keeps J (db_call f)"
  by (fastforce simp: keeps_def preserves_def db_call_def Let_def split: prod.splits)

lemma keeps_reads [pres]: "keeps J (q_many f)" "keeps J (q_one g)" "keeps J (nextval n)"
  unfolding q_many_def q_one_def
  by (rule keeps_db_call, simp)+ (simp add: keeps_def preserves_def nextval_def)

lemma keeps_q_exec: "(\<And>d. J d \<Longrightarrow> ok d \<Longrightarrow> J (f d)) \<Longrightarrow> keeps J (q_exec ok f)"
  unfolding q_exec_def by (rule keeps_db_call) simp

lemma keeps_q_update:
  "(\<And>d. J d \<Longrightarrow> J (upd (map (\<lambda>x. if p x then f x else x)) d)) \<Longrightarrow> keeps J (q_update get upd p f)"
  unfolding q_update_def by (rule keeps_db_call) (auto split: list.split)

lemma keeps_q_update_rows:
  "(\<And>d. J d \<Longrightarrow> J (upd (map (\<lambda>x. if p d x then f x else x)) d)) \<Longrightarrow>
   keeps J (q_update_rows get upd p f)"
  unfolding q_update_rows_def by (rule keeps_db_call) simp

lemma keeps_q_insert:
  "(\<And>d i. J d \<Longrightarrow> ok d \<Longrightarrow> J (upd (\<lambda>rs. rs @ [mk i]) d)) \<Longrightarrow> keeps J (q_insert n upd ok mk)"
  unfolding q_insert_def by (intro pres keeps_db_call) auto

lemma db_call_noop: "db_call (\<lambda>d. (r, d)) w = (r', w') \<Longrightarrow> w_db w' = w_db w"
  by (auto simp: db_call_def Let_def split: if_splits)

lemma with_tx_error: "with_tx body w = (Inl e, w') \<Longrightarrow> w_db w' = w_db w"
  by (auto simp: with_tx_def split: prod.splits sum.splits dest: db_call_noop)

lemma with_tx_ok:
  assumes "with_tx body w = (Inr x, w')"
  obtains w1 w2 where "w_db w1 = w_db w" "w_tx w1 = InTx" "body w1 = (Inr x, w2)"
    "w_db w' = w_db w2"
proof -
  obtain w1 w2 w3 where "db_call (\<lambda>d. (Inr (), d)) w = (Inr (), w1)"
    "body (w1\<lparr>w_tx := InTx\<rparr>) = (Inr x, w2)"
    "db_call (\<lambda>d. (Inr (), d)) w2 = (Inr (), w3)" "w' = w3\<lparr>w_tx := NoTx\<rparr>"
    using assms by (auto simp: with_tx_def split: prod.splits sum.splits)
  then show thesis
    using that [of "w1\<lparr>w_tx := InTx\<rparr>" w2] db_call_noop [of "Inr ()" w "Inr ()" w1]
      db_call_noop [of "Inr ()" w2 "Inr ()" w3] by simp
qed

lemma keeps_with_tx [pres]: "keeps J m \<Longrightarrow> keeps J (with_tx m)"
  unfolding keeps_def preserves_def
proof (intro allI impI)
  fix w :: world assume m: "\<forall>w. J (w_db w) \<longrightarrow> J (w_db (snd (m w)))" and J: "J (w_db w)"
  obtain r w' where tx: "with_tx m w = (r, w')" by fastforce
  show "J (w_db (snd (with_tx m w)))"
  proof (cases r)
    case (Inl e)
    with tx J show ?thesis by (simp add: with_tx_error)
  next
    case (Inr x)
    with tx obtain w1 w2 where "w_db w1 = w_db w" "m w1 = (Inr x, w2)" "w_db w' = w_db w2"
      by (auto elim: with_tx_ok)
    with m J tx show ?thesis by (metis snd_conv)
  qed
qed

section \<open>Successful queries and safe failures\<close>

lemma run_db_call: "db_call f w = (Inr x, w') \<Longrightarrow> f (w_db w) = (Inr x, w_db w')"
  by (auto simp: db_call_def Let_def split: if_splits prod.splits)

lemma run_q_many: "q_many f w = (Inr x, w') \<Longrightarrow> x = f (w_db w) \<and> w_db w' = w_db w"
  unfolding q_many_def by (drule run_db_call) auto

lemma run_q_one: "q_one f w = (Inr x, w') \<Longrightarrow> (\<exists>xs. f (w_db w) = x # xs) \<and> w_db w' = w_db w"
  unfolding q_one_def by (drule run_db_call) (auto split: list.splits)

lemma run_q_exec: "q_exec ok f w = (Inr x, w') \<Longrightarrow> ok (w_db w) \<and> w_db w' = f (w_db w)"
  unfolding q_exec_def by (drule run_db_call) (auto split: if_splits)

lemma run_q_update:
  "q_update get upd p f w = (Inr r, w') \<Longrightarrow>
   (\<exists>x xs. filter p (get (w_db w)) = x # xs \<and> r = f x) \<and>
   w_db w' = upd (map (\<lambda>x. if p x then f x else x)) (w_db w)"
  unfolding q_update_def by (drule run_db_call) (auto split: list.splits)

lemma run_q_update_rows:
  "q_update_rows get upd p f w = (Inr n, w') \<Longrightarrow>
   n = length (filter (p (w_db w)) (get (w_db w))) \<and>
   w_db w' = upd (map (\<lambda>x. if p (w_db w) x then f x else x)) (w_db w)"
  unfolding q_update_rows_def by (drule run_db_call) auto

lemma run_q_insert:
  "q_insert n upd ok mk w = (Inr r, w') \<Longrightarrow>
   ok (w_db w) \<and> r = mk (w_seq w n) \<and> w_db w' = upd (\<lambda>rs. rs @ [mk (w_seq w n)]) (w_db w)"
  unfolding q_insert_def nextval_def
  by (auto simp: run dest!: run_db_call split: if_splits)

text \<open>\<open>reads m\<close>: the tables are never changed; \<open>safe m\<close>: they are not changed by a failing run.\<close>

named_theorems safe \<open>operations that change nothing when they fail\<close>

definition reads :: "'a wop \<Rightarrow> bool" where
  "reads m = (\<forall>w. w_db (snd (m w)) = w_db w)"

definition safe_fail :: "'a wop \<Rightarrow> bool" where
  "safe_fail m = (\<forall>w e w'. m w = (Inl e, w') \<longrightarrow> w_db w' = w_db w)"

lemma readsI: "(\<And>d. keeps (\<lambda>x. x = d) m) \<Longrightarrow> reads m"
  by (auto simp: reads_def dest: keepsD)

lemma reads_eq: "reads m \<Longrightarrow> m w = (r, w') \<Longrightarrow> w_db w' = w_db w"
  unfolding reads_def by (metis snd_conv)

lemma safe_rules [safe]:
  "safe_fail (with_tx m)" "safe_fail (ret x)" "safe_fail (throw e)" "safe_fail (lift r)"
  "safe_fail k' \<Longrightarrow> safe_fail (guard_do b e k')"
  "safe_fail a \<Longrightarrow> safe_fail b' \<Longrightarrow> safe_fail (if c then a else b')"
  by (auto simp: safe_fail_def ret_def throw_def lift_def guard_do_def dest: with_tx_error)

lemma safe_reads: "reads m \<Longrightarrow> safe_fail m"
  by (auto simp: safe_fail_def dest: reads_eq)

lemma safe_try_do:
  "reads m \<Longrightarrow> (\<And>x. safe_fail (k x)) \<Longrightarrow> safe_fail (try_do m w k)"
  unfolding safe_fail_def try_do_def
  by (auto split: sum.splits prod.splits dest: reads_eq)

lemma safe_try_do_keeps [safe]:
  "(\<And>d. keeps (\<lambda>x. x = d) m) \<Longrightarrow> (\<And>x. safe_fail (k x)) \<Longrightarrow> safe_fail (try_do m w k)"
  by (rule safe_try_do [OF readsI])

lemma safe_then_ret [safe]: "safe_fail m \<Longrightarrow> safe_fail (try_do m w (\<lambda>x. ret (f x)))"
  unfolding safe_fail_def try_do_def ret_def by (auto split: sum.splits prod.splits)

lemma safe_then_ret' [safe]: "safe_fail m \<Longrightarrow> safe_fail (try_do m w ret)"
  using safe_then_ret [of m w "\<lambda>x. x"] by simp

section \<open>Runs without failures\<close>

definition quiet :: "world \<Rightarrow> bool" where
  "quiet w = (w_faults w = [] \<and> w_tx w \<noteq> TxAborted)"

lemma db_call_quiet:
  "quiet w \<Longrightarrow> \<not> is_db_error (fst (f (w_db w))) \<Longrightarrow>
   db_call f w = (fst (f (w_db w)), w\<lparr>w_db := snd (f (w_db w))\<rparr>)"
  by (cases w) (auto simp: quiet_def db_call_def Let_def split: prod.splits)

lemma q_many_quiet: "quiet w \<Longrightarrow> q_many f w = (Inr (f (w_db w)), w)"
  unfolding q_many_def by (subst db_call_quiet) simp_all

lemma q_one_quiet: "quiet w \<Longrightarrow> f (w_db w) = x # xs \<Longrightarrow> q_one f w = (Inr x, w)"
  unfolding q_one_def by (subst db_call_quiet) simp_all

section \<open>Randomness and time\<close>

definition draw :: "(nat \<Rightarrow> err + 'a) \<Rightarrow> 'a wop" where
  "draw f = (\<lambda>w. (f (w_rnd w), w\<lparr>w_rnd := Suc (w_rnd w)\<rparr>))"

definition seal_op :: "env \<Rightarrow> string \<Rightarrow> string wop" where
  "seal_op E p = draw (\<lambda>n. env_seal E (env_key E) n p)"

definition open_op :: "env \<Rightarrow> string \<Rightarrow> string wop" where
  "open_op E c = lift (env_open E (env_key E) c)"

lemma keeps_draw [pres]: "keeps J (draw f)" "keeps J (seal_op E p)" "keeps J (open_op E c)"
  by (simp_all add: seal_op_def open_op_def keeps_def preserves_def draw_def lift_def)

section \<open>Errors that are only logged\<close>

definition ignore_err :: "unit wop \<Rightarrow> unit wop" where
  "ignore_err m = attempt m (\<lambda>_. ret ())"

lemma keeps_ignore_err [pres]: "keeps J m \<Longrightarrow> keeps J (ignore_err m)"
  unfolding ignore_err_def by (intro pres)

section \<open>Weakest preconditions on the tables\<close>

text \<open>
  \<open>dwp m Q E d\<close>: started on the tables \<open>d\<close>, under every fault schedule, \<open>m\<close> ends with a value and
  tables in \<open>Q\<close> or with an error and tables in \<open>E\<close>.  The rules of \<open>vcg\<close> decompose a program.
\<close>

named_theorems vcg \<open>rules for operations on the tables\<close>
named_theorems query_defs \<open>the definitions of the queries\<close>

definition dwp :: "'a wop \<Rightarrow> ('a \<Rightarrow> db \<Rightarrow> bool) \<Rightarrow> (err \<Rightarrow> db \<Rightarrow> bool) \<Rightarrow> db \<Rightarrow> bool" where
  "dwp m Q E d = (\<forall>w. w_db w = d \<longrightarrow> wpo m (\<lambda>x w'. Q x (w_db w')) (\<lambda>e w'. E e (w_db w')) w)"

lemma dwp_Inr: "dwp m Q E (w_db w) \<Longrightarrow> m w = (Inr x, w') \<Longrightarrow> Q x (w_db w')"
  by (auto simp: dwp_def wpo_def)

lemma dwp_Inl: "dwp m Q E (w_db w) \<Longrightarrow> m w = (Inl e, w') \<Longrightarrow> E e (w_db w')"
  by (auto simp: dwp_def wpo_def)

lemma dwp_outcome:
  "dwp m Q E (w_db w) \<Longrightarrow> case m w of (Inr x, w') \<Rightarrow> Q x (w_db w') | (Inl e, w') \<Rightarrow> E e (w_db w')"
  by (auto simp: dwp_def wpo_def split: prod.splits sum.splits)

lemma dwp_snd: "dwp m (\<lambda>_. J) (\<lambda>_. J) (w_db w) \<Longrightarrow> J (w_db (snd (m w)))"
  by (cases "m w"; cases "fst (m w)") (auto simp: dwp_def wpo_def)

lemma dwp_mono:
  "dwp m Q E d \<Longrightarrow> (\<And>x d'. Q x d' \<Longrightarrow> Q' x d') \<Longrightarrow> (\<And>e d'. E e d' \<Longrightarrow> E' e d') \<Longrightarrow> dwp m Q' E' d"
  unfolding dwp_def by (blast intro: wpo_mono)

lemma dwp_basic [vcg]:
  "Q x d \<Longrightarrow> dwp (ret x) Q E d"
  "E e d \<Longrightarrow> dwp (throw e) Q E d"
  "(\<And>x. r = Inr x \<Longrightarrow> Q x d) \<Longrightarrow> (\<And>e. r = Inl e \<Longrightarrow> E e d) \<Longrightarrow> dwp (lift r) Q E d"
  by (auto simp: dwp_def wp split: sum.split)

lemma dwp_gets [vcg]: "(\<And>w. w_db w = d \<Longrightarrow> Q (f w) d) \<Longrightarrow> dwp (gets f) Q E d"
  by (auto simp: dwp_def wp)

lemma dwp_try_do [vcg]:
  "dwp m (\<lambda>x. dwp (k x) Q E) (\<lambda>e. E (w e)) d \<Longrightarrow> dwp (try_do m w k) Q E d"
  by (auto simp: dwp_def wp elim!: wpo_mono)

lemma dwp_attempt [vcg]:
  "dwp m (\<lambda>x. dwp (k (Inr x)) Q E) (\<lambda>e d'. (e = Panic \<longrightarrow> E Panic d') \<and> (e \<noteq> Panic \<longrightarrow> dwp (k (Inl e)) Q E d')) d
   \<Longrightarrow> dwp (attempt m k) Q E d"
  by (auto simp: dwp_def wp elim!: wpo_mono)

lemma dwp_guard_do [vcg]:
  "(b \<Longrightarrow> E e d) \<Longrightarrow> (\<not> b \<Longrightarrow> dwp k Q E d) \<Longrightarrow> dwp (guard_do b e k) Q E d"
  by (auto simp: dwp_def wp)

lemma dwp_when_do [vcg]:
  "(b \<Longrightarrow> dwp m Q E d) \<Longrightarrow> (\<not> b \<Longrightarrow> Q () d) \<Longrightarrow> dwp (when_do b m) Q E d"
  by (auto simp: dwp_def wp)

lemma dwp_cases [vcg]:
  "(c \<Longrightarrow> dwp m Q E d) \<Longrightarrow> (\<not> c \<Longrightarrow> dwp m' Q E d) \<Longrightarrow> dwp (if c then m else m') Q E d"
  "(\<And>x y. pr = (x, y) \<Longrightarrow> dwp (p x y) Q E d) \<Longrightarrow> dwp (case pr of (x, y) \<Rightarrow> p x y) Q E d"
  "(opt = None \<Longrightarrow> dwp n Q E d) \<Longrightarrow> (\<And>x. opt = Some x \<Longrightarrow> dwp (h x) Q E d) \<Longrightarrow>
   dwp (case opt of None \<Rightarrow> n | Some x \<Rightarrow> h x) Q E d"
  "(\<And>e. r = Inl e \<Longrightarrow> dwp (f e) Q E d) \<Longrightarrow> (\<And>x. r = Inr x \<Longrightarrow> dwp (g x) Q E d) \<Longrightarrow>
   dwp (case r of Inl e \<Rightarrow> f e | Inr x \<Rightarrow> g x) Q E d"
  "dwp (q z) Q E d \<Longrightarrow> dwp (Let z q) Q E d"
  by (auto split: prod.split option.split sum.split)

lemma dwp_for_each:
  assumes "I xs d" and "\<And>x xs d. I (x # xs) d \<Longrightarrow> dwp (f x) (\<lambda>_. I xs) E d"
    and "\<And>d. I [] d \<Longrightarrow> Q () d"
  shows "dwp (for_each f xs) Q E d"
  using assms unfolding dwp_def by (auto intro!: wpo_for_each_inv [where I = "\<lambda>xs w. I xs (w_db w)"])

lemma dwp_for_fold:
  assumes "I acc xs d" and "\<And>acc x xs d. I acc (x # xs) d \<Longrightarrow> dwp (f acc x) (\<lambda>a. I a xs) E d"
    and "\<And>acc d. I acc [] d \<Longrightarrow> Q acc d"
  shows "dwp (for_fold f acc xs) Q E d"
  using assms unfolding dwp_def
  by (auto intro!: wpo_for_fold_inv [where I = "\<lambda>a xs w. I a xs (w_db w)"])

lemma dwp_for_map_reads:
  assumes "\<And>x. x \<in> set xs \<Longrightarrow> dwp (f x) (\<lambda>y d'. d' = d \<and> R x y) E d"
    and "\<And>ys. list_all2 R xs ys \<Longrightarrow> Q ys d"
  shows "dwp (for_map f xs) Q E d"
  unfolding for_map_def
proof (rule dwp_for_fold [where I = "\<lambda>acc ys d'. d' = d \<and> (\<exists>zs. xs = zs @ ys \<and> list_all2 R zs acc)"])
  fix acc x ys d'
  assume I: "d' = d \<and> (\<exists>zs. xs = zs @ x # ys \<and> list_all2 R zs acc)"
  then have "dwp (f x) (\<lambda>y d'. d' = d \<and> R x y) E d" by (intro assms) auto
  then show "dwp (bind_do (f x) (\<lambda>y. ret (acc @ [y])))
      (\<lambda>a d'. d' = d \<and> (\<exists>zs. xs = zs @ ys \<and> list_all2 R zs a)) E d'"
    using I by (auto intro!: vcg elim!: dwp_mono intro: exI [of _ "_ @ [x]"] list_all2_appendI)
qed (use assms in auto)

lemma dwp_db_call:
  "E DbError d \<Longrightarrow> (\<And>e d'. f d = (Inl e, d') \<Longrightarrow> E e d') \<Longrightarrow> (\<And>x d'. f d = (Inr x, d') \<Longrightarrow> Q x d') \<Longrightarrow>
   dwp (db_call f) Q E d"
  by (auto simp: dwp_def wpo_def db_call_def Let_def split: prod.splits sum.splits if_splits)

lemma dwp_q_many: "E DbError d \<Longrightarrow> Q (f d) d \<Longrightarrow> dwp (q_many f) Q E d"
  unfolding q_many_def by (rule dwp_db_call) auto

lemma dwp_q_one:
  "E DbError d \<Longrightarrow> (f d = [] \<Longrightarrow> E no_rows d) \<Longrightarrow> (\<And>x xs. f d = x # xs \<Longrightarrow> Q x d) \<Longrightarrow>
   dwp (q_one f) Q E d"
  unfolding q_one_def by (rule dwp_db_call) (auto split: list.splits)

lemma dwp_q_exec: "E DbError d \<Longrightarrow> (ok d \<Longrightarrow> Q () (f d)) \<Longrightarrow> dwp (q_exec ok f) Q E d"
  unfolding q_exec_def by (rule dwp_db_call) (auto split: if_splits)

lemma dwp_q_update:
  "E DbError d \<Longrightarrow> (filter p (get d) = [] \<Longrightarrow> E no_rows d) \<Longrightarrow>
   (\<And>r rs. filter p (get d) = r # rs \<Longrightarrow> Q (f r) (upd (map (\<lambda>x. if p x then f x else x)) d)) \<Longrightarrow>
   dwp (q_update get upd p f) Q E d"
  unfolding q_update_def by (rule dwp_db_call) (auto split: list.splits)

lemma dwp_q_update_rows:
  "E DbError d \<Longrightarrow>
   Q (length (filter (p d) (get d))) (upd (map (\<lambda>x. if p d x then f x else x)) d) \<Longrightarrow>
   dwp (q_update_rows get upd p f) Q E d"
  unfolding q_update_rows_def by (rule dwp_db_call) auto

lemma dwp_nextval: "(\<And>i. Q i d) \<Longrightarrow> dwp (nextval n) Q E d"
  by (auto simp: dwp_def wpo_def nextval_def)

lemma dwp_q_insert:
  "E DbError d \<Longrightarrow> (\<And>i. ok d \<Longrightarrow> Q (mk i) (upd (\<lambda>rs. rs @ [mk i]) d)) \<Longrightarrow>
   dwp (q_insert n upd ok mk) Q E d"
  unfolding q_insert_def
  by (rule dwp_try_do, rule dwp_nextval, rule dwp_db_call) (auto split: if_splits)

lemmas dwp_queries [vcg] = dwp_q_many dwp_q_one dwp_q_exec dwp_q_update dwp_q_update_rows dwp_q_insert

lemma dwp_draw [vcg]:
  "(\<And>n x. g n = Inr x \<Longrightarrow> Q x d) \<Longrightarrow> (\<And>n e. g n = Inl e \<Longrightarrow> E e d) \<Longrightarrow> dwp (draw g) Q E d"
  by (auto simp: dwp_def wpo_def draw_def split: sum.split)

lemma dwp_seal [vcg]:
  "(\<And>n x. env_seal V (env_key V) n p = Inr x \<Longrightarrow> Q x d) \<Longrightarrow> (\<And>e. E e d) \<Longrightarrow> dwp (seal_op V p) Q E d"
  unfolding seal_op_def by (rule dwp_draw) auto

lemma dwp_open [vcg]:
  "(\<And>x. env_open V (env_key V) c = Inr x \<Longrightarrow> Q x d) \<Longrightarrow> (\<And>e. E e d) \<Longrightarrow> dwp (open_op V c) Q E d"
  unfolding open_op_def by (rule dwp_basic(3)) auto

lemma dwp_reads: "reads m \<Longrightarrow> (\<And>x. Q x d) \<Longrightarrow> (\<And>e. E e d) \<Longrightarrow> dwp m Q E d"
  by (auto simp: dwp_def wpo_def dest: reads_eq split: sum.split prod.split)

lemma dwp_keeps:
  "keeps J m \<Longrightarrow> J d \<Longrightarrow> (\<And>x d'. J d' \<Longrightarrow> Q x d') \<Longrightarrow> (\<And>e d'. J d' \<Longrightarrow> E e d') \<Longrightarrow> dwp m Q E d"
  by (auto simp: dwp_def wpo_def dest: keeps_outcome split: sum.split prod.split)

text \<open>The body of a transaction is verified with the failures undone.\<close>

lemma tx_step_error: "db_call (\<lambda>d. (Inr (), d)) w = (Inl e, w') \<Longrightarrow> e = DbError"
  by (auto simp: db_call_def Let_def split: if_splits)

lemma with_tx_cause:
  assumes "with_tx m w = (Inl e, w')"
  shows "(\<exists>l. e = Errorf l [DbError]) \<or> (\<exists>w1 w2. w_db w1 = w_db w \<and> m w1 = (Inl e, w2))"
proof (cases "db_call (\<lambda>d. (Inr (), d)) w")
  case (Pair r w1)
  show ?thesis
  proof (cases r)
    case (Inl x)
    with Pair assms tx_step_error [of w x w1] show ?thesis by (auto simp: with_tx_def wrapw_def)
  next
    case (Inr u)
    with Pair have w1: "w_db (w1\<lparr>w_tx := InTx\<rparr>) = w_db w" by (auto dest: db_call_noop)
    obtain r2 w2 where m: "m (w1\<lparr>w_tx := InTx\<rparr>) = (r2, w2)" by fastforce
    show ?thesis
    proof (cases r2)
      case (Inl e')
      with assms Pair Inr m have "e' = e" by (simp add: with_tx_def)
      with Inl m w1 show ?thesis by blast
    next
      case Inr2: (Inr x)
      with assms Pair Inr m show ?thesis
        by (auto simp: with_tx_def wrapw_def split: prod.splits sum.splits if_splits
            dest!: tx_step_error)
    qed
  qed
qed

lemma dwp_with_tx [vcg]:
  assumes "dwp m Q (\<lambda>e _. E e d) d" and "\<And>l. E (Errorf l [DbError]) d"
  shows "dwp (with_tx m) Q E d"
  unfolding dwp_def
proof (intro allI impI wpoI)
  fix w x w' assume d: "w_db w = d" and run: "with_tx m w = (Inr x, w')"
  then obtain w1 w2 where "w_db w1 = w_db w" "m w1 = (Inr x, w2)" "w_db w' = w_db w2"
    by (auto elim: with_tx_ok)
  with assms(1) d show "Q x (w_db w')" by (metis dwp_Inr)
next
  fix w e w' assume d: "w_db w = d" and run: "with_tx m w = (Inl e, w')"
  have "E e d" if "w_db w1 = d" "m w1 = (Inl e, w2)" for w1 w2
    using assms(1) that dwp_Inl [of m Q "\<lambda>e _. E e d" w1 e w2] by simp
  with with_tx_cause [OF run] with_tx_error [OF run] d assms(2) show "E e (w_db w')" by auto
qed

lemma dwp_ignore_err [vcg]:
  "dwp m Q (\<lambda>e d'. (e = Panic \<longrightarrow> E Panic d') \<and> (e \<noteq> Panic \<longrightarrow> Q () d')) d \<Longrightarrow>
   dwp (ignore_err m) Q E d"
  unfolding ignore_err_def by (rule dwp_attempt) (auto elim!: dwp_mono intro: vcg)

section \<open>Shapes of errors\<close>

text \<open>\<open>if err == pgx.ErrNoRows { return E }\<close> before the general case.\<close>

definition on_no_rows :: "err \<Rightarrow> (err \<Rightarrow> err) \<Rightarrow> err \<Rightarrow> err" where
  "on_no_rows x w e = (if e = no_rows then x else w e)"

text \<open>\<open>fmt.Errorf("%w: ...: %v", S, err)\<close> and \<open>fmt.Errorf("%w: ...: %w", S, err)\<close>.\<close>

definition under :: "sentinel \<Rightarrow> string \<Rightarrow> err \<Rightarrow> err" where
  "under s l e = (if e = Panic then Panic else Errorf l [Sentinel s])"

definition under_both :: "sentinel \<Rightarrow> string \<Rightarrow> err \<Rightarrow> err" where
  "under_both s l e = (if e = Panic then Panic else Errorf l [Sentinel s, e])"

definition new_under :: "sentinel \<Rightarrow> string \<Rightarrow> err" where
  "new_under s l = Errorf l [Sentinel s]"

lemma errors_is_under [simp]:
  "e \<noteq> Panic \<Longrightarrow> errors_is (under s l e) t \<longleftrightarrow> s = t"
  "e \<noteq> Panic \<Longrightarrow> errors_is (under_both s l e) t \<longleftrightarrow> s = t \<or> errors_is e t"
  "errors_is (new_under s l) t \<longleftrightarrow> s = t"
  by (auto simp: under_def under_both_def new_under_def)

end
