(* ===== verification/Queries.thy ===== *)
theory Queries
  imports Store
begin

text \<open>
  The queries of \<open>src/db/query.sql\<close> (methods of \<open>Queries\<close> in \<open>src/db/query.sql.go\<close>) over the
  tables of \<open>Store\<close>.  A definition carries the name of its query.  Joins go through primary
  keys, so a joined row appears at most once.
\<close>

section \<open>Users and their second factors\<close>

definition GetAllUsers :: "user_row list wop" where
  "GetAllUsers = q_many (\<lambda>d. sort_key u_id (db_users d))"

definition GetUserByUsername :: "string \<Rightarrow> user_row wop" where
  "GetUserByUsername n = q_one (\<lambda>d. filter (\<lambda>u. u_username u = n) (db_users d))"

definition GetUserByID :: "int \<Rightarrow> user_row wop" where
  "GetUserByID i = q_one (\<lambda>d. filter (\<lambda>u. u_id u = i) (db_users d))"

definition UsernameCheck :: "string \<Rightarrow> unit wop" where
  "UsernameCheck n = q_one (\<lambda>d. map (\<lambda>_. ()) (filter (\<lambda>u. u_username u = n) (db_users d)))"

definition UserIDCheck :: "int \<Rightarrow> unit wop" where
  "UserIDCheck i = q_one (\<lambda>d. map (\<lambda>_. ()) (filter (\<lambda>u. u_id u = i) (db_users d)))"

definition UserExists :: "int \<Rightarrow> bool wop" where
  "UserExists i = q_many (\<lambda>d. list_ex (\<lambda>u. u_id u = i) (db_users d))"

text \<open>The identifier is the primary key.\<close>

definition InsertUser :: "user_row \<Rightarrow> user_row wop" where
  "InsertUser u = bind_do (nextval SeqUser) (\<lambda>i. db_call (\<lambda>d.
     if list_ex (\<lambda>x. u_id x = i) (db_users d) then (Inl DbError, d)
     else (Inr (u\<lparr>u_id := i\<rparr>), db_users_update (\<lambda>rs. rs @ [u\<lparr>u_id := i\<rparr>]) d)))"

definition UpdateUser :: "int \<Rightarrow> string \<Rightarrow> bool \<Rightarrow> string \<Rightarrow> string \<Rightarrow> int \<Rightarrow> user_row wop" where
  "UpdateUser i name adm mfa ntf now =
     q_update db_users db_users_update (\<lambda>u. u_id u = i)
       (\<lambda>u. u\<lparr>u_username := name, u_is_admin := adm, u_mfa_auth := mfa, u_ntf := ntf,
             u_updated_at := now\<rparr>)"

definition UpdateUserPwd :: "string \<Rightarrow> int \<Rightarrow> int \<Rightarrow> user_row wop" where
  "UpdateUserPwd pw now i =
     q_update db_users db_users_update (\<lambda>u. u_id u = i) (\<lambda>u. u\<lparr>u_password := pw, u_updated_at := now\<rparr>)"

definition UpdateUserEditTime :: "int \<Rightarrow> int \<Rightarrow> user_row wop" where
  "UpdateUserEditTime now i =
     q_update db_users db_users_update (\<lambda>u. u_id u = i) (\<lambda>u. u\<lparr>u_updated_at := now\<rparr>)"

definition CountUsers :: "int wop" where
  "CountUsers = q_many (\<lambda>d. int (length (db_users d)))"

definition GetUserTOTP :: "int \<Rightarrow> totp_row wop" where
  "GetUserTOTP u = q_one (\<lambda>d. filter (\<lambda>t. totp_user t = u) (db_totp d))"

definition InsertUserTOTP :: "string \<Rightarrow> int \<Rightarrow> totp_row wop" where
  "InsertUserTOTP key u = db_call (\<lambda>d.
     let t = \<lparr>totp_user = u, totp_key = key, totp_counter = 0\<rparr> in
     if list_ex (\<lambda>x. u_id x = u) (db_users d) then (Inr t, d\<lparr>db_totp := db_totp d @ [t]\<rparr>)
     else (Inl DbError, d))"

definition UpdateUserTOTP :: "string \<Rightarrow> int \<Rightarrow> totp_row wop" where
  "UpdateUserTOTP key u =
     q_update db_totp db_totp_update (\<lambda>t. totp_user t = u) (\<lambda>t. t\<lparr>totp_key := key, totp_counter := 0\<rparr>)"

text \<open>The counter only ever grows: the row is matched on a smaller stored value.\<close>

definition TryToUpdateUserTOTPCounter :: "int \<Rightarrow> int \<Rightarrow> totp_row wop" where
  "TryToUpdateUserTOTPCounter c u =
     q_update db_totp db_totp_update (\<lambda>t. totp_user t = u \<and> totp_counter t < c)
       (\<lambda>t. t\<lparr>totp_counter := c\<rparr>)"

definition GetMFACertsByType :: "string \<Rightarrow> mfa_cert_row list wop" where
  "GetMFACertsByType ty = q_many (\<lambda>d. filter (\<lambda>c. mc_type c = ty) (db_mfa_certs d))"

definition InsertMFACert :: "string \<Rightarrow> string \<Rightarrow> mfa_cert_row wop" where
  "InsertMFACert c ty =
     q_insert SeqCert db_mfa_certs_update (\<lambda>d. True) (\<lambda>i. \<lparr>mc_id = i, mc_cert = c, mc_type = ty\<rparr>)"

definition DeleteMFACert :: "int \<Rightarrow> unit wop" where
  "DeleteMFACert i = q_exec (\<lambda>d. True) (db_mfa_certs_update (filter (\<lambda>c. mc_id c \<noteq> i)))"

section \<open>Cascading deletes\<close>

text \<open>
  Deleting devices removes their addresses; it is refused while an adjacency refers to one of
  them (\<open>ON DELETE RESTRICT\<close>).
\<close>

definition devices_free :: "(device_row \<Rightarrow> bool) \<Rightarrow> db \<Rightarrow> bool" where
  "devices_free p d =
     list_all (\<lambda>v. p v \<longrightarrow> \<not> list_ex (\<lambda>a. adj_device a = d_id v) (db_adjs d)) (db_devices d)"

definition drop_devices :: "(device_row \<Rightarrow> bool) \<Rightarrow> db \<Rightarrow> db" where
  "drop_devices p d =
     (let gone = map d_id (filter p (db_devices d)) in
      d\<lparr>db_devices := filter (\<lambda>v. \<not> p v) (db_devices d),
        db_daddrs := filter (\<lambda>(i, _). i \<notin> set gone) (db_daddrs d)\<rparr>)"

definition drop_templates :: "(device_template_row \<Rightarrow> bool) \<Rightarrow> db \<Rightarrow> db" where
  "drop_templates p d =
     (let gone = map dt_id (filter p (db_templates d));
          d' = drop_devices (\<lambda>v. d_template v \<in> set gone) d
      in d'\<lparr>db_templates := filter (\<lambda>t. \<not> p t) (db_templates d),
            db_tpools := filter (\<lambda>(i, _). i \<notin> set gone) (db_tpools d),
            db_tdns := filter (\<lambda>(i, _). i \<notin> set gone) (db_tdns d)\<rparr>)"

definition templates_free :: "(device_template_row \<Rightarrow> bool) \<Rightarrow> db \<Rightarrow> bool" where
  "templates_free p d =
     (let gone = map dt_id (filter p (db_templates d)) in
      devices_free (\<lambda>v. d_template v \<in> set gone) d)"

definition DeleteUser :: "int \<Rightarrow> int wop" where
  "DeleteUser i = db_call (\<lambda>d.
     if \<not> templates_free (\<lambda>t. dt_user t = i) d then (Inl DbError, d)
     else (Inr (int (length (filter (\<lambda>u. u_id u = i) (db_users d)))),
           (drop_templates (\<lambda>t. dt_user t = i) d)
             \<lparr>db_users := filter (\<lambda>u. u_id u \<noteq> i) (db_users d),
              db_totp := filter (\<lambda>t. totp_user t \<noteq> i) (db_totp d),
              db_uldaps := filter (\<lambda>l. ul_user l \<noteq> i) (db_uldaps d),
              db_atemplates := filter (\<lambda>a. at_user a \<noteq> i) (db_atemplates d)\<rparr>))"

definition drop_scfgs :: "(server_cfg_row \<Rightarrow> bool) \<Rightarrow> db \<Rightarrow> db" where
  "drop_scfgs p d =
     (let gone = map sc_id (filter p (db_scfgs d)) in
      d\<lparr>db_scfgs := filter (\<lambda>c. \<not> p c) (db_scfgs d),
        db_saddrs := filter (\<lambda>(i, _). i \<notin> set gone) (db_saddrs d),
        db_sdns := filter (\<lambda>(i, _). i \<notin> set gone) (db_sdns d)\<rparr>)"

definition DeleteServer :: "int \<Rightarrow> unit wop" where
  "DeleteServer i = q_exec (\<lambda>d. True) (\<lambda>d.
     (drop_scfgs (\<lambda>c. sc_server c = i) d)
       \<lparr>db_servers := filter (\<lambda>s. s_id s \<noteq> i) (db_servers d),
        db_adjs := filter (\<lambda>a. adj_server a \<noteq> i) (db_adjs d),
        db_atemplates := filter (\<lambda>a. at_server a \<noteq> i) (db_atemplates d),
        db_lts := filter (\<lambda>l. lts_server l \<noteq> i) (db_lts d),
        db_tags := filter (\<lambda>(s, _). s \<noteq> i) (db_tags d)\<rparr>)"

section \<open>Servers\<close>

definition ServerIDCheck :: "int \<Rightarrow> unit wop" where
  "ServerIDCheck i = q_one (\<lambda>d. map (\<lambda>_. ()) (filter (\<lambda>s. s_id s = i) (db_servers d)))"

definition ServerNameCheck :: "string \<Rightarrow> unit wop" where
  "ServerNameCheck n = q_one (\<lambda>d. map (\<lambda>_. ()) (filter (\<lambda>s. s_name s = n) (db_servers d)))"

definition GetAllServers :: "server_row list wop" where
  "GetAllServers = q_many db_servers"

definition GetServerByID :: "int \<Rightarrow> server_row wop" where
  "GetServerByID i = q_one (\<lambda>d. filter (\<lambda>s. s_id s = i) (db_servers d))"

definition GetServerByName :: "string \<Rightarrow> server_row wop" where
  "GetServerByName n = q_one (\<lambda>d. filter (\<lambda>s. s_name s = n) (db_servers d))"

definition InsertServer :: "server_row \<Rightarrow> server_row wop" where
  "InsertServer s = q_insert SeqServer db_servers_update (\<lambda>d. True) (\<lambda>i. s\<lparr>s_id := i, s_replicas := 0\<rparr>)"

definition UpdateServerRow :: "int \<Rightarrow> string \<Rightarrow> addr \<Rightarrow> string \<Rightarrow> addr option \<Rightarrow> server_row wop" where
  "UpdateServerRow i name ep descr hc =
     q_update db_servers db_servers_update (\<lambda>s. s_id s = i)
       (\<lambda>s. s\<lparr>s_name := name, s_endpoint := ep, s_description := descr, s_healthcheck := hc\<rparr>)"

definition GetServerTags :: "int \<Rightarrow> string list wop" where
  "GetServerTags i = q_many (\<lambda>d. map snd (filter (\<lambda>(s, _). s = i) (db_tags d)))"

definition GetServerWireGuardConfig :: "int \<Rightarrow> server_cfg_row wop" where
  "GetServerWireGuardConfig i = q_one (\<lambda>d. filter (\<lambda>c. sc_server c = i) (db_scfgs d))"

definition InsertServerWireGuardConfig :: "server_cfg_row \<Rightarrow> server_cfg_row wop" where
  "InsertServerWireGuardConfig c =
     q_insert SeqScfg db_scfgs_update (\<lambda>d. list_ex (\<lambda>s. s_id s = sc_server c) (db_servers d))
       (\<lambda>i. c\<lparr>sc_id := i\<rparr>)"

definition UpdateServerWireGuardConfig :: "server_cfg_row \<Rightarrow> server_cfg_row wop" where
  "UpdateServerWireGuardConfig c =
     q_update db_scfgs db_scfgs_update (\<lambda>x. sc_server x = sc_server c)
       (\<lambda>x. x\<lparr>sc_iface := sc_iface c, sc_private_key := sc_private_key c,
             sc_public_key := sc_public_key c, sc_port := sc_port c, sc_mtu := sc_mtu c,
             sc_keepalive := sc_keepalive c\<rparr>)"

definition GetServerWireGuardIfaceAddrs :: "int \<Rightarrow> prefix list wop" where
  "GetServerWireGuardIfaceAddrs c = q_many (\<lambda>d. map snd (filter (\<lambda>(i, _). i = c) (db_saddrs d)))"

definition GetServerWireGuardIfaceDNSs :: "int \<Rightarrow> string list wop" where
  "GetServerWireGuardIfaceDNSs c = q_many (\<lambda>d. map snd (filter (\<lambda>(i, _). i = c) (db_sdns d)))"

definition InsertServerWireGuardIfaceAddr :: "int \<Rightarrow> prefix \<Rightarrow> unit wop" where
  "InsertServerWireGuardIfaceAddr c p =
     q_exec (\<lambda>d. list_ex (\<lambda>x. sc_id x = c) (db_scfgs d)) (db_saddrs_update (\<lambda>l. l @ [(c, p)]))"

definition InsertServerWireGuardIfaceDNS :: "int \<Rightarrow> string \<Rightarrow> unit wop" where
  "InsertServerWireGuardIfaceDNS c s =
     q_exec (\<lambda>d. list_ex (\<lambda>x. sc_id x = c) (db_scfgs d)) (db_sdns_update (\<lambda>l. l @ [(c, s)]))"

definition DeleteServerWireGuardIfaceAddrs :: "int \<Rightarrow> unit wop" where
  "DeleteServerWireGuardIfaceAddrs c = q_exec (\<lambda>d. True) (db_saddrs_update (filter (\<lambda>(i, _). i \<noteq> c)))"

definition DeleteServerWireGuardDNS :: "int \<Rightarrow> unit wop" where
  "DeleteServerWireGuardDNS c = q_exec (\<lambda>d. True) (db_sdns_update (filter (\<lambda>(i, _). i \<noteq> c)))"

definition GetWireGuardIfaceAllAddrs :: "prefix list wop" where
  "GetWireGuardIfaceAllAddrs = q_many (\<lambda>d. map snd (db_daddrs d) @ map snd (db_saddrs d))"

section \<open>Device templates and address pools\<close>

definition DeviceTemplateExists :: "int \<Rightarrow> unit wop" where
  "DeviceTemplateExists i = q_one (\<lambda>d. map (\<lambda>_. ()) (filter (\<lambda>t. dt_id t = i) (db_templates d)))"

definition GetDeviceTemplateByID :: "int \<Rightarrow> device_template_row wop" where
  "GetDeviceTemplateByID i = q_one (\<lambda>d. filter (\<lambda>t. dt_id t = i) (db_templates d))"

definition GetDeviceTemplateByUserID :: "int \<Rightarrow> device_template_row wop" where
  "GetDeviceTemplateByUserID u = q_one (\<lambda>d. filter (\<lambda>t. dt_user t = u) (db_templates d))"

definition InsertDeviceTemplate :: "device_template_row \<Rightarrow> device_template_row wop" where
  "InsertDeviceTemplate t =
     q_insert SeqTemplate db_templates_update (\<lambda>d. list_ex (\<lambda>u. u_id u = dt_user t) (db_users d))
       (\<lambda>i. t\<lparr>dt_id := i\<rparr>)"

definition UpdateDeviceTemplateByUserID ::
  "int \<Rightarrow> string \<Rightarrow> int option \<Rightarrow> int option \<Rightarrow> device_template_row wop" where
  "UpdateDeviceTemplateByUserID u n port mtu =
     q_update db_templates db_templates_update (\<lambda>t. dt_user t = u)
       (\<lambda>t. t\<lparr>dt_iface := n, dt_port := port, dt_mtu := mtu\<rparr>)"

definition DeleteDeviceTemplate :: "int \<Rightarrow> unit wop" where
  "DeleteDeviceTemplate i =
     q_exec (templates_free (\<lambda>t. dt_id t = i)) (drop_templates (\<lambda>t. dt_id t = i))"

definition GetDeviceTemplateAddressPoolIDs :: "int \<Rightarrow> int list wop" where
  "GetDeviceTemplateAddressPoolIDs i = q_many (\<lambda>d. map snd (filter (\<lambda>(t, _). t = i) (db_tpools d)))"

definition template_pools :: "int \<Rightarrow> db \<Rightarrow> address_pool list" where
  "template_pools i d =
     concat (map (\<lambda>p. map (\<lambda>_. p) (filter (\<lambda>(t, q). t = i \<and> q = ap_id p) (db_tpools d))) (db_pools d))"

definition GetDeviceTemplateAddressPools :: "int \<Rightarrow> address_pool list wop" where
  "GetDeviceTemplateAddressPools i = q_many (template_pools i)"

definition InsertDeviceTemplateAddressPool :: "int \<Rightarrow> int \<Rightarrow> unit wop" where
  "InsertDeviceTemplateAddressPool t p =
     q_exec (\<lambda>d. list_ex (\<lambda>x. dt_id x = t) (db_templates d) \<and> list_ex (\<lambda>x. ap_id x = p) (db_pools d))
       (db_tpools_update (\<lambda>l. l @ [(t, p)]))"

definition DeleteDeviceTemplateAddressPools :: "int \<Rightarrow> unit wop" where
  "DeleteDeviceTemplateAddressPools i = q_exec (\<lambda>d. True) (db_tpools_update (filter (\<lambda>(t, _). t \<noteq> i)))"

definition GetDeviceTemplateWireGuardIfaceDNSs :: "int \<Rightarrow> string list wop" where
  "GetDeviceTemplateWireGuardIfaceDNSs i = q_many (\<lambda>d. map snd (filter (\<lambda>(t, _). t = i) (db_tdns d)))"

definition InsertDeviceTemplateWireGuardIfaceDNS :: "int \<Rightarrow> string \<Rightarrow> unit wop" where
  "InsertDeviceTemplateWireGuardIfaceDNS t s =
     q_exec (\<lambda>d. list_ex (\<lambda>x. dt_id x = t) (db_templates d)) (db_tdns_update (\<lambda>l. l @ [(t, s)]))"

definition DeleteDeviceTemplateWireGuardDNS :: "int \<Rightarrow> unit wop" where
  "DeleteDeviceTemplateWireGuardDNS i = q_exec (\<lambda>d. True) (db_tdns_update (filter (\<lambda>(t, _). t \<noteq> i)))"

definition InsertAddressPool :: "address_pool \<Rightarrow> address_pool wop" where
  "InsertAddressPool p = q_insert SeqPool db_pools_update (\<lambda>d. True) (\<lambda>i. p\<lparr>ap_id := i\<rparr>)"

definition GetAddressPoolByIDRow :: "int \<Rightarrow> address_pool wop" where
  "GetAddressPoolByIDRow i = q_one (\<lambda>d. filter (\<lambda>p. ap_id p = i) (db_pools d))"

definition GetAddressPoolByName :: "string \<Rightarrow> address_pool wop" where
  "GetAddressPoolByName n = q_one (\<lambda>d. filter (\<lambda>p. ap_name p = n) (db_pools d))"

definition GetAllAddressPoolRows :: "address_pool list wop" where
  "GetAllAddressPoolRows = q_many (\<lambda>d. sort_key ap_start (db_pools d))"

definition UpdateAddressPoolRow :: "address_pool \<Rightarrow> address_pool wop" where
  "UpdateAddressPoolRow p = q_update db_pools db_pools_update (\<lambda>x. ap_id x = ap_id p) (\<lambda>_. p)"

definition DeleteAddressPoolRow :: "int \<Rightarrow> int wop" where
  "DeleteAddressPoolRow i = db_call (\<lambda>d.
     if list_ex (\<lambda>(_, p). p = i) (db_tpools d) \<or> list_ex (\<lambda>(_, p). p = i) (db_ltpools d)
       then (Inl DbError, d)
     else case filter (\<lambda>p. ap_id p = i) (db_pools d) of
            [] \<Rightarrow> (Inl no_rows, d)
          | p # _ \<Rightarrow> (Inr (ap_id p), d\<lparr>db_pools := filter (\<lambda>p. ap_id p \<noteq> i) (db_pools d)\<rparr>))"

section \<open>Devices\<close>

definition template_of_user :: "db \<Rightarrow> int \<Rightarrow> int \<Rightarrow> bool" where
  "template_of_user d u t = list_ex (\<lambda>x. dt_id x = t \<and> dt_user x = u) (db_templates d)"

definition user_devices :: "int \<Rightarrow> db \<Rightarrow> device_row list" where
  "user_devices u d = filter (\<lambda>v. template_of_user d u (d_template v)) (db_devices d)"

definition InsertDevice :: "device_row \<Rightarrow> device_row wop" where
  "InsertDevice v =
     q_insert SeqDevice db_devices_update (\<lambda>d. list_ex (\<lambda>t. dt_id t = d_template v) (db_templates d))
       (\<lambda>i. v\<lparr>d_id := i, d_session := [], d_last_connected := None\<rparr>)"

definition GetDeviceByIDRow :: "int \<Rightarrow> device_row wop" where
  "GetDeviceByIDRow i = q_one (\<lambda>d. filter (\<lambda>v. d_id v = i) (db_devices d))"

definition GetDeviceByExternalIDAndUserID :: "string \<Rightarrow> int \<Rightarrow> device_row wop" where
  "GetDeviceByExternalIDAndUserID e u =
     q_one (\<lambda>d. filter (\<lambda>v. d_external_id v = e \<and> d_external_id v \<noteq> []) (user_devices u d))"

definition GetDeviceWithNoExternalIDByUserID :: "int \<Rightarrow> device_row wop" where
  "GetDeviceWithNoExternalIDByUserID u =
     q_one (\<lambda>d. filter (\<lambda>v. d_external_id v = []) (user_devices u d))"

definition GetDeviceWithNoSessionIDOrderedByTimestamp :: "int \<Rightarrow> device_row wop" where
  "GetDeviceWithNoSessionIDOrderedByTimestamp u =
     q_one (\<lambda>d. sort_key d_last_connected (filter (\<lambda>v. d_session v = []) (user_devices u d)))"

definition GetDeviceWithOldestTimestampByUserID :: "int \<Rightarrow> device_row wop" where
  "GetDeviceWithOldestTimestampByUserID u =
     q_one (\<lambda>d. sort_key d_last_connected (user_devices u d))"

definition UpdateDeviceFromConfiguration ::
  "int \<Rightarrow> string \<Rightarrow> string \<Rightarrow> int option \<Rightarrow> string option \<Rightarrow> device_row wop" where
  "UpdateDeviceFromConfiguration i e s t info =
     q_update db_devices db_devices_update (\<lambda>v. d_id v = i)
       (\<lambda>v. v\<lparr>d_external_id := e, d_session := s, d_last_connected := t, d_info := info\<rparr>)"

definition GetAllSessions :: "string list wop" where
  "GetAllSessions = q_many (\<lambda>d. filter (\<lambda>s. s \<noteq> []) (map d_session (db_devices d)))"

definition GetAllDevices :: "device_row list wop" where
  "GetAllDevices = q_many (\<lambda>d. sort_key d_id (db_devices d))"

definition UpdateDeviceRow :: "int \<Rightarrow> string \<Rightarrow> string \<Rightarrow> string \<Rightarrow> device_row wop" where
  "UpdateDeviceRow i descr priv pub =
     q_update db_devices db_devices_update (\<lambda>v. d_id v = i)
       (\<lambda>v. v\<lparr>d_description := descr, d_private_key := priv, d_public_key := pub\<rparr>)"

definition UpdateDeviceSessionAndLastTimeConnected :: "int \<Rightarrow> string \<Rightarrow> int option \<Rightarrow> device_row wop" where
  "UpdateDeviceSessionAndLastTimeConnected i s t =
     q_update db_devices db_devices_update (\<lambda>v. d_id v = i)
       (\<lambda>v. v\<lparr>d_session := s, d_last_connected := t\<rparr>)"

definition DeleteDeviceRow :: "int \<Rightarrow> int wop" where
  "DeleteDeviceRow i = db_call (\<lambda>d.
     if devices_free (\<lambda>v. d_id v = i) d
     then (Inr (int (length (filter (\<lambda>v. d_id v = i) (db_devices d)))), drop_devices (\<lambda>v. d_id v = i) d)
     else (Inl DbError, d))"

definition clear_session :: "device_row \<Rightarrow> device_row" where
  "clear_session v = v\<lparr>d_session := []\<rparr>"

definition InvalidateDeviceSession :: "int \<Rightarrow> device_row wop" where
  "InvalidateDeviceSession i = q_update db_devices db_devices_update (\<lambda>v. d_id v = i) clear_session"

definition InvalidateTemplateDeviceSessions :: "int \<Rightarrow> nat wop" where
  "InvalidateTemplateDeviceSessions t =
     q_update_rows db_devices db_devices_update (\<lambda>_ v. d_template v = t) clear_session"

definition InvalidateOldDeviceSessions :: "int \<Rightarrow> nat wop" where
  "InvalidateOldDeviceSessions t =
     q_update_rows db_devices db_devices_update
       (\<lambda>_ v. case d_last_connected v of None \<Rightarrow> False | Some c \<Rightarrow> c < t) clear_session"

definition cert_device :: "db \<Rightarrow> device_row \<Rightarrow> bool" where
  "cert_device d v =
     list_ex (\<lambda>t. dt_id t = d_template v \<and>
        list_ex (\<lambda>u. u_id u = dt_user t \<and> u_mfa_auth u = ''cert'') (db_users d)) (db_templates d)"

definition InvalidateAllDeviceSessionsWithCert :: "nat wop" where
  "InvalidateAllDeviceSessionsWithCert =
     q_update_rows db_devices db_devices_update cert_device clear_session"

definition InvalidateAllDeviceSessionsByServerID :: "int \<Rightarrow> nat wop" where
  "InvalidateAllDeviceSessionsByServerID s =
     q_update_rows db_devices db_devices_update
       (\<lambda>d v. list_ex (\<lambda>a. adj_device a = d_id v \<and> adj_server a = s) (db_adjs d)) clear_session"

definition GetDevicesByUserID :: "int \<Rightarrow> device_row list wop" where
  "GetDevicesByUserID u = q_many (user_devices u)"

definition GetDevicesByTemplateID :: "int \<Rightarrow> device_row list wop" where
  "GetDevicesByTemplateID t = q_many (\<lambda>d. filter (\<lambda>v. d_template v = t) (db_devices d))"

definition GetDeviceWireGuardIfaceAddrs :: "int \<Rightarrow> prefix list wop" where
  "GetDeviceWireGuardIfaceAddrs i = q_many (\<lambda>d. map snd (filter (\<lambda>(v, _). v = i) (db_daddrs d)))"

definition InsertDeviceWireGuardIfaceAddr :: "int \<Rightarrow> prefix \<Rightarrow> unit wop" where
  "InsertDeviceWireGuardIfaceAddr i p =
     q_exec (\<lambda>d. list_ex (\<lambda>v. d_id v = i) (db_devices d)) (db_daddrs_update (\<lambda>l. l @ [(i, p)]))"

definition DeleteDeviceWireGuardIfaceAddrs :: "int \<Rightarrow> unit wop" where
  "DeleteDeviceWireGuardIfaceAddrs i = q_exec (\<lambda>d. True) (db_daddrs_update (filter (\<lambda>(v, _). v \<noteq> i)))"

definition IsHealthCheckEnabledForDevice :: "int \<Rightarrow> bool wop" where
  "IsHealthCheckEnabledForDevice i = q_many (\<lambda>d.
     list_ex (\<lambda>a. adj_device a = i \<and>
       list_ex (\<lambda>s. s_id s = adj_server a \<and> s_healthcheck s \<noteq> None) (db_servers d)) (db_adjs d))"

section \<open>Adjacencies and adjacency templates\<close>

definition GetAdjacency :: "int \<Rightarrow> adjacency_row wop" where
  "GetAdjacency i = q_one (\<lambda>d. filter (\<lambda>a. adj_id a = i) (db_adjs d))"

text \<open>The rows joined with the configuration of the server.\<close>

definition GetDeviceWireGuardAdjacencies ::
  "int \<Rightarrow> (adjacency_row \<times> server_row \<times> server_cfg_row) list wop" where
  "GetDeviceWireGuardAdjacencies i = q_many (\<lambda>d.
     concat (map (\<lambda>a. concat (map (\<lambda>s. map (\<lambda>c. (a, s, c))
         (filter (\<lambda>c. sc_server c = adj_server a) (db_scfgs d)))
       (filter (\<lambda>s. s_id s = adj_server a) (db_servers d))))
     (filter (\<lambda>a. adj_device a = i) (db_adjs d))))"

text \<open>The rows joined with the device and its template.\<close>

definition GetServerWireGuardAdjacencies ::
  "int \<Rightarrow> (adjacency_row \<times> device_row \<times> device_template_row) list wop" where
  "GetServerWireGuardAdjacencies i = q_many (\<lambda>d.
     concat (map (\<lambda>a. concat (map (\<lambda>v. map (\<lambda>t. (a, v, t))
         (filter (\<lambda>t. dt_id t = d_template v) (db_templates d)))
       (filter (\<lambda>v. d_id v = adj_device a) (db_devices d))))
     (filter (\<lambda>a. adj_server a = i) (db_adjs d))))"

definition AdjacencyExists :: "int \<Rightarrow> int \<Rightarrow> bool wop" where
  "AdjacencyExists s v = q_many (\<lambda>d. list_ex (\<lambda>a. adj_server a = s \<and> adj_device a = v) (db_adjs d))"

definition AdjacencyTemplateExists :: "int \<Rightarrow> int \<Rightarrow> bool wop" where
  "AdjacencyTemplateExists s u = q_many (\<lambda>d. list_ex (\<lambda>a. at_server a = s \<and> at_user a = u) (db_atemplates d))"

definition AdjacencyTemplateExistsByID :: "int \<Rightarrow> bool wop" where
  "AdjacencyTemplateExistsByID i = q_many (\<lambda>d. list_ex (\<lambda>a. at_id a = i) (db_atemplates d))"

definition GetAdjacencyTemplateByID :: "int \<Rightarrow> adj_template_row wop" where
  "GetAdjacencyTemplateByID i = q_one (\<lambda>d. filter (\<lambda>a. at_id a = i) (db_atemplates d))"

definition GetUserAdjacencyTemplateRows :: "int \<Rightarrow> (adj_template_row \<times> server_row) list wop" where
  "GetUserAdjacencyTemplateRows u = q_many (\<lambda>d.
     concat (map (\<lambda>a. map (\<lambda>s. (a, s)) (filter (\<lambda>s. s_id s = at_server a) (db_servers d)))
       (filter (\<lambda>a. at_user a = u) (db_atemplates d))))"

definition InsertAdjacencyTemplate :: "adj_template_row \<Rightarrow> adj_template_row wop" where
  "InsertAdjacencyTemplate a =
     q_insert SeqAtemplate db_atemplates_update
       (\<lambda>d. list_ex (\<lambda>s. s_id s = at_server a) (db_servers d) \<and> list_ex (\<lambda>u. u_id u = at_user a) (db_users d))
       (\<lambda>i. a\<lparr>at_id := i\<rparr>)"

definition UpdateAdjacencyTemplateRow :: "int \<Rightarrow> int \<Rightarrow> prefix list \<Rightarrow> bool \<Rightarrow> adj_template_row wop" where
  "UpdateAdjacencyTemplateRow i s ips psk =
     q_update db_atemplates db_atemplates_update (\<lambda>a. at_id a = i)
       (\<lambda>a. a\<lparr>at_server := s, at_client_ips := ips, at_use_psk := psk\<rparr>)"

definition DeleteAdjacencyTemplateRow :: "int \<Rightarrow> unit wop" where
  "DeleteAdjacencyTemplateRow i = q_exec (\<lambda>d. True) (db_atemplates_update (filter (\<lambda>a. at_id a \<noteq> i)))"

definition GetAdjacencyTemplatesByServerID :: "int \<Rightarrow> adj_template_row list wop" where
  "GetAdjacencyTemplatesByServerID s = q_many (\<lambda>d. filter (\<lambda>a. at_server a = s) (db_atemplates d))"

definition GetAdjacenciesByServerID :: "int \<Rightarrow> adjacency_row list wop" where
  "GetAdjacenciesByServerID s = q_many (\<lambda>d. filter (\<lambda>a. adj_server a = s) (db_adjs d))"

definition UpdateAdjacencyClientSideAllowedIPs :: "int \<Rightarrow> prefix list \<Rightarrow> unit wop" where
  "UpdateAdjacencyClientSideAllowedIPs i ips =
     q_exec (\<lambda>d. True) (db_adjs_update (map (\<lambda>a. if adj_id a = i then a\<lparr>adj_client_ips := ips\<rparr> else a)))"

definition UpdateAdjacencyTemplateClientSideAllowedIPs :: "int \<Rightarrow> prefix list \<Rightarrow> unit wop" where
  "UpdateAdjacencyTemplateClientSideAllowedIPs i ips =
     q_exec (\<lambda>d. True) (db_atemplates_update (map (\<lambda>a. if at_id a = i then a\<lparr>at_client_ips := ips\<rparr> else a)))"

definition InsertAdjacency :: "adjacency_row \<Rightarrow> adjacency_row wop" where
  "InsertAdjacency a =
     q_insert SeqAdj db_adjs_update
       (\<lambda>d. list_ex (\<lambda>s. s_id s = adj_server a) (db_servers d) \<and> list_ex (\<lambda>v. d_id v = adj_device a) (db_devices d))
       (\<lambda>i. a\<lparr>adj_id := i\<rparr>)"

text \<open>\<open>COALESCE($5, server_side_allowed_ips)\<close>: a nil list keeps the stored addresses.\<close>

definition UpdateAdjacencyRow ::
  "int \<Rightarrow> int \<Rightarrow> int \<Rightarrow> string \<Rightarrow> prefix list option \<Rightarrow> prefix list \<Rightarrow> adjacency_row wop" where
  "UpdateAdjacencyRow i s v psk sips cips = db_call (\<lambda>d.
     if \<not> (list_ex (\<lambda>x. s_id x = s) (db_servers d) \<and> list_ex (\<lambda>x. d_id x = v) (db_devices d))
        \<and> list_ex (\<lambda>a. adj_id a = i) (db_adjs d)
     then (Inl DbError, d)
     else
       let f = (\<lambda>a. a\<lparr>adj_server := s, adj_device := v, adj_psk := psk,
                 adj_server_ips := (case sips of None \<Rightarrow> adj_server_ips a | Some l \<Rightarrow> l),
                 adj_client_ips := cips\<rparr>) in
       case filter (\<lambda>a. adj_id a = i) (db_adjs d) of
         [] \<Rightarrow> (Inl no_rows, d)
       | a # _ \<Rightarrow> (Inr (f a), db_adjs_update (map (\<lambda>x. if adj_id x = i then f x else x)) d))"

definition DeleteAdjacencyRow :: "int \<Rightarrow> unit wop" where
  "DeleteAdjacencyRow i = q_exec (\<lambda>d. True) (db_adjs_update (filter (\<lambda>a. adj_id a \<noteq> i)))"

definition GetLdapTemplateServersByServerID :: "int \<Rightarrow> ldap_template_server_row list wop" where
  "GetLdapTemplateServersByServerID s = q_many (\<lambda>d. filter (\<lambda>l. lts_server l = s) (db_lts d))"

definition UpdateLdapTemplateServerAllowedIPs :: "int \<Rightarrow> int \<Rightarrow> prefix list \<Rightarrow> unit wop" where
  "UpdateLdapTemplateServerAllowedIPs t s ips =
     q_exec (\<lambda>d. True) (db_lts_update
       (map (\<lambda>l. if lts_template l = t \<and> lts_server l = s then l\<lparr>lts_ips := ips\<rparr> else l)))"

lemmas [query_defs] = GetAllUsers_def GetUserByUsername_def GetUserByID_def UsernameCheck_def
  UserIDCheck_def UserExists_def InsertUser_def UpdateUser_def UpdateUserPwd_def
  UpdateUserEditTime_def CountUsers_def GetUserTOTP_def InsertUserTOTP_def UpdateUserTOTP_def
  TryToUpdateUserTOTPCounter_def GetMFACertsByType_def InsertMFACert_def DeleteMFACert_def
  DeleteUser_def DeleteServer_def ServerIDCheck_def ServerNameCheck_def GetAllServers_def
  GetServerByID_def GetServerByName_def InsertServer_def UpdateServerRow_def GetServerTags_def
  GetServerWireGuardConfig_def InsertServerWireGuardConfig_def UpdateServerWireGuardConfig_def
  GetServerWireGuardIfaceAddrs_def GetServerWireGuardIfaceDNSs_def
  InsertServerWireGuardIfaceAddr_def InsertServerWireGuardIfaceDNS_def
  DeleteServerWireGuardIfaceAddrs_def DeleteServerWireGuardDNS_def GetWireGuardIfaceAllAddrs_def
  DeviceTemplateExists_def GetDeviceTemplateByID_def GetDeviceTemplateByUserID_def
  InsertDeviceTemplate_def UpdateDeviceTemplateByUserID_def DeleteDeviceTemplate_def
  GetDeviceTemplateAddressPoolIDs_def GetDeviceTemplateAddressPools_def
  InsertDeviceTemplateAddressPool_def DeleteDeviceTemplateAddressPools_def
  GetDeviceTemplateWireGuardIfaceDNSs_def InsertDeviceTemplateWireGuardIfaceDNS_def
  DeleteDeviceTemplateWireGuardDNS_def InsertAddressPool_def GetAddressPoolByIDRow_def
  GetAddressPoolByName_def GetAllAddressPoolRows_def UpdateAddressPoolRow_def
  DeleteAddressPoolRow_def InsertDevice_def GetDeviceByIDRow_def
  GetDeviceByExternalIDAndUserID_def GetDeviceWithNoExternalIDByUserID_def
  GetDeviceWithNoSessionIDOrderedByTimestamp_def GetDeviceWithOldestTimestampByUserID_def
  UpdateDeviceFromConfiguration_def GetAllSessions_def GetAllDevices_def UpdateDeviceRow_def
  UpdateDeviceSessionAndLastTimeConnected_def DeleteDeviceRow_def InvalidateDeviceSession_def
  InvalidateTemplateDeviceSessions_def InvalidateOldDeviceSessions_def
  InvalidateAllDeviceSessionsWithCert_def InvalidateAllDeviceSessionsByServerID_def
  GetDevicesByUserID_def GetDevicesByTemplateID_def GetDeviceWireGuardIfaceAddrs_def
  InsertDeviceWireGuardIfaceAddr_def DeleteDeviceWireGuardIfaceAddrs_def
  IsHealthCheckEnabledForDevice_def GetAdjacency_def GetDeviceWireGuardAdjacencies_def
  GetServerWireGuardAdjacencies_def AdjacencyExists_def AdjacencyTemplateExists_def
  AdjacencyTemplateExistsByID_def GetAdjacencyTemplateByID_def GetUserAdjacencyTemplateRows_def
  InsertAdjacencyTemplate_def UpdateAdjacencyTemplateRow_def DeleteAdjacencyTemplateRow_def
  GetAdjacencyTemplatesByServerID_def GetAdjacenciesByServerID_def
  UpdateAdjacencyClientSideAllowedIPs_def UpdateAdjacencyTemplateClientSideAllowedIPs_def
  InsertAdjacency_def UpdateAdjacencyRow_def DeleteAdjacencyRow_def
  GetLdapTemplateServersByServerID_def UpdateLdapTemplateServerAllowedIPs_def

end
