(* ===== verification/Samples.thy ===== *)
theory Samples
  imports Queries
begin

text \<open>
  Concrete values on which the witnesses evaluate the operations: a small database with a user,
  a device template over one pool, a device and a server, the world around it, and an
  environment whose cipher tags the plain text.
\<close>

definition empty_db :: db where
  "empty_db = \<lparr>db_users = [], db_totp = [], db_mfa_certs = [], db_templates = [], db_tpools = [],
     db_tdns = [], db_pools = [], db_devices = [], db_daddrs = [], db_servers = [], db_scfgs = [],
     db_saddrs = [], db_sdns = [], db_adjs = [], db_atemplates = [], db_lts = [], db_ltpools = [],
     db_tags = [], db_ldaps = [], db_uldaps = [], db_ltemplates = []\<rparr>"

definition pfx4 :: "32 word \<Rightarrow> int \<Rightarrow> prefix" where
  "pfx4 w b = prefix_from (V4 w) b"

definition sample_user :: user_row where
  "sample_user = \<lparr>u_id = 1, u_username = ''ann'', u_password = ''b:pw'', u_is_admin = True,
     u_auth_service = ''intr'', u_mfa_auth = ''none'', u_ntf = [], u_updated_at = 0\<rparr>"

definition sample_pool :: address_pool where
  "sample_pool = \<lparr>ap_id = 2, ap_name = ''lan'', ap_description = [], ap_start = V4 0x0A000005,
     ap_end = V4 0x0A000007, ap_mask = 24\<rparr>"

definition sample_template :: device_template_row where
  "sample_template = \<lparr>dt_id = 3, dt_user = 1, dt_iface = ''wg0'', dt_port = Some 7, dt_mtu = None\<rparr>"

definition sample_device :: device_row where
  "sample_device = \<lparr>d_id = 4, d_description = ''laptop'', d_template = 3, d_public_key = ''P'',
     d_external_id = ''x'', d_session = ''s'', d_last_connected = Some 1, d_info = None,
     d_private_key = ''cK''\<rparr>"

definition sample_server :: server_row where
  "sample_server = \<lparr>s_id = 5, s_name = ''srv'', s_endpoint = V4 0x01020304, s_description = [],
     s_replicas = 0, s_healthcheck = Some (V4 0x0A000001)\<rparr>"

definition sample_scfg :: server_cfg_row where
  "sample_scfg = \<lparr>sc_id = 6, sc_server = 5, sc_iface = ''wg0'', sc_public_key = ''Q'',
     sc_port = Some 9, sc_mtu = None, sc_keepalive = None, sc_private_key = ''cL''\<rparr>"

definition sample_db :: db where
  "sample_db = empty_db\<lparr>db_users := [sample_user], db_templates := [sample_template],
     db_tpools := [(3, 2)], db_pools := [sample_pool], db_devices := [sample_device],
     db_daddrs := [(4, pfx4 0x0A000006 24)], db_servers := [sample_server],
     db_scfgs := [sample_scfg], db_saddrs := [(6, pfx4 0x0A000001 24)]\<rparr>"

definition world_of :: "db \<Rightarrow> bool list \<Rightarrow> world" where
  "world_of d faults = \<lparr>w_db = d, w_faults = faults, w_tx = NoTx, w_seq = (\<lambda>_. 10), w_rnd = 0,
     w_now = 5, w_watchers = [], w_wg_sent = [], w_hc_sent = [], w_drops = []\<rparr>"

lemma w_db_world_of [simp]: "w_db (world_of d fs) = d"
  by (simp add: world_of_def)

definition sample_env :: env where
  "sample_env = \<lparr>env_key = ''k'', env_seal = (\<lambda>_ _ p. Inr (CHR ''c'' # p)),
     env_open = (\<lambda>_ c. case c of [] \<Rightarrow> Inl (errors_new ''empty'') | _ # p \<Rightarrow> Inr p),
     env_keypair = (\<lambda>_. Inr (''K'', ''P'')), env_psk = (\<lambda>_. Inr ''psk''),
     env_rand = (\<lambda>seed n. Inr (replicate n (of_nat seed))),
     env_bcrypt = (\<lambda>_ p. Inr (''b:'' @ p)), env_bcrypt_ok = (\<lambda>h p. h = ''b:'' @ p),
     env_k8s = None, env_dpu_limit = 1\<rparr>"

lemma sample_cipher_ok: "cipher_ok sample_env"
  by (auto simp: cipher_ok_def sample_env_def)

end
