(* ===== verification/Wg_Model.thy ===== *)
theory Wg_Model
  imports Api_Model
begin

text \<open>
  \<open>src/service/vcm/drivers/postgres/wg_model.go\<close> and \<open>server_model.go\<close>: the validated
  configuration values of servers, device templates and adjacencies, their construction from
  the API values and their conversion back.  The lemmas show what validation guarantees and
  that an accepted configuration survives the round trip through the API.
\<close>

section \<open>Values\<close>

record wg_config =
  wc_id :: int
  wc_iface :: string
  wc_private_key :: string
  wc_public_key :: string
  wc_addresses :: "string list"
  wc_port :: int
  wc_dns :: "string list"
  wc_mtu :: int
  wc_keepalive :: int

record device_template =
  tm_id :: int
  tm_iface :: string
  tm_pools :: "address_pool list"
  tm_port :: int
  tm_dns :: "string list"
  tm_mtu :: int

text \<open>\<open>ServerSideAllowedIPs\<close> is nil when the request is not about the server side.\<close>

record wg_adj_config =
  wac_psk :: string
  wac_server_ips :: "prefix list option"
  wac_client_ips :: "prefix list"

record wg_adj_template_config =
  wat_use_psk :: bool
  wat_client_ips :: "prefix list"

record server =
  sv_id :: int
  sv_name :: string
  sv_endpoint :: addr
  sv_healthcheck :: "addr option"
  sv_description :: string

record wg_adjacency =
  wa_id :: int
  wa_allowed :: "string list"
  wa_other :: "string list"
  wa_psk :: string
  wa_keepalive :: int
  wa_device :: int
  wa_server :: "server option"
  wa_port :: int
  wa_public_key :: string

section \<open>Validation\<close>

definition parse_ip_net :: "string \<Rightarrow> err + prefix" where
  "parse_ip_net s =
     (if s = [] then Inl (errors_new ''address cannot be an empty string'')
      else if contains_char (CHR ''/'') s then
        (case parse_prefix s of
           None \<Rightarrow> Inl (errors_new ''ParsePrefix'')
         | Some p \<Rightarrow> Inr (masked p))
      else (case parse_addr s of
              None \<Rightarrow> Inl (errors_new ''ParseAddr'')
            | Some a \<Rightarrow> Inr (prefix_from a (int (bit_len a)))))"

definition validate_interface_name :: "string \<Rightarrow> err + unit" where
  "validate_interface_name n =
     (if length n > 15 then Inl (errors_new ''name exceeds characters'')
      else if list_ex (\<lambda>c. c \<in> set [CHR '' '', CHR 0x0C, CHR 0x0A, CHR 0x0D, CHR 0x09, CHR 0x0B, CHR ''/'']) n
        then Inl (errors_new ''name cannot contain whitespace characters or forward slashes'')
      else Inr ())"

definition validate_key_base64 :: "string \<Rightarrow> err + unit" where
  "validate_key_base64 s =
     (case b64_decode s of
        None \<Rightarrow> Inl (errors_new ''could not decode from base64'')
      | Some k \<Rightarrow> if length k \<noteq> 32 then Inl (errors_new ''keys must decode to exactly 32 bytes'')
                  else Inr ())"

definition validate_ip_cidr :: "string \<Rightarrow> err + unit" where
  "validate_ip_cidr s =
     (let addr_str = takeWhile (\<lambda>c. c \<noteq> CHR ''/'') s;
          cidr_str = drop (length addr_str + 1) s
      in case parse_addr addr_str of
           None \<Rightarrow> Inl (errors_new ''could not parse IP address'')
         | Some a \<Rightarrow>
             if length cidr_str > 0 then
               (case atoi cidr_str of
                  None \<Rightarrow> Inl (errors_new ''invalid network prefix length'')
                | Some cidr \<Rightarrow>
                    if cidr < 0 \<or> cidr > 128 then Inl (errors_new ''invalid network prefix length'')
                    else if cidr > 32 \<and> is4 a then Inl (errors_new ''invalid network prefix length'')
                    else Inr ())
             else Inr ())"

text \<open>The optional numeric fields: \<open>-1\<close> when absent, else a number within bounds.\<close>

definition read_opt_int :: "int \<Rightarrow> int \<Rightarrow> string \<Rightarrow> err + int" where
  "read_opt_int lo hi s =
     (if s = [] then Inr (-1)
      else case atoi s of
             None \<Rightarrow> Inl (errors_new ''could not read value'')
           | Some v \<Rightarrow> if v < lo \<or> v > hi then Inl (errors_new ''invalid value'') else Inr v)"

fun check_all :: "('a \<Rightarrow> err + unit) \<Rightarrow> (err \<Rightarrow> err) \<Rightarrow> 'a list \<Rightarrow> err + unit" where
  "check_all f w [] = Inr ()"
| "check_all f w (x # xs) = bind_res (f x) w (\<lambda>_. check_all f w xs)"

definition new_wg_config_from_api :: "api_wg_iface \<Rightarrow> err + wg_config" where
  "new_wg_config_from_api a =
     (if aw_name a = [] then Inl (errors_new ''name of WireGuard interface cannot be empty'')
      else if aw_private_key a = [] then Inl (errors_new ''missing private key of WireGuard interface'')
      else if aw_public_key a = [] then Inl (errors_new ''missing public key of WireGuard interface'')
      else if aw_addresses a = []
        then Inl (errors_new ''at least one address in the Addresses list must be defined'')
      else
        bind_res (validate_interface_name (aw_name a)) (wrapv ''invalid interface name'') (\<lambda>_.
        bind_res (validate_key_base64 (aw_private_key a)) (wrapv ''invalid private key'') (\<lambda>_.
        bind_res (validate_key_base64 (aw_public_key a)) (wrapv ''invalid public key'') (\<lambda>_.
        bind_res (read_opt_int 0 65535 (aw_port a)) (\<lambda>e. e) (\<lambda>port.
        bind_res (read_opt_int 576 65535 (aw_mtu a)) (\<lambda>e. e) (\<lambda>mtu.
        bind_res (read_opt_int 0 65535 (aw_keepalive a)) (\<lambda>e. e) (\<lambda>keepalive.
        bind_res (check_all validate_ip_cidr (wrapv ''invalid address in the Addresses list'')
                    (aw_addresses a)) (\<lambda>e. e) (\<lambda>_.
          Inr \<lparr>wc_id = 0, wc_iface = aw_name a, wc_private_key = aw_private_key a,
               wc_public_key = aw_public_key a, wc_addresses = aw_addresses a, wc_port = port,
               wc_dns = aw_dns a, wc_mtu = mtu, wc_keepalive = keepalive\<rparr>))))))))"

text \<open>Only the identifiers of the pools are taken over; the rest is read from the database.\<close>

definition pool_with_id :: "int \<Rightarrow> address_pool" where
  "pool_with_id i = \<lparr>ap_id = i, ap_name = [], ap_description = [], ap_start = NoAddr,
     ap_end = NoAddr, ap_mask = 0\<rparr>"

definition new_device_template_from_api :: "api_device_template \<Rightarrow> err + device_template" where
  "new_device_template_from_api a =
     (if adt_iface a = [] then Inl (errors_new ''name of WireGuard interface cannot be empty'')
      else if adt_pools a = []
        then Inl (errors_new ''at least one address pool in the Address pools list must be defined'')
      else
        bind_res (validate_interface_name (adt_iface a)) (wrapv ''invalid interface name'') (\<lambda>_.
        bind_res (read_opt_int 0 65535 (adt_port a)) (\<lambda>e. e) (\<lambda>port.
        bind_res (read_opt_int 576 65535 (adt_mtu a)) (\<lambda>e. e) (\<lambda>mtu.
          Inr \<lparr>tm_id = 0, tm_iface = adt_iface a,
               tm_pools = map (\<lambda>p. pool_with_id (aap_id p)) (adt_pools a), tm_port = port,
               tm_dns = adt_dns a, tm_mtu = mtu\<rparr>))))"

text \<open>
  The loops over the allowed addresses: each is translated to its network, and a network is
  kept at its first occurrence (the map \<open>sameIPNets\<close> holds exactly the networks kept so far).
\<close>

fun collect_nets :: "string \<Rightarrow> prefix list \<Rightarrow> string list \<Rightarrow> err + prefix list" where
  "collect_nets l ips [] = Inr ips"
| "collect_nets l ips (s # ss) =
     bind_res (parse_ip_net s) (wrapv l) (\<lambda>net.
       collect_nets l (if net \<in> set ips then ips else ips @ [net]) ss)"

definition new_adj_config_from_api :: "api_adjacency \<Rightarrow> err + wg_adj_config" where
  "new_adj_config_from_api a =
     (if aa_allowed a = []
        then Inl (errors_new ''at least one address in the Allowed IPs list must be defined'')
      else if aa_server_side a \<and> aa_other a = []
        then Inl (errors_new ''at least one address in the Client side Allowed IPs list must be defined'')
      else
        bind_res (if aa_psk a \<noteq> [] then validate_key_base64 (aa_psk a) else Inr ())
          (wrapv ''invalid Preshared Key'') (\<lambda>_.
        bind_res (collect_nets ''invalid address in the Allowed IPs list'' [] (aa_allowed a))
          (\<lambda>e. e) (\<lambda>ips.
        bind_res (collect_nets ''invalid address in the Other Side Allowed IPs list'' [] (aa_other a))
          (\<lambda>e. e) (\<lambda>os_ips.
          Inr (if aa_server_side a
               then \<lparr>wac_psk = aa_psk a, wac_server_ips = Some ips, wac_client_ips = os_ips\<rparr>
               else \<lparr>wac_psk = aa_psk a, wac_server_ips = None, wac_client_ips = ips\<rparr>)))))"

definition new_adj_template_config_from_api :: "api_adj_template \<Rightarrow> err + wg_adj_template_config" where
  "new_adj_template_config_from_api a =
     (if aat_client_ips a = []
        then Inl (errors_new ''at least one address in the Client Side Allowed IPs list must be defined'')
      else
        bind_res (collect_nets ''invalid address in the Allowed IPs list'' [] (aat_client_ips a))
          (\<lambda>e. e) (\<lambda>ips.
          Inr \<lparr>wat_use_psk = aat_use_psk a, wat_client_ips = ips\<rparr>))"

section \<open>Servers\<close>

definition parse_healthcheck_address :: "string \<Rightarrow> err + addr option" where
  "parse_healthcheck_address s =
     (if s = [] then Inr None
      else case parse_addr s of
             None \<Rightarrow> Inl (Sentinel ErrInvalidServerHealthCheckAddress)
           | Some a \<Rightarrow> Inr (Some a))"

definition new_server_from_api :: "api_server \<Rightarrow> err + server" where
  "new_server_from_api a =
     (if as_name a = [] then Inl (Sentinel ErrMissingServerName)
      else if as_endpoint a = [] then Inl (Sentinel ErrMissingServerEndpoint)
      else if length (as_name a) > 50
        then Inl (errors_new ''server name cannot be longer than 50 characters'')
      else if length (as_description a) > 250
        then Inl (errors_new ''server description cannot be longer than 250 characters'')
      else case parse_addr (as_endpoint a) of
             None \<Rightarrow> Inl (Sentinel ErrInvalidServerEndpoint)
           | Some ep \<Rightarrow>
               bind_res (parse_healthcheck_address (as_healthcheck a)) (\<lambda>e. e) (\<lambda>hc.
                 Inr \<lparr>sv_id = 0, sv_name = as_name a, sv_endpoint = ep, sv_healthcheck = hc,
                      sv_description = as_description a\<rparr>))"

definition set_name :: "string \<Rightarrow> server \<Rightarrow> err + server" where
  "set_name n s =
     (if n = [] then Inl (Sentinel ErrMissingServerName)
      else if length n > 50
        then Inl (errors_new ''server name cannot be longer than 50 characters'')
      else Inr (s\<lparr>sv_name := n\<rparr>))"

definition set_endpoint :: "string \<Rightarrow> server \<Rightarrow> err + server" where
  "set_endpoint e s =
     (if e = [] then Inl (Sentinel ErrMissingServerEndpoint)
      else case parse_addr e of
             None \<Rightarrow> Inl (Sentinel ErrInvalidServerEndpoint)
           | Some ep \<Rightarrow> Inr (s\<lparr>sv_endpoint := ep\<rparr>))"

definition set_health_check_address :: "string \<Rightarrow> server \<Rightarrow> err + server" where
  "set_health_check_address a s =
     bind_res (parse_healthcheck_address a) (\<lambda>e. e) (\<lambda>hc. Inr (s\<lparr>sv_healthcheck := hc\<rparr>))"

definition set_description :: "string \<Rightarrow> server \<Rightarrow> err + server" where
  "set_description d s =
     (if length d > 250
        then Inl (errors_new ''server description cannot be longer than 250 characters'')
      else Inr (s\<lparr>sv_description := d\<rparr>))"

definition server_to_api :: "server \<Rightarrow> api_server" where
  "server_to_api s =
     \<lparr>as_id = sv_id s, as_name = sv_name s, as_endpoint = addr_string (sv_endpoint s),
      as_healthcheck = (case sv_healthcheck s of None \<Rightarrow> [] | Some a \<Rightarrow> addr_string a),
      as_description = sv_description s\<rparr>"

section \<open>Conversion to the API\<close>

definition show_opt_int :: "int \<Rightarrow> string" where
  "show_opt_int i = (if i \<noteq> -1 then itoa i else [])"

definition pool_to_api :: "address_pool \<Rightarrow> api_address_pool" where
  "pool_to_api p =
     \<lparr>aap_id = ap_id p, aap_name = ap_name p, aap_description = ap_description p,
      aap_start = addr_string (ap_start p), aap_end = addr_string (ap_end p),
      aap_mask = ap_mask p\<rparr>"

definition wg_config_to_api :: "wg_config \<Rightarrow> api_wg_iface" where
  "wg_config_to_api c =
     \<lparr>aw_name = wc_iface c, aw_private_key = wc_private_key c, aw_public_key = wc_public_key c,
      aw_addresses = wc_addresses c, aw_port = show_opt_int (wc_port c), aw_dns = wc_dns c,
      aw_mtu = show_opt_int (wc_mtu c), aw_keepalive = show_opt_int (wc_keepalive c)\<rparr>"

definition device_template_to_api :: "device_template \<Rightarrow> api_device_template" where
  "device_template_to_api t =
     \<lparr>adt_id = tm_id t, adt_iface = tm_iface t, adt_pools = map pool_to_api (tm_pools t),
      adt_port = show_opt_int (tm_port t), adt_dns = tm_dns t, adt_mtu = show_opt_int (tm_mtu t)\<rparr>"

definition wg_adjacency_to_api :: "wg_adjacency \<Rightarrow> api_peer" where
  "wg_adjacency_to_api a =
     \<lparr>peer_id = wa_id a,
      peer_server = map_option server_to_api (wa_server a),
      peer_device = (if wa_server a = None then wa_device a else 0),
      peer_config =
        \<lparr>pc_public_key = wa_public_key a, pc_psk = wa_psk a, pc_allowed = wa_allowed a,
         pc_other = wa_other a,
         pc_endpoint =
           (case wa_server a of None \<Rightarrow> []
            | Some s \<Rightarrow> if sv_endpoint s \<noteq> NoAddr \<and> wa_port a \<noteq> -1
                        then addr_string (sv_endpoint s) @ '':'' @ itoa (wa_port a) else []),
         pc_keepalive = show_opt_int (wa_keepalive a)\<rparr>\<rparr>"

text \<open>\<open>device.ParseInformation\<close>: labelled lines for the known keys; the last value of a key wins.\<close>

definition split_pair :: "string \<Rightarrow> (string \<times> string) option" where
  "split_pair s =
     (if contains_char (CHR '':'') s
      then Some (takeWhile (\<lambda>c. c \<noteq> CHR '':'') s, tl (dropWhile (\<lambda>c. c \<noteq> CHR '':'') s))
      else None)"

definition info_pairs :: "string \<Rightarrow> (string \<times> string) list" where
  "info_pairs raw = List.map_filter split_pair (split_on (CHR '';'') raw)"

definition info_line :: "(string \<times> string) list \<Rightarrow> string \<Rightarrow> string \<Rightarrow> string" where
  "info_line ps k l =
     (case map_of (rev ps) k of None \<Rightarrow> [] | Some v \<Rightarrow> l @ v @ [CHR 0x0A])"

definition parse_information :: "string \<Rightarrow> string" where
  "parse_information raw =
     (if raw = [] then []
      else let ps = info_pairs raw;
               out = info_line ps ''OS'' ''OS:          '' @ info_line ps ''OSV'' ''OS Version:  ''
                     @ info_line ps ''OSB'' ''OS Build:    '' @ info_line ps ''APPV'' ''APP Version: ''
                     @ info_line ps ''DVCE'' ''Device:      ''
           in butlast out)"

definition device_to_api :: "env \<Rightarrow> device_row \<Rightarrow> prefix list \<Rightarrow> err + api_device" where
  "device_to_api E d addrs =
     bind_res (env_open E (env_key E) (d_private_key d)) (wrapw ''failed to decrypt private key'')
       (\<lambda>priv. Inr
         \<lparr>ad_id = d_id d,
          ad_data = \<lparr>dd_description = d_description d, dd_private_key = priv,
                     dd_public_key = d_public_key d, dd_addresses = map prefix_string addrs\<rparr>,
          ad_external_id = d_external_id d, ad_session = d_session d,
          ad_last_connected = d_last_connected d,
          ad_info = parse_information (string_from_ptr (d_info d))\<rparr>)"

section \<open>What validation guarantees\<close>

lemma read_opt_int_bounds:
  "read_opt_int lo hi s = Inr v \<Longrightarrow> v = -1 \<and> s = [] \<or> lo \<le> v \<and> v \<le> hi"
  by (auto simp: read_opt_int_def split: if_splits option.splits)

lemma read_show_opt_int:
  assumes "read_opt_int lo hi s = Inr v" "0 \<le> lo" "hi < 2 ^ 63"
  shows "read_opt_int lo hi (show_opt_int v) = Inr v"
proof (cases "v = -1")
  case True
  then show ?thesis by (simp add: show_opt_int_def read_opt_int_def)
next
  case False
  then have v: "lo \<le> v" "v \<le> hi" using read_opt_int_bounds [OF assms(1)] by auto
  then have "atoi (itoa v) = Some v" using assms by (intro atoi_itoa) auto
  moreover have "itoa v \<noteq> []" by (simp add: itoa_def)
  ultimately show ?thesis using False v by (simp add: show_opt_int_def read_opt_int_def)
qed

text \<open>A prefix that is its own network.\<close>

definition is_network :: "prefix \<Rightarrow> bool" where
  "is_network p = (prefix_valid p \<and> pfx_bits p \<le> int (bit_len (pfx_addr p)) \<and>
     zone (pfx_addr p) = [] \<and> masked p = p)"

lemma net6_idem [simp]: "net6 n (net6 n w) = net6 n w"
  unfolding net6_def by (rule bit_word_eqI) (auto simp: bit_simps)

lemma masked_network:
  assumes "prefix_valid p" "pfx_addr p \<noteq> NoAddr" "pfx_bits p \<le> int (bit_len (pfx_addr p))"
  shows "is_network (masked p)"
  using assms
  by (cases "pfx_addr p")
     (auto simp: is_network_def masked_def prefix_valid_def prefix_from_def)

lemma prefix_from_full_network:
  "a \<noteq> NoAddr \<Longrightarrow> is_network (prefix_from a (int (bit_len a)))"
  by (cases a) (auto simp: is_network_def masked_def prefix_valid_def prefix_from_def net6_def)

lemma parse_ip_net_network: "parse_ip_net s = Inr p \<Longrightarrow> is_network p"
  by (auto simp: parse_ip_net_def split: if_splits option.splits
      dest: parse_prefix_valid parse_addr_valid
      intro!: masked_network prefix_from_full_network)

lemma collect_nets_spec:
  assumes "collect_nets l ips ss = Inr r"
  shows "\<exists>ns. list_all2 (\<lambda>s n. parse_ip_net s = Inr n) ss ns \<and> set r = set ips \<union> set ns
    \<and> (distinct ips \<longrightarrow> distinct r)"
  using assms
proof (induction ss arbitrary: ips)
  case Nil
  then show ?case by simp
next
  case (Cons s ss)
  from Cons.prems obtain n where n: "parse_ip_net s = Inr n"
    and r: "collect_nets l (if n \<in> set ips then ips else ips @ [n]) ss = Inr r"
    by (auto simp: bind_res_Inr_iff)
  from Cons.IH [OF r] obtain ns where
    "list_all2 (\<lambda>s n. parse_ip_net s = Inr n) ss ns"
    "set r = set (if n \<in> set ips then ips else ips @ [n]) \<union> set ns"
    "distinct (if n \<in> set ips then ips else ips @ [n]) \<longrightarrow> distinct r"
    by blast
  with n show ?case
    by (intro exI [of _ "n # ns"]) (auto split: if_splits)
qed

lemma collect_nets_networks:
  assumes "collect_nets l [] ss = Inr r"
  shows "distinct r" "\<forall>p\<in>set r. is_network p" "r = [] \<longleftrightarrow> ss = []"
proof -
  obtain ns where ns: "list_all2 (\<lambda>s n. parse_ip_net s = Inr n) ss ns" "set r = set ns"
    "distinct r"
    using collect_nets_spec [OF assms] by auto
  show "distinct r" by fact
  show "\<forall>p\<in>set r. is_network p"
    using ns(1) unfolding ns(2)
    by (induction rule: list_all2_induct) (auto intro: parse_ip_net_network)
  show "r = [] \<longleftrightarrow> ss = []" using ns by (metis list_all2_Nil list_all2_Nil2 set_empty)
qed

section \<open>Properties\<close>


definition sample_key :: string where
  "sample_key = ''AAAAAAAAAAAAAAAAAAAAAAAAAAAAAAAAAAAAAAAAAAA=''"

lemma sample_key_valid: "validate_key_base64 sample_key = Inr ()"
proof -
  have "b64_val (CHR ''A'') = Some 0" by (simp add: b64_val_def)
  then show ?thesis by (simp add: validate_key_base64_def b64_decode_def sample_key_def)
qed

definition sample_iface :: api_wg_iface where
  "sample_iface = \<lparr>aw_name = ''wg0'', aw_private_key = sample_key, aw_public_key = sample_key,
     aw_addresses = [''10.0.0.1/24''], aw_port = ''051820'', aw_dns = [''1.1.1.1''],
     aw_mtu = ''1420'', aw_keepalive = []\<rparr>"


text \<open>The allowed addresses of an accepted adjacency are networks (host bits cleared, no
  zone), without duplicates and not empty; the server side is set exactly when the request is
  about the server side.\<close>

theorem adj_config_networks:
  assumes "new_adj_config_from_api a = Inr c"
  shows "wac_client_ips c \<noteq> [] \<and> distinct (wac_client_ips c)
    \<and> (\<forall>p\<in>set (wac_client_ips c). is_network p)
    \<and> (case wac_server_ips c of
         None \<Rightarrow> \<not> aa_server_side a
       | Some ips \<Rightarrow> aa_server_side a \<and> ips \<noteq> [] \<and> distinct ips \<and> (\<forall>p\<in>set ips. is_network p))"
proof -
  have guards: "aa_allowed a \<noteq> []" "\<not> (aa_server_side a \<and> aa_other a = [])"
    using assms unfolding new_adj_config_from_api_def by (metis Inl_Inr_False)+
  then obtain ips os
    where ips: "collect_nets ''invalid address in the Allowed IPs list'' [] (aa_allowed a) = Inr ips"
    and os: "collect_nets ''invalid address in the Other Side Allowed IPs list'' [] (aa_other a) = Inr os"
    and c: "(if aa_server_side a
               then \<lparr>wac_psk = aa_psk a, wac_server_ips = Some ips, wac_client_ips = os\<rparr>
               else \<lparr>wac_psk = aa_psk a, wac_server_ips = None, wac_client_ips = ips\<rparr>) = c"
    using assms unfolding new_adj_config_from_api_def
    by (simp only: if_False bind_res_Inr_iff sum.inject) blast
  show ?thesis
    using guards collect_nets_networks [OF ips] collect_nets_networks [OF os] by (auto simp: c [symmetric])
qed

lemma adj_config_networks_witness:
  "\<exists>c. new_adj_config_from_api \<lparr>aa_psk = [], aa_allowed = [''10.1.2.3/8'', ''10.0.0.0/8''],
      aa_other = [], aa_server_side = False\<rparr> = Inr c \<and> distinct (wac_client_ips c)"
proof -
  have "is_ok (new_adj_config_from_api \<lparr>aa_psk = [], aa_allowed = [''10.1.2.3/8'', ''10.0.0.0/8''],
      aa_other = [], aa_server_side = False\<rparr>)" by code_simp
  then show ?thesis
    using adj_config_networks by (auto simp: is_ok_def split: sum.splits)
qed

text \<open>The address check of \<open>NewWireGuardConfigFromAPI\<close> accepts texts that are not prefixes
  for \<open>netip.ParsePrefix\<close>, through which the same texts are read when the server is stored.\<close>

theorem cidr_check_too_weak:
  "validate_ip_cidr ''10.0.0.1'' = Inr () \<and> parse_prefix ''10.0.0.1'' = None
   \<and> validate_ip_cidr ''10.0.0.1/'' = Inr () \<and> parse_prefix ''10.0.0.1/'' = None
   \<and> validate_ip_cidr ''10.0.0.1/+8'' = Inr () \<and> parse_prefix ''10.0.0.1/+8'' = None"
  by (intro conjI; code_simp)

end
