(* ===== verification/Vcm_Base.thy ===== *)
theory Vcm_Base
  imports Samples Wg_Model
begin

text \<open>
  The read side of the VPN configuration manager: the hand-written queries of
  \<open>src/service/vcm/drivers/postgres/querier.go\<close> and the functions of
  \<open>src/service/vcm/postgres.go\<close> that assemble configurations from the tables, translate
  driver errors and maintain the healthcheck address in a list of allowed addresses.
\<close>

section \<open>Driver errors\<close>

definition query_failed :: "err \<Rightarrow> err" where
  "query_failed = under DrvErrQueryFailed ''query failed''"

definition query_failed_w :: "string \<Rightarrow> err \<Rightarrow> err" where
  "query_failed_w l = under_both DrvErrQueryFailed l"

definition handle_error :: "err \<Rightarrow> err" where
  "handle_error e =
     (if e = Panic then Panic
      else if errors_is e DrvErrQueryFailed then Sentinel VcmErrDriverMisbehave
      else if errors_is e DrvErrNotFound then Sentinel VcmErrNotFound
      else e)"

section \<open>Servers (drivers/postgres/querier.go)\<close>

definition exists_of :: "unit wop \<Rightarrow> bool wop" where
  "exists_of m = attempt m (\<lambda>r. case r of
     Inr _ \<Rightarrow> ret True
   | Inl e \<Rightarrow> if e = no_rows then ret False else throw (query_failed e))"

definition CheckServerIDExists :: "int \<Rightarrow> bool wop" where
  "CheckServerIDExists i = exists_of (ServerIDCheck i)"

definition CheckServerNameExists :: "string \<Rightarrow> bool wop" where
  "CheckServerNameExists n = exists_of (ServerNameCheck n)"

definition server_of_row :: "server_row \<Rightarrow> server" where
  "server_of_row r =
     \<lparr>sv_id = s_id r, sv_name = s_name r, sv_endpoint = s_endpoint r,
      sv_healthcheck = s_healthcheck r, sv_description = s_description r\<rparr>"

definition pg_GetAllServers :: "server list wop" where
  "pg_GetAllServers = try_do GetAllServers query_failed (\<lambda>rs. ret (map server_of_row rs))"

definition pg_GetServerByID :: "int \<Rightarrow> server wop" where
  "pg_GetServerByID i =
     try_do (GetServerByID i) (on_no_rows (Sentinel DrvErrNotFound) query_failed)
       (\<lambda>r. ret (server_of_row r))"

definition pg_GetServerByName :: "string \<Rightarrow> server wop" where
  "pg_GetServerByName n =
     try_do (GetServerByName n) (on_no_rows (Sentinel DrvErrNotFound) query_failed)
       (\<lambda>r. ret (server_of_row r))"

definition pg_UpdateServer :: "server \<Rightarrow> unit wop" where
  "pg_UpdateServer s =
     try_do (UpdateServerRow (sv_id s) (sv_name s) (sv_endpoint s) (sv_description s) (sv_healthcheck s))
       (on_no_rows (Sentinel DrvErrNotFound) query_failed) (\<lambda>_. ret ())"

definition pg_GetReplicaCount :: "int \<Rightarrow> int wop" where
  "pg_GetReplicaCount i =
     try_do (GetServerByID i) (on_no_rows (Sentinel DrvErrNotFound) query_failed)
       (\<lambda>r. ret (s_replicas r))"

text \<open>\<open>running_replicas\<close> is a \<open>smallint\<close>: an increment past its range is an error.\<close>

definition pg_IncreaseReplicaCount :: "int \<Rightarrow> unit wop" where
  "pg_IncreaseReplicaCount i =
     try_do (db_call (\<lambda>d.
       case filter (\<lambda>s. s_id s = i) (db_servers d) of
         [] \<Rightarrow> (Inl no_rows, d)
       | s # _ \<Rightarrow> if s_replicas s \<ge> 32767 then (Inl DbError, d)
                  else (Inr (), d\<lparr>db_servers :=
                    map (\<lambda>x. if s_id x = i then x\<lparr>s_replicas := s_replicas x + 1\<rparr> else x) (db_servers d)\<rparr>)))
       (on_no_rows (Sentinel DrvErrNotFound) query_failed) ret"

definition pg_DecreaseReplicaCount :: "int \<Rightarrow> unit wop" where
  "pg_DecreaseReplicaCount i =
     try_do (q_update db_servers db_servers_update (\<lambda>s. s_replicas s > 0 \<and> s_id s = i)
               (\<lambda>s. s\<lparr>s_replicas := s_replicas s - 1\<rparr>))
       (on_no_rows (Sentinel DrvErrNotFound) query_failed) (\<lambda>_. ret ())"

definition pg_GetServerTags :: "int \<Rightarrow> string list wop" where
  "pg_GetServerTags i = try_do (GetServerTags i) query_failed ret"

definition pg_InsertUsedTag :: "string \<Rightarrow> int \<Rightarrow> unit wop" where
  "pg_InsertUsedTag t i =
     try_do (q_exec (\<lambda>d. list_ex (\<lambda>s. s_id s = i) (db_servers d)) (db_tags_update (\<lambda>l. l @ [(i, t)])))
       query_failed ret"

text \<open>Tags are stored in the order of their creation; the query returns the newest first.\<close>

definition pg_GetServerTagsByName :: "string \<Rightarrow> string list wop" where
  "pg_GetServerTagsByName n =
     try_do (q_many (\<lambda>d. rev (map snd (filter
         (\<lambda>(i, _). list_ex (\<lambda>s. s_id s = i \<and> s_name s = n) (db_servers d)) (db_tags d)))))
       query_failed ret"

definition pg_DeleteUsedTags :: "unit wop" where
  "pg_DeleteUsedTags = try_do (q_exec (\<lambda>d. True) (db_tags_update (\<lambda>_. []))) query_failed ret"

definition pg_DeleteServer :: "int \<Rightarrow> unit wop" where
  "pg_DeleteServer i = try_do (DeleteServer i) query_failed ret"

section \<open>The healthcheck address among allowed addresses\<close>

definition is_healthcheck_addr_in_allowed_ips :: "prefix list \<Rightarrow> addr option \<Rightarrow> bool" where
  "is_healthcheck_addr_in_allowed_ips ips hc =
     (case hc of None \<Rightarrow> True | Some a \<Rightarrow> list_ex (\<lambda>p. prefix_contains p a) ips)"

definition host_prefix :: "addr \<Rightarrow> prefix" where
  "host_prefix a = prefix_from a (if is6 a then 128 else 32)"

definition ensure_healthcheck_addr :: "prefix list \<Rightarrow> addr option \<Rightarrow> prefix list \<times> bool" where
  "ensure_healthcheck_addr ips hc =
     (if is_healthcheck_addr_in_allowed_ips ips hc then (ips, False)
      else (ips @ [host_prefix (the hc)], True))"

definition remove_healthcheck_addr :: "prefix list \<Rightarrow> addr option \<Rightarrow> prefix list \<times> bool" where
  "remove_healthcheck_addr ips hc =
     (case hc of None \<Rightarrow> (ips, False)
      | Some a \<Rightarrow> (filter (\<lambda>p. p \<noteq> host_prefix a) ips, host_prefix a \<in> set ips))"

section \<open>Configurations assembled from the tables\<close>

definition server_peer_of ::
  "env \<Rightarrow> adjacency_row \<times> device_row \<times> device_template_row \<Rightarrow> wg_adjacency wop" where
  "server_peer_of E r =
     (case r of (a, v, t) \<Rightarrow>
        try_do (open_op E (adj_psk a)) (wrapw ''failed to decrypt preshared key'') (\<lambda>psk. ret
          \<lparr>wa_id = adj_id a, wa_allowed = map prefix_string (adj_server_ips a),
           wa_other = map prefix_string (adj_client_ips a), wa_psk = psk, wa_keepalive = -1,
           wa_device = adj_device a, wa_server = None, wa_port = coalesce (dt_port t),
           wa_public_key = d_public_key v\<rparr>))"

definition server_adjacencies :: "env \<Rightarrow> int \<Rightarrow> wg_adjacency list wop" where
  "server_adjacencies E sid =
     try_do (with_tx (try_do (GetServerWireGuardAdjacencies sid)
               (wrapw ''GetServerWireGuardAdjacencies'') (for_map (server_peer_of E))))
       query_failed ret"

definition device_peer_of ::
  "env \<Rightarrow> int \<Rightarrow> adjacency_row \<times> server_row \<times> server_cfg_row \<Rightarrow> wg_adjacency wop" where
  "device_peer_of E did r =
     (case r of (a, s, c) \<Rightarrow>
        try_do (open_op E (adj_psk a)) (wrapw ''failed to decrypt preshared key'') (\<lambda>psk. ret
          \<lparr>wa_id = adj_id a, wa_allowed = map prefix_string (adj_client_ips a),
           wa_other = map prefix_string (adj_server_ips a), wa_psk = psk,
           wa_keepalive = coalesce (sc_keepalive c), wa_device = did,
           wa_server = Some (server_of_row s), wa_port = coalesce (sc_port c),
           wa_public_key = sc_public_key c\<rparr>))"

definition device_adjacencies :: "env \<Rightarrow> int \<Rightarrow> wg_adjacency list wop" where
  "device_adjacencies E did =
     try_do (with_tx (try_do (GetDeviceWireGuardAdjacencies did)
               (wrapw ''GetDeviceWireGuardAdjacencies'') (for_map (device_peer_of E did))))
       query_failed ret"

definition get_device_template_by_user_id :: "int \<Rightarrow> device_template wop" where
  "get_device_template_by_user_id u =
     try_do (GetDeviceTemplateByUserID u)
       (on_no_rows (Sentinel VcmErrNotFound) (query_failed_w ''GetDeviceTemplateByUserID'')) (\<lambda>t.
     try_do (GetDeviceTemplateAddressPools (dt_id t))
       (query_failed_w ''GetDeviceTemplateAddressPools'') (\<lambda>pools.
     try_do (GetDeviceTemplateWireGuardIfaceDNSs (dt_id t))
       (query_failed_w ''GetDeviceTemplateWireGuardIfaceDNSs'') (\<lambda>dnss.
       ret \<lparr>tm_id = dt_id t, tm_iface = dt_iface t, tm_pools = pools, tm_port = coalesce (dt_port t),
            tm_dns = dnss, tm_mtu = coalesce (dt_mtu t)\<rparr>)))"

definition get_device_wg_config :: "env \<Rightarrow> int \<Rightarrow> wg_config wop" where
  "get_device_wg_config E did =
     try_do (GetDeviceByIDRow did)
       (on_no_rows (Sentinel VcmErrNotFound) (query_failed_w ''GetDeviceByID'')) (\<lambda>v.
     try_do (GetDeviceTemplateByID (d_template v))
       (on_no_rows (Sentinel VcmErrNotFound) (query_failed_w ''GetDeviceTemplateByID'')) (\<lambda>t.
     try_do (GetDeviceWireGuardIfaceAddrs (d_id v))
       (query_failed_w ''GetDeviceWireGuardIfaceAddrs'') (\<lambda>addrs.
     try_do (GetDeviceTemplateWireGuardIfaceDNSs (d_template v))
       (query_failed_w ''GetDeviceTemplateWireGuardIfaceDNSs'') (\<lambda>dnss.
     try_do (open_op E (d_private_key v)) (wrapw ''failed to decrypt private key'') (\<lambda>priv.
       ret \<lparr>wc_id = d_id v, wc_iface = dt_iface t, wc_private_key = priv,
            wc_public_key = d_public_key v, wc_addresses = map prefix_string addrs,
            wc_port = coalesce (dt_port t), wc_dns = dnss, wc_mtu = coalesce (dt_mtu t),
            wc_keepalive = -1\<rparr>)))))"

definition get_server_wg_config :: "env \<Rightarrow> int \<Rightarrow> wg_config wop" where
  "get_server_wg_config E sid =
     try_do (GetServerWireGuardConfig sid)
       (on_no_rows (Sentinel VcmErrNotFound) (query_failed_w ''GetServerWireGuardConfig'')) (\<lambda>c.
     try_do (GetServerWireGuardIfaceAddrs (sc_id c))
       (query_failed_w ''GetServerWireGuardIfaceAddrs'') (\<lambda>addrs.
     try_do (GetServerWireGuardIfaceDNSs (sc_id c))
       (query_failed_w ''GetServerWireGuardIfaceDNSs'') (\<lambda>dnss.
     try_do (open_op E (sc_private_key c)) (wrapw ''failed to decrypt private key'') (\<lambda>priv.
       ret \<lparr>wc_id = sc_id c, wc_iface = sc_iface c, wc_private_key = priv,
            wc_public_key = sc_public_key c, wc_addresses = map prefix_string addrs,
            wc_port = coalesce (sc_port c), wc_dns = dnss, wc_mtu = coalesce (sc_mtu c),
            wc_keepalive = coalesce (sc_keepalive c)\<rparr>))))"

definition delete_template_devices_sessions :: "int \<Rightarrow> unit wop" where
  "delete_template_devices_sessions t =
     try_do (InvalidateTemplateDeviceSessions t)
       (under DrvErrQueryFailed ''InvalidateTemplateDeviceSessions'') (\<lambda>_. ret ())"

section \<open>Read operations of the manager\<close>

definition vcm_GetAllServers :: "api_server list wop" where
  "vcm_GetAllServers = try_do pg_GetAllServers handle_error (\<lambda>ss. ret (map server_to_api ss))"

definition vcm_GetServerByName :: "string \<Rightarrow> api_server wop" where
  "vcm_GetServerByName n = try_do (pg_GetServerByName n) handle_error (\<lambda>s. ret (server_to_api s))"

definition vcm_GetServerByID :: "int \<Rightarrow> api_server wop" where
  "vcm_GetServerByID i = try_do (pg_GetServerByID i) handle_error (\<lambda>s. ret (server_to_api s))"

definition vcm_CheckServerExists :: "int \<Rightarrow> bool wop" where
  "vcm_CheckServerExists i = try_do (CheckServerIDExists i) handle_error ret"

definition vcm_AllReplicasRunning :: "env \<Rightarrow> api_server \<Rightarrow> bool wop" where
  "vcm_AllReplicasRunning E s =
     try_do (pg_GetReplicaCount (as_id s)) (wrapw ''GetReplicaCount'') (\<lambda>cur.
       case env_k8s E of
         None \<Rightarrow> ret (cur = 1)
       | Some desired \<Rightarrow>
           try_do (lift (desired (as_name s))) (wrapw ''get kubernetesClientset deployments'')
             (\<lambda>n. ret (n = cur)))"

definition vcm_VerifyServerTag :: "string \<Rightarrow> string \<Rightarrow> bool wop" where
  "vcm_VerifyServerTag tag name =
     attempt (pg_GetServerTagsByName name) (\<lambda>r. case r of
       Inl _ \<Rightarrow> ret False
     | Inr tags \<Rightarrow> ret (list_ex (\<lambda>t. t = tag) tags))"

definition vcm_CheckDeviceTemplateExistsByUserID :: "int \<Rightarrow> bool wop" where
  "vcm_CheckDeviceTemplateExistsByUserID u =
     attempt (GetDeviceTemplateByUserID u) (\<lambda>r. case r of
       Inl e \<Rightarrow> if e = no_rows then ret False
                else throw (query_failed_w ''GetDeviceTemplateByUserID'' e)
     | Inr t \<Rightarrow> attempt (DeviceTemplateExists (dt_id t)) (\<lambda>r2. case r2 of
           Inl e \<Rightarrow> if e = no_rows then ret False else throw (handle_error (query_failed e))
         | Inr _ \<Rightarrow> ret True))"

definition vcm_GetDeviceTemplateByUserID :: "int \<Rightarrow> api_device_template wop" where
  "vcm_GetDeviceTemplateByUserID u =
     try_do (get_device_template_by_user_id u) handle_error (\<lambda>t. ret (device_template_to_api t))"

definition vcm_GetDeviceWireGuardConfig :: "env \<Rightarrow> int \<Rightarrow> api_wg_iface wop" where
  "vcm_GetDeviceWireGuardConfig E d =
     try_do (get_device_wg_config E d) handle_error (\<lambda>c. ret (wg_config_to_api c))"

definition vcm_GetWireGuardServerConfig :: "env \<Rightarrow> int \<Rightarrow> api_wg_iface wop" where
  "vcm_GetWireGuardServerConfig E s =
     try_do (get_server_wg_config E s) handle_error (\<lambda>c. ret (wg_config_to_api c))"

definition vcm_GetWireGuardServerAdjacencies :: "env \<Rightarrow> int \<Rightarrow> api_peer list wop" where
  "vcm_GetWireGuardServerAdjacencies E s =
     try_do (server_adjacencies E s) handle_error (\<lambda>as. ret (map wg_adjacency_to_api as))"

definition vcm_GetWireGuardDeviceAdjacencies :: "env \<Rightarrow> int \<Rightarrow> api_peer list wop" where
  "vcm_GetWireGuardDeviceAdjacencies E d =
     try_do (device_adjacencies E d) handle_error (\<lambda>as. ret (map wg_adjacency_to_api as))"

definition vcm_QueryUsedAddrsForSubnet :: "prefix \<Rightarrow> addr list wop" where
  "vcm_QueryUsedAddrsForSubnet subnet =
     guard_do (\<not> is_subnet_addr subnet) (errors_new ''not a subnet address'')
       (try_do GetWireGuardIfaceAllAddrs
          (\<lambda>e. handle_error (query_failed_w ''GetWireGuardIfaceAllAddrs'' e))
          (\<lambda>ps. ret (filter (prefix_contains subnet) (map pfx_addr ps))))"

record adjacency_ext =
  ae_id :: int
  ae_server :: "api_server option"
  ae_device :: api_device
  ae_config :: api_peer_config

definition vcm_GetUserDeviceAdjacencies :: "env \<Rightarrow> int \<Rightarrow> adjacency_ext list wop" where
  "vcm_GetUserDeviceAdjacencies E u =
     try_do (UserExists u) (under DrvErrQueryFailed ''UserExists'') (\<lambda>ex.
     guard_do (\<not> ex) (new_under VcmErrDoesNotExist ''user with ID'')
     (try_do (GetDevicesByUserID u) (under DrvErrQueryFailed ''GetDevicesByUserID'') (\<lambda>devs.
       for_fold (\<lambda>acc v.
         try_do (device_adjacencies E (d_id v))
           (under DrvErrQueryFailed ''GetWireGuardDeviceAdjacencies'') (\<lambda>peers.
         try_do (GetDeviceWireGuardIfaceAddrs (d_id v))
           (under DrvErrQueryFailed ''GetDeviceWireGuardIfaceAddrs'') (\<lambda>addrs.
         bind_do (for_map (\<lambda>p. bind_do (lift (device_to_api E v addrs)) (\<lambda>ad.
             ret \<lparr>ae_id = wa_id p, ae_server = peer_server (wg_adjacency_to_api p),
                  ae_device = ad, ae_config = peer_config (wg_adjacency_to_api p)\<rparr>)) peers)
           (\<lambda>new. ret (acc @ new))))) [] devs)))"

section \<open>Reads keep every invariant of the tables\<close>

lemma keeps_queries [pres]:
  "keeps J GetAllUsers" "keeps J (GetUserByUsername n)" "keeps J (GetUserByID i)"
  "keeps J (UsernameCheck n)" "keeps J (UserIDCheck i)" "keeps J (UserExists i)" "keeps J CountUsers"
  "keeps J (GetUserTOTP i)" "keeps J (GetMFACertsByType n)"
  "keeps J (ServerIDCheck i)" "keeps J (ServerNameCheck n)" "keeps J GetAllServers"
  "keeps J (GetServerByID i)" "keeps J (GetServerByName n)" "keeps J (GetServerTags i)"
  "keeps J (GetServerWireGuardConfig i)" "keeps J (GetServerWireGuardIfaceAddrs i)"
  "keeps J (GetServerWireGuardIfaceDNSs i)" "keeps J GetWireGuardIfaceAllAddrs"
  "keeps J (DeviceTemplateExists i)" "keeps J (GetDeviceTemplateByID i)"
  "keeps J (GetDeviceTemplateByUserID i)" "keeps J (GetDeviceTemplateAddressPoolIDs i)"
  "keeps J (GetDeviceTemplateAddressPools i)" "keeps J (GetDeviceTemplateWireGuardIfaceDNSs i)"
  "keeps J (GetAddressPoolByIDRow i)" "keeps J (GetAddressPoolByName n)" "keeps J GetAllAddressPoolRows"
  "keeps J (GetDeviceByIDRow i)" "keeps J (GetDeviceByExternalIDAndUserID n i)"
  "keeps J (GetDeviceWithNoExternalIDByUserID i)"
  "keeps J (GetDeviceWithNoSessionIDOrderedByTimestamp i)"
  "keeps J (GetDeviceWithOldestTimestampByUserID i)" "keeps J GetAllSessions" "keeps J GetAllDevices"
  "keeps J (GetDevicesByUserID i)" "keeps J (GetDevicesByTemplateID i)"
  "keeps J (GetDeviceWireGuardIfaceAddrs i)" "keeps J (IsHealthCheckEnabledForDevice i)"
  "keeps J (GetAdjacency i)" "keeps J (GetDeviceWireGuardAdjacencies i)"
  "keeps J (GetServerWireGuardAdjacencies i)" "keeps J (AdjacencyExists i j)"
  "keeps J (AdjacencyTemplateExists i j)" "keeps J (AdjacencyTemplateExistsByID i)"
  "keeps J (GetAdjacencyTemplateByID i)" "keeps J (GetUserAdjacencyTemplateRows i)"
  "keeps J (GetAdjacencyTemplatesByServerID i)" "keeps J (GetAdjacenciesByServerID i)"
  "keeps J (GetLdapTemplateServersByServerID i)"
  unfolding GetAllUsers_def GetUserByUsername_def GetUserByID_def UsernameCheck_def UserIDCheck_def
    UserExists_def CountUsers_def GetUserTOTP_def GetMFACertsByType_def ServerIDCheck_def
    ServerNameCheck_def GetAllServers_def GetServerByID_def GetServerByName_def GetServerTags_def
    GetServerWireGuardConfig_def GetServerWireGuardIfaceAddrs_def GetServerWireGuardIfaceDNSs_def
    GetWireGuardIfaceAllAddrs_def DeviceTemplateExists_def GetDeviceTemplateByID_def
    GetDeviceTemplateByUserID_def GetDeviceTemplateAddressPoolIDs_def
    GetDeviceTemplateAddressPools_def GetDeviceTemplateWireGuardIfaceDNSs_def
    GetAddressPoolByIDRow_def GetAddressPoolByName_def GetAllAddressPoolRows_def GetDeviceByIDRow_def
    GetDeviceByExternalIDAndUserID_def GetDeviceWithNoExternalIDByUserID_def
    GetDeviceWithNoSessionIDOrderedByTimestamp_def GetDeviceWithOldestTimestampByUserID_def
    GetAllSessions_def GetAllDevices_def GetDevicesByUserID_def GetDevicesByTemplateID_def
    GetDeviceWireGuardIfaceAddrs_def IsHealthCheckEnabledForDevice_def GetAdjacency_def
    GetDeviceWireGuardAdjacencies_def GetServerWireGuardAdjacencies_def AdjacencyExists_def
    AdjacencyTemplateExists_def AdjacencyTemplateExistsByID_def GetAdjacencyTemplateByID_def
    GetUserAdjacencyTemplateRows_def GetAdjacencyTemplatesByServerID_def GetAdjacenciesByServerID_def
    GetLdapTemplateServersByServerID_def
  by (rule keeps_reads)+

lemma keeps_vcm_reads [pres]:
  "keeps J (CheckServerIDExists i)" "keeps J (CheckServerNameExists n)"
  "keeps J pg_GetAllServers" "keeps J (pg_GetServerByID i)" "keeps J (pg_GetServerByName n)"
  "keeps J (pg_GetReplicaCount i)" "keeps J (pg_GetServerTags i)" "keeps J (pg_GetServerTagsByName n)"
  "keeps J (server_adjacencies E i)" "keeps J (device_adjacencies E i)"
  "keeps J (get_device_template_by_user_id i)" "keeps J (get_device_wg_config E i)"
  "keeps J (get_server_wg_config E i)" "keeps J (vcm_QueryUsedAddrsForSubnet p)"
  unfolding CheckServerIDExists_def CheckServerNameExists_def exists_of_def pg_GetAllServers_def
    pg_GetServerByID_def pg_GetServerByName_def pg_GetReplicaCount_def pg_GetServerTags_def
    pg_GetServerTagsByName_def server_adjacencies_def device_adjacencies_def server_peer_of_def
    device_peer_of_def get_device_template_by_user_id_def get_device_wg_config_def
    get_server_wg_config_def vcm_QueryUsedAddrsForSubnet_def
  by (intro pres)+

lemma reads_vcm [simp]:
  "reads (CheckServerIDExists i)" "reads (CheckServerNameExists n)"
  "reads (pg_GetServerByID i)" "reads (server_adjacencies E i)" "reads (device_adjacencies E i)"
  "reads (get_device_wg_config E i)" "reads (get_server_wg_config E i)"
  by (intro readsI pres)+

text \<open>What a successful existence check says.\<close>

lemma run_exists_of_False:
  assumes "exists_of (q_one f) w = (Inr False, w')"
  shows "f (w_db w) = []" and "w_db w' = w_db w"
proof -
  show "w_db w' = w_db w"
    using assms by (intro reads_eq [of "exists_of (q_one f)"] readsI)
      (auto simp: exists_of_def intro!: pres)
  show "f (w_db w) = []"
    using assms
    by (auto simp: exists_of_def attempt_def q_one_def db_call_def Let_def ret_def throw_def
        split: if_splits prod.splits sum.splits err.splits list.splits)
qed

section \<open>Facts about the healthcheck address\<close>

lemma host_prefix_contains:
  "a \<noteq> NoAddr \<Longrightarrow> zone a = [] \<Longrightarrow> prefix_contains (host_prefix a) a"
  by (cases a) (auto simp: host_prefix_def prefix_from_def prefix_contains_def prefix_valid_def net6_def)

lemma ensure_healthcheck_in:
  "a \<noteq> NoAddr \<Longrightarrow> zone a = [] \<Longrightarrow>
   is_healthcheck_addr_in_allowed_ips (fst (ensure_healthcheck_addr ips (Some a))) (Some a)"
  by (auto simp: ensure_healthcheck_addr_def is_healthcheck_addr_in_allowed_ips_def host_prefix_contains)

text \<open>Maintenance of the healthcheck address in a list of allowed addresses, for a valid
  zone-free address: after \<open>EnsureHealthcheckAddrInAllowedIPs\<close> the address is allowed, a second
  call changes nothing, nothing is lost, and \<open>RemoveHealthcheckAddrFromAllowedIPs\<close> undoes an
  addition exactly.\<close>

theorem healthcheck_ensure_remove:
  assumes "a \<noteq> NoAddr" and "zone a = []"
  shows "is_healthcheck_addr_in_allowed_ips (fst (ensure_healthcheck_addr ips (Some a))) (Some a)
    \<and> ensure_healthcheck_addr (fst (ensure_healthcheck_addr ips (Some a))) (Some a)
        = (fst (ensure_healthcheck_addr ips (Some a)), False)
    \<and> set ips \<subseteq> set (fst (ensure_healthcheck_addr ips (Some a)))
    \<and> (snd (ensure_healthcheck_addr ips (Some a)) \<longrightarrow>
         remove_healthcheck_addr (fst (ensure_healthcheck_addr ips (Some a))) (Some a) = (ips, True))"
proof -
  have "host_prefix a \<notin> set ips" if "\<not> is_healthcheck_addr_in_allowed_ips ips (Some a)"
    using that host_prefix_contains [OF assms]
    by (auto simp: is_healthcheck_addr_in_allowed_ips_def list_ex_iff)
  then have "filter (\<lambda>p. p \<noteq> host_prefix a) ips = ips"
    if "\<not> is_healthcheck_addr_in_allowed_ips ips (Some a)"
    using that by (simp add: filter_id_conv) blast
  then show ?thesis
    using ensure_healthcheck_in [OF assms, of ips]
    by (auto simp: ensure_healthcheck_addr_def remove_healthcheck_addr_def)
qed

lemma healthcheck_ensure_remove_witness:
  "is_healthcheck_addr_in_allowed_ips
     (fst (ensure_healthcheck_addr [] (Some (V4 0x0A000001)))) (Some (V4 0x0A000001))"
  using healthcheck_ensure_remove [of "V4 0x0A000001" "[]"] by simp

end
