(* ===== verification/Vcm_Adjacency.thy ===== *)
theory Vcm_Adjacency
  imports Vcm_Base
begin

text \<open>
  Adjacencies between devices and servers and the templates they are created from: the
  operations of \<open>src/service/vcm/postgres.go\<close> that create, change and delete them, and the
  resynchronisation of a user's adjacencies with the templates.
\<close>

section \<open>The address a server allows for a device\<close>

fun find_covered :: "prefix \<Rightarrow> string list \<Rightarrow> prefix option" where
  "find_covered net [] = None"
| "find_covered net (d # ds) =
     (case parse_prefix d of
        None \<Rightarrow> find_covered net ds
      | Some p \<Rightarrow> if prefix_contains net (pfx_addr p)
                  then Some (prefix_from (pfx_addr p) (int (bit_len (pfx_addr p))))
                  else find_covered net ds)"

fun get_server_side_allowed_ip :: "string list \<Rightarrow> string list \<Rightarrow> err + prefix" where
  "get_server_side_allowed_ip [] ds =
     Inl (new_under VcmErrInvalidData ''could not find IP address of the device in the server network'')"
| "get_server_side_allowed_ip (s # ss) ds =
     (case parse_prefix s of
        None \<Rightarrow> get_server_side_allowed_ip ss ds
      | Some net \<Rightarrow> (case find_covered net ds of
          Some p \<Rightarrow> Inr p
        | None \<Rightarrow> get_server_side_allowed_ip ss ds))"

section \<open>Sessions made invalid by a change of an adjacency\<close>

definition delete_invalid_sessions_by_adjacency :: "env \<Rightarrow> adjacency_row \<Rightarrow> adjacency_row \<Rightarrow> unit wop" where
  "delete_invalid_sessions_by_adjacency E old new =
     (if adj_device new \<noteq> adj_device old then
        bind_do (InvalidateDeviceSession (adj_device old)) (\<lambda>_.
        bind_do (InvalidateDeviceSession (adj_device new)) (\<lambda>_. ret ()))
      else
        bind_do (open_op E (adj_psk old)) (\<lambda>old_psk.
        bind_do (open_op E (adj_psk new)) (\<lambda>new_psk.
        when_do (adj_server new \<noteq> adj_server old \<or> adj_client_ips new \<noteq> adj_client_ips old \<or>
                 new_psk \<noteq> old_psk)
          (bind_do (InvalidateDeviceSession (adj_device new)) (\<lambda>_. ret ())))))"

section \<open>Creation\<close>

text \<open>The nested loops over the addresses already allowed and the new ones.\<close>

definition shares_ip :: "prefix list \<Rightarrow> prefix list \<Rightarrow> bool" where
  "shares_ip xs ys = list_ex (\<lambda>x. list_ex (\<lambda>y. x = y) ys) xs"

lemma shares_ip_iff: "shares_ip xs ys \<longleftrightarrow> set xs \<inter> set ys \<noteq> {}"
  by (auto simp: shares_ip_def list_ex_iff)

definition add_missing :: "prefix \<Rightarrow> prefix list \<Rightarrow> prefix list" where
  "add_missing p ips = (if list_ex (\<lambda>q. p = q) ips then ips else ips @ [p])"

definition vcm_CreateAdjacency :: "env \<Rightarrow> int \<Rightarrow> int \<Rightarrow> api_adjacency \<Rightarrow> unit wop" where
  "vcm_CreateAdjacency E sid did a =
     try_do (lift (new_adj_config_from_api a)) (under VcmErrInvalidData ''NewWireGuardAdjacencyConfigFromAPI'') (\<lambda>cfg.
     try_do (pg_GetServerByID sid) handle_error (\<lambda>server.
     let cips = fst (ensure_healthcheck_addr (wac_client_ips cfg) (sv_healthcheck server)) in
     try_do (AdjacencyExists sid did) handle_error (\<lambda>ex.
     guard_do ex (Sentinel VcmErrAlreadyExists) (
     try_do (get_device_wg_config E did) handle_error (\<lambda>dev.
     guard_do (wc_addresses dev = [])
       (new_under VcmErrInvalidData ''device's interface addresses list is empty'') (
     try_do (get_server_wg_config E sid) handle_error (\<lambda>srv.
     guard_do (wc_addresses srv = [])
       (new_under VcmErrInvalidData ''server's interface addresses list is empty'') (
     try_do (GetDeviceWireGuardAdjacencies did) handle_error (\<lambda>devadjs.
     guard_do (list_ex (\<lambda>(p, _). shares_ip (adj_client_ips p) cips) devadjs)
       (new_under VcmErrInvalidData ''device already has adjacency with the same allowed IP'') (
     bind_do (lift (get_server_side_allowed_ip (wc_addresses srv) (wc_addresses dev))) (\<lambda>ip.
     try_do (server_adjacencies E sid) handle_error (\<lambda>srvadjs.
     guard_do (list_ex (\<lambda>p. list_ex (\<lambda>s. s = prefix_string ip) (wa_allowed p)) srvadjs)
       (new_under VcmErrInvalidData ''server already has adjacency with the same IP address'') (
     try_do (seal_op E (wac_psk cfg)) handle_error (\<lambda>psk.
     try_do (InsertAdjacency \<lparr>adj_id = 0, adj_server = sid, adj_device = did,
         adj_server_ips =
           add_missing ip (case wac_server_ips cfg of None \<Rightarrow> [] | Some l \<Rightarrow> l),
         adj_client_ips = cips, adj_psk = psk\<rparr>) handle_error (\<lambda>_.
     try_do (InvalidateDeviceSession did) handle_error (\<lambda>_. ret ()))))))))))))))))"

section \<open>Changes and deletion\<close>

definition vcm_UpdateAdjacency :: "env \<Rightarrow> int \<Rightarrow> int \<Rightarrow> int \<Rightarrow> api_adjacency \<Rightarrow> unit wop" where
  "vcm_UpdateAdjacency E aid sid did a =
     try_do (GetAdjacency aid) (on_no_rows (Sentinel VcmErrDoesNotExist) handle_error) (\<lambda>old.
     try_do (pg_GetServerByID sid) handle_error (\<lambda>server.
     try_do (lift (new_adj_config_from_api a)) (under VcmErrInvalidData ''NewWireGuardAdjacencyConfigFromAPI'') (\<lambda>cfg.
     let cips = fst (ensure_healthcheck_addr (wac_client_ips cfg) (sv_healthcheck server)) in
     bind_do (if did \<noteq> adj_device old \<or> sid \<noteq> adj_server old
              then try_do (AdjacencyExists sid did) handle_error ret else ret False) (\<lambda>ex.
     guard_do ex (Sentinel VcmErrAlreadyExists) (
     try_do (get_device_wg_config E (adj_device old)) handle_error (\<lambda>old_dev.
     try_do (get_device_wg_config E did) handle_error (\<lambda>new_dev.
     guard_do (wc_addresses new_dev = [])
       (new_under VcmErrInvalidData ''device's interface addresses list is empty'') (
     try_do (get_server_wg_config E (adj_server old)) handle_error (\<lambda>old_srv.
     try_do (get_server_wg_config E sid) handle_error (\<lambda>new_srv.
     guard_do (wc_addresses new_srv = [])
       (new_under VcmErrInvalidData ''server's interface addresses list is empty'') (
     try_do (GetDeviceWireGuardAdjacencies did) handle_error (\<lambda>devadjs.
     guard_do (list_ex (\<lambda>(p, _, c). \<not> (did = adj_device old \<and> sc_public_key c = wc_public_key old_srv)
                  \<and> shares_ip (adj_client_ips p) cips) devadjs)
       (new_under VcmErrInvalidData ''device already has adjacency with the same allowed IP'') (
     bind_do (lift (get_server_side_allowed_ip (wc_addresses new_srv) (wc_addresses new_dev))) (\<lambda>ip.
     try_do (server_adjacencies E sid) handle_error (\<lambda>srvadjs.
     guard_do (list_ex (\<lambda>p. \<not> (sid = adj_server old \<and> wa_public_key p = wc_public_key old_dev)
                  \<and> list_ex (\<lambda>s. s = prefix_string ip) (wa_allowed p)) srvadjs)
       (new_under VcmErrInvalidData ''server already has adjacency with the same IP address'') (
     try_do (seal_op E (wac_psk cfg)) handle_error (\<lambda>psk.
     try_do (UpdateAdjacencyRow aid sid did psk (wac_server_ips cfg) cips) handle_error (\<lambda>new.
     try_do (delete_invalid_sessions_by_adjacency E old new) handle_error ret))))))))))))))))))"

definition vcm_DeleteAdjacency :: "int \<Rightarrow> unit wop" where
  "vcm_DeleteAdjacency aid =
     try_do (GetAdjacency aid) (on_no_rows (Sentinel VcmErrNotFound) handle_error) (\<lambda>a.
     try_do (DeleteAdjacencyRow aid) handle_error (\<lambda>_.
     try_do (InvalidateDeviceSession (adj_device a)) handle_error (\<lambda>_. ret ())))"

section \<open>Adjacency templates\<close>

record adj_template_ext =
  ate_id :: int
  ate_server :: api_server
  ate_config :: api_adj_template

definition adj_template_to_api :: "adj_template_row \<times> server_row \<Rightarrow> adj_template_ext" where
  "adj_template_to_api r =
     (case r of (a, s) \<Rightarrow>
        \<lparr>ate_id = at_id a, ate_server = server_to_api (server_of_row s),
         ate_config = \<lparr>aat_use_psk = at_use_psk a, aat_client_ips = map prefix_string (at_client_ips a)\<rparr>\<rparr>)"

definition vcm_GetUserAdjacencyTemplates :: "int \<Rightarrow> adj_template_ext list wop" where
  "vcm_GetUserAdjacencyTemplates u =
     try_do (UserExists u) (under DrvErrQueryFailed ''UserExists'') (\<lambda>ex.
     guard_do (\<not> ex) (new_under VcmErrDoesNotExist ''user with ID'') (
     try_do (GetUserAdjacencyTemplateRows u) (under DrvErrQueryFailed ''GetUserAdjacencyTemplates'')
       (\<lambda>rs. ret (map adj_template_to_api rs))))"

definition template_client_ips :: "api_server \<Rightarrow> wg_adj_template_config \<Rightarrow> err + prefix list" where
  "template_client_ips s cfg =
     (if as_healthcheck s = [] then Inr (wat_client_ips cfg)
      else case parse_addr (as_healthcheck s) of
             None \<Rightarrow> Inl (errors_new ''parse healthcheck address'')
           | Some a \<Rightarrow> Inr (fst (ensure_healthcheck_addr (wat_client_ips cfg) (Some a))))"

definition vcm_query_failed :: "string \<Rightarrow> err \<Rightarrow> err" where
  "vcm_query_failed l e = handle_error (under DrvErrQueryFailed l e)"

definition vcm_CreateAdjacencyTemplate :: "api_server \<Rightarrow> int \<Rightarrow> api_adj_template \<Rightarrow> unit wop" where
  "vcm_CreateAdjacencyTemplate s u a =
     try_do (AdjacencyTemplateExists (as_id s) u) (vcm_query_failed ''AdjacencyTemplateExists'') (\<lambda>ex.
     guard_do ex (Sentinel VcmErrAlreadyExists) (
     try_do (lift (new_adj_template_config_from_api a))
       (under VcmErrInvalidData ''NewWireGuardAdjacencyTemplateConfigFromAPI'') (\<lambda>cfg.
     bind_do (lift (template_client_ips s cfg)) (\<lambda>ips.
     try_do (GetUserAdjacencyTemplateRows u) (vcm_query_failed ''GetUserAdjacencyTemplates'') (\<lambda>ts.
     guard_do (list_ex (\<lambda>(t, _). shares_ip (at_client_ips t) ips) ts)
       (new_under VcmErrInvalidData ''user already has adjacency template with the same allowed IP'') (
     try_do (InsertAdjacencyTemplate \<lparr>at_id = 0, at_server = as_id s, at_user = u,
         at_client_ips = ips, at_use_psk = wat_use_psk cfg\<rparr>)
       (vcm_query_failed ''InsertAdjacencyTemplate'') (\<lambda>_. ret ())))))))"

definition vcm_UpdateAdjacencyTemplate :: "int \<Rightarrow> api_server \<Rightarrow> int \<Rightarrow> api_adj_template \<Rightarrow> unit wop" where
  "vcm_UpdateAdjacencyTemplate i s u a =
     try_do (GetAdjacencyTemplateByID i)
       (on_no_rows (Sentinel VcmErrDoesNotExist) (vcm_query_failed ''GetAdjacencyTemplateByID'')) (\<lambda>cur.
     guard_do (at_user cur \<noteq> u) (new_under VcmErrInvalidData ''user cannot be changed for adjacency template'') (
     try_do (AdjacencyTemplateExists (as_id s) u) (vcm_query_failed ''AdjacencyTemplateExists'') (\<lambda>ex.
     guard_do (ex \<and> at_server cur \<noteq> as_id s) (Sentinel VcmErrAlreadyExists) (
     try_do (lift (new_adj_template_config_from_api a))
       (under VcmErrInvalidData ''NewWireGuardAdjacencyTemplateConfigFromAPI'') (\<lambda>cfg.
     bind_do (lift (template_client_ips s cfg)) (\<lambda>ips.
     try_do (GetUserAdjacencyTemplateRows u) (vcm_query_failed ''GetUserAdjacencyTemplates'') (\<lambda>ts.
     guard_do (list_ex (\<lambda>(t, _). at_id t \<noteq> i \<and> shares_ip (at_client_ips t) ips) ts)
       (new_under VcmErrInvalidData ''user already has adjacency template with the same allowed IP'') (
     try_do (UpdateAdjacencyTemplateRow i (as_id s) ips (wat_use_psk cfg))
       (vcm_query_failed ''UpdateAdjacencyTemplate'') (\<lambda>_. ret ())))))))))"

definition vcm_DeleteAdjacencyTemplate :: "int \<Rightarrow> unit wop" where
  "vcm_DeleteAdjacencyTemplate i =
     try_do (AdjacencyTemplateExistsByID i) (vcm_query_failed ''AdjacencyTemplateExistsByID'') (\<lambda>ex.
     guard_do (\<not> ex) (Sentinel VcmErrDoesNotExist)
       (try_do (DeleteAdjacencyTemplateRow i) (vcm_query_failed ''DeleteAdjacencyTemplate'') ret))"

section \<open>The allowed address is exact\<close>

lemma find_covered_iff:
  "find_covered net ds = Some p \<Longrightarrow>
     \<exists>d q. d \<in> set ds \<and> parse_prefix d = Some q \<and> prefix_contains net (pfx_addr q) \<and>
       p = prefix_from (pfx_addr q) (int (bit_len (pfx_addr q)))"
  "find_covered net ds = None \<Longrightarrow> d \<in> set ds \<Longrightarrow> parse_prefix d = Some q \<Longrightarrow>
     \<not> prefix_contains net (pfx_addr q)"
  by (induction ds) (force split: option.splits if_splits)+

text \<open>\<open>getServerSideAllowedIP\<close> succeeds exactly when some address of the device lies in the
  network of some address of the server, and then returns such an address of the device as a
  host prefix; texts that do not parse are skipped.\<close>

theorem server_side_ip_exact:
  "(\<exists>e. get_server_side_allowed_ip ss ds = Inl e)
     = (\<not> (\<exists>s\<in>set ss. \<exists>d\<in>set ds. \<exists>net q. parse_prefix s = Some net \<and> parse_prefix d = Some q \<and>
          prefix_contains net (pfx_addr q)))
   \<and> (\<forall>p. get_server_side_allowed_ip ss ds = Inr p \<longrightarrow>
        (\<exists>s\<in>set ss. \<exists>d\<in>set ds. \<exists>net q. parse_prefix s = Some net \<and> parse_prefix d = Some q \<and>
          prefix_contains net (pfx_addr q) \<and> p = prefix_from (pfx_addr q) (int (bit_len (pfx_addr q)))))"
proof (induction ss)
  case (Cons s ss)
  show ?case
  proof (cases "parse_prefix s")
    case None
    with Cons show ?thesis by simp
  next
    case (Some net)
    show ?thesis
    proof (cases "find_covered net ds")
      case None
      with Some Cons find_covered_iff(2) [OF None] show ?thesis by simp
    next
      case fc: (Some p)
      with Some find_covered_iff(1) [OF fc] show ?thesis by simp blast
    qed
  qed
qed simp

lemma server_side_ip_exact_witness:
  "\<exists>d\<in>{''10.0.0.7/24''}. \<exists>q. parse_prefix d = Some q \<and>
     prefix_from (V4 0x0A000007) 32 = prefix_from (pfx_addr q) (int (bit_len (pfx_addr q)))"
proof -
  have "get_server_side_allowed_ip [''10.0.0.1/24''] [''10.0.0.7/24''] = Inr (prefix_from (V4 0x0A000007) 32)"
    by code_simp
  with conjunct2 [OF server_side_ip_exact [of "[''10.0.0.1/24'']" "[''10.0.0.7/24'']"]]
  show ?thesis by auto
qed

section \<open>What the operations do to the tables\<close>

definition device_addresses :: "int \<Rightarrow> db \<Rightarrow> string list" where
  "device_addresses i d = map (\<lambda>(_, p). prefix_string p) (filter (\<lambda>(v, _). v = i) (db_daddrs d))"

definition clear_sessions :: "(device_row \<Rightarrow> bool) \<Rightarrow> db \<Rightarrow> db" where
  "clear_sessions p = db_devices_update (map (\<lambda>v. if p v then clear_session v else v))"

lemma dwp_get_device_wg_config [vcg]:
  assumes "\<And>c. wc_addresses c = device_addresses i d \<Longrightarrow> Q c d" and "\<And>e. X e d"
  shows "dwp (get_device_wg_config E i) Q X d"
  unfolding get_device_wg_config_def query_defs
  by (intro vcg; (intro assms)?)
    (auto simp: device_addresses_def filter_eq_Cons_iff case_prod_unfold comp_def intro!: vcg assms)

lemma dwp_server_reads [vcg]:
  "(\<And>c. Q c d) \<Longrightarrow> (\<And>e. X e d) \<Longrightarrow> dwp (get_server_wg_config E i) Q X d"
  by (rule dwp_reads) auto

lemma dwp_server_adjacencies [vcg]:
  "(\<And>as. Q as d) \<Longrightarrow> (\<And>e. X e d) \<Longrightarrow> dwp (server_adjacencies E i) Q X d"
  by (rule dwp_reads) auto

lemma dwp_pg_GetServerByID [vcg]:
  assumes "\<And>s. s \<in> set (db_servers d) \<Longrightarrow> s_id s = i \<Longrightarrow> Q (server_of_row s) d" and "\<And>e. X e d"
  shows "dwp (pg_GetServerByID i) Q X d"
  unfolding pg_GetServerByID_def query_defs
  by (intro vcg; (intro assms)?) (auto simp: filter_eq_Cons_iff)

lemma InvalidateDeviceSession_dwp [vcg]:
  "(\<And>v. Q v (clear_sessions (\<lambda>v. d_id v = i) d)) \<Longrightarrow> (\<And>e. X e d) \<Longrightarrow>
   dwp (InvalidateDeviceSession i) Q X d"
  unfolding InvalidateDeviceSession_def clear_sessions_def
  by (intro vcg) auto

lemma ensure_healthcheck_zone_free:
  "sv_healthcheck s = None \<or> (the (sv_healthcheck s) \<noteq> NoAddr \<and> zone (the (sv_healthcheck s)) = []) \<Longrightarrow>
   is_healthcheck_addr_in_allowed_ips
     (fst (ensure_healthcheck_addr ips (sv_healthcheck s))) (sv_healthcheck s)"
  by (cases "sv_healthcheck s")
    (auto simp: ensure_healthcheck_in ensure_healthcheck_addr_def is_healthcheck_addr_in_allowed_ips_def
      host_prefix_contains)

text \<open>Healthcheck addresses of servers are valid and carry no zone.\<close>

definition healthchecks_plain :: "db \<Rightarrow> bool" where
  "healthchecks_plain d = (\<forall>s\<in>set (db_servers d). \<forall>h. s_healthcheck s = Some h \<longrightarrow> h \<noteq> NoAddr \<and> zone h = [])"

text \<open>What the row of a new adjacency satisfies.\<close>

definition adjacency_added :: "int \<Rightarrow> int \<Rightarrow> db \<Rightarrow> adjacency_row \<Rightarrow> bool" where
  "adjacency_added sid did d r =
     (adj_server r = sid \<and> adj_device r = did \<and>
      (\<forall>a\<in>set (db_adjs d). \<not> (adj_server a = sid \<and> adj_device a = did)) \<and>
      (\<forall>a\<in>set (db_adjs d). \<forall>s\<in>set (db_servers d). \<forall>c\<in>set (db_scfgs d).
         adj_device a = did \<and> s_id s = adj_server a \<and> sc_server c = adj_server a \<longrightarrow>
         set (adj_client_ips a) \<inter> set (adj_client_ips r) = {}) \<and>
      (\<exists>s\<in>set (db_servers d). s_id s = sid \<and>
         is_healthcheck_addr_in_allowed_ips (adj_client_ips r) (s_healthcheck s)) \<and>
      (\<exists>saddrs ip. get_server_side_allowed_ip saddrs (device_addresses did d) = Inr ip \<and>
         ip \<in> set (adj_server_ips r)))"

lemma sv_healthcheck_of_row [simp]: "sv_healthcheck (server_of_row s) = s_healthcheck s"
  by (simp add: server_of_row_def)

lemma in_add_missing [simp]: "p \<in> set (add_missing p ips)"
  by (auto simp: add_missing_def list_ex_iff)

text \<open>The case analysis of \<open>CreateAdjacency\<close> up to the insertion.\<close>

lemma create_adjacency_added:
  assumes "healthchecks_plain d" "s \<in> set (db_servers d)" "s_id s = sid"
    and "\<not> list_ex (\<lambda>a. adj_server a = sid \<and> adj_device a = did) (db_adjs d)"
    and "cips = fst (ensure_healthcheck_addr ips (s_healthcheck s))"
    and "\<not> list_ex (\<lambda>(p, _). shares_ip (adj_client_ips p) cips)
           (concat (map (\<lambda>a. concat (map (\<lambda>s. map (\<lambda>c. (a, s, c))
               (filter (\<lambda>c. sc_server c = adj_server a) (db_scfgs d)))
             (filter (\<lambda>s. s_id s = adj_server a) (db_servers d))))
           (filter (\<lambda>a. adj_device a = did) (db_adjs d))))"
    and "get_server_side_allowed_ip saddrs (device_addresses did d) = Inr ip"
  shows "adjacency_added sid did d \<lparr>adj_id = i, adj_server = sid, adj_device = did,
    adj_server_ips = add_missing ip sips, adj_client_ips = cips, adj_psk = psk\<rparr>"
proof -
  have "is_healthcheck_addr_in_allowed_ips cips (s_healthcheck s)"
    using assms(1,2,5) ensure_healthcheck_zone_free [of "server_of_row s" ips]
    by (cases "s_healthcheck s") (auto simp: healthchecks_plain_def)
  with assms show ?thesis
    by (auto simp: adjacency_added_def list_ex_iff shares_ip_iff
        intro!: exI [of _ saddrs] exI [of _ ip])
qed

lemma create_adjacency_dwp:
  assumes hc: "healthchecks_plain d"
  shows "dwp (vcm_CreateAdjacency E sid did a)
    (\<lambda>_ d'. \<exists>r. adjacency_added sid did d r \<and>
       d' = clear_sessions (\<lambda>v. d_id v = did) (db_adjs_update (\<lambda>as. as @ [r]) d))
    (\<lambda>_ d'. d' = d \<or> (\<exists>r. adjacency_added sid did d r \<and> d' = db_adjs_update (\<lambda>as. as @ [r]) d)) d"
  unfolding vcm_CreateAdjacency_def AdjacencyExists_def InsertAdjacency_def GetDeviceWireGuardAdjacencies_def
  apply (intro vcg; (simp; fail)?)
  subgoal for x s c ca ip
    by (intro exI conjI, rule create_adjacency_added [OF hc, where s = s]) auto
  subgoal for x s c ca ip
    by (intro exI conjI disjI2, rule create_adjacency_added [OF hc, where s = s]) auto
  done


definition sample_adjacency :: api_adjacency where
  "sample_adjacency = \<lparr>aa_psk = [], aa_allowed = [''10.0.0.0/8''], aa_other = [], aa_server_side = False\<rparr>"


section \<open>One adjacency for a server and a device\<close>

definition adj_pairs :: "db \<Rightarrow> (int \<times> int) list" where
  "adj_pairs d = map (\<lambda>a. (adj_server a, adj_device a)) (db_adjs d)"

lemma adj_pairs_simps [simp]:
  "adj_pairs (clear_sessions p d) = adj_pairs d"
  "adj_pairs (db_adjs_update (\<lambda>as. as @ [r]) d) = adj_pairs d @ [(adj_server r, adj_device r)]"
  by (simp_all add: adj_pairs_def clear_sessions_def)

lemma distinct_replace:
  assumes "distinct (map g xs)" "distinct (map k xs)" "x \<in> set xs" "k x = i" "n = g x \<or> n \<notin> g ` set xs"
  shows "distinct (map (\<lambda>y. if k y = i then n else g y) xs)"
  using assms by (auto simp: distinct_map inj_on_def)

lemma adj_pairs_devices [simp]: "adj_pairs (db_devices_update f d) = adj_pairs d"
  by (simp add: adj_pairs_def)

lemma dwp_delete_invalid_sessions [vcg]:
  assumes "\<And>u f. Q u (db_devices_update f d)" and "\<And>e f. X e (db_devices_update f d)"
  shows "dwp (delete_invalid_sessions_by_adjacency E old new) Q X d"
proof (rule dwp_keeps [where J = "\<lambda>d'. \<exists>f. d' = db_devices_update f d"])
  show "keeps (\<lambda>d'. \<exists>f. d' = db_devices_update f d) (delete_invalid_sessions_by_adjacency E old new)"
    unfolding delete_invalid_sessions_by_adjacency_def InvalidateDeviceSession_def
    by (intro pres keeps_q_update) (auto intro: exI [of _ "_ \<circ> _"])
  show "\<exists>f. d = db_devices_update f d" by (rule exI [of _ id]) simp
qed (use assms in blast)+

lemma dwp_GetAdjacency [vcg]:
  "(\<And>a. a \<in> set (db_adjs d) \<Longrightarrow> adj_id a = i \<Longrightarrow> Q a d) \<Longrightarrow> (\<And>e. X e d) \<Longrightarrow> dwp (GetAdjacency i) Q X d"
  unfolding GetAdjacency_def by (intro vcg) (auto simp: filter_eq_Cons_iff)

lemma dwp_UpdateAdjacencyRow [vcg]:
  assumes "X DbError d" "X no_rows d"
    and "\<And>r f. \<lbrakk>\<And>a. adj_server (f a) = s \<and> adj_device (f a) = v\<rbrakk> \<Longrightarrow>
      Q r (db_adjs_update (map (\<lambda>x. if adj_id x = i then f x else x)) d)"
  shows "dwp (UpdateAdjacencyRow i s v psk sips cips) Q X d"
  unfolding UpdateAdjacencyRow_def
  by (rule dwp_db_call) (auto simp: Let_def split: if_splits list.splits intro!: assms)

lemma in_adj_pairs:
  "(s, v) \<in> set (adj_pairs d) \<longleftrightarrow> list_ex (\<lambda>a. adj_server a = s \<and> adj_device a = v) (db_adjs d)"
  by (auto simp: adj_pairs_def list_ex_iff)

lemma update_adj_pairs:
  assumes fresh: "v \<noteq> adj_device a \<or> s \<noteq> adj_server a \<Longrightarrow>
      \<not> list_ex (\<lambda>a. adj_server a = s \<and> adj_device a = v) (db_adjs d)"
    and f: "\<And>a. adj_server (f a) = s \<and> adj_device (f a) = v"
    and d: "distinct (adj_pairs d)" "distinct (map adj_id (db_adjs d))"
    and a: "a \<in> set (db_adjs d)" "adj_id a = i"
  shows "distinct (adj_pairs (db_adjs_update (map (\<lambda>x. if adj_id x = i then f x else x)) d))"
proof -
  have eq: "adj_pairs (db_adjs_update (map (\<lambda>x. if adj_id x = i then f x else x)) d)
      = map (\<lambda>x. if adj_id x = i then (s, v) else (adj_server x, adj_device x)) (db_adjs d)"
    using f by (simp add: adj_pairs_def)
  show ?thesis
    unfolding eq using d a fresh
    by (intro distinct_replace) (auto simp: adj_pairs_def list_ex_iff)
qed

lemma create_adjacency_unique:
  assumes "distinct (adj_pairs d)"
  shows "dwp (vcm_CreateAdjacency E sid did a)
    (\<lambda>_ d'. distinct (adj_pairs d')) (\<lambda>_ d'. distinct (adj_pairs d')) d"
  unfolding vcm_CreateAdjacency_def AdjacencyExists_def GetDeviceWireGuardAdjacencies_def
    InsertAdjacency_def
  by (intro vcg; simp add: assms in_adj_pairs)

lemma update_adjacency_unique:
  assumes "distinct (adj_pairs d)" "distinct (map adj_id (db_adjs d))"
  shows "dwp (vcm_UpdateAdjacency E aid sid did a)
    (\<lambda>_ d'. distinct (adj_pairs d')) (\<lambda>_ d'. distinct (adj_pairs d')) d"
  unfolding vcm_UpdateAdjacency_def AdjacencyExists_def GetDeviceWireGuardAdjacencies_def
  apply (intro vcg; (simp add: assms; fail)?)
  unfolding adj_pairs_devices by (rule update_adj_pairs; (assumption | rule assms | blast))+

lemma delete_adjacency_unique: "keeps (\<lambda>d. distinct (adj_pairs d)) (vcm_DeleteAdjacency aid)"
  unfolding vcm_DeleteAdjacency_def DeleteAdjacencyRow_def InvalidateDeviceSession_def
  by (intro pres keeps_q_exec keeps_q_update) (auto simp: adj_pairs_def intro: distinct_map_filter)

text \<open>No operation on adjacencies ever gives a server and a device a second adjacency: the
  uniqueness, which the schema does not demand, is kept by creation, change and deletion,
  whether they succeed or fail.\<close>

theorem adjacencies_stay_unique:
  assumes "distinct (adj_pairs (w_db w))" and "distinct (map adj_id (db_adjs (w_db w)))"
  shows "distinct (adj_pairs (w_db (snd (vcm_CreateAdjacency E sid did a w))))
    \<and> distinct (adj_pairs (w_db (snd (vcm_UpdateAdjacency E aid sid did a w))))
    \<and> distinct (adj_pairs (w_db (snd (vcm_DeleteAdjacency aid w))))"
  using dwp_snd [OF create_adjacency_unique [OF assms(1)], of E sid did a]
    dwp_snd [OF update_adjacency_unique [OF assms], of E aid sid did a]
    keepsD [OF delete_adjacency_unique assms(1), of aid]
  by simp

lemma adjacencies_stay_unique_witness:
  "distinct (adj_pairs (w_db (snd (vcm_CreateAdjacency sample_env 5 4 sample_adjacency (world_of sample_db [])))))"
  using adjacencies_stay_unique [where w = "world_of sample_db []" and E = sample_env and sid = 5
      and did = 4 and a = sample_adjacency]
  by (simp add: adj_pairs_def world_of_def sample_db_def empty_db_def)

end
