(* ===== verification/Vcm_Templates.thy ===== *)
theory Vcm_Templates
  imports Vcm_Base
begin

text \<open>
  Device templates: the operations of \<open>src/service/vcm/postgres.go\<close> that create, change and
  delete the template of a user, and the overlap check of \<open>src/pkg/addresspools\<close>.
\<close>

section \<open>Overlap of address pools\<close>

definition address_pools_overlap :: "address_pool \<Rightarrow> address_pool \<Rightarrow> bool" where
  "address_pools_overlap p q =
     (addr_compare (ap_start p) (ap_end q) \<le> 0 \<and> addr_compare (ap_start q) (ap_end p) \<le> 0)"

fun verify_pools_not_overlap :: "address_pool list \<Rightarrow> err + unit" where
  "verify_pools_not_overlap [] = Inr ()"
| "verify_pools_not_overlap (p # ps) =
     (if list_ex (address_pools_overlap p) ps then Inl (errors_new ''address pools overlap'')
      else verify_pools_not_overlap ps)"

section \<open>Operations\<close>

definition read_pools :: "address_pool list \<Rightarrow> address_pool list wop" where
  "read_pools = for_map (\<lambda>p. try_do (GetAddressPoolByIDRow (ap_id p))
     (on_no_rows (new_under VcmErrInvalidData ''address pool does not exist'')
        (under VcmErrInvalidData ''GetAddressPoolByID'')) ret)"

definition check_pools :: "address_pool list \<Rightarrow> unit wop" where
  "check_pools pools = when_do (length pools > 1)
     (try_do (lift (verify_pools_not_overlap pools)) (under VcmErrInvalidData ''VerifyPoolsNotOverlap'') ret)"

definition insert_tpool :: "int \<Rightarrow> address_pool \<Rightarrow> unit wop" where
  "insert_tpool t p = try_do (InsertDeviceTemplateAddressPool t (ap_id p))
     (wrapw ''InsertDeviceTemplateAddressPool'') ret"

definition insert_tdns :: "int \<Rightarrow> string \<Rightarrow> unit wop" where
  "insert_tdns t s = try_do (InsertDeviceTemplateWireGuardIfaceDNS t s)
     (wrapw ''InsertDeviceTemplateWireGuardIfaceDNS'') ret"

definition vcm_CreateDeviceTemplate :: "int \<Rightarrow> api_device_template \<Rightarrow> int wop" where
  "vcm_CreateDeviceTemplate u a =
     try_do (lift (new_device_template_from_api a)) (under VcmErrInvalidData ''NewDeviceTemplateFromAPI'') (\<lambda>dt.
     bind_do (read_pools (tm_pools dt)) (\<lambda>pools.
     bind_do (check_pools pools) (\<lambda>_.
     try_do (with_tx (
       try_do (InsertDeviceTemplate \<lparr>dt_id = 0, dt_user = u, dt_iface = tm_iface dt,
           dt_port = int_to_ptr (tm_port dt), dt_mtu = int_to_ptr (tm_mtu dt)\<rparr>)
         (wrapw ''InsertDeviceTemplate'') (\<lambda>row.
       bind_do (for_each (insert_tpool (dt_id row)) (tm_pools dt)) (\<lambda>_.
       bind_do (for_each (insert_tdns (dt_id row)) (tm_dns dt)) (\<lambda>_.
         ret (dt_id row))))))
     (\<lambda>e. handle_error (query_failed e)) ret)))"

definition template_change_invalidates :: "api_device_template \<Rightarrow> api_device_template \<Rightarrow> bool" where
  "template_change_invalidates old new =
     (adt_iface new \<noteq> adt_iface old \<or> adt_port new \<noteq> adt_port old \<or> adt_mtu new \<noteq> adt_mtu old \<or>
      adt_dns new \<noteq> adt_dns old)"

definition delete_invalid_sessions_by_device_template ::
  "int \<Rightarrow> api_device_template \<Rightarrow> api_device_template \<Rightarrow> unit wop" where
  "delete_invalid_sessions_by_device_template t old new =
     when_do (template_change_invalidates old new) (delete_template_devices_sessions t)"

definition vcm_UpdateDeviceTemplateByUserID :: "int \<Rightarrow> api_device_template \<Rightarrow> unit wop" where
  "vcm_UpdateDeviceTemplateByUserID u a =
     try_do (lift (new_device_template_from_api a)) (under VcmErrInvalidData ''NewDeviceTemplateFromAPI'') (\<lambda>new.
     try_do (get_device_template_by_user_id u) handle_error (\<lambda>old.
     bind_do (read_pools (tm_pools new)) (\<lambda>pools.
     bind_do (check_pools pools) (\<lambda>_.
     try_do (with_tx (
       try_do (UpdateDeviceTemplateByUserID u (tm_iface new) (int_to_ptr (tm_port new)) (int_to_ptr (tm_mtu new)))
         (wrapw ''UpdateDeviceTemplateByUserID'') (\<lambda>row.
       try_do (DeleteDeviceTemplateAddressPools (dt_id row)) (wrapw ''DeleteDeviceTemplateAddressPools'') (\<lambda>_.
       bind_do (for_each (insert_tpool (dt_id row)) (tm_pools new)) (\<lambda>_.
       try_do (DeleteDeviceTemplateWireGuardDNS (dt_id row)) (wrapw ''DeleteDeviceTemplateWireGuardDNS'') (\<lambda>_.
       bind_do (for_each (insert_tdns (dt_id row)) (tm_dns new)) (\<lambda>_.
         ret (dt_id row))))))))
       (\<lambda>e. handle_error (query_failed e)) (\<lambda>tid.
     try_do (delete_invalid_sessions_by_device_template tid (device_template_to_api old)
         (device_template_to_api new)) handle_error ret)))))"

text \<open>
  When the user has no template, the zero row is used: its identifier is 0.  A failing deletion
  of an adjacency is only logged.
\<close>

definition drop_device_adjacencies :: "int \<Rightarrow> unit wop" where
  "drop_device_adjacencies did =
     try_do (GetDeviceWireGuardAdjacencies did) handle_error (\<lambda>peers.
       for_each (\<lambda>(a, _). ignore_err (DeleteAdjacencyRow (adj_id a))) peers)"

definition delete_template :: "int \<Rightarrow> unit wop" where
  "delete_template tid =
     try_do (GetDevicesByTemplateID tid)
       (\<lambda>e. handle_error (under DrvErrQueryFailed ''GetDevicesByTemplateID'' e)) (\<lambda>devs.
     try_do (with_tx (
       bind_do (for_each (\<lambda>v. drop_device_adjacencies (d_id v)) devs) (\<lambda>_.
       try_do (delete_template_devices_sessions tid)
         (\<lambda>e. handle_error (under DrvErrQueryFailed ''deleteTemplateDevicesSessions'' e)) (\<lambda>_.
       try_do (DeleteDeviceTemplate tid)
         (\<lambda>e. handle_error (under DrvErrQueryFailed ''DeleteDeviceTemplate'' e)) ret))))
       (\<lambda>e. handle_error (query_failed e)) ret)"

definition vcm_DeleteDeviceTemplateByUserID :: "int \<Rightarrow> unit wop" where
  "vcm_DeleteDeviceTemplateByUserID u =
     bind_do (attempt (GetDeviceTemplateByUserID u) (\<lambda>r. case r of
         Inl e \<Rightarrow> if e \<noteq> no_rows
                  then throw (handle_error (under DrvErrQueryFailed ''GetDeviceTemplateByUserID'' e))
                  else ret 0
       | Inr t \<Rightarrow> ret (dt_id t))) delete_template"

section \<open>Pools of a template are disjoint\<close>

definition pool_wf :: "address_pool \<Rightarrow> bool" where
  "pool_wf p = (ap_start p \<le> ap_end p)"

definition pool_addrs :: "address_pool \<Rightarrow> addr set" where
  "pool_addrs p = {ap_start p..ap_end p}"

lemma overlap_iff:
  "pool_wf p \<Longrightarrow> pool_wf q \<Longrightarrow> address_pools_overlap p q \<longleftrightarrow> pool_addrs p \<inter> pool_addrs q \<noteq> {}"
  by (auto simp: address_pools_overlap_def pool_addrs_def pool_wf_def Int_atLeastAtMost)

text \<open>C33. \<open>VerifyPoolsNotOverlap\<close> accepts a list of pools exactly when the address intervals of
  any two of them are disjoint.\<close>

theorem verify_pools_exact:
  assumes "list_all pool_wf ps"
  shows "verify_pools_not_overlap ps = Inr () \<longleftrightarrow>
    (\<forall>i j. i < j \<and> j < length ps \<longrightarrow> pool_addrs (ps ! i) \<inter> pool_addrs (ps ! j) = {})"
proof -
  have "verify_pools_not_overlap ps = Inr () \<longleftrightarrow>
      sorted_wrt (\<lambda>p q. pool_addrs p \<inter> pool_addrs q = {}) ps"
    using assms by (induction ps) (auto simp: list_ex_iff list_all_iff overlap_iff)
  then show ?thesis by (auto simp: sorted_wrt_iff_nth_less)
qed

lemma verify_pools_exact_witness:
  "pool_addrs sample_pool \<inter> pool_addrs (sample_pool\<lparr>ap_start := V4 0x0A000008, ap_end := V4 0x0A000009\<rparr>) = {}"
proof -
  let ?q = "sample_pool\<lparr>ap_start := V4 0x0A000008, ap_end := V4 0x0A000009\<rparr>"
  have "list_all pool_wf [sample_pool, ?q]" "verify_pools_not_overlap [sample_pool, ?q] = Inr ()"
    by (simp_all add: pool_wf_def sample_pool_def address_pools_overlap_def)
  with verify_pools_exact [of "[sample_pool, ?q]"] show ?thesis by fastforce
qed

section \<open>Creation and deletion of a template\<close>

lemma dwp_read_pools [vcg]:
  assumes "\<And>qs. list_all2 (\<lambda>p q. q \<in> set (db_pools d) \<and> ap_id q = ap_id p) ps qs \<Longrightarrow> Q qs d"
    and "\<And>e. X e d"
  shows "dwp (read_pools ps) Q X d"
  unfolding read_pools_def GetAddressPoolByIDRow_def
  by (rule dwp_for_map_reads [where R = "\<lambda>p q. q \<in> set (db_pools d) \<and> ap_id q = ap_id p"])
    (intro vcg assms; auto simp: filter_eq_Cons_iff)+

lemma dwp_insert_tpools [vcg]:
  "Q () (db_tpools_update (\<lambda>l. l @ map (\<lambda>p. (t, ap_id p)) ps) d) \<Longrightarrow> (\<And>e d. X e d) \<Longrightarrow>
   dwp (for_each (insert_tpool t) ps) Q X d"
proof (induction ps arbitrary: d)
  case (Cons p ps)
  show ?case
    unfolding for_each.simps insert_tpool_def [of t p] InsertDeviceTemplateAddressPool_def
    by (intro vcg Cons.IH Cons.prems(2)) (use Cons.prems(1) in \<open>simp add: comp_def\<close>)
qed (simp add: vcg)

lemma dwp_insert_tdns [vcg]:
  "Q () (db_tdns_update (\<lambda>l. l @ map (Pair t) ss) d) \<Longrightarrow> (\<And>e d. X e d) \<Longrightarrow>
   dwp (for_each (insert_tdns t) ss) Q X d"
proof (induction ss arbitrary: d)
  case (Cons s ss)
  show ?case
    unfolding for_each.simps insert_tdns_def [of t s] InsertDeviceTemplateWireGuardIfaceDNS_def
    by (intro vcg Cons.IH Cons.prems(2)) (use Cons.prems(1) in \<open>simp add: comp_def\<close>)
qed (simp add: vcg)

definition template_added :: "int \<Rightarrow> device_template \<Rightarrow> int \<Rightarrow> db \<Rightarrow> db" where
  "template_added u dt t d =
     db_tdns_update (\<lambda>l. l @ map (Pair t) (tm_dns dt))
      (db_tpools_update (\<lambda>l. l @ map (\<lambda>p. (t, ap_id p)) (tm_pools dt))
        (db_templates_update (\<lambda>l. l @ [\<lparr>dt_id = t, dt_user = u, dt_iface = tm_iface dt,
           dt_port = int_to_ptr (tm_port dt), dt_mtu = int_to_ptr (tm_mtu dt)\<rparr>]) d))"

lemma create_template_dwp:
  "dwp (vcm_CreateDeviceTemplate u a)
    (\<lambda>t d'. \<exists>dt pools. new_device_template_from_api a = Inr dt
       \<and> list_all2 (\<lambda>p q. q \<in> set (db_pools d) \<and> ap_id q = ap_id p) (tm_pools dt) pools
       \<and> verify_pools_not_overlap pools = Inr () \<and> d' = template_added u dt t d)
    (\<lambda>_ d'. d' = d) d"
  unfolding vcm_CreateDeviceTemplate_def check_pools_def InsertDeviceTemplate_def
  apply (intro vcg; (simp; fail)?)
  subgoal for dt pools by (cases pools) (auto simp: template_added_def)
  subgoal for dt pools
    by (cases pools rule: remdups_adj.cases) (auto simp: template_added_def)
  done

text \<open>C31. \<open>CreateDeviceTemplate\<close> is atomic under every schedule of failures: an error leaves the
  tables as they were; on success exactly the template with its pools and name servers was
  added, every pool of the request exists and no two of them overlap.\<close>

theorem create_template_atomic:
  "case vcm_CreateDeviceTemplate u a w of
     (Inl e, w') \<Rightarrow> w_db w' = w_db w
   | (Inr t, w') \<Rightarrow> \<exists>dt pools. new_device_template_from_api a = Inr dt
       \<and> list_all2 (\<lambda>p q. q \<in> set (db_pools (w_db w)) \<and> ap_id q = ap_id p) (tm_pools dt) pools
       \<and> verify_pools_not_overlap pools = Inr () \<and> w_db w' = template_added u dt t (w_db w)"
  using create_template_dwp [of u a "w_db w"]
  by (auto split: sum.split prod.split dest: dwp_Inr dwp_Inl)

text \<open>Deletions of adjacencies that spare the devices outside \<open>ids\<close>.\<close>

definition thinned :: "int set \<Rightarrow> db \<Rightarrow> db \<Rightarrow> bool" where
  "thinned ids d d' = (\<exists>p. d' = db_adjs_update (filter p) d \<and>
     (\<forall>a\<in>set (db_adjs d). adj_device a \<notin> ids \<longrightarrow> p a))"

lemma thinned_refl [simp]: "thinned ids d d"
  unfolding thinned_def by (rule exI [of _ "\<lambda>_. True"]) simp

lemma thinned_delete:
  assumes "thinned ids d d'" "distinct (map adj_id (db_adjs d))"
    and "b \<in> set (db_adjs d)" "adj_device b \<in> ids"
  shows "thinned ids d (db_adjs_update (filter (\<lambda>a. adj_id a \<noteq> adj_id b)) d')"
proof -
  from assms(1) obtain p where p: "d' = db_adjs_update (filter p) d"
    "\<forall>a\<in>set (db_adjs d). adj_device a \<notin> ids \<longrightarrow> p a" by (auto simp: thinned_def)
  have "\<forall>a\<in>set (db_adjs d). adj_device a \<notin> ids \<longrightarrow> adj_id a \<noteq> adj_id b"
    using assms(2-4) by (auto simp: distinct_map inj_on_def)
  with p show ?thesis
    unfolding thinned_def by (intro exI [of _ "\<lambda>a. p a \<and> adj_id a \<noteq> adj_id b"])
      (simp add: comp_def conj_commute)
qed

lemma thinned_adjs: "thinned ids d d' \<Longrightarrow> set (db_adjs d') \<subseteq> set (db_adjs d)"
  by (auto simp: thinned_def)

lemma thinned_keeps: "thinned ids d d' \<Longrightarrow> a \<in> set (db_adjs d) \<Longrightarrow> adj_device a \<notin> ids \<Longrightarrow> a \<in> set (db_adjs d')"
  by (auto simp: thinned_def)

lemma thinned_fields:
  "thinned ids d d' \<Longrightarrow> db_templates d' = db_templates d \<and> db_devices d' = db_devices d"
  by (auto simp: thinned_def)

lemma dwp_drop_device_adjacencies:
  assumes "thinned ids d d'" "distinct (map adj_id (db_adjs d))" "i \<in> ids"
    and Q: "\<And>d''. thinned ids d d'' \<Longrightarrow> Q () d''" and X: "\<And>e d. X e d"
  shows "dwp (drop_device_adjacencies i) Q X d'"
proof -
  let ?rows = "concat (map (\<lambda>a. concat (map (\<lambda>s. map (\<lambda>c. (a, s, c))
         (filter (\<lambda>c. sc_server c = adj_server a) (db_scfgs d')))
       (filter (\<lambda>s. s_id s = adj_server a) (db_servers d'))))
     (filter (\<lambda>a. adj_device a = i) (db_adjs d')))"
  have rows: "\<forall>x\<in>set ?rows. fst x \<in> set (db_adjs d) \<and> adj_device (fst x) \<in> ids"
    using assms(3) thinned_adjs [OF assms(1)] by auto
  show ?thesis
    unfolding drop_device_adjacencies_def GetDeviceWireGuardAdjacencies_def
  proof (intro vcg X, rule dwp_for_each [where I = "\<lambda>xs d''. thinned ids d d'' \<and>
        (\<forall>x\<in>set xs. fst x \<in> set (db_adjs d) \<and> adj_device (fst x) \<in> ids)"])
    show "thinned ids d d' \<and> (\<forall>x\<in>set ?rows. fst x \<in> set (db_adjs d) \<and> adj_device (fst x) \<in> ids)"
      using rows assms(1) by blast
  next
    fix x xs d''
    assume I: "thinned ids d d'' \<and>
      (\<forall>x\<in>set (x # xs). fst x \<in> set (db_adjs d) \<and> adj_device (fst x) \<in> ids)"
    then have "thinned ids d (db_adjs_update (filter (\<lambda>a. adj_id a \<noteq> adj_id (fst x))) d'')"
      by (intro thinned_delete [OF _ assms(2)]) auto
    with I show "dwp (case x of (a, _) \<Rightarrow> ignore_err (DeleteAdjacencyRow (adj_id a)))
        (\<lambda>_ d''. thinned ids d d'' \<and>
          (\<forall>x\<in>set xs. fst x \<in> set (db_adjs d) \<and> adj_device (fst x) \<in> ids)) X d''"
      unfolding DeleteAdjacencyRow_def by (intro vcg) (auto simp: X)
  qed (use Q in blast)
qed

definition first_template :: "int \<Rightarrow> db \<Rightarrow> int" where
  "first_template u d = (case filter (\<lambda>t. dt_user t = u) (db_templates d) of [] \<Rightarrow> 0 | t # _ \<Rightarrow> dt_id t)"

definition template_devices :: "int \<Rightarrow> db \<Rightarrow> int set" where
  "template_devices t d = {i. \<exists>v\<in>set (db_devices d). d_id v = i \<and> d_template v = t}"

definition template_gone :: "int \<Rightarrow> db \<Rightarrow> db \<Rightarrow> bool" where
  "template_gone t d d' =
     (db_templates d' = filter (\<lambda>x. dt_id x \<noteq> t) (db_templates d) \<and>
      db_devices d' = filter (\<lambda>v. d_template v \<noteq> t) (db_devices d) \<and>
      (\<forall>a\<in>set (db_adjs d'). adj_device a \<notin> template_devices t d) \<and>
      (\<forall>a\<in>set (db_adjs d). adj_device a \<notin> template_devices t d \<longrightarrow> a \<in> set (db_adjs d')))"

lemma template_goneI:
  assumes thin: "thinned (template_devices t d) d d1"
    and d2: "d2 = db_devices_update (map (\<lambda>v. if d_template v = t then clear_session v else v)) d1"
    and free: "templates_free (\<lambda>x. dt_id x = t) d2"
    and ex: "t \<in> dt_id ` set (db_templates d) \<or> template_devices t d = {}"
  shows "template_gone t d (drop_templates (\<lambda>x. dt_id x = t) d2)"
proof -
  let ?g = "map dt_id (filter (\<lambda>x. dt_id x = t) (db_templates d))"
  let ?f = "\<lambda>v. if d_template v = t then clear_session v else v"
  have fields: "db_templates d2 = db_templates d" "db_devices d2 = map ?f (db_devices d)"
    "db_adjs d2 = db_adjs d1"
    using thinned_fields [OF thin] by (simp_all add: d2)
  have g: "d_template v \<in> set ?g \<longleftrightarrow> d_template v = t" if "v \<in> set (db_devices d)" for v
    using ex that by (auto simp: template_devices_def)
  have f: "d_template (?f v) = d_template v" "d_id (?f v) = d_id v" for v
    by (auto simp: clear_session_def)
  have dev: "filter (\<lambda>v. d_template v \<notin> set ?g) (map ?f (db_devices d))
      = filter (\<lambda>v. d_template v \<notin> set ?g) (db_devices d)"
    using g f by (intro filter_map_unchanged) auto
  have dev': "\<dots> = filter (\<lambda>v. d_template v \<noteq> t) (db_devices d)"
    using g by (intro filter_cong) auto
  have gone: "\<forall>a\<in>set (db_adjs d1). adj_device a \<notin> template_devices t d"
  proof
    fix a assume a: "a \<in> set (db_adjs d1)"
    show "adj_device a \<notin> template_devices t d"
    proof
      assume "adj_device a \<in> template_devices t d"
      then obtain v where v: "v \<in> set (db_devices d)" "d_id v = adj_device a" "d_template v = t"
        by (auto simp: template_devices_def)
      from free have "\<forall>x\<in>set (map ?f (db_devices d)). d_template x \<in> set ?g \<longrightarrow>
          \<not> list_ex (\<lambda>a. adj_device a = d_id x) (db_adjs d1)"
        by (simp only: templates_free_def devices_free_def fields Let_def list_all_iff)
      moreover have "?f v \<in> set (map ?f (db_devices d))"
        unfolding set_map by (rule imageI [OF v(1)])
      ultimately have "d_template (?f v) \<in> set ?g \<longrightarrow>
          \<not> list_ex (\<lambda>a. adj_device a = d_id (?f v)) (db_adjs d1)" by (rule bspec)
      then have "d_template v \<in> set ?g \<longrightarrow> \<not> list_ex (\<lambda>a. adj_device a = d_id v) (db_adjs d1)"
        unfolding f .
      with g [OF v(1)] v a show False by (auto simp: list_ex_iff)
    qed
  qed
  have "db_templates (drop_templates (\<lambda>x. dt_id x = t) d2) = filter (\<lambda>x. dt_id x \<noteq> t) (db_templates d)"
    "db_devices (drop_templates (\<lambda>x. dt_id x = t) d2) = filter (\<lambda>v. d_template v \<noteq> t) (db_devices d)"
    "db_adjs (drop_templates (\<lambda>x. dt_id x = t) d2) = db_adjs d1"
    using dev dev' by (simp_all add: drop_templates_def drop_devices_def Let_def fields)
  with gone thinned_keeps [OF thin] show ?thesis by (simp add: template_gone_def)
qed

lemma delete_template_dwp:
  assumes "distinct (map adj_id (db_adjs d))"
    and "t \<in> dt_id ` set (db_templates d) \<or> template_devices t d = {}"
  shows "dwp (delete_template t) (\<lambda>_ d'. template_gone t d d') (\<lambda>_ d'. d' = d) d"
  unfolding delete_template_def GetDevicesByTemplateID_def
    delete_template_devices_sessions_def InvalidateTemplateDeviceSessions_def DeleteDeviceTemplate_def
  apply (intro vcg dwp_for_each [where I = "\<lambda>xs d'. thinned (template_devices t d) d d' \<and>
      (\<forall>v\<in>set xs. d_id v \<in> template_devices t d)"] dwp_drop_device_adjacencies [OF _ assms(1)]; (simp;fail)?)
  subgoal by (auto simp: template_devices_def)
  subgoal by (rule template_goneI [OF _ refl _ assms(2)]) simp_all
  done

text \<open>\<open>DeleteDeviceTemplateByUserID\<close> is atomic under every schedule of failures: an error
  leaves the tables as they were; on success the template of the user and exactly its devices
  are gone, no adjacency refers to one of them any more, and the adjacencies of all other
  devices are still there.\<close>

theorem delete_template_atomic:
  assumes "distinct (map adj_id (db_adjs (w_db w)))"
    and "\<forall>v\<in>set (db_devices (w_db w)). d_template v \<in> dt_id ` set (db_templates (w_db w))"
  shows "case vcm_DeleteDeviceTemplateByUserID u w of
     (Inl e, w') \<Rightarrow> w_db w' = w_db w
   | (Inr _, w') \<Rightarrow> template_gone (first_template u (w_db w)) (w_db w) (w_db w')"
proof -
  have del: "dwp (delete_template t) (\<lambda>_ d'. template_gone t (w_db w) d') (\<lambda>_ d'. d' = w_db w) (w_db w)" for t
    using assms by (intro delete_template_dwp) (auto simp: template_devices_def)
  have "dwp (vcm_DeleteDeviceTemplateByUserID u)
      (\<lambda>_ d'. template_gone (first_template u (w_db w)) (w_db w) d') (\<lambda>_ d'. d' = w_db w) (w_db w)"
    unfolding vcm_DeleteDeviceTemplateByUserID_def GetDeviceTemplateByUserID_def
    using del by (auto intro!: vcg simp: first_template_def)
  then show ?thesis by (auto split: sum.split prod.split dest: dwp_Inr dwp_Inl)
qed

lemma delete_template_atomic_witness:
  "template_gone 3 sample_db (w_db (snd (vcm_DeleteDeviceTemplateByUserID 1 (world_of sample_db []))))"
proof -
  have "is_ok (fst (vcm_DeleteDeviceTemplateByUserID 1 (world_of sample_db [])))" by code_simp
  moreover have "first_template 1 sample_db = 3" by code_simp
  ultimately show ?thesis
    using delete_template_atomic [of "world_of sample_db []" 1]
    by (auto simp: world_of_def sample_db_def empty_db_def sample_device_def sample_template_def
        is_ok_def split: sum.splits prod.splits)
qed

end
