(* ===== verification/Sessions.thy ===== *)
theory Sessions
  imports Vcm_Base
begin

text \<open>
  Invalidation of device sessions: \<open>src/service/user/session.go\<close>.  A session ends when a
  configuration the device was given no longer holds.
\<close>

type_synonym user_model = user_row

definition query_failed_v :: "string \<Rightarrow> err \<Rightarrow> err" where
  "query_failed_v l = under ErrQueryFailed l"

definition um_GetAllDevicesSessions :: "string list wop" where
  "um_GetAllDevicesSessions = try_do GetAllSessions (query_failed_v ''GetAllSessions'') ret"

definition um_InvalidateOldDevicesSessions :: "int \<Rightarrow> int wop" where
  "um_InvalidateOldDevicesSessions threshold =
     try_do (InvalidateOldDeviceSessions threshold) (under_both ErrQueryFailed ''InvalidateOldDeviceSessions'')
       (\<lambda>n. ret (int n))"

text \<open>One tick of the periodic check; its errors are logged.\<close>

definition um_RunSessionInvalidation :: "int \<Rightarrow> unit wop" where
  "um_RunSessionInvalidation expiration =
     bind_do (gets w_now) (\<lambda>now.
       ignore_err (try_do (um_InvalidateOldDevicesSessions (now - expiration)) (\<lambda>e. e) (\<lambda>_. ret ())))"

definition delete_device_session :: "int \<Rightarrow> unit wop" where
  "delete_device_session i =
     try_do (InvalidateDeviceSession i) (query_failed_v ''InvalidateDeviceSession'') (\<lambda>_. ret ())"

definition delete_user_device_sessions :: "int \<Rightarrow> unit wop" where
  "delete_user_device_sessions u =
     attempt (GetDeviceTemplateByUserID u) (\<lambda>r. case r of
       Inl e \<Rightarrow> if errors_is e PgxErrNoRows then ret () else throw e
     | Inr t \<Rightarrow> bind_do (InvalidateTemplateDeviceSessions (dt_id t)) (\<lambda>_. ret ()))"

definition delete_sessions_of_all_users_with_cert_mfa :: "unit wop" where
  "delete_sessions_of_all_users_with_cert_mfa =
     bind_do InvalidateAllDeviceSessionsWithCert (\<lambda>_. ret ())"

definition device_change_invalidates :: "api_device_data \<Rightarrow> api_device_data \<Rightarrow> bool" where
  "device_change_invalidates old new =
     (dd_private_key new \<noteq> dd_private_key old \<or> dd_public_key new \<noteq> dd_public_key old \<or>
      dd_addresses new \<noteq> dd_addresses old)"

definition um_DeleteInvalidSessionsByDevice :: "int \<Rightarrow> api_device_data \<Rightarrow> api_device_data \<Rightarrow> unit wop" where
  "um_DeleteInvalidSessionsByDevice i old new =
     when_do (device_change_invalidates old new) (delete_device_session i)"

definition user_change_invalidates :: "user_model \<Rightarrow> user_model \<Rightarrow> bool" where
  "user_change_invalidates old new =
     (u_username new \<noteq> u_username old \<or> u_auth_service new \<noteq> u_auth_service old \<or>
      u_mfa_auth new \<noteq> u_mfa_auth old \<or> u_ntf new \<noteq> u_ntf old)"

definition um_DeleteInvalidSessionsByUser :: "user_model \<Rightarrow> user_model \<Rightarrow> unit wop" where
  "um_DeleteInvalidSessionsByUser old new =
     when_do (user_change_invalidates old new) (delete_user_device_sessions (u_id new))"

definition um_DeleteInvalidSessionsByUserPassword :: "user_model \<Rightarrow> unit wop" where
  "um_DeleteInvalidSessionsByUserPassword u = delete_user_device_sessions (u_id u)"

definition um_DeleteInvalidSessionsByUserTOTP :: "user_model \<Rightarrow> unit wop" where
  "um_DeleteInvalidSessionsByUserTOTP u =
     when_do (u_mfa_auth u = ''totp'') (delete_user_device_sessions (u_id u))"

datatype cert_operation = InsertCert | DeleteCert

definition um_DeleteInvalidSessionsByMFACert :: "cert_operation \<Rightarrow> string \<Rightarrow> unit wop" where
  "um_DeleteInvalidSessionsByMFACert op ty =
     (if op = InsertCert \<and> ty = ''ca'' then ret ()
      else if op = InsertCert \<and> ty = ''crl'' then delete_sessions_of_all_users_with_cert_mfa
      else if op = DeleteCert \<and> ty = ''ca'' then delete_sessions_of_all_users_with_cert_mfa
      else if op = DeleteCert \<and> ty = ''crl'' then ret ()
      else throw (errors_new ''internal error in DeleteInvalidSessionsByMFACert''))"

section \<open>Expiry\<close>

definition session_expired :: "int \<Rightarrow> device_row \<Rightarrow> bool" where
  "session_expired t v = (case d_last_connected v of None \<Rightarrow> False | Some c \<Rightarrow> c < t)"

text \<open>\<open>InvalidateOldDevicesSessions\<close> is exact: on success the sessions of precisely the devices
  that last connected before the threshold are cleared, a session that is not older survives,
  everything else in the tables is as before, and the number returned is the number of these
  devices; on failure nothing changed.\<close>

theorem old_sessions_exact:
  "case um_InvalidateOldDevicesSessions t w of
     (Inl e, w') \<Rightarrow> w_db w' = w_db w
   | (Inr n, w') \<Rightarrow> n = int (length (filter (session_expired t) (db_devices (w_db w))))
       \<and> w_db w' = (w_db w)\<lparr>db_devices := map (\<lambda>v. if session_expired t v then v\<lparr>d_session := []\<rparr> else v)
           (db_devices (w_db w))\<rparr>"
proof -
  have "dwp (um_InvalidateOldDevicesSessions t)
     (\<lambda>n d'. n = int (length (filter (session_expired t) (db_devices d)))
       \<and> d' = d\<lparr>db_devices := map (\<lambda>v. if session_expired t v then v\<lparr>d_session := []\<rparr> else v) (db_devices d)\<rparr>)
     (\<lambda>_ d'. d' = d) d" for d
    unfolding um_InvalidateOldDevicesSessions_def InvalidateOldDeviceSessions_def session_expired_def [abs_def]
      clear_session_def [abs_def]
    by (intro vcg) simp_all
  from this [of "w_db w"] show ?thesis by (auto split: sum.split prod.split dest: dwp_Inr dwp_Inl)
qed

end
