(* ===== verification/Users.thy ===== *)
theory Users
  imports Vcm_Adjacency Vcm_Templates Sessions
begin

text \<open>
  Users: the model \<open>src/service/user/model.go\<close>, the user queries of
  \<open>src/service/user/querier.go\<close> and the user operations of \<open>src/service/user/manager.go\<close>.
  The password hash and the LDAP servers are outside the repository.
\<close>

section \<open>The user model\<close>

definition blank_user :: user_model where
  "blank_user = \<lparr>u_id = 0, u_username = [], u_password = [], u_is_admin = False, u_auth_service = [],
     u_mfa_auth = [], u_ntf = [], u_updated_at = 0\<rparr>"

definition is_internal :: "user_model \<Rightarrow> bool" where
  "is_internal u = (u_auth_service u = ''intr'')"

definition is_ldap :: "user_model \<Rightarrow> bool" where
  "is_ldap u = (u_auth_service u = ''ldap'')"

definition um_set_id :: "int \<Rightarrow> user_model \<Rightarrow> err + user_model" where
  "um_set_id i u = (if i < 1 then Inl (Sentinel ErrTooSmallUserID) else Inr (u\<lparr>u_id := i\<rparr>))"

definition um_set_auth_type :: "string \<Rightarrow> user_model \<Rightarrow> err + user_model" where
  "um_set_auth_type t u =
     (if t = ''intr'' then Inr (u\<lparr>u_auth_service := ''intr''\<rparr>)
      else if t = ''ldap'' then Inr (u\<lparr>u_auth_service := ''ldap''\<rparr>)
      else Inl (errors_new ''unknown user authentication type''))"

definition um_set_name :: "string \<Rightarrow> user_model \<Rightarrow> err + user_model" where
  "um_set_name n u =
     (if n = [] then Inl (new_under ErrBadUserData ''username cannot be an empty string'')
      else if length n > 50 then Inl (new_under ErrBadUserData ''user name length'')
      else Inr (u\<lparr>u_username := n\<rparr>))"

definition um_set_password :: "env \<Rightarrow> string \<Rightarrow> user_model \<Rightarrow> user_model wop" where
  "um_set_password E pw u =
     guard_do (pw = []) (new_under ErrBadUserData ''password cannot be an empty string'')
       (try_do (draw (\<lambda>n. env_bcrypt E n pw)) (wrapv ''could not hash password'') (\<lambda>h.
         ret (u\<lparr>u_password := h\<rparr>)))"

definition um_set_admin :: "bool \<Rightarrow> user_model \<Rightarrow> user_model" where
  "um_set_admin b u = u\<lparr>u_is_admin := b\<rparr>"

definition um_set_mfa_type :: "string \<Rightarrow> user_model \<Rightarrow> user_model" where
  "um_set_mfa_type t u = (if t = [] then u\<lparr>u_mfa_auth := ''none''\<rparr> else u\<lparr>u_mfa_auth := t\<rparr>)"

definition um_set_notification :: "string \<Rightarrow> user_model \<Rightarrow> err + user_model" where
  "um_set_notification t u =
     (if length t > 75 then Inl (errors_new ''user notification length'') else Inr (u\<lparr>u_ntf := t\<rparr>))"

definition compare_passwords :: "env \<Rightarrow> user_model \<Rightarrow> string \<Rightarrow> bool" where
  "compare_passwords E u pw =
     (if pw = [] \<or> u_password u = [] then False else env_bcrypt_ok E (u_password u) pw)"

definition new_user_model_with_name :: "string \<Rightarrow> err + user_model" where
  "new_user_model_with_name n =
     bind_res (um_set_auth_type ''intr'' blank_user) (\<lambda>e. e) (\<lambda>u. um_set_name n (um_set_mfa_type ''none'' u))"

definition new_user_model_with_id :: "int \<Rightarrow> err + user_model" where
  "new_user_model_with_id i =
     bind_res (um_set_auth_type ''intr'' blank_user) (\<lambda>e. e) (\<lambda>u. um_set_id i (um_set_mfa_type ''none'' u))"

definition user_to_api :: "user_model \<Rightarrow> api_user" where
  "user_to_api u = \<lparr>au_id = u_id u, au_username = u_username u, au_is_admin = u_is_admin u,
     au_mfa = u_mfa_auth u, au_auth = u_auth_service u, au_ntf = u_ntf u, au_updated_at = u_updated_at u\<rparr>"

section \<open>Queries\<close>

definition query_err :: "err \<Rightarrow> err" where
  "query_err = replace_err (Sentinel ErrQueryFailed)"

definition uq_GetUserByName :: "string \<Rightarrow> user_model wop" where
  "uq_GetUserByName n =
     bind_do (lift (new_user_model_with_name n)) (\<lambda>_.
       try_do (GetUserByUsername n) (on_no_rows (Sentinel ErrUserNotFound) query_err) ret)"

definition uq_GetUserByID :: "int \<Rightarrow> user_model wop" where
  "uq_GetUserByID i =
     bind_do (lift (new_user_model_with_id i)) (\<lambda>_.
       try_do (GetUserByID i) (on_no_rows (Sentinel ErrUserNotFound) query_err) ret)"

definition uq_InsertUser :: "user_model \<Rightarrow> user_model wop" where
  "uq_InsertUser u =
     bind_do (gets w_now) (\<lambda>now. try_do (InsertUser (u\<lparr>u_updated_at := now\<rparr>)) query_err ret)"

definition uq_UpdateUser :: "user_model \<Rightarrow> unit wop" where
  "uq_UpdateUser u =
     bind_do (gets w_now) (\<lambda>now.
       try_do (UpdateUser (u_id u) (u_username u) (u_is_admin u) (u_mfa_auth u) (u_ntf u) now)
         (on_no_rows (Sentinel ErrUserNotFound) query_err) (\<lambda>_. ret ()))"

definition uq_UpdateUserPassword :: "int \<Rightarrow> string \<Rightarrow> unit wop" where
  "uq_UpdateUserPassword i h =
     bind_do (gets w_now) (\<lambda>now.
       try_do (UpdateUserPwd h now i) (on_no_rows (Sentinel ErrUserNotFound) query_err) (\<lambda>_. ret ()))"

definition uq_CheckUsernameExists :: "string \<Rightarrow> bool wop" where
  "uq_CheckUsernameExists n = attempt (UsernameCheck n) (\<lambda>r. case r of
     Inr _ \<Rightarrow> ret True
   | Inl e \<Rightarrow> if e = no_rows then ret False else throw (query_err e))"

definition uq_CheckUserIDExists :: "int \<Rightarrow> bool wop" where
  "uq_CheckUserIDExists i = attempt (UserIDCheck i) (\<lambda>r. case r of
     Inr _ \<Rightarrow> ret True
   | Inl e \<Rightarrow> if e = no_rows then ret False else throw (query_err e))"

definition uq_CountUsers :: "int wop" where
  "uq_CountUsers = try_do CountUsers query_err ret"

text \<open>The LDAP servers a user can be authenticated against, by priority.\<close>

record ldap_user_auth =
  la_priority :: int
  la_host :: string
  la_port :: int
  la_user_dn :: string
  la_use_tls :: bool
  la_fqdn :: string
  la_ca_cert :: string

definition ldap_auths :: "int \<Rightarrow> db \<Rightarrow> ldap_user_auth list" where
  "ldap_auths u d = sort_key la_priority (concat (map (\<lambda>r. map (\<lambda>l.
       \<lparr>la_priority = l_priority l, la_host = l_host l, la_port = l_port l, la_user_dn = ul_dn r,
        la_use_tls = l_use_tls l, la_fqdn = l_fqdn l, la_ca_cert = l_ca_cert l\<rparr>)
     (filter (\<lambda>l. ul_ldap r = Some (l_id l)) (db_ldaps d))) (filter (\<lambda>r. ul_user r = u) (db_uldaps d))))"

definition uq_GetLdapUserAuthsByUserID :: "int \<Rightarrow> ldap_user_auth list wop" where
  "uq_GetLdapUserAuthsByUserID u = try_do (q_many (ldap_auths u)) query_err ret"

section \<open>Configuration\<close>

text \<open>
  Passwords are checked rune by rune.  Bytes of ASCII are classified here; what runes the other
  bytes form, and how Unicode classifies them, is the parameter \<open>uc_runes\<close>.  The table of common
  passwords and \<open>LdapService.VerifyConnection\<close> are parameters too.
\<close>

datatype rune_class = RDigit | RUpper | RLower | ROtherLetter | RSymbol

record user_cfg =
  uc_min_length :: int
  uc_upper :: bool
  uc_lower :: bool
  uc_digit :: bool
  uc_symbol :: bool
  uc_mfa_types :: "string list"
  uc_max_users :: int
  uc_common :: "string \<Rightarrow> bool"
  uc_runes :: "string \<Rightarrow> rune_class list"
  uc_verify :: "ldap_user_auth \<Rightarrow> string \<Rightarrow> bool"

definition ascii_class :: "char \<Rightarrow> rune_class" where
  "ascii_class c =
     (let n = (of_char c :: nat) in
      if 48 \<le> n \<and> n \<le> 57 then RDigit
      else if 65 \<le> n \<and> n \<le> 90 then RUpper
      else if 97 \<le> n \<and> n \<le> 122 then RLower
      else RSymbol)"

definition is_ascii :: "char \<Rightarrow> bool" where
  "is_ascii c = ((of_char c :: nat) < 128)"

function rune_classes :: "(string \<Rightarrow> rune_class list) \<Rightarrow> string \<Rightarrow> rune_class list" where
  "rune_classes other [] = []"
| "rune_classes other (c # s) =
     (if is_ascii c then ascii_class c # rune_classes other s
      else other (c # takeWhile (\<lambda>x. \<not> is_ascii x) s)
             @ rune_classes other (dropWhile (\<lambda>x. \<not> is_ascii x) s))"
  by pat_completeness auto

termination
  by (relation "measure (\<lambda>(_, s). length s)") (auto simp: less_Suc_eq_le length_dropWhile_le)

definition validate_password :: "user_cfg \<Rightarrow> string \<Rightarrow> err + unit" where
  "validate_password C pw =
     (if int (length pw) < uc_min_length C then Inl (new_under ErrBadPassword ''expected minimum length'')
      else
        let cs = rune_classes (uc_runes C) pw in
        if uc_upper C \<and> RUpper \<notin> set cs then Inl (new_under ErrBadPassword ''uppercase character is not present'')
        else if uc_lower C \<and> RLower \<notin> set cs then Inl (new_under ErrBadPassword ''lowercase character is not present'')
        else if uc_digit C \<and> RDigit \<notin> set cs then Inl (new_under ErrBadPassword ''digit is not present'')
        else if uc_symbol C \<and> RSymbol \<notin> set cs then Inl (new_under ErrBadPassword ''symbol character is not present'')
        else if uc_common C pw then Inl (new_under ErrBadPassword ''password is widely used'')
        else Inr ())"

definition ensure_user_can_be_added :: "user_cfg \<Rightarrow> unit wop" where
  "ensure_user_can_be_added C =
     when_do (uc_max_users C \<noteq> 0)
       (bind_do uq_CountUsers (\<lambda>n.
         guard_do (n \<ge> uc_max_users C - 1) (new_under ErrFeaturesRestriction ''max user quantity allowed exceeded'')
           (ret ())))"

definition ensure_mfa_can_be_set :: "user_cfg \<Rightarrow> string \<Rightarrow> err + unit" where
  "ensure_mfa_can_be_set C t =
     (if t = [] then Inr ()
      else if t \<in> set (uc_mfa_types C) then Inr ()
      else Inl (Sentinel ErrAuthenticatorIsNotSupported))"

section \<open>Operations of the manager\<close>

record api_user_create =
  auc_username :: string
  auc_password :: string
  auc_is_admin :: bool
  auc_mfa :: string
  auc_ntf :: string

record api_user_update =
  auu_username :: string
  auu_is_admin :: bool
  auu_mfa :: string
  auu_ntf :: string

definition um_GetAllUsers :: "api_user list wop" where
  "um_GetAllUsers = try_do GetAllUsers (\<lambda>e. e) (\<lambda>us. ret (map user_to_api us))"

definition um_GetUserByName :: "string \<Rightarrow> api_user wop" where
  "um_GetUserByName n = bind_do (uq_GetUserByName n) (\<lambda>u. ret (user_to_api u))"

definition um_GetUserByID :: "int \<Rightarrow> api_user wop" where
  "um_GetUserByID i = bind_do (uq_GetUserByID i) (\<lambda>u. ret (user_to_api u))"

definition um_GetUserByNameAndPassword :: "env \<Rightarrow> user_cfg \<Rightarrow> string \<Rightarrow> string \<Rightarrow> api_user wop" where
  "um_GetUserByNameAndPassword E C n pw =
     bind_do (uq_GetUserByName n) (\<lambda>u.
     bind_do
       (if is_internal u
        then guard_do (\<not> compare_passwords E u pw) (Sentinel ErrUserNotFound) (ret ())
        else if is_ldap u
        then try_do (uq_GetLdapUserAuthsByUserID (u_id u)) (replace_err (Sentinel ErrUserNotFound)) (\<lambda>las.
               guard_do (\<not> list_ex (\<lambda>la. uc_verify C la pw) las) (Sentinel ErrUserNotFound) (ret ()))
        else ret ()) (\<lambda>_.
     ret (user_to_api u)))"

definition um_CreateUser :: "env \<Rightarrow> user_cfg \<Rightarrow> api_user_create \<Rightarrow> unit wop" where
  "um_CreateUser E C a =
     bind_do (ensure_user_can_be_added C) (\<lambda>_.
     bind_do (uq_CheckUsernameExists (auc_username a)) (\<lambda>ex.
     guard_do ex (new_under ErrBadUserData ''user with that username already exists'') (
     bind_do (lift (new_user_model_with_name (auc_username a))) (\<lambda>u.
     try_do (lift (validate_password C (auc_password a))) (under ErrBadUserData ''password'') (\<lambda>_.
     bind_do (um_set_password E (auc_password a) u) (\<lambda>u.
     let u = um_set_admin (auc_is_admin a) u in
     try_do (lift (ensure_mfa_can_be_set C (auc_mfa a))) (under ErrBadUserData ''mfa'') (\<lambda>_.
     let u = um_set_mfa_type (auc_mfa a) u in
     try_do (lift (um_set_notification (auc_ntf a) u)) (under ErrBadUserData ''notification'') (\<lambda>u.
     bind_do (uq_InsertUser u) (\<lambda>_. ret ())))))))))"

definition change_name :: "api_user_update \<Rightarrow> user_model \<Rightarrow> user_model wop" where
  "change_name a u =
     (if u_username u \<noteq> auu_username a
      then
        guard_do (\<not> is_internal u) (new_under ErrOnlyForIntrUsers ''username cannot be changed'') (
        bind_do (uq_CheckUsernameExists (auu_username a)) (\<lambda>ex.
        guard_do ex (new_under ErrBadUserData ''user with that username already exists'') (
          lift (um_set_name (auu_username a) u))))
      else ret u)"

definition um_UpdateUser :: "user_cfg \<Rightarrow> int \<Rightarrow> api_user_update \<Rightarrow> api_user wop" where
  "um_UpdateUser C i a =
     bind_do (uq_GetUserByID i) (\<lambda>old.
     bind_do (change_name a old) (\<lambda>u.
     let u = um_set_admin (auu_is_admin a) u in
     try_do (lift (ensure_mfa_can_be_set C (auu_mfa a))) (under ErrBadUserData ''mfa'') (\<lambda>_.
     let u = um_set_mfa_type (auu_mfa a) u in
     try_do (lift (um_set_notification (auu_ntf a) u)) (under ErrBadUserData ''notification'') (\<lambda>u.
     bind_do (uq_UpdateUser u) (\<lambda>_.
     bind_do (um_DeleteInvalidSessionsByUser old u) (\<lambda>_.
       ret (user_to_api u)))))))"

definition um_UpdateUserPassword :: "env \<Rightarrow> user_cfg \<Rightarrow> int \<Rightarrow> string \<Rightarrow> unit wop" where
  "um_UpdateUserPassword E C i pw =
     bind_do (uq_GetUserByID i) (\<lambda>u.
     guard_do (\<not> is_internal u) (new_under ErrOnlyForIntrUsers ''password cannot be changed'') (
     try_do (lift (validate_password C pw)) (under ErrBadUserData ''password'') (\<lambda>_.
     bind_do (um_set_password E pw u) (\<lambda>u.
     bind_do (uq_UpdateUserPassword (u_id u) (u_password u)) (\<lambda>_.
       um_DeleteInvalidSessionsByUserPassword u)))))"

definition um_DeleteUser :: "int \<Rightarrow> unit wop" where
  "um_DeleteUser i =
     bind_do (lift (new_user_model_with_id i)) (\<lambda>u.
     bind_do (vcm_DeleteDeviceTemplateByUserID (u_id u)) (\<lambda>_.
     bind_do (DeleteUser (u_id u)) (\<lambda>n.
       guard_do (n = 0) (Sentinel ErrUserNotFound) (ret ()))))"

section \<open>Passwords\<close>

text \<open>\<open>ValidatePassword\<close> accepts a password exactly when it is long enough, has a character of every
  class the policy demands and is not a common one.\<close>

theorem password_policy_exact:
  "validate_password C pw = Inr () \<longleftrightarrow>
     uc_min_length C \<le> int (length pw) \<and> \<not> uc_common C pw \<and>
     {c. (c = RUpper \<and> uc_upper C) \<or> (c = RLower \<and> uc_lower C) \<or> (c = RDigit \<and> uc_digit C) \<or>
         (c = RSymbol \<and> uc_symbol C)} \<subseteq> set (rune_classes (uc_runes C) pw)"
  by (auto simp: validate_password_def Let_def)

section \<open>Users in the tables\<close>

definition usernames :: "db \<Rightarrow> string list" where
  "usernames d = map u_username (db_users d)"

text \<open>The user an accepted request creates.\<close>

definition user_created :: "env \<Rightarrow> user_cfg \<Rightarrow> api_user_create \<Rightarrow> db \<Rightarrow> user_row \<Rightarrow> bool" where
  "user_created E C a d u =
     (u_id u \<notin> u_id ` set (db_users d) \<and>
      auc_username a \<notin> set (usernames d) \<and> u_username u = auc_username a \<and>
      0 < length (u_username u) \<and> length (u_username u) \<le> 50 \<and> u_auth_service u = ''intr'' \<and>
      u_is_admin u = auc_is_admin a \<and> u_ntf u = auc_ntf a \<and> length (u_ntf u) \<le> 75 \<and>
      (u_mfa_auth u = ''none'' \<and> auc_mfa a = [] \<or> u_mfa_auth u = auc_mfa a \<and> auc_mfa a \<in> set (uc_mfa_types C)) \<and>
      validate_password C (auc_password a) = Inr () \<and> (\<exists>n. env_bcrypt E n (auc_password a) = Inr (u_password u)) \<and>
      (uc_max_users C = 0 \<or> int (length (db_users d)) < uc_max_users C - 1))"

lemma dwp_uq_CheckUsernameExists [vcg]:
  assumes "\<And>b. b = (n \<in> set (usernames d)) \<Longrightarrow> Q b d" "\<And>e. X e d"
  shows "dwp (uq_CheckUsernameExists n) Q X d"
  unfolding uq_CheckUsernameExists_def UsernameCheck_def
  by (intro vcg; simp add: assms(2))
    (intro vcg assms | auto simp: usernames_def filter_eq_Cons_iff filter_empty_conv)+

lemma dwp_ensure_user_can_be_added [vcg]:
  assumes "uc_max_users C = 0 \<or> int (length (db_users d)) < uc_max_users C - 1 \<Longrightarrow> Q () d" "\<And>e. X e d"
  shows "dwp (ensure_user_can_be_added C) Q X d"
  unfolding ensure_user_can_be_added_def uq_CountUsers_def CountUsers_def
  by (intro vcg; (rule assms(2))?) (auto intro: assms(1))

lemma um_set_name_Inr: "um_set_name n u = Inr v \<longleftrightarrow> n \<noteq> [] \<and> length n \<le> 50 \<and> v = u\<lparr>u_username := n\<rparr>"
  by (auto simp: um_set_name_def)

lemma new_user_model_Inr:
  "new_user_model_with_name n = Inr v \<longleftrightarrow> n \<noteq> [] \<and> length n \<le> 50 \<and>
     v = blank_user\<lparr>u_auth_service := ''intr'', u_mfa_auth := ''none'', u_username := n\<rparr>"
  by (auto simp: new_user_model_with_name_def um_set_auth_type_def um_set_mfa_type_def um_set_name_Inr)

lemma um_set_notification_Inr:
  "um_set_notification t u = Inr v \<longleftrightarrow> length t \<le> 75 \<and> v = u\<lparr>u_ntf := t\<rparr>"
  by (auto simp: um_set_notification_def)

lemma ensure_mfa_Inr: "ensure_mfa_can_be_set C t = Inr u \<longleftrightarrow> t = [] \<or> t \<in> set (uc_mfa_types C)"
  by (simp add: ensure_mfa_can_be_set_def)

lemma dwp_um_set_password [vcg]:
  assumes "\<And>n h. pw \<noteq> [] \<Longrightarrow> env_bcrypt E n pw = Inr h \<Longrightarrow> Q (u\<lparr>u_password := h\<rparr>) d" "\<And>e. X e d"
  shows "dwp (um_set_password E pw u) Q X d"
  unfolding um_set_password_def by (intro vcg assms)

lemma users_append: "d\<lparr>db_users := db_users d @ us\<rparr> = db_users_update (\<lambda>l. l @ us) d"
  by simp

lemma dwp_uq_InsertUser [vcg]:
  assumes "\<And>now i. \<not> list_ex (\<lambda>x. u_id x = i) (db_users d) \<Longrightarrow> Q (u\<lparr>u_updated_at := now, u_id := i\<rparr>)
      (d\<lparr>db_users := db_users d @ [u\<lparr>u_updated_at := now, u_id := i\<rparr>]\<rparr>)" "\<And>e. X e d"
  shows "dwp (uq_InsertUser u) Q X d"
  unfolding uq_InsertUser_def InsertUser_def
  by (intro vcg dwp_nextval dwp_db_call assms(2))
    (use assms in \<open>auto simp: users_append split: if_splits\<close>)

lemma create_user_dwp:
  "dwp (um_CreateUser E C a) (\<lambda>_ d'. \<exists>u. user_created E C a d u \<and> d' = d\<lparr>db_users := db_users d @ [u]\<rparr>)
     (\<lambda>_ d'. d' = d) d"
  unfolding um_CreateUser_def Let_def
  by (intro vcg; (rule refl)?; rule exI, rule conjI [rotated], rule refl)
    (auto simp: user_created_def new_user_model_Inr um_set_notification_Inr ensure_mfa_Inr
      um_set_admin_def um_set_mfa_type_def list_ex_iff)

text \<open>C24. \<open>CreateUser\<close> adds exactly one user, with the data of the request, under a name not yet taken and
  with a hash of a password the policy accepts, or changes nothing.\<close>

theorem create_user_exact:
  "case um_CreateUser E C a w of
     (Inr _, w') \<Rightarrow> \<exists>u. user_created E C a (w_db w) u \<and> w_db w' = (w_db w)\<lparr>db_users := db_users (w_db w) @ [u]\<rparr>
   | (Inl _, w') \<Rightarrow> w_db w' = w_db w"
  by (rule dwp_outcome, rule create_user_dwp)

section \<open>Names stay unique\<close>

lemma dwp_uq_GetUserByID [vcg]:
  assumes "\<And>u us. filter (\<lambda>u. u_id u = i) (db_users d) = u # us \<Longrightarrow> Q u d" "\<And>e. X e d"
  shows "dwp (uq_GetUserByID i) Q X d"
  unfolding uq_GetUserByID_def GetUserByID_def by (intro vcg assms)

lemma dwp_change_name [vcg]:
  assumes "\<And>v. u_id v = u_id u \<Longrightarrow> u_auth_service v = u_auth_service u \<Longrightarrow>
      u_username v = u_username u \<or> u_username v \<notin> set (usernames d) \<Longrightarrow> Q v d" "\<And>e. X e d"
  shows "dwp (change_name a u) Q X d"
  unfolding change_name_def by (intro vcg assms(2)) (auto simp: um_set_name_Inr intro: assms(1))

lemma distinct_rename:
  assumes "distinct (map f xs)" "distinct (map k xs)" "x \<in> set xs"
    and "n = f x \<or> n \<notin> set (map f xs)" and "\<And>y. f (g y) = n"
  shows "distinct (map f (map (\<lambda>y. if k y = k x then g y else y) xs))"
proof -
  have "inj_on (\<lambda>y. f (if k y = k x then g y else y)) (set xs)"
    using assms by (auto simp: distinct_map inj_on_def)
  with assms(1) show ?thesis by (simp add: distinct_map comp_def)
qed

definition users_wf :: "db \<Rightarrow> bool" where
  "users_wf d = (distinct (usernames d) \<and> distinct (map u_id (db_users d)))"

lemma keeps_sessions_cleared [pres]:
  "(\<And>d p. J d \<Longrightarrow> J (clear_sessions p d)) \<Longrightarrow> keeps J (delete_user_device_sessions u)"
  unfolding delete_user_device_sessions_def GetDeviceTemplateByUserID_def
    InvalidateTemplateDeviceSessions_def clear_sessions_def
  by (intro pres keeps_q_update_rows)

lemma users_wf_simps [simp]:
  "users_wf (clear_sessions p d) = users_wf d"
  "users_wf (db_adjs_update f d) = users_wf d"
  "users_wf (drop_templates q d) = users_wf d"
  by (simp_all add: users_wf_def usernames_def clear_sessions_def drop_templates_def drop_devices_def Let_def)

lemma users_wf_update:
  assumes "users_wf d" "filter (\<lambda>u. u_id u = i) (db_users d) = x # xs" "u_id u = u_id x"
    and "n = u_username x \<or> n \<notin> set (usernames d)" "\<And>y. u_username (g y) = n" "\<And>y. u_id (g y) = u_id y"
  shows "users_wf (db_users_update (map (\<lambda>y. if u_id y = u_id u then g y else y)) d)"
proof -
  have x: "x \<in> set (db_users d)" using assms(2) by (auto simp: filter_eq_Cons_iff)
  have "map u_id (map (\<lambda>y. if u_id y = u_id u then g y else y) (db_users d)) = map u_id (db_users d)"
    using assms(6) by simp
  with distinct_rename [OF _ _ x, of u_username u_id n g] assms show ?thesis
    by (simp add: users_wf_def usernames_def del: map_map)
qed

lemma keeps_delete_template [pres]:
  assumes "\<And>d p. J d \<Longrightarrow> J (clear_sessions p d)" "\<And>d f. J d \<Longrightarrow> J (db_adjs_update f d)"
    and "\<And>d q. J d \<Longrightarrow> J (drop_templates q d)"
  shows "keeps J (vcm_DeleteDeviceTemplateByUserID u)"
  unfolding vcm_DeleteDeviceTemplateByUserID_def GetDeviceTemplateByUserID_def delete_template_def
    GetDevicesByTemplateID_def drop_device_adjacencies_def GetDeviceWireGuardAdjacencies_def
    DeleteAdjacencyRow_def delete_template_devices_sessions_def DeleteDeviceTemplate_def
    InvalidateTemplateDeviceSessions_def
  by (intro pres keeps_q_exec keeps_q_update_rows keeps_db_call)
    (auto intro: assms(1) [unfolded clear_sessions_def] assms)

lemma dwp_uq_UpdateUser [vcg]:
  assumes "\<And>now. Q () (db_users_update (map (\<lambda>y. if u_id y = u_id u then y\<lparr>u_username := u_username u,
      u_is_admin := u_is_admin u, u_mfa_auth := u_mfa_auth u, u_ntf := u_ntf u, u_updated_at := now\<rparr> else y)) d)"
    and "\<And>e. X e d"
  shows "dwp (uq_UpdateUser u) Q X d"
  unfolding uq_UpdateUser_def UpdateUser_def by (intro vcg assms)

definition set_password :: "int \<Rightarrow> string \<Rightarrow> int \<Rightarrow> db \<Rightarrow> db" where
  "set_password i h now = db_users_update (map (\<lambda>y. if u_id y = i then y\<lparr>u_password := h, u_updated_at := now\<rparr> else y))"

lemma dwp_uq_UpdateUserPassword [vcg]:
  assumes "\<And>now. Q () (set_password i h now d)" "\<And>e. X e d"
  shows "dwp (uq_UpdateUserPassword i h) Q X d"
  unfolding uq_UpdateUserPassword_def UpdateUserPwd_def
  by (intro vcg assms(2)) (use assms(1) in \<open>simp add: set_password_def\<close>)

lemma set_password_wf [simp]: "users_wf (set_password i h now d) = users_wf d"
proof -
  have "map f (map (\<lambda>y. if u_id y = i then y\<lparr>u_password := h, u_updated_at := now\<rparr> else y) us) = map f us"
    if "\<And>y. f (y\<lparr>u_password := h, u_updated_at := now\<rparr>) = f y" for f :: "user_row \<Rightarrow> 'b" and us
    using that by simp
  from this [of u_username] this [of u_id] show ?thesis
    by (simp add: users_wf_def usernames_def set_password_def del: map_map)
qed

lemma dwp_drop_sessions:
  assumes "\<And>p. Q () (clear_sessions p d)" "Q () d" "\<And>e. X e d"
  shows "dwp (delete_user_device_sessions u) Q X d"
  unfolding delete_user_device_sessions_def GetDeviceTemplateByUserID_def
    InvalidateTemplateDeviceSessions_def
  by (intro vcg assms(2,3)) (use assms in \<open>auto simp: clear_sessions_def intro: vcg\<close>)

lemma users_wf_insert:
  "users_wf d \<Longrightarrow> u_username u \<notin> set (usernames d) \<Longrightarrow> u_id u \<notin> u_id ` set (db_users d) \<Longrightarrow>
   users_wf (db_users_update (\<lambda>l. l @ [u]) d)"
  by (simp add: users_wf_def usernames_def)

lemma update_user_wf:
  assumes "users_wf d"
  shows "dwp (um_UpdateUser C i a) (\<lambda>_. users_wf) (\<lambda>_. users_wf) d"
  unfolding um_UpdateUser_def um_DeleteInvalidSessionsByUser_def Let_def
  by (intro vcg dwp_drop_sessions; (rule assms)?; simp?)
    (auto simp: um_set_notification_Inr um_set_admin_def um_set_mfa_type_def intro!: users_wf_update [OF assms])
lemma users_wf_delete: "users_wf d \<Longrightarrow> users_wf (d'\<lparr>db_users := filter p (db_users d), db_totp := x,
    db_uldaps := y, db_atemplates := z\<rparr>)"
  by (simp add: users_wf_def usernames_def distinct_map_filter)

lemma keeps_users_wf [pres]:
  "keeps users_wf (um_CreateUser E C c)" "keeps users_wf (um_UpdateUser C i a)"
  "keeps users_wf (um_UpdateUserPassword E C i pw)" "keeps users_wf (um_DeleteUser i)"
proof -
  show "keeps users_wf (um_CreateUser E C c)" unfolding keeps_def
    by (rule preservesI, rule dwp_snd, rule dwp_mono, rule create_user_dwp)
      (auto simp: user_created_def users_append intro!: users_wf_insert)
  show "keeps users_wf (um_UpdateUser C i a)" unfolding keeps_def
    by (rule preservesI, rule dwp_snd, rule update_user_wf)
  show "keeps users_wf (um_UpdateUserPassword E C i pw)" unfolding keeps_def
    by (rule preservesI, unfold um_UpdateUserPassword_def um_DeleteInvalidSessionsByUserPassword_def)
      (rule dwp_snd, intro vcg dwp_drop_sessions; simp)
  show "keeps users_wf (um_DeleteUser i)"
    unfolding um_DeleteUser_def DeleteUser_def
    by (intro pres keeps_delete_template keeps_db_call) (auto intro: users_wf_delete)
qed

section \<open>Authentication with a password\<close>

definition login_ok :: "env \<Rightarrow> user_cfg \<Rightarrow> string \<Rightarrow> string \<Rightarrow> db \<Rightarrow> api_user \<Rightarrow> bool" where
  "login_ok E C n pw d a \<longleftrightarrow> n \<noteq> [] \<and> length n \<le> 50 \<and>
     (case filter (\<lambda>u. u_username u = n) (db_users d) of
        [] \<Rightarrow> False
      | u # _ \<Rightarrow> a = user_to_api u \<and>
          (is_internal u \<longrightarrow> pw \<noteq> [] \<and> u_password u \<noteq> [] \<and> env_bcrypt_ok E (u_password u) pw) \<and>
          (is_ldap u \<longrightarrow> (\<exists>la\<in>set (ldap_auths (u_id u) d). uc_verify C la pw)))"

lemma compare_passwords_iff:
  "compare_passwords E u pw \<longleftrightarrow> pw \<noteq> [] \<and> u_password u \<noteq> [] \<and> env_bcrypt_ok E (u_password u) pw"
  by (simp add: compare_passwords_def)

lemma not_both_services: "is_internal u \<Longrightarrow> \<not> is_ldap u"
  by (simp add: is_internal_def is_ldap_def)

lemma login_dwp:
  "dwp (um_GetUserByNameAndPassword E C n pw) (\<lambda>a d'. d' = d \<and> login_ok E C n pw d a) (\<lambda>_ d'. d' = d) d"
  unfolding um_GetUserByNameAndPassword_def uq_GetUserByName_def GetUserByUsername_def
    uq_GetLdapUserAuthsByUserID_def
  by (intro vcg; (rule refl)?)
    (auto simp: login_ok_def new_user_model_Inr compare_passwords_iff list_ex_iff dest: not_both_services)

text \<open>C19. Authentication with a password is exact.  Whatever fails, only a user is let in whose name is the
  one given and who passes the check of its authentication service: for an internal user the
  stored hash matches the non-empty password, for an LDAP user one of its LDAP servers verifies
  the password.  While the database works everyone who passes is let in.  Nothing changes.\<close>

theorem login_exact:
  "(case um_GetUserByNameAndPassword E C n pw w of
      (Inr a, w') \<Rightarrow> login_ok E C n pw (w_db w) a \<and> w_db w' = w_db w
    | (Inl _, w') \<Rightarrow> w_db w' = w_db w) \<and>
   (quiet w \<longrightarrow> login_ok E C n pw (w_db w) a \<longrightarrow> um_GetUserByNameAndPassword E C n pw w = (Inr a, w))"
proof (intro conjI impI)
  show "case um_GetUserByNameAndPassword E C n pw w of
      (Inr a, w') \<Rightarrow> login_ok E C n pw (w_db w) a \<and> w_db w' = w_db w
    | (Inl _, w') \<Rightarrow> w_db w' = w_db w"
    using dwp_outcome [OF login_dwp, of w E C n pw] by (auto split: sum.splits prod.splits)
  assume q: "quiet w" and ok: "login_ok E C n pw (w_db w) a"
  then obtain u us where u: "filter (\<lambda>u. u_username u = n) (db_users (w_db w)) = u # us"
    by (auto simp: login_ok_def split: list.splits)
  with q ok show "um_GetUserByNameAndPassword E C n pw w = (Inr a, w)"
    by (auto simp: login_ok_def um_GetUserByNameAndPassword_def uq_GetUserByName_def GetUserByUsername_def
        uq_GetLdapUserAuthsByUserID_def try_do_def lift_def ret_def guard_do_def q_one_quiet q_many_quiet
        new_user_model_Inr [THEN iffD2] compare_passwords_iff list_ex_iff dest: not_both_services)
qed

definition sample_user_cfg :: user_cfg where
  "sample_user_cfg = \<lparr>uc_min_length = 2, uc_upper = False, uc_lower = True, uc_digit = False, uc_symbol = False,
     uc_mfa_types = [''totp''], uc_max_users = 0, uc_common = (\<lambda>_. False), uc_runes = (\<lambda>_. []),
     uc_verify = (\<lambda>_ _. False)\<rparr>"

lemma login_exact_witness:
  "um_GetUserByNameAndPassword sample_env sample_user_cfg ''ann'' ''pw'' (world_of sample_db []) =
     (Inr (user_to_api sample_user), world_of sample_db [])"
proof -
  have "quiet (world_of sample_db [])" by (simp add: quiet_def world_of_def)
  moreover have "login_ok sample_env sample_user_cfg ''ann'' ''pw'' (w_db (world_of sample_db [])) (user_to_api sample_user)"
    by (simp add: login_ok_def sample_db_def empty_db_def sample_user_def is_internal_def is_ldap_def sample_env_def)
  ultimately show ?thesis
    using login_exact [where E = sample_env and C = sample_user_cfg and n = "''ann''" and pw = "''pw''" and
        w = "world_of sample_db []" and a = "user_to_api sample_user"]
    by blast
qed

section \<open>A change of the password\<close>

definition device_of_user :: "int \<Rightarrow> db \<Rightarrow> device_row \<Rightarrow> bool" where
  "device_of_user u d v = template_of_user d u (d_template v)"

lemma filter_head: "filter p xs = x # ys \<Longrightarrow> p x"
  by (auto simp: filter_eq_Cons_iff)

lemma dwp_end_user_sessions:
  assumes one: "distinct (map dt_user (db_templates d))"
    and Q: "Q () (clear_sessions (device_of_user u d) d)" and X: "\<And>e. X e d"
  shows "dwp (delete_user_device_sessions u) Q X d"
  unfolding delete_user_device_sessions_def GetDeviceTemplateByUserID_def InvalidateTemplateDeviceSessions_def
proof (intro dwp_attempt dwp_q_one conjI impI)
  assume "filter (\<lambda>t. dt_user t = u) (db_templates d) = []"
  then have "device_of_user u d = (\<lambda>v. False)"
    by (auto simp: fun_eq_iff device_of_user_def template_of_user_def list_ex_iff filter_empty_conv)
  with Q show "dwp (case Inl no_rows of Inl e \<Rightarrow> if errors_is e PgxErrNoRows then ret () else throw e
      | Inr t \<Rightarrow> bind_do (q_update_rows db_devices db_devices_update (\<lambda>_ v. d_template v = dt_id t) clear_session)
           (\<lambda>_. ret ())) Q X d"
    by (simp add: clear_sessions_def dwp_basic)
next
  fix t ts assume t: "filter (\<lambda>t. dt_user t = u) (db_templates d) = t # ts"
  then have m: "t \<in> set (db_templates d)" "dt_user t = u" by (auto simp: filter_eq_Cons_iff)
  with one have "x = t" if "x \<in> set (db_templates d)" "dt_user x = u" for x
    using that by (simp add: distinct_map inj_on_def)
  with m have "template_of_user d u j = (j = dt_id t)" for j
    unfolding template_of_user_def list_ex_iff by blast
  then have "device_of_user u d = (\<lambda>v. d_template v = dt_id t)"
    by (simp add: fun_eq_iff device_of_user_def)
  with Q show "dwp (case Inr t of Inl e \<Rightarrow> if errors_is e PgxErrNoRows then ret () else throw e
      | Inr t \<Rightarrow> bind_do (q_update_rows db_devices db_devices_update (\<lambda>_ v. d_template v = dt_id t) clear_session)
           (\<lambda>_. ret ())) Q X d"
    by (auto intro!: vcg X simp: clear_sessions_def)
qed (simp_all add: X dwp_basic)

text \<open>C25. A change of the password ends the sessions of the user: on success the password of an internal user
  was replaced by a hash of one the policy accepts, and all sessions of the devices of this user
  are cleared, and no other; on failure nothing changed, except that the password may be
  changed while the sessions are still alive.\<close>

theorem password_change_ends_sessions:
  assumes "distinct (map dt_user (db_templates (w_db w)))"
  shows "case um_UpdateUserPassword E C i pw w of
    (Inr _, w') \<Rightarrow> \<exists>n h now. env_bcrypt E n pw = Inr h \<and> validate_password C pw = Inr () \<and>
        w_db w' = clear_sessions (device_of_user i (w_db w)) (set_password i h now (w_db w))
  | (Inl _, w') \<Rightarrow> w_db w' = w_db w \<or>
        (\<exists>n h now. env_bcrypt E n pw = Inr h \<and> validate_password C pw = Inr () \<and>
           w_db w' = set_password i h now (w_db w))"
proof (rule dwp_outcome)
  have "device_of_user j (set_password k h now d) = device_of_user j d"
    "db_templates (set_password k h now d) = db_templates d" for j k h now d
    by (simp_all add: fun_eq_iff device_of_user_def template_of_user_def set_password_def)
  then show "dwp (um_UpdateUserPassword E C i pw)
     (\<lambda>_ d'. \<exists>n h now. env_bcrypt E n pw = Inr h \<and> validate_password C pw = Inr () \<and>
        d' = clear_sessions (device_of_user i (w_db w)) (set_password i h now (w_db w)))
     (\<lambda>_ d'. d' = w_db w \<or> (\<exists>n h now. env_bcrypt E n pw = Inr h \<and> validate_password C pw = Inr () \<and>
        d' = set_password i h now (w_db w))) (w_db w)"
    using assms unfolding um_UpdateUserPassword_def um_DeleteInvalidSessionsByUserPassword_def
    by (intro vcg dwp_end_user_sessions; (rule disjI1, rule refl)?) (auto dest!: filter_head, blast?)
qed

lemma password_change_ends_sessions_witness:
  "\<exists>n h now d'. env_bcrypt sample_env n ''pw'' = Inr h \<and>
     d' = clear_sessions (device_of_user 1 sample_db) (set_password 1 h now sample_db)"
proof -
  have "is_ok (fst (um_UpdateUserPassword sample_env sample_user_cfg 1 ''pw'' (world_of sample_db [])))"
    by code_simp
  then obtain w' where
    "um_UpdateUserPassword sample_env sample_user_cfg 1 ''pw'' (world_of sample_db []) = (Inr (), w')"
    using is_ok_run by fastforce
  moreover have "distinct (map dt_user (db_templates (w_db (world_of sample_db []))))"
    by (simp add: sample_db_def)
  ultimately show ?thesis
    using password_change_ends_sessions [where w = "world_of sample_db []" and E = sample_env and
        C = sample_user_cfg and i = 1 and pw = "''pw''"] by auto
qed

end
