(* ===== verification/Mfa.thy ===== *)
theory Mfa
  imports Users "HOL-Library.Multiset"
begin

text \<open>
  The second factor: one-time passwords (\<open>src/pkg/mfa/totp.go\<close>), certificates
  (\<open>src/pkg/mfa/cert.go\<close>), and the MFA operations of \<open>src/service/user/manager.go\<close> and
  \<open>src/service/user/querier.go\<close>.  HOTP is outside the repository; of \<open>crypto/x509\<close> and
  \<open>encoding/pem\<close> the model takes the functions the code calls as parameters.
\<close>

section \<open>Parameters\<close>

record certificate =
  ct_serial :: int
  ct_cn :: string
  ct_not_before :: string
  ct_not_after :: string
  ct_raw :: string

record revocation_list =
  rl_issuer :: string
  rl_revoked :: "int list"
  rl_raw :: string

text \<open>
  \<open>mf_hotp\<close> is \<open>hotp.Validate\<close>, \<open>mf_pem\<close> the bytes of the first block \<open>pem.Decode\<close> finds,
  \<open>mf_pool\<close> whether \<open>AppendCertsFromPEM\<close> succeeds, \<open>mf_verify\<close> \<open>Certificate.Verify\<close> against the
  pool of one root at a time, \<open>mf_signed\<close> \<open>RevocationList.CheckSignatureFrom\<close>.
\<close>

record mfa_env =
  mf_hotp :: "string \<Rightarrow> 64 word \<Rightarrow> string \<Rightarrow> bool"
  mf_pem :: "string \<Rightarrow> string option"
  mf_cert :: "string \<Rightarrow> err + certificate"
  mf_crl :: "string \<Rightarrow> err + revocation_list"
  mf_pool :: "string \<Rightarrow> bool"
  mf_verify :: "certificate \<Rightarrow> string \<Rightarrow> int \<Rightarrow> bool"
  mf_signed :: "revocation_list \<Rightarrow> certificate \<Rightarrow> bool"

text \<open>The credentials arrive as \<open>any\<close>; each authenticator asserts the type it expects.\<close>

datatype mfa_creds = TotpCreds string | CertCreds string | OtherCreds

section \<open>One-time passwords\<close>

text \<open>\<open>base32.StdEncoding.EncodeToString\<close>\<close>

definition base32_alphabet :: string where
  "base32_alphabet = ''ABCDEFGHIJKLMNOPQRSTUVWXYZ234567''"

definition bits_of_byte :: "8 word \<Rightarrow> bool list" where
  "bits_of_byte b = map (bit b) [7, 6, 5, 4, 3, 2, 1, 0]"

definition base32_digit :: "bool list \<Rightarrow> char" where
  "base32_digit bs = base32_alphabet ! (foldl (\<lambda>n b. 2 * n + of_bool b) 0 (take 5 (bs @ replicate 4 False)))"

fun base32_digits :: "bool list \<Rightarrow> string" where
  "base32_digits [] = []"
| "base32_digits (b # bs) = base32_digit (b # bs) # base32_digits (drop 4 bs)"

definition base32_encode :: "8 word list \<Rightarrow> string" where
  "base32_encode bytes =
     (let s = base32_digits (concat (map bits_of_byte bytes))
      in s @ replicate ((8 - length s mod 8) mod 8) (CHR ''=''))"

definition create_totp_key :: "env \<Rightarrow> string wop" where
  "create_totp_key E =
     try_do (draw (\<lambda>n. env_rand E n 20)) (wrapv ''failed to generate user secret'') (\<lambda>bytes.
       ret (base32_encode bytes))"

text \<open>
  \<open>int64(math.Floor(float64(t.Unix()) / float64(Period)))\<close>; the division in floating point is
  exact enough for every time below \<open>2 ^ 53\<close> seconds.
\<close>

definition time_to_counter :: "int \<Rightarrow> int" where
  "time_to_counter now = now div 30"

fun try_counters :: "mfa_env \<Rightarrow> string \<Rightarrow> string \<Rightarrow> int \<Rightarrow> int list \<Rightarrow> err + int option" where
  "try_counters M key code used [] = Inr None"
| "try_counters M key code used (c # cs) =
     (if mf_hotp M code (word_of_int c) key
      then if c \<le> used then Inl (Sentinel ErrTOTPReplay) else Inr (Some c)
      else try_counters M key code used cs)"

definition totp_authenticate :: "mfa_env \<Rightarrow> string \<Rightarrow> int \<Rightarrow> mfa_creds \<Rightarrow> int \<Rightarrow> err + int option" where
  "totp_authenticate M key used creds now =
     (case creds of
        TotpCreds code \<Rightarrow>
          (let c = time_to_counter now in try_counters M key code used [c - 1, c, c + 1])
      | _ \<Rightarrow> Inl (errors_new ''invalid credential type''))"

section \<open>Certificates\<close>

definition parse_certificate :: "mfa_env \<Rightarrow> string \<Rightarrow> err + certificate" where
  "parse_certificate M pem = (case mf_pem M pem of
     None \<Rightarrow> Inl (errors_new ''failed to parse x509 certificate in PEM format'')
   | Some block \<Rightarrow> bind_res (mf_cert M block) (wrapw ''failed to parse x509 certificate'') Inr)"

definition parse_crl :: "mfa_env \<Rightarrow> string \<Rightarrow> err + revocation_list" where
  "parse_crl M pem = (case mf_pem M pem of
     None \<Rightarrow> Inl (errors_new ''failed to parse CRL in PEM format'')
   | Some block \<Rightarrow> bind_res (mf_crl M block) (wrapw ''failed to parse CRL'') Inr)"

fun ca_among :: "mfa_env \<Rightarrow> int \<Rightarrow> certificate \<Rightarrow> string list \<Rightarrow> err + string" where
  "ca_among M now c [] = Inl (errors_new ''no root CA certificate found that signed provided x509 certificate'')"
| "ca_among M now c (ca # cas) =
     (if \<not> mf_pool M ca then Inl (errors_new ''failed to parse root CA certificate in PEM format'')
      else if mf_verify M c ca now then Inr ca
      else ca_among M now c cas)"

definition find_ca_for_cert :: "mfa_env \<Rightarrow> int \<Rightarrow> string \<Rightarrow> string list \<Rightarrow> err + string" where
  "find_ca_for_cert M now cert cas = bind_res (parse_certificate M cert) (\<lambda>e. e) (\<lambda>c. ca_among M now c cas)"

fun crls_signed_by :: "mfa_env \<Rightarrow> certificate \<Rightarrow> string list \<Rightarrow> err + string list" where
  "crls_signed_by M ca [] = Inr []"
| "crls_signed_by M ca (r # rs) =
     bind_res (parse_crl M r) (\<lambda>e. e) (\<lambda>l.
     bind_res (crls_signed_by M ca rs) (\<lambda>e. e) (\<lambda>ls.
       Inr (if mf_signed M l ca then r # ls else ls)))"

definition find_crls_for_ca :: "mfa_env \<Rightarrow> string \<Rightarrow> string list \<Rightarrow> err + string list" where
  "find_crls_for_ca M ca crls =
     bind_res (parse_certificate M ca) (\<lambda>e. e) (\<lambda>c. crls_signed_by M c crls)"

fun not_revoked_in :: "mfa_env \<Rightarrow> certificate \<Rightarrow> string list \<Rightarrow> err + unit" where
  "not_revoked_in M c [] = Inr ()"
| "not_revoked_in M c (r # rs) =
     bind_res (parse_crl M r) (\<lambda>e. e) (\<lambda>l.
       if list_ex (\<lambda>n. n = ct_serial c) (rl_revoked l) then Inl (errors_new ''x509 certificate has been revoked'')
       else not_revoked_in M c rs)"

definition check_cert_against_crl :: "mfa_env \<Rightarrow> string \<Rightarrow> string list \<Rightarrow> err + unit" where
  "check_cert_against_crl M cert crls =
     bind_res (parse_certificate M cert) (\<lambda>e. e) (\<lambda>c. not_revoked_in M c crls)"

definition cert_authenticate :: "mfa_env \<Rightarrow> int \<Rightarrow> string list \<Rightarrow> string list \<Rightarrow> mfa_creds \<Rightarrow> err + bool" where
  "cert_authenticate M now cas crls creds =
     (case creds of
        CertCreds cert \<Rightarrow>
          if cas = [] then Inl (errors_new ''no CA certificates present to verify x509 certificate'')
          else
            bind_res (find_ca_for_cert M now cert cas) (\<lambda>e. e) (\<lambda>ca.
            bind_res (find_crls_for_ca M ca crls) (\<lambda>e. e) (\<lambda>rs.
            bind_res (check_cert_against_crl M cert rs) (\<lambda>e. e) (\<lambda>_. Inr True)))
      | _ \<Rightarrow> Inl (errors_new ''invalid credential type''))"

section \<open>Queries\<close>

definition uq_GetMFACerts :: "string \<Rightarrow> mfa_cert_row list wop" where
  "uq_GetMFACerts ty = try_do (GetMFACertsByType ty) query_err ret"

definition uq_InsertMFACerts :: "string \<Rightarrow> string \<Rightarrow> unit wop" where
  "uq_InsertMFACerts cert ty = try_do (InsertMFACert cert ty) query_err (\<lambda>_. ret ())"

definition uq_DeleteMFACerts :: "int \<Rightarrow> unit wop" where
  "uq_DeleteMFACerts i =
     try_do (db_call (\<lambda>d. (Inr (length (filter (\<lambda>c. mc_id c = i) (db_mfa_certs d))),
         db_mfa_certs_update (filter (\<lambda>c. mc_id c \<noteq> i)) d)))
       query_err (\<lambda>n. guard_do (n = 0) (Sentinel ErrMFACertNotFound) (ret ()))"

section \<open>Operations of the manager\<close>

definition mfa_enabled_types :: "user_cfg \<Rightarrow> string list" where
  "mfa_enabled_types C = uc_mfa_types C"

text \<open>
  The TOTP branch has two steps on the database: the code is checked against the row read, then
  the counter is moved.  A replayed code is only logged and is reported as not authenticated.
\<close>

definition totp_check :: "env \<Rightarrow> mfa_env \<Rightarrow> int \<Rightarrow> mfa_creds \<Rightarrow> int option wop" where
  "totp_check E M u creds =
     try_do (GetUserTOTP u) (on_no_rows (Sentinel ErrUserSecretNotFound) (\<lambda>e. e)) (\<lambda>t.
     bind_do (open_op E (totp_key t)) (\<lambda>key.
     bind_do (gets w_now) (\<lambda>now.
     attempt (lift (totp_authenticate M key (totp_counter t) creds now)) (\<lambda>r. case r of
       Inl e \<Rightarrow> if errors_is e ErrTOTPReplay then ret None else throw e
     | Inr c \<Rightarrow> ret c))))"

definition totp_commit :: "int \<Rightarrow> int \<Rightarrow> bool wop" where
  "totp_commit u c = attempt (TryToUpdateUserTOTPCounter c u) (\<lambda>r. case r of
     Inl e \<Rightarrow> if errors_is e PgxErrNoRows then ret False else throw (Sentinel ErrQueryFailed)
   | Inr _ \<Rightarrow> ret True)"

definition um_MFAAuthenticate :: "env \<Rightarrow> mfa_env \<Rightarrow> int \<Rightarrow> string \<Rightarrow> mfa_creds \<Rightarrow> bool wop" where
  "um_MFAAuthenticate E M u ty creds =
     (if ty = ''none'' then throw (Sentinel ErrNoAuthenticatorForUser)
      else if ty = ''totp'' then
        bind_do (totp_check E M u creds) (\<lambda>r. case r of None \<Rightarrow> ret False | Some c \<Rightarrow> totp_commit u c)
      else if ty = ''cert'' then
        bind_do (uq_GetMFACerts ''crl'') (\<lambda>crls.
        bind_do (uq_GetMFACerts ''ca'') (\<lambda>cas.
        bind_do (gets w_now) (\<lambda>now.
          lift (cert_authenticate M now (map mc_cert cas) (map mc_cert crls) creds))))
      else throw (Sentinel ErrAuthenticatorIsNotSupported))"

definition user_of_secret :: "int \<Rightarrow> user_model wop" where
  "user_of_secret u =
     try_do (uq_GetUserByID u) (\<lambda>e. if errors_is e ErrUserNotFound
       then new_under ErrBadUserData ''user with that ID does not exist'' else wrapw ''GetUserByID'' e) ret"

definition seal_secret :: "env \<Rightarrow> string \<Rightarrow> string wop" where
  "seal_secret E key = try_do (seal_op E key) (wrapv ''failed to encrypt secrets'') ret"

definition touch_user :: "int \<Rightarrow> unit wop" where
  "touch_user u = bind_do (gets w_now) (\<lambda>now. try_do (UpdateUserEditTime now u) (wrapw ''UpdateUserEditTime'') (\<lambda>_. ret ()))"

definition um_MFACreateTOTPSecret :: "env \<Rightarrow> int \<Rightarrow> string wop" where
  "um_MFACreateTOTPSecret E u =
     bind_do (user_of_secret u) (\<lambda>user.
     try_do (create_totp_key E) (wrapv ''failed to create secrets'') (\<lambda>key.
     try_do (with_tx (
       bind_do (seal_secret E key) (\<lambda>enc.
       try_do (InsertUserTOTP enc u) (wrapw ''InsertUserTOTP'') (\<lambda>_. touch_user u))))
       (under ErrQueryFailed ''transaction'') (\<lambda>_.
     bind_do (um_DeleteInvalidSessionsByUserTOTP user) (\<lambda>_. ret key))))"

definition um_MFAUpdateTOTPSecret :: "env \<Rightarrow> int \<Rightarrow> string wop" where
  "um_MFAUpdateTOTPSecret E u =
     bind_do (user_of_secret u) (\<lambda>user.
     try_do (create_totp_key E) (wrapv ''failed to create secrets'') (\<lambda>key.
     try_do (with_tx (
       bind_do (seal_secret E key) (\<lambda>enc.
       try_do (UpdateUserTOTP enc u) (on_no_rows (Sentinel ErrUserSecretNotFound) (wrapw ''UpdateUserTOTP''))
         (\<lambda>_. touch_user u))))
       (under ErrQueryFailed ''transaction'') (\<lambda>_.
     bind_do (um_DeleteInvalidSessionsByUserTOTP user) (\<lambda>_. ret key))))"

definition um_MFAGetTOTPSecret :: "env \<Rightarrow> int \<Rightarrow> string wop" where
  "um_MFAGetTOTPSecret E u =
     bind_do (uq_CheckUserIDExists u) (\<lambda>ex.
     guard_do (\<not> ex) (new_under ErrBadUserData ''user with that ID does not exist'') (
     try_do (GetUserTOTP u) (on_no_rows (Sentinel ErrUserSecretNotFound) (\<lambda>e. e)) (\<lambda>t.
     try_do (open_op E (totp_key t)) (wrapv ''failed to decrypt secrets'') ret)))"

definition um_MFAGetAllCAs :: "mfa_env \<Rightarrow> (int \<times> certificate) list wop" where
  "um_MFAGetAllCAs M =
     bind_do (uq_GetMFACerts ''ca'') (\<lambda>cs.
       for_map (\<lambda>c. bind_do (lift (parse_certificate M (mc_cert c))) (\<lambda>x. ret (mc_id c, x))) cs)"

definition um_MFACreateCA :: "mfa_env \<Rightarrow> string \<Rightarrow> unit wop" where
  "um_MFACreateCA M ca =
     bind_do (lift (parse_certificate M ca)) (\<lambda>_.
     bind_do (uq_InsertMFACerts ca ''ca'') (\<lambda>_.
       um_DeleteInvalidSessionsByMFACert InsertCert ''ca''))"

definition um_MFADeleteCA :: "int \<Rightarrow> unit wop" where
  "um_MFADeleteCA i =
     bind_do (uq_DeleteMFACerts i) (\<lambda>_. um_DeleteInvalidSessionsByMFACert DeleteCert ''ca'')"

definition um_MFAGetAllCRLs :: "mfa_env \<Rightarrow> (int \<times> revocation_list) list wop" where
  "um_MFAGetAllCRLs M =
     bind_do (uq_GetMFACerts ''crl'') (\<lambda>cs.
       for_map (\<lambda>c. bind_do (lift (parse_crl M (mc_cert c))) (\<lambda>x. ret (mc_id c, x))) cs)"

definition um_MFACreateCRL :: "mfa_env \<Rightarrow> string \<Rightarrow> unit wop" where
  "um_MFACreateCRL M crl =
     bind_do (lift (parse_crl M crl)) (\<lambda>_.
     bind_do (uq_InsertMFACerts crl ''crl'') (\<lambda>_.
       um_DeleteInvalidSessionsByMFACert InsertCert ''crl''))"

definition um_MFADeleteCRL :: "int \<Rightarrow> unit wop" where
  "um_MFADeleteCRL i =
     bind_do (uq_DeleteMFACerts i) (\<lambda>_. um_DeleteInvalidSessionsByMFACert DeleteCert ''crl'')"

section \<open>Acceptance of a certificate\<close>

text \<open>A certificate is accepted by the first authority that verifies it, unless a revocation list
  signed by that authority names its serial number.\<close>

definition first_verifier :: "mfa_env \<Rightarrow> int \<Rightarrow> certificate \<Rightarrow> string list \<Rightarrow> string \<Rightarrow> bool" where
  "first_verifier M now c cas ca \<longleftrightarrow> (\<exists>before after. cas = before @ ca # after \<and>
     (\<forall>x\<in>set before. mf_pool M x \<and> \<not> mf_verify M c x now) \<and> mf_pool M ca \<and> mf_verify M c ca now)"

definition certificate_ok :: "mfa_env \<Rightarrow> int \<Rightarrow> string list \<Rightarrow> string list \<Rightarrow> string \<Rightarrow> bool" where
  "certificate_ok M now cas crls cert \<longleftrightarrow>
     (\<exists>c ca root. parse_certificate M cert = Inr c \<and> first_verifier M now c cas ca \<and>
        parse_certificate M ca = Inr root \<and>
        (\<forall>r\<in>set crls. \<exists>l. parse_crl M r = Inr l \<and> (mf_signed M l root \<longrightarrow> ct_serial c \<notin> set (rl_revoked l))))"

lemma first_verifier_Nil [simp]: "\<not> first_verifier M now c [] ca"
  by (simp add: first_verifier_def)

lemma first_verifier_Cons [simp]:
  "first_verifier M now c (x # xs) ca \<longleftrightarrow>
     mf_pool M x \<and> (if mf_verify M c x now then ca = x else first_verifier M now c xs ca)"
proof
  assume "first_verifier M now c (x # xs) ca"
  then obtain before after where "x # xs = before @ ca # after"
    "\<forall>x\<in>set before. mf_pool M x \<and> \<not> mf_verify M c x now" "mf_pool M ca" "mf_verify M c ca now"
    by (auto simp: first_verifier_def)
  then show "mf_pool M x \<and> (if mf_verify M c x now then ca = x else first_verifier M now c xs ca)"
    unfolding first_verifier_def by (cases before) auto
next
  assume r: "mf_pool M x \<and> (if mf_verify M c x now then ca = x else first_verifier M now c xs ca)"
  show "first_verifier M now c (x # xs) ca"
  proof (cases "mf_verify M c x now")
    case True
    with r show ?thesis unfolding first_verifier_def by - (rule exI [of _ "[]"], rule exI [of _ xs], simp)
  next
    case False
    with r obtain before after where "xs = before @ ca # after"
      "\<forall>x\<in>set before. mf_pool M x \<and> \<not> mf_verify M c x now" "mf_pool M ca" "mf_verify M c ca now"
      by (auto simp: first_verifier_def)
    with r False show ?thesis unfolding first_verifier_def by - (rule exI [of _ "x # before"], rule exI [of _ after], simp)
  qed
qed

lemma ca_among_Inr: "ca_among M now c cas = Inr ca \<longleftrightarrow> first_verifier M now c cas ca"
  by (induction cas) auto

lemma revocation_checked:
  "(\<exists>ks. crls_signed_by M root crls = Inr ks \<and> not_revoked_in M c ks = Inr ()) \<longleftrightarrow>
     (\<forall>r\<in>set crls. \<exists>l. parse_crl M r = Inr l \<and> (mf_signed M l root \<longrightarrow> ct_serial c \<notin> set (rl_revoked l)))"
proof (induction crls)
  case (Cons r rs)
  show ?case
  proof (cases "parse_crl M r")
    case (Inr l)
    then have "(\<exists>ks. crls_signed_by M root (r # rs) = Inr ks \<and> not_revoked_in M c ks = Inr ()) \<longleftrightarrow>
        (mf_signed M l root \<longrightarrow> ct_serial c \<notin> set (rl_revoked l)) \<and>
        (\<exists>ks. crls_signed_by M root rs = Inr ks \<and> not_revoked_in M c ks = Inr ())"
      by (cases "mf_signed M l root"; cases "ct_serial c \<in> set (rl_revoked l)")
        (auto simp: bind_res_Inr_iff list_ex_iff)
    with Cons Inr show ?thesis by simp
  qed simp
qed simp

text \<open>C31. The certificate authenticator is exact: it accepts precisely the credentials whose certificate
  is verified by one of the authorities and is not named by a revocation list of the first such
  authority, provided all lists parse; every refusal is an error, never the value false.\<close>

theorem cert_authenticate_exact:
  "cert_authenticate M now cas crls creds = Inr b \<longleftrightarrow>
     b \<and> (\<exists>cert. creds = CertCreds cert \<and> certificate_ok M now cas crls cert)"
proof (cases creds)
  case (CertCreds cert)
  have "cert_authenticate M now cas crls creds = Inr b \<longleftrightarrow> b \<and> cas \<noteq> [] \<and>
     (\<exists>c ca root. parse_certificate M cert = Inr c \<and> ca_among M now c cas = Inr ca \<and>
        parse_certificate M ca = Inr root \<and>
        (\<exists>ks. crls_signed_by M root crls = Inr ks \<and> not_revoked_in M c ks = Inr ()))"
    by (auto simp: cert_authenticate_def CertCreds find_ca_for_cert_def find_crls_for_ca_def
        check_cert_against_crl_def bind_res_Inr_iff)
  also have "\<dots> \<longleftrightarrow> b \<and> certificate_ok M now cas crls cert"
    unfolding certificate_ok_def ca_among_Inr revocation_checked by auto
  finally show ?thesis by (simp add: CertCreds)
qed (auto simp: cert_authenticate_def)

section \<open>One-time passwords are used once\<close>

text \<open>
  What replay protection needs of the store of counters: \<open>advance k c\<close> moves the counter of \<open>k\<close> to
  \<open>c\<close> in one atomic step or refuses; \<open>covers s k c\<close> says that every counter stored for \<open>k\<close> is at
  least \<open>c\<close>.
\<close>

locale counter_guard =
  fixes advance :: "'k \<Rightarrow> int \<Rightarrow> 's \<Rightarrow> 's option" and covers :: "'s \<Rightarrow> 'k \<Rightarrow> int \<Rightarrow> bool"
  assumes refuses: "covers s k c \<Longrightarrow> advance k c s = None"
    and moved: "advance k c s = Some s' \<Longrightarrow> covers s' k c"
    and kept: "advance k c s = Some s' \<Longrightarrow> covers s k' c' \<Longrightarrow> covers s' k' c'"
    and downward: "covers s k c \<Longrightarrow> c' \<le> c \<Longrightarrow> covers s k c'"
begin

lemma advance_above: "advance k c s = Some s' \<Longrightarrow> covers s k c' \<Longrightarrow> c' < c"
  using refuses downward by (metis not_less option.distinct(1))

lemma log_extends:
  assumes "advance k c s = Some s'" and "\<forall>k. sorted_wrt (<) (l k) \<and> (\<forall>x\<in>set (l k). covers s k x)"
  shows "\<forall>j. sorted_wrt (<) ((l(k := l k @ [c])) j) \<and> (\<forall>x\<in>set ((l(k := l k @ [c])) j). covers s' j x)"
  using assms advance_above kept moved by (auto simp: sorted_wrt_append)

end

definition try_advance :: "int \<Rightarrow> int \<Rightarrow> world \<Rightarrow> world option" where
  "try_advance u c w = (case TryToUpdateUserTOTPCounter c u w of (Inr _, w') \<Rightarrow> Some w' | _ \<Rightarrow> None)"

definition counters_cover :: "world \<Rightarrow> int \<Rightarrow> int \<Rightarrow> bool" where
  "counters_cover w u c = (\<forall>t\<in>set (db_totp (w_db w)). totp_user t = u \<longrightarrow> c \<le> totp_counter t)"

definition counter_moved :: "int \<Rightarrow> int \<Rightarrow> db \<Rightarrow> db" where
  "counter_moved u c = db_totp_update (map (\<lambda>t. if totp_user t = u \<and> totp_counter t < c then t\<lparr>totp_counter := c\<rparr> else t))"

lemma try_advance_Some:
  assumes "try_advance u c w = Some w'"
  shows "\<exists>t\<in>set (db_totp (w_db w)). totp_user t = u \<and> totp_counter t < c"
    and "w_db w' = counter_moved u c (w_db w)"
proof -
  obtain r where "q_update db_totp db_totp_update (\<lambda>t. totp_user t = u \<and> totp_counter t < c)
      (\<lambda>t. t\<lparr>totp_counter := c\<rparr>) w = (Inr r, w')"
    using assms by (auto simp: try_advance_def TryToUpdateUserTOTPCounter_def split: prod.splits sum.splits)
  note run_q_update [OF this]
  then show "\<exists>t\<in>set (db_totp (w_db w)). totp_user t = u \<and> totp_counter t < c"
    and "w_db w' = counter_moved u c (w_db w)"
    by (auto simp: counter_moved_def filter_eq_Cons_iff)
qed

lemma cover_moved:
  assumes "w_db w' = counter_moved k x (w_db w)"
  shows "counters_cover w' u c \<longleftrightarrow>
    (\<forall>t\<in>set (db_totp (w_db w)). totp_user t = u \<longrightarrow>
       c \<le> (if totp_user t = k \<and> totp_counter t < x then x else totp_counter t))"
proof -
  let ?f = "\<lambda>t :: totp_row. if totp_user t = k \<and> totp_counter t < x then t\<lparr>totp_counter := x\<rparr> else t"
  have "totp_user (?f t) = totp_user t"
    "totp_counter (?f t) = (if totp_user t = k \<and> totp_counter t < x then x else totp_counter t)" for t
    by simp_all
  moreover have "db_totp (w_db w') = map ?f (db_totp (w_db w))"
    unfolding assms by (simp add: counter_moved_def)
  ultimately show ?thesis unfolding counters_cover_def by (simp only: list.set_map ball_simps)
qed

interpretation totp_counters: counter_guard try_advance counters_cover
proof
  show "try_advance k c s = None" if "counters_cover s k c" for s k c
  proof (cases "try_advance k c s")
    case (Some s')
    from try_advance_Some(1) [OF this] that show ?thesis by (auto simp: counters_cover_def)
  qed
  show "counters_cover s' k c" if "try_advance k c s = Some s'" for k c s s'
    unfolding cover_moved [OF try_advance_Some(2) [OF that]] by simp
  show "counters_cover s' k' c'" if "try_advance k c s = Some s'" "counters_cover s k' c'" for k c s s' k' c'
    unfolding cover_moved [OF try_advance_Some(2) [OF that(1)]]
    using that(2) unfolding counters_cover_def by (auto intro: order_trans less_imp_le)
  show "counters_cover s k c'" if "counters_cover s k c" "c' \<le> c" for s k c c'
    using that unfolding counters_cover_def by fastforce
qed

text \<open>
  Any number of authentications run at the same time.  A configuration holds the world, the
  requests that have checked a code and not yet moved the counter, and the counters accepted
  for each user since its secret was last written.
\<close>

record auth_conf =
  ac_world :: world
  ac_pending :: "(int \<times> int) multiset"
  ac_accepted :: "int \<Rightarrow> int list"

definition secrets_kept :: "world \<Rightarrow> world \<Rightarrow> bool" where
  "secrets_kept w w' = (set (db_totp (w_db w')) \<subseteq> set (db_totp (w_db w)))"

definition secret_written :: "int \<Rightarrow> world \<Rightarrow> world \<Rightarrow> bool" where
  "secret_written u w w' =
     (filter (\<lambda>t. totp_user t \<noteq> u) (db_totp (w_db w')) = filter (\<lambda>t. totp_user t \<noteq> u) (db_totp (w_db w)))"

inductive auth_step :: "env \<Rightarrow> mfa_env \<Rightarrow> auth_conf \<Rightarrow> auth_conf \<Rightarrow> bool" for E M where
  check: "totp_check E M u creds (ac_world s) = (Inr (Some c), w') \<Longrightarrow>
    auth_step E M s (s\<lparr>ac_world := w', ac_pending := add_mset (u, c) (ac_pending s)\<rparr>)"
| commit: "(u, c) \<in># ac_pending s \<Longrightarrow> totp_commit u c (ac_world s) = (Inr True, w') \<Longrightarrow>
    auth_step E M s (s\<lparr>ac_world := w', ac_pending := ac_pending s - {#(u, c)#},
      ac_accepted := (ac_accepted s)(u := ac_accepted s u @ [c])\<rparr>)"
| refuse: "(u, c) \<in># ac_pending s \<Longrightarrow> totp_commit u c (ac_world s) = (r, w') \<Longrightarrow> r \<noteq> Inr True \<Longrightarrow>
    auth_step E M s (s\<lparr>ac_world := w', ac_pending := ac_pending s - {#(u, c)#}\<rparr>)"
| secret: "um_MFACreateTOTPSecret E u (ac_world s) = (r, w') \<or> um_MFAUpdateTOTPSecret E u (ac_world s) = (r, w') \<Longrightarrow>
    auth_step E M s (s\<lparr>ac_world := w', ac_accepted :=
      (if db_totp (w_db w') = db_totp (w_db (ac_world s)) then ac_accepted s else (ac_accepted s)(u := []))\<rparr>)"
| other: "secrets_kept (ac_world s) w' \<Longrightarrow> auth_step E M s (s\<lparr>ac_world := w'\<rparr>)"

inductive_cases auth_stepE: "auth_step E M s s'"

lemma totp_check_reads: "reads (totp_check E M u creds)"
  unfolding totp_check_def GetUserTOTP_def by (rule readsI) (intro pres)

lemma totp_commit_outcome:
  assumes "totp_commit u c w = (r, w')"
  shows "if r = Inr True then try_advance u c w = Some w' else w_db w' = w_db w"
proof -
  have "dwp (totp_commit u c) (\<lambda>b d'. b \<or> d' = d) (\<lambda>_ d'. d' = d) d" for d
    unfolding totp_commit_def TryToUpdateUserTOTPCounter_def by (intro vcg) (auto intro!: vcg)
  from dwp_outcome [OF this, of w] assms have "r = Inr True \<or> w_db w' = w_db w"
    by (auto split: sum.splits)
  moreover have "try_advance u c w = Some w'" if "r = Inr True"
    using that assms
    by (auto simp: try_advance_def totp_commit_def attempt_def ret_def throw_def
        split: prod.splits sum.splits err.splits if_splits)
  ultimately show ?thesis by auto
qed

lemma secret_ops_written:
  assumes "um_MFACreateTOTPSecret E u w = (r, w') \<or> um_MFAUpdateTOTPSecret E u w = (r, w')"
  shows "secret_written u w w'"
proof -
  let ?J = "\<lambda>d. filter (\<lambda>t. totp_user t \<noteq> u) (db_totp d) = filter (\<lambda>t. totp_user t \<noteq> u) (db_totp (w_db w))"
  have "keeps ?J (um_MFACreateTOTPSecret E u)" "keeps ?J (um_MFAUpdateTOTPSecret E u)"
    unfolding um_MFACreateTOTPSecret_def um_MFAUpdateTOTPSecret_def user_of_secret_def uq_GetUserByID_def
      GetUserByID_def create_totp_key_def seal_secret_def InsertUserTOTP_def UpdateUserTOTP_def touch_user_def
      UpdateUserEditTime_def um_DeleteInvalidSessionsByUserTOTP_def
    by (intro pres keeps_db_call keeps_q_update; simp add: Let_def clear_sessions_def filter_map_unchanged)+
  with assms show ?thesis unfolding secret_written_def by (auto dest: keeps_outcome)
qed

definition accepted_covered :: "auth_conf \<Rightarrow> bool" where
  "accepted_covered s = (\<forall>u. sorted_wrt (<) (ac_accepted s u) \<and>
     (\<forall>c\<in>set (ac_accepted s u). counters_cover (ac_world s) u c))"

lemma cover_same: "db_totp (w_db w') = db_totp (w_db w) \<Longrightarrow> counters_cover w' u c = counters_cover w u c"
  by (simp add: counters_cover_def)

lemma cover_written:
  assumes "secret_written u w w'" "v \<noteq> u" "counters_cover w v c"
  shows "counters_cover w' v c"
proof -
  have "t \<in> set (db_totp (w_db w'))  \<and> totp_user t \<noteq> u \<longleftrightarrow> t \<in> set (db_totp (w_db w)) \<and> totp_user t \<noteq> u" for t
    using arg_cong [OF assms(1) [unfolded secret_written_def], of set] by auto
  with assms(2,3) show ?thesis by (auto simp: counters_cover_def)
qed

lemma auth_step_covered:
  assumes "auth_step E M s s'" and "accepted_covered s"
  shows "accepted_covered s'"
  using assms(1)
proof cases
  case (check u creds c w')
  then have "w_db w' = w_db (ac_world s)" using reads_eq [OF totp_check_reads] by blast
  with check assms(2) show ?thesis by (simp add: accepted_covered_def counters_cover_def)
next
  case (commit u c w')
  with totp_commit_outcome have "try_advance u c (ac_world s) = Some w'" by fastforce
  from totp_counters.log_extends [OF this assms(2) [unfolded accepted_covered_def]] commit(1) show ?thesis
    by (simp add: accepted_covered_def)
next
  case (refuse u c r w')
  with totp_commit_outcome [of u c "ac_world s" r w'] have "w_db w' = w_db (ac_world s)" by simp
  with refuse assms(2) show ?thesis by (simp add: accepted_covered_def counters_cover_def)
next
  case (secret u r w')
  from secret(2) have "secret_written u (ac_world s) w'" by (rule secret_ops_written)
  then have "counters_cover w' v c" if "v \<noteq> u \<or> db_totp (w_db w') = db_totp (w_db (ac_world s))"
    "counters_cover (ac_world s) v c" for v c
    using that by (metis cover_same cover_written)
  with secret(1) assms(2) show ?thesis by (simp add: accepted_covered_def)
next
  case (other w')
  with assms(2) show ?thesis by (fastforce simp: accepted_covered_def counters_cover_def secrets_kept_def)
qed


definition totp_db :: db where
  "totp_db = sample_db\<lparr>db_totp := [\<lparr>totp_user = 1, totp_key = ''cKEY'', totp_counter = 0\<rparr>]\<rparr>"

definition sample_mfa :: mfa_env where
  "sample_mfa = \<lparr>mf_hotp = (\<lambda>code c key. code = ''42'' \<and> c = 1), mf_pem = Some,
     mf_cert = (\<lambda>b. Inr \<lparr>ct_serial = int (length b), ct_cn = b, ct_not_before = [], ct_not_after = [], ct_raw = b\<rparr>),
     mf_crl = (\<lambda>b. Inr \<lparr>rl_issuer = b, rl_revoked = [], rl_raw = b\<rparr>), mf_pool = (\<lambda>_. True),
     mf_verify = (\<lambda>c ca _. ct_cn c = ca), mf_signed = (\<lambda>_ _. True)\<rparr>"


section \<open>Soundness of the second factor\<close>

definition code_matches :: "env \<Rightarrow> mfa_env \<Rightarrow> int \<Rightarrow> mfa_creds \<Rightarrow> world \<Rightarrow> int \<Rightarrow> bool" where
  "code_matches E M u creds w c \<longleftrightarrow>
     (\<exists>t ts key code. filter (\<lambda>t. totp_user t = u) (db_totp (w_db w)) = t # ts \<and>
        env_open E (env_key E) (totp_key t) = Inr key \<and> creds = TotpCreds code \<and>
        \<bar>c - w_now w div 30\<bar> \<le> 1 \<and> mf_hotp M code (word_of_int c) key \<and> totp_counter t < c)"

definition certs_of :: "string \<Rightarrow> db \<Rightarrow> string list" where
  "certs_of ty d = map mc_cert (filter (\<lambda>c. mc_type c = ty) (db_mfa_certs d))"

lemma db_call_now: "db_call f w = (r, w') \<Longrightarrow> w_now w' = w_now w"
  by (auto simp: db_call_def Let_def abort_tx_def split: if_splits prod.splits)

lemma q_many_now: "q_many f w = (Inr x, w') \<Longrightarrow> x = f (w_db w) \<and> w_db w' = w_db w \<and> w_now w' = w_now w"
  by (simp add: run_q_many) (simp add: q_many_def db_call_now)

lemma try_counters_Some:
  "try_counters M key code used cs = Inr (Some c) \<Longrightarrow> c \<in> set cs \<and> mf_hotp M code (word_of_int c) key \<and> used < c"
  by (induction cs) (auto split: if_splits)

lemma run_attempt_lift: "attempt (lift r) k w = (Inr y, w') \<longleftrightarrow> r \<noteq> Inl Panic \<and> k r w = (Inr y, w')"
  by (auto simp: attempt_def lift_def split: sum.splits err.splits)

lemma totp_check_Some:
  assumes "totp_check E M u creds w = (Inr (Some c), w')"
  shows "code_matches E M u creds w c"
proof -
  obtain t w1 key where t: "q_one (\<lambda>d. filter (\<lambda>t. totp_user t = u) (db_totp d)) w = (Inr t, w1)"
    and key: "env_open E (env_key E) (totp_key t) = Inr key"
    and r: "(case totp_authenticate M key (totp_counter t) creds (w_now w1) of
        Inl e \<Rightarrow> if errors_is e ErrTOTPReplay then ret None else throw e | Inr c \<Rightarrow> ret c) w1 = (Inr (Some c), w')"
    using assms by (auto simp: totp_check_def GetUserTOTP_def run open_op_def run_attempt_lift)
  from r have a: "totp_authenticate M key (totp_counter t) creds (w_now w1) = Inr (Some c)"
    by (auto simp: run split: sum.splits if_splits)
  from a obtain code where "creds = TotpCreds code"
    "try_counters M key code (totp_counter t) [w_now w1 div 30 - 1, w_now w1 div 30, w_now w1 div 30 + 1] = Inr (Some c)"
    by (auto simp: totp_authenticate_def Let_def time_to_counter_def split: mfa_creds.splits)
  note code = this(1) try_counters_Some [OF this(2)]
  have "w_now w1 = w_now w" using t db_call_now unfolding q_one_def by blast
  with code(2) have "\<bar>c - w_now w div 30\<bar> \<le> 1" by auto
  with code run_q_one [OF t] key show ?thesis by (auto simp: code_matches_def)
qed

lemma mfa_authenticate_outcome:
  assumes "um_MFAAuthenticate E M u ty creds w = (r, w')"
  shows "if r = Inr True
    then ty = ''totp'' \<and> (\<exists>c. code_matches E M u creds w c \<and> w_db w' = counter_moved u c (w_db w)) \<or>
         ty = ''cert'' \<and> w_db w' = w_db w \<and> (\<exists>cert. creds = CertCreds cert \<and>
           certificate_ok M (w_now w) (certs_of ''ca'' (w_db w)) (certs_of ''crl'' (w_db w)) cert)
    else w_db w' = w_db w"
proof -
  consider "ty = ''totp''" | "ty = ''cert''" | "ty \<noteq> ''totp''" "ty \<noteq> ''cert''" by blast
  then show ?thesis
  proof cases
    case 1
    obtain r1 w1 where c: "totp_check E M u creds w = (r1, w1)" by fastforce
    then have db: "w_db w1 = w_db w" by (rule reads_eq [OF totp_check_reads])
    from assms c 1 have rest: "(case r1 of Inl e \<Rightarrow> throw e | Inr None \<Rightarrow> ret False | Inr (Some k) \<Rightarrow> totp_commit u k) w1 = (r, w')"
      by (auto simp: um_MFAAuthenticate_def try_do_def throw_def split: sum.splits option.splits)
    show ?thesis
    proof (cases "\<exists>k. r1 = Inr (Some k)")
      case True
      then obtain k where k: "r1 = Inr (Some k)" by blast
      with rest have "totp_commit u k w1 = (r, w')" by simp
      note out = totp_commit_outcome [OF this]
      show ?thesis
      proof (cases "r = Inr True")
        case True
        with out db have "w_db w' = counter_moved u k (w_db w)" by (simp add: try_advance_Some(2))
        moreover have "code_matches E M u creds w k" using c k by (simp add: totp_check_Some)
        ultimately show ?thesis using 1 True by auto
      next
        case False
        with out db show ?thesis by simp
      qed
    next
      case False
      with rest db show ?thesis by (auto simp: ret_def throw_def split: sum.splits option.splits)
    qed
  next
    case 2
    have "reads (um_MFAAuthenticate E M u ty creds)"
      unfolding um_MFAAuthenticate_def uq_GetMFACerts_def GetMFACertsByType_def 2
      by (rule readsI, simp) (intro pres)
    with assms have db: "w_db w' = w_db w" by (auto dest: reads_eq)
    moreover have "\<exists>cert. creds = CertCreds cert \<and>
        certificate_ok M (w_now w) (certs_of ''ca'' (w_db w)) (certs_of ''crl'' (w_db w)) cert" if "r = Inr True"
      using assms that 2
      by (auto simp: um_MFAAuthenticate_def uq_GetMFACerts_def GetMFACertsByType_def run
          cert_authenticate_exact certs_of_def dest!: q_many_now)
    ultimately show ?thesis using 2 by simp
  next
    case 3
    with assms show ?thesis by (auto simp: um_MFAAuthenticate_def throw_def split: if_splits)
  qed
qed

text \<open>C2. The second factor is sound: \<open>MFAAuthenticate\<close> reports success only for a one-time password that
  the stored secret of the user makes valid within one period of the present and whose counter
  is above the stored one, which it then moves, or for an accepted certificate; in every other
  case, failures included, nothing changes.\<close>

theorem mfa_authenticate_sound:
  "case um_MFAAuthenticate E M u ty creds w of (r, w') \<Rightarrow>
    if r = Inr True
    then ty = ''totp'' \<and> (\<exists>c. code_matches E M u creds w c \<and> w_db w' = counter_moved u c (w_db w)) \<or>
         ty = ''cert'' \<and> w_db w' = w_db w \<and> (\<exists>cert. creds = CertCreds cert \<and>
           certificate_ok M (w_now w) (certs_of ''ca'' (w_db w)) (certs_of ''crl'' (w_db w)) cert)
    else w_db w' = w_db w"
  using mfa_authenticate_outcome by (rule case_prodI2)

section \<open>A missing secret\<close>

lemma errors_is_under_iff: "errors_is (under s l e) t \<longleftrightarrow> e \<noteq> Panic \<and> s = t"
  by (simp add: under_def)

lemma dwp_touch_user [vcg]:
  assumes "\<And>now. Q () (db_users_update (map (\<lambda>y. if u_id y = u then y\<lparr>u_updated_at := now\<rparr> else y)) d)"
    and "X (wrapw ''UpdateUserEditTime'' DbError) d" "X (wrapw ''UpdateUserEditTime'' no_rows) d"
  shows "dwp (touch_user u) Q X d"
  unfolding touch_user_def UpdateUserEditTime_def by (intro vcg assms)

text \<open>A change of a one-time password secret succeeds only for a user that has one; that the secret is
  missing is never visible in the error, which has neither \<open>ErrUserSecretNotFound\<close> nor
  \<open>ErrNotFound\<close> in its chain, the two that the REST handler looks for.\<close>

theorem missing_secret_hidden:
  "case um_MFAUpdateTOTPSecret E u w of
     (Inr _, _) \<Rightarrow> \<exists>t\<in>set (db_totp (w_db w)). totp_user t = u
   | (Inl e, _) \<Rightarrow> \<not> errors_is e ErrUserSecretNotFound \<and> \<not> errors_is e ErrNotFound"
proof -
  have "dwp (um_MFAUpdateTOTPSecret E u) (\<lambda>_ _. \<exists>t\<in>set (db_totp d). totp_user t = u)
     (\<lambda>e _. \<not> errors_is e ErrUserSecretNotFound \<and> \<not> errors_is e ErrNotFound) d" for d
    unfolding um_MFAUpdateTOTPSecret_def user_of_secret_def uq_GetUserByID_def GetUserByID_def create_totp_key_def
      seal_secret_def seal_op_def UpdateUserTOTP_def um_DeleteInvalidSessionsByUserTOTP_def
      delete_user_device_sessions_def GetDeviceTemplateByUserID_def InvalidateTemplateDeviceSessions_def
    by (intro vcg) (auto simp: on_no_rows_def query_err_def replace_err_def errors_is_under_iff new_under_def
        new_user_model_with_id_def um_set_auth_type_def um_set_id_def filter_eq_Cons_iff split: if_splits intro: vcg)
  from dwp_outcome [OF this, of w] show ?thesis by (auto split: prod.splits sum.splits)
qed

end
