(* ===== verification/Vcm_Servers.thy ===== *)
theory Vcm_Servers
  imports Vcm_Base
begin

text \<open>
  Operations of \<open>src/service/vcm/postgres.go\<close> that change servers and their WireGuard
  configuration, and the invalidation of the sessions of the devices concerned.
\<close>

section \<open>Sessions made invalid by a change of a server\<close>

definition server_change_invalidates :: "server \<Rightarrow> server \<Rightarrow> bool" where
  "server_change_invalidates old new =
     (let hc_unchanged = (sv_healthcheck old = None \<and> sv_healthcheck new = None) \<or>
            (sv_healthcheck old \<noteq> None \<and> sv_healthcheck new \<noteq> None \<and>
             the (sv_healthcheck new) = the (sv_healthcheck old))
      in sv_endpoint new \<noteq> sv_endpoint old \<or> \<not> hc_unchanged)"

definition delete_invalid_sessions_by_server :: "server \<Rightarrow> server \<Rightarrow> unit wop" where
  "delete_invalid_sessions_by_server old new =
     when_do (server_change_invalidates old new)
       (bind_do (InvalidateAllDeviceSessionsByServerID (sv_id new)) (\<lambda>_. ret ()))"

definition wg_change_invalidates :: "wg_config \<Rightarrow> wg_config \<Rightarrow> bool" where
  "wg_change_invalidates old new =
     (wc_private_key new \<noteq> wc_private_key old \<or> wc_public_key new \<noteq> wc_public_key old \<or>
      wc_port new \<noteq> wc_port old \<or> wc_keepalive new \<noteq> wc_keepalive old)"

definition delete_invalid_sessions_by_server_wg_config :: "int \<Rightarrow> wg_config \<Rightarrow> wg_config \<Rightarrow> unit wop" where
  "delete_invalid_sessions_by_server_wg_config sid old new =
     when_do (wg_change_invalidates old new)
       (bind_do (InvalidateAllDeviceSessionsByServerID sid) (\<lambda>_. ret ()))"

section \<open>Creation\<close>

definition insert_saddr :: "int \<Rightarrow> string \<Rightarrow> unit wop" where
  "insert_saddr cid s =
     (case parse_prefix s of
        None \<Rightarrow> throw (errors_new ''parse address'')
      | Some p \<Rightarrow> try_do (InsertServerWireGuardIfaceAddr cid p) (wrapw ''InsertServerWireGuardIfaceAddr'') ret)"

definition insert_sdns :: "int \<Rightarrow> string \<Rightarrow> unit wop" where
  "insert_sdns cid s = try_do (InsertServerWireGuardIfaceDNS cid s) (wrapw ''InsertServerWireGuardIfaceDNS'') ret"

definition cfg_row :: "int \<Rightarrow> string \<Rightarrow> wg_config \<Rightarrow> server_cfg_row" where
  "cfg_row sid priv c =
     \<lparr>sc_id = 0, sc_server = sid, sc_iface = wc_iface c, sc_public_key = wc_public_key c,
      sc_port = int_to_ptr (wc_port c), sc_mtu = int_to_ptr (wc_mtu c),
      sc_keepalive = int_to_ptr (wc_keepalive c), sc_private_key = priv\<rparr>"

definition insert_server_with_wg_config :: "env \<Rightarrow> server \<Rightarrow> wg_config \<Rightarrow> int wop" where
  "insert_server_with_wg_config E s c =
     try_do (with_tx (
       try_do (InsertServer \<lparr>s_id = 0, s_name = sv_name s, s_endpoint = sv_endpoint s,
           s_description = sv_description s, s_replicas = 0, s_healthcheck = sv_healthcheck s\<rparr>)
         (wrapw ''InsertServer'') (\<lambda>row.
       try_do (seal_op E (wc_private_key c)) (wrapw ''failed to encrypt private key'') (\<lambda>priv.
       try_do (InsertServerWireGuardConfig (cfg_row (s_id row) priv c))
         (wrapw ''InsertServerWireGuardConfig'') (\<lambda>cfg.
       bind_do (for_each (insert_saddr (sc_id cfg)) (wc_addresses c)) (\<lambda>_.
       bind_do (for_each (insert_sdns (sc_id cfg)) (wc_dns c)) (\<lambda>_.
         ret (s_id row))))))))
     query_failed ret"

definition vcm_CreateServer :: "env \<Rightarrow> api_server \<Rightarrow> api_wg_iface \<Rightarrow> unit wop" where
  "vcm_CreateServer E a cfg =
     try_do (lift (new_server_from_api a)) (under VcmErrInvalidData ''NewServerFromAPI'') (\<lambda>s.
     try_do (CheckServerNameExists (sv_name s)) handle_error (\<lambda>ex.
     guard_do ex (Sentinel VcmErrAlreadyExists) (
     try_do (lift (new_wg_config_from_api cfg)) (under VcmErrInvalidData ''NewWireGuardConfigFromAPI'') (\<lambda>c.
     try_do (insert_server_with_wg_config E s c) handle_error (\<lambda>_. ret ())))))"

section \<open>Healthcheck addresses of existing adjacencies\<close>

text \<open>A list query whose \<open>ErrNoRows\<close> means that there is nothing to do.\<close>

definition many_or_empty :: "'a list wop \<Rightarrow> string \<Rightarrow> ('a list \<Rightarrow> 'b wop) \<Rightarrow> 'b wop" where
  "many_or_empty m l k = attempt m (\<lambda>r. case r of
     Inr xs \<Rightarrow> k xs
   | Inl e \<Rightarrow> if e \<noteq> no_rows then throw (wrapw l e) else k [])"

definition rewrite_adj :: "(prefix list \<Rightarrow> prefix list \<times> bool) \<Rightarrow> adjacency_row \<Rightarrow> unit wop" where
  "rewrite_adj f a = (case f (adj_client_ips a) of (ips, modified) \<Rightarrow>
     when_do modified (try_do (UpdateAdjacencyClientSideAllowedIPs (adj_id a) ips)
       (wrapw ''UpdateAdjacencyClientSideAllowedIPs'') ret))"

definition rewrite_atemplate :: "(prefix list \<Rightarrow> prefix list \<times> bool) \<Rightarrow> adj_template_row \<Rightarrow> unit wop" where
  "rewrite_atemplate f a = (case f (at_client_ips a) of (ips, modified) \<Rightarrow>
     when_do modified (try_do (UpdateAdjacencyTemplateClientSideAllowedIPs (at_id a) ips)
       (wrapw ''UpdateAdjacencyTemplateClientSideAllowedIPs'') ret))"

definition rewrite_lts :: "(prefix list \<Rightarrow> prefix list \<times> bool) \<Rightarrow> ldap_template_server_row \<Rightarrow> unit wop" where
  "rewrite_lts f l = (case f (lts_ips l) of (ips, modified) \<Rightarrow>
     when_do modified (try_do (UpdateLdapTemplateServerAllowedIPs (lts_template l) (lts_server l) ips)
       (wrapw ''UpdateLdapTemplateServerAllowedIPs'') ret))"

definition rewrite_allowed_ips :: "(prefix list \<Rightarrow> prefix list \<times> bool) \<Rightarrow> int \<Rightarrow> unit wop" where
  "rewrite_allowed_ips f sid =
     many_or_empty (GetAdjacenciesByServerID sid) ''GetAdjacenciesByServerID'' (\<lambda>adjs.
     bind_do (for_each (rewrite_adj f) adjs) (\<lambda>_.
     many_or_empty (GetAdjacencyTemplatesByServerID sid) ''GetAdjacencyTemplatesByServerID'' (\<lambda>ats.
     bind_do (for_each (rewrite_atemplate f) ats) (\<lambda>_.
     many_or_empty (GetLdapTemplateServersByServerID sid) ''GetLdapTemplateServersByServerID'' (\<lambda>ls.
       for_each (rewrite_lts f) ls)))))"

definition update_existing_adjacencies_with_healthcheck :: "int \<Rightarrow> addr option \<Rightarrow> unit wop" where
  "update_existing_adjacencies_with_healthcheck sid hc =
     rewrite_allowed_ips (\<lambda>ips. ensure_healthcheck_addr ips hc) sid"

definition remove_healthcheck_from_existing_adjacencies :: "int \<Rightarrow> addr option \<Rightarrow> unit wop" where
  "remove_healthcheck_from_existing_adjacencies sid hc =
     rewrite_allowed_ips (\<lambda>ips. remove_healthcheck_addr ips hc) sid"

section \<open>Updates and deletion\<close>

definition apply_server_update :: "api_server \<Rightarrow> server \<Rightarrow> err + server" where
  "apply_server_update a s0 =
     bind_res (set_name (as_name a) s0) (\<lambda>e. e) (\<lambda>s1.
     bind_res (set_endpoint (as_endpoint a) s1) (\<lambda>e. e) (\<lambda>s2.
     bind_res (set_health_check_address (as_healthcheck a) s2) (\<lambda>e. e) (\<lambda>s3.
     set_description (as_description a) s3)))"

definition vcm_UpdateServer :: "int \<Rightarrow> api_server \<Rightarrow> api_server wop" where
  "vcm_UpdateServer i a =
     try_do (pg_GetServerByID i) handle_error (\<lambda>old.
     bind_do (lift (apply_server_update a old)) (\<lambda>new.
     try_do (pg_UpdateServer new) handle_error (\<lambda>_.
     bind_do (when_do (sv_healthcheck old \<noteq> None \<and> sv_healthcheck new = None)
       (ignore_err (remove_healthcheck_from_existing_adjacencies i (sv_healthcheck old)))) (\<lambda>_.
     bind_do (when_do (sv_healthcheck new \<noteq> None \<and>
         (sv_healthcheck old = None \<or>
          addr_compare (the (sv_healthcheck new)) (the (sv_healthcheck old)) \<noteq> 0))
       (bind_do (when_do (sv_healthcheck old \<noteq> None \<and>
             addr_compare (the (sv_healthcheck new)) (the (sv_healthcheck old)) \<noteq> 0)
           (ignore_err (remove_healthcheck_from_existing_adjacencies i (sv_healthcheck old)))) (\<lambda>_.
        ignore_err (update_existing_adjacencies_with_healthcheck i (sv_healthcheck new))))) (\<lambda>_.
     try_do (delete_invalid_sessions_by_server old new) handle_error (\<lambda>_.
       ret (server_to_api new)))))))"

definition vcm_DeleteServer :: "int \<Rightarrow> unit wop" where
  "vcm_DeleteServer i =
     try_do (CheckServerIDExists i) handle_error (\<lambda>ex.
     guard_do (\<not> ex) (Sentinel VcmErrNotFound)
       (try_do (pg_DeleteServer i) handle_error ret))"

section \<open>The WireGuard configuration of a server\<close>

text \<open>
  The consistency checks of \<open>UpdateWireGuardServerConfig\<close>: for one address of a device, the
  loop over the server's addresses yields whether it is covered and whether it clashes.
\<close>

fun scan_server_addrs :: "addr \<Rightarrow> bool \<Rightarrow> string list \<Rightarrow> bool \<times> bool" where
  "scan_server_addrs dev cov [] = (cov, False)"
| "scan_server_addrs dev cov (s # ss) =
     (case parse_prefix s of
        None \<Rightarrow> scan_server_addrs dev cov ss
      | Some net \<Rightarrow>
          let cov' = (cov \<or> prefix_contains net dev) in
          if pfx_addr net = dev then (cov', True) else scan_server_addrs dev cov' ss)"

fun scan_device_addrs :: "string list \<Rightarrow> string list \<Rightarrow> bool \<times> bool" where
  "scan_device_addrs saddrs [] = (True, False)"
| "scan_device_addrs saddrs (d # ds) =
     (case parse_prefix d of
        None \<Rightarrow> scan_device_addrs saddrs ds
      | Some net \<Rightarrow>
          (case scan_server_addrs (pfx_addr net) False saddrs of (cov, clash) \<Rightarrow>
             if \<not> cov then (False, clash)
             else (case scan_device_addrs saddrs ds of (cov', clash') \<Rightarrow> (cov', clash \<or> clash'))))"

definition check_adjacencies :: "string list \<Rightarrow> wg_adjacency list \<Rightarrow> bool \<times> bool" where
  "check_adjacencies saddrs ps =
     (let rs = map (\<lambda>p. scan_device_addrs saddrs (wa_allowed p)) ps in
      (list_all fst rs, list_ex snd rs))"

definition vcm_UpdateWireGuardServerConfig :: "env \<Rightarrow> int \<Rightarrow> api_wg_iface \<Rightarrow> unit wop" where
  "vcm_UpdateWireGuardServerConfig E sid a =
     try_do (get_server_wg_config E sid) handle_error (\<lambda>old.
     try_do (lift (new_wg_config_from_api a)) (under VcmErrInvalidData ''NewWireGuardConfigFromAPI'') (\<lambda>c.
     try_do (server_adjacencies E sid) handle_error (\<lambda>adjs.
     case check_adjacencies (wc_addresses c) adjs of (covered, clash) \<Rightarrow>
     guard_do (\<not> covered)
       (errors_new ''existing adjacencies not covered by proposed server interface addresses'') (
     guard_do clash (errors_new ''device and server addresses clash'') (
     try_do (seal_op E (wc_private_key c))
       (replace_err (errors_new ''failed to encrypt private key'')) (\<lambda>priv.
     try_do (with_tx (
       try_do (UpdateServerWireGuardConfig (cfg_row sid priv c)) (wrapw ''UpdateServerWireGuardConfig'') (\<lambda>row.
       try_do (DeleteServerWireGuardIfaceAddrs (sc_id row)) (wrapw ''DeleteServerWireGuardIfaceAddrs'') (\<lambda>_.
       bind_do (for_each (insert_saddr (sc_id row)) (wc_addresses c)) (\<lambda>_.
       try_do (DeleteServerWireGuardDNS (sc_id row)) (wrapw ''DeleteServerWireGuardDNS'') (\<lambda>_.
         for_each (insert_sdns (sc_id row)) (wc_dns c)))))))
       (\<lambda>e. handle_error (query_failed e)) (\<lambda>_.
     try_do (delete_invalid_sessions_by_server_wg_config sid old c)
       (\<lambda>e. handle_error (query_failed e)) ret)))))))"

section \<open>What the operations achieve\<close>

lemma run_insert_saddrs:
  "for_each (insert_saddr cid) ss w = (Inr u, w') \<Longrightarrow>
   \<exists>ps. list_all2 (\<lambda>s p. parse_prefix s = Some p) ss ps \<and>
     w_db w' = (w_db w)\<lparr>db_saddrs := db_saddrs (w_db w) @ map (Pair cid) ps\<rparr>"
proof (induction ss arbitrary: w)
  case Nil
  then show ?case by (simp add: run)
next
  case (Cons s ss)
  then obtain w1 where w1: "insert_saddr cid s w = (Inr (), w1)"
    and rest: "for_each (insert_saddr cid) ss w1 = (Inr u, w')" by (auto simp: run)
  from w1 obtain p where p: "parse_prefix s = Some p"
    and db1: "w_db w1 = (w_db w)\<lparr>db_saddrs := db_saddrs (w_db w) @ [(cid, p)]\<rparr>"
    by (auto simp: insert_saddr_def InsertServerWireGuardIfaceAddr_def run
        dest!: run_q_exec split: option.splits)
  from Cons.IH [OF rest] obtain ps where "list_all2 (\<lambda>s p. parse_prefix s = Some p) ss ps"
    "w_db w' = (w_db w1)\<lparr>db_saddrs := db_saddrs (w_db w1) @ map (Pair cid) ps\<rparr>" by blast
  with p db1 show ?case by (intro exI [of _ "p # ps"]) simp
qed

lemma run_insert_sdnss:
  "for_each (insert_sdns cid) ss w = (Inr u, w') \<Longrightarrow>
   w_db w' = (w_db w)\<lparr>db_sdns := db_sdns (w_db w) @ map (Pair cid) ss\<rparr>"
proof (induction ss arbitrary: w)
  case (Cons s ss)
  then obtain w1 where "insert_sdns cid s w = (Inr (), w1)"
    and rest: "for_each (insert_sdns cid) ss w1 = (Inr u, w')" by (auto simp: run)
  then have "w_db w1 = (w_db w)\<lparr>db_sdns := db_sdns (w_db w) @ [(cid, s)]\<rparr>"
    by (auto simp: insert_sdns_def InsertServerWireGuardIfaceDNS_def run dest!: run_q_exec)
  with Cons.IH [OF rest] show ?case by simp
qed (simp add: run)

lemma create_server_safe: "safe_fail (vcm_CreateServer E a cfg)"
  unfolding vcm_CreateServer_def insert_server_with_wg_config_def
  by (intro safe pres)

text \<open>The tables after a server was created: the rows a new server brings.\<close>

definition server_created ::
  "env \<Rightarrow> server \<Rightarrow> wg_config \<Rightarrow> int \<Rightarrow> int \<Rightarrow> string \<Rightarrow> prefix list \<Rightarrow> db \<Rightarrow> db" where
  "server_created E s c i j priv ps d =
     d\<lparr>db_servers := db_servers d @ [\<lparr>s_id = i, s_name = sv_name s, s_endpoint = sv_endpoint s,
          s_description = sv_description s, s_replicas = 0, s_healthcheck = sv_healthcheck s\<rparr>],
       db_scfgs := db_scfgs d @ [(cfg_row i priv c)\<lparr>sc_id := j\<rparr>],
       db_saddrs := db_saddrs d @ map (Pair j) ps,
       db_sdns := db_sdns d @ map (Pair j) (wc_dns c)\<rparr>"

lemma run_insert_server:
  assumes "insert_server_with_wg_config E s c w = (Inr i, w')"
  shows "\<exists>j priv ps. list_all2 (\<lambda>s p. parse_prefix s = Some p) (wc_addresses c) ps
    \<and> w_db w' = server_created E s c i j priv ps (w_db w)"
proof -
  from assms obtain w1 w2 where w1: "w_db w1 = w_db w" and w': "w_db w' = w_db w2"
    and body: "try_do (InsertServer \<lparr>s_id = 0, s_name = sv_name s, s_endpoint = sv_endpoint s,
           s_description = sv_description s, s_replicas = 0, s_healthcheck = sv_healthcheck s\<rparr>)
         (wrapw ''InsertServer'') (\<lambda>row.
       try_do (seal_op E (wc_private_key c)) (wrapw ''failed to encrypt private key'') (\<lambda>priv.
       try_do (InsertServerWireGuardConfig (cfg_row (s_id row) priv c))
         (wrapw ''InsertServerWireGuardConfig'') (\<lambda>cfg.
       bind_do (for_each (insert_saddr (sc_id cfg)) (wc_addresses c)) (\<lambda>_.
       bind_do (for_each (insert_sdns (sc_id cfg)) (wc_dns c)) (\<lambda>_.
         ret (s_id row)))))) w1 = (Inr i, w2)"
    by (auto simp: insert_server_with_wg_config_def run elim!: with_tx_ok)
  from body obtain row priv cfg wa wb wc wd
    where a: "InsertServer \<lparr>s_id = 0, s_name = sv_name s, s_endpoint = sv_endpoint s,
           s_description = sv_description s, s_replicas = 0, s_healthcheck = sv_healthcheck s\<rparr> w1
        = (Inr row, wa)" and b: "seal_op E (wc_private_key c) wa = (Inr priv, wb)"
    and c: "InsertServerWireGuardConfig (cfg_row (s_id row) priv c) wb = (Inr cfg, wc)"
    and d: "for_each (insert_saddr (sc_id cfg)) (wc_addresses c) wc = (Inr (), wd)"
    and e: "for_each (insert_sdns (sc_id cfg)) (wc_dns c) wd = (Inr (), w2)" and i: "i = s_id row"
    by (auto simp: run)
  let ?r = "\<lambda>i. \<lparr>s_id = i, s_name = sv_name s, s_endpoint = sv_endpoint s,
    s_description = sv_description s, s_replicas = 0, s_healthcheck = sv_healthcheck s\<rparr>"
  have a': "row = ?r i \<and> w_db wa = db_servers_update (\<lambda>rs. rs @ [?r i]) (w_db w1)"
    using run_q_insert [OF a [unfolded InsertServer_def]] i by simp
  have b': "w_db wb = w_db wa" using b by (auto simp: seal_op_def draw_def)
  have c': "cfg = (cfg_row i priv c)\<lparr>sc_id := sc_id cfg\<rparr> \<and>
      w_db wc = db_scfgs_update (\<lambda>rs. rs @ [cfg]) (w_db wb)"
    using run_q_insert [OF c [unfolded InsertServerWireGuardConfig_def]] i by simp
  from run_insert_saddrs [OF d] obtain ps where
    ps: "list_all2 (\<lambda>s p. parse_prefix s = Some p) (wc_addresses c) ps"
    and d': "w_db wd = (w_db wc)\<lparr>db_saddrs := db_saddrs (w_db wc) @ map (Pair (sc_id cfg)) ps\<rparr>"
    by blast
  have e': "w_db w2 = (w_db wd)\<lparr>db_sdns := db_sdns (w_db wd) @ map (Pair (sc_id cfg)) (wc_dns c)\<rparr>"
    by (rule run_insert_sdnss [OF e])
  have "w_db w' = server_created E s c i (sc_id cfg) priv ps (w_db w)"
    unfolding server_created_def w' e' d' conjunct2 [OF c'] b' conjunct2 [OF a'] w1
      conjunct1 [OF c', symmetric] by simp
  with ps show ?thesis by blast
qed

text \<open>C35. \<open>CreateServer\<close> is atomic under every schedule of database failures: a run that
  returns an error leaves the tables as they were, and a successful run adds exactly the rows of
  the validated server, under a name that was free, with every address parsed.\<close>

theorem create_server_atomic:
  "case vcm_CreateServer E a cfg w of
     (Inl e, w') \<Rightarrow> w_db w' = w_db w
   | (Inr _, w') \<Rightarrow> \<exists>s c i j priv ps.
       new_server_from_api a = Inr s \<and> new_wg_config_from_api cfg = Inr c
       \<and> sv_name s \<notin> s_name ` set (db_servers (w_db w))
       \<and> list_all2 (\<lambda>s p. parse_prefix s = Some p) (wc_addresses c) ps
       \<and> w_db w' = server_created E s c i j priv ps (w_db w)"
proof -
  have "\<exists>s c i j priv ps.
       new_server_from_api a = Inr s \<and> new_wg_config_from_api cfg = Inr c
       \<and> sv_name s \<notin> s_name ` set (db_servers (w_db w))
       \<and> list_all2 (\<lambda>s p. parse_prefix s = Some p) (wc_addresses c) ps
       \<and> w_db w' = server_created E s c i j priv ps (w_db w)"
    if run: "vcm_CreateServer E a cfg w = (Inr u, w')" for u w'
  proof -
    from run obtain s c w1 i w2 where s: "new_server_from_api a = Inr s"
      and ex: "CheckServerNameExists (sv_name s) w = (Inr False, w1)"
      and c: "new_wg_config_from_api cfg = Inr c"
      and ins: "insert_server_with_wg_config E s c w1 = (Inr i, w2)" and w': "w' = w2"
      by (auto simp: vcm_CreateServer_def Prelude.run)
    have "w_db w1 = w_db w" "sv_name s \<notin> s_name ` set (db_servers (w_db w))"
      using run_exists_of_False [OF ex [unfolded CheckServerNameExists_def ServerNameCheck_def]]
      by (auto simp: filter_empty_conv)
    with s c run_insert_server [OF ins] w' show ?thesis by metis
  qed
  then show ?thesis
    using create_server_safe [of E a cfg]
    by (auto simp: safe_fail_def split: sum.splits prod.splits)
qed

end
