(* ===== verification/Vcm_Notify.thy ===== *)
theory Vcm_Notify
  imports Vcm_Servers
begin

text \<open>
  The watchers of \<open>src/service/vcm/postgres.go\<close>: VPN servers that subscribed to configuration
  changes (the map \<open>configWatchers\<close>, here the list of its keys), the replica counter, and the
  handlers that turn a database notification into messages.  A handler is modelled per
  notification, already decoded from JSON (\<open>None\<close> when decoding fails), and returns the errors
  it wrote to its \<open>fails\<close> channel.  A send gives up after five seconds when nobody listens: the
  schedule \<open>w_drops\<close> says which sends do.
\<close>

section \<open>Delivery\<close>

definition deliver :: "(world \<Rightarrow> world) \<Rightarrow> unit wop" where
  "deliver put = (\<lambda>w.
     let w' = w\<lparr>w_drops := tl (w_drops w)\<rparr> in
     (Inr (), if w_drops w \<noteq> [] \<and> hd (w_drops w) then w' else put w'))"

definition notify_wg_config_changes :: "string \<Rightarrow> wg_ntf \<Rightarrow> unit wop" where
  "notify_wg_config_changes tag n = (\<lambda>w.
     if tag \<notin> set (w_watchers w) then (Inr (), w)
     else deliver (w_wg_sent_update (\<lambda>l. l @ [(tag, n)])) w)"

definition NotifyWGAddPeer :: "string \<Rightarrow> string \<Rightarrow> string \<Rightarrow> string list \<Rightarrow> unit wop" where
  "NotifyWGAddPeer tag key psk ips = notify_wg_config_changes tag (NtfAddPeer key psk ips)"

definition NotifyWGDelPeerPubKey :: "string \<Rightarrow> string \<Rightarrow> unit wop" where
  "NotifyWGDelPeerPubKey tag key = notify_wg_config_changes tag (NtfDelPeer key)"

definition notify_wg_server_config_change :: "string \<Rightarrow> proto_wg option \<Rightarrow> unit wop" where
  "notify_wg_server_config_change tag c = notify_wg_config_changes tag (NtfConfig c)"

definition notify_device_session_changes :: "hc_ntf \<Rightarrow> unit wop" where
  "notify_device_session_changes n = deliver (w_hc_sent_update (\<lambda>l. l @ [n]))"

definition apply_for_watched_tags :: "string list \<Rightarrow> (string \<Rightarrow> unit wop) \<Rightarrow> unit wop" where
  "apply_for_watched_tags tags f =
     for_each (\<lambda>t. bind_do (gets (\<lambda>w. t \<in> set (w_watchers w))) (\<lambda>found. when_do found (f t))) tags"

section \<open>Subscription\<close>

definition increase_rep_count :: "env \<Rightarrow> int \<Rightarrow> unit wop" where
  "increase_rep_count E sid =
     (if env_k8s E = None then
        bind_do (pg_GetReplicaCount sid) (\<lambda>n.
          if n = 1 then ret () else pg_IncreaseReplicaCount sid)
      else pg_IncreaseReplicaCount sid)"

definition vcm_WatchWireGuardConfig :: "env \<Rightarrow> int \<Rightarrow> string \<Rightarrow> unit wop" where
  "vcm_WatchWireGuardConfig E sid tag =
     bind_do (gets (\<lambda>w. tag \<in> set (w_watchers w))) (\<lambda>watched.
     guard_do watched (Sentinel VcmErrAlreadyWatching)
       (bind_do (modify (w_watchers_update (\<lambda>l. l @ [tag]))) (\<lambda>_.
         ignore_err (increase_rep_count E sid))))"

text \<open>The function returned to the subscriber, to be called when it leaves.\<close>

definition watch_cancel :: "int \<Rightarrow> string \<Rightarrow> unit wop" where
  "watch_cancel sid tag =
     bind_do (modify (w_watchers_update (filter (\<lambda>t. t \<noteq> tag)))) (\<lambda>_.
       ignore_err (pg_DecreaseReplicaCount sid))"

section \<open>Handlers of notifications\<close>

record peer_notification =
  pn_old_server :: int
  pn_new_server :: int
  pn_allowed :: "string list"
  pn_adjacency :: int
  pn_old_key :: string
  pn_new_key :: string

text \<open>The preshared key, empty when it could not be resolved, and the error reported then.\<close>

definition resolve_preshared_key :: "env \<Rightarrow> int \<Rightarrow> (string \<times> err list) wop" where
  "resolve_preshared_key E aid =
     (if aid \<le> 0 then ret ([], [])
      else attempt (GetAdjacency aid) (\<lambda>r. case r of
          Inl e \<Rightarrow> ret ([], [errors_new ''can't retrieve adjacency''])
        | Inr a \<Rightarrow> attempt (open_op E (adj_psk a)) (\<lambda>p. case p of
            Inl e \<Rightarrow> ret ([], [errors_new ''can't decrypt preshared key''])
          | Inr psk \<Rightarrow> ret (psk, []))))"

text \<open>\<open>x, err := m; if err != nil \<open>{\<close> fails <- ... \<open>}\<close>\<close>: the zero value is used from then on.\<close>

definition or_report :: "'a wop \<Rightarrow> string \<Rightarrow> 'a \<Rightarrow> ('a \<times> err list) wop" where
  "or_report m l zero = attempt m (\<lambda>r. case r of
     Inl e \<Rightarrow> ret (zero, [wrapv l e]) | Inr x \<Rightarrow> ret (x, []))"

definition handle_peer_update :: "env \<Rightarrow> peer_notification option \<Rightarrow> err list wop" where
  "handle_peer_update E raw = (case raw of
     None \<Rightarrow> ret [errors_new ''unable to unmarshal 'adjacencies' table notification'']
   | Some n \<Rightarrow>
       bind_do (or_report (pg_GetServerTags (pn_old_server n)) ''can't get server tags'' []) (\<lambda>(old, e1).
       bind_do (or_report (pg_GetServerTags (pn_new_server n)) ''can't get server tags'' []) (\<lambda>(new, e2).
       bind_do (apply_for_watched_tags old (\<lambda>t. NotifyWGDelPeerPubKey t (pn_old_key n))) (\<lambda>_.
       bind_do (resolve_preshared_key E (pn_adjacency n)) (\<lambda>(psk, e3).
       bind_do (apply_for_watched_tags new (\<lambda>t. NotifyWGAddPeer t (pn_new_key n) psk (pn_allowed n))) (\<lambda>_.
         ret (e1 @ e2 @ e3)))))))"

definition wireguard_config_to_proto :: "api_wg_iface option \<Rightarrow> api_peer list \<Rightarrow> err + proto_wg" where
  "wireguard_config_to_proto cfg adjs = (case cfg of
     None \<Rightarrow> Inl (errors_new ''config is nil'')
   | Some c \<Rightarrow> Inr
       \<lparr>pw_name = aw_name c, pw_private_key = aw_private_key c, pw_addresses = aw_addresses c,
        pw_port = aw_port c, pw_dns = aw_dns c, pw_mtu = aw_mtu c,
        pw_peers = map (\<lambda>p. \<lparr>pp_public_key = pc_public_key (peer_config p),
            pp_psk = pc_psk (peer_config p), pp_allowed = pc_allowed (peer_config p),
            pp_endpoint = pc_endpoint (peer_config p),
            pp_keepalive = pc_keepalive (peer_config p)\<rparr>) adjs\<rparr>)"

definition handle_server_update :: "env \<Rightarrow> int option \<Rightarrow> err list wop" where
  "handle_server_update E raw = (case raw of
     None \<Rightarrow> ret [errors_new ''unable to unmarshal 'wg_serverconfigs' table notification'']
   | Some sid \<Rightarrow>
       bind_do (or_report (try_do (vcm_GetWireGuardServerConfig E sid) (\<lambda>e. e) (\<lambda>c. ret (Some c)))
         ''can't get server config'' None) (\<lambda>(cfg, e1).
       bind_do (or_report (vcm_GetWireGuardServerAdjacencies E sid) ''can't get server adjacencies'' []) (\<lambda>(adjs, e2).
       bind_do (or_report (lift (map_sum id Some (wireguard_config_to_proto cfg adjs)))
         ''can't process server config and adjacencies'' None) (\<lambda>(wg, e3).
       bind_do (or_report (pg_GetServerTags sid) ''can't get server tags'' []) (\<lambda>(tags, e4).
       bind_do (apply_for_watched_tags tags (\<lambda>t. notify_wg_server_config_change t wg)) (\<lambda>_.
         ret (e1 @ e2 @ e3 @ e4)))))))"

record session_notification =
  sn_device :: int
  sn_old :: string
  sn_new :: string

definition handle_session_update :: "session_notification option \<Rightarrow> err list wop" where
  "handle_session_update raw = (case raw of
     None \<Rightarrow> ret [errors_new ''unable to unmarshal 'devices' table notification'']
   | Some n \<Rightarrow> attempt (IsHealthCheckEnabledForDevice (sn_device n)) (\<lambda>r. case r of
         Inl e \<Rightarrow> ret [under_both DrvErrQueryFailed ''IsHealthCheckEnabledForDevice'' e]
       | Inr enabled \<Rightarrow>
           if \<not> enabled then ret []
           else
             bind_do (when_do (sn_old n \<noteq> []) (notify_device_session_changes (HcDeleteSession (sn_old n)))) (\<lambda>_.
             bind_do (when_do (sn_new n \<noteq> []) (notify_device_session_changes (HcAddSession (sn_new n)))) (\<lambda>_.
               ret []))))"

text \<open>Sending a message does not touch the tables.\<close>

lemma keeps_notify [pres]:
  "keeps J (notify_wg_config_changes t n)" "keeps J (NotifyWGAddPeer t k psk ips)"
  "keeps J (NotifyWGDelPeerPubKey t k)" "keeps J (notify_device_session_changes h)"
  unfolding NotifyWGAddPeer_def NotifyWGDelPeerPubKey_def
  by (simp_all add: keeps_def preserves_def notify_wg_config_changes_def
      notify_device_session_changes_def deliver_def Let_def)

section \<open>Which messages are sent\<close>

lemma apply_for_watched_tags_sends:
  assumes "w_drops w = []"
  shows "apply_for_watched_tags tags (\<lambda>t. notify_wg_config_changes t n) w =
    (Inr (), w\<lparr>w_wg_sent := w_wg_sent w @ map (\<lambda>t. (t, n)) (filter (\<lambda>t. t \<in> set (w_watchers w)) tags)\<rparr>)"
  using assms
proof (induction tags arbitrary: w)
  case Nil
  then show ?case by (simp add: apply_for_watched_tags_def ret_def)
next
  case (Cons t tags)
  have step: "apply_for_watched_tags (t # tags) (\<lambda>t. notify_wg_config_changes t n) w =
      apply_for_watched_tags tags (\<lambda>t. notify_wg_config_changes t n)
        (if t \<in> set (w_watchers w) then w\<lparr>w_wg_sent := w_wg_sent w @ [(t, n)]\<rparr> else w)"
    using Cons.prems
    by (cases w) (simp add: apply_for_watched_tags_def try_do_def gets_def when_do_def ret_def
        notify_wg_config_changes_def deliver_def Let_def)
  show ?case
    unfolding step using Cons.prems by (simp add: Cons.IH)
qed

lemma quiet_sent [simp]: "quiet (w\<lparr>w_wg_sent := l\<rparr>) = quiet w"
  by (simp add: quiet_def)

definition server_tags :: "int \<Rightarrow> db \<Rightarrow> string list" where
  "server_tags i d = map snd (filter (\<lambda>(s, _). s = i) (db_tags d))"

lemma server_tags_quiet: "quiet w \<Longrightarrow> pg_GetServerTags i w = (Inr (server_tags i (w_db w)), w)"
  by (simp add: pg_GetServerTags_def GetServerTags_def try_do_def q_many_quiet ret_def server_tags_def)


definition watched_world :: "bool list \<Rightarrow> world" where
  "watched_world faults = (world_of (sample_db\<lparr>db_tags := [(5, ''t'')],
     db_adjs := [\<lparr>adj_id = 1, adj_server = 5, adj_device = 4, adj_server_ips = [pfx4 0x0A000006 32],
       adj_client_ips = [pfx4 0x0A000000 8], adj_psk = ''cS''\<rparr>]\<rparr>) faults)\<lparr>w_watchers := [''t'']\<rparr>"

definition sample_notification :: peer_notification where
  "sample_notification = \<lparr>pn_old_server = 0, pn_new_server = 5, pn_allowed = [''10.0.0.6/32''],
     pn_adjacency = 1, pn_old_key = [], pn_new_key = ''P''\<rparr>"


text \<open>A single failing query makes \<open>HandlePeerUpdates\<close> send a peer without its preshared key,
  and \<open>HandleServerUpdates\<close> send a configuration without any peer, or no configuration at all:
  the error is reported and the zero value is sent on.\<close>

theorem failed_reads_are_sent:
  "w_wg_sent (snd (handle_peer_update sample_env (Some sample_notification)
       (watched_world [False, False, True]))) = [(''t'', NtfAddPeer ''P'' [] [''10.0.0.6/32''])]
   \<and> (case w_wg_sent (snd (handle_server_update sample_env (Some 5)
         (watched_world [False, False, False, True]))) of
       [(t, NtfConfig (Some c))] \<Rightarrow> t = ''t'' \<and> pw_name c = ''wg0'' \<and> pw_peers c = []
     | _ \<Rightarrow> False)
   \<and> w_wg_sent (snd (handle_server_update sample_env (Some 5) (watched_world [True])))
       = [(''t'', NtfConfig None)]"
  by (intro conjI; code_simp)

end
