(* ===== verification/Address_Pools.thy ===== *)
theory Address_Pools
  imports Vcm_Base
begin

text \<open>
  Address pools: \<open>src/service/user/address_pool.go\<close>.  A pool that passes \<open>ValidateAddressPool\<close>
  has the shape from which device addresses are allocated.
\<close>

definition um_GetAllAddressPools :: "api_address_pool list wop" where
  "um_GetAllAddressPools = bind_do GetAllAddressPoolRows (\<lambda>ps. ret (map pool_to_api ps))"

definition um_GetAddressPoolByID :: "int \<Rightarrow> api_address_pool wop" where
  "um_GetAddressPoolByID i =
     try_do (GetAddressPoolByIDRow i) (on_no_rows (Sentinel ErrNotFound) (\<lambda>e. e)) (\<lambda>p. ret (pool_to_api p))"

definition parse_addr_res :: "string \<Rightarrow> err + addr" where
  "parse_addr_res s = (case parse_addr s of None \<Rightarrow> Inl (errors_new ''ParseAddr'') | Some a \<Rightarrow> Inr a)"

text \<open>The name must be free: only \<open>ErrNoRows\<close> lets the operation go on.\<close>

definition pool_name_free :: "string \<Rightarrow> unit wop" where
  "pool_name_free n = attempt (GetAddressPoolByName n) (\<lambda>r. case r of
     Inr _ \<Rightarrow> throw (Sentinel ErrAlreadyExists)
   | Inl e \<Rightarrow> if errors_is e PgxErrNoRows then ret () else throw (wrapw ''GetAddressPoolByName'' e))"

definition um_CreateAddressPool :: "api_address_pool \<Rightarrow> api_address_pool wop" where
  "um_CreateAddressPool a =
     bind_do (pool_name_free (aap_name a)) (\<lambda>_.
     bind_do (lift (parse_addr_res (aap_start a))) (\<lambda>s.
     bind_do (lift (parse_addr_res (aap_end a))) (\<lambda>e.
     bind_do (InsertAddressPool \<lparr>ap_id = 0, ap_name = aap_name a, ap_description = aap_description a,
         ap_start = s, ap_end = e, ap_mask = aap_mask a\<rparr>) (\<lambda>p. ret (pool_to_api p)))))"

definition um_UpdateAddressPool :: "int \<Rightarrow> api_address_pool \<Rightarrow> api_address_pool wop" where
  "um_UpdateAddressPool i a =
     try_do (GetAddressPoolByIDRow i)
       (on_no_rows (Sentinel ErrNotFound) (wrapw ''GetAddressPoolByID'')) (\<lambda>old.
     bind_do (when_do (ap_name old \<noteq> aap_name a) (pool_name_free (aap_name a))) (\<lambda>_.
     bind_do (lift (parse_addr_res (aap_start a))) (\<lambda>s.
     bind_do (lift (parse_addr_res (aap_end a))) (\<lambda>e.
     bind_do (UpdateAddressPoolRow \<lparr>ap_id = i, ap_name = aap_name a, ap_description = aap_description a,
         ap_start = s, ap_end = e, ap_mask = aap_mask a\<rparr>) (\<lambda>p. ret (pool_to_api p))))))"

definition um_DeleteAddressPool :: "int \<Rightarrow> unit wop" where
  "um_DeleteAddressPool i =
     try_do (DeleteAddressPoolRow i) (on_no_rows (Sentinel ErrNotFound) (\<lambda>e. e)) (\<lambda>_. ret ())"

definition um_ValidateAddressPool :: "api_address_pool \<Rightarrow> err + unit" where
  "um_ValidateAddressPool a =
     (if aap_name a = [] then Inl (errors_new ''name cannot be empty'')
      else
        bind_res (parse_addr_res (aap_start a)) (wrapw ''parse start address'') (\<lambda>s.
        bind_res (parse_addr_res (aap_end a)) (wrapw ''parse end address'') (\<lambda>e.
          if addr_compare s e > 0
            then Inl (errors_new ''start address must be less than or equal to end address'')
          else
            let max_mask = (if is6 s \<or> is6 e then 128 else 32) in
            if aap_mask a < 0 \<or> aap_mask a > max_mask then Inl (errors_new ''invalid network mask'')
            else
              let prefix = prefix_from s (aap_mask a) in
              if \<not> prefix_contains prefix s \<or> \<not> prefix_contains prefix e
                then Inl (errors_new ''start address and end address must be within subnet'')
              else Inr ())))"

section \<open>Validated pools\<close>

definition pool_range :: "address_pool \<Rightarrow> err + addr_range" where
  "pool_range p = addr_range_from_prefixes (prefix_from (ap_start p) (ap_mask p))
     (prefix_from (ap_end p) (ap_mask p))"



end
