(* ===== verification/Devices.thy ===== *)
theory Devices
  imports Vcm_Adjacency Vcm_Notify Sessions Address_Pools
begin

text \<open>
  Devices: \<open>src/service/user/device.go\<close> and the external identifiers of
  \<open>src/pkg/nanoid/nanoid.go\<close>.  A device belongs to a template; it is created with an address
  from each pool of the template and with an adjacency for each adjacency template of the user.
\<close>

section \<open>Reading devices\<close>

definition api_device_of :: "env \<Rightarrow> device_row \<Rightarrow> api_device wop" where
  "api_device_of E v =
     try_do (GetDeviceWireGuardIfaceAddrs (d_id v)) (wrapw ''GetDeviceWireGuardIfaceAddrs'') (\<lambda>addrs.
       lift (device_to_api E v addrs))"

definition um_GetDevice :: "env \<Rightarrow> int \<Rightarrow> api_device wop" where
  "um_GetDevice E i =
     try_do (GetDeviceByIDRow i) (on_no_rows (Sentinel ErrNotFound) (wrapw ''GetDeviceByID'')) (api_device_of E)"

definition um_GetDeviceByExternalIDAndUserID :: "env \<Rightarrow> string \<Rightarrow> int \<Rightarrow> api_device wop" where
  "um_GetDeviceByExternalIDAndUserID E x u =
     try_do (GetDeviceByExternalIDAndUserID x u)
       (on_no_rows (Sentinel ErrNotFound) (wrapw ''GetDeviceByExternalIDAndUserID'')) (api_device_of E)"

definition um_GetDevicesByTemplateID :: "env \<Rightarrow> int \<Rightarrow> api_device list wop" where
  "um_GetDevicesByTemplateID E t =
     try_do (DeviceTemplateExists t) (on_no_rows (Sentinel ErrNotFound) (wrapw ''DeviceTemplateExists'')) (\<lambda>_.
     try_do (GetDevicesByTemplateID t) (wrapw ''GetDevicesByTemplateID'') (for_map (api_device_of E)))"

definition um_GetDevicesByUserID :: "env \<Rightarrow> int \<Rightarrow> api_device list wop" where
  "um_GetDevicesByUserID E u =
     try_do (UserExists u) (wrapw ''UserExists'') (\<lambda>ex.
     guard_do (\<not> ex) (Sentinel ErrNotFound) (
     try_do (GetDevicesByUserID u) (wrapw ''GetDevicesByUserID'') (for_map (api_device_of E))))"

section \<open>Allocation of addresses\<close>

text \<open>The error of \<open>FirstAvailableAddress\<close> is reported under \<open>ErrNoAvailableAddressInPool\<close>.\<close>

definition allocate_address_from_pool :: "address_pool \<Rightarrow> prefix wop" where
  "allocate_address_from_pool p =
     try_do (lift (pool_range p)) (wrapw ''create address range for pool'') (\<lambda>r.
     try_do (vcm_QueryUsedAddrsForSubnet (to_containing_subnet r)) (wrapw ''QueryUsedAddrsForSubnet'') (\<lambda>used.
     try_do (lift (first_available_address r used))
       (under_both ErrNoAvailableAddressInPool ''FirstAvailableAddress'') ret))"

definition allocate_device_addresses :: "int \<Rightarrow> prefix list wop" where
  "allocate_device_addresses t =
     try_do (GetDeviceTemplateAddressPools t) (wrapw ''GetDeviceTemplateAddressPools'') (
       for_map (\<lambda>p. try_do (allocate_address_from_pool p) (wrapw ''allocateAddressFromPool'') ret))"

section \<open>Creation\<close>

definition validate_device_data :: "api_device_data \<Rightarrow> err + unit" where
  "validate_device_data a =
     (if dd_public_key a = [] then Inl (new_under ErrInvalidData ''public key cannot be empty'')
      else if dd_private_key a = [] then Inl (new_under ErrInvalidData ''private key cannot be empty'')
      else
        bind_res (validate_key_base64 (dd_public_key a)) (under ErrInvalidData ''invalid public key'') (\<lambda>_.
        bind_res (validate_key_base64 (dd_private_key a)) (under ErrInvalidData ''invalid private key'') (\<lambda>_.
        if dd_addresses a = [] then Inl (new_under ErrInvalidData ''at least one address must be provided'')
        else Inr ())))"

definition within_dpu_limit :: "env \<Rightarrow> int \<Rightarrow> unit wop" where
  "within_dpu_limit E t =
     try_do (GetDevicesByTemplateID t) (wrapw ''GetDevicesByTemplateID'') (\<lambda>vs.
       guard_do (int (length vs) \<ge> env_dpu_limit E) (new_under ErrDPULimitExceeded ''user already has devices'')
         (ret ()))"

definition um_GenerateDeviceData :: "env \<Rightarrow> int \<Rightarrow> api_device_data wop" where
  "um_GenerateDeviceData E t =
     try_do (GetDeviceTemplateByID t) (on_no_rows (Sentinel ErrNotFound) (wrapw ''GetDeviceTemplateByID'')) (\<lambda>_.
     bind_do (within_dpu_limit E t) (\<lambda>_.
     try_do (draw (env_keypair E)) (wrapw ''failed to generate private key'') (\<lambda>(prv, pub).
     try_do (allocate_device_addresses t) (wrapw ''allocateDeviceAddresses'') (\<lambda>addrs.
       ret \<lparr>dd_description = [], dd_private_key = prv, dd_public_key = pub,
            dd_addresses = map prefix_string addrs\<rparr>))))"

definition create_adjacencies_for_new_device :: "env \<Rightarrow> int \<Rightarrow> int \<Rightarrow> unit wop" where
  "create_adjacencies_for_new_device E u did =
     try_do (GetDeviceWireGuardAdjacencies did) (wrapw ''GetDeviceWireGuardAdjacencies'') (\<lambda>old.
     guard_do (old \<noteq> []) (errors_new ''database is inconsistent'') (
     try_do (GetUserAdjacencyTemplateRows u) (wrapw ''GetUserAdjacencyTemplates'') (
       for_each (\<lambda>(t, _).
         try_do (if at_use_psk t then draw (env_psk E) else ret []) (wrapw ''failed to generate preshared key'') (\<lambda>psk.
         try_do (vcm_CreateAdjacency E (at_server t) did
             \<lparr>aa_psk = psk, aa_allowed = map prefix_string (at_client_ips t), aa_other = [],
              aa_server_side = False\<rparr>)
           (wrapw ''CreateAdjacency'') ret)))))"

definition insert_daddr :: "int \<Rightarrow> prefix \<Rightarrow> unit wop" where
  "insert_daddr did p =
     try_do (InsertDeviceWireGuardIfaceAddr did p) (wrapw ''InsertDeviceWireGuardIfaceAddr'') ret"

text \<open>Not a transaction: a failure after \<open>InsertDevice\<close> leaves the device behind.\<close>

definition create_device_internal ::
  "env \<Rightarrow> int \<Rightarrow> string \<Rightarrow> string \<Rightarrow> string \<Rightarrow> string \<Rightarrow> string \<Rightarrow> prefix list \<Rightarrow> api_device wop" where
  "create_device_internal E t ext info prv pub descr addrs =
     try_do (GetDeviceTemplateByID t) (on_no_rows (Sentinel ErrNotFound) (wrapw ''GetDeviceTemplateByID'')) (\<lambda>dt.
     bind_do (within_dpu_limit E t) (\<lambda>_.
     try_do (seal_op E prv) (wrapw ''failed to encrypt private key'') (\<lambda>enc.
     try_do (InsertDevice \<lparr>d_id = 0, d_description = descr, d_template = t, d_public_key = pub,
         d_external_id = ext, d_session = [], d_last_connected = None,
         d_info = (if info \<noteq> [] then Some info else None), d_private_key = enc\<rparr>)
       (wrapw ''InsertDevice'') (\<lambda>v.
     bind_do (for_each (insert_daddr (d_id v)) addrs) (\<lambda>_.
     bind_do (create_adjacencies_for_new_device E (dt_user dt) (d_id v)) (\<lambda>_.
       lift (device_to_api E v addrs)))))))"

definition um_CreateDeviceWithAutogenData :: "env \<Rightarrow> int \<Rightarrow> string \<Rightarrow> string \<Rightarrow> api_device wop" where
  "um_CreateDeviceWithAutogenData E t ext info =
     try_do (draw (env_keypair E)) (wrapw ''failed to generate private key'') (\<lambda>(prv, pub).
     try_do (allocate_device_addresses t) (wrapw ''allocateDeviceAddresses'') (\<lambda>addrs.
       create_device_internal E t ext info prv pub [] addrs))"

definition parse_prefix_res :: "string \<Rightarrow> string \<Rightarrow> err + prefix" where
  "parse_prefix_res l s = (case parse_prefix s of None \<Rightarrow> Inl (errors_new l) | Some p \<Rightarrow> Inr p)"

definition um_CreateDevice :: "env \<Rightarrow> int \<Rightarrow> api_device_data option \<Rightarrow> api_device wop" where
  "um_CreateDevice E t data = (case data of
     None \<Rightarrow> throw (new_under ErrInvalidData ''DeviceData is required'')
   | Some a \<Rightarrow>
       bind_do (lift (validate_device_data a)) (\<lambda>_.
       bind_do (lift (map_res (parse_prefix_res ''invalid address'') (\<lambda>e. e) (dd_addresses a))) (\<lambda>addrs.
         create_device_internal E t [] [] (dd_private_key a) (dd_public_key a) (dd_description a) addrs)))"

section \<open>Update and deletion\<close>

definition insert_daddr_text :: "int \<Rightarrow> string \<Rightarrow> unit wop" where
  "insert_daddr_text did s =
     bind_do (lift (parse_prefix_res ''parse address'' s)) (insert_daddr did)"

definition announce_new_key ::
  "env \<Rightarrow> string \<Rightarrow> string \<Rightarrow> adjacency_row \<times> server_row \<times> server_cfg_row \<Rightarrow> unit wop" where
  "announce_new_key E old_key new_key r = (case r of (a, _) \<Rightarrow>
     try_do (GetServerTags (adj_server a)) (wrapv ''can't get server tags'') (\<lambda>tags.
     try_do (open_op E (adj_psk a)) (wrapw ''failed to decrypt preshared key'') (\<lambda>psk.
       for_each (\<lambda>t. bind_do (NotifyWGDelPeerPubKey t old_key) (\<lambda>_.
         NotifyWGAddPeer t new_key psk (map prefix_string (adj_server_ips a)))) tags)))"

definition um_UpdateDevice :: "env \<Rightarrow> int \<Rightarrow> api_device_data \<Rightarrow> unit wop" where
  "um_UpdateDevice E i du =
     bind_do (lift (validate_device_data du)) (\<lambda>_.
     try_do (GetDeviceByIDRow i) (wrapw ''GetDeviceByID'') (\<lambda>old.
     try_do (GetDeviceWireGuardIfaceAddrs i) (wrapw ''GetDeviceWireGuardIfaceAddrs'') (\<lambda>addrs_old.
     try_do (with_tx (
       try_do (seal_op E (dd_private_key du)) (wrapw ''failed to encrypt private key'') (\<lambda>enc.
       try_do (UpdateDeviceRow i (dd_description du) enc (dd_public_key du)) (wrapw ''UpdateDevice'') (\<lambda>_.
       try_do (DeleteDeviceWireGuardIfaceAddrs i) (wrapw ''DeleteDeviceWireGuardIfaceAddrs'') (\<lambda>_.
         for_each (insert_daddr_text i) (dd_addresses du)))))) (query_failed_v ''UpdateDevice'') (\<lambda>_.
     bind_do (when_do (dd_public_key du \<noteq> d_public_key old)
       (try_do (GetDeviceWireGuardAdjacencies i) (wrapw ''GetDeviceWireGuardAdjacencies'')
          (for_each (announce_new_key E (d_public_key old) (dd_public_key du))))) (\<lambda>_.
     bind_do (lift (device_to_api E old addrs_old)) (\<lambda>d.
     try_do (um_DeleteInvalidSessionsByDevice i
         \<lparr>dd_description = [], dd_private_key = dd_private_key (ad_data d),
          dd_public_key = dd_public_key (ad_data d), dd_addresses = dd_addresses (ad_data d)\<rparr> du)
       (wrapw ''DeleteInvalidSessionsByDevice'') ret))))))"

definition um_DeleteDevice :: "int \<Rightarrow> unit wop" where
  "um_DeleteDevice i =
     try_do (GetDeviceWireGuardAdjacencies i) (wrapw ''GetDeviceWireGuardAdjacencies'') (\<lambda>peers.
     bind_do (for_each (\<lambda>(a, _). ignore_err (DeleteAdjacencyRow (adj_id a))) peers) (\<lambda>_.
     try_do (DeleteDeviceRow i) (wrapw ''DeleteDevice'') (\<lambda>n.
       guard_do (n = 0) (Sentinel ErrNotFound) (ret ()))))"

section \<open>Slots\<close>

definition nanoid_alphabet :: string where
  "nanoid_alphabet = ''_-0123456789abcdefghijklmnopqrstuvwxyzABCDEFGHIJKLMNOPQRSTUVWXYZ''"

definition nanoid_valid :: "string \<Rightarrow> bool" where
  "nanoid_valid s = (length s = 21 \<and> list_all (\<lambda>c. c \<in> set nanoid_alphabet) s)"

definition dummy_external_device_id :: string where
  "dummy_external_device_id = ''000000000000000000000''"

definition claim_slot :: "string \<Rightarrow> string \<Rightarrow> string \<Rightarrow> int \<Rightarrow> string \<Rightarrow> device_row \<Rightarrow> string wop" where
  "claim_slot ext session info now l v =
     try_do (UpdateDeviceFromConfiguration (d_id v) ext session (Some now) (string_to_ptr info))
       (under_both ErrQueryFailed l) (\<lambda>_. ret ext)"

text \<open>\<open>x, err := m; if err == nil \<open>{\<close> return found(x) \<open>}\<close>; if err != ErrNoRows \<open>{\<close> return E \<open>}\<close>; next\<close>\<close>

definition found_or_next :: "'a wop \<Rightarrow> string \<Rightarrow> ('a \<Rightarrow> 'b wop) \<Rightarrow> 'b wop \<Rightarrow> 'b wop" where
  "found_or_next m l found next = attempt m (\<lambda>r. case r of
     Inr x \<Rightarrow> found x
   | Inl e \<Rightarrow> if e \<noteq> no_rows then throw (under_both ErrQueryFailed l e) else next)"

definition slot_when_exhausted :: "int \<Rightarrow> string \<Rightarrow> string \<Rightarrow> string \<Rightarrow> int \<Rightarrow> string wop" where
  "slot_when_exhausted u ext session info now =
     found_or_next (GetDeviceWithNoSessionIDOrderedByTimestamp u) ''GetDeviceWithNoSessionIDOrderedByTimestamp''
       (claim_slot ext session info now ''UpdateDeviceFromConfiguration (Case 4a: overwrite inactive)'')
       (try_do (GetDeviceWithOldestTimestampByUserID u) (under_both ErrQueryFailed ''GetDeviceWithOldestTimestampByUserID'')
         (claim_slot ext session info now ''UpdateDeviceFromConfiguration (Case 4b: kick oldest)''))"

definition slot_new_or_exhausted :: "env \<Rightarrow> int \<Rightarrow> string \<Rightarrow> string \<Rightarrow> string \<Rightarrow> int \<Rightarrow> string wop" where
  "slot_new_or_exhausted E u ext session info now =
     try_do (GetDeviceTemplateByUserID u)
       (on_no_rows (new_under ErrNotFound ''GetDeviceTemplateByUserID: user has no device template'')
         (under_both ErrQueryFailed ''GetDeviceTemplateByUserID'')) (\<lambda>t.
     try_do (GetDevicesByTemplateID (dt_id t)) (under_both ErrQueryFailed ''GetDevicesByTemplateID'') (\<lambda>vs.
     if int (length vs) < env_dpu_limit E
     then
       try_do (um_CreateDeviceWithAutogenData E (dt_id t) ext info) (wrapw ''CreateDeviceWithAutogenData'') (\<lambda>d.
       try_do (UpdateDeviceSessionAndLastTimeConnected (ad_id d) session (Some now))
         (under_both ErrQueryFailed ''UpdateDeviceSessionAndLastTimeConnected (Case 3: new device)'') (\<lambda>_. ret ext))
     else slot_when_exhausted u ext session info now))"

definition um_AssignDeviceSlot :: "env \<Rightarrow> int \<Rightarrow> string \<Rightarrow> string \<Rightarrow> string \<Rightarrow> string wop" where
  "um_AssignDeviceSlot E u session ext0 info =
     guard_do (session = []) (new_under ErrInvalidData ''device's session is empty'') (
     guard_do (u \<le> 0) (new_under ErrInvalidData ''userID is invalid'') (
     guard_do (ext0 \<noteq> [] \<and> \<not> nanoid_valid ext0) (new_under ErrInvalidData ''external_device_id is invalid'') (
     let ext = (if ext0 = [] then dummy_external_device_id else ext0) in
     bind_do (gets w_now) (\<lambda>now.
     found_or_next (GetDeviceByExternalIDAndUserID ext u) ''GetDeviceByExternalIDAndUserID''
       (\<lambda>v. try_do (UpdateDeviceSessionAndLastTimeConnected (d_id v) session (Some now))
          (under_both ErrQueryFailed ''UpdateDeviceSessionAndLastTimeConnected (Case 1: existing device)'') (\<lambda>_. ret ext))
     (found_or_next (GetDeviceWithNoExternalIDByUserID u) ''GetDeviceWithNoExternalIDByUserID''
       (claim_slot ext session info now ''UpdateDeviceFromConfiguration (Case 2: free slot)'')
       (slot_new_or_exhausted E u ext session info now))))))"

section \<open>Fresh addresses\<close>

text \<open>Pools as \<open>ValidateAddressPool\<close> accepts them, restricted to IPv4.\<close>

definition pool4 :: "address_pool \<Rightarrow> bool" where
  "pool4 p = (case (ap_start p, ap_end p) of
     (V4 s, V4 e) \<Rightarrow> 0 \<le> ap_mask p \<and> range4_ok s e (nat (ap_mask p)) | _ \<Rightarrow> False)"

definition used_addrs :: "db \<Rightarrow> addr set" where
  "used_addrs d = pfx_addr ` (snd ` set (db_daddrs d) \<union> snd ` set (db_saddrs d))"

definition in_pool :: "address_pool \<Rightarrow> prefix \<Rightarrow> bool" where
  "in_pool p a = (ap_start p \<le> pfx_addr a \<and> pfx_addr a \<le> ap_end p \<and> pfx_bits a = ap_mask p)"

text \<open>What the manager of devices relies on: \<open>VPNConfigManager.QueryUsedAddrsForSubnet\<close> answers
  with the addresses in use in a subnet.\<close>

locale used_addresses =
  fixes query :: "prefix \<Rightarrow> addr list wop"
  assumes query_used: "is_subnet_addr s \<Longrightarrow>
    (\<And>us. set us = {a \<in> used_addrs d. prefix_contains s a} \<Longrightarrow> Q us d) \<Longrightarrow> (\<And>e. X e d) \<Longrightarrow>
    dwp (query s) Q X d"
begin

lemma allocate_fresh:
  assumes "pool4 p" and "pool_range p = Inr r"
    and Q: "\<And>a. in_pool p a \<Longrightarrow> pfx_addr a \<notin> used_addrs d \<Longrightarrow> Q a d" and X: "\<And>e. X e d"
  shows "dwp (try_do (query (to_containing_subnet r)) w1 (\<lambda>used.
    try_do (lift (first_available_address r used)) w2 ret)) Q X d"
proof -
  obtain s e n where p: "ap_start p = V4 s" "ap_end p = V4 e" "ap_mask p = int n" "range4_ok s e n"
    using assms(1) that [of _ _ "nat (ap_mask p)"] by (auto simp: pool4_def split: addr.splits)
  then have r: "r = range4 s e n"
    using assms(2) by (auto simp: pool_range_def addr_range_from_prefixes_V4 range4_ok_def split: if_splits)
  have n: "n \<le> 32" using p(4) by (simp add: range4_ok_def)
  have sub: "to_containing_subnet r = mk_prefix (V4 (net4 n s)) (int n)"
    using n by (simp add: r to_containing_subnet_V4)
  show ?thesis
  proof (intro vcg query_used)
    show "is_subnet_addr (to_containing_subnet r)"
      using n by (simp add: sub is_subnet_addr_V4)
    fix us a
    assume us: "set us = {a \<in> used_addrs d. prefix_contains (to_containing_subnet r) a}"
      and a: "first_available_address r us = Inr a"
    from a p(4) obtain x where x: "a = mk_prefix (V4 x) (int n)" "x \<in> usable4 s e n us"
      by (auto simp: r first_available_address_V4 split: if_splits)
        (metis LeastI emptyE ex_in_conv)
    then have "net4 n x = net4 n s" using p(4) by (intro range4_net) (auto simp: usable4_def)
    with x us n have "pfx_addr a \<notin> used_addrs d"
      by (auto simp: usable4_def sub prefix_contains_V4)
    moreover have "in_pool p a" using x p by (auto simp: in_pool_def usable4_def)
    ultimately show "Q a d" by (rule Q [rotated])
  qed (rule X)+
qed

end

lemma dwp_query_used:
  assumes "is_subnet_addr s" "\<And>us. set us = {a \<in> used_addrs d. prefix_contains s a} \<Longrightarrow> Q us d"
    and "\<And>e. X e d"
  shows "dwp (vcm_QueryUsedAddrsForSubnet s) Q X d"
  unfolding vcm_QueryUsedAddrsForSubnet_def GetWireGuardIfaceAllAddrs_def
  by (intro vcg assms) (use assms(1) in \<open>auto simp: used_addrs_def\<close>)

interpretation vcm_used: used_addresses vcm_QueryUsedAddrsForSubnet
  by unfold_locales (rule dwp_query_used)

lemma dwp_allocate_address_from_pool:
  assumes "pool4 p" and "\<And>a. in_pool p a \<Longrightarrow> pfx_addr a \<notin> used_addrs d \<Longrightarrow> Q a d" and "\<And>e. X e d"
  shows "dwp (allocate_address_from_pool p) Q X d"
  unfolding allocate_address_from_pool_def
  by (rule dwp_try_do, rule dwp_basic(3)) (auto intro: vcm_used.allocate_fresh [OF assms(1)] assms(2,3))

abbreviation fresh_in :: "db \<Rightarrow> address_pool \<Rightarrow> prefix \<Rightarrow> bool" where
  "fresh_in d p a \<equiv> in_pool p a \<and> pfx_addr a \<notin> used_addrs d"

lemma dwp_allocate_device_addresses:
  assumes "\<forall>p\<in>set (template_pools t d). pool4 p"
    and "\<And>as. list_all2 (fresh_in d) (template_pools t d) as \<Longrightarrow> Q as d" and "\<And>e. X e d"
  shows "dwp (allocate_device_addresses t) Q X d"
  unfolding allocate_device_addresses_def GetDeviceTemplateAddressPools_def
  by (rule dwp_try_do, rule dwp_q_many, rule assms(3), rule dwp_for_map_reads [where R = "fresh_in d"])
    (use assms(1) in \<open>auto intro!: vcg dwp_allocate_address_from_pool assms(2,3)\<close>)

section \<open>What creation adds\<close>

text \<open>Adjacencies were added for the device \<open>i\<close>, and its session may have been cleared.\<close>

definition adjs_grown :: "int \<Rightarrow> db \<Rightarrow> db \<Rightarrow> bool" where
  "adjs_grown i d d' = (\<exists>as c. (\<forall>a\<in>set as. adj_device a = i) \<and>
     d' = clear_sessions (\<lambda>v. c \<and> d_id v = i) (db_adjs_update (\<lambda>l. l @ as) d))"

lemma clear_sessions_none [simp]: "clear_sessions (\<lambda>v. False) d = d"
  by (simp add: clear_sessions_def)

lemma adjs_grown_refl [simp]: "adjs_grown i d d"
  unfolding adjs_grown_def
  by (rule exI [of _ "[]"], rule exI [of _ False]) simp

lemma adjs_grown_trans: "adjs_grown i d d' \<Longrightarrow> adjs_grown i d' d'' \<Longrightarrow> adjs_grown i d d''"
  unfolding adjs_grown_def
  apply (elim exE conjE)
  subgoal for as as' c c'
    by (rule exI [of _ "as @ as'"], rule exI [of _ "c \<or> c'"])
      (auto simp: clear_sessions_def clear_session_def comp_def
        intro!: ext arg_cong [where f = "\<lambda>g. db_devices_update (map g) (db_adjs_update _ d)"])
  done

lemma adjs_grown_step:
  "adj_device r = i \<Longrightarrow> adjs_grown i d (db_adjs_update (\<lambda>l. l @ [r]) d)"
  "adj_device r = i \<Longrightarrow> adjs_grown i d (clear_sessions (\<lambda>v. d_id v = i) (db_adjs_update (\<lambda>l. l @ [r]) d))"
  unfolding adjs_grown_def
  by (rule exI [of _ "[r]"], rule exI [of _ False], simp)
    (rule exI [of _ "[r]"], rule exI [of _ True], simp)

lemma dwp_create_adjacency_grown:
  assumes "\<And>u d'. adjs_grown i d d' \<Longrightarrow> Q u d'" "\<And>e d'. adjs_grown i d d' \<Longrightarrow> X e d'"
  shows "dwp (vcm_CreateAdjacency E s i a) Q X d"
  unfolding vcm_CreateAdjacency_def AdjacencyExists_def InsertAdjacency_def GetDeviceWireGuardAdjacencies_def
  by (intro vcg; (intro assms)?; simp add: adjs_grown_step)

lemma dwp_new_device_adjacencies:
  assumes "\<And>u d'. adjs_grown i d d' \<Longrightarrow> Q u d'" "\<And>e d'. adjs_grown i d d' \<Longrightarrow> X e d'"
  shows "dwp (create_adjacencies_for_new_device E u i) Q X d"
  unfolding create_adjacencies_for_new_device_def GetDeviceWireGuardAdjacencies_def GetUserAdjacencyTemplateRows_def
  apply (intro vcg; (rule assms; simp; fail)?)
  apply (rule dwp_for_each [where I = "\<lambda>_. adjs_grown i d"])
    apply simp
   apply (intro vcg; (rule assms; simp; fail)?)
      apply (auto intro!: vcg dwp_create_adjacency_grown assms intro: adjs_grown_trans)
  done

definition template_count :: "int \<Rightarrow> db \<Rightarrow> nat" where
  "template_count t d = length (filter (\<lambda>v. d_template v = t) (db_devices d))"

definition with_device :: "device_row \<Rightarrow> prefix list \<Rightarrow> db \<Rightarrow> db" where
  "with_device v as d = d\<lparr>db_devices := db_devices d @ [v], db_daddrs := db_daddrs d @ map (Pair (d_id v)) as\<rparr>"

definition device_created :: "int \<Rightarrow> int \<Rightarrow> string \<Rightarrow> int \<Rightarrow> prefix list \<Rightarrow> db \<Rightarrow> db \<Rightarrow> bool" where
  "device_created limit t ext i as d d' = (\<exists>v. d_id v = i \<and> d_template v = t \<and> d_external_id v = ext \<and>
     d_session v = [] \<and> int (template_count t d) < limit \<and> adjs_grown i (with_device v as d) d')"

lemma dwp_insert_daddrs:
  assumes "Q () (db_daddrs_update (\<lambda>l. l @ map (Pair i) as) d)"
    and "\<And>e k. X e (db_daddrs_update (\<lambda>l. l @ map (Pair i) (take k as)) d)"
  shows "dwp (for_each (insert_daddr i) as) Q X d"
  using assms
proof (induction as arbitrary: d)
  case (Cons a as)
  have X: "X e d" for e using Cons.prems(2) [of e 0] by simp
  show ?case
    unfolding for_each.simps insert_daddr_def [of i a] InsertDeviceWireGuardIfaceAddr_def
    by (intro vcg X Cons.IH)
      (use Cons.prems(1) Cons.prems(2) [of _ "Suc _"] in \<open>simp_all add: comp_def\<close>)
qed (simp add: vcg)

lemma device_createdI:
  assumes "adjs_grown (d_id v) (db_daddrs_update (\<lambda>l. l @ map (Pair (d_id v)) as) (db_devices_update (\<lambda>l. l @ [v]) d)) d'"
    and "d_id v = i" "d_template v = t" "d_external_id v = ext" "d_session v = []"
    and "\<not> limit \<le> int (length (filter (\<lambda>v. d_template v = t) (db_devices d)))"
  shows "device_created limit t ext i as d d'"
proof -
  have "db_daddrs_update (\<lambda>l. l @ map (Pair (d_id v)) as) (db_devices_update (\<lambda>l. l @ [v]) d) = with_device v as d"
    by (simp add: with_device_def)
  with assms show ?thesis by (auto simp: device_created_def template_count_def)
qed

lemma device_to_api_id: "device_to_api E v as = Inr x \<Longrightarrow> ad_id x = d_id v"
  by (auto simp: device_to_api_def bind_res_Inr_iff)

lemma dwp_create_device_internal:
  assumes ok: "\<And>x d'. device_created (env_dpu_limit E) t ext (ad_id x) as d d' \<Longrightarrow> Q x d'"
    and fail: "\<And>e. X e d" "\<And>e i k d'. device_created (env_dpu_limit E) t ext i (take k as) d d' \<Longrightarrow> X e d'"
  shows "dwp (create_device_internal E t ext info prv pub descr as) Q X d"
  unfolding create_device_internal_def within_dpu_limit_def GetDeviceTemplateByID_def
    GetDevicesByTemplateID_def InsertDevice_def
  supply fail3 = fail(2) [where k = "length as", simplified]
  apply (intro vcg dwp_insert_daddrs dwp_new_device_adjacencies; (rule fail(1))?)
     apply (rule ok, erule device_createdI; simp add: device_to_api_id)
    apply (rule fail3, erule device_createdI, rule refl; simp)
   apply (rule fail3, erule device_createdI, rule refl; simp)
  apply (rule fail(2), rule device_createdI, rule adjs_grown_refl, rule refl; simp)
  done

text \<open>C17. \<open>CreateDeviceWithAutogenData\<close> hands out only fresh addresses, one in each pool of the
  template: every address lies in its pool, carries the netmask of the pool and was not in use
  by any device or server.  On success exactly one device was added, it had room under the
  device limit, and only adjacencies of the new device were added; on failure at most the new
  device with some of its addresses and adjacencies is left behind.\<close>

theorem created_device_addresses_fresh:
  assumes "\<forall>p\<in>set (template_pools t (w_db w)). pool4 p"
  shows "case um_CreateDeviceWithAutogenData E t ext info w of
     (Inr v, w') \<Rightarrow> \<exists>as. list_all2 (fresh_in (w_db w)) (template_pools t (w_db w)) as \<and>
       device_created (env_dpu_limit E) t ext (ad_id v) as (w_db w) (w_db w')
   | (Inl _, w') \<Rightarrow> w_db w' = w_db w \<or>
       (\<exists>as i k. list_all2 (fresh_in (w_db w)) (template_pools t (w_db w)) as \<and>
          device_created (env_dpu_limit E) t ext i (take k as) (w_db w) (w_db w'))"
proof -
  have "dwp (um_CreateDeviceWithAutogenData E t ext info)
    (\<lambda>v d'. \<exists>as. list_all2 (fresh_in d) (template_pools t d) as \<and>
       device_created (env_dpu_limit E) t ext (ad_id v) as d d')
    (\<lambda>_ d'. d' = d \<or> (\<exists>as i k. list_all2 (fresh_in d) (template_pools t d) as \<and>
       device_created (env_dpu_limit E) t ext i (take k as) d d')) d"
    if "\<forall>p\<in>set (template_pools t d). pool4 p" for d
    unfolding um_CreateDeviceWithAutogenData_def
    by (intro vcg dwp_allocate_device_addresses dwp_create_device_internal that) blast+
  from this [OF assms] show ?thesis by (auto split: sum.split prod.split dest: dwp_Inr dwp_Inl)
qed

definition two_slots :: env where
  "two_slots = sample_env\<lparr>env_dpu_limit := 2\<rparr>"

lemma created_device_addresses_fresh_witness:
  "\<exists>as i d'. list_all2 (fresh_in sample_db) (template_pools 3 sample_db) as \<and>
     device_created 2 3 ''y'' i as sample_db d'"
proof -
  let ?w = "world_of sample_db []"
  have pools: "\<forall>p\<in>set (template_pools 3 (w_db ?w)). pool4 p"
    unfolding w_db_world_of by code_simp
  have "is_ok (fst (um_CreateDeviceWithAutogenData two_slots 3 ''y'' [] ?w))" by code_simp
  then obtain v w' where "um_CreateDeviceWithAutogenData two_slots 3 ''y'' [] ?w = (Inr v, w')"
    using is_ok_run by blast
  with created_device_addresses_fresh [OF pools, of two_slots "''y''" "[]"]
  have "\<exists>as. list_all2 (fresh_in sample_db) (template_pools 3 sample_db) as \<and>
      device_created (env_dpu_limit two_slots) 3 ''y'' (ad_id v) as sample_db (w_db w')" by simp
  then show ?thesis by (auto simp: two_slots_def)
qed

section \<open>The slot a session is given\<close>

text \<open>What \<open>AssignDeviceSlot\<close> promises: a known device, else one without an identifier, else a new
  one while the limit allows it, else the one unused for longest, without a session if there
  is one.\<close>

datatype slot = KnownSlot device_row | ClaimSlot device_row | NewSlot int

definition first_of :: "'a list \<Rightarrow> 'a option" where
  "first_of l = (case l of [] \<Rightarrow> None | x # _ \<Rightarrow> Some x)"

definition slot_choice :: "int \<Rightarrow> int \<Rightarrow> string \<Rightarrow> db \<Rightarrow> slot option" where
  "slot_choice limit u ext d =
     (let vs = user_devices u d;
          known = filter (\<lambda>v. d_external_id v = ext \<and> d_external_id v \<noteq> []) vs;
          free = filter (\<lambda>v. d_external_id v = []) vs;
          idle = sort_key d_last_connected (filter (\<lambda>v. d_session v = []) vs);
          oldest = sort_key d_last_connected vs
      in if known \<noteq> [] then Some (KnownSlot (hd known))
         else if free \<noteq> [] then Some (ClaimSlot (hd free))
         else case filter (\<lambda>t. dt_user t = u) (db_templates d) of
             [] \<Rightarrow> None
           | t # _ \<Rightarrow>
               if int (template_count (dt_id t) d) < limit then Some (NewSlot (dt_id t))
               else map_option ClaimSlot (first_of (idle @ oldest)))"

definition start_session :: "int \<Rightarrow> string \<Rightarrow> int \<Rightarrow> db \<Rightarrow> db" where
  "start_session i s now = db_devices_update (map (\<lambda>v. if d_id v = i
     then v\<lparr>d_session := s, d_last_connected := Some now\<rparr> else v))"

definition take_slot :: "int \<Rightarrow> string \<Rightarrow> string \<Rightarrow> string option \<Rightarrow> int \<Rightarrow> db \<Rightarrow> db" where
  "take_slot i ext s info now = db_devices_update (map (\<lambda>v. if d_id v = i
     then v\<lparr>d_external_id := ext, d_session := s, d_last_connected := Some now, d_info := info\<rparr> else v))"

definition slot_given :: "env \<Rightarrow> string \<Rightarrow> string \<Rightarrow> string option \<Rightarrow> slot option \<Rightarrow> db \<Rightarrow> db \<Rightarrow> bool" where
  "slot_given E ext s info c d d' = (\<exists>now. case c of
     None \<Rightarrow> False
   | Some (KnownSlot v) \<Rightarrow> d' = start_session (d_id v) s now d
   | Some (ClaimSlot v) \<Rightarrow> d' = take_slot (d_id v) ext s info now d
   | Some (NewSlot t) \<Rightarrow> \<exists>d1 i as. device_created (env_dpu_limit E) t ext i as d d1 \<and> d' = start_session i s now d1)"

definition slot_left :: "env \<Rightarrow> string \<Rightarrow> slot option \<Rightarrow> db \<Rightarrow> db \<Rightarrow> bool" where
  "slot_left E ext c d d' = (d' = d \<or>
     (\<exists>t i as. c = Some (NewSlot t) \<and> device_created (env_dpu_limit E) t ext i as d d'))"

lemma dwp_claim_slot:
  assumes "\<And>x. x = ext \<Longrightarrow> Q x (take_slot (d_id v) ext s (string_to_ptr info) now d)" "\<And>e. X e d"
  shows "dwp (claim_slot ext s info now l v) Q X d"
  unfolding claim_slot_def UpdateDeviceFromConfiguration_def
  by (intro vcg assms(2)) (use assms(1) in \<open>simp_all add: take_slot_def\<close>)

lemma dwp_start_session:
  assumes "\<And>x. Q x (start_session i s now d)" "\<And>e. X e d"
  shows "dwp (UpdateDeviceSessionAndLastTimeConnected i s (Some now)) Q X d"
  unfolding UpdateDeviceSessionAndLastTimeConnected_def
  by (intro vcg assms(2)) (use assms(1) in \<open>simp_all add: start_session_def\<close>)

lemma dwp_found_or_next:
  assumes "dwp m (\<lambda>x. dwp (found x) Q X) (\<lambda>e d'. if e = no_rows then dwp next Q X d' else (\<forall>e. X e d')) d"
  shows "dwp (found_or_next m l found next) Q X d"
  unfolding found_or_next_def
  by (rule dwp_attempt, rule dwp_mono [OF assms]) (auto intro!: vcg split: if_splits)

lemma allocate_device_addresses_reads: "reads (allocate_device_addresses t)"
  unfolding allocate_device_addresses_def allocate_address_from_pool_def
  by (rule readsI) (intro pres)

lemma dwp_create_autogen:
  assumes ok: "\<And>x as d'. device_created (env_dpu_limit E) t ext (ad_id x) as d d' \<Longrightarrow> Q x d'"
    and fail: "\<And>e. X e d" "\<And>e i as d'. device_created (env_dpu_limit E) t ext i as d d' \<Longrightarrow> X e d'"
  shows "dwp (um_CreateDeviceWithAutogenData E t ext info) Q X d"
  unfolding um_CreateDeviceWithAutogenData_def
  by (intro vcg dwp_reads [OF allocate_device_addresses_reads] dwp_create_device_internal assms; assumption)

lemma slot_left_refl [simp]: "slot_left E ext c d d"
  by (simp add: slot_left_def)

lemma slot_givenI:
  "slot_given E ext s info (Some (KnownSlot v)) d (start_session (d_id v) s now d)"
  "slot_given E ext s info (Some (ClaimSlot v)) d (take_slot (d_id v) ext s info now d)"
  "device_created (env_dpu_limit E) t ext i as d d1 \<Longrightarrow>
   slot_given E ext s info (Some (NewSlot t)) d (start_session i s now d1)"
  unfolding slot_given_def by auto

lemma slot_exhausted_dwp:
  assumes "\<And>v now. first_of (sort_key d_last_connected (filter (\<lambda>v. d_session v = []) (user_devices u d)) @
      sort_key d_last_connected (user_devices u d)) = Some v \<Longrightarrow>
      Q ext (take_slot (d_id v) ext s (string_to_ptr info) now d)"
    and "\<And>e. X e d"
  shows "dwp (slot_when_exhausted u ext s info now) Q X d"
  unfolding slot_when_exhausted_def GetDeviceWithNoSessionIDOrderedByTimestamp_def
    GetDeviceWithOldestTimestampByUserID_def
  by (intro dwp_found_or_next vcg dwp_claim_slot assms(2))
    (auto intro!: vcg dwp_claim_slot assms simp: first_of_def)

lemma slot_new_or_exhausted_dwp:
  assumes "filter (\<lambda>v. d_external_id v = ext \<and> d_external_id v \<noteq> []) (user_devices u d) = []"
    and "filter (\<lambda>v. d_external_id v = []) (user_devices u d) = []"
  shows "dwp (slot_new_or_exhausted E u ext s info now)
    (\<lambda>x d'. x = ext \<and> slot_given E ext s (string_to_ptr info) (slot_choice (env_dpu_limit E) u ext d) d d')
    (\<lambda>_ d'. slot_left E ext (slot_choice (env_dpu_limit E) u ext d) d d') d"
  unfolding slot_new_or_exhausted_def GetDeviceTemplateByUserID_def GetDevicesByTemplateID_def
  apply (intro vcg dwp_create_autogen dwp_start_session slot_exhausted_dwp)
             apply (simp_all add: slot_left_def)
  using assms
    apply (auto simp: slot_choice_def Let_def template_count_def intro: slot_givenI)
  done

lemma slot_free_dwp:
  assumes known: "filter (\<lambda>v. d_external_id v = ext \<and> d_external_id v \<noteq> []) (user_devices u d) = []"
    and Q: "\<And>d'. slot_given E ext s (string_to_ptr info) (slot_choice (env_dpu_limit E) u ext d) d d' \<Longrightarrow> Q ext d'"
    and X: "\<And>e d'. slot_left E ext (slot_choice (env_dpu_limit E) u ext d) d d' \<Longrightarrow> X e d'"
  shows "dwp (found_or_next (q_one (\<lambda>d. filter (\<lambda>v. d_external_id v = []) (user_devices u d))) l
    (claim_slot ext s info now l') (slot_new_or_exhausted E u ext s info now)) Q X d"
proof (intro dwp_found_or_next dwp_q_one)
  assume "filter (\<lambda>v. d_external_id v = []) (user_devices u d) = []"
  then show "if no_rows = no_rows then dwp (slot_new_or_exhausted E u ext s info now) Q X d else \<forall>e. X e d"
    by (auto intro!: dwp_mono [OF slot_new_or_exhausted_dwp [OF known]] Q X)
next
  fix v vs
  assume "filter (\<lambda>v. d_external_id v = []) (user_devices u d) = v # vs"
  with known show "dwp (claim_slot ext s info now l' v) Q X d"
    by (intro dwp_claim_slot X) (auto simp: slot_choice_def Let_def intro!: Q slot_givenI)
qed (simp add: X)

lemma assign_slot_dwp:
  fixes ext
  defines "x \<equiv> (if ext = [] then dummy_external_device_id else ext)"
  shows "dwp (um_AssignDeviceSlot E u s ext info)
    (\<lambda>r d'. r = x \<and> s \<noteq> [] \<and> nanoid_valid x \<and>
       slot_given E x s (string_to_ptr info) (slot_choice (env_dpu_limit E) u x d) d d')
    (\<lambda>_ d'. slot_left E x (slot_choice (env_dpu_limit E) u x d) d d') d"
proof -
  have "nanoid_valid dummy_external_device_id" by code_simp
  then show ?thesis
    unfolding um_AssignDeviceSlot_def Let_def x_def [symmetric] GetDeviceByExternalIDAndUserID_def
      GetDeviceWithNoExternalIDByUserID_def
    by (intro dwp_guard_do dwp_try_do dwp_gets dwp_found_or_next dwp_q_one dwp_start_session
        dwp_basic) (auto simp: slot_choice_def Let_def x_def intro!: slot_free_dwp slot_givenI)
qed

text \<open>C18. \<open>AssignDeviceSlot\<close> refines \<open>slot_choice\<close>: on success the session is given to the device
  that the choice names and to no other (a device with the identifier, else one without
  identifier, else a new one while the limit allows it, else the one unused for longest), and
  the identifier is returned; on failure nothing changed, except that a new device may be left
  without its session.\<close>

theorem assigned_slot_is_chosen:
  "case um_AssignDeviceSlot E u s ext info w of
     (Inr x, w') \<Rightarrow> x = (if ext = [] then dummy_external_device_id else ext) \<and> s \<noteq> [] \<and> nanoid_valid x \<and>
       slot_given E x s (string_to_ptr info) (slot_choice (env_dpu_limit E) u x (w_db w)) (w_db w) (w_db w')
   | (Inl _, w') \<Rightarrow> slot_left E (if ext = [] then dummy_external_device_id else ext)
       (slot_choice (env_dpu_limit E) u (if ext = [] then dummy_external_device_id else ext) (w_db w)) (w_db w) (w_db w')"
  using assign_slot_dwp [of E u s ext info "w_db w"]
  by (auto split: sum.split prod.split dest: dwp_Inr dwp_Inl)

section \<open>The limit of devices per user\<close>

definition within_limit :: "int \<Rightarrow> db \<Rightarrow> bool" where
  "within_limit L d = (\<forall>t. int (template_count t d) \<le> L)"

lemma template_count_map [simp]:
  "(\<And>v. d_template (f v) = d_template v) \<Longrightarrow> template_count t (db_devices_update (map f) d) = template_count t d"
  by (simp add: template_count_def filter_map comp_def)

lemma template_count_simps [simp]:
  "template_count t (clear_sessions p d) = template_count t d"
  "template_count t (start_session i s now d) = template_count t d"
  "template_count t (take_slot i ext s info now d) = template_count t d"
  "template_count t (db_adjs_update f d) = template_count t d"
  "template_count t (db_daddrs_update g d) = template_count t d"
  unfolding clear_sessions_def start_session_def take_slot_def clear_session_def
  by (simp_all, simp_all add: template_count_def)

lemma device_created_count:
  assumes "device_created L t ext i as d d'"
  shows "template_count x d' = (if x = t then Suc (template_count x d) else template_count x d)"
    and "int (template_count t d) < L"
  using assms by (auto simp: device_created_def adjs_grown_def with_device_def)
    (simp_all add: template_count_def)

lemma created_within: "device_created L t ext i as d d' \<Longrightarrow> within_limit L d \<Longrightarrow> within_limit L d'"
  using device_created_count [of L t ext i as d d'] by (auto simp: within_limit_def)

lemma within_limit_slots [simp]:
  "within_limit L (start_session i s now d) = within_limit L d"
  "within_limit L (take_slot i ext s info now d) = within_limit L d"
  by (simp_all add: within_limit_def)

lemma slot_within:
  assumes "within_limit (env_dpu_limit E) d"
  shows "slot_given E ext s info c d d' \<Longrightarrow> within_limit (env_dpu_limit E) d'"
    and "slot_left E ext c d d' \<Longrightarrow> within_limit (env_dpu_limit E) d'"
  using assms
  by (cases c; cases "the c"; auto simp: slot_given_def dest: created_within)
    (auto simp: slot_left_def assms dest: created_within [OF _ assms])

lemma drop_devices_count: "template_count t (drop_devices p d) \<le> template_count t d"
proof -
  have "length (filter q (filter r l)) \<le> length (filter q l)" for q r and l :: "device_row list"
    by (induction l) auto
  then show ?thesis by (simp add: template_count_def drop_devices_def Let_def del: filter_filter)
qed

lemma within_limit_simps:
  "within_limit L d \<Longrightarrow> within_limit L (db_adjs_update f d)"
  "within_limit L d \<Longrightarrow> within_limit L (db_daddrs_update g d)"
  "within_limit L d \<Longrightarrow> (\<And>v. d_template (h v) = d_template v) \<Longrightarrow> within_limit L (db_devices_update (map h) d)"
  "within_limit L d \<Longrightarrow> within_limit L (drop_devices p d)"
  using order_trans [OF _ _ , of "int (template_count _ (drop_devices p d))"] drop_devices_count [of _ p d]
  by (auto simp: within_limit_def) (meson of_nat_mono order_trans)

lemma update_device_within: "keeps (within_limit L) (um_UpdateDevice E i du)"
  unfolding um_UpdateDevice_def UpdateDeviceRow_def DeleteDeviceWireGuardIfaceAddrs_def
    insert_daddr_text_def insert_daddr_def InsertDeviceWireGuardIfaceAddr_def
    um_DeleteInvalidSessionsByDevice_def delete_device_session_def InvalidateDeviceSession_def
    announce_new_key_def
  by (intro pres keeps_q_exec keeps_q_update within_limit_simps) (simp_all add: clear_session_def)

lemma delete_device_within: "keeps (within_limit L) (um_DeleteDevice i)"
  unfolding um_DeleteDevice_def DeleteAdjacencyRow_def DeleteDeviceRow_def
  by (intro pres keeps_q_exec keeps_db_call) (auto intro: within_limit_simps)

lemma create_device_within:
  assumes "within_limit (env_dpu_limit E) d"
  shows "dwp (um_CreateDevice E t data) (\<lambda>_. within_limit (env_dpu_limit E)) (\<lambda>_. within_limit (env_dpu_limit E)) d"
  unfolding um_CreateDevice_def
  by (intro vcg dwp_create_device_internal) (use assms in \<open>auto dest: created_within\<close>)

lemma keeps_within_limit [pres]:
  "keeps (within_limit (env_dpu_limit E)) (um_CreateDevice E t data)"
  "keeps (within_limit (env_dpu_limit E)) (um_CreateDeviceWithAutogenData E t ext info)"
  "keeps (within_limit (env_dpu_limit E)) (um_AssignDeviceSlot E u s ext info)"
proof -
  show "keeps (within_limit (env_dpu_limit E)) (um_CreateDevice E t data)"
    unfolding keeps_def by (rule preservesI, rule dwp_snd, rule create_device_within)
  show "keeps (within_limit (env_dpu_limit E)) (um_CreateDeviceWithAutogenData E t ext info)"
    unfolding keeps_def by (rule preservesI, rule dwp_snd, rule dwp_create_autogen) (auto dest: created_within)
  show "keeps (within_limit (env_dpu_limit E)) (um_AssignDeviceSlot E u s ext info)"
    unfolding keeps_def
    by (rule preservesI, rule dwp_snd, rule dwp_mono, rule assign_slot_dwp) (auto dest: slot_within)
qed

text \<open>The limit of devices per template is an invariant: creating a device by hand or with
  generated data, assigning a slot, changing and deleting a device never bring a template
  above the limit, whether they succeed or fail halfway.\<close>

theorem device_limit_invariant:
  assumes "within_limit (env_dpu_limit E) (w_db w)"
  shows "within_limit (env_dpu_limit E) (w_db (snd (um_CreateDevice E t data w)))
    \<and> within_limit (env_dpu_limit E) (w_db (snd (um_CreateDeviceWithAutogenData E t ext info w)))
    \<and> within_limit (env_dpu_limit E) (w_db (snd (um_AssignDeviceSlot E u s ext info w)))
    \<and> within_limit (env_dpu_limit E) (w_db (snd (um_UpdateDevice E i du w)))
    \<and> within_limit (env_dpu_limit E) (w_db (snd (um_DeleteDevice i w)))"
  by (intro conjI; rule keepsD; rule keeps_within_limit update_device_within delete_device_within assms)

lemma device_limit_invariant_witness:
  "within_limit 1 (w_db (snd (um_AssignDeviceSlot sample_env 1 ''t'' [] [] (world_of sample_db []))))"
proof -
  have "within_limit (env_dpu_limit sample_env) (w_db (world_of sample_db []))"
    by (simp add: within_limit_def template_count_def sample_db_def sample_device_def sample_env_def)
  from device_limit_invariant [OF this, where u = 1 and s = "''t''" and ext = "[]" and info = "[]"]
  show ?thesis by (simp add: sample_env_def)
qed

end
