(* ===== verification/Wg_Client.thy ===== *)
theory Wg_Client
  imports Wg_Model "HOL-Library.Multiset"
begin

text \<open>
  The WireGuard client of a VPN server: the interface \<open>wireguard.Client\<close>
  (\<open>src/cmd/vpn_server/vpns/wireguard/client.go\<close>) as a record of operations, and the Linux client
  (\<open>linux/client.go\<close>, \<open>linux/device.go\<close>, \<open>linux/iface.go\<close>) that implements it.  The netlink and
  wgctrl packages and the kernel behind them are parameters; \<open>'k\<close> is the state of the kernel.
\<close>

section \<open>Messages\<close>

record pb_peer = proto_peer +
  pp_hc_endpoint :: string

record pb_iface =
  pi_private_key :: string
  pi_addresses :: "string list"
  pi_port :: string
  pi_dns :: "string list"
  pi_mtu :: string

record pb_wg =
  wg_name :: string
  wg_iface :: "pb_iface option"
  wg_peers :: "pb_peer list"

definition validate_wg_config :: "pb_wg \<Rightarrow> err + pb_iface" where
  "validate_wg_config w =
     (if wg_name w = [] then Inl (errors_new ''WireGuard config name is not defined'')
      else case wg_iface w of
        None \<Rightarrow> Inl (errors_new ''WireGuard interface config is not defined'')
      | Some i \<Rightarrow>
          if pi_private_key i = [] then Inl (errors_new ''WireGuard interface private key is not defined'')
          else Inr i)"

section \<open>Addresses\<close>

text \<open>\<open>net.ParseCIDR\<close>: the text is split at the first slash; the number may have leading zeros.  The results
  are the address with the length of the mask, and the network.\<close>

definition cidr_parts :: "string \<Rightarrow> (addr \<times> nat) option" where
  "cidr_parts s =
     (let a = takeWhile (\<lambda>c. c \<noteq> CHR ''/'') s; m = drop (length a + 1) s in
      if \<not> contains_char (CHR ''/'') s then None
      else case parse_addr a of
        None \<Rightarrow> None
      | Some ip \<Rightarrow>
          if zone ip \<noteq> [] \<or> m = [] \<or> \<not> list_all is_digit m \<or> digits_val 0 m > bit_len ip then None
          else Some (ip, digits_val 0 m))"

definition parse_cidr :: "string \<Rightarrow> prefix option" where
  "parse_cidr s = map_option (\<lambda>(ip, n). masked (mk_prefix ip (int n))) (cidr_parts s)"

section \<open>Configuration of a device\<close>

record peer_cfg =
  pf_key :: string
  pf_remove :: bool
  pf_psk :: "string option"
  pf_endpoint :: "string option"
  pf_keepalive :: "64 word option"
  pf_allowed :: "prefix list"

record dev_cfg =
  dv_key :: string
  dv_port :: "int option"
  dv_replace_peers :: bool
  dv_peers :: "peer_cfg list"

datatype nl_call =
    LinkAdd string | LinkDel string | LinkSetName string string | LinkSetMTU string int | LinkSetUp string
  | AddrAdd string string | AddrDel string string | RouteAdd string prefix | RouteDel string prefix
  | ConfigureDevice string dev_cfg | WgOpen | WgClose

text \<open>
  \<open>nl_do\<close> performs a call; \<open>nl_devices\<close> counts the WireGuard devices; \<open>nl_key\<close> is
  \<open>wgtypes.ParseKey\<close>, \<open>nl_addr\<close> is \<open>netlink.ParseAddr\<close>, \<open>nl_udp\<close> is \<open>net.ResolveUDPAddr\<close>.
\<close>

record 'k netlink =
  nl_do :: "nl_call \<Rightarrow> 'k \<Rightarrow> err option \<times> 'k"
  nl_devices :: "'k \<Rightarrow> err + nat"
  nl_key :: "string \<Rightarrow> err + string"
  nl_addr :: "string \<Rightarrow> err + string"
  nl_udp :: "string \<Rightarrow> err + string"

record dev_builder =
  db_key :: string
  db_port :: "int option"
  db_replace :: bool
  db_peers :: "peer_cfg list"
  db_last :: "err option"

definition new_device_config :: "'k netlink \<Rightarrow> string \<Rightarrow> string \<Rightarrow> err + dev_builder" where
  "new_device_config nl pk port =
     bind_res (nl_key nl pk) (\<lambda>e. e) (\<lambda>k.
     bind_res (if port = [] then Inr None
               else case atoi port of None \<Rightarrow> Inl (errors_new ''Atoi'') | Some n \<Rightarrow> Inr (Some n)) (\<lambda>e. e) (\<lambda>p.
       Inr \<lparr>db_key = k, db_port = p, db_replace = False, db_peers = [], db_last = None\<rparr>))"

definition dc_create :: "dev_builder \<Rightarrow> dev_builder" where
  "dc_create b = b\<lparr>db_replace := True, db_peers := [], db_last := None\<rparr>"

definition dc_update :: "dev_builder \<Rightarrow> dev_builder" where
  "dc_update b = b\<lparr>db_replace := False, db_peers := [], db_last := None\<rparr>"

definition opt_field :: "string \<Rightarrow> (string \<Rightarrow> err + 'a) \<Rightarrow> string \<Rightarrow> err + 'a option" where
  "opt_field s f l = (if s = [] then Inr None else bind_res (f s) (\<lambda>_. errors_new l) (\<lambda>x. Inr (Some x)))"

definition seconds :: "string \<Rightarrow> err + 64 word" where
  "seconds s = (case atoi s of None \<Rightarrow> Inl (errors_new ''Atoi'') | Some n \<Rightarrow> Inr (word_of_int (n * 10 ^ 9)))"

definition cidr_res :: "string \<Rightarrow> err + prefix" where
  "cidr_res s = (case parse_cidr s of None \<Rightarrow> Inl (errors_new ''ParseCIDR'') | Some p \<Rightarrow> Inr p)"

definition new_peer :: "'k netlink \<Rightarrow> pb_peer \<Rightarrow> err + peer_cfg" where
  "new_peer nl p =
     (if pp_public_key p = [] then Inl (errors_new ''missing public key'')
      else
        bind_res (nl_key nl (pp_public_key p)) (\<lambda>_. errors_new ''bad public key'') (\<lambda>k.
        bind_res (opt_field (pp_psk p) (nl_key nl) ''bad preshared key'') (\<lambda>e. e) (\<lambda>psk.
        bind_res (opt_field (pp_endpoint p) (nl_udp nl) ''bad endpoint'') (\<lambda>e. e) (\<lambda>ep.
        bind_res (opt_field (pp_keepalive p) seconds ''bad persistent keepalive interval'') (\<lambda>e. e) (\<lambda>ka.
        bind_res (map_res cidr_res (\<lambda>_. errors_new ''bad IP address found in the allowed IPs list'') (pp_allowed p)) (\<lambda>e. e) (\<lambda>ips.
          Inr \<lparr>pf_key = k, pf_remove = False, pf_psk = psk, pf_endpoint = ep, pf_keepalive = ka, pf_allowed = ips\<rparr>))))))"

definition dc_put_peer :: "'k netlink \<Rightarrow> bool \<Rightarrow> pb_peer \<Rightarrow> dev_builder \<Rightarrow> err + dev_builder" where
  "dc_put_peer nl rm p b =
     bind_res (new_peer nl p) (wrapv ''bad peer configuration'') (\<lambda>c.
       Inr (b\<lparr>db_peers := db_peers b @ [c\<lparr>pf_remove := rm\<rparr>]\<rparr>))"

definition dc_AddPeerE :: "'k netlink \<Rightarrow> pb_peer \<Rightarrow> dev_builder \<Rightarrow> err + dev_builder" where
  "dc_AddPeerE nl = dc_put_peer nl False"

definition dc_DelPeerE :: "'k netlink \<Rightarrow> pb_peer \<Rightarrow> dev_builder \<Rightarrow> err + dev_builder" where
  "dc_DelPeerE nl = dc_put_peer nl True"

text \<open>\<open>AddPeer\<close> and \<open>DelPeer\<close> save the error for \<open>Done\<close>.\<close>

definition dc_AddPeer :: "'k netlink \<Rightarrow> pb_peer \<Rightarrow> dev_builder \<Rightarrow> dev_builder" where
  "dc_AddPeer nl p b = (case dc_AddPeerE nl p b of Inl e \<Rightarrow> b\<lparr>db_last := Some e\<rparr> | Inr b' \<Rightarrow> b')"

definition dc_DelPeer :: "'k netlink \<Rightarrow> pb_peer \<Rightarrow> dev_builder \<Rightarrow> dev_builder" where
  "dc_DelPeer nl p b = (case dc_DelPeerE nl p b of Inl e \<Rightarrow> b\<lparr>db_last := Some e\<rparr> | Inr b' \<Rightarrow> b')"

definition dc_done :: "dev_builder \<Rightarrow> err + dev_cfg" where
  "dc_done b = (case db_last b of
     Some e \<Rightarrow> Inl e
   | None \<Rightarrow> Inr \<lparr>dv_key = db_key b, dv_port = db_port b, dv_replace_peers = db_replace b, dv_peers = db_peers b\<rparr>)"

section \<open>The Linux client\<close>

text \<open>\<open>cl_iface\<close> is the field \<open>wgIface\<close> with the name its link was created under; \<open>cl_cfg\<close> and \<open>cl_dev\<close>
  are the remembered configurations.\<close>

record 'k linux =
  cl_kernel :: 'k
  cl_iface :: "string option"
  cl_cfg :: "pb_wg option"
  cl_dev :: "dev_builder option"

type_synonym ('k, 'a) lop = "('k linux, 'a) op"

definition call :: "'k netlink \<Rightarrow> nl_call \<Rightarrow> ('k, unit) lop" where
  "call nl c = (\<lambda>s. case nl_do nl c (cl_kernel s) of
     (None, k) \<Rightarrow> (Inr (), s\<lparr>cl_kernel := k\<rparr>) | (Some e, k) \<Rightarrow> (Inl e, s\<lparr>cl_kernel := k\<rparr>))"

definition on_link :: "(string \<Rightarrow> ('k, unit) lop) \<Rightarrow> ('k, unit) lop" where
  "on_link f = bind_do (gets cl_iface) (\<lambda>i. case i of None \<Rightarrow> throw (Sentinel WgErrUseAfterDestroy) | Some l \<Rightarrow> f l)"

definition if_NewWireGuardInterface :: "'k netlink \<Rightarrow> string \<Rightarrow> ('k, string) lop" where
  "if_NewWireGuardInterface nl n =
     guard_do (n = []) (errors_new ''interface name cannot be an empty string'')
       (try_do (call nl (LinkAdd n)) (wrapw ''LinkAdd error'') (\<lambda>_. ret n))"

definition if_change_address :: "'k netlink \<Rightarrow> (string \<Rightarrow> string \<Rightarrow> nl_call) \<Rightarrow> string \<Rightarrow> string \<Rightarrow> ('k, unit) lop" where
  "if_change_address nl mk lbl a = on_link (\<lambda>l.
     guard_do (a = []) (errors_new ''address cannot be an empty string'')
       (try_do (lift (nl_addr nl a)) (wrapv ''invalid address'') (\<lambda>x.
        try_do (call nl (mk l x)) (wrapw lbl) ret)))"

definition if_AddAddress :: "'k netlink \<Rightarrow> string \<Rightarrow> ('k, unit) lop" where
  "if_AddAddress nl = if_change_address nl AddrAdd ''AddrAdd error''"

definition if_RemoveAddress :: "'k netlink \<Rightarrow> string \<Rightarrow> ('k, unit) lop" where
  "if_RemoveAddress nl = if_change_address nl AddrDel ''AddrDel error''"

definition if_change_route :: "'k netlink \<Rightarrow> (string \<Rightarrow> prefix \<Rightarrow> nl_call) \<Rightarrow> string \<Rightarrow> string \<Rightarrow> ('k, unit) lop" where
  "if_change_route nl mk lbl d = on_link (\<lambda>l.
     guard_do (d = []) (errors_new ''destination cannot be an empty string'')
       (try_do (lift (cidr_res d)) (wrapv ''invalid destination'') (\<lambda>x.
        try_do (call nl (mk l x)) (wrapw lbl) ret)))"

definition if_AddRoute :: "'k netlink \<Rightarrow> string \<Rightarrow> ('k, unit) lop" where
  "if_AddRoute nl = if_change_route nl RouteAdd ''RouteAdd error''"

definition if_RemoveRoute :: "'k netlink \<Rightarrow> string \<Rightarrow> ('k, unit) lop" where
  "if_RemoveRoute nl = if_change_route nl RouteDel ''RouteDel error''"

definition if_SetMTU :: "'k netlink \<Rightarrow> int \<Rightarrow> ('k, unit) lop" where
  "if_SetMTU nl m = on_link (\<lambda>l.
     guard_do (m \<le> 0) (errors_new ''MTU value cannot be less than or equal to zero'')
       (try_do (call nl (LinkSetMTU l m)) (wrapw ''LinkSetMTU error'') ret))"

definition if_Up :: "'k netlink \<Rightarrow> ('k, unit) lop" where
  "if_Up nl = on_link (\<lambda>l. try_do (call nl (LinkSetUp l)) (wrapw ''LinkSetUp error'') ret)"

definition if_Rename :: "'k netlink \<Rightarrow> string \<Rightarrow> ('k, unit) lop" where
  "if_Rename nl n = on_link (\<lambda>l. try_do (call nl (LinkSetName l n)) (wrapw ''can't set the link name'') ret)"

text \<open>The error of \<open>Destroy\<close> is only logged.\<close>

definition delete_interface :: "'k netlink \<Rightarrow> ('k, unit) lop" where
  "delete_interface nl = bind_do (gets cl_iface) (\<lambda>i. case i of
     None \<Rightarrow> ret ()
   | Some l \<Rightarrow> bind_do (attempt (call nl (LinkDel l)) (\<lambda>_. ret ())) (\<lambda>_. modify (cl_iface_update (\<lambda>_. None))))"

definition parse_mtu :: "string \<Rightarrow> err + int" where
  "parse_mtu s = (case atoi s of None \<Rightarrow> Inl (errors_new ''bad MTU value'') | Some n \<Rightarrow> Inr n)"

text \<open>\<open>strings.TrimSpace\<close> on ASCII.\<close>

definition is_space :: "char \<Rightarrow> bool" where
  "is_space c = (c \<in> {CHR '' '', CHR 0x09, CHR 0x0A, CHR 0x0B, CHR 0x0C, CHR 0x0D})"

definition trim_space :: "string \<Rightarrow> string" where
  "trim_space s = rev (dropWhile is_space (rev (dropWhile is_space s)))"

definition missing_in :: "string list \<Rightarrow> string list \<Rightarrow> string list" where
  "missing_in xs ys = filter (\<lambda>x. \<not> list_ex (\<lambda>y. trim_space y = trim_space x) ys) xs"

definition diff_addresses :: "string list \<Rightarrow> string list \<Rightarrow> string list \<times> string list" where
  "diff_addresses old new = (if old = new then ([], []) else (missing_in new old, missing_in old new))"

fun dc_add_all :: "'k netlink \<Rightarrow> pb_peer list \<Rightarrow> dev_builder \<Rightarrow> err + dev_builder" where
  "dc_add_all nl [] b = Inr b"
| "dc_add_all nl (p # ps) b = bind_res (dc_AddPeerE nl p b) (\<lambda>e. e) (dc_add_all nl ps)"

text \<open>An error deletes the interface that was just created.\<close>

definition or_delete :: "'k netlink \<Rightarrow> ('k, unit) lop \<Rightarrow> (err \<Rightarrow> err) \<Rightarrow> ('k, unit) lop" where
  "or_delete nl m w = attempt m (\<lambda>r. case r of
     Inl e \<Rightarrow> bind_do (delete_interface nl) (\<lambda>_. throw (w e)) | Inr _ \<Rightarrow> ret ())"

definition set_mtu_text :: "'k netlink \<Rightarrow> string \<Rightarrow> ('k, unit) lop" where
  "set_mtu_text nl t = bind_do (lift (parse_mtu t)) (\<lambda>m. try_do (if_SetMTU nl m) (wrapv ''could not set MTU'') ret)"

definition add_routes :: "'k netlink \<Rightarrow> pb_peer list \<Rightarrow> ('k, unit) lop" where
  "add_routes nl ps = for_each (if_AddRoute nl) (concat (map pp_allowed ps))"

definition remove_routes :: "'k netlink \<Rightarrow> pb_peer list \<Rightarrow> ('k, unit) lop" where
  "remove_routes nl ps = for_each (if_RemoveRoute nl) (concat (map pp_allowed ps))"

definition lx_AddWireGuard :: "'k netlink \<Rightarrow> pb_wg \<Rightarrow> ('k, unit) lop" where
  "lx_AddWireGuard nl w =
     bind_do (gets cl_iface) (\<lambda>i.
     guard_do (i \<noteq> None) (Sentinel WgErrAlreadyManaging) (
     try_do (lift (validate_wg_config w)) (wrapv ''invalid configuration'') (\<lambda>ifc.
     try_do (lift (new_device_config nl (pi_private_key ifc) (pi_port ifc))) (wrapv ''invalid configuration'') (\<lambda>b0.
     bind_do (lift (dc_add_all nl (wg_peers w) (dc_create b0))) (\<lambda>b.
     bind_do (lift (dc_done b)) (\<lambda>cfg.
     bind_do (modify (\<lambda>s. s\<lparr>cl_dev := Some b, cl_cfg := Some w\<rparr>)) (\<lambda>_.
     try_do (if_NewWireGuardInterface nl (wg_name w)) (wrapv ''could not create a WireGuard interface'') (\<lambda>l.
     bind_do (modify (cl_iface_update (\<lambda>_. Some l))) (\<lambda>_.
     bind_do (for_each (\<lambda>a. or_delete nl (if_AddAddress nl a) (wrapv ''could not assign the address'')) (pi_addresses ifc)) (\<lambda>_.
     bind_do (when_do (pi_mtu ifc \<noteq> []) (or_delete nl (set_mtu_text nl (pi_mtu ifc)) (\<lambda>e. e))) (\<lambda>_.
     bind_do (or_delete nl (call nl (ConfigureDevice (wg_name w) cfg))
       (\<lambda>e. if errors_is e WgErrNotExist then errors_new ''interface does not exist'' else e)) (\<lambda>_.
     bind_do (or_delete nl (if_Up nl) (\<lambda>e. e)) (\<lambda>_.
       for_each (\<lambda>d. or_delete nl (if_AddRoute nl d) (wrapv ''could not add route'')) (concat (map pp_allowed (wg_peers w))))))))))))))))"

text \<open>The builder \<open>wgDev\<close> is reused; the remembered name selects the device.\<close>

definition apply_peers ::
  "'k netlink \<Rightarrow> (pb_peer \<Rightarrow> dev_builder \<Rightarrow> dev_builder) \<Rightarrow> pb_peer list \<Rightarrow> ('k, unit) lop" where
  "apply_peers nl put ps =
     bind_do (gets (\<lambda>s. (cl_iface s, cl_dev s, cl_cfg s))) (\<lambda>(i, dev, cfg).
     guard_do (i = None) (Sentinel WgErrNotManaging) (
     case (dev, cfg) of
       (Some b0, Some w) \<Rightarrow>
         let b = fold put ps (dc_update b0) in
         bind_do (modify (cl_dev_update (\<lambda>_. Some b))) (\<lambda>_.
         bind_do (lift (dc_done b)) (\<lambda>c. call nl (ConfigureDevice (wg_name w) c)))
     | _ \<Rightarrow> throw Panic))"

definition lx_AddPeers :: "'k netlink \<Rightarrow> pb_peer list \<Rightarrow> ('k, unit) lop" where
  "lx_AddPeers nl ps =
     bind_do (apply_peers nl (dc_AddPeer nl) ps) (\<lambda>_.
       try_do (add_routes nl ps) (wrapv ''could not add route'') ret)"

definition lx_DelPeers :: "'k netlink \<Rightarrow> pb_peer list \<Rightarrow> ('k, unit) lop" where
  "lx_DelPeers nl ps =
     bind_do (apply_peers nl (dc_DelPeer nl) ps) (\<lambda>_.
       try_do (remove_routes nl ps) (wrapv ''could not remove route'') ret)"

definition configure_iface :: "'k netlink \<Rightarrow> string \<Rightarrow> pb_iface \<Rightarrow> ('k, dev_builder option) lop" where
  "configure_iface nl n ifc =
     try_do (lift (new_device_config nl (pi_private_key ifc) (pi_port ifc))) (wrapw ''invalid private key or listen port'') (\<lambda>b.
     try_do (lift (dc_done b)) (wrapw ''failing to build device configuration'') (\<lambda>c.
     try_do (call nl (ConfigureDevice n c)) (wrapw ''could not change private key or listen port'') (\<lambda>_. ret (Some b))))"

definition lx_UpdateWireGuardInterface :: "'k netlink \<Rightarrow> pb_wg \<Rightarrow> ('k, unit) lop" where
  "lx_UpdateWireGuardInterface nl w =
     bind_do (gets (\<lambda>s. (cl_iface s, cl_cfg s))) (\<lambda>(i, cfg).
     guard_do (i = None) (Sentinel WgErrNotManaging) (
     guard_do (wg_iface w = None) (errors_new ''new wg config's interface can't be nil'') (
     try_do (lift (validate_wg_config w)) (wrapw ''invalid new configuration'') (\<lambda>new.
     case cfg of
       None \<Rightarrow> throw Panic
     | Some w0 \<Rightarrow> (case wg_iface w0 of
         None \<Rightarrow> throw Panic
       | Some old \<Rightarrow>
         bind_do (when_do (wg_name w0 \<noteq> wg_name w)
           (try_do (if_Rename nl (wg_name w)) (wrapw ''could not rename WireGuard interface'') ret)) (\<lambda>_.
         bind_do (when_do (pi_mtu old \<noteq> pi_mtu new)
           (bind_do (lift (parse_mtu (pi_mtu new))) (\<lambda>m.
             try_do (if_SetMTU nl m) (wrapw ''could not set new MTU'') ret))) (\<lambda>_.
         let (add, rem) = diff_addresses (pi_addresses old) (pi_addresses new) in
         bind_do (for_each (\<lambda>a. try_do (if_AddAddress nl a) (wrapw ''could not add address'') ret) add) (\<lambda>_.
         bind_do (for_each (\<lambda>a. try_do (if_RemoveAddress nl a) (wrapw ''could not remove address'') ret) rem) (\<lambda>_.
         bind_do (if pi_private_key old \<noteq> pi_private_key new \<or> pi_port old \<noteq> pi_port new
                  then configure_iface nl (wg_name w) new else ret None) (\<lambda>dev.
           modify (\<lambda>s. s\<lparr>cl_dev := (case dev of None \<Rightarrow> cl_dev s | Some b \<Rightarrow> Some b), cl_cfg := Some w\<rparr>)))))))))))"

definition lx_Close :: "'k netlink \<Rightarrow> ('k, unit) lop" where
  "lx_Close nl = bind_do (attempt (call nl WgClose) (\<lambda>_. ret ())) (\<lambda>_. delete_interface nl)"

definition lx_NewClient :: "'k netlink \<Rightarrow> ('k, unit) lop" where
  "lx_NewClient nl =
     bind_do (call nl WgOpen) (\<lambda>_.
     bind_do (gets cl_kernel) (\<lambda>k.
     bind_do (lift (nl_devices nl k)) (\<lambda>n.
     guard_do (n \<noteq> 0) (Sentinel WgErrAlreadyRunning)
       (modify (\<lambda>s. s\<lparr>cl_iface := None, cl_cfg := None, cl_dev := None\<rparr>)))))"

section \<open>The interface of a client\<close>

text \<open>\<open>wireguard.Client\<close>; \<open>'c\<close> is the state of the client and the world it acts on.\<close>

record 'c wg_ops =
  op_NewClient :: "('c, unit) op"
  op_UpdateWireGuardInterface :: "pb_wg \<Rightarrow> ('c, unit) op"
  op_AddWireGuard :: "pb_wg \<Rightarrow> ('c, unit) op"
  op_AddPeers :: "pb_peer list \<Rightarrow> ('c, unit) op"
  op_DelPeers :: "pb_peer list \<Rightarrow> ('c, unit) op"
  op_Close :: "('c, unit) op"

definition linux_client :: "'k netlink \<Rightarrow> 'k linux wg_ops" where
  "linux_client nl = \<lparr>op_NewClient = lx_NewClient nl, op_UpdateWireGuardInterface = lx_UpdateWireGuardInterface nl,
     op_AddWireGuard = lx_AddWireGuard nl, op_AddPeers = lx_AddPeers nl, op_DelPeers = lx_DelPeers nl,
     op_Close = lx_Close nl\<rparr>"

section \<open>Contracts\<close>

text \<open>
  What a VPN server relies on: \<open>holds c ps\<close> says that the tunnel carries exactly the peers \<open>ps\<close>,
  \<open>idle c\<close> that there is no tunnel, \<open>fit ps\<close> that the peers may share a tunnel.  An operation that succeeds has its full effect; a peer that is
  already there with an allowed address cannot be added again.  An update of the interface leaves the peers
  alone; a client that \<open>replaces\<close> may instead set up the peers of the new configuration, and refuses to
  delete a peer that is not there.
\<close>

locale wg_client =
  fixes ops :: "'c wg_ops" and holds :: "'c \<Rightarrow> pb_peer list \<Rightarrow> bool" and idle :: "'c \<Rightarrow> bool"
    and fit :: "pb_peer list \<Rightarrow> bool" and replaces :: bool
  assumes fit_distinct: "fit ps \<Longrightarrow> distinct ps"
    and fit_perm: "fit ps \<Longrightarrow> mset ps = mset qs \<Longrightarrow> fit qs"
    and holds_fit: "holds c ps \<Longrightarrow> fit ps"
    and holds_perm: "holds c ps \<Longrightarrow> mset ps = mset qs \<Longrightarrow> holds c qs"
    and new_client: "op_NewClient ops c = (Inr u, c') \<Longrightarrow> idle c'"
    and add_wireguard: "idle c \<Longrightarrow> fit (wg_peers w) \<Longrightarrow>
      op_AddWireGuard ops w c = (Inr u, c') \<Longrightarrow> holds c' (wg_peers w)"
    and add_peers: "holds c ps \<Longrightarrow> fit (ps @ qs) \<Longrightarrow> op_AddPeers ops qs c = (Inr u, c') \<Longrightarrow> holds c' (ps @ qs)"
    and del_peers: "holds c (qs @ ps) \<Longrightarrow> op_DelPeers ops qs c = (Inr u, c') \<Longrightarrow> holds c' ps"
    and update_iface: "holds c ps \<Longrightarrow> fit (wg_peers w) \<Longrightarrow> op_UpdateWireGuardInterface ops w c = (Inr u, c') \<Longrightarrow>
      holds c' ps \<or> replaces \<and> holds c' (wg_peers w)"
    and del_absent: "replaces \<Longrightarrow> holds c ps \<Longrightarrow> p \<in> set qs \<Longrightarrow> p \<notin> set ps \<Longrightarrow> op_DelPeers ops qs c \<noteq> (Inr u, c')"
    and no_second_add: "holds c ps \<Longrightarrow> p \<in> set ps \<Longrightarrow> p \<in> set qs \<Longrightarrow> pp_allowed p \<noteq> [] \<Longrightarrow>
      op_AddPeers ops qs c \<noteq> (Inr u, c')"

text \<open>
  The documented behaviour of the kernel: what a successful call does to the peers of the device
  (public key to allowed networks; a network given to a peer is taken from the others) and to the
  routes over the link.  Adding a route that exists, or removing one that does not, is refused.
\<close>

definition put_peer :: "peer_cfg \<Rightarrow> (string \<Rightarrow> prefix set option) \<Rightarrow> (string \<Rightarrow> prefix set option)" where
  "put_peer p m = (if pf_remove p then m(pf_key p := None)
     else (\<lambda>k. if k = pf_key p then Some (set (pf_allowed p)) else map_option (\<lambda>A. A - set (pf_allowed p)) (m k)))"

fun keeps_tunnel :: "nl_call \<Rightarrow> bool" where
  "keeps_tunnel (LinkDel _) = False"
| "keeps_tunnel (RouteAdd _ _) = False"
| "keeps_tunnel (RouteDel _ _) = False"
| "keeps_tunnel (ConfigureDevice _ _) = False"
| "keeps_tunnel _ = True"

locale lawful_kernel =
  fixes nl :: "'k netlink" and peers :: "'k \<Rightarrow> string \<Rightarrow> prefix set option" and routes :: "'k \<Rightarrow> prefix set"
  assumes other_call: "keeps_tunnel c \<Longrightarrow> nl_do nl c k = (None, k') \<Longrightarrow> peers k' = peers k \<and> routes k' = routes k"
    and route_add: "nl_do nl (RouteAdd l x) k = (None, k') \<Longrightarrow>
      x \<notin> routes k \<and> routes k' = insert x (routes k) \<and> peers k' = peers k"
    and route_del: "nl_do nl (RouteDel l x) k = (None, k') \<Longrightarrow>
      x \<in> routes k \<and> routes k' = routes k - {x} \<and> peers k' = peers k"
    and configure: "nl_do nl (ConfigureDevice n d) k = (None, k') \<Longrightarrow> routes k' = routes k \<and>
      peers k' = fold put_peer (dv_peers d) (if dv_replace_peers d then Map.empty else peers k)"
    and no_device: "nl_devices nl k = Inr 0 \<Longrightarrow> peers k = Map.empty \<and> routes k = {}"

section \<open>The Linux client keeps the contract\<close>

definition peer_key :: "'k netlink \<Rightarrow> pb_peer \<Rightarrow> string" where
  "peer_key nl p = (case nl_key nl (pp_public_key p) of Inl _ \<Rightarrow> [] | Inr k \<Rightarrow> k)"

definition other_keys :: "'k netlink \<Rightarrow> pb_peer list \<Rightarrow> bool" where
  "other_keys nl ps = distinct (map (peer_key nl) ps)"

definition peer_nets :: "pb_peer \<Rightarrow> prefix set" where
  "peer_nets p = {x. \<exists>t\<in>set (pp_allowed p). parse_cidr t = Some x}"

definition peer_map :: "'k netlink \<Rightarrow> pb_peer list \<Rightarrow> string \<Rightarrow> prefix set option" where
  "peer_map nl ps = map_of (map (\<lambda>p. (peer_key nl p, peer_nets p)) ps)"

definition carries :: "'k netlink \<Rightarrow> ('k \<Rightarrow> string \<Rightarrow> prefix set option) \<Rightarrow> ('k \<Rightarrow> prefix set) \<Rightarrow> 'k linux \<Rightarrow> pb_peer list \<Rightarrow> bool" where
  "carries nl peers routes s ps \<longleftrightarrow> cl_iface s \<noteq> None \<and> cl_dev s \<noteq> None \<and> cl_cfg s \<noteq> None \<and>
     distinct (map (peer_key nl) ps) \<and>
     (\<forall>p\<in>set ps. \<forall>q\<in>set ps. p \<noteq> q \<longrightarrow> peer_nets p \<inter> peer_nets q = {}) \<and>
     (\<forall>p\<in>set ps. \<forall>t\<in>set (pp_allowed p). parse_cidr t \<noteq> None) \<and>
     peers (cl_kernel s) = peer_map nl ps \<and> routes (cl_kernel s) = (\<Union>p\<in>set ps. peer_nets p)"

definition no_tunnel :: "('k \<Rightarrow> string \<Rightarrow> prefix set option) \<Rightarrow> ('k \<Rightarrow> prefix set) \<Rightarrow> 'k linux \<Rightarrow> bool" where
  "no_tunnel peers routes s \<longleftrightarrow> cl_iface s = None \<and> peers (cl_kernel s) = Map.empty \<and> routes (cl_kernel s) = {}"

lemma carriesD:
  assumes "carries nl P R s ps"
  shows "cl_iface s \<noteq> None" "cl_dev s \<noteq> None" "cl_cfg s \<noteq> None" "distinct (map (peer_key nl) ps)"
    "\<forall>p\<in>set ps. \<forall>q\<in>set ps. p \<noteq> q \<longrightarrow> peer_nets p \<inter> peer_nets q = {}"
    "\<forall>p\<in>set ps. \<forall>t\<in>set (pp_allowed p). parse_cidr t \<noteq> None"
    "P (cl_kernel s) = peer_map nl ps" "R (cl_kernel s) = (\<Union>p\<in>set ps. peer_nets p)"
  using assms unfolding carries_def by blast+

lemma carries_perm:
  assumes "carries nl P R s ps" "mset ps = mset qs"
  shows "carries nl P R s qs"
proof -
  have set: "set ps = set qs" using assms(2) by (rule mset_eq_setD)
  have "mset (map (peer_key nl) ps) = mset (map (peer_key nl) qs)" using assms(2) by simp
  with assms(1) have dist: "distinct (map (peer_key nl) qs)"
    unfolding carries_def by (metis mset_eq_imp_distinct_iff)
  have "peer_map nl ps = peer_map nl qs"
    unfolding peer_map_def
  proof (rule map_of_eqI)
    show "set (map fst (map (\<lambda>p. (peer_key nl p, peer_nets p)) ps)) = set (map fst (map (\<lambda>p. (peer_key nl p, peer_nets p)) qs))"
      by (simp add: set)
    have "distinct (map fst (map (\<lambda>p. (peer_key nl p, peer_nets p)) ps))" "distinct (map fst (map (\<lambda>p. (peer_key nl p, peer_nets p)) qs))"
      using assms(1) dist by (simp_all add: carries_def comp_def)
    then show "\<forall>k\<in>set (map fst (map (\<lambda>p. (peer_key nl p, peer_nets p)) ps)).
        map_of (map (\<lambda>p. (peer_key nl p, peer_nets p)) ps) k = map_of (map (\<lambda>p. (peer_key nl p, peer_nets p)) qs) k"
      using set by (metis (no_types, lifting) list.set_map map_of_eq_Some_iff not_Some_eq)
  qed
  with assms(1) dist set show ?thesis by (simp add: carries_def)
qed

text \<open>Clearing the MTU of a running tunnel is refused.\<close>

lemma cleared_mtu_refused:
  assumes "cl_cfg s = Some w0" "wg_iface w0 = Some old" "wg_iface w = Some new" "pi_mtu old \<noteq> []" "pi_mtu new = []"
  shows "lx_UpdateWireGuardInterface nl w s \<noteq> (Inr u, s')"
proof -
  have "parse_mtu [] = Inl (errors_new ''bad MTU value'')" by code_simp
  with assms show ?thesis
    by (auto simp: lx_UpdateWireGuardInterface_def validate_wg_config_def run split: if_splits)
qed

text \<open>Steps that leave the tunnel alone.\<close>

definition same_tunnel :: "('k \<Rightarrow> string \<Rightarrow> prefix set option) \<Rightarrow> ('k \<Rightarrow> prefix set) \<Rightarrow> 'k linux \<Rightarrow> 'k linux \<Rightarrow> bool" where
  "same_tunnel P R s s' \<longleftrightarrow> P (cl_kernel s') = P (cl_kernel s) \<and> R (cl_kernel s') = R (cl_kernel s) \<and>
     cl_iface s' = cl_iface s \<and> cl_dev s' = cl_dev s \<and> cl_cfg s' = cl_cfg s"

lemma run_call: "call nl c s = (Inr u, s') \<longleftrightarrow> (\<exists>k. nl_do nl c (cl_kernel s) = (None, k) \<and> s' = s\<lparr>cl_kernel := k\<rparr>)"
  by (auto simp: call_def split: prod.splits option.splits)

lemma run_on_link: "on_link f s = (Inr u, s') \<longleftrightarrow> (\<exists>l. cl_iface s = Some l \<and> f l s = (Inr u, s'))"
  by (auto simp: on_link_def run split: option.splits)

lemma run_or_delete:
  "or_delete nl m w s = (Inr u, s') \<longleftrightarrow> m s = (Inr (), s')"
  by (auto simp: or_delete_def attempt_def try_do_def ret_def throw_def delete_interface_def gets_def
      split: prod.splits sum.splits err.splits option.splits)

lemma run_modify: "modify f s = (Inr u, s') \<longleftrightarrow> s' = f s"
  by (auto simp: modify_def)

lemma same_tunnel_refl [simp]: "same_tunnel P R s s"
  by (simp add: same_tunnel_def)

lemma same_tunnel_trans: "same_tunnel P R s s1 \<Longrightarrow> same_tunnel P R s1 s2 \<Longrightarrow> same_tunnel P R s s2"
  by (simp add: same_tunnel_def)

lemma for_each_same:
  assumes "\<And>x s s'. f x s = (Inr (), s') \<Longrightarrow> same_tunnel P R s s'"
  shows "for_each f xs s = (Inr u, s') \<Longrightarrow> same_tunnel P R s s'"
proof (induction xs arbitrary: s)
  case (Cons x xs)
  then obtain s1 where "f x s = (Inr (), s1)" "for_each f xs s1 = (Inr u, s')" by (auto simp: run)
  then show ?case using assms Cons.IH same_tunnel_trans by blast
qed (simp add: run)

lemma carries_same: "same_tunnel P R s s' \<Longrightarrow> carries nl P R s ps \<Longrightarrow> carries nl P R s' ps"
  by (simp add: same_tunnel_def carries_def)

text \<open>Steps that keep a property when they succeed.\<close>

definition ok_keeps :: "('s \<Rightarrow> bool) \<Rightarrow> ('s, 'a) op \<Rightarrow> bool" where
  "ok_keeps I m \<longleftrightarrow> (\<forall>s y s'. I s \<longrightarrow> m s = (Inr y, s') \<longrightarrow> I s')"

lemma ok_keeps_simple:
  "ok_keeps I (ret x)" "ok_keeps I (throw e)" "ok_keeps I (lift r)" "ok_keeps I (gets f)"
  unfolding ok_keeps_def run by blast+

lemma ok_keeps_branch:
  "ok_keeps I n \<Longrightarrow> ok_keeps I (guard_do b e n)"
  "ok_keeps I n \<Longrightarrow> ok_keeps I m \<Longrightarrow> ok_keeps I (if b then n else m)"
  by (cases b, simp_all add: guard_do_def ok_keeps_simple)

lemma ok_keeps_when: "ok_keeps I j \<Longrightarrow> ok_keeps I (when_do b j)"
  unfolding when_do_def by (intro ok_keeps_branch ok_keeps_simple)

lemma ok_keeps_try: "ok_keeps I m \<Longrightarrow> (\<And>x. ok_keeps I (k x)) \<Longrightarrow> ok_keeps I (try_do m f k)"
  unfolding ok_keeps_def run by blast

lemma ok_keeps_for_each: "(\<And>x. ok_keeps I (g x)) \<Longrightarrow> ok_keeps I (for_each g xs)"
  by (induction xs) (simp_all add: ok_keeps_simple ok_keeps_try)

lemma ok_keeps_prod: "(\<And>x y. ok_keeps I (h x y)) \<Longrightarrow> ok_keeps I (case p of (x, y) \<Rightarrow> h x y)"
  by (cases p) simp

lemma ok_keeps_option: "ok_keeps I m \<Longrightarrow> (\<And>x. ok_keeps I (k x)) \<Longrightarrow> ok_keeps I (case v of None \<Rightarrow> m | Some x \<Rightarrow> k x)"
  by (cases v) simp_all

lemmas ok_keeps_rules = ok_keeps_simple ok_keeps_branch ok_keeps_when ok_keeps_try ok_keeps_for_each ok_keeps_prod ok_keeps_option

lemma change_route_run:
  assumes "if_change_route nl mk lbl d s = (Inr u, s')"
  shows "\<exists>l x k. parse_cidr d = Some x \<and> nl_do nl (mk l x) (cl_kernel s) = (None, k) \<and> s' = s\<lparr>cl_kernel := k\<rparr>"
  using assms unfolding if_change_route_def cidr_res_def
  by (cases "parse_cidr d") (auto simp: run run_on_link run_call)

context lawful_kernel
begin

lemma call_same: "keeps_tunnel c \<Longrightarrow> call nl c s = (Inr u, s') \<Longrightarrow> same_tunnel peers routes s s'"
  by (auto simp: run_call same_tunnel_def dest: other_call)

lemma iface_ops_same:
  "if_AddAddress nl a s = (Inr u, s') \<Longrightarrow> same_tunnel peers routes s s'"
  "if_RemoveAddress nl a s = (Inr u, s') \<Longrightarrow> same_tunnel peers routes s s'"
  "if_SetMTU nl m s = (Inr u, s') \<Longrightarrow> same_tunnel peers routes s s'"
  "if_Up nl s = (Inr u, s') \<Longrightarrow> same_tunnel peers routes s s'"
  "if_Rename nl n s = (Inr u, s') \<Longrightarrow> same_tunnel peers routes s s'"
  "set_mtu_text nl t s = (Inr u, s') \<Longrightarrow> same_tunnel peers routes s s'"
  unfolding if_AddAddress_def if_RemoveAddress_def if_change_address_def if_SetMTU_def if_Up_def if_Rename_def
    set_mtu_text_def
  by (auto simp: run run_on_link dest!: call_same [rotated])

lemma add_route_run:
  assumes "if_AddRoute nl d s = (Inr u, s')"
  obtains x where "parse_cidr d = Some x" "x \<notin> routes (cl_kernel s)"
    "routes (cl_kernel s') = insert x (routes (cl_kernel s))" "peers (cl_kernel s') = peers (cl_kernel s)"
    "cl_iface s' = cl_iface s" "cl_dev s' = cl_dev s" "cl_cfg s' = cl_cfg s"
proof -
  from change_route_run [OF assms [unfolded if_AddRoute_def]] obtain l x k where
    "parse_cidr d = Some x" "nl_do nl (RouteAdd l x) (cl_kernel s) = (None, k)" "s' = s\<lparr>cl_kernel := k\<rparr>" by blast
  with route_add [OF this(2)] show thesis by (intro that) simp_all
qed

lemma remove_route_run:
  assumes "if_RemoveRoute nl d s = (Inr u, s')"
  obtains x where "parse_cidr d = Some x" "routes (cl_kernel s') = routes (cl_kernel s) - {x}"
    "peers (cl_kernel s') = peers (cl_kernel s)" "cl_iface s' = cl_iface s" "cl_dev s' = cl_dev s" "cl_cfg s' = cl_cfg s"
proof -
  from change_route_run [OF assms [unfolded if_RemoveRoute_def]] obtain l x k where
    "parse_cidr d = Some x" "nl_do nl (RouteDel l x) (cl_kernel s) = (None, k)" "s' = s\<lparr>cl_kernel := k\<rparr>" by blast
  with route_del [OF this(2)] show thesis by (intro that) simp_all
qed

end

definition net_of :: "string \<Rightarrow> prefix" where
  "net_of t = (case parse_cidr t of None \<Rightarrow> masked (mk_prefix NoAddr 0) | Some x \<Rightarrow> x)"

lemma peer_nets_image:
  "\<forall>t\<in>set (pp_allowed p). parse_cidr t \<noteq> None \<Longrightarrow> peer_nets p = net_of ` set (pp_allowed p)"
  by (force simp: peer_nets_def net_of_def image_iff split: option.splits)

lemma new_peer_fields:
  assumes "new_peer nl p = Inr c"
  shows "pf_key c = peer_key nl p" "set (pf_allowed c) = peer_nets p" "\<forall>t\<in>set (pp_allowed p). parse_cidr t \<noteq> None"
proof -
  obtain k ips where k: "nl_key nl (pp_public_key p) = Inr k" "pf_key c = k" "pf_allowed c = ips"
    and ips: "map_res cidr_res (\<lambda>_. errors_new ''bad IP address found in the allowed IPs list'') (pp_allowed p) = Inr ips"
    using assms by (auto simp: new_peer_def bind_res_Inr_iff split: if_splits)
  from ips have l: "list_all2 (\<lambda>t x. parse_cidr t = Some x) (pp_allowed p) ips"
    unfolding map_res_Inr_iff by (rule list_all2_mono) (auto simp: cidr_res_def split: option.splits)
  then show parse: "\<forall>t\<in>set (pp_allowed p). parse_cidr t \<noteq> None"
    by (auto simp: list_all2_conv_all_nth in_set_conv_nth)
  show "pf_key c = peer_key nl p" using k by (simp add: peer_key_def)
  show "set (pf_allowed c) = peer_nets p"
  proof -
    from l have "ips = map net_of (pp_allowed p)" by induction (simp_all add: net_of_def)
    with k(3) show ?thesis by (simp add: peer_nets_image [OF parse])
  qed
qed

text \<open>The configurations a list of peers turns into, when all are well-formed.\<close>

definition configs_of :: "'k netlink \<Rightarrow> bool \<Rightarrow> pb_peer list \<Rightarrow> peer_cfg list \<Rightarrow> bool" where
  "configs_of nl rm ps cs \<longleftrightarrow> list_all2 (\<lambda>p c. \<exists>d. new_peer nl p = Inr d \<and> c = d\<lparr>pf_remove := rm\<rparr>) ps cs"

lemma fold_put_last:
  assumes "\<And>p b. put p b = (case dc_put_peer nl rm p b of Inl e \<Rightarrow> b\<lparr>db_last := Some e\<rparr> | Inr b' \<Rightarrow> b')"
  shows "db_last (fold put ps b) = None \<Longrightarrow> db_last b = None \<and> db_replace (fold put ps b) = db_replace b \<and>
    (\<exists>cs. configs_of nl rm ps cs \<and> db_peers (fold put ps b) = db_peers b @ cs)"
proof (induction ps arbitrary: b)
  case (Cons p ps)
  then have IH: "db_last (put p b) = None" "db_replace (fold put ps (put p b)) = db_replace (put p b)"
    "\<exists>cs. configs_of nl rm ps cs \<and> db_peers (fold put ps (put p b)) = db_peers (put p b) @ cs" by auto
  then obtain d where "new_peer nl p = Inr d" "put p b = b\<lparr>db_peers := db_peers b @ [d\<lparr>pf_remove := rm\<rparr>]\<rparr>"
    by (auto simp: assms dc_put_peer_def bind_res_def split: sum.splits)
  with IH show ?case by (auto simp: configs_of_def)
qed (simp add: configs_of_def)

lemma dc_add_all_Inr:
  "dc_add_all nl ps b = Inr b' \<Longrightarrow> db_replace b' = db_replace b \<and> db_last b' = db_last b \<and>
    (\<exists>cs. configs_of nl False ps cs \<and> db_peers b' = db_peers b @ cs)"
proof (induction ps arbitrary: b)
  case (Cons p ps)
  then obtain d where d: "new_peer nl p = Inr d"
    and "dc_add_all nl ps (b\<lparr>db_peers := db_peers b @ [d\<lparr>pf_remove := False\<rparr>]\<rparr>) = Inr b'"
    by (auto simp: dc_AddPeerE_def dc_put_peer_def bind_res_Inr_iff)
  from Cons.IH [OF this(2)] d show ?case by (auto simp: configs_of_def)
qed (simp add: configs_of_def)

definition give_peer :: "'k netlink \<Rightarrow> pb_peer \<Rightarrow> (string \<Rightarrow> prefix set option) \<Rightarrow> string \<Rightarrow> prefix set option" where
  "give_peer nl p m = (\<lambda>k. if k = peer_key nl p then Some (peer_nets p) else map_option (\<lambda>A. A - peer_nets p) (m k))"

lemma fold_configs:
  "configs_of nl rm ps cs \<Longrightarrow>
   fold put_peer cs m = fold (\<lambda>p m. if rm then m(peer_key nl p := None) else give_peer nl p m) ps m"
proof (induction ps arbitrary: cs m)
  case (Cons p ps)
  then obtain c cs' d where cs: "cs = c # cs'" "configs_of nl rm ps cs'" "new_peer nl p = Inr d" "c = d\<lparr>pf_remove := rm\<rparr>"
    by (auto simp: configs_of_def list_all2_Cons1)
  have "pf_key c = peer_key nl p" "set (pf_allowed c) = peer_nets p" "pf_remove c = rm"
    using new_peer_fields [OF cs(3)] by (simp_all add: cs(4))
  then have "put_peer c m = (if rm then m(peer_key nl p := None) else give_peer nl p m)" for m
    by (simp add: put_peer_def give_peer_def cong: if_cong)
  with cs Cons.IH [OF cs(2)] show ?case by simp
qed (simp add: configs_of_def)

lemma configs_parse:
  "configs_of nl rm ps cs \<Longrightarrow> p \<in> set ps \<Longrightarrow> t \<in> set (pp_allowed p) \<Longrightarrow> parse_cidr t \<noteq> None"
  unfolding configs_of_def by (induction rule: list_all2_induct) (auto dest: new_peer_fields(3))

lemma peer_map_Cons: "peer_map nl (p # ps) = (peer_map nl ps)(peer_key nl p \<mapsto> peer_nets p)"
  by (simp add: peer_map_def)

lemma peer_map_dom: "dom (peer_map nl ps) = peer_key nl ` set ps"
  by (simp add: peer_map_def dom_map_of_conv_image_fst image_image)

lemma peer_map_Some: "peer_map nl ps k = Some A \<Longrightarrow> \<exists>p\<in>set ps. A = peer_nets p"
  by (auto simp: peer_map_def dest!: map_of_SomeD)

lemma give_peer_fresh:
  assumes "peer_key nl q \<notin> peer_key nl ` set ps" "\<forall>p\<in>set ps. peer_nets p \<inter> peer_nets q = {}"
  shows "give_peer nl q (peer_map nl ps) = peer_map nl (ps @ [q])"
proof
  fix k
  have "map_option (\<lambda>A. A - peer_nets q) (peer_map nl ps k) = peer_map nl ps k"
    using assms(2) by (cases "peer_map nl ps k") (auto dest!: peer_map_Some)
  moreover have "peer_map nl (ps @ [q]) k = (case peer_map nl ps k of None \<Rightarrow> peer_map nl [q] k | r \<Rightarrow> r)"
    by (simp add: peer_map_def map_add_def split: option.split)
  moreover have "peer_map nl ps (peer_key nl q) = None"
    using assms(1) peer_map_dom [of nl ps] by blast
  ultimately show "give_peer nl q (peer_map nl ps) k = peer_map nl (ps @ [q]) k"
    by (auto simp: give_peer_def peer_map_def [of nl "[q]"] split: option.splits)
qed

lemma give_all:
  "distinct (map (peer_key nl) (ps @ qs)) \<Longrightarrow>
   (\<forall>p\<in>set (ps @ qs). \<forall>q\<in>set (ps @ qs). p \<noteq> q \<longrightarrow> peer_nets p \<inter> peer_nets q = {}) \<Longrightarrow>
   fold (give_peer nl) qs (peer_map nl ps) = peer_map nl (ps @ qs)"
proof (induction qs arbitrary: ps)
  case (Cons q qs)
  have "give_peer nl q (peer_map nl ps) = peer_map nl (ps @ [q])"
    using Cons.prems by (intro give_peer_fresh) auto
  with Cons.IH [of "ps @ [q]"] Cons.prems show ?case by simp
qed simp

lemma drop_all:
  "distinct (map (peer_key nl) (qs @ ps)) \<Longrightarrow>
   fold (\<lambda>p m. m(peer_key nl p := None)) qs (peer_map nl (qs @ ps)) = peer_map nl ps"
proof (induction qs)
  case (Cons q qs)
  have "peer_map nl (qs @ ps) (peer_key nl q) = None"
    using Cons.prems peer_map_dom [of nl "qs @ ps"] by (auto simp: domIff)
  then have "(peer_map nl (q # qs @ ps))(peer_key nl q := None) = peer_map nl (qs @ ps)"
    by (auto simp: peer_map_Cons)
  moreover have "fold (\<lambda>p m. m(peer_key nl p := None)) qs (peer_map nl (qs @ ps)) = peer_map nl ps"
    by (rule Cons.IH) (use Cons.prems in simp)
  ultimately show ?case by (simp only: fold_Cons comp_apply append_Cons)
qed simp

context lawful_kernel
begin

lemma add_routes_run:
  assumes "\<And>d s s'. f d s = (Inr (), s') \<Longrightarrow> if_AddRoute nl d s = (Inr (), s')"
  shows "for_each f ds s = (Inr u, s') \<Longrightarrow>
    (\<forall>d\<in>set ds. parse_cidr d \<noteq> None) \<and> distinct (map net_of ds) \<and> net_of ` set ds \<inter> routes (cl_kernel s) = {} \<and>
    routes (cl_kernel s') = routes (cl_kernel s) \<union> net_of ` set ds \<and> peers (cl_kernel s') = peers (cl_kernel s) \<and>
    cl_iface s' = cl_iface s \<and> cl_dev s' = cl_dev s \<and> cl_cfg s' = cl_cfg s"
proof (induction ds arbitrary: s)
  case (Cons d ds)
  then obtain s1 where s1: "if_AddRoute nl d s = (Inr (), s1)" and rest: "for_each f ds s1 = (Inr u, s')"
    using assms by (auto simp: run)
  from s1 obtain x where x: "parse_cidr d = Some x" "x \<notin> routes (cl_kernel s)"
    "routes (cl_kernel s1) = insert x (routes (cl_kernel s))" "peers (cl_kernel s1) = peers (cl_kernel s)"
    "cl_iface s1 = cl_iface s" "cl_dev s1 = cl_dev s" "cl_cfg s1 = cl_cfg s" by (rule add_route_run)
  moreover have "net_of d = x" using x(1) by (simp add: net_of_def)
  ultimately show ?case using Cons.IH [OF rest] by auto
qed (simp add: run)

lemma remove_routes_run:
  "for_each (if_RemoveRoute nl) ds s = (Inr u, s') \<Longrightarrow>
    routes (cl_kernel s') = routes (cl_kernel s) - net_of ` set ds \<and> peers (cl_kernel s') = peers (cl_kernel s) \<and>
    cl_iface s' = cl_iface s \<and> cl_dev s' = cl_dev s \<and> cl_cfg s' = cl_cfg s"
proof (induction ds arbitrary: s)
  case (Cons d ds)
  then obtain s1 where s1: "if_RemoveRoute nl d s = (Inr (), s1)" and rest: "for_each (if_RemoveRoute nl) ds s1 = (Inr u, s')"
    by (auto simp: run)
  from s1 obtain x where x: "parse_cidr d = Some x" "routes (cl_kernel s1) = routes (cl_kernel s) - {x}"
    "peers (cl_kernel s1) = peers (cl_kernel s)" "cl_iface s1 = cl_iface s" "cl_dev s1 = cl_dev s" "cl_cfg s1 = cl_cfg s"
    by (rule remove_route_run)
  moreover have "net_of d = x" using x(1) by (simp add: net_of_def)
  ultimately show ?case using Cons.IH [OF rest] by auto
qed (simp add: run)

lemma apply_peers_run:
  assumes put: "\<And>p b. put p b = (case dc_put_peer nl rm p b of Inl e \<Rightarrow> b\<lparr>db_last := Some e\<rparr> | Inr b' \<Rightarrow> b')"
    and run: "apply_peers nl put ps s = (Inr u, s')"
  shows "cl_iface s \<noteq> None \<and> cl_iface s' = cl_iface s \<and> cl_dev s' \<noteq> None \<and> cl_cfg s' = cl_cfg s \<and> cl_cfg s \<noteq> None \<and>
    routes (cl_kernel s') = routes (cl_kernel s) \<and> (\<exists>cs. configs_of nl rm ps cs) \<and>
    peers (cl_kernel s') = fold (\<lambda>p m. if rm then m(peer_key nl p := None) else give_peer nl p m) ps (peers (cl_kernel s))"
proof -
  obtain l b0 w c k where r: "cl_iface s = Some l" "cl_dev s = Some b0" "cl_cfg s = Some w"
    "dc_done (fold put ps (dc_update b0)) = Inr c"
    "nl_do nl (ConfigureDevice (wg_name w) c) (cl_kernel s) = (None, k)"
    "s' = s\<lparr>cl_dev := Some (fold put ps (dc_update b0)), cl_kernel := k\<rparr>"
    using run by (auto simp: apply_peers_def Prelude.run run_modify run_call Let_def split: option.splits)
  then have "db_last (fold put ps (dc_update b0)) = None" by (simp add: dc_done_def split: option.splits)
  from fold_put_last [OF put this] obtain cs where cs: "configs_of nl rm ps cs"
    "db_peers (fold put ps (dc_update b0)) = cs" "\<not> db_replace (fold put ps (dc_update b0))"
    by (auto simp: dc_update_def)
  have "dv_peers c = cs" "\<not> dv_replace_peers c"
    using r(4) cs(2,3) by (auto simp: dc_done_def split: option.splits)
  with configure [OF r(5)] have "routes k = routes (cl_kernel s)" "peers k = fold put_peer cs (peers (cl_kernel s))" by simp_all
  with r cs(1) show ?thesis by (auto simp: fold_configs)
qed

lemma lx_NewClient_run: "lx_NewClient nl s = (Inr u, s') \<Longrightarrow> no_tunnel peers routes s'"
  by (auto simp: lx_NewClient_def run run_call run_modify no_tunnel_def dest: no_device)

lemma nets_of_concat:
  "\<forall>t\<in>set (concat (map pp_allowed ps)). parse_cidr t \<noteq> None \<Longrightarrow>
   net_of ` set (concat (map pp_allowed ps)) = (\<Union>p\<in>set ps. peer_nets p)"
  by (induction ps) (auto simp: peer_nets_image image_Un)

lemma distinct_nets:
  "distinct (map net_of (concat (map pp_allowed ps))) \<Longrightarrow> \<forall>t\<in>set (concat (map pp_allowed ps)). parse_cidr t \<noteq> None \<Longrightarrow>
   \<forall>p\<in>set ps. \<forall>q\<in>set ps. p \<noteq> q \<longrightarrow> peer_nets p \<inter> peer_nets q = {}"
proof (induction ps)
  case (Cons r ps)
  have nets: "peer_nets r = net_of ` set (pp_allowed r)"
    using Cons.prems(2) by (intro peer_nets_image) simp
  have rest: "net_of ` set (concat (map pp_allowed ps)) = (\<Union>p\<in>set ps. peer_nets p)"
    using Cons.prems(2) by (intro nets_of_concat) simp
  have "set (map net_of (pp_allowed r)) \<inter> set (map net_of (concat (map pp_allowed ps))) = {}"
    using Cons.prems(1) by (simp only: list.map concat.simps map_append distinct_append)
  then have "peer_nets r \<inter> (\<Union>p\<in>set ps. peer_nets p) = {}"
    by (simp only: list.set_map nets rest)
  then have "\<forall>q\<in>set ps. peer_nets r \<inter> peer_nets q = {}" by blast
  moreover have "\<forall>p\<in>set ps. \<forall>q\<in>set ps. p \<noteq> q \<longrightarrow> peer_nets p \<inter> peer_nets q = {}"
    using Cons.prems by (intro Cons.IH) simp_all
  ultimately show ?case by (simp add: Int_commute)
qed simp

lemma lx_AddPeers_run:
  assumes run: "lx_AddPeers nl qs s = (Inr u, s')" and c: "carries nl peers routes s ps"
  shows "(\<Union>p\<in>set ps. peer_nets p) \<inter> (\<Union>q\<in>set qs. peer_nets q) = {}"
    "\<forall>q\<in>set qs. \<forall>t\<in>set (pp_allowed q). parse_cidr t \<noteq> None"
    "distinct (map (peer_key nl) (ps @ qs)) \<Longrightarrow> carries nl peers routes s' (ps @ qs)"
proof -
  obtain s1 where a: "apply_peers nl (dc_AddPeer nl) qs s = (Inr (), s1)" and r: "add_routes nl qs s1 = (Inr (), s')"
    using run by (auto simp: lx_AddPeers_def Prelude.run)
  have a': "cl_iface s \<noteq> None" "cl_iface s1 = cl_iface s" "cl_dev s1 \<noteq> None" "cl_cfg s1 = cl_cfg s"
    "cl_cfg s \<noteq> None" "routes (cl_kernel s1) = routes (cl_kernel s)"
    "peers (cl_kernel s1) = fold (give_peer nl) qs (peers (cl_kernel s))"
    using apply_peers_run [where rm = False, OF _ a] by (simp_all add: dc_AddPeer_def dc_AddPeerE_def)
  note r' = add_routes_run [OF _ r [unfolded add_routes_def]]
  have parse: "\<forall>t\<in>set (concat (map pp_allowed qs)). parse_cidr t \<noteq> None"
    and dist: "distinct (map net_of (concat (map pp_allowed qs)))"
    and disj: "net_of ` set (concat (map pp_allowed qs)) \<inter> routes (cl_kernel s1) = {}"
    and rts: "routes (cl_kernel s') = routes (cl_kernel s1) \<union> net_of ` set (concat (map pp_allowed qs))"
    and same: "peers (cl_kernel s') = peers (cl_kernel s1)" "cl_iface s' = cl_iface s1" "cl_dev s' = cl_dev s1" "cl_cfg s' = cl_cfg s1"
    using r' by blast+
  note nets = nets_of_concat [OF parse]
  show D: "(\<Union>p\<in>set ps. peer_nets p) \<inter> (\<Union>q\<in>set qs. peer_nets q) = {}"
    using disj unfolding nets a'(6) carriesD(8) [OF c] by (simp only: Int_commute)
  show P: "\<forall>q\<in>set qs. \<forall>t\<in>set (pp_allowed q). parse_cidr t \<noteq> None" using parse by simp
  assume key: "distinct (map (peer_key nl) (ps @ qs))"
  have pair: "\<forall>p\<in>set (ps @ qs). \<forall>q\<in>set (ps @ qs). p \<noteq> q \<longrightarrow> peer_nets p \<inter> peer_nets q = {}"
    using distinct_nets [OF dist parse] carriesD(5) [OF c] D unfolding set_append by blast
  have "peers (cl_kernel s') = peer_map nl (ps @ qs)"
    using give_all [OF key pair] carriesD(7) [OF c] a'(7) same by simp
  moreover have "routes (cl_kernel s') = (\<Union>p\<in>set (ps @ qs). peer_nets p)"
    unfolding rts nets a'(6) carriesD(8) [OF c] set_append by (rule UN_Un [symmetric])
  moreover have "\<forall>p\<in>set (ps @ qs). \<forall>t\<in>set (pp_allowed p). parse_cidr t \<noteq> None"
    using carriesD(6) [OF c] P unfolding set_append by blast
  ultimately show "carries nl peers routes s' (ps @ qs)"
    using key pair same a' unfolding carries_def by argo
qed

lemma lx_DelPeers_run:
  assumes run: "lx_DelPeers nl qs s = (Inr u, s')" and c: "carries nl peers routes s (qs @ ps)"
  shows "carries nl peers routes s' ps"
proof -
  obtain s1 where a: "apply_peers nl (dc_DelPeer nl) qs s = (Inr (), s1)" and r: "remove_routes nl qs s1 = (Inr (), s')"
    using run by (auto simp: lx_DelPeers_def Prelude.run)
  have a': "cl_iface s1 = cl_iface s" "cl_dev s1 \<noteq> None" "cl_cfg s1 = cl_cfg s" "routes (cl_kernel s1) = routes (cl_kernel s)"
    "peers (cl_kernel s1) = fold (\<lambda>p m. m(peer_key nl p := None)) qs (peers (cl_kernel s))"
    using apply_peers_run [where rm = True, OF _ a] by (simp_all add: dc_DelPeer_def dc_DelPeerE_def)
  note r' = remove_routes_run [OF r [unfolded remove_routes_def]]
  have parse: "\<forall>t\<in>set (concat (map pp_allowed qs)). parse_cidr t \<noteq> None"
    using carriesD(6) [OF c] unfolding set_append by auto
  note key = carriesD(4) [OF c]
  then have "\<forall>q\<in>set qs. \<forall>p\<in>set ps. q \<noteq> p" by auto
  then have "\<forall>q\<in>set qs. \<forall>p\<in>set ps. peer_nets q \<inter> peer_nets p = {}"
    using carriesD(5) [OF c] unfolding set_append by blast
  then have "(\<Union>p\<in>set (qs @ ps). peer_nets p) - (\<Union>q\<in>set qs. peer_nets q) = (\<Union>p\<in>set ps. peer_nets p)"
    unfolding set_append by blast
  then have "routes (cl_kernel s') = (\<Union>p\<in>set ps. peer_nets p)"
    using carriesD(8) [OF c] r' a'(4) nets_of_concat [OF parse] by simp
  moreover have "peers (cl_kernel s') = peer_map nl ps"
    using carriesD(7) [OF c] r' a'(5) drop_all [OF key] by simp
  moreover have "\<forall>p\<in>set ps. \<forall>q\<in>set ps. p \<noteq> q \<longrightarrow> peer_nets p \<inter> peer_nets q = {}"
    "\<forall>p\<in>set ps. \<forall>t\<in>set (pp_allowed p). parse_cidr t \<noteq> None" "distinct (map (peer_key nl) ps)"
    using carriesD(5,6) [OF c] key unfolding set_append map_append distinct_append by blast+
  ultimately show ?thesis using carriesD(1,3) [OF c] a'(1-3) r' unfolding carries_def by argo
qed

lemma configure_iface_run:
  assumes "configure_iface nl n ifc s = (Inr d, s')"
  shows "peers (cl_kernel s') = peers (cl_kernel s)" "routes (cl_kernel s') = routes (cl_kernel s)"
    "cl_iface s' = cl_iface s" "cl_dev s' = cl_dev s" "cl_cfg s' = cl_cfg s"
proof -
  obtain b c k where "new_device_config nl (pi_private_key ifc) (pi_port ifc) = Inr b" "dc_done b = Inr c"
    "nl_do nl (ConfigureDevice n c) (cl_kernel s) = (None, k)" "s' = s\<lparr>cl_kernel := k\<rparr>"
    using assms by (auto simp: configure_iface_def run run_call)
  then show "peers (cl_kernel s') = peers (cl_kernel s)" "routes (cl_kernel s') = routes (cl_kernel s)"
    "cl_iface s' = cl_iface s" "cl_dev s' = cl_dev s" "cl_cfg s' = cl_cfg s"
    using configure [of n c "cl_kernel s" k]
    by (auto simp: new_device_config_def dc_done_def bind_res_Inr_iff split: option.splits)
qed

lemma configure_iface_same: "configure_iface nl n ifc s = (Inr d, s') \<Longrightarrow> same_tunnel peers routes s s'"
  by (simp add: same_tunnel_def configure_iface_run)

lemma ok_iface_ops:
  fixes ps defines "I \<equiv> \<lambda>s. carries nl peers routes s ps"
  shows "ok_keeps I (if_AddAddress nl a)" "ok_keeps I (if_RemoveAddress nl a)" "ok_keeps I (if_SetMTU nl m)"
    "ok_keeps I (if_Rename nl n)" "ok_keeps I (configure_iface nl n ifc)"
  unfolding ok_keeps_def I_def by (blast dest: iface_ops_same configure_iface_same intro: carries_same)+

lemma ok_adopt: "ok_keeps (\<lambda>s. carries nl peers routes s ps)
    (modify (\<lambda>s. s\<lparr>cl_dev := (case d of None \<Rightarrow> cl_dev s | Some b \<Rightarrow> Some b), cl_cfg := Some w\<rparr>))"
  by (simp add: ok_keeps_def run_modify carries_def split: option.split)

lemma lx_UpdateWireGuardInterface_run:
  assumes "lx_UpdateWireGuardInterface nl w s = (Inr u, s')" and "carries nl peers routes s ps"
  shows "carries nl peers routes s' ps"
proof -
  have "ok_keeps (\<lambda>s. carries nl peers routes s ps) (lx_UpdateWireGuardInterface nl w)"
    unfolding lx_UpdateWireGuardInterface_def Let_def
    by (intro ok_keeps_rules ok_iface_ops ok_adopt)
  with assms show ?thesis by (auto simp: ok_keeps_def)
qed

lemma lx_AddWireGuard_run:
  assumes run: "lx_AddWireGuard nl w s = (Inr u, s')" and idle: "no_tunnel peers routes s"
    and key: "distinct (map (peer_key nl) (wg_peers w))"
  shows "carries nl peers routes s' (wg_peers w)"
proof -
  obtain ifc :: pb_iface and b0 b :: dev_builder and cfg :: dev_cfg and l k and s2 s3 s4 s5 :: "'k linux" where
    b0: "new_device_config nl (pi_private_key ifc) (pi_port ifc) = Inr b0"
    and b: "dc_add_all nl (wg_peers w) (dc_create b0) = Inr b" "dc_done b = Inr cfg"
    and 1: "if_NewWireGuardInterface nl (wg_name w) (s\<lparr>cl_dev := Some b, cl_cfg := Some w\<rparr>) = (Inr l, s2)"
    and 2: "for_each (\<lambda>a. or_delete nl (if_AddAddress nl a) (wrapv ''could not assign the address'')) (pi_addresses ifc)
      (s2\<lparr>cl_iface := Some l\<rparr>) = (Inr (), s3)"
    and 3: "when_do (pi_mtu ifc \<noteq> []) (or_delete nl (set_mtu_text nl (pi_mtu ifc)) (\<lambda>e. e)) s3 = (Inr (), s4)"
    and 4: "nl_do nl (ConfigureDevice (wg_name w) cfg) (cl_kernel s4) = (None, k)"
    and 5: "if_Up nl (s4\<lparr>cl_kernel := k\<rparr>) = (Inr (), s5)"
    and 6: "for_each (\<lambda>d. or_delete nl (if_AddRoute nl d) (wrapv ''could not add route''))
      (concat (map pp_allowed (wg_peers w))) s5 = (Inr (), s')"
  proof -
    show thesis
      using run unfolding lx_AddWireGuard_def Prelude.run(1-6) run_or_delete run_modify run_call
      by clarsimp (rule that, assumption+)
  qed
  let ?s1 = "s\<lparr>cl_dev := Some b, cl_cfg := Some w\<rparr>"
  have "same_tunnel peers routes ?s1 s2"
    using 1 by (auto simp: if_NewWireGuardInterface_def Prelude.run dest!: call_same [rotated])
  moreover have "same_tunnel peers routes (s2\<lparr>cl_iface := Some l\<rparr>) s3"
    using 2 by (rule for_each_same [rotated]) (auto simp: run_or_delete dest: iface_ops_same)
  moreover have "same_tunnel peers routes s3 s4"
    using 3 by (auto simp: Prelude.run run_or_delete split: if_splits dest: iface_ops_same)
  moreover have "same_tunnel peers routes (s4\<lparr>cl_kernel := k\<rparr>) s5" using 5 by (rule iface_ops_same)
  ultimately have s5: "cl_iface s5 = Some l" "cl_dev s5 = Some b" "cl_cfg s5 = Some w"
    "peers (cl_kernel s4) = Map.empty" "routes (cl_kernel s4) = {}" "peers (cl_kernel s5) = peers k" "routes (cl_kernel s5) = routes k"
    using idle by (auto simp: same_tunnel_def no_tunnel_def)
  from dc_add_all_Inr [OF b(1)] obtain cs where cs: "configs_of nl False (wg_peers w) cs" "db_peers b = cs" "db_replace b"
    by (auto simp: dc_create_def)
  then have "dv_peers cfg = cs" "dv_replace_peers cfg" using b(2) by (auto simp: dc_done_def split: option.splits)
  with configure [OF 4] s5 have k: "routes k = {}" "peers k = fold (give_peer nl) (wg_peers w) (peer_map nl [])"
    using fold_configs [OF cs(1), of Map.empty] by (simp_all add: peer_map_def)
  note r = add_routes_run [OF _ 6, unfolded run_or_delete, OF ]
  have parse: "\<forall>t\<in>set (concat (map pp_allowed (wg_peers w))). parse_cidr t \<noteq> None"
    and dist: "distinct (map net_of (concat (map pp_allowed (wg_peers w))))"
    and rts: "routes (cl_kernel s') = routes (cl_kernel s5) \<union> net_of ` set (concat (map pp_allowed (wg_peers w)))"
    and same: "peers (cl_kernel s') = peers (cl_kernel s5)" "cl_iface s' = cl_iface s5" "cl_dev s' = cl_dev s5" "cl_cfg s' = cl_cfg s5"
    using r by blast+
  have "peers (cl_kernel s') = peer_map nl (wg_peers w)"
    using give_all [where ps = "[]" and qs = "wg_peers w"] key distinct_nets [OF dist parse] k(2) same s5 by simp
  moreover have "routes (cl_kernel s') = (\<Union>p\<in>set (wg_peers w). peer_nets p)"
    unfolding rts s5 k nets_of_concat [OF parse] by simp
  moreover have "\<forall>p\<in>set (wg_peers w). \<forall>t\<in>set (pp_allowed p). parse_cidr t \<noteq> None" using parse by simp
  ultimately show ?thesis using key distinct_nets [OF dist parse] same s5 unfolding carries_def by simp
qed

end

sublocale lawful_kernel \<subseteq> lx: wg_client "linux_client nl" "carries nl peers routes" "no_tunnel peers routes" "other_keys nl" False
proof unfold_locales
  fix ps qs :: "pb_peer list" assume "other_keys nl ps" "mset ps = mset qs"
  then show "other_keys nl qs" unfolding other_keys_def by (metis mset_eq_imp_distinct_iff mset_map)
next
  fix c :: "'k linux" and ps qs u c' and p :: pb_peer
  assume c: "carries nl peers routes c ps" and p: "p \<in> set ps" "p \<in> set qs" "pp_allowed p \<noteq> []"
  show "op_AddPeers (linux_client nl) qs c \<noteq> (Inr u, c')"
  proof
    assume "op_AddPeers (linux_client nl) qs c = (Inr u, c')"
    then have run: "lx_AddPeers nl qs c = (Inr u, c')" by (simp add: linux_client_def)
    from p(3) obtain t where "t \<in> set (pp_allowed p)" by (cases "pp_allowed p") auto
    moreover from this p(2) lx_AddPeers_run(2) [OF run c] have "parse_cidr t \<noteq> None" by blast
    ultimately have "peer_nets p \<noteq> {}" by (auto simp: peer_nets_def)
    with p lx_AddPeers_run(1) [OF run c] show False by blast
  qed
qed (auto simp: linux_client_def intro: lx_NewClient_run lx_AddWireGuard_run lx_AddPeers_run(3) lx_DelPeers_run
    lx_UpdateWireGuardInterface_run carries_perm simp: other_keys_def distinct_map dest: carriesD(4))

end
