(* ===== verification/Sim_Kernel.thy ===== *)
theory Sim_Kernel
  imports Wg_Client "HOL-Library.AList"
begin

text \<open>
  A kernel that keeps the laws of \<open>lawful_kernel\<close>: one WireGuard device, its peers and the routes over
  its link as lists.  It runs the Linux client on concrete inputs.
\<close>

record sim_kernel =
  sk_link :: bool
  sk_peers :: "(string \<times> prefix list) list"
  sk_routes :: "prefix list"

definition no_link :: sim_kernel where
  "no_link = \<lparr>sk_link = False, sk_peers = [], sk_routes = []\<rparr>"

definition sim_put :: "peer_cfg \<Rightarrow> (string \<times> prefix list) list \<Rightarrow> (string \<times> prefix list) list" where
  "sim_put p xs = (if pf_remove p then AList.delete (pf_key p) xs
     else AList.update (pf_key p) (pf_allowed p) (map (\<lambda>(k, a). (k, filter (\<lambda>x. x \<notin> set (pf_allowed p)) a)) xs))"

fun sim_do :: "nl_call \<Rightarrow> sim_kernel \<Rightarrow> err option \<times> sim_kernel" where
  "sim_do (LinkAdd _) k = (if sk_link k then (Some (errors_new ''file exists''), k) else (None, k\<lparr>sk_link := True\<rparr>))"
| "sim_do (LinkDel _) k = (None, no_link)"
| "sim_do (RouteAdd _ x) k =
     (if x \<in> set (sk_routes k) then (Some (errors_new ''file exists''), k) else (None, k\<lparr>sk_routes := x # sk_routes k\<rparr>))"
| "sim_do (RouteDel _ x) k =
     (if x \<in> set (sk_routes k) then (None, k\<lparr>sk_routes := filter (\<lambda>y. y \<noteq> x) (sk_routes k)\<rparr>)
      else (Some (errors_new ''no such process''), k))"
| "sim_do (ConfigureDevice _ d) k =
     (None, k\<lparr>sk_peers := fold sim_put (dv_peers d) (if dv_replace_peers d then [] else sk_peers k)\<rparr>)"
| "sim_do _ k = (None, k)"

definition sim_netlink :: "sim_kernel netlink" where
  "sim_netlink = \<lparr>nl_do = sim_do, nl_devices = (\<lambda>k. Inr (if k = no_link then 0 else 1)),
     nl_key = Inr, nl_addr = Inr, nl_udp = Inr\<rparr>"

definition sim_peers :: "sim_kernel \<Rightarrow> string \<Rightarrow> prefix set option" where
  "sim_peers k = (\<lambda>x. map_option set (map_of (sk_peers k) x))"

definition sim_routes :: "sim_kernel \<Rightarrow> prefix set" where
  "sim_routes k = set (sk_routes k)"

lemma sim_put_map:
  "(\<lambda>x. map_option set (map_of (sim_put p xs) x)) = put_peer p (\<lambda>x. map_option set (map_of xs x))"
proof -
  have "map_of (map (\<lambda>(k, a). (k, f a)) xs) x = map_option f (map_of xs x)" for f :: "prefix list \<Rightarrow> prefix list" and x
    by (induction xs) auto
  then show ?thesis
    by (auto simp: sim_put_def put_peer_def update_conv' delete_conv' map_option.compositionality comp_def set_diff_eq
        intro!: ext option.map_cong)
qed

lemma fold_sim_put:
  "(\<lambda>x. map_option set (map_of (fold sim_put ps xs) x)) = fold put_peer ps (\<lambda>x. map_option set (map_of xs x))"
  by (induction ps arbitrary: xs) (simp_all add: sim_put_map)

interpretation sim: lawful_kernel sim_netlink sim_peers sim_routes
proof unfold_locales
  fix c k k' assume "keeps_tunnel c" "nl_do sim_netlink c k = (None, k')"
  then show "sim_peers k' = sim_peers k \<and> sim_routes k' = sim_routes k"
    by (cases c) (auto simp: sim_netlink_def sim_peers_def sim_routes_def split: if_splits)
next
  fix n d k k' assume "nl_do sim_netlink (ConfigureDevice n d) k = (None, k')"
  then show "sim_routes k' = sim_routes k \<and>
      sim_peers k' = fold put_peer (dv_peers d) (if dv_replace_peers d then Map.empty else sim_peers k)"
    by (auto simp: sim_netlink_def sim_peers_def sim_routes_def fold_sim_put)
qed (auto simp: sim_netlink_def sim_peers_def sim_routes_def no_link_def split: if_splits)

end
