(* ===== verification/Vpn_Server.thy ===== *)
theory Vpn_Server
  imports Sim_Kernel
begin

text \<open>
  The VPN server process (\<open>src/cmd/vpn_server/vpns/vpns.go\<close>): the configuration it remembers, the
  in-place update of a tunnel, the rebuild from scratch, the notifications of the orchestrator and the
  reconnect loop.  It reaches the tunnel through the operations of a \<open>wireguard.Client\<close> only; the lemmas
  are proved in the contract \<open>wg_client\<close>.
\<close>

section \<open>State\<close>

datatype cfg_type = UndefinedType | WireguardType | UnknownType

record vpn_cfg =
  vc_type :: cfg_type
  vc_telemetry :: bool
  vc_wg :: "pb_wg option"

text \<open>
  \<open>vp_client\<close> is the client with the system it acts on, \<open>vp_wgc\<close> that the field \<open>wgc\<close> is set;
  \<open>vp_conn\<close>, \<open>vp_updates\<close> and \<open>vp_sending\<close> that \<open>conn\<close>, \<open>stop\<close> and \<open>stopTelemetry\<close> are.
\<close>

record 'c vpns =
  vp_client :: 'c
  vp_wgc :: bool
  vp_cfg :: "vpn_cfg option"
  vp_conn :: bool
  vp_updates :: bool
  vp_sending :: bool

type_synonym ('c, 'a) vop = "('c vpns, 'a) op"

definition on_client :: "('c, 'a) op \<Rightarrow> ('c, 'a) vop" where
  "on_client m = (\<lambda>s. case m (vp_client s) of (r, c) \<Rightarrow> (r, s\<lparr>vp_client := c\<rparr>))"

definition the_client :: "('c, 'a) op \<Rightarrow> ('c, 'a) vop" where
  "the_client m = bind_do (gets vp_wgc) (\<lambda>b. guard_do (\<not> b) Panic (on_client m))"

definition cfg_wg :: "'c vpns \<Rightarrow> pb_wg option" where
  "cfg_wg s = (case vp_cfg s of None \<Rightarrow> None | Some c \<Rightarrow> vc_wg c)"

section \<open>Configuration\<close>

definition updateExistingWGConfigInternally :: "pb_wg \<Rightarrow> ('c, unit) vop" where
  "updateExistingWGConfigInternally w = bind_do (gets vp_cfg) (\<lambda>c. case c of
     None \<Rightarrow> throw Panic
   | Some c \<Rightarrow> guard_do (vc_wg c = None) Panic (modify (vp_cfg_update (\<lambda>_. Some (c\<lparr>vc_wg := Some w\<rparr>)))))"

definition configureWireGuardVPN :: "'c wg_ops \<Rightarrow> pb_wg \<Rightarrow> ('c, unit) vop" where
  "configureWireGuardVPN ops w =
     bind_do (on_client (op_NewClient ops)) (\<lambda>_.
     bind_do (modify (vp_wgc_update (\<lambda>_. True))) (\<lambda>_.
     try_do (on_client (op_AddWireGuard ops w)) (wrapv ''could not configure WireGuard based VPN'') ret))"

definition configureVPN :: "'c wg_ops \<Rightarrow> vpn_cfg \<Rightarrow> ('c, unit) vop" where
  "configureVPN ops c = (case vc_type c of
     UndefinedType \<Rightarrow> throw (errors_new ''received configuration of undefined type'')
   | WireguardType \<Rightarrow> (case vc_wg c of
       None \<Rightarrow> throw (errors_new ''received configuration type does not match its content'')
     | Some w \<Rightarrow> configureWireGuardVPN ops w)
   | UnknownType \<Rightarrow> throw (errors_new ''received configuation of unknown/unsupported type''))"

definition reconfigureWireGuardVPNFromScratch :: "'c wg_ops \<Rightarrow> pb_wg \<Rightarrow> ('c, unit) vop" where
  "reconfigureWireGuardVPNFromScratch ops w =
     bind_do (attempt (the_client (op_Close ops)) (\<lambda>_. ret ())) (\<lambda>_.
     try_do (configureWireGuardVPN ops w) (wrapw ''can't reconfigure WireGuard VPN from scratch'') (\<lambda>_.
     try_do (the_client (op_AddPeers ops (wg_peers w))) (wrapw ''can't add peers in reconfiguration from scratch'') (\<lambda>_.
       updateExistingWGConfigInternally w)))"

text \<open>An update in place that fails is replaced by the rebuild, whose result is returned.\<close>

definition or_scratch :: "'c wg_ops \<Rightarrow> pb_wg \<Rightarrow> ('c, unit) op \<Rightarrow> ('c, unit) vop \<Rightarrow> ('c, unit) vop" where
  "or_scratch ops w m k = attempt (the_client m) (\<lambda>r. case r of
     Inl _ \<Rightarrow> reconfigureWireGuardVPNFromScratch ops w | Inr _ \<Rightarrow> k)"

text \<open>The second half of \<open>reconfigureWireGuardVPN\<close>: the peers.\<close>

definition update_peers :: "'c wg_ops \<Rightarrow> pb_wg \<Rightarrow> pb_wg \<Rightarrow> ('c, unit) vop" where
  "update_peers ops old new =
     (let commit = updateExistingWGConfigInternally new in
      if wg_peers old = [] \<and> wg_peers new \<noteq> [] then or_scratch ops new (op_AddPeers ops (wg_peers new)) commit
      else if wg_peers old \<noteq> [] \<and> wg_peers new = [] then or_scratch ops new (op_DelPeers ops (wg_peers old)) commit
      else
        let toDel = filter (\<lambda>p. p \<notin> set (wg_peers new)) (wg_peers old);
            toAdd = filter (\<lambda>p. p \<notin> set (wg_peers old)) (wg_peers new);
            add = (if toAdd = [] then commit else or_scratch ops new (op_AddPeers ops toAdd) commit)
        in if toDel = [] then add else or_scratch ops new (op_DelPeers ops toDel) add)"

definition reconfigureWireGuardVPN :: "'c wg_ops \<Rightarrow> pb_wg \<Rightarrow> ('c, unit) vop" where
  "reconfigureWireGuardVPN ops new =
     bind_do (gets vp_wgc) (\<lambda>b.
     guard_do (\<not> b) (errors_new ''missing WireGuard client'') (
     bind_do (gets cfg_wg) (\<lambda>w0. case w0 of
       None \<Rightarrow> throw (errors_new ''missing old WireGuard configuration'')
     | Some old \<Rightarrow>
         if wg_name old \<noteq> wg_name new \<or> wg_iface old \<noteq> wg_iface new
         then or_scratch ops new (op_UpdateWireGuardInterface ops new) (update_peers ops old new)
         else update_peers ops old new)))"

definition reconfigureVPN :: "'c wg_ops \<Rightarrow> vpn_cfg \<Rightarrow> ('c, unit) vop" where
  "reconfigureVPN ops new = bind_do (gets vp_cfg) (\<lambda>c0.
     if c0 = Some new then ret ()
     else case c0 of
       None \<Rightarrow> throw Panic
     | Some old \<Rightarrow>
         guard_do (vc_type old \<noteq> vc_type new) (errors_new ''type of VPN configuration has changed'') (
         case vc_type new of
           WireguardType \<Rightarrow> (case vc_wg new of
             None \<Rightarrow> throw (errors_new ''received configuration type does not match its content'')
           | Some w \<Rightarrow> try_do (reconfigureWireGuardVPN ops w) (wrapv ''failed to reconfigure WireGuard'') ret)
         | _ \<Rightarrow> throw (errors_new ''received configuation of unknown/unsupported type'')))"

section \<open>Notifications\<close>

datatype peer_operation = UndefinedOp | AddPeerOp | DelPeerOp | UnknownOp

datatype server_ntf = ConfigNtf pb_wg | PeerNtf peer_operation "pb_peer option" | OtherNtf

datatype rpc_code = RpcOk | RpcInternal

fun handleConfigNotification :: "'c wg_ops \<Rightarrow> pb_wg \<Rightarrow> ('c, unit) vop" where
  "handleConfigNotification ops w =
     try_do (reconfigureWireGuardVPN ops w) (wrapw ''could not update server configuration from notification'') ret"

fun find_index :: "('a \<Rightarrow> bool) \<Rightarrow> 'a list \<Rightarrow> nat option" where
  "find_index P [] = None"
| "find_index P (x # xs) = (if P x then Some 0 else map_option Suc (find_index P xs))"

text \<open>The last element takes the place of the removed one.\<close>

definition swap_remove :: "nat \<Rightarrow> 'a list \<Rightarrow> 'a list" where
  "swap_remove i xs = butlast (xs[i := last xs])"

definition set_peers :: "pb_peer list \<Rightarrow> ('c, unit) vop" where
  "set_peers ps = bind_do (gets vp_cfg) (\<lambda>c. case c of
     None \<Rightarrow> throw Panic
   | Some c \<Rightarrow> (case vc_wg c of
       None \<Rightarrow> throw Panic
     | Some w \<Rightarrow> modify (vp_cfg_update (\<lambda>_. Some (c\<lparr>vc_wg := Some (w\<lparr>wg_peers := ps\<rparr>)\<rparr>)))))"

definition cfg_peers :: "'c vpns \<Rightarrow> pb_peer list" where
  "cfg_peers s = (case cfg_wg s of None \<Rightarrow> [] | Some w \<Rightarrow> wg_peers w)"

fun handlePeerNotification :: "'c wg_ops \<Rightarrow> peer_operation \<Rightarrow> pb_peer option \<Rightarrow> ('c, unit) vop" where
  "handlePeerNotification ops UndefinedOp _ = throw (errors_new ''peer notification type is undefined, ignoring'')"
| "handlePeerNotification ops AddPeerOp None = throw Panic"
| "handlePeerNotification ops AddPeerOp (Some p) =
     try_do (the_client (op_AddPeers ops [p])) (wrapw ''could not add peer'') (\<lambda>_.
     bind_do (gets cfg_peers) (\<lambda>ps. set_peers (ps @ [p])))"
| "handlePeerNotification ops DelPeerOp None = throw Panic"
| "handlePeerNotification ops DelPeerOp (Some p) =
     bind_do (gets cfg_peers) (\<lambda>ps.
     case find_index (\<lambda>q. pp_public_key q = pp_public_key p) ps of
       None \<Rightarrow> throw (errors_new ''peer from peer removal notification was not found in wg config'')
     | Some i \<Rightarrow>
         try_do (the_client (op_DelPeers ops [ps ! i])) (wrapw ''could not remove peer'') (\<lambda>_.
           set_peers (swap_remove i ps)))"
| "handlePeerNotification ops UnknownOp _ = throw (errors_new ''unsupported peer notification type'')"

fun handle_notification :: "'c wg_ops \<Rightarrow> server_ntf \<Rightarrow> ('c, unit) vop" where
  "handle_notification ops (ConfigNtf w) = handleConfigNotification ops w"
| "handle_notification ops (PeerNtf x p) = handlePeerNotification ops x p"
| "handle_notification ops OtherNtf = throw (errors_new ''unsupported notification type'')"

text \<open>The loop of \<open>processWireGuardUpdates\<close> answers a notification with the result of its handler.\<close>

definition answer_notification :: "'c wg_ops \<Rightarrow> server_ntf \<Rightarrow> ('c, rpc_code \<times> err option) vop" where
  "answer_notification ops n = attempt (handle_notification ops n) (\<lambda>r. ret (case r of
     Inl e \<Rightarrow> (RpcInternal, Some e) | Inr _ \<Rightarrow> (RpcOk, None)))"

section \<open>Connection\<close>

text \<open>
  What the environment answers during one attempt to connect: the connection, the configuration of the
  orchestrator, the start of the telemetry.
\<close>

record attempt_env =
  ae_conn :: "err option"
  ae_config :: "err + vpn_cfg option"
  ae_telemetry :: "err option"

definition requestConfiguration :: "attempt_env \<Rightarrow> err + vpn_cfg" where
  "requestConfiguration e = (case ae_config e of
     Inl x \<Rightarrow> Inl (wrapv ''request for VPN configuration failed'' x)
   | Inr None \<Rightarrow> Inl (errors_new ''received nil as configuration'')
   | Inr (Some c) \<Rightarrow> Inr c)"

definition subscribeForChanges :: "vpn_cfg \<Rightarrow> ('c, unit) vop" where
  "subscribeForChanges c = (case vc_type c of
     WireguardType \<Rightarrow> modify (vp_updates_update (\<lambda>_. True))
   | _ \<Rightarrow> throw (errors_new ''cannot subscribe for configuration changes for unknown/unsupported VPN type''))"

definition vp_Connect :: "'c wg_ops \<Rightarrow> bool \<Rightarrow> bool \<Rightarrow> attempt_env \<Rightarrow> ('c, unit) vop" where
  "vp_Connect ops enableTelemetry initial e =
     bind_do (modify (vp_conn_update (\<lambda>_. ae_conn e = None))) (\<lambda>_.
     try_do (case ae_conn e of Some x \<Rightarrow> throw x | None \<Rightarrow> ret ()) (wrapv ''could not connect to the EntGuard orchestrator'') (\<lambda>_.
     try_do (lift (requestConfiguration e)) (wrapv ''could not retrieve configuration'') (\<lambda>c.
     bind_do (if initial
       then bind_do (modify (vp_cfg_update (\<lambda>_. Some c))) (\<lambda>_.
              try_do (configureVPN ops c) (wrapv ''could not setup VPN'') ret)
       else try_do (reconfigureVPN ops c) (wrapv ''could not reconfigure VPN'') ret) (\<lambda>_.
     bind_do (gets vp_cfg) (\<lambda>v. case v of
       None \<Rightarrow> throw Panic
     | Some v \<Rightarrow>
       bind_do (when_do (vc_telemetry v \<and> enableTelemetry)
         (bind_do (modify (vp_sending_update (\<lambda>_. True))) (\<lambda>_.
            case ae_telemetry e of
              Some x \<Rightarrow> throw (wrapv ''could not start sending telemetry'' x) | None \<Rightarrow> ret ()))) (\<lambda>_.
       try_do (subscribeForChanges v) (wrapv ''could not subscribe for configuration changes'') ret))))))"

definition vp_Disconnect :: "'c wg_ops \<Rightarrow> bool \<Rightarrow> ('c, unit) vop" where
  "vp_Disconnect ops removeWG =
     bind_do (modify (\<lambda>s. s\<lparr>vp_updates := False, vp_sending := False, vp_conn := False\<rparr>)) (\<lambda>_.
     bind_do (gets vp_wgc) (\<lambda>b.
       when_do (b \<and> removeWG) (attempt (on_client (op_Close ops)) (\<lambda>_. ret ()))))"

definition reconnectAttempt :: "'c wg_ops \<Rightarrow> bool \<Rightarrow> attempt_env \<Rightarrow> ('c, unit) vop" where
  "reconnectAttempt ops tel e = bind_do (vp_Disconnect ops False) (\<lambda>_. vp_Connect ops tel False e)"

text \<open>
  One error on the channel: at most \<open>ReconnectAttempts\<close> attempts, attempt \<open>i\<close> meeting the environment
  \<open>env i\<close>.  The result is \<open>None\<close> when the process exits, else the number of attempts made.
\<close>

fun reconnect_loop :: "'c wg_ops \<Rightarrow> bool \<Rightarrow> (nat \<Rightarrow> attempt_env) \<Rightarrow> nat \<Rightarrow> nat \<Rightarrow> err option \<Rightarrow> ('c, nat option) vop" where
  "reconnect_loop ops tel env 0 i err = (case err of
     None \<Rightarrow> ret (Some i)
   | Some _ \<Rightarrow> bind_do (vp_Disconnect ops True) (\<lambda>_. ret None))"
| "reconnect_loop ops tel env (Suc n) i err = attempt (reconnectAttempt ops tel (env i)) (\<lambda>r. case r of
     Inl e \<Rightarrow> reconnect_loop ops tel env n (Suc i) (Some e)
   | Inr _ \<Rightarrow> ret (Some (Suc i)))"

definition reconnect_on_error :: "'c wg_ops \<Rightarrow> bool \<Rightarrow> int \<Rightarrow> (nat \<Rightarrow> attempt_env) \<Rightarrow> ('c, nat option) vop" where
  "reconnect_on_error ops tel attempts env = reconnect_loop ops tel env (nat attempts) 0 None"

section \<open>A configured tunnel\<close>

definition synced :: "('c \<Rightarrow> pb_peer list \<Rightarrow> bool) \<Rightarrow> 'c vpns \<Rightarrow> bool" where
  "synced holds s \<longleftrightarrow> vp_wgc s \<and> cfg_wg s \<noteq> None \<and> holds (vp_client s) (cfg_peers s)"

text \<open>What the orchestrator sends: peers with different keys, each with an allowed address.\<close>

definition well_keyed :: "(pb_peer list \<Rightarrow> bool) \<Rightarrow> pb_peer list \<Rightarrow> bool" where
  "well_keyed fit ps \<longleftrightarrow> fit ps \<and> (\<forall>p\<in>set ps. pp_allowed p \<noteq> [])"

fun ntf_ok :: "(pb_peer list \<Rightarrow> bool) \<Rightarrow> 'c vpns \<Rightarrow> server_ntf \<Rightarrow> bool" where
  "ntf_ok fit s (ConfigNtf w) = well_keyed fit (wg_peers w)"
| "ntf_ok fit s (PeerNtf AddPeerOp (Some p)) = fit (cfg_peers s @ [p])"
| "ntf_ok fit s _ = True"

lemma run_on_client [run]:
  "on_client m s = (Inr y, s') \<longleftrightarrow> (\<exists>c. m (vp_client s) = (Inr y, c) \<and> s' = s\<lparr>vp_client := c\<rparr>)"
  by (auto simp: on_client_def split: prod.splits)

lemma run_the_client [run]:
  "the_client m s = (Inr y, s') \<longleftrightarrow> vp_wgc s \<and> (\<exists>c. m (vp_client s) = (Inr y, c) \<and> s' = s\<lparr>vp_client := c\<rparr>)"
  by (auto simp: the_client_def run)

lemma run_attempt:
  "attempt m k s = (Inr y, s') \<longleftrightarrow> (\<exists>r s1. m s = (r, s1) \<and> r \<noteq> Inl Panic \<and> k r s1 = (Inr y, s'))"
  by (auto simp: attempt_def split: prod.splits sum.splits err.splits)

lemma cfg_wg_client [simp]: "cfg_wg (s\<lparr>vp_client := c\<rparr>) = cfg_wg s" "cfg_wg (s\<lparr>vp_wgc := b\<rparr>) = cfg_wg s"
  by (simp_all add: cfg_wg_def)

lemma cfg_peers_client [simp]: "cfg_peers (s\<lparr>vp_client := c\<rparr>) = cfg_peers s"
  by (simp add: cfg_peers_def)

lemma run_update_existing:
  "updateExistingWGConfigInternally w s = (Inr u, s') \<Longrightarrow>
     vp_client s' = vp_client s \<and> vp_wgc s' = vp_wgc s \<and> cfg_wg s' = Some w"
  by (auto simp: updateExistingWGConfigInternally_def run run_modify cfg_wg_def split: option.splits)

lemma run_set_peers:
  "set_peers ps s = (Inr u, s') \<Longrightarrow>
     vp_client s' = vp_client s \<and> vp_wgc s' = vp_wgc s \<and> cfg_wg s' \<noteq> None \<and> cfg_peers s' = ps"
  by (auto simp: set_peers_def run run_modify cfg_wg_def cfg_peers_def split: option.splits)

lemma run_or_scratch:
  assumes "or_scratch ops w m k s = (Inr u, s')"
  obtains s1 where "reconfigureWireGuardVPNFromScratch ops w s1 = (Inr u, s')"
  | c where "vp_wgc s" "m (vp_client s) = (Inr (), c)" "k (s\<lparr>vp_client := c\<rparr>) = (Inr u, s')"
proof -
  from assms obtain r s1 where "the_client m s = (r, s1)"
    "(case r of Inl _ \<Rightarrow> reconfigureWireGuardVPNFromScratch ops w | Inr _ \<Rightarrow> k) s1 = (Inr u, s')"
    unfolding or_scratch_def run_attempt by blast
  with that show thesis by (cases r) (auto simp: run)
qed

lemma mset_filter_both:
  assumes "distinct xs" "distinct ys"
  shows "mset (filter (\<lambda>x. x \<in> set ys) xs @ filter (\<lambda>y. y \<notin> set xs) ys) = mset ys"
proof -
  have "mset (filter (\<lambda>x. x \<in> set ys) xs) = mset (filter (\<lambda>y. y \<in> set xs) ys)"
    by (subst set_eq_iff_mset_eq_distinct [symmetric]) (use assms in auto)
  then show ?thesis using multiset_partition [of "mset ys" "\<lambda>y. y \<in> set xs"] by simp
qed

lemma swap_remove_mset: "i < length xs \<Longrightarrow> add_mset (xs ! i) (mset (swap_remove i xs)) = mset xs"
proof (cases xs rule: rev_cases)
  case (snoc ys z)
  assume "i < length xs"
  with snoc show ?thesis
    by (cases "i < length ys") (auto simp: swap_remove_def list_update_append nth_append mset_update not_less)
qed simp

lemma find_index_Some: "find_index P xs = Some i \<Longrightarrow> i < length xs \<and> P (xs ! i)"
  by (induction xs arbitrary: i) (auto split: if_splits)

lemma run_answer_ok:
  "answer_notification ops n s = (Inr (RpcOk, e), s') \<longleftrightarrow> e = None \<and> handle_notification ops n s = (Inr (), s')"
  by (auto simp: answer_notification_def attempt_def ret_def split: prod.splits sum.splits err.splits)

lemma run_update_peers [consumes 1, case_names 1 2]:
  assumes "update_peers ops old new s = (Inr u, s')"
  obtains "filter (\<lambda>p. p \<notin> set (wg_peers new)) (wg_peers old) = []"
    "(if filter (\<lambda>p. p \<notin> set (wg_peers old)) (wg_peers new) = [] then updateExistingWGConfigInternally new
      else or_scratch ops new (op_AddPeers ops (filter (\<lambda>p. p \<notin> set (wg_peers old)) (wg_peers new)))
        (updateExistingWGConfigInternally new)) s = (Inr u, s')"
  | p where "p \<in> set (filter (\<lambda>p. p \<notin> set (wg_peers new)) (wg_peers old))"
    "or_scratch ops new (op_DelPeers ops (filter (\<lambda>p. p \<notin> set (wg_peers new)) (wg_peers old)))
      (if filter (\<lambda>p. p \<notin> set (wg_peers old)) (wg_peers new) = [] then updateExistingWGConfigInternally new
       else or_scratch ops new (op_AddPeers ops (filter (\<lambda>p. p \<notin> set (wg_peers old)) (wg_peers new)))
        (updateExistingWGConfigInternally new)) s = (Inr u, s')"
proof (cases "filter (\<lambda>p. p \<notin> set (wg_peers new)) (wg_peers old) = []")
  case True
  with assms show thesis by (intro that(1)) (auto simp: update_peers_def Let_def split: if_splits)
next
  case False
  then obtain p where "p \<in> set (filter (\<lambda>p. p \<notin> set (wg_peers new)) (wg_peers old))" by (meson last_in_set)
  then show thesis
    by (rule that(2)) (use assms False in \<open>auto simp: update_peers_def Let_def split: if_splits\<close>)
qed

text \<open>The part of the state the tunnel depends on.\<close>

definition same_config :: "'c vpns \<Rightarrow> 'c vpns \<Rightarrow> bool" where
  "same_config s s' \<longleftrightarrow> vp_client s' = vp_client s \<and> vp_wgc s' = vp_wgc s \<and> vp_cfg s' = vp_cfg s"

lemma synced_same: "same_config s s' \<Longrightarrow> synced holds s \<Longrightarrow> synced holds s'"
  by (simp add: same_config_def synced_def cfg_peers_def cfg_wg_def)

lemma run_subscribe: "subscribeForChanges c s = (Inr u, s') \<Longrightarrow> same_config s s'"
  by (auto simp: subscribeForChanges_def run run_modify same_config_def split: cfg_type.splits)

lemma requestConfiguration_Inr: "requestConfiguration e = Inr c \<longleftrightarrow> ae_config e = Inr (Some c)"
  by (auto simp: requestConfiguration_def split: sum.splits option.splits)

lemma run_Connect:
  assumes "vp_Connect ops tel initial e s = (Inr u, s')"
  obtains c s1 s2 where "ae_config e = Inr (Some c)" "vp_client s1 = vp_client s" "vp_wgc s1 = vp_wgc s" "same_config s2 s'"
    "if initial then vp_cfg s1 = Some c \<and> configureVPN ops c s1 = (Inr (), s2)
     else vp_cfg s1 = vp_cfg s \<and> reconfigureVPN ops c s1 = (Inr (), s2)"
proof -
  let ?body = "\<lambda>c. if initial
       then bind_do (modify (vp_cfg_update (\<lambda>_. Some c))) (\<lambda>_.
              try_do (configureVPN ops c) (wrapv ''could not setup VPN'') ret)
       else try_do (reconfigureVPN ops c) (wrapv ''could not reconfigure VPN'') ret"
  obtain c s2 where c: "ae_config e = Inr (Some c)"
    and body: "?body c (s\<lparr>vp_conn := ae_conn e = None\<rparr>) = (Inr (), s2)" and "same_config s2 s'"
  proof -
    obtain c s2 s3 v where "ae_config e = Inr (Some c)" "?body c (s\<lparr>vp_conn := ae_conn e = None\<rparr>) = (Inr (), s2)"
      "s3 = s2 \<or> s3 = s2\<lparr>vp_sending := True\<rparr>" "subscribeForChanges v s3 = (Inr (), s')"
      using assms unfolding vp_Connect_def
      by (cases "ae_conn e"; cases "ae_telemetry e")
        (simp_all add: run run_modify requestConfiguration_Inr split: option.splits if_splits, blast+)
    with that show thesis using run_subscribe by (fastforce simp: same_config_def)
  qed
  let ?s = "s\<lparr>vp_conn := ae_conn e = None\<rparr>"
  show thesis
    by (rule that [where ?s1.0 = "if initial then ?s\<lparr>vp_cfg := Some c\<rparr> else ?s"])
      (use c body \<open>same_config s2 s'\<close> in \<open>auto simp: run run_modify split: if_splits\<close>)
qed

context wg_client
begin

lemma scratch_peers:
  assumes "reconfigureWireGuardVPNFromScratch ops w s = (Inr u, s')" "fit (wg_peers w)"
  shows "\<forall>p\<in>set (wg_peers w). pp_allowed p = []"
    "\<exists>c. holds c (wg_peers w) \<and> op_AddPeers ops (wg_peers w) c = (Inr (), vp_client s') \<and> vp_wgc s' \<and> cfg_wg s' = Some w"
proof -
  obtain s1 c1 c2 c3 where "op_NewClient ops (vp_client s1) = (Inr (), c1)" "op_AddWireGuard ops w c1 = (Inr (), c2)"
    and a: "op_AddPeers ops (wg_peers w) c2 = (Inr (), c3)"
    and upd: "updateExistingWGConfigInternally w (s1\<lparr>vp_wgc := True, vp_client := c3\<rparr>) = (Inr u, s')"
    using assms(1) by (auto simp: reconfigureWireGuardVPNFromScratch_def configureWireGuardVPN_def run run_modify)
  then have c2: "holds c2 (wg_peers w)" using assms(2) new_client add_wireguard by blast
  with no_second_add a show "\<forall>p\<in>set (wg_peers w). pp_allowed p = []" by blast
  show "\<exists>c. holds c (wg_peers w) \<and> op_AddPeers ops (wg_peers w) c = (Inr (), vp_client s') \<and> vp_wgc s' \<and> cfg_wg s' = Some w"
    using c2 a run_update_existing [OF upd] by auto
qed

lemma scratch_run:
  assumes "reconfigureWireGuardVPNFromScratch ops w s = (Inr u, s')" "well_keyed fit (wg_peers w)"
  shows "vp_wgc s' \<and> cfg_wg s' = Some w \<and> holds (vp_client s') (wg_peers w)"
proof -
  from assms(2) have d: "fit (wg_peers w)" by (simp add: well_keyed_def)
  have e: "wg_peers w = []"
  proof (rule ccontr)
    assume "wg_peers w \<noteq> []"
    then obtain p where "p \<in> set (wg_peers w)" by (meson last_in_set)
    with scratch_peers(1) [OF assms(1) d] assms(2) show False by (simp add: well_keyed_def)
  qed
  from scratch_peers(2) [OF assms(1) d] obtain c where "holds c (wg_peers w)"
    "op_AddPeers ops (wg_peers w) c = (Inr (), vp_client s')" "vp_wgc s'" "cfg_wg s' = Some w" by blast
  with e add_peers [of c "[]" "[]"] holds_fit show ?thesis by auto
qed

lemma update_run:
  assumes "updateExistingWGConfigInternally w s = (Inr u, s')" "vp_wgc s" "holds (vp_client s) (wg_peers w)"
  shows "vp_wgc s' \<and> cfg_wg s' = Some w \<and> holds (vp_client s') (wg_peers w)"
  using run_update_existing [OF assms(1)] assms(2,3) by simp

lemma or_scratch_run:
  assumes "or_scratch ops w m k s = (Inr u, s')" "well_keyed fit (wg_peers w)"
    and "\<And>c. m (vp_client s) = (Inr (), c) \<Longrightarrow> k (s\<lparr>vp_client := c\<rparr>) = (Inr u, s') \<Longrightarrow>
      vp_wgc s' \<and> cfg_wg s' = Some w \<and> holds (vp_client s') (wg_peers w)"
  shows "vp_wgc s' \<and> cfg_wg s' = Some w \<and> holds (vp_client s') (wg_peers w)"
  using assms(1) by (rule run_or_scratch) (use assms(2,3) scratch_run in blast)+

lemma add_all_run:
  assumes "(if toAdd = [] then updateExistingWGConfigInternally new
      else or_scratch ops new (op_AddPeers ops toAdd) (updateExistingWGConfigInternally new)) s = (Inr u, s')"
    and "vp_wgc s" "holds (vp_client s) kept" "mset (kept @ toAdd) = mset (wg_peers new)" "well_keyed fit (wg_peers new)"
  shows "vp_wgc s' \<and> cfg_wg s' = Some new \<and> holds (vp_client s') (wg_peers new)"
proof (cases "toAdd = []")
  case True
  with assms show ?thesis by (intro update_run) (auto intro: holds_perm)
next
  case False
  have dist: "fit (kept @ toAdd)"
    using assms(4,5) fit_perm [of "wg_peers new" "kept @ toAdd"] by (simp add: well_keyed_def)
  from False assms(1) have "or_scratch ops new (op_AddPeers ops toAdd) (updateExistingWGConfigInternally new) s = (Inr u, s')"
    by simp
  then show ?thesis
  proof (rule or_scratch_run [OF _ assms(5)])
    fix c assume c: "op_AddPeers ops toAdd (vp_client s) = (Inr (), c)"
      and upd: "updateExistingWGConfigInternally new (s\<lparr>vp_client := c\<rparr>) = (Inr u, s')"
    have "holds c (wg_peers new)" using holds_perm [OF add_peers [OF assms(3) dist c] assms(4)] .
    then show "vp_wgc s' \<and> cfg_wg s' = Some new \<and> holds (vp_client s') (wg_peers new)"
      using assms(2) by (intro update_run [OF upd]) simp_all
  qed
qed

text \<open>The peers of the new configuration are there already.\<close>

lemma update_peers_replaced:
  assumes run: "update_peers ops old new s = (Inr u, s')" and s: "vp_wgc s" "holds (vp_client s) (wg_peers new)"
    and new: "well_keyed fit (wg_peers new)" and replaces
  shows "vp_wgc s' \<and> cfg_wg s' = Some new \<and> holds (vp_client s') (wg_peers new)"
proof -
  have add: "\<exists>p\<in>set xs. p \<in> set (wg_peers new) \<and> pp_allowed p \<noteq> []"
    if "xs = filter (\<lambda>p. p \<notin> set (wg_peers old)) (wg_peers new)" "xs \<noteq> []" for xs
    using that new by (metis filter_is_subset last_in_set subsetD well_keyed_def)
  from run show ?thesis
  proof (cases rule: run_update_peers)
    case 1
    show ?thesis
    proof (cases "filter (\<lambda>p. p \<notin> set (wg_peers old)) (wg_peers new) = []")
      case True
      with 1(2) s show ?thesis by (intro update_run) simp_all
    next
      case False
      with 1(2) have "or_scratch ops new (op_AddPeers ops (filter (\<lambda>p. p \<notin> set (wg_peers old)) (wg_peers new)))
        (updateExistingWGConfigInternally new) s = (Inr u, s')" by simp
      then show ?thesis
        by (rule or_scratch_run [OF _ new]) (use no_second_add [OF s(2)] add False in blast)
    qed
  next
    case (2 p)
    then have "p \<notin> set (wg_peers new)" by simp
    from or_scratch_run [OF 2(2) new] del_absent [OF assms(5) s(2) 2(1) this] show ?thesis by blast
  qed
qed

lemma update_peers_run:
  assumes run: "update_peers ops old new s = (Inr u, s')" and s: "vp_wgc s" "holds (vp_client s) (wg_peers old)"
    and new: "well_keyed fit (wg_peers new)"
  shows "vp_wgc s' \<and> cfg_wg s' = Some new \<and> holds (vp_client s') (wg_peers new)"
proof -
  let ?del = "filter (\<lambda>p. p \<notin> set (wg_peers new)) (wg_peers old)"
  let ?kept = "filter (\<lambda>p. p \<in> set (wg_peers new)) (wg_peers old)"
  let ?add = "filter (\<lambda>p. p \<notin> set (wg_peers old)) (wg_peers new)"
  have "distinct (wg_peers old)" "distinct (wg_peers new)"
    using holds_fit [OF s(2)] new fit_distinct by (auto simp: well_keyed_def)
  note parts = mset_filter_both [OF this]
  from run show ?thesis
  proof (cases rule: run_update_peers)
    case 1
    then have "?kept = wg_peers old" by (auto simp: filter_empty_conv filter_id_conv)
    with 1 parts s new show ?thesis by (intro add_all_run [OF 1(2)]) auto
  next
    case 2
    from 2(2) show ?thesis
    proof (rule or_scratch_run [OF _ new])
      fix c assume c: "op_DelPeers ops ?del (vp_client s) = (Inr (), c)"
        and rest: "(if ?add = [] then updateExistingWGConfigInternally new
          else or_scratch ops new (op_AddPeers ops ?add) (updateExistingWGConfigInternally new))
          (s\<lparr>vp_client := c\<rparr>) = (Inr u, s')"
      have "mset (wg_peers old) = mset (?del @ ?kept)" by (simp add: multiset_partition [symmetric] add.commute)
      then have "holds c ?kept" using del_peers [OF holds_perm [OF s(2)] c] by blast
      with parts s new show "vp_wgc s' \<and> cfg_wg s' = Some new \<and> holds (vp_client s') (wg_peers new)"
        by (intro add_all_run [OF rest]) auto
    qed
  qed
qed

lemma reconfigure_run:
  assumes run: "reconfigureWireGuardVPN ops new s = (Inr u, s')" and s: "synced holds s"
    and new: "well_keyed fit (wg_peers new)"
  shows "vp_wgc s' \<and> cfg_wg s' = Some new \<and> holds (vp_client s') (wg_peers new)"
proof -
  from s obtain old where old: "vp_wgc s" "cfg_wg s = Some old" "holds (vp_client s) (wg_peers old)"
    by (auto simp: synced_def cfg_peers_def)
  show ?thesis
  proof (cases "wg_name old \<noteq> wg_name new \<or> wg_iface old \<noteq> wg_iface new")
    case True
    with run old have "or_scratch ops new (op_UpdateWireGuardInterface ops new) (update_peers ops old new) s = (Inr u, s')"
      by (simp add: reconfigureWireGuardVPN_def Prelude.run)
    then show ?thesis
    proof (rule or_scratch_run [OF _ new])
      fix c assume "op_UpdateWireGuardInterface ops new (vp_client s) = (Inr (), c)"
        and rest: "update_peers ops old new (s\<lparr>vp_client := c\<rparr>) = (Inr u, s')"
      with old new update_iface consider "holds c (wg_peers old)" | "replaces" "holds c (wg_peers new)"
        unfolding well_keyed_def by blast
      then show "vp_wgc s' \<and> cfg_wg s' = Some new \<and> holds (vp_client s') (wg_peers new)"
        using old rest update_peers_run [OF rest _ _ new] update_peers_replaced [OF rest _ _ new] by cases simp_all
    qed
  next
    case False
    with run old have "update_peers ops old new s = (Inr u, s')" by (simp add: reconfigureWireGuardVPN_def Prelude.run)
    then show ?thesis by (rule update_peers_run [OF _ old(1,3) new])
  qed
qed

lemma answer_ok:
  assumes run: "answer_notification ops n s = (Inr (RpcOk, e), s')" and s: "synced holds s" and n: "ntf_ok fit s n"
  shows "synced holds s'"
proof -
  from run have h: "handle_notification ops n s = (Inr (), s')" by (simp add: run_answer_ok)
  from s have s': "vp_wgc s" "cfg_wg s \<noteq> None" "holds (vp_client s) (cfg_peers s)" by (simp_all add: synced_def)
  show ?thesis
  proof (cases n)
    case (ConfigNtf w)
    with h n have "reconfigureWireGuardVPN ops w s = (Inr (), s')" "well_keyed fit (wg_peers w)" by (simp_all add: Prelude.run)
    with reconfigure_run [OF this(1) s] show ?thesis by (simp add: synced_def cfg_peers_def)
  next
    case (PeerNtf k q)
    consider p where "k = AddPeerOp" "q = Some p" | p where "k = DelPeerOp" "q = Some p"
      using h PeerNtf by (cases k; cases q) (auto simp: Prelude.run)
    then show ?thesis
    proof cases
      case (1 p)
      then obtain c where c: "op_AddPeers ops [p] (vp_client s) = (Inr (), c)"
        "set_peers (cfg_peers s @ [p]) (s\<lparr>vp_client := c\<rparr>) = (Inr (), s')"
        using h PeerNtf by (auto simp: Prelude.run)
      have "fit (cfg_peers s @ [p])" using n 1 PeerNtf by simp
      from add_peers [OF s'(3) this c(1)] run_set_peers [OF c(2)] s'(1) show ?thesis by (simp add: synced_def)
    next
      case (2 p)
      then obtain i c where i: "find_index (\<lambda>q. pp_public_key q = pp_public_key p) (cfg_peers s) = Some i"
        and c: "op_DelPeers ops [cfg_peers s ! i] (vp_client s) = (Inr (), c)"
        "set_peers (swap_remove i (cfg_peers s)) (s\<lparr>vp_client := c\<rparr>) = (Inr (), s')"
        using h PeerNtf by (auto simp: Prelude.run split: option.splits)
      have "mset (cfg_peers s) = mset ([cfg_peers s ! i] @ swap_remove i (cfg_peers s))"
        using swap_remove_mset find_index_Some [OF i] by fastforce
      from del_peers [OF holds_perm [OF s'(3) this] c(1)] run_set_peers [OF c(2)] s'(1) show ?thesis
        by (simp add: synced_def)
    qed
  next
    case OtherNtf
    with h show ?thesis by (simp add: Prelude.run)
  qed
qed

lemma connect_run:
  assumes run: "vp_Connect ops tel True e s = (Inr u, s')"
    and cfg: "\<And>c w. ae_config e = Inr (Some c) \<Longrightarrow> vc_wg c = Some w \<Longrightarrow> fit (wg_peers w)"
  shows "synced holds s'"
proof -
  obtain c s1 s3 where c: "ae_config e = Inr (Some c)" "vp_cfg s1 = Some c" "configureVPN ops c s1 = (Inr (), s3)"
    and s3: "same_config s3 s'" by (rule run_Connect [OF run]) auto
  then obtain w where w: "vc_wg c = Some w" "configureWireGuardVPN ops w s1 = (Inr (), s3)"
    by (auto simp: configureVPN_def Prelude.run split: cfg_type.splits option.splits)
  then obtain c1 where c1: "op_NewClient ops (vp_client s1) = (Inr (), c1)" "op_AddWireGuard ops w c1 = (Inr (), vp_client s3)"
    "vp_wgc s3" "vp_cfg s3 = vp_cfg s1"
    by (auto simp: configureWireGuardVPN_def Prelude.run run_modify)
  with new_client add_wireguard cfg [OF c(1) w(1)] have "holds (vp_client s3) (wg_peers w)" by blast
  with w c c1 have "synced holds s3" by (simp add: synced_def cfg_wg_def cfg_peers_def)
  with s3 show ?thesis by (rule synced_same)
qed

lemma reconnect_run:
  assumes run: "reconnectAttempt ops tel e s = (Inr u, s')" and s: "synced holds s"
    and cfg: "\<And>c w. ae_config e = Inr (Some c) \<Longrightarrow> vc_wg c = Some w \<Longrightarrow> well_keyed fit (wg_peers w)"
  shows "synced holds s'"
proof -
  have "vp_Connect ops tel False e (s\<lparr>vp_updates := False, vp_sending := False, vp_conn := False\<rparr>) = (Inr u, s')"
    using run by (auto simp: reconnectAttempt_def vp_Disconnect_def Prelude.run run_modify)
  then obtain c s1 s2 where c: "ae_config e = Inr (Some c)" and s1: "same_config s s1"
    and s2: "reconfigureVPN ops c s1 = (Inr (), s2)" "same_config s2 s'"
    by (rule run_Connect) (auto simp: same_config_def)
  from s1 s have "synced holds s1" by (rule synced_same)
  have "synced holds s2"
  proof (cases "vp_cfg s1 = Some c")
    case True
    with s2 \<open>synced holds s1\<close> show ?thesis by (simp add: reconfigureVPN_def Prelude.run)
  next
    case False
    with s2 obtain w where w: "vc_wg c = Some w" "reconfigureWireGuardVPN ops w s1 = (Inr (), s2)"
      by (auto simp: reconfigureVPN_def Prelude.run split: option.splits cfg_type.splits)
    from reconfigure_run [OF w(2) \<open>synced holds s1\<close> cfg [OF c w(1)]] show ?thesis by (simp add: synced_def cfg_peers_def)
  qed
  with s2(2) show ?thesis by (rule synced_same)
qed

end

section \<open>Runs of the server\<close>

text \<open>
  \<open>served ops fit s s'\<close>: from \<open>s\<close> the server has answered notifications with OK and reconnected any
  number of times; what the orchestrator sent was well-formed.
\<close>

definition sends :: "(pb_peer list \<Rightarrow> bool) \<Rightarrow> attempt_env \<Rightarrow> bool" where
  "sends P e = (case ae_config e of Inr (Some c) \<Rightarrow> (case vc_wg c of Some w \<Rightarrow> P (wg_peers w) | None \<Rightarrow> True) | _ \<Rightarrow> True)"

inductive served :: "'c wg_ops \<Rightarrow> (pb_peer list \<Rightarrow> bool) \<Rightarrow> 'c vpns \<Rightarrow> 'c vpns \<Rightarrow> bool" for ops fit where
  served_refl: "served ops fit s s"
| served_notification: "served ops fit s s1 \<Longrightarrow> ntf_ok fit s1 n \<Longrightarrow>
    answer_notification ops n s1 = (Inr (RpcOk, e), s2) \<Longrightarrow> served ops fit s s2"
| served_reconnect: "served ops fit s s1 \<Longrightarrow> sends (well_keyed fit) e \<Longrightarrow>
    reconnectAttempt ops tel e s1 = (Inr (), s2) \<Longrightarrow> served ops fit s s2"

context wg_client
begin

lemma served_synced: "served ops fit s s' \<Longrightarrow> synced holds s \<Longrightarrow> synced holds s'"
proof (induction rule: served.induct)
  case (served_notification s s1 n e s2)
  then show ?case using answer_ok by blast
next
  case (served_reconnect s s1 e tel s2)
  then have "\<And>c w. ae_config e = Inr (Some c) \<Longrightarrow> vc_wg c = Some w \<Longrightarrow> well_keyed fit (wg_peers w)"
    by (auto simp: sends_def)
  with served_reconnect show ?case using reconnect_run by blast
qed

lemma connected_synced:
  assumes "vp_Connect ops tel True e s = (Inr u, s')" "sends fit e"
  shows "synced holds s'"
  using assms(1) by (rule connect_run) (use assms(2) in \<open>auto simp: sends_def\<close>)

end

text \<open>The same for the Linux client.\<close>

context lawful_kernel
begin

lemma linux_tunnel:
  assumes "vp_Connect (linux_client nl) tel True e s = (Inr u, s1)" "sends (other_keys nl) e"
    and "served (linux_client nl) (other_keys nl) s1 s2"
  shows "synced (carries nl peers routes) s2"
  using assms(3) lx.connected_synced [OF assms(1,2)] by (rule lx.served_synced)

lemmas linux_scratch = lx.scratch_peers(1)

end

text \<open>A new value of \<open>telemetry_enabled\<close> is not stored by a reconfiguration.\<close>

lemma telemetry_flag_kept:
  fixes ops :: "'c wg_ops"
  assumes "vp_cfg s = Some c"
  shows "\<exists>c'. vp_cfg (snd (reconfigureVPN ops new s)) = Some c' \<and> vc_telemetry c' = vc_telemetry c"
proof -
  let ?I = "\<lambda>s :: 'c vpns. \<exists>c'. vp_cfg s = Some c' \<and> vc_telemetry c' = vc_telemetry c"
  have commit: "preserves ?I (updateExistingWGConfigInternally w)" for w
    by (auto simp: preserves_def updateExistingWGConfigInternally_def try_do_def gets_def guard_do_def throw_def modify_def
        split: option.splits)
  have client: "preserves ?I (on_client m)" for m :: "('c, 'a) op"
    by (auto simp: preserves_def on_client_def split: prod.splits)
  have wgc: "preserves ?I (modify (vp_wgc_update f))" for f by (auto simp: preserves_def modify_def)
  have "preserves ?I (reconfigureVPN ops new)"
    unfolding reconfigureVPN_def reconfigureWireGuardVPN_def update_peers_def or_scratch_def the_client_def
      reconfigureWireGuardVPNFromScratch_def configureWireGuardVPN_def Let_def
    by (auto intro!: pres commit client wgc split: cfg_type.split)
  with assms show ?thesis by (auto simp: preserves_def)
qed

text \<open>A server on the simulated kernel: it connects, a peer is added, another is removed.\<close>

definition sample_peer :: "string \<Rightarrow> pb_peer" where
  "sample_peer n = \<lparr>pp_public_key = ''key'' @ n, pp_psk = [], pp_allowed = [''10.0.0.'' @ n @ ''/32''],
     pp_endpoint = [], pp_keepalive = [], pp_hc_endpoint = []\<rparr>"

definition sample_wg :: "pb_peer list \<Rightarrow> pb_wg" where
  "sample_wg ps = \<lparr>wg_name = ''wg0'', wg_iface = Some \<lparr>pi_private_key = ''priv'', pi_addresses = [''10.0.0.254/24''],
     pi_port = [], pi_dns = [], pi_mtu = []\<rparr>, wg_peers = ps\<rparr>"

definition sample_attempt :: attempt_env where
  "sample_attempt = \<lparr>ae_conn = None, ae_config = Inr (Some \<lparr>vc_type = WireguardType, vc_telemetry = False,
     vc_wg = Some (sample_wg [sample_peer ''1'', sample_peer ''2''])\<rparr>), ae_telemetry = None\<rparr>"

definition sample_start :: "sim_kernel linux vpns" where
  "sample_start = \<lparr>vp_client = \<lparr>cl_kernel = no_link, cl_iface = None, cl_cfg = None, cl_dev = None\<rparr>,
     vp_wgc = False, vp_cfg = None, vp_conn = False, vp_updates = False, vp_sending = False\<rparr>"

definition sample_connected :: "sim_kernel linux vpns" where
  "sample_connected = snd (vp_Connect (linux_client sim_netlink) False True sample_attempt sample_start)"

definition sample_added :: "sim_kernel linux vpns" where
  "sample_added = snd (answer_notification (linux_client sim_netlink)
     (PeerNtf AddPeerOp (Some (sample_peer ''3''))) sample_connected)"

definition sample_removed :: "sim_kernel linux vpns" where
  "sample_removed = snd (answer_notification (linux_client sim_netlink)
     (PeerNtf DelPeerOp (Some (sample_peer ''1''))) sample_added)"

lemma sample_run:
  "vp_Connect (linux_client sim_netlink) False True sample_attempt sample_start = (Inr (), sample_connected)"
  "sends (other_keys sim_netlink) sample_attempt"
  "served (linux_client sim_netlink) (other_keys sim_netlink) sample_connected sample_removed"
proof -
  let ?ops = "linux_client sim_netlink"
  have "fst (vp_Connect ?ops False True sample_attempt sample_start) = Inr ()" by code_simp
  then show "vp_Connect ?ops False True sample_attempt sample_start = (Inr (), sample_connected)"
    by (simp add: sample_connected_def prod_eq_iff)
  show "sends (other_keys sim_netlink) sample_attempt" by code_simp
  have a: "fst (answer_notification ?ops (PeerNtf AddPeerOp (Some (sample_peer ''3''))) sample_connected) = Inr (RpcOk, None)"
    and d: "fst (answer_notification ?ops (PeerNtf DelPeerOp (Some (sample_peer ''1''))) sample_added) = Inr (RpcOk, None)"
    by code_simp+
  have "served ?ops (other_keys sim_netlink) sample_connected sample_added"
  proof (rule served_notification [OF served_refl])
    show "ntf_ok (other_keys sim_netlink) sample_connected (PeerNtf AddPeerOp (Some (sample_peer ''3'')))" by code_simp
    show "answer_notification ?ops (PeerNtf AddPeerOp (Some (sample_peer ''3''))) sample_connected = (Inr (RpcOk, None), sample_added)"
      using a by (simp add: sample_added_def prod_eq_iff)
  qed
  then show "served ?ops (other_keys sim_netlink) sample_connected sample_removed"
  proof (rule served_notification)
    show "ntf_ok (other_keys sim_netlink) sample_added (PeerNtf DelPeerOp (Some (sample_peer ''1'')))" by simp
    show "answer_notification ?ops (PeerNtf DelPeerOp (Some (sample_peer ''1''))) sample_added = (Inr (RpcOk, None), sample_removed)"
      using d by (simp add: sample_removed_def prod_eq_iff)
  qed
qed

section \<open>Properties\<close>



text \<open>C30. The rebuild from scratch never succeeds for a configuration with a peer that has an allowed
  address: the new tunnel is created with all peers and routes, and then every peer is added once more.\<close>

theorem rebuild_from_scratch_fails:
  assumes "lawful_kernel nl peers routes" and "other_keys nl (wg_peers w)"
    and "p \<in> set (wg_peers w)" and "pp_allowed p \<noteq> []"
  shows "fst (reconfigureWireGuardVPNFromScratch (linux_client nl) w s) \<noteq> Inr ()"
proof
  assume "fst (reconfigureWireGuardVPNFromScratch (linux_client nl) w s) = Inr ()"
  then obtain s' where "reconfigureWireGuardVPNFromScratch (linux_client nl) w s = (Inr (), s')" by (metis prod.collapse)
  from lawful_kernel.linux_scratch [OF assms(1) this assms(2)] assms(3,4) show False by blast
qed

theorem rebuild_from_scratch_fails_witness:
  "fst (reconfigureWireGuardVPNFromScratch (linux_client sim_netlink) (sample_wg [sample_peer ''1'', sample_peer ''2''])
     sample_connected) \<noteq> Inr ()"
  by (rule rebuild_from_scratch_fails [OF sim.lawful_kernel_axioms, where p = "sample_peer ''1''"])
    (simp_all add: sample_wg_def sample_peer_def other_keys_def peer_key_def sim_netlink_def)

end
