(* ===== verification/Rpc_Client.thy ===== *)
theory Rpc_Client
  imports Mfa Devices Vpn_Server
begin

text \<open>
  The service for VPN clients: authentication of a call by password and second factor
  (\<open>src/service/rpc/auth.go\<close>), the configuration of a device (\<open>src/service/rpc/vpnc.go\<close>), new session
  identifiers (\<open>src/service/session/session.go\<close>) and the order of the interceptors
  (\<open>src/service/rpc/server.go\<close>).  The sources of a request are its metadata and its arguments.
\<close>

section \<open>Standard encodings\<close>

text \<open>\<open>base64.StdEncoding\<close>; line ends are skipped, padding is required.\<close>

definition base64_alphabet :: string where
  "base64_alphabet = ''ABCDEFGHIJKLMNOPQRSTUVWXYZabcdefghijklmnopqrstuvwxyz0123456789+/''"

definition base64_char :: "nat \<Rightarrow> char" where
  "base64_char n = base64_alphabet ! n"

definition base64_val :: "char \<Rightarrow> nat option" where
  "base64_val c = find_index (\<lambda>x. x = c) base64_alphabet"

definition byte_char :: "nat \<Rightarrow> char" where
  "byte_char n = char_of (n mod 256)"

fun base64_quads :: "string \<Rightarrow> string option" where
  "base64_quads [] = Some []"
| "base64_quads (a # b # c # e # cs) =
     (case (base64_val a, base64_val b) of
        (Some x, Some y) \<Rightarrow>
          if e = CHR ''='' then
            if cs \<noteq> [] then None
            else if c = CHR ''='' then Some [byte_char (x * 4 + y div 16)]
            else (case base64_val c of
                    Some z \<Rightarrow> Some [byte_char (x * 4 + y div 16), byte_char (y * 16 + z div 4)]
                  | None \<Rightarrow> None)
          else (case (base64_val c, base64_val e) of
                  (Some z, Some t) \<Rightarrow> map_option
                    (append [byte_char (x * 4 + y div 16), byte_char (y * 16 + z div 4), byte_char (z * 64 + t)])
                    (base64_quads cs)
                | _ \<Rightarrow> None)
      | _ \<Rightarrow> None)"
| "base64_quads _ = None"

definition base64_decode :: "string \<Rightarrow> string option" where
  "base64_decode s = base64_quads (filter (\<lambda>c. c \<noteq> CHR 0x0A \<and> c \<noteq> CHR 0x0D) s)"

definition hex_digit :: "nat \<Rightarrow> char" where
  "hex_digit n = ''0123456789abcdef'' ! n"

definition hex_encode :: "8 word list \<Rightarrow> string" where
  "hex_encode bs = concat (map (\<lambda>b. [hex_digit (unat b div 16), hex_digit (unat b mod 16)]) bs)"

section \<open>Requests\<close>

text \<open>\<open>None\<close> is a context without metadata; keys are in lower case.\<close>

type_synonym metadata = "(string \<Rightarrow> string list option) option"

record user_metadata =
  um_user_id :: int
  um_mfa_type :: string
  um_notification :: string

record rpc_ctx =
  rc_meta :: metadata
  rc_user :: "user_metadata option"

datatype grpc_code = Unauthenticated | InternalError | ResourceExhausted

text \<open>The error of a call: a gRPC status, with the details \<open>mfaType\<close> and \<open>Reason\<close>, or another error.\<close>

datatype reason = NoReason | Reason string | ErrReason err

datatype rpc_err = Status grpc_code string string reason | PlainErr err

type_synonym 'a rpc = "(rpc_err + 'a) wop"

definition rpc_then :: "'a rpc \<Rightarrow> ('a \<Rightarrow> 'b rpc) \<Rightarrow> 'b rpc" where
  "rpc_then m k = bind_do m (\<lambda>r. case r of Inl e \<Rightarrow> ret (Inl e) | Inr x \<Rightarrow> k x)"

definition refuse :: "string \<Rightarrow> 'a rpc" where
  "refuse msg = ret (Inl (Status Unauthenticated msg [] NoReason))"

text \<open>An operation of a manager whose error becomes the plain error \<open>f e\<close> of the call.\<close>

definition plainly :: "'a wop \<Rightarrow> (err \<Rightarrow> err) \<Rightarrow> ('a \<Rightarrow> 'b rpc) \<Rightarrow> 'b rpc" where
  "plainly m f k = attempt m (\<lambda>r. case r of Inl e \<Rightarrow> ret (Inl (PlainErr (f e))) | Inr x \<Rightarrow> k x)"

definition ExtractHeader :: "rpc_ctx \<Rightarrow> string \<Rightarrow> string + string" where
  "ExtractHeader ctx h = (case rc_meta ctx of
     None \<Rightarrow> Inl ''missing metadata in request''
   | Some md \<Rightarrow> (case md h of
       None \<Rightarrow> Inl ''missing header in request''
     | Some [v] \<Rightarrow> Inr v
     | Some _ \<Rightarrow> Inl ''multiple header values in request''))"

definition purgeHeader :: "rpc_ctx \<Rightarrow> string \<Rightarrow> rpc_ctx" where
  "purgeHeader ctx h = ctx\<lparr>rc_meta := Some ((case rc_meta ctx of None \<Rightarrow> Map.empty | Some md \<Rightarrow> md)(h \<mapsto> []))\<rparr>"

text \<open>The text before and after the first occurrence of a character.\<close>

definition cut :: "char \<Rightarrow> string \<Rightarrow> (string \<times> string) option" where
  "cut c s = (if c \<in> set s then Some (takeWhile (\<lambda>x. x \<noteq> c) s, tl (dropWhile (\<lambda>x. x \<noteq> c) s)) else None)"

definition GetCredentialsFromHeader :: "string \<Rightarrow> string + string \<times> string" where
  "GetCredentialsFromHeader h =
     (if \<not> has_prefix ''Basic '' h then Inl ''missing prefix in header''
      else case base64_decode (drop 6 h) of
        None \<Rightarrow> Inl ''invalid base64 in header''
      | Some cs \<Rightarrow> (case cut (CHR '':'') cs of
          None \<Rightarrow> Inl ''invalid basic auth format''
        | Some (n, pw) \<Rightarrow>
            if n = [] \<or> pw = [] then Inl ''name or password are missing in the header'' else Inr (n, pw)))"

definition getMfaFromHeader :: "string \<Rightarrow> string + string \<times> string" where
  "getMfaFromHeader h = (case cut (CHR '' '') h of
     None \<Rightarrow> Inl ''invalid MFA header format''
   | Some (ty, b) \<Rightarrow> (case base64_decode b of
       None \<Rightarrow> Inl ''invalid MFA data in header''
     | Some data \<Rightarrow> if ty = [] \<or> data = [] then Inl ''missing MFA value in header'' else Inr (ty, data)))"

section \<open>Authentication\<close>

abbreviation auth_header :: string where "auth_header \<equiv> ''authorization''"
abbreviation mfa_header :: string where "mfa_header \<equiv> ''x-auth-mfa''"

definition BasicAuth :: "env \<Rightarrow> user_cfg \<Rightarrow> rpc_ctx \<Rightarrow> rpc_ctx rpc" where
  "BasicAuth E C ctx = (case ExtractHeader ctx auth_header of
     Inl _ \<Rightarrow> refuse ''authorization required''
   | Inr h \<Rightarrow> (case GetCredentialsFromHeader h of
       Inl _ \<Rightarrow> refuse ''invalid authorization''
     | Inr (n, pw) \<Rightarrow> attempt (um_GetUserByNameAndPassword E C n pw) (\<lambda>r. case r of
         Inl e \<Rightarrow> if e = Sentinel ErrUserNotFound then refuse ''invalid username or password''
                  else ret (Inl (Status InternalError ''authentication failed'' [] NoReason))
       | Inr u \<Rightarrow> ret (Inr ((purgeHeader ctx auth_header)\<lparr>rc_user :=
           Some \<lparr>um_user_id = au_id u, um_mfa_type = au_mfa u, um_notification = au_ntf u\<rparr>\<rparr>)))))"

definition MfaAuth :: "env \<Rightarrow> mfa_env \<Rightarrow> rpc_ctx \<Rightarrow> rpc_ctx rpc" where
  "MfaAuth E M ctx = (case rc_user ctx of
     None \<Rightarrow> ret (Inl (PlainErr (errors_new ''failed to acquire user MD'')))
   | Some md \<Rightarrow>
       let refused = (\<lambda>msg why. ret (Inl (Status Unauthenticated msg (um_mfa_type md) why)));
           pass = ret (Inr (purgeHeader ctx mfa_header));
           check = (\<lambda>ty creds. attempt (um_MFAAuthenticate E M (um_user_id md) ty creds) (\<lambda>r. case r of
             Inl e \<Rightarrow> refused ''MFA failed'' (ErrReason e)
           | Inr False \<Rightarrow> refused ''MFA failed'' (Reason ''MFA authentication failed'')
           | Inr True \<Rightarrow> pass))
       in if um_mfa_type md = ''none'' then pass
          else case ExtractHeader ctx mfa_header of
            Inl why \<Rightarrow> refused ''MFA required'' (Reason why)
          | Inr h \<Rightarrow> (case getMfaFromHeader h of
              Inl why \<Rightarrow> refused ''MFA invalid'' (Reason why)
            | Inr (ty, data) \<Rightarrow>
                if ty = ''totp'' then check ''totp'' (TotpCreds data)
                else if ty = ''cert'' then check ''cert'' (CertCreds data)
                else refused ''MFA invalid'' (Reason ''unknown MFA type'')))"

section \<open>Configuration of a device\<close>

definition rpc_wireguardConfigToProto :: "api_wg_iface option \<Rightarrow> api_peer list \<Rightarrow> string \<Rightarrow> err + vpn_cfg" where
  "rpc_wireguardConfigToProto cfg adjs hcport = (case cfg of
     None \<Rightarrow> Inl (errors_new ''config is nil'')
   | Some c \<Rightarrow>
       let hc = (\<lambda>p. case peer_server p of
             None \<Rightarrow> []
           | Some s \<Rightarrow> if as_healthcheck s \<noteq> [] \<and> hcport \<noteq> [] then as_healthcheck s @ '':'' @ hcport else []);
           peers = map (\<lambda>p. \<lparr>pp_public_key = pc_public_key (peer_config p), pp_psk = pc_psk (peer_config p),
             pp_allowed = pc_allowed (peer_config p), pp_endpoint = pc_endpoint (peer_config p),
             pp_keepalive = pc_keepalive (peer_config p), pp_hc_endpoint = hc p\<rparr>) adjs
       in Inr \<lparr>vc_type = WireguardType, vc_telemetry = False, vc_wg = Some \<lparr>wg_name = aw_name c,
            wg_iface = Some \<lparr>pi_private_key = aw_private_key c, pi_addresses = aw_addresses c, pi_port = aw_port c,
              pi_dns = aw_dns c, pi_mtu = aw_mtu c\<rparr>, wg_peers = peers\<rparr>\<rparr>)"

definition GenerateSessionID :: "env \<Rightarrow> string wop" where
  "GenerateSessionID E = bind_do (draw (\<lambda>n. env_rand E n 16)) (\<lambda>bs. ret (hex_encode bs))"

record client_request =
  cq_external_id :: string
  cq_device_info :: string

record client_response =
  cr_config :: vpn_cfg
  cr_session :: string

definition vpnc_getConfiguration :: "env \<Rightarrow> string \<Rightarrow> int \<Rightarrow> vpn_cfg wop" where
  "vpnc_getConfiguration E hcport d =
     try_do (vcm_GetDeviceWireGuardConfig E d)
       (\<lambda>e. if errors_is e VcmErrNotFound then wrapv ''device WireGuard config was not found'' e
            else wrapv ''device WireGuard config acquisition failed'' e) (\<lambda>c.
     bind_do (vcm_GetWireGuardDeviceAdjacencies E d) (\<lambda>adjs.
       lift (rpc_wireguardConfigToProto (Some c) adjs hcport)))"

definition vpnc_GetConfiguration :: "env \<Rightarrow> string \<Rightarrow> rpc_ctx \<Rightarrow> client_request \<Rightarrow> client_response rpc" where
  "vpnc_GetConfiguration E hcport ctx req = (case rc_user ctx of
     None \<Rightarrow> ret (Inl (PlainErr (errors_new ''failed to acquire user MD'')))
   | Some md \<Rightarrow>
       plainly (GenerateSessionID E) (wrapv ''GenerateSessionID'') (\<lambda>sid.
       plainly (um_AssignDeviceSlot E (um_user_id md) sid (cq_external_id req) (cq_device_info req)) (wrapv ''AssignDeviceSlot'') (\<lambda>ext.
       plainly (um_GetDeviceByExternalIDAndUserID E ext (um_user_id md)) (wrapv ''GetDeviceByExternalIDAndUserID'') (\<lambda>dev.
       plainly (vpnc_getConfiguration E hcport (ad_id dev)) (wrapv ''getConfiguration'') (\<lambda>conf.
         ret (Inr \<lparr>cr_config = conf, cr_session = sid\<rparr>))))))"

text \<open>A unary call: rate limit, password, second factor, then the handler (\<open>NewServer\<close>).\<close>

definition vpnc_call :: "env \<Rightarrow> user_cfg \<Rightarrow> mfa_env \<Rightarrow> bool \<Rightarrow> (rpc_ctx \<Rightarrow> 'a rpc) \<Rightarrow> metadata \<Rightarrow> 'a rpc" where
  "vpnc_call E C M limited handler md =
     (if limited then ret (Inl (Status ResourceExhausted ''rejected by rate limiter'' [] NoReason))
      else rpc_then (BasicAuth E C \<lparr>rc_meta = md, rc_user = None\<rparr>) (\<lambda>ctx.
           rpc_then (MfaAuth E M ctx) handler))"

section \<open>Who gets a configuration\<close>

lemma run_rpc_then:
  "rpc_then m k w = (Inr (Inr y), w') \<longleftrightarrow> (\<exists>x w1. m w = (Inr (Inr x), w1) \<and> k x w1 = (Inr (Inr y), w'))"
  by (auto simp: rpc_then_def try_do_def ret_def split: prod.splits sum.splits)

lemma rpc_then_error:
  "rpc_then m k w = (Inr (Inl e), w') \<longleftrightarrow> m w = (Inr (Inl e), w') \<or>
     (\<exists>x w1. m w = (Inr (Inr x), w1) \<and> k x w1 = (Inr (Inl e), w'))"
  by (auto simp: rpc_then_def try_do_def ret_def split: prod.splits sum.splits)

lemma run_plainly:
  "plainly m f k w = (Inr (Inr y), w') \<longleftrightarrow> (\<exists>x w1. m w = (Inr x, w1) \<and> k x w1 = (Inr (Inr y), w'))"
  by (auto simp: plainly_def attempt_def ret_def split: prod.splits sum.splits err.splits)

lemma plainly_status:
  "plainly m f k w = (Inr (Inl (Status c msg t why)), w') \<Longrightarrow>
     \<exists>x w1. m w = (Inr x, w1) \<and> k x w1 = (Inr (Inl (Status c msg t why)), w')"
  by (auto simp: plainly_def attempt_def ret_def split: prod.splits sum.splits err.splits)

lemma login_run:
  assumes "um_GetUserByNameAndPassword E C n pw w = (q, w1)"
  shows "w_db w1 = w_db w" "q = Inr a \<Longrightarrow> login_ok E C n pw (w_db w) a"
  using dwp_outcome [OF login_dwp, of w E C n pw] assms by (auto split: sum.splits)

text \<open>A successful password check names the user; a refused one changes nothing.\<close>

lemma BasicAuth_outcome:
  assumes run: "BasicAuth E C ctx w = (r, w')"
  shows "w_db w' = w_db w \<and> (\<forall>ctx'. r = Inr (Inr ctx') \<longrightarrow> (\<exists>h n pw a. ExtractHeader ctx auth_header = Inr h \<and>
      GetCredentialsFromHeader h = Inr (n, pw) \<and> login_ok E C n pw (w_db w) a \<and>
      rc_user ctx' = Some \<lparr>um_user_id = au_id a, um_mfa_type = au_mfa a, um_notification = au_ntf a\<rparr>))"
proof (cases "\<exists>h n pw. ExtractHeader ctx auth_header = Inr h \<and> GetCredentialsFromHeader h = Inr (n, pw)")
  case False
  with run show ?thesis by (auto simp: BasicAuth_def refuse_def ret_def split: sum.splits prod.splits)
next
  case True
  then obtain h n pw where h: "ExtractHeader ctx auth_header = Inr h" "GetCredentialsFromHeader h = Inr (n, pw)" by blast
  obtain q w1 where q: "um_GetUserByNameAndPassword E C n pw w = (q, w1)" by fastforce
  show ?thesis
  proof (cases q)
    case (Inl e)
    with run h q have "w' = w1" "\<forall>c. r \<noteq> Inr (Inr c)"
      by (auto simp: BasicAuth_def refuse_def ret_def attempt_def split: err.splits if_splits)
    with login_run(1) [OF q] show ?thesis by blast
  next
    case (Inr a)
    with run h q have "w' = w1" "r = Inr (Inr ((purgeHeader ctx auth_header)\<lparr>rc_user :=
           Some \<lparr>um_user_id = au_id a, um_mfa_type = au_mfa a, um_notification = au_ntf a\<rparr>\<rparr>))"
      by (simp_all add: BasicAuth_def ret_def attempt_def)
    with login_run [OF q] Inr h show ?thesis by auto
  qed
qed

text \<open>The second factor of a user of type \<open>ty\<close> is passed; \<open>d'\<close> is the database afterwards.\<close>

definition second_factor :: "env \<Rightarrow> mfa_env \<Rightarrow> int \<Rightarrow> string \<Rightarrow> world \<Rightarrow> db \<Rightarrow> bool" where
  "second_factor E M u ty w d' \<longleftrightarrow>
     ty = ''none'' \<and> d' = w_db w \<or>
     ty \<noteq> ''none'' \<and> (\<exists>code c. code_matches E M u (TotpCreds code) w c \<and> d' = counter_moved u c (w_db w)) \<or>
     ty \<noteq> ''none'' \<and> d' = w_db w \<and> (\<exists>cert.
       certificate_ok M (w_now w) (certs_of ''ca'' (w_db w)) (certs_of ''crl'' (w_db w)) cert)"

lemma MfaAuth_outcome:
  assumes run: "MfaAuth E M ctx w = (r, w')" and md: "rc_user ctx = Some md"
  shows "if \<exists>ctx'. r = Inr (Inr ctx') then r = Inr (Inr (purgeHeader ctx mfa_header)) \<and>
      second_factor E M (um_user_id md) (um_mfa_type md) w (w_db w') else w_db w' = w_db w"
proof -
  have *: ?thesis if "um_mfa_type md \<noteq> ''none''" and "ExtractHeader ctx mfa_header = Inr h"
    and "getMfaFromHeader h = Inr (ty, data)" and ty: "ty = ''totp'' \<and> creds = TotpCreds data \<or> ty = ''cert'' \<and> creds = CertCreds data"
    for h ty data creds
  proof -
    obtain q w1 where q: "um_MFAAuthenticate E M (um_user_id md) ty creds w = (q, w1)" by fastforce
    have "w' = w1 \<and> (if q = Inr True then r = Inr (Inr (purgeHeader ctx mfa_header)) else \<forall>c. r \<noteq> Inr (Inr c))"
      using run md that q by (auto simp: MfaAuth_def Let_def ret_def attempt_def split: sum.splits err.splits bool.splits)
    with mfa_authenticate_outcome [OF q] that show ?thesis by (cases "q = Inr True") (auto simp: second_factor_def)
  qed
  show ?thesis
  proof (cases "um_mfa_type md = ''none'' \<or> (\<forall>h. ExtractHeader ctx mfa_header = Inr h \<longrightarrow>
      (\<forall>ty data. getMfaFromHeader h = Inr (ty, data) \<longrightarrow> ty \<noteq> ''totp'' \<and> ty \<noteq> ''cert''))")
    case True
    with run md show ?thesis
      by (auto simp: MfaAuth_def Let_def ret_def second_factor_def split: sum.splits prod.splits if_splits)
  next
    case False
    then show ?thesis using * by blast
  qed
qed

lemma reads_configuration:
  "reads (GenerateSessionID E)" "reads (um_GetDeviceByExternalIDAndUserID E x u)" "reads (vpnc_getConfiguration E p d)"
  unfolding GenerateSessionID_def um_GetDeviceByExternalIDAndUserID_def GetDeviceByExternalIDAndUserID_def
    vpnc_getConfiguration_def vcm_GetDeviceWireGuardConfig_def vcm_GetWireGuardDeviceAdjacencies_def api_device_of_def
  by (intro readsI pres)+

lemma GetConfiguration_outcome:
  assumes run: "vpnc_GetConfiguration E p ctx req w = (Inr (Inr resp), w')" and md: "rc_user ctx = Some md"
  shows "\<exists>x. slot_given E x (cr_session resp) (string_to_ptr (cq_device_info req))
    (slot_choice (env_dpu_limit E) (um_user_id md) x (w_db w)) (w_db w) (w_db w')"
proof -
  obtain sid ext dev conf w1 w2 w3 where 1: "GenerateSessionID E w = (Inr sid, w1)"
    and 2: "um_AssignDeviceSlot E (um_user_id md) sid (cq_external_id req) (cq_device_info req) w1 = (Inr ext, w2)"
    and 3: "um_GetDeviceByExternalIDAndUserID E ext (um_user_id md) w2 = (Inr dev, w3)"
    and 4: "vpnc_getConfiguration E p (ad_id dev) w3 = (Inr conf, w')" and sid: "cr_session resp = sid"
    using run md by (auto simp: vpnc_GetConfiguration_def run_plainly ret_def)
  have db: "w_db w1 = w_db w" "w_db w3 = w_db w2" "w_db w' = w_db w3"
    using reads_eq [OF reads_configuration(1) 1] reads_eq [OF reads_configuration(2) 3] reads_eq [OF reads_configuration(3) 4] .
  have "slot_given E ext sid (string_to_ptr (cq_device_info req))
    (slot_choice (env_dpu_limit E) (um_user_id md) ext (w_db w1)) (w_db w1) (w_db w2)"
    using dwp_Inr [where w = w1, OF assign_slot_dwp 2] by simp
  with db sid show ?thesis by auto
qed

lemma GetConfiguration_no_status: "vpnc_GetConfiguration E p ctx req w \<noteq> (Inr (Inl (Status c msg t why)), w')"
  by (auto simp: vpnc_GetConfiguration_def ret_def dest!: plainly_status split: option.splits)

text \<open>The type of the second factor that the user has chosen is not compared with the one in the header.\<close>

lemma MfaAuth_accepts:
  assumes "rc_user ctx = Some md" "um_mfa_type md \<noteq> ''none''"
  shows "MfaAuth E M ctx w = (Inr (Inr c), w') \<longleftrightarrow> c = purgeHeader ctx mfa_header \<and>
    (\<exists>h ty data. ExtractHeader ctx mfa_header = Inr h \<and> getMfaFromHeader h = Inr (ty, data) \<and>
      (ty = ''totp'' \<and> um_MFAAuthenticate E M (um_user_id md) ''totp'' (TotpCreds data) w = (Inr True, w') \<or>
       ty = ''cert'' \<and> um_MFAAuthenticate E M (um_user_id md) ''cert'' (CertCreds data) w = (Inr True, w')))"
  using assms
  by (cases "ExtractHeader ctx mfa_header"; cases "getMfaFromHeader (projr (ExtractHeader ctx mfa_header))")
    (auto simp: MfaAuth_def Let_def ret_def attempt_def split: prod.splits sum.splits err.splits bool.splits)

lemma mfa_type_not_enforced:
  assumes "t \<noteq> ''none''" "t' \<noteq> ''none''"
    and "MfaAuth E M (ctx\<lparr>rc_user := Some (md\<lparr>um_mfa_type := t\<rparr>)\<rparr>) w = (Inr (Inr c), w')"
  shows "\<exists>c'. MfaAuth E M (ctx\<lparr>rc_user := Some (md\<lparr>um_mfa_type := t'\<rparr>)\<rparr>) w = (Inr (Inr c'), w')"
proof -
  have header: "ExtractHeader (ctx\<lparr>rc_user := u\<rparr>) h = ExtractHeader ctx h" for u h by (simp add: ExtractHeader_def)
  show ?thesis using assms by (simp add: MfaAuth_accepts header)
qed

section \<open>Properties\<close>


text \<open>\<open>base64.StdEncoding.EncodeToString\<close>, as a client writes the header.\<close>

fun base64_encode :: "string \<Rightarrow> string" where
  "base64_encode [] = []"
| "base64_encode [a] = (let x = of_char a in
     [base64_char (x div 4), base64_char (x mod 4 * 16), CHR ''='', CHR ''=''])"
| "base64_encode [a, b] = (let x = of_char a; y = of_char b in
     [base64_char (x div 4), base64_char (x mod 4 * 16 + y div 16), base64_char (y mod 16 * 4), CHR ''=''])"
| "base64_encode (a # b # c # cs) = (let x = of_char a; y = of_char b; z = of_char c in
     [base64_char (x div 4), base64_char (x mod 4 * 16 + y div 16), base64_char (y mod 16 * 4 + z div 64),
      base64_char (z mod 64)] @ base64_encode cs)"

lemma base64_val_char:
  assumes "n < 64"
  shows "base64_val (base64_char n) = Some n"
    and "base64_char n \<noteq> CHR ''=''" "base64_char n \<noteq> CHR 0x0A" "base64_char n \<noteq> CHR 0x0D"
proof -
  have "list_all (\<lambda>n. base64_val (base64_char n) = Some n \<and> base64_char n \<noteq> CHR ''='' \<and>
    base64_char n \<noteq> CHR 0x0A \<and> base64_char n \<noteq> CHR 0x0D) [0..<64]" by code_simp
  with assms show "base64_val (base64_char n) = Some n"
    and "base64_char n \<noteq> CHR ''=''" "base64_char n \<noteq> CHR 0x0A" "base64_char n \<noteq> CHR 0x0D"
    by (auto simp: list_all_iff)
qed

lemma of_char_less: "(of_char c :: nat) < 256"
  by (metis nat_of_char_less_256)

lemma div_add_less: "b < k \<Longrightarrow> (a * k + b) div k = (a :: nat)"
  by simp

lemma base64_sextets:
  "x < 256 \<Longrightarrow> x div 4 < (64 :: nat)" "y < 256 \<Longrightarrow> x mod 4 * 16 + y div 16 < (64 :: nat)"
  "x mod 4 * 16 < (64 :: nat)" "y mod 16 * 4 < (64 :: nat)" "z < 256 \<Longrightarrow> y mod 16 * 4 + z div 64 < (64 :: nat)"
  "z mod 64 < (64 :: nat)"
proof -
  have m: "x mod 4 < 4" "y mod 16 < 16" by simp_all
  then show "x mod 4 * 16 < (64 :: nat)" "y mod 16 * 4 < (64 :: nat)" by linarith+
  show "x div 4 < (64 :: nat)" if "x < 256" using that by (simp add: div_less_iff_less_mult)
  show "x mod 4 * 16 + y div 16 < (64 :: nat)" if "y < 256"
  proof -
    have "y div 16 < 16" using that by (simp add: div_less_iff_less_mult)
    with m show ?thesis by linarith
  qed
  show "y mod 16 * 4 + z div 64 < (64 :: nat)" if "z < 256"
  proof -
    have "z div 64 < 4" using that by (simp add: div_less_iff_less_mult)
    with m show ?thesis by linarith
  qed
qed simp

lemma byte_char_high:
  assumes "n div 16 = of_char a mod 4"
  shows "byte_char (of_char a div 4 * 4 + n div 16) = a"
  by (simp only: byte_char_def assms div_mult_mod_eq mod_less [OF of_char_less] char_of_char)

lemma byte_char_middle:
  assumes "n div 4 = of_char b mod 16"
  shows "byte_char ((k * 16 + of_char b div 16) * 16 + n div 4) = b"
proof -
  have "(k * 16 + of_char b div 16) * 16 + n div 4 = k * 256 + (of_char b div 16 * 16 + of_char b mod 16)"
    using assms by (simp add: algebra_simps)
  also have "\<dots> = k * 256 + of_char b" by (simp only: div_mult_mod_eq)
  finally show ?thesis using mod_less [OF of_char_less, of b] by (simp only: byte_char_def mod_mult_self3 char_of_char)
qed

lemma byte_char_low: "byte_char ((k * 4 + of_char c div 64) * 64 + of_char c mod 64) = c"
proof -
  have "(k * 4 + of_char c div 64) * 64 + of_char c mod 64 = k * 256 + (of_char c div 64 * 64 + of_char c mod 64)"
    by (simp add: algebra_simps)
  also have "\<dots> = k * 256 + of_char c" by (simp only: div_mult_mod_eq)
  finally show ?thesis using mod_less [OF of_char_less, of c] by (simp only: byte_char_def mod_mult_self3 char_of_char)
qed

text \<open>A group of four digits.\<close>

lemma base64_quad:
  "x < 64 \<Longrightarrow> y < 64 \<Longrightarrow> z < 64 \<Longrightarrow> t < 64 \<Longrightarrow>
     base64_quads (base64_char x # base64_char y # base64_char z # base64_char t # cs) =
      map_option (append [byte_char (x * 4 + y div 16), byte_char (y * 16 + z div 4), byte_char (z * 64 + t)]) (base64_quads cs)"
  "x < 64 \<Longrightarrow> y < 64 \<Longrightarrow> z < 64 \<Longrightarrow> base64_quads [base64_char x, base64_char y, base64_char z, CHR ''=''] =
      Some [byte_char (x * 4 + y div 16), byte_char (y * 16 + z div 4)]"
  "x < 64 \<Longrightarrow> y < 64 \<Longrightarrow> base64_quads [base64_char x, base64_char y, CHR ''='', CHR ''=''] = Some [byte_char (x * 4 + y div 16)]"
  by (simp_all add: base64_val_char)

lemma base64_high:
  "(of_char a mod 4 * 16) div 16 = (of_char a mod 4 :: nat)"
  "(of_char a mod 4 * 16 + of_char b div 16) div 16 = (of_char a mod 4 :: nat)"
  "(of_char b mod 16 * 4) div 4 = (of_char b mod 16 :: nat)"
  "(of_char b mod 16 * 4 + of_char c div 64) div 4 = (of_char b mod 16 :: nat)"
proof -
  show "(of_char a mod 4 * 16 + of_char b div 16) div 16 = (of_char a mod 4 :: nat)"
    by (rule div_add_less) (use of_char_less [of b] in \<open>simp add: div_less_iff_less_mult\<close>)
  show "(of_char b mod 16 * 4 + of_char c div 64) div 4 = (of_char b mod 16 :: nat)"
    by (rule div_add_less) (use of_char_less [of c] in \<open>simp add: div_less_iff_less_mult\<close>)
qed simp_all

lemmas base64_group = base64_encode.simps base64_quad base64_sextets of_char_less byte_char_high [OF base64_high(1)]
  byte_char_high [OF base64_high(2)] byte_char_middle [OF base64_high(3)] byte_char_middle [OF base64_high(4)] byte_char_low

lemma base64_quads_encode: "base64_quads (base64_encode s) = Some s"
proof (induction s rule: base64_encode.induct)
  case (4 a b c cs)
  then show ?case by (simp only: Let_def append.simps base64_group option.map)
qed (simp_all only: Let_def base64_group base64_quads.simps(1))

lemma base64_encode_plain: "c \<in> set (base64_encode s) \<Longrightarrow> c \<noteq> CHR 0x0A \<and> c \<noteq> CHR 0x0D"
  by (induction s rule: base64_encode.induct)
    (auto simp: Let_def base64_val_char base64_sextets of_char_less)

lemma base64_roundtrip: "base64_decode (base64_encode s) = Some s"
proof -
  have "filter (\<lambda>c. c \<noteq> CHR 0x0A \<and> c \<noteq> CHR 0x0D) (base64_encode s) = base64_encode s"
    using base64_encode_plain by (auto simp: filter_id_conv)
  then show ?thesis by (simp add: base64_decode_def base64_quads_encode)
qed

lemma cut_append: "c \<notin> set s \<Longrightarrow> cut c (s @ c # t) = Some (s, t)"
  by (induction s) (auto simp: cut_def)

text \<open>Every name without colon and every password, both not empty, survive the authorization header;
  so do the type and the data of a second factor.\<close>

theorem credentials_roundtrip:
  assumes "n \<noteq> []" "pw \<noteq> []" "CHR '':'' \<notin> set n" and "CHR '' '' \<notin> set n"
  shows "GetCredentialsFromHeader (''Basic '' @ base64_encode (n @ '':'' @ pw)) = Inr (n, pw) \<and>
    getMfaFromHeader (n @ '' '' @ base64_encode pw) = Inr (n, pw)"
  using assms cut_append [of "CHR '':''" n pw] cut_append [of "CHR '' ''" n "base64_encode pw"]
  by (simp add: GetCredentialsFromHeader_def getMfaFromHeader_def has_prefix_def base64_roundtrip)

theorem credentials_roundtrip_witness:
  "GetCredentialsFromHeader ''Basic dG90cDpwdw=='' = Inr (''totp'', ''pw'')"
proof -
  have "base64_encode (''totp'' @ '':'' @ ''pw'') = ''dG90cDpwdw==''" by code_simp
  with credentials_roundtrip [of "''totp''" "''pw''"] show ?thesis by simp
qed

end
