(* ===== verification/Rpc_Server.thy ===== *)
theory Rpc_Server
  imports Rpc_Client Vcm_Notify
begin

text \<open>
  The service for VPN servers (\<open>src/service/rpc/vpns.go\<close>) and the one for the healthcheck service
  (\<open>src/service/rpc/healthcheck.go\<close>): authentication of a VPN server by its certificate
  (\<open>GetServerTag\<close> of \<open>src/pkg/certs/certs.go\<close>), its configuration, and the two subscriptions, which
  keep the status of every server and of the healthcheck service in a \<open>conc.Map\<close>
  (\<open>src/pkg/conc/map.go\<close>).

  A subscription is a state machine: its state is the point where the handler waits, and each
  function below runs the handler from one such point to the next on what the stream or the
  channel delivers.  What runs between two points is one step.
\<close>

section \<open>The state of the orchestrator\<close>

text \<open>A status is an entry of type \<open>error\<close>: \<open>None\<close> is \<open>nil\<close>.\<close>

type_synonym statuses = "int \<rightharpoonup> err option"

record orch =
  oc_world :: world
  oc_status :: statuses
  oc_hc :: statuses

type_synonym 'a oop = "(orch, 'a) op"

definition on_world :: "'a wop \<Rightarrow> 'a oop" where
  "on_world m = (\<lambda>g. case m (oc_world g) of (r, w) \<Rightarrow> (r, g\<lparr>oc_world := w\<rparr>))"

definition map_Get :: "'k \<Rightarrow> ('k \<rightharpoonup> 'v) \<Rightarrow> 'v option" where
  "map_Get k m = m k"

definition map_Set :: "'k \<Rightarrow> 'v \<Rightarrow> ('k \<rightharpoonup> 'v) \<Rightarrow> ('k \<rightharpoonup> 'v)" where
  "map_Set k v m = m(k \<mapsto> v)"

definition map_Del :: "'k \<Rightarrow> ('k \<rightharpoonup> 'v) \<Rightarrow> ('k \<rightharpoonup> 'v)" where
  "map_Del k m = m(k := None)"

abbreviation disconnected :: "err option" where
  "disconnected \<equiv> Some (Sentinel RpcErrDisconnected)"

definition set_status :: "int \<Rightarrow> err option \<Rightarrow> unit oop" where
  "set_status i e = modify (oc_status_update (map_Set i e))"

definition DefaultHealthCheckStatusStoreID :: int where
  "DefaultHealthCheckStatusStoreID = 0"

definition set_hc_status :: "err option \<Rightarrow> unit oop" where
  "set_hc_status e = modify (oc_hc_update (map_Set DefaultHealthCheckStatusStoreID e))"

definition NewHealthcheckStatusStore :: statuses where
  "NewHealthcheckStatusStore = map_Set DefaultHealthCheckStatusStoreID disconnected Map.empty"

section \<open>Authentication of a VPN server\<close>

text \<open>
  A verified certificate: the organizational units of its subject and its extensions.  The ASN.1
  decoder is a parameter: class, tag, content and the bytes that are left.
\<close>

record x509_cert =
  ce_units :: "string list"
  ce_exts :: "(int list \<times> string) list"

type_synonym asn1 = "string \<Rightarrow> (int \<times> int \<times> string \<times> string) option"

definition ServerTagOID :: "int list" where
  "ServerTagOID = [1, 3, 6, 1, 4, 1, 65463, 1, 1]"

definition legacyServerTagOID :: "int list" where
  "legacyServerTagOID = [1, 3, 6, 1, 4, 1, 53285, 1, 1]"

definition GetServerTag :: "asn1 \<Rightarrow> x509_cert \<Rightarrow> err + string" where
  "GetServerTag unmarshal c =
     (case find (\<lambda>(oid, _). oid = ServerTagOID \<or> oid = legacyServerTagOID) (ce_exts c) of
        None \<Rightarrow> Inl (errors_new ''server tag extension not found in certificate'')
      | Some (_, v) \<Rightarrow> (case unmarshal v of
          None \<Rightarrow> Inl (errors_new ''decoding server tag extension'')
        | Some (class, tag, bytes, rest) \<Rightarrow>
            if rest \<noteq> [] then Inl (errors_new ''unexpected trailing bytes in server tag extension'')
            else if class \<noteq> 0 \<or> tag \<noteq> 12 then Inl (errors_new ''unexpected ASN.1 type in server tag extension'')
            else Inr bytes))"

text \<open>The peer of a call: none, without TLS (\<open>NoTLS\<close>), or with the chains that TLS has verified.\<close>

datatype peer_auth = NoPeer | NoTLS | TLSInfo "x509_cert list list"

record server_metadata =
  md_server_name :: string
  md_server_tag :: string

definition TLSAuth :: "asn1 \<Rightarrow> peer_auth \<Rightarrow> server_metadata rpc" where
  "TLSAuth unmarshal p = (case p of
     NoPeer \<Rightarrow> refuse ''no peer found''
   | NoTLS \<Rightarrow> refuse ''unexpected peer transport credentials''
   | TLSInfo ((c # _) # _) \<Rightarrow>
       (case ce_units c of
          [] \<Rightarrow> refuse ''could not get certificate's subject's organization units''
        | name # _ \<Rightarrow> (case GetServerTag unmarshal c of
            Inl _ \<Rightarrow> refuse ''could not extract server tag from certificate''
          | Inr tag \<Rightarrow> bind_do (vcm_VerifyServerTag tag name) (\<lambda>verified.
              if \<not> verified then refuse ''could not verify server tag''
              else ret (Inr \<lparr>md_server_name = name, md_server_tag = tag\<rparr>))))
   | TLSInfo _ \<Rightarrow> refuse ''could not verify peer certificate'')"

section \<open>Configuration of a VPN server\<close>

definition vpns_GetConfiguration :: "env \<Rightarrow> bool \<Rightarrow> server_metadata option \<Rightarrow> vpn_cfg wop" where
  "vpns_GetConfiguration E telemetry md = (case md of
     None \<Rightarrow> throw (errors_new ''failed to acquire server name'')
   | Some m \<Rightarrow>
       bind_do (vcm_GetServerByName (md_server_name m)) (\<lambda>s.
       bind_do (vcm_GetWireGuardServerConfig E (as_id s)) (\<lambda>cfg.
       bind_do (vcm_GetWireGuardServerAdjacencies E (as_id s)) (\<lambda>adjs.
       bind_do (lift (rpc_wireguardConfigToProto (Some cfg) adjs [])) (\<lambda>c.
         ret (c\<lparr>vc_telemetry := telemetry\<rparr>))))))"

text \<open>A unary call of a VPN server: rate limit, certificate, then the handler (\<open>NewServer\<close>).\<close>

definition vpns_call :: "asn1 \<Rightarrow> bool \<Rightarrow> peer_auth \<Rightarrow> (server_metadata option \<Rightarrow> 'a wop) \<Rightarrow> 'a rpc" where
  "vpns_call unmarshal limited p handler =
     (if limited then ret (Inl (Status ResourceExhausted ''rejected by rate limiter'' [] NoReason))
      else rpc_then (TLSAuth unmarshal p) (\<lambda>md. plainly (handler (Some md)) (\<lambda>e. e) (\<lambda>x. ret (Inr x))))"

section \<open>Subscription of a VPN server\<close>

text \<open>
  A decoded message of the server (\<open>SubscribeWGRequest\<close>): its code is the number of the enum
  \<open>RPCErrorCode\<close>, in which \<open>OK\<close> is 0 for VPN servers (\<open>proto/v1\<close>) and 1 for the healthcheck
  service (\<open>proto/v2\<close>); \<open>NoData\<close> stands for an unset or unknown field.
\<close>

datatype request_data = Subscribe | Response int string | NoData

datatype 'm received = EndOfStream | RecvError err | Received 'm

datatype wait_point = AwaitSubscribe | AwaitNotification | AwaitResponse | Returned "err option"

record wg_session =
  ws_server :: int
  ws_tag :: string
  ws_at :: wait_point

text \<open>Up to the first \<open>Recv\<close>; an error before the server is known leaves its status alone.\<close>

definition SubscribeWG :: "server_metadata option \<Rightarrow> wg_session oop" where
  "SubscribeWG md = (case md of
     None \<Rightarrow> throw (Sentinel RpcErrNameNotFound)
   | Some m \<Rightarrow> bind_do (on_world (vcm_GetServerByName (md_server_name m))) (\<lambda>s.
       ret \<lparr>ws_server = as_id s, ws_tag = md_server_tag m, ws_at = AwaitSubscribe\<rparr>))"

text \<open>The deferred functions, last one first: \<open>cancel\<close> when the watch has begun, then the status.\<close>

definition wg_subscribed :: "wg_session \<Rightarrow> bool" where
  "wg_subscribed s = (ws_at s = AwaitNotification \<or> ws_at s = AwaitResponse)"

definition wg_return :: "wg_session \<Rightarrow> err option \<Rightarrow> wg_session oop" where
  "wg_return s e =
     bind_do (when_do (wg_subscribed s) (on_world (watch_cancel (ws_server s) (ws_tag s)))) (\<lambda>_.
     bind_do (set_status (ws_server s) disconnected) (\<lambda>_.
       ret (s\<lparr>ws_at := Returned e\<rparr>)))"

definition wg_first :: "env \<Rightarrow> request_data received \<Rightarrow> wg_session \<Rightarrow> wg_session oop" where
  "wg_first E r s = (case r of
     EndOfStream \<Rightarrow> wg_return s None
   | RecvError e \<Rightarrow> wg_return s (Some e)
   | Received Subscribe \<Rightarrow>
       bind_do (set_status (ws_server s) None) (\<lambda>_.
       attempt (on_world (vcm_WatchWireGuardConfig E (ws_server s) (ws_tag s))) (\<lambda>r. case r of
         Inl e \<Rightarrow> wg_return s (Some e)
       | Inr _ \<Rightarrow> ret (s\<lparr>ws_at := AwaitNotification\<rparr>)))
   | Received _ \<Rightarrow> wg_return s (Some (errors_new ''expected subscribe request from server'')))"

text \<open>What the \<open>select\<close> takes: a closed channel, the end of the stream, or a notification whose
  \<open>Send\<close> may fail.\<close>

datatype selected = ChannelClosed | ContextDone | Notification "err option"

definition wg_select :: "selected \<Rightarrow> wg_session \<Rightarrow> wg_session oop" where
  "wg_select ev s = (case ev of
     ChannelClosed \<Rightarrow> wg_return s None
   | ContextDone \<Rightarrow> wg_return s None
   | Notification (Some e) \<Rightarrow> wg_return s (Some e)
   | Notification None \<Rightarrow> ret (s\<lparr>ws_at := AwaitResponse\<rparr>))"

definition receiveFromServer :: "int \<Rightarrow> request_data received \<Rightarrow> unit oop" where
  "receiveFromServer i r = (case r of
     EndOfStream \<Rightarrow> ret ()
   | RecvError e \<Rightarrow> throw e
   | Received Subscribe \<Rightarrow> throw (errors_new ''server is already subscribed'')
   | Received (Response code msg) \<Rightarrow>
       if code = 0 then set_status i None
       else set_status i (Some (errors_new ''server update failed with code''))
   | Received NoData \<Rightarrow> throw (errors_new ''server replied with unsupported response type''))"

definition wg_response :: "request_data received \<Rightarrow> wg_session \<Rightarrow> wg_session oop" where
  "wg_response r s =
     attempt (receiveFromServer (ws_server s) r) (\<lambda>q. case q of
       Inl e \<Rightarrow> wg_return s (Some e)
     | Inr _ \<Rightarrow> ret (s\<lparr>ws_at := AwaitNotification\<rparr>))"

section \<open>Subscription of the healthcheck service\<close>

definition hc_GetAllSessions :: "string list wop" where
  "hc_GetAllSessions = um_GetAllDevicesSessions"

definition hc_return :: "err option \<Rightarrow> wait_point oop" where
  "hc_return e = bind_do (set_hc_status disconnected) (\<lambda>_. ret (Returned e))"

definition hc_first :: "request_data received \<Rightarrow> wait_point oop" where
  "hc_first r = (case r of
     EndOfStream \<Rightarrow> hc_return None
   | RecvError e \<Rightarrow> hc_return (Some e)
   | Received Subscribe \<Rightarrow> bind_do (set_hc_status None) (\<lambda>_. ret AwaitNotification)
   | Received _ \<Rightarrow> hc_return (Some (errors_new ''expected subscribe request'')))"

definition hc_select :: "selected \<Rightarrow> wait_point oop" where
  "hc_select ev = (case ev of
     ChannelClosed \<Rightarrow> hc_return None
   | ContextDone \<Rightarrow> hc_return None
   | Notification (Some e) \<Rightarrow> hc_return (Some e)
   | Notification None \<Rightarrow> ret AwaitResponse)"

definition receiveFromHealthcheck :: "request_data received \<Rightarrow> unit oop" where
  "receiveFromHealthcheck r = (case r of
     EndOfStream \<Rightarrow> ret ()
   | RecvError e \<Rightarrow> throw e
   | Received Subscribe \<Rightarrow> throw (errors_new ''healthcheck service is already subscribed'')
   | Received (Response code msg) \<Rightarrow>
       if code = 1 then set_hc_status None
       else set_hc_status (Some (errors_new ''healthcheck service update failed with code''))
   | Received NoData \<Rightarrow> throw (errors_new ''healthcheck service replied with unsupported response type''))"

definition hc_response :: "request_data received \<Rightarrow> wait_point oop" where
  "hc_response r =
     attempt (receiveFromHealthcheck r) (\<lambda>q. case q of
       Inl e \<Rightarrow> hc_return (Some e)
     | Inr _ \<Rightarrow> ret AwaitNotification)"

section \<open>Telemetry\<close>

text \<open>
  \<open>SendTelemetry\<close> once the socket is open: each received message comes with the error of writing it
  to the socket, the end of the stream with the error of \<open>SendAndClose\<close>.  The result is what was written and the error returned, none while it waits.
\<close>

fun SendTelemetry :: "(string received \<times> err option) list \<Rightarrow> string list \<times> err option option" where
  "SendTelemetry [] = ([], None)"
| "SendTelemetry ((EndOfStream, sent) # evs) = ([], Some sent)"
| "SendTelemetry ((RecvError e, _) # evs) = ([], Some (Some e))"
| "SendTelemetry ((Received data, Some e) # evs) = ([], Some (Some e))"
| "SendTelemetry ((Received data, None) # evs) = apfst (Cons data) (SendTelemetry evs)"

section \<open>Who gets the configuration of a VPN server\<close>

text \<open>The devices linked to a server, with their template.\<close>

definition server_peer_rows :: "int \<Rightarrow> db \<Rightarrow> (adjacency_row \<times> device_row \<times> device_template_row) list" where
  "server_peer_rows i d = concat (map (\<lambda>a. concat (map (\<lambda>v. map (\<lambda>t. (a, v, t))
         (filter (\<lambda>t. dt_id t = d_template v) (db_templates d)))
       (filter (\<lambda>v. d_id v = adj_device a) (db_devices d))))
     (filter (\<lambda>a. adj_server a = i) (db_adjs d)))"

definition peer_of_row :: "env \<Rightarrow> pb_peer \<Rightarrow> adjacency_row \<times> device_row \<times> device_template_row \<Rightarrow> bool" where
  "peer_of_row E p r = (case r of (a, v, _) \<Rightarrow> pp_public_key p = d_public_key v \<and>
     pp_allowed p = map prefix_string (adj_server_ips a) \<and> env_open E (env_key E) (adj_psk a) = Inr (pp_psk p))"

text \<open>The configuration of the server with row \<open>s\<close>: its own key, and a peer for every device linked to it.\<close>

definition configures_server :: "env \<Rightarrow> server_row \<Rightarrow> db \<Rightarrow> vpn_cfg \<Rightarrow> bool" where
  "configures_server E s d c \<longleftrightarrow> (\<exists>wg (ifc :: pb_iface) sc. vc_wg c = Some wg \<and> wg_iface wg = Some ifc \<and>
     sc \<in> set (db_scfgs d) \<and> sc_server sc = s_id s \<and> env_open E (env_key E) (sc_private_key sc) = Inr (pi_private_key ifc) \<and>
     list_all2 (peer_of_row E) (wg_peers wg) (server_peer_rows (s_id s) d))"

lemma get_server_wg_config_dwp:
  assumes "\<And>c sc. sc \<in> set (db_scfgs d) \<Longrightarrow> sc_server sc = i \<Longrightarrow>
      env_open E (env_key E) (sc_private_key sc) = Inr (wc_private_key c) \<Longrightarrow> Q c d"
    and "\<And>e. X e d"
  shows "dwp (get_server_wg_config E i) Q X d"
  unfolding get_server_wg_config_def GetServerWireGuardConfig_def GetServerWireGuardIfaceAddrs_def GetServerWireGuardIfaceDNSs_def
  by (intro vcg; (rule assms(2))?) (auto intro!: assms(1) simp: filter_eq_Cons_iff)

definition adjacency_of_row :: "env \<Rightarrow> adjacency_row \<times> device_row \<times> device_template_row \<Rightarrow> wg_adjacency \<Rightarrow> bool" where
  "adjacency_of_row E r p = (case r of (a, v, _) \<Rightarrow> wa_public_key p = d_public_key v \<and>
     wa_allowed p = map prefix_string (adj_server_ips a) \<and> env_open E (env_key E) (adj_psk a) = Inr (wa_psk p))"

lemma server_peer_of_dwp: "dwp (server_peer_of E r) (\<lambda>p d'. d' = d \<and> adjacency_of_row E r p) (\<lambda>e d'. d' = d) d"
  unfolding server_peer_of_def by (intro vcg) (auto simp: adjacency_of_row_def)

lemma server_adjacencies_dwp:
  assumes "\<And>as. list_all2 (adjacency_of_row E) (server_peer_rows i d) as \<Longrightarrow> Q as d" and "\<And>e. X e d"
  shows "dwp (server_adjacencies E i) Q X d"
  unfolding server_adjacencies_def GetServerWireGuardAdjacencies_def server_peer_rows_def [symmetric]
  by (intro vcg; (rule assms(2))?)
   (rule dwp_for_map_reads [where R = "adjacency_of_row E"], rule dwp_mono [OF server_peer_of_dwp],
     auto intro: assms(1,2) dwp_basic(1))

lemma configuration_dwp:
  "dwp (vpns_GetConfiguration E telemetry (Some md))
     (\<lambda>c d'. d' = d \<and> (\<exists>s\<in>set (db_servers d). s_name s = md_server_name md \<and> configures_server E s d c))
     (\<lambda>e d'. d' = d) d"
  unfolding vpns_GetConfiguration_def option.case vcm_GetServerByName_def pg_GetServerByName_def GetServerByName_def
    vcm_GetWireGuardServerConfig_def vcm_GetWireGuardServerAdjacencies_def
proof (rule refl conjI get_server_wg_config_dwp server_adjacencies_dwp | rule vcg)+
  fix r rs sc c as x
  assume r: "filter (\<lambda>s. s_name s = md_server_name md) (db_servers d) = r # rs"
    and sc: "sc \<in> set (db_scfgs d)" "sc_server sc = as_id (server_to_api (server_of_row r))"
      "env_open E (env_key E) (sc_private_key sc) = Inr (wc_private_key c)"
    and as: "list_all2 (adjacency_of_row E) (server_peer_rows (as_id (server_to_api (server_of_row r))) d) as"
    and x: "rpc_wireguardConfigToProto (Some (wg_config_to_api c)) (map wg_adjacency_to_api as) [] = Inr x"
  have "as_id (server_to_api (server_of_row r)) = s_id r" by (simp add: server_to_api_def server_of_row_def)
  with sc as x have "configures_server E r d (x\<lparr>vc_telemetry := telemetry\<rparr>)"
    by (auto simp: configures_server_def rpc_wireguardConfigToProto_def Let_def wg_config_to_api_def list_all2_conv_all_nth
        peer_of_row_def adjacency_of_row_def wg_adjacency_to_api_def)
  with r show "\<exists>s\<in>set (db_servers d). s_name s = md_server_name md \<and> configures_server E s d (x\<lparr>vc_telemetry := telemetry\<rparr>)"
    by (auto simp: filter_eq_Cons_iff)
qed simp_all

text \<open>A certificate that names the server \<open>name\<close> and carries one of the tags given to it.\<close>

definition accepted_certificate :: "asn1 \<Rightarrow> peer_auth \<Rightarrow> db \<Rightarrow> server_metadata \<Rightarrow> bool" where
  "accepted_certificate A p d md \<longleftrightarrow> (\<exists>c cs css us. p = TLSInfo ((c # cs) # css) \<and> ce_units c = md_server_name md # us \<and>
     GetServerTag A c = Inr (md_server_tag md) \<and>
     (\<exists>s\<in>set (db_servers d). s_name s = md_server_name md \<and> (s_id s, md_server_tag md) \<in> set (db_tags d)))"

lemma VerifyServerTag_dwp:
  "dwp (vcm_VerifyServerTag tag name)
     (\<lambda>b d'. d' = d \<and> (b \<longrightarrow> (\<exists>s\<in>set (db_servers d). s_name s = name \<and> (s_id s, tag) \<in> set (db_tags d))))
     (\<lambda>e d'. d' = d) d"
  unfolding vcm_VerifyServerTag_def pg_GetServerTagsByName_def
  by (intro vcg) (fastforce simp: list_ex_iff query_failed_def under_def intro!: vcg split: if_splits)+

lemma TLSAuth_dwp:
  "dwp (TLSAuth A p) (\<lambda>r d'. d' = d \<and> (\<forall>md. r = Inr md \<longrightarrow> accepted_certificate A p d md)) (\<lambda>e d'. d' = d) d"
proof (cases "\<exists>c cs css name us tag. p = TLSInfo ((c # cs) # css) \<and> ce_units c = name # us \<and> GetServerTag A c = Inr tag")
  case False
  then have "\<exists>msg. TLSAuth A p = refuse msg" by (auto simp: TLSAuth_def split: peer_auth.splits list.splits sum.splits)
  then show ?thesis by (auto simp: refuse_def intro!: vcg)
next
  case True
  then obtain c cs css name us tag where p: "p = TLSInfo ((c # cs) # css)" "ce_units c = name # us" "GetServerTag A c = Inr tag"
    by blast
  have "dwp (bind_do (vcm_VerifyServerTag tag name) (\<lambda>verified. if \<not> verified then refuse ''could not verify server tag''
      else ret (Inr \<lparr>md_server_name = name, md_server_tag = tag\<rparr>)))
     (\<lambda>r d'. d' = d \<and> (\<forall>md. r = Inr md \<longrightarrow> accepted_certificate A p d md)) (\<lambda>e d'. d' = d) d"
    by (rule dwp_try_do, rule dwp_mono [OF VerifyServerTag_dwp])
      (auto simp: p refuse_def accepted_certificate_def intro!: vcg)
  then show ?thesis by (simp add: TLSAuth_def p)
qed

text \<open>C9. A VPN server gets a configuration only over TLS with a verified certificate that carries a tag
  issued for a server of the name in the certificate; it is then the configuration of a server of that
  name: its own private key, and one peer for every device linked to it, with the device's public key,
  the allowed addresses of the server side and the decrypted preshared key.  No call changes the tables.\<close>

theorem server_gets_own_configuration:
  "case vpns_call A limited p (vpns_GetConfiguration E telemetry) w of
     (Inr (Inr c), w') \<Rightarrow> w_db w' = w_db w \<and> \<not> limited \<and> (\<exists>md. accepted_certificate A p (w_db w) md \<and>
       (\<exists>s\<in>set (db_servers (w_db w)). s_name s = md_server_name md \<and> configures_server E s (w_db w) c))
   | (_, w') \<Rightarrow> w_db w' = w_db w"
proof -
  let ?Q = "\<lambda>r d'. d' = w_db w \<and> (\<forall>c. r = Inr c \<longrightarrow> \<not> limited \<and> (\<exists>md. accepted_certificate A p (w_db w) md \<and>
       (\<exists>s\<in>set (db_servers (w_db w)). s_name s = md_server_name md \<and> configures_server E s (w_db w) c)))"
  have "dwp (vpns_call A limited p (vpns_GetConfiguration E telemetry)) ?Q (\<lambda>e d'. d' = w_db w) (w_db w)"
    unfolding vpns_call_def rpc_then_def plainly_def
    by (intro vcg; (rule dwp_mono [OF TLSAuth_dwp])?)
      (auto intro!: vcg dwp_mono [OF configuration_dwp])
  from dwp_outcome [OF this] show ?thesis by (auto split: prod.splits sum.splits)
qed

end
