(* ===== verification/Server_Status.thy ===== *)
theory Server_Status
  imports Rpc_Server "HOL-Library.Multiset"
begin

text \<open>
  The status page (\<open>handleGetAllServersStatuses\<close> and \<open>setHealthcheckStatus\<close> of
  \<open>src/service/rest/handlers.go\<close>) and the system of all subscriptions: VPN servers and healthcheck
  services that connect, send and leave in any order while the rest of the program runs.  What a
  status says about the subscriptions is an invariant of the reachable states.
\<close>

section \<open>The status page\<close>

datatype colour = Green | Red | Gray

datatype status_arg = ReplicaMismatch | ErrText err

record api_status =
  st_colour :: colour
  st_key :: string
  st_args :: "status_arg list"

record api_service_status =
  ss_id :: int
  ss_name :: string
  ss_vpn :: api_status
  ss_healthcheck :: api_status

definition vpn_status :: "err option option \<Rightarrow> bool \<Rightarrow> api_status" where
  "vpn_status entry replicas_ok = (case entry of
     Some None \<Rightarrow>
       if replicas_ok then \<lparr>st_colour = Green, st_key = ''service.statuses.in-sync'', st_args = []\<rparr>
       else \<lparr>st_colour = Red, st_key = ''service.statuses.configuration.error'', st_args = [ReplicaMismatch]\<rparr>
   | Some (Some e) \<Rightarrow>
       if e = Sentinel RpcErrDisconnected
       then \<lparr>st_colour = Red, st_key = ''service.statuses.disconnected'', st_args = []\<rparr>
       else \<lparr>st_colour = Red, st_key = ''service.statuses.configuration.error'', st_args = [ErrText e]\<rparr>
   | None \<Rightarrow> \<lparr>st_colour = Red, st_key = ''service.statuses.disconnected'', st_args = []\<rparr>)"

definition setHealthcheckStatus :: "statuses \<Rightarrow> string \<Rightarrow> api_status" where
  "setHealthcheckStatus store hcaddr =
     (if hcaddr = [] then \<lparr>st_colour = Gray, st_key = ''service.statuses.not-configured'', st_args = []\<rparr>
      else
        let e = (case map_Get DefaultHealthCheckStatusStoreID store of None \<Rightarrow> disconnected | Some x \<Rightarrow> x) in
        case e of
          None \<Rightarrow> \<lparr>st_colour = Green, st_key = ''service.statuses.in-sync'', st_args = []\<rparr>
        | Some x \<Rightarrow>
            if x = Sentinel RpcErrDisconnected
            then \<lparr>st_colour = Red, st_key = ''service.statuses.disconnected'', st_args = []\<rparr>
            else \<lparr>st_colour = Red, st_key = ''service.statuses.configuration.error'', st_args = [ErrText x]\<rparr>)"

definition service_status :: "env \<Rightarrow> statuses \<Rightarrow> api_server \<Rightarrow> api_service_status oop" where
  "service_status E store s =
     bind_do (on_world (vcm_AllReplicasRunning E s)) (\<lambda>ok.
     bind_do (gets oc_hc) (\<lambda>hc.
       ret \<lparr>ss_id = as_id s, ss_name = as_name s, ss_vpn = vpn_status (store (as_id s)) ok,
            ss_healthcheck = setHealthcheckStatus hc (as_healthcheck s)\<rparr>))"

definition all_servers_statuses :: "env \<Rightarrow> api_service_status list oop" where
  "all_servers_statuses E =
     bind_do (on_world vcm_GetAllServers) (\<lambda>ss.
     bind_do (gets oc_status) (\<lambda>store. for_map (service_status E store) ss))"

section \<open>The system of subscriptions\<close>

datatype stream_event = Incoming "request_data received" | Chosen selected

text \<open>What wakes a handler up; at any other point the event does not reach it.\<close>

fun wg_react :: "env \<Rightarrow> stream_event \<Rightarrow> wg_session \<Rightarrow> wg_session oop" where
  "wg_react E (Incoming r) s = (case ws_at s of
     AwaitSubscribe \<Rightarrow> wg_first E r s | AwaitResponse \<Rightarrow> wg_response r s | _ \<Rightarrow> ret s)"
| "wg_react E (Chosen ev) s = (if ws_at s = AwaitNotification then wg_select ev s else ret s)"

fun hc_react :: "stream_event \<Rightarrow> wait_point \<Rightarrow> wait_point oop" where
  "hc_react (Incoming r) s = (case s of
     AwaitSubscribe \<Rightarrow> hc_first r | AwaitResponse \<Rightarrow> hc_response r | _ \<Rightarrow> ret s)"
| "hc_react (Chosen ev) s = (if s = AwaitNotification then hc_select ev else ret s)"

record system =
  sy_orch :: orch
  sy_wg :: "wg_session list"
  sy_hc :: "wait_point list"

text \<open>
  Every other operation of the program leaves the statuses and the watchers alone, except that a
  deleted server loses its status (\<open>handleDeleteServer\<close>).
\<close>

inductive sys_step :: "env \<Rightarrow> asn1 \<Rightarrow> system \<Rightarrow> system \<Rightarrow> bool" for E A where
  connect: "TLSAuth A p (oc_world (sy_orch y)) = (Inr (Inr md), w) \<Longrightarrow>
    SubscribeWG (Some md) (sy_orch y\<lparr>oc_world := w\<rparr>) = (Inr s, g) \<Longrightarrow>
    sys_step E A y (y\<lparr>sy_orch := g, sy_wg := sy_wg y @ [s]\<rparr>)"
| react: "i < length (sy_wg y) \<Longrightarrow> wg_react E ev (sy_wg y ! i) (sy_orch y) = (Inr s, g) \<Longrightarrow>
    sys_step E A y (y\<lparr>sy_orch := g, sy_wg := (sy_wg y)[i := s]\<rparr>)"
| hc_connect: "sys_step E A y (y\<lparr>sy_hc := sy_hc y @ [AwaitSubscribe]\<rparr>)"
| hc_react: "i < length (sy_hc y) \<Longrightarrow> hc_react ev (sy_hc y ! i) (sy_orch y) = (Inr s, g) \<Longrightarrow>
    sys_step E A y (y\<lparr>sy_orch := g, sy_hc := (sy_hc y)[i := s]\<rparr>)"
| other: "w_watchers w = w_watchers (oc_world (sy_orch y)) \<Longrightarrow>
    sys_step E A y (y\<lparr>sy_orch := sy_orch y\<lparr>oc_world := w\<rparr>\<rparr>)"
| deleted: "sys_step E A y (y\<lparr>sy_orch := oc_status_update (map_Del i) (sy_orch y)\<rparr>)"

definition sys_init :: "world \<Rightarrow> system" where
  "sys_init w = \<lparr>sy_orch = \<lparr>oc_world = w, oc_status = Map.empty, oc_hc = NewHealthcheckStatusStore\<rparr>,
     sy_wg = [], sy_hc = []\<rparr>"

inductive sys_reach :: "env \<Rightarrow> asn1 \<Rightarrow> system \<Rightarrow> bool" for E A where
  init: "w_watchers w = [] \<Longrightarrow> sys_reach E A (sys_init w)"
| step: "sys_reach E A y \<Longrightarrow> sys_step E A y y' \<Longrightarrow> sys_reach E A y'"

section \<open>What a step does to the statuses\<close>

lemma watchers_db_call [pres]: "preserves (\<lambda>w. w_watchers w = l) (db_call f)"
  by (auto simp: preserves_def db_call_def abort_tx_def Let_def split: prod.split)

lemma watchers_queries [pres]:
  "preserves (\<lambda>w. w_watchers w = l) (q_many f)" "preserves (\<lambda>w. w_watchers w = l) (q_one g)"
  "preserves (\<lambda>w. w_watchers w = l) (q_update a b c e)"
  unfolding q_many_def q_one_def q_update_def by (rule pres)+

lemma watchers_ignore_err [pres]:
  "preserves (\<lambda>w. w_watchers w = l) m \<Longrightarrow> preserves (\<lambda>w. w_watchers w = l) (ignore_err m)"
  unfolding ignore_err_def by (intro pres)

lemma watchers_server_queries [pres]:
  "preserves (\<lambda>w. w_watchers w = l) (pg_DecreaseReplicaCount i)"
  "preserves (\<lambda>w. w_watchers w = l) (increase_rep_count E i)"
  "preserves (\<lambda>w. w_watchers w = l) (vcm_GetServerByName n)"
  "preserves (\<lambda>w. w_watchers w = l) (vcm_VerifyServerTag t n)"
  unfolding pg_DecreaseReplicaCount_def increase_rep_count_def pg_GetReplicaCount_def pg_IncreaseReplicaCount_def
    GetServerByID_def vcm_GetServerByName_def pg_GetServerByName_def GetServerByName_def vcm_VerifyServerTag_def
    pg_GetServerTagsByName_def
  by (intro pres)+

lemma watchers_eq: "(\<And>l. preserves (\<lambda>w. w_watchers w = l) m) \<Longrightarrow> m w = (r, w') \<Longrightarrow> w_watchers w' = w_watchers w"
  unfolding preserves_def by (metis snd_conv)

lemma ignore_err_Inl: "ignore_err m w = (Inl e, w') \<Longrightarrow> e = Panic"
  by (auto simp: ignore_err_def attempt_def ret_def split: prod.splits sum.splits err.splits)

lemma watch_cancel_watchers:
  "watch_cancel i t w = (r, w') \<Longrightarrow> w_watchers w' = filter (\<lambda>x. x \<noteq> t) (w_watchers w)"
  using watchers_eq [of "ignore_err (pg_DecreaseReplicaCount i)"]
  by (fastforce simp: watch_cancel_def try_do_def modify_def intro!: pres)

lemma watch_watchers:
  assumes "vcm_WatchWireGuardConfig E i t w = (r, w')" and "r \<noteq> Inl Panic"
  shows "if is_ok r then t \<notin> set (w_watchers w) \<and> w_watchers w' = w_watchers w @ [t] else w_watchers w' = w_watchers w"
proof (cases "t \<in> set (w_watchers w)")
  case True
  with assms show ?thesis by (auto simp: vcm_WatchWireGuardConfig_def try_do_def gets_def guard_do_def throw_def)
next
  case False
  with assms(1) have run: "ignore_err (increase_rep_count E i) (w_watchers_update (\<lambda>l. l @ [t]) w) = (r, w')"
    by (auto simp: vcm_WatchWireGuardConfig_def try_do_def gets_def guard_do_def modify_def split: prod.splits sum.splits)
  have "w_watchers w' = w_watchers (w_watchers_update (\<lambda>l. l @ [t]) w)" 
    by (rule watchers_eq [where m = "ignore_err (increase_rep_count E i)"]) (use run in \<open>auto intro!: pres\<close>)
  with False run assms(2) ignore_err_Inl [of _ _ "projl r"] show ?thesis by (cases r) auto
qed

text \<open>The statuses, the healthcheck status and the watched tags.\<close>

definition view :: "orch \<Rightarrow> statuses \<times> statuses \<times> string list" where
  "view g = (oc_status g, oc_hc g, w_watchers (oc_world g))"

text \<open>
  A handler stays where it is, leaves, or waits on as a subscriber: on leaving it drops its watch and
  the server counts as disconnected; on staying it may write a status of its server.
\<close>

definition wg_effect :: "wg_session \<Rightarrow> orch \<Rightarrow> wg_session \<Rightarrow> orch \<Rightarrow> bool" where
  "wg_effect s g s' g' \<longleftrightarrow> ws_server s' = ws_server s \<and> ws_tag s' = ws_tag s \<and>
     (let ts = w_watchers (oc_world g); srv = ws_server s; t = ws_tag s in
      (s' = s \<and> g' = g) \<or>
      (\<not> wg_subscribed s' \<and> view g' = ((oc_status g)(srv \<mapsto> disconnected), oc_hc g,
          if wg_subscribed s then filter (\<lambda>x. x \<noteq> t) ts else ts)) \<or>
      (wg_subscribed s' \<and> (if wg_subscribed s then w_watchers (oc_world g') = ts
          else t \<notin> set ts \<and> w_watchers (oc_world g') = ts @ [t]) \<and> oc_hc g' = oc_hc g \<and>
          (oc_status g' = oc_status g \<or> (\<exists>e. oc_status g' = (oc_status g)(srv \<mapsto> e)))))"

lemma wg_return_effect:
  assumes "wg_return s e g = (Inr s', g')"
  shows "ws_server s' = ws_server s \<and> ws_tag s' = ws_tag s \<and> \<not> wg_subscribed s' \<and>
    view g' = ((oc_status g)(ws_server s \<mapsto> disconnected), oc_hc g,
       if wg_subscribed s then filter (\<lambda>x. x \<noteq> ws_tag s) (w_watchers (oc_world g)) else w_watchers (oc_world g))"
  using assms
  by (auto simp: wg_return_def try_do_def when_do_def on_world_def set_status_def modify_def ret_def map_Set_def
      view_def wg_subscribed_def split: prod.splits sum.splits if_splits dest!: watch_cancel_watchers)

lemma wg_first_effect:
  assumes run: "wg_first E r s g = (Inr s', g')" and at: "ws_at s = AwaitSubscribe"
  shows "wg_effect s g s' g'"
proof (cases "r = Received Subscribe")
  case False
  then obtain e where "wg_return s e g = (Inr s', g')"
    using run by (auto simp: wg_first_def split: received.splits request_data.splits)
  from wg_return_effect [OF this] show ?thesis by (auto simp: wg_effect_def Let_def)
next
  case True
  obtain q w where q: "vcm_WatchWireGuardConfig E (ws_server s) (ws_tag s) (oc_world g) = (q, w)" by fastforce
  let ?g1 = "oc_status_update (map_Set (ws_server s) None) g\<lparr>oc_world := w\<rparr>"
  have ne: "q \<noteq> Inl Panic"
    using run True q by (auto simp: wg_first_def try_do_def set_status_def modify_def attempt_def on_world_def map_Set_def)
  have sub: "\<not> wg_subscribed s" using at by (simp add: wg_subscribed_def)
  show ?thesis
  proof (cases q)
    case (Inl e)
    with ne have "e \<noteq> Panic" by simp
    with Inl run True q have "wg_return s (Some e) ?g1 = (Inr s', g')"
      by (cases e) (auto simp: wg_first_def try_do_def set_status_def modify_def attempt_def on_world_def)
    from wg_return_effect [OF this] watch_watchers [OF q ne] Inl sub show ?thesis
      by (auto simp: wg_effect_def Let_def map_Set_def view_def)
  next
    case (Inr u)
    with run True q have "s' = s\<lparr>ws_at := AwaitNotification\<rparr>" "g' = ?g1"
      by (auto simp: wg_first_def try_do_def set_status_def modify_def attempt_def on_world_def ret_def)
    with watch_watchers [OF q ne] Inr sub show ?thesis
      by (auto simp: wg_effect_def Let_def wg_subscribed_def map_Set_def)
  qed
qed

lemma receiveFromServer_effect:
  assumes "receiveFromServer i r g = (q, g')"
  shows "oc_world g' = oc_world g \<and> oc_hc g' = oc_hc g \<and> (\<not> is_ok q \<longrightarrow> g' = g) \<and>
    (oc_status g' = oc_status g \<or> (\<exists>e. oc_status g' = (oc_status g)(i \<mapsto> e)))"
  using assms
  by (auto simp: receiveFromServer_def set_status_def modify_def ret_def throw_def map_Set_def
      split: received.splits request_data.splits if_splits)

lemma wg_return_wg_effect: "wg_return s e g = (Inr s', g') \<Longrightarrow> wg_effect s g s' g'"
  by (drule wg_return_effect) (auto simp: wg_effect_def Let_def)

lemma wg_response_effect:
  assumes run: "wg_response r s g = (Inr s', g')" and at: "ws_at s = AwaitResponse"
  shows "wg_effect s g s' g'"
proof -
  obtain q g1 where q: "receiveFromServer (ws_server s) r g = (q, g1)" by fastforce
  show ?thesis
  proof (cases q)
    case (Inl e)
    with run q receiveFromServer_effect [OF q] have "wg_return s (Some e) g = (Inr s', g')"
      by (auto simp: wg_response_def attempt_def split: err.splits)
    then show ?thesis by (rule wg_return_wg_effect)
  next
    case (Inr u)
    with run q have "s' = s\<lparr>ws_at := AwaitNotification\<rparr>" "g' = g1" by (auto simp: wg_response_def attempt_def ret_def)
    with receiveFromServer_effect [OF q] at show ?thesis by (auto simp: wg_effect_def Let_def wg_subscribed_def)
  qed
qed

lemma wg_select_effect:
  assumes run: "wg_select ev s g = (Inr s', g')" and at: "ws_at s = AwaitNotification"
  shows "wg_effect s g s' g'"
proof (cases "ev = Notification None")
  case True
  with run at show ?thesis by (auto simp: wg_select_def ret_def wg_effect_def Let_def wg_subscribed_def)
next
  case False
  with run obtain e where "wg_return s e g = (Inr s', g')" by (auto simp: wg_select_def split: selected.splits option.splits)
  then show ?thesis by (rule wg_return_wg_effect)
qed

lemma wg_react_effect: "wg_react E ev s g = (Inr s', g') \<Longrightarrow> wg_effect s g s' g'"
  by (cases ev; cases "ws_at s")
    (auto simp: wg_first_effect wg_response_effect wg_select_effect, auto simp: ret_def wg_effect_def)

section \<open>Invariants of the subscriptions\<close>

definition live_tags :: "wg_session list \<Rightarrow> string list" where
  "live_tags ss = map ws_tag (filter wg_subscribed ss)"

definition hc_subscribed :: "wait_point \<Rightarrow> bool" where
  "hc_subscribed p = (p = AwaitNotification \<or> p = AwaitResponse)"

text \<open>The watched tags are those of the subscribed servers, each once.\<close>

definition watchers_ok :: "wg_session list \<Rightarrow> string list \<Rightarrow> bool" where
  "watchers_ok ss ts = (distinct ts \<and> mset ts = mset (live_tags ss))"

definition statuses_ok :: "wg_session list \<Rightarrow> statuses \<Rightarrow> bool" where
  "statuses_ok ss st = (\<forall>i e. st i = Some e \<longrightarrow> e \<noteq> disconnected \<longrightarrow> (\<exists>s\<in>set ss. wg_subscribed s \<and> ws_server s = i))"

definition hc_ok :: "wait_point list \<Rightarrow> statuses \<Rightarrow> bool" where
  "hc_ok ps st = (\<exists>e. st DefaultHealthCheckStatusStoreID = Some e \<and> (e \<noteq> disconnected \<longrightarrow> (\<exists>p\<in>set ps. hc_subscribed p)))"

definition sys_ok :: "system \<Rightarrow> bool" where
  "sys_ok y = (watchers_ok (sy_wg y) (w_watchers (oc_world (sy_orch y))) \<and>
     statuses_ok (sy_wg y) (oc_status (sy_orch y)) \<and> hc_ok (sy_hc y) (oc_hc (sy_orch y)))"

lemma filter_mset_ne: "x \<notin># M \<Longrightarrow> filter_mset (\<lambda>y. y \<noteq> x) M = M"
  by (induction M) auto

lemma watchers_ok_effect:
  assumes "watchers_ok (us @ s # vs) (w_watchers (oc_world g))" and "wg_effect s g s' g'"
  shows "watchers_ok (us @ s' # vs) (w_watchers (oc_world g'))"
proof -
  let ?ts = "w_watchers (oc_world g)"
  have ts: "distinct ?ts" "mset ?ts = mset (live_tags us) + (if wg_subscribed s then {#ws_tag s#} else {#}) + mset (live_tags vs)"
    using assms(1) by (auto simp: watchers_ok_def live_tags_def)
  have gone: "distinct (filter (\<lambda>x. x \<noteq> ws_tag s) ?ts) \<and>
      mset (filter (\<lambda>x. x \<noteq> ws_tag s) ?ts) = mset (live_tags us) + mset (live_tags vs)" if "wg_subscribed s"
  proof -
    have "ws_tag s \<notin># mset (live_tags us) + mset (live_tags vs)"
    proof
      assume "ws_tag s \<in># mset (live_tags us) + mset (live_tags vs)"
      then have "1 < count (mset ?ts) (ws_tag s)" using ts(2) that
        by (auto simp: add_gr_0)
      moreover have "count (mset ?ts) (ws_tag s) \<le> 1" using ts(1) by (simp add: distinct_count_atmost_1)
      ultimately show False by simp
    qed
    then have "filter_mset (\<lambda>x. x \<noteq> ws_tag s) (mset (live_tags us) + mset (live_tags vs)) = mset (live_tags us) + mset (live_tags vs)"
      by (rule filter_mset_ne)
    with ts that show ?thesis by (simp only: mset_filter distinct_filter) simp
  qed
  show ?thesis using assms(2) ts gone
    by (auto simp: wg_effect_def Let_def view_def watchers_ok_def live_tags_def split: if_splits)
qed

lemma statuses_ok_effect:
  assumes "statuses_ok (us @ s # vs) (oc_status g)" and "wg_effect s g s' g'"
  shows "statuses_ok (us @ s' # vs) (oc_status g')"
  using assms by (auto simp: wg_effect_def Let_def view_def statuses_ok_def split: if_splits) (metis option.inject)+

lemma hc_react_ok:
  assumes "hc_ok (us @ p # vs) (oc_hc g)" and "hc_react ev p g = (Inr p', g')"
  shows "hc_ok (us @ p' # vs) (oc_hc g') \<and> oc_status g' = oc_status g \<and> oc_world g' = oc_world g"
  using assms
  by (cases ev; cases p)
    (auto simp: hc_first_def hc_select_def hc_response_def receiveFromHealthcheck_def hc_return_def try_do_def
      set_hc_status_def modify_def ret_def throw_def attempt_def map_Set_def hc_ok_def hc_subscribed_def errors_new_def
      split: received.splits request_data.splits selected.splits option.splits err.splits if_splits)

lemma TLSAuth_watchers: "TLSAuth A p w = (r, w') \<Longrightarrow> w_watchers w' = w_watchers w"
  by (auto simp: TLSAuth_def refuse_def ret_def try_do_def dest: watchers_eq [OF watchers_server_queries(4)]
      split: peer_auth.splits list.splits sum.splits prod.splits if_splits)

lemma SubscribeWG_state:
  "SubscribeWG md g = (Inr s, g') \<Longrightarrow> \<not> wg_subscribed s \<and> w_watchers (oc_world g') = w_watchers (oc_world g) \<and>
     oc_status g' = oc_status g \<and> oc_hc g' = oc_hc g"
  by (auto simp: SubscribeWG_def ret_def throw_def try_do_def on_world_def wg_subscribed_def
      dest: watchers_eq [OF watchers_server_queries(3)] split: option.splits sum.splits prod.splits)

lemma update_split: "i < length xs \<Longrightarrow> xs = take i xs @ xs ! i # drop (Suc i) xs \<and> xs[i := x] = take i xs @ x # drop (Suc i) xs"
  by (simp add: upd_conv_take_nth_drop id_take_nth_drop)

lemma wg_effect_hc: "wg_effect s g s' g' \<Longrightarrow> oc_hc g' = oc_hc g"
  by (auto simp: wg_effect_def Let_def view_def)

lemma sys_ok_step: "sys_step E A y y' \<Longrightarrow> sys_ok y \<Longrightarrow> sys_ok y'"
proof (induction rule: sys_step.induct)
  case (connect p y md w s g)
  with TLSAuth_watchers [OF connect.hyps(1)] SubscribeWG_state [OF connect.hyps(2)] show ?case
    by (auto simp: sys_ok_def watchers_ok_def live_tags_def statuses_ok_def)
next
  case (react i y ev s g)
  from wg_react_effect [OF react.hyps(2)] have e: "wg_effect (sy_wg y ! i) (sy_orch y) s g" .
  from update_split [OF react.hyps(1)] obtain us vs where ws: "sy_wg y = us @ sy_wg y ! i # vs" "(sy_wg y)[i := s] = us @ s # vs"
    by blast
  from react.prems have "watchers_ok (us @ s # vs) (w_watchers (oc_world g))" "statuses_ok (us @ s # vs) (oc_status g)"
    using watchers_ok_effect [OF _ e, of us vs] statuses_ok_effect [OF _ e, of us vs] ws(1) by (simp_all add: sys_ok_def)
  with react.prems wg_effect_hc [OF e] ws(2) show ?case by (simp add: sys_ok_def)
next
  case (hc_connect y)
  then show ?case by (auto simp: sys_ok_def hc_ok_def)
next
  case (hc_react i y ev s g)
  from update_split [OF hc_react.hyps(1)] obtain us vs where ps: "sy_hc y = us @ sy_hc y ! i # vs" "(sy_hc y)[i := s] = us @ s # vs"
    by blast
  with hc_react.prems have "hc_ok (us @ sy_hc y ! i # vs) (oc_hc (sy_orch y))" by (simp add: sys_ok_def)
  from hc_react_ok [OF this hc_react.hyps(2)] hc_react.prems ps(2) show ?case by (simp add: sys_ok_def)
next
  case (deleted y i)
  then show ?case by (auto simp: sys_ok_def statuses_ok_def map_Del_def)
qed (simp add: sys_ok_def)

lemma sys_reach_ok: "sys_reach E A y \<Longrightarrow> sys_ok y"
proof (induction rule: sys_reach.induct)
  case (init w)
  then show ?case
    by (simp add: sys_ok_def sys_init_def watchers_ok_def live_tags_def statuses_ok_def hc_ok_def NewHealthcheckStatusStore_def map_Set_def)
qed (rule sys_ok_step)

section \<open>Properties\<close>

text \<open>An entry of the page, against the statuses when it was asked for.\<close>

definition page_entry :: "orch \<Rightarrow> api_service_status \<Rightarrow> bool" where
  "page_entry g s \<longleftrightarrow> (\<exists>ok hcaddr. ss_vpn s = vpn_status (oc_status g (ss_id s)) ok \<and>
     ss_healthcheck s = setHealthcheckStatus (oc_hc g) hcaddr)"

lemma all_servers_statuses_entries:
  assumes "all_servers_statuses E g = (Inr page, g')"
  shows "list_all (page_entry g) page"
proof -
  have loop: "for_fold (\<lambda>acc x. bind_do (service_status E (oc_status g) x) (\<lambda>y. ret (acc @ [y]))) acc ss g1 = (Inr page, g2) \<Longrightarrow>
      oc_hc g1 = oc_hc g \<Longrightarrow> list_all (page_entry g) acc \<Longrightarrow> list_all (page_entry g) page" for acc ss g1 g2
  proof (induction ss arbitrary: acc g1)
    case Nil
    then show ?case by (simp add: ret_def)
  next
    case (Cons s ss)
    obtain r w where r: "vcm_AllReplicasRunning E s (oc_world g1) = (r, w)" by fastforce
    with Cons.prems(1) obtain ok where ok: "r = Inr ok"
      by (cases r) (auto simp: service_status_def try_do_def on_world_def)
    let ?e = "\<lparr>ss_id = as_id s, ss_name = as_name s, ss_vpn = vpn_status (oc_status g (as_id s)) ok,
      ss_healthcheck = setHealthcheckStatus (oc_hc g1) (as_healthcheck s)\<rparr>"
    have "page_entry g ?e" using Cons.prems(2) by (auto simp: page_entry_def)
    with Cons.prems r ok show ?case
      by (intro Cons.IH [of "acc @ [?e]" "g1\<lparr>oc_world := w\<rparr>"])
        (simp_all add: service_status_def try_do_def on_world_def gets_def ret_def)
  qed
  obtain ss g1 where "on_world vcm_GetAllServers g = (Inr ss, g1)" "oc_status g1 = oc_status g" "oc_hc g1 = oc_hc g"
    "for_map (service_status E (oc_status g)) ss g1 = (Inr page, g')"
    using assms by (auto simp: all_servers_statuses_def try_do_def on_world_def gets_def split: prod.splits sum.splits)
  with loop [of "[]" ss g1 g'] show ?thesis by (simp add: for_map_def)
qed

lemma vpn_status_green: "st_colour (vpn_status e ok) = Green \<Longrightarrow> e = Some None"
  by (auto simp: vpn_status_def split: option.splits if_splits)

lemma hc_status_green: "st_colour (setHealthcheckStatus st a) = Green \<Longrightarrow> st DefaultHealthCheckStatusStoreID = Some None"
  by (auto simp: setHealthcheckStatus_def map_Get_def Let_def split: option.splits if_splits)

text \<open>C16. In every reachable state of the subscriptions, the status page shows a VPN server green only while
  a VPN server process is subscribed for it, and the healthcheck service green only while one is
  subscribed; notifications go to exactly the tags of the subscribed processes.\<close>

theorem green_means_subscribed:
  assumes "sys_reach E A y" and "all_servers_statuses E (sy_orch y) = (Inr page, g')" and "s \<in> set page"
  shows "(st_colour (ss_vpn s) = Green \<longrightarrow> (\<exists>c\<in>set (sy_wg y). wg_subscribed c \<and> ws_server c = ss_id s)) \<and>
    (st_colour (ss_healthcheck s) = Green \<longrightarrow> (\<exists>p\<in>set (sy_hc y). hc_subscribed p)) \<and>
    set (w_watchers (oc_world (sy_orch y))) = ws_tag ` {c \<in> set (sy_wg y). wg_subscribed c}"
proof -
  from assms(1) have ok: "watchers_ok (sy_wg y) (w_watchers (oc_world (sy_orch y)))"
    "statuses_ok (sy_wg y) (oc_status (sy_orch y))" "hc_ok (sy_hc y) (oc_hc (sy_orch y))"
    using sys_reach_ok by (auto simp: sys_ok_def)
  from all_servers_statuses_entries [OF assms(2)] assms(3) have "page_entry (sy_orch y) s" by (auto simp: list_all_iff)
  then have green: "st_colour (ss_vpn s) = Green \<longrightarrow> oc_status (sy_orch y) (ss_id s) = Some None"
    "st_colour (ss_healthcheck s) = Green \<longrightarrow> oc_hc (sy_orch y) DefaultHealthCheckStatusStoreID = Some None"
    by (auto simp: page_entry_def dest: vpn_status_green hc_status_green)
  with ok(2,3) have "st_colour (ss_vpn s) = Green \<longrightarrow> (\<exists>c\<in>set (sy_wg y). wg_subscribed c \<and> ws_server c = ss_id s)"
    "st_colour (ss_healthcheck s) = Green \<longrightarrow> (\<exists>p\<in>set (sy_hc y). hc_subscribed p)"
    unfolding statuses_ok_def hc_ok_def by fastforce+
  moreover from ok(1) have "set (w_watchers (oc_world (sy_orch y))) = set (live_tags (sy_wg y))"
    by (auto simp: watchers_ok_def dest: mset_eq_setD)
  ultimately show ?thesis by (auto simp: live_tags_def)
qed

text \<open>A VPN server with the tag \<open>t\<close> connects and subscribes.\<close>

definition tag_asn1 :: asn1 where
  "tag_asn1 v = Some (0, 12, v, [])"

definition sample_cert :: "string \<Rightarrow> x509_cert" where
  "sample_cert t = \<lparr>ce_units = [''srv''], ce_exts = [(ServerTagOID, t)]\<rparr>"

definition subscribe_run :: "string \<Rightarrow> orch \<Rightarrow> (err + wg_session) \<times> orch" where
  "subscribe_run t g = (case TLSAuth tag_asn1 (TLSInfo [[sample_cert t]]) (oc_world g) of
     (Inr (Inr md), w) \<Rightarrow> bind_do (SubscribeWG (Some md)) (wg_react sample_env (Incoming (Received Subscribe))) (g\<lparr>oc_world := w\<rparr>)
   | (_, w) \<Rightarrow> (Inl Panic, g))"

lemma subscribe_run_reach:
  assumes "sys_reach sample_env tag_asn1 y" and "subscribe_run t (sy_orch y) = (Inr s, g)"
  shows "sys_reach sample_env tag_asn1 (y\<lparr>sy_orch := g, sy_wg := sy_wg y @ [s]\<rparr>)"
proof -
  obtain md w c g1 where 1: "TLSAuth tag_asn1 (TLSInfo [[sample_cert t]]) (oc_world (sy_orch y)) = (Inr (Inr md), w)"
    "SubscribeWG (Some md) (sy_orch y\<lparr>oc_world := w\<rparr>) = (Inr c, g1)"
    "wg_react sample_env (Incoming (Received Subscribe)) c g1 = (Inr s, g)"
    using assms(2) by (auto simp: subscribe_run_def try_do_def split: prod.splits sum.splits)
  let ?y1 = "y\<lparr>sy_orch := g1, sy_wg := sy_wg y @ [c]\<rparr>"
  have "sys_reach sample_env tag_asn1 ?y1" by (rule sys_reach.step [OF assms(1) sys_step.connect [OF 1(1,2)]])
  then have "sys_reach sample_env tag_asn1 (?y1\<lparr>sy_orch := g, sy_wg := (sy_wg ?y1)[length (sy_wg y) := s]\<rparr>)"
    by (rule sys_reach.step) (rule sys_step.react [where ev = "Incoming (Received Subscribe)"], use 1(3) in simp_all)
  then show ?thesis by simp
qed

definition tagged_world :: world where
  "tagged_world = world_of (sample_db\<lparr>db_tags := [(5, ''t''), (5, ''u'')]\<rparr>) []"

theorem green_means_subscribed_witness:
  "\<exists>y s g' page. sys_reach sample_env tag_asn1 y \<and> all_servers_statuses sample_env (sy_orch y) = (Inr page, g') \<and>
     s \<in> set page \<and> st_colour (ss_vpn s) = Green \<and> (\<exists>c\<in>set (sy_wg y). wg_subscribed c \<and> ws_server c = ss_id s)"
proof -
  let ?y0 = "sys_init tagged_world"
  let ?r = "subscribe_run ''t'' (sy_orch ?y0)"
  let ?p = "all_servers_statuses sample_env (snd ?r)"
  have "case ?r of (Inl e, g) \<Rightarrow> False | (Inr x, g) \<Rightarrow> (case all_servers_statuses sample_env g of
      (Inl e, g') \<Rightarrow> False | (Inr page, g') \<Rightarrow> list_ex (\<lambda>s. st_colour (ss_vpn s) = Green) page)"
    by code_simp
  then obtain x g page g' s where r: "?r = (Inr x, g)" and p: "all_servers_statuses sample_env g = (Inr page, g')"
    and s: "s \<in> set page" "st_colour (ss_vpn s) = Green"
    by (auto simp: list_ex_iff split: prod.splits sum.splits)
  have "sys_reach sample_env tag_asn1 ?y0" by (rule sys_reach.init) (simp add: tagged_world_def world_of_def)
  from subscribe_run_reach [OF this r] have "sys_reach sample_env tag_asn1 (?y0\<lparr>sy_orch := g, sy_wg := sy_wg ?y0 @ [x]\<rparr>)" .
  from green_means_subscribed [OF this _ s(1), of g'] p s this show ?thesis by fastforce
qed

text \<open>
  All processes of a server share one status: the answer of the last one replaces an error that
  another still has.
\<close>

lemma replica_error_hidden:
  assumes "ws_server s1 = ws_server s2" "ws_at s1 = AwaitResponse" "ws_at s2 = AwaitResponse" "code \<noteq> 0"
    and "wg_react E (Incoming (Received (Response code msg))) s1 g = (Inr s1', g1)"
    and "wg_react E (Incoming (Received (Response 0 msg'))) s2 g1 = (Inr s2', g2)"
  shows "oc_status g1 (ws_server s1) \<noteq> Some None \<and> oc_status g2 (ws_server s1) = Some None \<and>
    wg_subscribed s1' \<and> vpn_status (oc_status g2 (ws_server s1)) True = vpn_status (Some None) True"
  using assms
  by (auto simp: wg_response_def receiveFromServer_def attempt_def set_status_def modify_def ret_def map_Set_def wg_subscribed_def)

end
