(* ===== verification/Ldap_Queries.thy ===== *)
theory Ldap_Queries
  imports Users
begin

text \<open>
  The queries on LDAP configurations, templates, the servers and address pools of a template, and the
  relations of users to LDAP configurations (\<open>src/db/query.sql.go\<close>).

  The columns are as wide as the migrations of \<open>src/db/migrations/postgres\<close> say: a longer text, a
  missing referenced row, a second template of the same name and an unknown second factor are errors
  of the database.  What it reads as a \<open>uuid\<close> or a \<open>cidr\<close>, and the identifiers it draws, are parameters.
\<close>

record ldap_env =
  le_uuid :: "string \<Rightarrow> string option"
  le_new_uuid :: "nat \<Rightarrow> string"
  le_cidr :: "string \<Rightarrow> prefix option"
  le_pem :: "string \<Rightarrow> bool"

definition fits :: "nat \<Rightarrow> string \<Rightarrow> bool" where
  "fits n s = (length s \<le> n)"

definition has_template :: "db \<Rightarrow> int \<Rightarrow> bool" where
  "has_template d i = list_ex (\<lambda>t. lt_id t = i) (db_ltemplates d)"

section \<open>Configurations\<close>

definition ldap_row_ok :: "ldap_row \<Rightarrow> db \<Rightarrow> bool" where
  "ldap_row_ok l d = (fits 40 (l_host l) \<and> fits 99 (l_list_filter l) \<and> fits 40 (l_username_attr l) \<and>
     fits 40 (l_uid_attr l) \<and> fits 255 (l_fqdn l) \<and> (case l_template l of None \<Rightarrow> True | Some t \<Rightarrow> has_template d t))"

definition GetAllLdapConfigs :: "ldap_row list wop" where
  "GetAllLdapConfigs = q_many (\<lambda>d. sort_key l_priority (db_ldaps d))"

definition on_uuid :: "ldap_env \<Rightarrow> string \<Rightarrow> (string \<Rightarrow> 'a wop) \<Rightarrow> 'a wop" where
  "on_uuid L i k = (case le_uuid L i of None \<Rightarrow> throw DbError | Some u \<Rightarrow> k u)"

definition GetLdapConfigByID :: "ldap_env \<Rightarrow> string \<Rightarrow> ldap_row wop" where
  "GetLdapConfigByID L i = on_uuid L i (\<lambda>u. q_one (\<lambda>d. filter (\<lambda>l. l_id l = u) (db_ldaps d)))"

definition LdapConfigVerifyPriority :: "int \<Rightarrow> unit wop" where
  "LdapConfigVerifyPriority p = q_one (\<lambda>d. map (\<lambda>_. ()) (filter (\<lambda>l. l_priority l = p) (db_ldaps d)))"

definition InsertLdapConfig :: "ldap_env \<Rightarrow> ldap_row \<Rightarrow> ldap_row wop" where
  "InsertLdapConfig L l = bind_do (draw (\<lambda>n. Inr (le_new_uuid L n))) (\<lambda>u. db_call (\<lambda>d.
     if ldap_row_ok l d \<and> \<not> list_ex (\<lambda>x. l_id x = u) (db_ldaps d)
     then (Inr (l\<lparr>l_id := u\<rparr>), d\<lparr>db_ldaps := db_ldaps d @ [l\<lparr>l_id := u\<rparr>]\<rparr>)
     else (Inl DbError, d)))"

definition UpdateLdapConfig :: "ldap_env \<Rightarrow> ldap_row \<Rightarrow> ldap_row wop" where
  "UpdateLdapConfig L l = on_uuid L (l_id l) (\<lambda>u. db_call (\<lambda>d.
     if \<not> list_ex (\<lambda>x. l_id x = u) (db_ldaps d) then (Inl no_rows, d)
     else if \<not> ldap_row_ok l d then (Inl DbError, d)
     else (Inr (l\<lparr>l_id := u\<rparr>), d\<lparr>db_ldaps := map (\<lambda>x. if l_id x = u then l\<lparr>l_id := u\<rparr> else x) (db_ldaps d)\<rparr>)))"

text \<open>The number of deleted rows; the relations stay, without their configuration.\<close>

definition DeleteLdapConfig :: "ldap_env \<Rightarrow> string \<Rightarrow> nat wop" where
  "DeleteLdapConfig L i = on_uuid L i (\<lambda>u. db_call (\<lambda>d.
     (Inr (length (filter (\<lambda>l. l_id l = u) (db_ldaps d))),
      d\<lparr>db_ldaps := filter (\<lambda>l. l_id l \<noteq> u) (db_ldaps d),
        db_uldaps := map (\<lambda>r. if ul_ldap r = Some u then r\<lparr>ul_ldap := None\<rparr> else r) (db_uldaps d)\<rparr>)))"

section \<open>Templates\<close>

definition ltemplate_ok :: "ldap_template_row \<Rightarrow> bool" where
  "ltemplate_ok t = (fits 50 (lt_name t) \<and> fits 32 (lt_iface t) \<and> list_all (fits 44) (lt_dns t) \<and>
     (case lt_filter t of None \<Rightarrow> True | Some f \<Rightarrow> fits 99 f) \<and>
     (lt_mfa t = ''none'' \<or> lt_mfa t = ''totp'' \<or> lt_mfa t = ''cert''))"

definition LdapTemplateNameCheck :: "string \<Rightarrow> bool wop" where
  "LdapTemplateNameCheck n = q_many (\<lambda>d. list_ex (\<lambda>t. lt_name t = n) (db_ltemplates d))"

definition LdapTemplateIDCheck :: "int \<Rightarrow> bool wop" where
  "LdapTemplateIDCheck i = q_many (\<lambda>d. has_template d i)"

definition GetAllLdapTemplates :: "ldap_template_row list wop" where
  "GetAllLdapTemplates = q_many db_ltemplates"

definition GetLdapTemplateByID :: "int \<Rightarrow> ldap_template_row wop" where
  "GetLdapTemplateByID i = q_one (\<lambda>d. filter (\<lambda>t. lt_id t = i) (db_ltemplates d))"

definition InsertLdapTemplate :: "ldap_template_row \<Rightarrow> ldap_template_row wop" where
  "InsertLdapTemplate t = q_insert SeqLdapTemplate db_ltemplates_update
     (\<lambda>d. ltemplate_ok t \<and> \<not> list_ex (\<lambda>x. lt_name x = lt_name t) (db_ltemplates d)) (\<lambda>i. t\<lparr>lt_id := i\<rparr>)"

definition UpdateLdapTemplate :: "ldap_template_row \<Rightarrow> ldap_template_row wop" where
  "UpdateLdapTemplate t = db_call (\<lambda>d.
     if \<not> has_template d (lt_id t) then (Inl no_rows, d)
     else if \<not> ltemplate_ok t \<or> list_ex (\<lambda>x. lt_name x = lt_name t \<and> lt_id x \<noteq> lt_id t) (db_ltemplates d) then (Inl DbError, d)
     else (Inr t, d\<lparr>db_ltemplates := map (\<lambda>x. if lt_id x = lt_id t then t else x) (db_ltemplates d)\<rparr>))"

text \<open>Refused while a configuration refers to the template; its servers and pools go with it.\<close>

definition DeleteLdapTemplate :: "int \<Rightarrow> unit wop" where
  "DeleteLdapTemplate i = q_exec
     (\<lambda>d. has_template d i \<longrightarrow> \<not> list_ex (\<lambda>l. l_template l = Some i) (db_ldaps d))
     (\<lambda>d. d\<lparr>db_ltemplates := filter (\<lambda>t. lt_id t \<noteq> i) (db_ltemplates d),
            db_lts := filter (\<lambda>l. lts_template l \<noteq> i) (db_lts d),
            db_ltpools := filter (\<lambda>(t, _). t \<noteq> i) (db_ltpools d)\<rparr>)"

definition ltemplate_pools :: "int \<Rightarrow> db \<Rightarrow> address_pool list" where
  "ltemplate_pools i d =
     concat (map (\<lambda>p. map (\<lambda>_. p) (filter (\<lambda>(t, q). t = i \<and> q = ap_id p) (db_ltpools d))) (db_pools d))"

definition GetLdapTemplateAddressPools :: "int \<Rightarrow> address_pool list wop" where
  "GetLdapTemplateAddressPools i = q_many (ltemplate_pools i)"

definition InsertLdapTemplateAddressPool :: "int \<Rightarrow> int \<Rightarrow> unit wop" where
  "InsertLdapTemplateAddressPool t p =
     q_exec (\<lambda>d. has_template d t \<and> list_ex (\<lambda>x. ap_id x = p) (db_pools d)) (db_ltpools_update (\<lambda>l. l @ [(t, p)]))"

definition DeleteLdapTemplateAddressPools :: "int \<Rightarrow> unit wop" where
  "DeleteLdapTemplateAddressPools i = q_exec (\<lambda>d. True) (db_ltpools_update (filter (\<lambda>(t, _). t \<noteq> i)))"

section \<open>Servers of a template\<close>

fun read_cidrs :: "ldap_env \<Rightarrow> string list \<Rightarrow> prefix list option" where
  "read_cidrs L [] = Some []"
| "read_cidrs L (s # ss) = (case (le_cidr L s, read_cidrs L ss) of (Some p, Some ps) \<Rightarrow> Some (p # ps) | _ \<Rightarrow> None)"

definition has_server :: "db \<Rightarrow> int \<Rightarrow> bool" where
  "has_server d i = list_ex (\<lambda>s. s_id s = i) (db_servers d)"

definition InsertLdapTemplateServer :: "ldap_env \<Rightarrow> int \<Rightarrow> int \<Rightarrow> string list \<Rightarrow> bool \<Rightarrow> unit wop" where
  "InsertLdapTemplateServer L t s ips psk = db_call (\<lambda>d. case read_cidrs L ips of
     None \<Rightarrow> (Inl DbError, d)
   | Some ps \<Rightarrow> if has_template d t \<and> has_server d s
       then (Inr (), d\<lparr>db_lts := db_lts d @ [\<lparr>lts_template = t, lts_server = s, lts_ips = ps, lts_use_psk = psk\<rparr>]\<rparr>)
       else (Inl DbError, d))"

definition UpdateLdapTemplateServer :: "ldap_env \<Rightarrow> int \<Rightarrow> int \<Rightarrow> int \<Rightarrow> string list \<Rightarrow> bool \<Rightarrow> nat wop" where
  "UpdateLdapTemplateServer L t old s ips psk = db_call (\<lambda>d. case read_cidrs L ips of
     None \<Rightarrow> (Inl DbError, d)
   | Some ps \<Rightarrow>
       let n = length (filter (\<lambda>l. lts_template l = t \<and> lts_server l = old) (db_lts d)) in
       if n \<noteq> 0 \<and> \<not> has_server d s then (Inl DbError, d)
       else (Inr n, d\<lparr>db_lts := map (\<lambda>l. if lts_template l = t \<and> lts_server l = old
              then l\<lparr>lts_server := s, lts_ips := ps, lts_use_psk := psk\<rparr> else l) (db_lts d)\<rparr>))"

definition DeleteLdapTemplateServer :: "int \<Rightarrow> int \<Rightarrow> nat wop" where
  "DeleteLdapTemplateServer t s = db_call (\<lambda>d.
     (Inr (length (filter (\<lambda>l. lts_template l = t \<and> lts_server l = s) (db_lts d))),
      d\<lparr>db_lts := filter (\<lambda>l. \<not> (lts_template l = t \<and> lts_server l = s)) (db_lts d)\<rparr>))"

definition GetLdapTemplateServers :: "int \<Rightarrow> (string \<times> ldap_template_server_row) list wop" where
  "GetLdapTemplateServers t = q_many (\<lambda>d.
     concat (map (\<lambda>l. map (\<lambda>s. (s_name s, l)) (filter (\<lambda>s. s_id s = lts_server l) (db_servers d)))
       (filter (\<lambda>l. lts_template l = t) (db_lts d))))"

section \<open>Relations of users to configurations\<close>

definition GetLdapUsersPriorities :: "(int \<times> int \<times> string) list wop" where
  "GetLdapUsersPriorities = q_many (\<lambda>d. sort_key fst (concat (map (\<lambda>r. map (\<lambda>l. (l_priority l, ul_user r, l_id l))
     (filter (\<lambda>l. ul_ldap r = Some (l_id l)) (db_ldaps d))) (db_uldaps d))))"

definition GetLdapRelationByLdapIdAndUserID :: "ldap_env \<Rightarrow> string \<Rightarrow> string \<Rightarrow> user_ldap_row wop" where
  "GetLdapRelationByLdapIdAndUserID L i uid = on_uuid L i (\<lambda>u.
     q_one (\<lambda>d. filter (\<lambda>r. ul_ldap r = Some u \<and> ul_uid r = uid) (db_uldaps d)))"

definition InsertLdapRelation :: "ldap_env \<Rightarrow> int \<Rightarrow> string \<Rightarrow> string \<Rightarrow> string \<Rightarrow> int \<Rightarrow> int \<Rightarrow> int wop" where
  "InsertLdapRelation L user i uid dn created updated = on_uuid L i (\<lambda>u.
     bind_do (q_insert SeqUserLdap db_uldaps_update
       (\<lambda>d. list_ex (\<lambda>x. u_id x = user) (db_users d) \<and> list_ex (\<lambda>l. l_id l = u) (db_ldaps d) \<and> fits 40 uid \<and> fits 200 dn)
       (\<lambda>k. \<lparr>ul_id = k, ul_user = user, ul_ldap = Some u, ul_uid = uid, ul_dn = dn, ul_created = created, ul_updated = updated\<rparr>))
     (\<lambda>r. ret (ul_id r)))"

definition UpdateLdapRelation :: "ldap_env \<Rightarrow> int \<Rightarrow> int \<Rightarrow> string \<Rightarrow> string \<Rightarrow> string \<Rightarrow> int \<Rightarrow> nat wop" where
  "UpdateLdapRelation L k user i uid dn updated = on_uuid L i (\<lambda>u. db_call (\<lambda>d.
     let p = (\<lambda>r. ul_id r = k \<and> ul_ldap r = Some u \<and> ul_uid r = uid); n = length (filter p (db_uldaps d)) in
     if n \<noteq> 0 \<and> \<not> (list_ex (\<lambda>x. u_id x = user) (db_users d) \<and> fits 200 dn) then (Inl DbError, d)
     else (Inr n, d\<lparr>db_uldaps := map (\<lambda>r. if p r then r\<lparr>ul_user := user, ul_dn := dn, ul_updated := updated\<rparr> else r) (db_uldaps d)\<rparr>)))"

definition DeleteLdapRelations :: "int \<Rightarrow> nat wop" where
  "DeleteLdapRelations before = db_call (\<lambda>d.
     (Inr (length (filter (\<lambda>r. ul_updated r < before) (db_uldaps d))),
      d\<lparr>db_uldaps := filter (\<lambda>r. \<not> ul_updated r < before) (db_uldaps d)\<rparr>))"

definition GetLdapUsersWithoutRelations :: "(int \<times> string) list wop" where
  "GetLdapUsersWithoutRelations = q_many (\<lambda>d. map (\<lambda>u. (u_id u, u_username u))
     (filter (\<lambda>u. u_auth_service u = ''ldap'' \<and> \<not> list_ex (\<lambda>r. ul_user r = u_id u) (db_uldaps d)) (db_users d)))"

lemmas [query_defs] = GetAllLdapConfigs_def GetLdapConfigByID_def LdapConfigVerifyPriority_def InsertLdapConfig_def
  UpdateLdapConfig_def DeleteLdapConfig_def LdapTemplateNameCheck_def LdapTemplateIDCheck_def GetAllLdapTemplates_def
  GetLdapTemplateByID_def InsertLdapTemplate_def UpdateLdapTemplate_def DeleteLdapTemplate_def
  GetLdapTemplateAddressPools_def InsertLdapTemplateAddressPool_def DeleteLdapTemplateAddressPools_def
  InsertLdapTemplateServer_def UpdateLdapTemplateServer_def DeleteLdapTemplateServer_def GetLdapTemplateServers_def
  GetLdapUsersPriorities_def GetLdapRelationByLdapIdAndUserID_def InsertLdapRelation_def UpdateLdapRelation_def
  DeleteLdapRelations_def GetLdapUsersWithoutRelations_def

end
