(* ===== verification/Ldap_Config.thy ===== *)
theory Ldap_Config
  imports Ldap_Queries Rpc_Client
begin

text \<open>
  The LDAP part of the user manager: configurations, templates with their address pools and servers
  (\<open>src/service/user/manager.go\<close>), the relations of users (\<open>src/service/user/querier.go\<close>) and the
  conversions of \<open>src/service/user/ldap_models.go\<close>.  The directory itself is not in the repository:
  \<open>src/service/user/ldap_stub.go\<close> answers that it is not supported.
\<close>

section \<open>Values of the interface\<close>

record api_ldap_config =
  alc_priority :: int
  alc_host :: string
  alc_port :: int
  alc_base_dn :: string
  alc_bind_dn :: string
  alc_bind_pw :: string
  alc_list_filter :: string
  alc_username_attr :: string
  alc_uid_attr :: string
  alc_use_tls :: bool
  alc_fqdn :: string
  alc_ca_cert :: string
  alc_template :: int

text \<open>What is returned has no password.\<close>

record api_ldap_config_get =
  alg_id :: string
  alg_priority :: int
  alg_host :: string
  alg_port :: int
  alg_base_dn :: string
  alg_bind_dn :: string
  alg_list_filter :: string
  alg_username_attr :: string
  alg_uid_attr :: string
  alg_use_tls :: bool
  alg_fqdn :: string
  alg_ca_cert :: string
  alg_template :: int

record api_ldap_template =
  alt_id :: int
  alt_name :: string
  alt_filter :: string
  alt_is_admin :: bool
  alt_mfa :: string
  alt_iface :: string
  alt_port :: string
  alt_mtu :: string
  alt_dns :: "string list"
  alt_pools :: "api_address_pool list"

record api_ldap_template_server =
  als_server :: int
  als_server_name :: string
  als_ips :: "string list"
  als_use_psk :: bool

section \<open>Conversions (ldap_models.go)\<close>

record ldap_config =
  lc_id :: string
  lc_priority :: int
  lc_host :: string
  lc_port :: int
  lc_base_dn :: string
  lc_bind_dn :: string
  lc_bind_pw :: string
  lc_list_filter :: string
  lc_username_attr :: string
  lc_uid_attr :: string
  lc_use_tls :: bool
  lc_ca_cert :: string
  lc_fqdn :: string
  lc_template :: int

definition ToAPILdapConfigGet :: "ldap_config \<Rightarrow> api_ldap_config_get" where
  "ToAPILdapConfigGet c =
     \<lparr>alg_id = lc_id c, alg_priority = lc_priority c, alg_host = lc_host c, alg_port = lc_port c,
      alg_base_dn = lc_base_dn c, alg_bind_dn = lc_bind_dn c, alg_list_filter = lc_list_filter c,
      alg_username_attr = lc_username_attr c, alg_uid_attr = lc_uid_attr c, alg_use_tls = lc_use_tls c,
      alg_fqdn = lc_fqdn c, alg_ca_cert = lc_ca_cert c, alg_template = lc_template c\<rparr>"

definition DBInsertParamsToLdapConfig :: "ldap_row \<Rightarrow> string \<Rightarrow> ldap_config" where
  "DBInsertParamsToLdapConfig r i =
     \<lparr>lc_id = i, lc_priority = l_priority r, lc_host = l_host r, lc_port = l_port r, lc_base_dn = l_base_dn r,
      lc_bind_dn = l_bind_dn r, lc_bind_pw = l_bind_pw r, lc_list_filter = l_list_filter r,
      lc_username_attr = l_username_attr r, lc_uid_attr = l_uid_attr r, lc_use_tls = l_use_tls r,
      lc_ca_cert = l_ca_cert r, lc_fqdn = l_fqdn r, lc_template = int_from_ptr (l_template r)\<rparr>"

text \<open>A missing template is read as 0 (\<open>COALESCE\<close>).\<close>

definition DBRowToLdapConfig :: "ldap_row \<Rightarrow> string \<Rightarrow> ldap_config" where
  "DBRowToLdapConfig r i = DBInsertParamsToLdapConfig r i"

definition DBAllRowsToLdapConfig :: "ldap_row \<Rightarrow> ldap_config" where
  "DBAllRowsToLdapConfig r = DBInsertParamsToLdapConfig r (l_id r)"

definition ToDBUpdateParams :: "ldap_config \<Rightarrow> ldap_row" where
  "ToDBUpdateParams c =
     \<lparr>l_id = lc_id c, l_priority = lc_priority c, l_host = lc_host c, l_port = lc_port c, l_base_dn = lc_base_dn c,
      l_bind_dn = lc_bind_dn c, l_list_filter = lc_list_filter c, l_username_attr = lc_username_attr c,
      l_uid_attr = lc_uid_attr c, l_use_tls = lc_use_tls c, l_fqdn = lc_fqdn c, l_ca_cert = lc_ca_cert c,
      l_template = int_to_ptr (lc_template c), l_bind_pw = lc_bind_pw c\<rparr>"

definition ToDBInsertParams :: "ldap_config \<Rightarrow> ldap_row" where
  "ToDBInsertParams c = (ToDBUpdateParams c)\<lparr>l_id := []\<rparr>"

definition ToAPILdapTemplate :: "ldap_template_row \<Rightarrow> address_pool list \<Rightarrow> api_ldap_template" where
  "ToAPILdapTemplate t ps =
     \<lparr>alt_id = lt_id t, alt_name = lt_name t, alt_filter = (case lt_filter t of None \<Rightarrow> [] | Some x \<Rightarrow> x),
      alt_is_admin = lt_is_admin t, alt_mfa = lt_mfa t, alt_iface = lt_iface t,
      alt_port = (case lt_port t of None \<Rightarrow> [] | Some x \<Rightarrow> x), alt_mtu = (case lt_mtu t of None \<Rightarrow> [] | Some x \<Rightarrow> x),
      alt_dns = lt_dns t, alt_pools = map pool_to_api ps\<rparr>"

text \<open>The row a configuration of the interface is stored as.\<close>

definition row_of_api :: "string \<Rightarrow> string \<Rightarrow> api_ldap_config \<Rightarrow> ldap_row" where
  "row_of_api i pw a =
     \<lparr>l_id = i, l_priority = alc_priority a, l_host = alc_host a, l_port = alc_port a, l_base_dn = alc_base_dn a,
      l_bind_dn = alc_bind_dn a, l_list_filter = alc_list_filter a, l_username_attr = alc_username_attr a,
      l_uid_attr = alc_uid_attr a, l_use_tls = alc_use_tls a, l_fqdn = alc_fqdn a, l_ca_cert = alc_ca_cert a,
      l_template = int_to_ptr (alc_template a), l_bind_pw = pw\<rparr>"

section \<open>Configurations\<close>

definition validateLdapConfig :: "ldap_env \<Rightarrow> api_ldap_config \<Rightarrow> err + unit" where
  "validateLdapConfig L a =
     (if alc_use_tls a then
        if alc_fqdn a = [] \<and> alc_ca_cert a = [] then Inr ()
        else if alc_fqdn a = [] then Inl (errors_new ''FQDN is not provided'')
        else if length (alc_fqdn a) > 255 then Inl (errors_new ''FQDN exceeds its maximum length'')
        else if alc_ca_cert a = [] then Inl (errors_new ''the CA certificate is not provided'')
        else if \<not> le_pem L (alc_ca_cert a) then Inl (errors_new ''invalid CA certificate'')
        else Inr ()
      else if alc_ca_cert a \<noteq> [] \<or> alc_fqdn a \<noteq> [] then Inl (errors_new ''enable TLS to add FQDN and CA certificate'')
      else Inr ())"

definition uq_VerifyLdapConfigPriority :: "int \<Rightarrow> unit wop" where
  "uq_VerifyLdapConfigPriority p = attempt (LdapConfigVerifyPriority p) (\<lambda>r. case r of
     Inl e \<Rightarrow> if e = no_rows then ret () else throw (query_err e)
   | Inr _ \<Rightarrow> throw (errors_new ''LDAP configuration with the same priority level already exists''))"

definition um_GetAllLdapConfigs :: "api_ldap_config_get list wop" where
  "um_GetAllLdapConfigs = bind_do GetAllLdapConfigs (\<lambda>rs. ret (map (\<lambda>r. ToAPILdapConfigGet (DBAllRowsToLdapConfig r)) rs))"

definition ldap_config_missing :: err where
  "ldap_config_missing = Errorf ''ldap configuration'' [Sentinel ErrNotFound]"

definition um_GetLdapConfig :: "ldap_env \<Rightarrow> string \<Rightarrow> api_ldap_config_get wop" where
  "um_GetLdapConfig L i = try_do (GetLdapConfigByID L i) (on_no_rows ldap_config_missing (\<lambda>e. e)) (\<lambda>r.
     ret (ToAPILdapConfigGet (DBRowToLdapConfig r i)))"

definition um_CreateLdapConfig :: "env \<Rightarrow> ldap_env \<Rightarrow> api_ldap_config \<Rightarrow> api_ldap_config_get wop" where
  "um_CreateLdapConfig E L a =
     try_do (lift (validateLdapConfig L a)) (under ErrInvalidData ''validate'') (\<lambda>_.
     try_do (uq_VerifyLdapConfigPriority (alc_priority a)) (under ErrInvalidData ''priority'') (\<lambda>_.
     try_do (seal_op E (alc_bind_pw a)) (wrapv ''failed to encrypt LDAP bind password'') (\<lambda>pw.
     let row = row_of_api [] pw a in
     bind_do (InsertLdapConfig L row) (\<lambda>r.
       ret (ToAPILdapConfigGet (DBInsertParamsToLdapConfig row (l_id r)))))))"

definition um_UpdateLdapConfig :: "env \<Rightarrow> ldap_env \<Rightarrow> api_ldap_config \<Rightarrow> string \<Rightarrow> unit wop" where
  "um_UpdateLdapConfig E L a i =
     try_do (lift (validateLdapConfig L a)) (under ErrInvalidData ''validate'') (\<lambda>_.
     try_do (GetLdapConfigByID L i) (on_no_rows ldap_config_missing (\<lambda>e. e)) (\<lambda>old.
     try_do (when_do (alc_priority a \<noteq> l_priority old) (uq_VerifyLdapConfigPriority (alc_priority a)))
       (under ErrInvalidData ''priority'') (\<lambda>_.
     try_do (if alc_bind_pw a \<noteq> [] then seal_op E (alc_bind_pw a) else ret (l_bind_pw old))
       (wrapv ''failed to encrypt LDAP bind password'') (\<lambda>pw.
     try_do (UpdateLdapConfig L (row_of_api i pw a)) (on_no_rows ldap_config_missing (\<lambda>e. e)) (\<lambda>_. ret ())))))"

definition uq_DeleteLdapConfig :: "ldap_env \<Rightarrow> string \<Rightarrow> unit wop" where
  "uq_DeleteLdapConfig L i = try_do (DeleteLdapConfig L i) query_err (\<lambda>n. guard_do (n = 0) ldap_config_missing (ret ()))"

definition um_DeleteLdapConfig :: "ldap_env \<Rightarrow> string \<Rightarrow> unit wop" where
  "um_DeleteLdapConfig L i = uq_DeleteLdapConfig L i"

section \<open>Templates\<close>

definition um_CheckLdapTemplateExists :: "int \<Rightarrow> bool wop" where
  "um_CheckLdapTemplateExists i = LdapTemplateIDCheck i"

definition ltemplate_with_pools :: "ldap_template_row \<Rightarrow> api_ldap_template wop" where
  "ltemplate_with_pools t = try_do (GetLdapTemplateAddressPools (lt_id t))
     (on_no_rows (Sentinel ErrNotFound) (under_both ErrQueryFailed ''GetLdapTemplateAddressPools'')) (\<lambda>ps.
       ret (ToAPILdapTemplate t ps))"

definition um_GetAllLdapTemplates :: "api_ldap_template list wop" where
  "um_GetAllLdapTemplates = try_do GetAllLdapTemplates (under_both ErrQueryFailed ''GetAllLdapTemplates'') (for_map ltemplate_with_pools)"

definition um_GetLdapTemplate :: "int \<Rightarrow> api_ldap_template wop" where
  "um_GetLdapTemplate i = try_do (GetLdapTemplateByID i)
     (on_no_rows (Sentinel ErrNotFound) (under_both ErrQueryFailed ''GetLdapTemplateByID'')) ltemplate_with_pools"

definition ltemplate_read_pools :: "api_address_pool list \<Rightarrow> address_pool list wop" where
  "ltemplate_read_pools = for_map (\<lambda>p. try_do (GetAddressPoolByIDRow (aap_id p))
     (on_no_rows (new_under ErrInvalidData ''address pool does not exist'') (under ErrQueryFailed ''GetAddressPoolByID'')) ret)"

definition ltemplate_check_pools :: "address_pool list \<Rightarrow> unit wop" where
  "ltemplate_check_pools ps = when_do (length ps > 1)
     (try_do (lift (verify_pools_not_overlap ps)) (under ErrInvalidData ''VerifyPoolsNotOverlap'') ret)"

definition ltemplate_row :: "int \<Rightarrow> string \<Rightarrow> api_ldap_template \<Rightarrow> ldap_template_row" where
  "ltemplate_row i mfa a =
     \<lparr>lt_id = i, lt_name = alt_name a, lt_filter = string_to_ptr (alt_filter a), lt_iface = alt_iface a,
      lt_is_admin = alt_is_admin a, lt_mfa = mfa, lt_port = string_to_ptr (alt_port a), lt_mtu = string_to_ptr (alt_mtu a),
      lt_dns = alt_dns a\<rparr>"

definition ltemplate_insert_pool :: "int \<Rightarrow> api_address_pool \<Rightarrow> unit wop" where
  "ltemplate_insert_pool i p = try_do (InsertLdapTemplateAddressPool i (aap_id p)) (under ErrQueryFailed ''InsertLdapTemplateAddressPool'') ret"

definition um_CreateLdapTemplate :: "user_cfg \<Rightarrow> api_ldap_template \<Rightarrow> int wop" where
  "um_CreateLdapTemplate C a =
     guard_do (alt_iface a = []) (new_under ErrInvalidData ''interface name can not be empty'') (
     guard_do (alt_pools a = []) (new_under ErrInvalidData ''address pools can not be empty'') (
     try_do (lift (ensure_mfa_can_be_set C (alt_mfa a))) (under ErrInvalidData ''mfa'') (\<lambda>_.
     bind_do (LdapTemplateNameCheck (alt_name a)) (\<lambda>ex.
     guard_do ex (Sentinel VcmErrAlreadyExists) (
     bind_do (ltemplate_read_pools (alt_pools a)) (\<lambda>ps.
     bind_do (ltemplate_check_pools ps) (\<lambda>_.
     let mfa = (if alt_mfa a = [] then ''none'' else alt_mfa a) in
     try_do (InsertLdapTemplate (ltemplate_row 0 mfa a)) (under ErrQueryFailed ''InsertLdapTemplate'') (\<lambda>t.
     bind_do (for_each (ltemplate_insert_pool (lt_id t)) (alt_pools a)) (\<lambda>_.
       ret (lt_id t))))))))))"

definition um_UpdateLdapTemplate :: "int \<Rightarrow> api_ldap_template \<Rightarrow> unit wop" where
  "um_UpdateLdapTemplate i a =
     guard_do (alt_iface a = []) (new_under ErrInvalidData ''interface name can not be empty'') (
     guard_do (alt_pools a = []) (new_under ErrInvalidData ''address pools can not be empty'') (
     try_do (GetLdapTemplateByID i) (on_no_rows (Sentinel ErrNotFound) (under_both ErrQueryFailed ''GetLdapTemplateByID'')) (\<lambda>cur.
     bind_do (when_do (lt_name cur \<noteq> alt_name a)
       (try_do (LdapTemplateNameCheck (alt_name a)) (under_both ErrQueryFailed ''TemplateNameCheck'') (\<lambda>ex.
          guard_do ex (Sentinel VcmErrAlreadyExists) (ret ())))) (\<lambda>_.
     bind_do (ltemplate_read_pools (alt_pools a)) (\<lambda>ps.
     bind_do (ltemplate_check_pools ps) (\<lambda>_.
     let mfa = (if alt_mfa a = [] then lt_mfa cur else alt_mfa a) in
     try_do (UpdateLdapTemplate (ltemplate_row i mfa a))
       (on_no_rows (Sentinel ErrNotFound) (under_both ErrQueryFailed ''UpdateLdapTemplate'')) (\<lambda>_.
     try_do (DeleteLdapTemplateAddressPools i) (under ErrQueryFailed ''DeleteLdapTemplateAddressPools'') (\<lambda>_.
       for_each (ltemplate_insert_pool i) (alt_pools a)))))))))"

definition um_DeleteLdapTemplate :: "int \<Rightarrow> unit wop" where
  "um_DeleteLdapTemplate i =
     try_do (LdapTemplateIDCheck i) (under_both ErrQueryFailed ''LdapTemplateIDCheck'') (\<lambda>ex.
     guard_do (\<not> ex) (new_under ErrNotFound ''LDAP template not found'')
       (try_do (DeleteLdapTemplate i) (under_both ErrQueryFailed ''DeleteLdapTemplate'') ret))"

section \<open>Servers of a template\<close>

definition uq_GetLdapTemplateServers :: "int \<Rightarrow> (string \<times> ldap_template_server_row) list wop" where
  "uq_GetLdapTemplateServers t = try_do (GetLdapTemplateServers t) query_err ret"

definition um_GetLdapTemplateServers :: "int \<Rightarrow> api_ldap_template_server list wop" where
  "um_GetLdapTemplateServers t = bind_do (uq_GetLdapTemplateServers t) (\<lambda>rs.
     ret (map (\<lambda>(n, l). \<lparr>als_server = lts_server l, als_server_name = n, als_ips = map prefix_string (lts_ips l),
       als_use_psk = lts_use_psk l\<rparr>) rs))"

definition ConvertAllowedIPsStringsToPrefixes :: "string list \<Rightarrow> err + prefix list" where
  "ConvertAllowedIPsStringsToPrefixes = map_res parse_ip_net (wrapw ''invalid IP prefix'')"

definition ensureHealthcheckInAllowedIPs :: "api_server \<Rightarrow> string list \<Rightarrow> err + string list" where
  "ensureHealthcheckInAllowedIPs s ips =
     (if as_healthcheck s = [] then Inr ips
      else
        bind_res (ConvertAllowedIPsStringsToPrefixes ips) (wrapv ''convert allowed IPs to prefixes'') (\<lambda>ps.
        bind_res (parse_addr_res (as_healthcheck s)) (wrapw ''parse healthcheck address'') (\<lambda>hc.
          Inr (map prefix_string (fst (ensure_healthcheck_addr ps (Some hc)))))))"

definition validateAndPrepareTemplateServer :: "int \<Rightarrow> string list \<Rightarrow> string list wop" where
  "validateAndPrepareTemplateServer s ips =
     try_do (vcm_GetServerByID s) (wrapv ''GetServerByID'') (\<lambda>srv. lift (ensureHealthcheckInAllowedIPs srv ips))"

definition uq_InsertLdapTemplateServer :: "ldap_env \<Rightarrow> int \<Rightarrow> int \<Rightarrow> string list \<Rightarrow> bool \<Rightarrow> unit wop" where
  "uq_InsertLdapTemplateServer L t s ips psk = try_do (InsertLdapTemplateServer L t s ips psk) query_err ret"

definition uq_UpdateLdapTemplateServer :: "ldap_env \<Rightarrow> int \<Rightarrow> int \<Rightarrow> int \<Rightarrow> string list \<Rightarrow> bool \<Rightarrow> unit wop" where
  "uq_UpdateLdapTemplateServer L t old s ips psk =
     try_do (UpdateLdapTemplateServer L t old s ips psk) query_err (\<lambda>n. guard_do (n = 0) (Sentinel ErrNotFound) (ret ()))"

definition uq_DeleteLdapTemplateServer :: "int \<Rightarrow> int \<Rightarrow> unit wop" where
  "uq_DeleteLdapTemplateServer t s =
     try_do (DeleteLdapTemplateServer t s) query_err (\<lambda>n. guard_do (n = 0) (Sentinel ErrNotFound) (ret ()))"

definition um_CreateLdapTemplateServer :: "ldap_env \<Rightarrow> int \<Rightarrow> api_ldap_template_server \<Rightarrow> unit wop" where
  "um_CreateLdapTemplateServer L t a =
     bind_do (validateAndPrepareTemplateServer (als_server a) (als_ips a)) (\<lambda>ips.
     try_do (uq_InsertLdapTemplateServer L t (als_server a) ips (als_use_psk a))
       (wrapv ''unable to insert LDAP template server into database'') ret)"

definition um_UpdateLdapTemplateServer :: "ldap_env \<Rightarrow> int \<Rightarrow> int \<Rightarrow> api_ldap_template_server \<Rightarrow> unit wop" where
  "um_UpdateLdapTemplateServer L t old a =
     bind_do (validateAndPrepareTemplateServer (als_server a) (als_ips a)) (\<lambda>ips.
     try_do (uq_UpdateLdapTemplateServer L t old (als_server a) ips (als_use_psk a))
       (wrapv ''unable to update LDAP template server in database'') ret)"

definition um_DeleteLdapTemplateServer :: "int \<Rightarrow> int \<Rightarrow> unit wop" where
  "um_DeleteLdapTemplateServer t s =
     try_do (uq_DeleteLdapTemplateServer t s) (wrapv ''unable to delete LDAP template server from database'') ret"

section \<open>Users of a directory\<close>

record ldap_relation =
  rel_id :: int
  rel_user :: int
  rel_ldap :: string
  rel_uid :: string
  rel_dn :: string
  rel_created :: int
  rel_updated :: int

definition uq_InsertLdapRelation :: "ldap_env \<Rightarrow> ldap_relation \<Rightarrow> ldap_relation wop" where
  "uq_InsertLdapRelation L r = try_do (InsertLdapRelation L (rel_user r) (rel_ldap r) (base64_encode (rel_uid r)) (rel_dn r)
     (rel_created r) (rel_updated r)) query_err (\<lambda>k. ret (r\<lparr>rel_id := k\<rparr>))"

text \<open>The user and the relation in one transaction.\<close>

definition uq_InsertLDAPUserWithRelation :: "ldap_env \<Rightarrow> user_model \<Rightarrow> ldap_relation \<Rightarrow> (user_model \<times> ldap_relation) wop" where
  "uq_InsertLDAPUserWithRelation L u r = with_tx (
     bind_do (gets w_now) (\<lambda>now.
     try_do (InsertUser (u\<lparr>u_ntf := [], u_updated_at := now\<rparr>)) query_err (\<lambda>row.
     bind_do (uq_InsertLdapRelation L (r\<lparr>rel_user := u_id row\<rparr>)) (\<lambda>rel.
       ret (u\<lparr>u_id := u_id row, u_updated_at := u_updated_at row\<rparr>, rel)))))"

definition uq_GetLdapRelation :: "ldap_env \<Rightarrow> string \<Rightarrow> string \<Rightarrow> ldap_relation wop" where
  "uq_GetLdapRelation L i uid = try_do (GetLdapRelationByLdapIdAndUserID L i (base64_encode uid))
     (on_no_rows (Errorf ''ldap relation'' [Sentinel ErrNotFound]) query_err) (\<lambda>r.
       ret \<lparr>rel_id = ul_id r, rel_user = ul_user r, rel_ldap = i, rel_uid = uid, rel_dn = ul_dn r,
            rel_created = ul_created r, rel_updated = ul_updated r\<rparr>)"

definition uq_UpdateLdapRelation :: "ldap_env \<Rightarrow> ldap_relation \<Rightarrow> unit wop" where
  "uq_UpdateLdapRelation L r = try_do (UpdateLdapRelation L (rel_id r) (rel_user r) (rel_ldap r) (base64_encode (rel_uid r))
     (rel_dn r) (rel_updated r)) query_err (\<lambda>_. ret ())"

definition uq_DeleteLdapRelations :: "int \<Rightarrow> nat wop" where
  "uq_DeleteLdapRelations before = try_do (DeleteLdapRelations before) query_err ret"

definition uq_GetLdapUsersWithoutRelations :: "user_model list wop" where
  "uq_GetLdapUsersWithoutRelations = try_do GetLdapUsersWithoutRelations query_err (\<lambda>rs.
     ret (map (\<lambda>(i, n). blank_user\<lparr>u_id := i, u_username := n\<rparr>) rs))"

definition uq_GetAllLdapUsersPriorities :: "(int \<times> int \<times> string) list wop" where
  "uq_GetAllLdapUsersPriorities = try_do GetLdapUsersPriorities query_err ret"

text \<open>The open-source stub of the directory.\<close>

definition um_Resync :: "unit wop" where
  "um_Resync = throw (Sentinel ErrLDAPNotSupported)"

definition um_GetLdapSyncStats :: "unit wop" where
  "um_GetLdapSyncStats = throw (Sentinel ErrLDAPNotSupported)"

section \<open>Priorities and identifiers of configurations\<close>

definition ldaps_distinct :: "db \<Rightarrow> bool" where
  "ldaps_distinct d = (distinct (map l_priority (db_ldaps d)) \<and> distinct (map l_id (db_ldaps d)))"

lemma dwp_on_uuid [vcg]:
  "(\<And>u. le_uuid L i = Some u \<Longrightarrow> dwp (k u) Q X d) \<Longrightarrow> X DbError d \<Longrightarrow> dwp (on_uuid L i k) Q X d"
  by (auto simp: on_uuid_def intro!: vcg split: option.split)

lemma dwp_VerifyLdapConfigPriority [vcg]:
  assumes "p \<notin> l_priority ` set (db_ldaps d) \<Longrightarrow> Q () d" and "\<And>e. X e d"
  shows "dwp (uq_VerifyLdapConfigPriority p) Q X d"
  unfolding uq_VerifyLdapConfigPriority_def LdapConfigVerifyPriority_def
  by (intro vcg; (rule assms(2))?) (auto simp: filter_empty_conv intro!: vcg assms)

lemma dwp_GetLdapConfigByID [vcg]:
  assumes "\<And>l u. le_uuid L i = Some u \<Longrightarrow> l \<in> set (db_ldaps d) \<Longrightarrow> l_id l = u \<Longrightarrow> Q l d" and "\<And>e. X e d"
  shows "dwp (GetLdapConfigByID L i) Q X d"
  unfolding GetLdapConfigByID_def by (intro vcg; (rule assms(2))?) (auto simp: filter_eq_Cons_iff intro!: assms(1))

lemma dwp_InsertLdapConfig [vcg]:
  assumes "\<And>u. ldap_row_ok l d \<Longrightarrow> u \<notin> l_id ` set (db_ldaps d) \<Longrightarrow> Q (l\<lparr>l_id := u\<rparr>) (d\<lparr>db_ldaps := db_ldaps d @ [l\<lparr>l_id := u\<rparr>]\<rparr>)"
    and "\<And>e. X e d"
  shows "dwp (InsertLdapConfig L l) Q X d"
  unfolding InsertLdapConfig_def
  by (intro vcg dwp_db_call; (rule assms(2))?) (auto simp: list_ex_iff assms(2) intro!: assms(1) split: if_splits)

lemma dwp_UpdateLdapConfig [vcg]:
  assumes "\<And>u. le_uuid L (l_id l) = Some u \<Longrightarrow> ldap_row_ok l d \<Longrightarrow> u \<in> l_id ` set (db_ldaps d) \<Longrightarrow>
      Q (l\<lparr>l_id := u\<rparr>) (d\<lparr>db_ldaps := map (\<lambda>x. if l_id x = u then l\<lparr>l_id := u\<rparr> else x) (db_ldaps d)\<rparr>)"
    and "\<And>e. X e d"
  shows "dwp (UpdateLdapConfig L l) Q X d"
  unfolding UpdateLdapConfig_def
  by (intro vcg dwp_db_call; (rule assms(2))?) (auto simp: list_ex_iff assms(2) intro!: assms(1) split: if_splits)

lemma distinct_update_one:
  assumes "distinct (map f xs)" "distinct (map g xs)" "y \<in> set xs" "g x = g y"
    and "f x = f y \<or> f x \<notin> f ` set xs"
  shows "distinct (map f (map (\<lambda>z. if g z = g x then x else z) xs)) \<and>
    distinct (map g (map (\<lambda>z. if g z = g x then x else z) xs))"
proof -
  have "inj_on g (set xs)" using assms(2) by (simp add: distinct_map)
  then have key: "g z = g x \<longleftrightarrow> z = y" if "z \<in> set xs" for z
    using that assms(3,4) inj_on_eq_iff [of g "set xs" z y] by simp
  have eq: "map (\<lambda>z. if g z = g x then x else z) xs = map (\<lambda>z. if z = y then x else z) xs"
    by (rule map_cong [OF refl]) (simp only: key)
  have inj: "inj_on f (set xs)" "inj_on g (set xs)" "distinct xs" using assms(1,2) by (auto simp: distinct_map)
  have "inj_on (\<lambda>z. f (if z = y then x else z)) (set xs)"
  proof (cases "f x = f y")
    case True
    then have "(\<lambda>z. f (if z = y then x else z)) = f" by auto
    with inj(1) show ?thesis by simp
  next
    case False
    with assms(5) have new: "f x \<noteq> f z" if "z \<in> set xs" for z using that by force
    show ?thesis
      by (rule inj_onI) (use new inj_on_eq_iff [OF inj(1)] in \<open>auto split: if_splits dest: sym\<close>)
  qed
  moreover have "(\<lambda>z. g (if z = y then x else z)) = g" using assms(4) by auto
  then have "inj_on (\<lambda>z. g (if z = y then x else z)) (set xs)" using inj(2) by simp
  ultimately show ?thesis using inj(3) unfolding eq by (simp add: distinct_map comp_def)
qed

definition ldap_config_stored :: "env \<Rightarrow> ldap_env \<Rightarrow> api_ldap_config \<Rightarrow> api_ldap_config_get \<Rightarrow> db \<Rightarrow> db \<Rightarrow> bool" where
  "ldap_config_stored E L a g d d' \<longleftrightarrow> (\<exists>pw n. env_seal E (env_key E) n (alc_bind_pw a) = Inr pw \<and>
     validateLdapConfig L a = Inr () \<and> alc_priority a \<notin> l_priority ` set (db_ldaps d) \<and> alg_id g \<notin> l_id ` set (db_ldaps d) \<and>
     g = ToAPILdapConfigGet (DBAllRowsToLdapConfig (row_of_api (alg_id g) pw a)) \<and>
     d' = d\<lparr>db_ldaps := db_ldaps d @ [row_of_api (alg_id g) pw a]\<rparr>)"

lemma create_ldap_config_dwp:
  "dwp (um_CreateLdapConfig E L a) (\<lambda>g. ldap_config_stored E L a g d) (\<lambda>e d'. d' = d) d"
  unfolding um_CreateLdapConfig_def
  by (intro vcg; (rule refl)?)
    (auto simp: ldap_config_stored_def ToAPILdapConfigGet_def DBAllRowsToLdapConfig_def DBInsertParamsToLdapConfig_def row_of_api_def)

text \<open>The row after an update: as asked for, with the old password when none was given.\<close>

definition ldap_config_updated :: "env \<Rightarrow> api_ldap_config \<Rightarrow> string \<Rightarrow> db \<Rightarrow> db \<Rightarrow> bool" where
  "ldap_config_updated E a u d d' \<longleftrightarrow> (\<exists>old pw. old \<in> set (db_ldaps d) \<and> l_id old = u \<and>
     (if alc_bind_pw a = [] then pw = l_bind_pw old else \<exists>n. env_seal E (env_key E) n (alc_bind_pw a) = Inr pw) \<and>
     (alc_priority a = l_priority old \<or> alc_priority a \<notin> l_priority ` set (db_ldaps d)) \<and>
     d' = d\<lparr>db_ldaps := map (\<lambda>x. if l_id x = u then row_of_api u pw a else x) (db_ldaps d)\<rparr>)"

lemma row_of_api_id [simp]: "l_id (row_of_api i pw a) = i" "(row_of_api i pw a)\<lparr>l_id := j\<rparr> = row_of_api j pw a"
  "l_priority (row_of_api i pw a) = alc_priority a"
  by (simp_all add: row_of_api_def)

lemma update_ldap_config_dwp:
  "dwp (um_UpdateLdapConfig E L a i) (\<lambda>_ d'. \<exists>u. le_uuid L i = Some u \<and> ldap_config_updated E a u d d') (\<lambda>e d'. d' = d) d"
  unfolding um_UpdateLdapConfig_def
  by (intro vcg; (rule refl)?) (auto simp: ldap_config_updated_def split: if_splits cong: if_cong)

lemma ldaps_distinct_stored: "ldap_config_stored E L a g d d' \<Longrightarrow> ldaps_distinct d \<Longrightarrow> ldaps_distinct d'"
  by (auto simp: ldap_config_stored_def ldaps_distinct_def)

lemma ldaps_distinct_updated: "ldap_config_updated E a u d d' \<Longrightarrow> ldaps_distinct d \<Longrightarrow> ldaps_distinct d'"
  unfolding ldap_config_updated_def ldaps_distinct_def
  using distinct_update_one [of l_priority "db_ldaps d" l_id _ "row_of_api u _ a"]
  by (force simp del: map_map)

lemma keeps_ldaps_distinct [pres]:
  "keeps ldaps_distinct (um_CreateLdapConfig E L a)" "keeps ldaps_distinct (um_UpdateLdapConfig E L a i)"
  "keeps ldaps_distinct (um_DeleteLdapConfig L i)"
proof -
  show "keeps ldaps_distinct (um_CreateLdapConfig E L a)" unfolding keeps_def
    by (rule preservesI, rule dwp_snd [OF dwp_mono [OF create_ldap_config_dwp]]) (auto intro: ldaps_distinct_stored)
  show "keeps ldaps_distinct (um_UpdateLdapConfig E L a i)" unfolding keeps_def
    by (rule preservesI, rule dwp_snd [OF dwp_mono [OF update_ldap_config_dwp]]) (auto intro: ldaps_distinct_updated)
  show "keeps ldaps_distinct (um_DeleteLdapConfig L i)"
    unfolding um_DeleteLdapConfig_def uq_DeleteLdapConfig_def DeleteLdapConfig_def on_uuid_def
    by (intro pres keeps_db_call) (auto simp: ldaps_distinct_def distinct_map_filter)
qed

section \<open>Pools of a template\<close>

lemma dwp_ltemplate_read_pools [vcg]:
  assumes "\<And>qs. list_all2 (\<lambda>p q. q \<in> set (db_pools d) \<and> ap_id q = aap_id p) ps qs \<Longrightarrow> Q qs d" and "\<And>e. X e d"
  shows "dwp (ltemplate_read_pools ps) Q X d"
  unfolding ltemplate_read_pools_def GetAddressPoolByIDRow_def
  by (rule dwp_for_map_reads [where R = "\<lambda>p q. q \<in> set (db_pools d) \<and> ap_id q = aap_id p"])
    (auto intro!: vcg assms simp: filter_eq_Cons_iff)

definition with_ltpools :: "(int \<times> int) list \<Rightarrow> db \<Rightarrow> db" where
  "with_ltpools ps d = d\<lparr>db_ltpools := db_ltpools d @ ps\<rparr>"

lemma dwp_ltemplate_insert_pools:
  assumes "Q () (with_ltpools (map (\<lambda>p. (i, aap_id p)) ps) d)"
    and "\<And>e n. X e (with_ltpools (map (\<lambda>p. (i, aap_id p)) (take n ps)) d)"
  shows "dwp (for_each (ltemplate_insert_pool i) ps) Q X d"
proof (rule dwp_for_each [where I = "\<lambda>rest d'. \<exists>n. rest = drop n ps \<and> d' = with_ltpools (map (\<lambda>p. (i, aap_id p)) (take n ps)) d"])
  show "\<exists>n. ps = drop n ps \<and> d = with_ltpools (map (\<lambda>p. (i, aap_id p)) (take n ps)) d"
    by (rule exI [of _ 0]) (simp add: with_ltpools_def)
next
  fix x xs d'
  assume "\<exists>n. x # xs = drop n ps \<and> d' = with_ltpools (map (\<lambda>p. (i, aap_id p)) (take n ps)) d"
  then obtain n where n: "x # xs = drop n ps" "d' = with_ltpools (map (\<lambda>p. (i, aap_id p)) (take n ps)) d" by blast
  from n(1) have "n < length ps" by (metis drop_eq_Nil2 list.distinct(1) not_le)
  with n(1) have "take (Suc n) ps = take n ps @ [x]" "xs = drop (Suc n) ps"
    by (metis Cons_nth_drop_Suc list.inject take_Suc_conv_app_nth, metis Cons_nth_drop_Suc list.inject)
  then show "dwp (ltemplate_insert_pool i x)
      (\<lambda>_ d'. \<exists>n. xs = drop n ps \<and> d' = with_ltpools (map (\<lambda>p. (i, aap_id p)) (take n ps)) d) X d'"
    unfolding ltemplate_insert_pool_def InsertLdapTemplateAddressPool_def
    by (intro vcg; (simp add: n(2) assms(2))?)
      (rule exI [of _ "Suc n"], simp add: n(2) with_ltpools_def)
qed (use assms in auto)

text \<open>What a successful update stores: the new row and exactly the given pools, which do not overlap.\<close>

definition ltemplate_updated :: "int \<Rightarrow> api_ldap_template \<Rightarrow> db \<Rightarrow> db \<Rightarrow> bool" where
  "ltemplate_updated i a d d' \<longleftrightarrow> (\<exists>mfa qs. alt_iface a \<noteq> [] \<and> alt_pools a \<noteq> [] \<and>
     list_all2 (\<lambda>p q. q \<in> set (db_pools d) \<and> ap_id q = aap_id p) (alt_pools a) qs \<and> verify_pools_not_overlap qs = Inr () \<and>
     (\<forall>t\<in>set (db_ltemplates d). lt_name t = alt_name a \<longrightarrow> lt_id t = i) \<and>
     d' = d\<lparr>db_ltemplates := map (\<lambda>x. if lt_id x = i then ltemplate_row i mfa a else x) (db_ltemplates d),
            db_ltpools := filter (\<lambda>(t, _). t \<noteq> i) (db_ltpools d) @ map (\<lambda>p. (i, aap_id p)) (alt_pools a)\<rparr>)"

lemma dwp_UpdateLdapTemplate [vcg]:
  assumes "has_template d (lt_id t) \<Longrightarrow> (\<forall>x\<in>set (db_ltemplates d). lt_name x = lt_name t \<longrightarrow> lt_id x = lt_id t) \<Longrightarrow>
      Q t (d\<lparr>db_ltemplates := map (\<lambda>x. if lt_id x = lt_id t then t else x) (db_ltemplates d)\<rparr>)" and "\<And>e. X e d"
  shows "dwp (UpdateLdapTemplate t) Q X d"
  unfolding UpdateLdapTemplate_def
  by (rule dwp_db_call) (auto intro!: assms simp: list_ex_iff split: if_splits)

lemma ltemplate_row_simps [simp]: "lt_id (ltemplate_row i m a) = i" "lt_name (ltemplate_row i m a) = alt_name a"
  by (simp_all add: ltemplate_row_def)

text \<open>A failing update leaves the pools of every other template alone, but not those of its own.\<close>

definition only_template :: "int \<Rightarrow> db \<Rightarrow> db \<Rightarrow> bool" where
  "only_template i d d' \<longleftrightarrow> d' = d\<lparr>db_ltemplates := db_ltemplates d', db_ltpools := db_ltpools d'\<rparr> \<and>
     filter (\<lambda>t. lt_id t \<noteq> i) (db_ltemplates d') = filter (\<lambda>t. lt_id t \<noteq> i) (db_ltemplates d) \<and>
     filter (\<lambda>(t, _). t \<noteq> i) (db_ltpools d') = filter (\<lambda>(t, _). t \<noteq> i) (db_ltpools d)"

lemma only_template_refl: "only_template i d d"
  by (simp add: only_template_def)

lemma filter_map_template:
  "lt_id t = i \<Longrightarrow> filter (\<lambda>x. lt_id x \<noteq> i) (map (\<lambda>x. if lt_id x = i then t else x) ts) = filter (\<lambda>x. lt_id x \<noteq> i) ts"
  by (induction ts) auto

lemma ltemplate_check_pools_dwp [vcg]:
  assumes "verify_pools_not_overlap ps = Inr () \<Longrightarrow> Q () d" and "\<And>e. X e d"
  shows "dwp (ltemplate_check_pools ps) Q X d"
proof (cases "length ps > 1")
  case False
  then have "verify_pools_not_overlap ps = Inr ()" by (cases ps; cases "tl ps") auto
  with False show ?thesis by (auto simp: ltemplate_check_pools_def intro!: vcg assms)
qed (auto simp: ltemplate_check_pools_def intro!: vcg assms)

lemma only_template_row:
  "lt_id t = i \<Longrightarrow> only_template i d (d\<lparr>db_ltemplates := map (\<lambda>x. if lt_id x = lt_id t then t else x) (db_ltemplates d)\<rparr>)"
  by (simp add: only_template_def filter_map_template)

lemma only_template_pools:
  "lt_id t = i \<Longrightarrow> only_template i d (with_ltpools (map (\<lambda>p. (i, f p)) ps) (db_ltpools_update (filter (\<lambda>(t, _). t \<noteq> i))
     (d\<lparr>db_ltemplates := map (\<lambda>x. if lt_id x = lt_id t then t else x) (db_ltemplates d)\<rparr>)))"
  by (simp add: only_template_def with_ltpools_def filter_map_template filter_empty_conv)

lemma ltemplate_updatedI:
  assumes "alt_iface a \<noteq> []" "alt_pools a \<noteq> []" "verify_pools_not_overlap qs = Inr ()"
    and "list_all2 (\<lambda>p q. q \<in> set (db_pools d) \<and> ap_id q = aap_id p) (alt_pools a) qs"
    and "\<forall>x\<in>set (db_ltemplates d). lt_name x = lt_name (ltemplate_row i m a) \<longrightarrow> lt_id x = lt_id (ltemplate_row i m a)"
  shows "ltemplate_updated i a d (with_ltpools (map (\<lambda>p. (i, aap_id p)) (alt_pools a)) (db_ltpools_update (filter (\<lambda>(t, _). t \<noteq> i))
     (d\<lparr>db_ltemplates := map (\<lambda>x. if lt_id x = lt_id (ltemplate_row i m a) then ltemplate_row i m a else x) (db_ltemplates d)\<rparr>)))"
  unfolding ltemplate_updated_def using assms by (intro exI [of _ m] exI [of _ qs]) (simp add: with_ltpools_def)

lemma update_ldap_template_dwp:
  "dwp (um_UpdateLdapTemplate i a) (\<lambda>_. ltemplate_updated i a d) (\<lambda>_. only_template i d) d"
  unfolding um_UpdateLdapTemplate_def GetLdapTemplateByID_def LdapTemplateNameCheck_def DeleteLdapTemplateAddressPools_def
  by (intro vcg dwp_ltemplate_insert_pools only_template_refl only_template_row only_template_pools ltemplate_row_simps(1);
      (rule ltemplate_updatedI)?; (assumption | simp only: ltemplate_row_simps)?)

section \<open>Properties\<close>

text \<open>No operation on LDAP configurations makes two of them share a priority or an identifier, and an
  update without a password keeps the stored one.\<close>

theorem ldap_priorities_stay_distinct:
  assumes "ldaps_distinct (w_db w)"
  shows "ldaps_distinct (w_db (snd (um_CreateLdapConfig E L a w))) \<and>
    ldaps_distinct (w_db (snd (um_DeleteLdapConfig L i w))) \<and>
    (case um_UpdateLdapConfig E L a i w of
       (Inl _, w') \<Rightarrow> w_db w' = w_db w
     | (Inr _, w') \<Rightarrow> ldaps_distinct (w_db w') \<and> (alc_bind_pw a = [] \<longrightarrow>
         map l_bind_pw (db_ldaps (w_db w')) = map l_bind_pw (db_ldaps (w_db w))))"
proof -
  have pw: "map l_bind_pw (db_ldaps d') = map l_bind_pw (db_ldaps (w_db w))"
    if upd: "ldap_config_updated E a u (w_db w) d'" and "alc_bind_pw a = []" for u d'
  proof -
    from that obtain old where old: "old \<in> set (db_ldaps (w_db w))" "l_id old = u"
      and d': "db_ldaps d' = map (\<lambda>x. if l_id x = u then row_of_api u (l_bind_pw old) a else x) (db_ldaps (w_db w))"
      by (auto simp: ldap_config_updated_def)
    have "x = old" if "x \<in> set (db_ldaps (w_db w))" "l_id x = u" for x
      using that old assms by (auto simp: ldaps_distinct_def distinct_map dest: inj_onD)
    then show ?thesis by (auto simp: d' row_of_api_def)
  qed
  have "dwp (um_UpdateLdapConfig E L a i) (\<lambda>_ d'. ldaps_distinct d' \<and> (alc_bind_pw a = [] \<longrightarrow>
      map l_bind_pw (db_ldaps d') = map l_bind_pw (db_ldaps (w_db w)))) (\<lambda>_ d'. d' = w_db w) (w_db w)"
    by (rule dwp_mono [OF update_ldap_config_dwp]) (use assms pw in \<open>auto intro: ldaps_distinct_updated\<close>)
  from dwp_outcome [OF this] assms show ?thesis
    by (auto intro: keepsD [OF keeps_ldaps_distinct(1)] keepsD [OF keeps_ldaps_distinct(3)] split: prod.splits sum.splits)
qed

definition sample_ldap_env :: ldap_env where
  "sample_ldap_env = \<lparr>le_uuid = Some, le_new_uuid = (\<lambda>_. ''u''), le_cidr = parse_prefix, le_pem = (\<lambda>_. True)\<rparr>"

definition sample_ldap :: "int \<Rightarrow> api_ldap_config" where
  "sample_ldap p = \<lparr>alc_priority = p, alc_host = ''h'', alc_port = 389, alc_base_dn = [], alc_bind_dn = [], alc_bind_pw = ''pw'',
     alc_list_filter = [], alc_username_attr = ''cn'', alc_uid_attr = ''uid'', alc_use_tls = False, alc_fqdn = [],
     alc_ca_cert = [], alc_template = 0\<rparr>"

theorem ldap_priorities_stay_distinct_witness:
  "\<exists>w. map l_priority (db_ldaps (w_db w)) = [1] \<and>
     ldaps_distinct (w_db (snd (um_CreateLdapConfig sample_env sample_ldap_env (sample_ldap 1) w)))"
proof -
  let ?w = "world_of (sample_db\<lparr>db_ldaps := [row_of_api ''v'' ''cpw'' (sample_ldap 1)]\<rparr>) []"
  have "ldaps_distinct (w_db ?w)" by (simp add: ldaps_distinct_def)
  from ldap_priorities_stay_distinct [OF this, where E = sample_env and L = sample_ldap_env and a = "sample_ldap 1" and i = "''v''"]
  have "ldaps_distinct (w_db (snd (um_CreateLdapConfig sample_env sample_ldap_env (sample_ldap 1) ?w)))" by simp
  moreover have "map l_priority (db_ldaps (w_db ?w)) = [1]" by (simp add: row_of_api_def sample_ldap_def)
  ultimately show ?thesis by (intro exI [of _ ?w] conjI)
qed

text \<open>\<open>UpdateLdapTemplate\<close> stores exactly the new row and the given, disjoint pools; a failing run
  changes no other template and none of its pools.\<close>

theorem update_ldap_template_exact:
  "case um_UpdateLdapTemplate i a w of
     (Inr _, w') \<Rightarrow> ltemplate_updated i a (w_db w) (w_db w')
   | (Inl _, w') \<Rightarrow> only_template i (w_db w) (w_db w')"
  by (rule dwp_outcome [OF update_ldap_template_dwp])

definition sample_ltemplate :: api_ldap_template where
  "sample_ltemplate = \<lparr>alt_id = 1, alt_name = ''t'', alt_filter = [], alt_is_admin = False, alt_mfa = ''none'', alt_iface = ''wg0'',
     alt_port = [], alt_mtu = [], alt_dns = [], alt_pools = [pool_to_api sample_pool]\<rparr>"

definition ltemplate_world :: "bool list \<Rightarrow> world" where
  "ltemplate_world = world_of (sample_db\<lparr>db_ltemplates := [ltemplate_row 1 ''none'' sample_ltemplate], db_ltpools := [(1, 2)]\<rparr>)"

text \<open>The pools are deleted and written again outside a transaction: when a write fails they are gone.\<close>

lemma ldap_template_loses_pools:
  "db_ltpools (w_db (ltemplate_world faults)) = [(1, 2)] \<and>
   \<not> is_ok (fst (um_UpdateLdapTemplate 1 sample_ltemplate (ltemplate_world [False, False, False, False, True]))) \<and>
   db_ltpools (w_db (snd (um_UpdateLdapTemplate 1 sample_ltemplate (ltemplate_world [False, False, False, False, True])))) = []"
  by (intro conjI) (simp add: ltemplate_world_def, code_simp+)

text \<open>A second factor that is not enabled is refused on creation, but accepted by an update.\<close>

lemma update_skips_mfa_check:
  assumes "mfa \<notin> set (uc_mfa_types C)" "mfa = ''totp''"
  shows "\<not> is_ok (fst (um_CreateLdapTemplate C (sample_ltemplate\<lparr>alt_name := ''n'', alt_mfa := mfa\<rparr>) (ltemplate_world [])))"
    and "map lt_mfa (db_ltemplates (w_db (snd (um_UpdateLdapTemplate 1 (sample_ltemplate\<lparr>alt_mfa := mfa\<rparr>) (ltemplate_world []))))) = [mfa]"
proof -
  show "\<not> is_ok (fst (um_CreateLdapTemplate C (sample_ltemplate\<lparr>alt_name := ''n'', alt_mfa := mfa\<rparr>) (ltemplate_world [])))"
    using assms by (simp add: um_CreateLdapTemplate_def sample_ltemplate_def guard_do_def try_do_def lift_def ensure_mfa_can_be_set_def)
  show "map lt_mfa (db_ltemplates (w_db (snd (um_UpdateLdapTemplate 1 (sample_ltemplate\<lparr>alt_mfa := mfa\<rparr>) (ltemplate_world []))))) = [mfa]"
    unfolding assms(2) by code_simp
qed

text \<open>That a server is not in the template cannot be told from the error.\<close>

lemma ltemplate_server_missing_hidden:
  assumes "um_DeleteLdapTemplateServer t s w = (Inl e, w')"
  shows "\<not> errors_is e ErrNotFound"
  using assms by (auto simp: um_DeleteLdapTemplateServer_def try_do_def ret_def split: prod.splits sum.splits)

end
