(* ===== verification/Certs.thy ===== *)
theory Certs
  imports Rpc_Server
begin

text \<open>
  Certificates of VPN servers: the choice of a fresh tag (\<open>src/pkg/rand/strings.go\<close>), the certificate that
  carries it (\<open>src/pkg/certs/certs.go\<close>, \<open>src/pkg/certs/provider.go\<close>) and \<open>GetCertForServer\<close> of
  \<open>src/service/vcm/postgres.go\<close>.  What x509, RSA, PEM and ASN.1 do is a parameter.
\<close>

section \<open>Fresh tags\<close>

text \<open>\<open>intn k\<close> is the letter that the \<open>k\<close>-th call of \<open>mr.Intn\<close> chooses.\<close>

type_synonym draws = "nat \<Rightarrow> nat"

definition tag_letters :: string where
  "tag_letters = ''abcdefghijklmnopqrstuvwxyzABCDEFGHIJKLMNOPQRSTUVWXYZ''"

definition randString :: "draws \<Rightarrow> nat \<Rightarrow> nat \<Rightarrow> string" where
  "randString intn k n = map (\<lambda>i. tag_letters ! intn (k + i)) [0..<n]"

text \<open>The loop ends with the first string that is not used, if there is one.\<close>

partial_function (option) generate_unused :: "draws \<Rightarrow> string list \<Rightarrow> nat \<Rightarrow> nat \<Rightarrow> (string \<times> nat) option" where
  "generate_unused intn used n k =
     (let s = randString intn k n in
      if s \<in> set used then generate_unused intn used n (k + n) else Some (s, k + n))"

declare generate_unused.simps [code]

definition Generate :: "draws \<Rightarrow> string list \<Rightarrow> nat \<Rightarrow> nat \<Rightarrow> (string \<times> nat) option" where
  "Generate intn used n k =
     (if used = [] then Some (randString intn k n, k + n) else generate_unused intn used n k)"

section \<open>Issuing certificates\<close>

text \<open>
  \<open>cp_sign\<close> is \<open>x509.CreateCertificate\<close> with the fields of the template that the code sets from its
  arguments, and the encoding of the result and of its new key; \<open>cp_marshal\<close> is \<open>asn1.Marshal\<close> of a
  value of the universal class with the given tag.
\<close>

record cert_provider =
  cp_orgz :: string
  cp_marshal :: "int \<Rightarrow> int \<Rightarrow> string \<Rightarrow> err + string"
  cp_sign :: "string list \<Rightarrow> string list \<Rightarrow> (int list \<times> string) list \<Rightarrow> err + string \<times> string"

definition newClientCert :: "cert_provider \<Rightarrow> string \<Rightarrow> string \<Rightarrow> err + string \<times> string" where
  "newClientCert P orgz_unit tag =
     bind_res (cp_marshal P 0 12 tag) (wrapv ''failed to encode server tag'') (\<lambda>v.
     bind_res (cp_sign P [cp_orgz P] [orgz_unit] [(ServerTagOID, v)]) (wrapv ''failed to generate certificate'') Inr)"

definition MakeClientCert :: "cert_provider \<Rightarrow> string \<Rightarrow> string \<Rightarrow> err + string \<times> string" where
  "MakeClientCert P orgz_unit tag =
     (if orgz_unit = [] then Inl (errors_new ''organizational unit cannot be empty'')
      else if tag = [] then Inl (errors_new ''server tag cannot be empty'')
      else bind_res (newClientCert P orgz_unit tag) (wrapv ''could not create client certificates'') Inr)"

definition tagLength :: nat where
  "tagLength = 16"

text \<open>A search for a tag that never ends gives no answer, as a panic does.\<close>

definition draw_tag :: "draws \<Rightarrow> string list \<Rightarrow> string wop" where
  "draw_tag intn used = (\<lambda>w. case Generate intn used tagLength (w_rnd w) of
     None \<Rightarrow> (Inl Panic, w)
   | Some (t, k) \<Rightarrow> (Inr t, w\<lparr>w_rnd := k\<rparr>))"

definition vcm_GetCertForServer :: "draws \<Rightarrow> cert_provider \<Rightarrow> string \<Rightarrow> (string \<times> string) wop" where
  "vcm_GetCertForServer intn P name =
     try_do (pg_GetServerByName name) handle_error (\<lambda>s.
     try_do (pg_GetServerTags (sv_id s)) handle_error (\<lambda>tags.
     bind_do (draw_tag intn tags) (\<lambda>t.
     bind_do (lift (MakeClientCert P name t)) (\<lambda>ck.
     bind_do (pg_InsertUsedTag t (sv_id s)) (\<lambda>_. ret ck)))))"

section \<open>The search for a fresh tag\<close>

text \<open>The \<open>j\<close>-th string drawn is the first one that is not used.\<close>

definition first_unused :: "draws \<Rightarrow> string list \<Rightarrow> nat \<Rightarrow> nat \<Rightarrow> string \<times> nat \<Rightarrow> bool" where
  "first_unused intn used n k r \<longleftrightarrow> fst r \<notin> set used \<and> (\<exists>j. fst r = randString intn (k + j * n) n \<and> snd r = k + Suc j * n \<and>
     list_all (\<lambda>i. randString intn (k + i * n) n \<in> set used) [0..<j])"

lemma generate_unused_step: "generate_unused intn used n k =
    (if randString intn k n \<in> set used then generate_unused intn used n (k + n) else Some (randString intn k n, k + n))"
  by (subst generate_unused.simps) (simp add: Let_def)

lemma first_unused_next:
  assumes "first_unused intn used n (k + n) r" and "randString intn k n \<in> set used"
  shows "first_unused intn used n k r"
proof -
  from assms(1) obtain j where j: "fst r \<notin> set used" "fst r = randString intn (k + n + j * n) n" "snd r = k + n + Suc j * n"
    "\<And>i. i < j \<Longrightarrow> randString intn (k + n + i * n) n \<in> set used"
    by (auto simp: first_unused_def list_all_iff)
  have "randString intn (k + i * n) n \<in> set used" if "i < Suc j" for i
    using that j(4) assms(2) by (cases i) (auto simp: add.assoc)
  with j show ?thesis
    unfolding first_unused_def list_all_iff by (intro conjI exI [of _ "Suc j"]) (auto simp: add.assoc)
qed

lemma generate_unused_Some: "generate_unused intn used n k = Some r \<Longrightarrow> first_unused intn used n k r"
proof (rule generate_unused.raw_induct [where P = first_unused], goal_cases)
  case (1 gen intn used n k r)
  show ?case
  proof (cases "randString intn k n \<in> set used")
    case True
    with 1(3) have "gen intn used n (k + n) = Some r" by (simp add: Let_def)
    from 1(2) [OF this] True show ?thesis by (rule first_unused_next)
  next
    case False
    with 1(3) show ?thesis by (auto simp: Let_def first_unused_def intro!: exI [of _ 0])
  qed
qed

lemma generate_unused_None: "generate_unused intn used n k = None \<Longrightarrow> randString intn (k + j * n) n \<in> set used"
proof (induction j arbitrary: k)
  case (Suc j)
  then have "generate_unused intn used n (k + n) = None" by (subst (asm) generate_unused_step) (simp split: if_splits)
  from Suc.IH [OF this] show ?case by (simp add: add.assoc)
qed (subst (asm) generate_unused_step, simp split: if_splits)

text \<open>C13. The search for a tag ends unless every string that the random source yields is already used; it
  then gives the first unused one, and no more letters are drawn than the ones it looked at.\<close>

theorem tag_search_ends:
  "case Generate intn used n k of
     None \<Rightarrow> used \<noteq> [] \<and> (\<forall>j. randString intn (k + j * n) n \<in> set used)
   | Some r \<Rightarrow> first_unused intn used n k r \<and> length (fst r) = n"
proof (cases "Generate intn used n k")
  case None
  then show ?thesis by (auto simp: Generate_def dest: generate_unused_None split: if_splits)
next
  case (Some r)
  then have "first_unused intn used n k r"
    by (cases "used = []") (auto simp: Generate_def first_unused_def [where used = "[]"] intro!: exI [of _ 0] intro: generate_unused_Some)
  then show ?thesis by (auto simp: Some first_unused_def randString_def)
qed

section \<open>Certificates that are issued\<close>

lemma dwp_draw_tag [vcg]:
  assumes "\<And>t. t \<notin> set used \<Longrightarrow> Q t d" and "X Panic d"
  shows "dwp (draw_tag intn used) Q X d"
proof -
  have "t \<notin> set used" if "Generate intn used n k = Some (t, k')" for n k t k'
    using that by (auto simp: Generate_def first_unused_def dest: generate_unused_Some split: if_splits)
  with assms show ?thesis by (auto simp: dwp_def wpo_def draw_tag_def split: option.splits)
qed

lemma dwp_pg_GetServerByName [vcg]:
  assumes "\<And>s. s \<in> set (db_servers d) \<Longrightarrow> s_name s = n \<Longrightarrow> Q (server_of_row s) d" and "\<And>e. X e d"
  shows "dwp (pg_GetServerByName n) Q X d"
  unfolding pg_GetServerByName_def query_defs
  by (intro vcg; (intro assms)?) (auto simp: filter_eq_Cons_iff)

text \<open>A certificate issued for the server \<open>s\<close>, and the tables after that.\<close>

definition certificate_issued :: "cert_provider \<Rightarrow> string \<Rightarrow> db \<Rightarrow> server_row \<Rightarrow> string \<Rightarrow> string \<times> string \<Rightarrow> db \<Rightarrow> bool" where
  "certificate_issued P name d s t ck d' \<longleftrightarrow> s \<in> set (db_servers d) \<and> s_name s = name \<and> (s_id s, t) \<notin> set (db_tags d) \<and>
     (\<exists>v. cp_marshal P 0 12 t = Inr v \<and> cp_sign P [cp_orgz P] [name] [(ServerTagOID, v)] = Inr ck) \<and>
     d' = d\<lparr>db_tags := db_tags d @ [(s_id s, t)]\<rparr>"

lemma sv_id_of_row [simp]: "sv_id (server_of_row s) = s_id s"
  by (simp add: server_of_row_def)

lemma MakeClientCert_Inr:
  "MakeClientCert P n t = Inr ck \<Longrightarrow> \<exists>v. cp_marshal P 0 12 t = Inr v \<and> cp_sign P [cp_orgz P] [n] [(ServerTagOID, v)] = Inr ck"
  by (auto simp: MakeClientCert_def newClientCert_def bind_res_Inr_iff split: if_splits)

lemma tag_not_listed: "t \<notin> set (map snd (filter (\<lambda>(s, _). s = i) l)) \<Longrightarrow> (i, t) \<notin> set l"
  by force

lemma get_cert_dwp:
  "dwp (vcm_GetCertForServer intn P name) (\<lambda>ck d'. \<exists>s t. certificate_issued P name d s t ck d') (\<lambda>e d'. d' = d) d"
  unfolding vcm_GetCertForServer_def pg_GetServerTags_def pg_InsertUsedTag_def GetServerTags_def
  by (intro vcg; (rule refl)?)
    (auto simp del: set_map set_filter simp: certificate_issued_def dest!: MakeClientCert_Inr tag_not_listed intro!: exI)

lemma find_tag_extension:
  "filter (\<lambda>(oid, _). oid = ServerTagOID \<or> oid = legacyServerTagOID) exts = [(ServerTagOID, v)] \<Longrightarrow>
   find (\<lambda>(oid, _). oid = ServerTagOID \<or> oid = legacyServerTagOID) exts = Some (ServerTagOID, v)"
  by (induction exts) (auto split: if_splits)

lemma verify_tag_now:
  assumes "w_faults v = []" "w_tx v \<noteq> TxAborted" "s \<in> set (db_servers (w_db v))" "(s_id s, t) \<in> set (db_tags (w_db v))"
  shows "\<exists>v'. vcm_VerifyServerTag t (s_name s) v = (Inr True, v')"
proof -
  have "t \<in> snd ` {x \<in> set (db_tags (w_db v)). case x of (i, u) \<Rightarrow> \<exists>x\<in>set (db_servers (w_db v)). s_id x = i \<and> s_name x = s_name s}"
    using assms(3,4) by force
  then show ?thesis using assms
    by (auto simp: vcm_VerifyServerTag_def pg_GetServerTagsByName_def attempt_def try_do_def q_many_def db_call_def Let_def ret_def list_ex_iff)
qed

text \<open>
  What x509 and ASN.1 are relied on for: a certificate has the organizational units and the server tag
  extension of its template, and a marshalled value is read back.
\<close>

definition x509_ok :: "cert_provider \<Rightarrow> asn1 \<Rightarrow> (string \<Rightarrow> x509_cert) \<Rightarrow> bool" where
  "x509_ok P A x509 \<longleftrightarrow>
     (\<forall>org ou exts cert key. cp_sign P org ou exts = Inr (cert, key) \<longrightarrow> ce_units (x509 cert) = ou \<and>
        filter (\<lambda>(oid, _). oid = ServerTagOID \<or> oid = legacyServerTagOID) (ce_exts (x509 cert)) =
        filter (\<lambda>(oid, _). oid = ServerTagOID \<or> oid = legacyServerTagOID) exts) \<and>
     (\<forall>c g t v. cp_marshal P c g t = Inr v \<longrightarrow> A v = Some (c, g, t, []))"

text \<open>C12. A certificate issued for a server carries a tag that the server did not have, which is recorded
  for this server only; the certificate then authenticates a VPN server of that name.\<close>

theorem issued_certificate_authenticates:
  assumes "x509_ok P A x509" and "vcm_GetCertForServer intn P name w = (Inr (cert, key), w')"
    and "w_db v = w_db w'" "w_faults v = []" "w_tx v \<noteq> TxAborted"
  shows "\<exists>s t. certificate_issued P name (w_db w) s t (cert, key) (w_db w') \<and>
    fst (TLSAuth A (TLSInfo ((x509 cert # cs) # css)) v) = Inr (Inr \<lparr>md_server_name = name, md_server_tag = t\<rparr>)"
proof -
  from dwp_Inr [OF get_cert_dwp assms(2)] obtain s t where c: "certificate_issued P name (w_db w) s t (cert, key) (w_db w')"
    by blast
  then obtain b where b: "cp_marshal P 0 12 t = Inr b" "cp_sign P [cp_orgz P] [name] [(ServerTagOID, b)] = Inr (cert, key)"
    "s \<in> set (db_servers (w_db w))" "s_name s = name" "w_db w' = (w_db w)\<lparr>db_tags := db_tags (w_db w) @ [(s_id s, t)]\<rparr>"
    by (auto simp: certificate_issued_def)
  with assms(1) have x: "ce_units (x509 cert) = [name]" "A b = Some (0, 12, t, [])"
    "filter (\<lambda>(oid, _). oid = ServerTagOID \<or> oid = legacyServerTagOID) (ce_exts (x509 cert)) = [(ServerTagOID, b)]"
    by (fastforce simp: x509_ok_def)+
  then have "GetServerTag A (x509 cert) = Inr t" by (simp add: GetServerTag_def find_tag_extension)
  moreover obtain v' where "vcm_VerifyServerTag t name v = (Inr True, v')"
    using verify_tag_now [of v s t] assms(3-5) b(3-5) by auto
  ultimately have "fst (TLSAuth A (TLSInfo ((x509 cert # cs) # css)) v) = Inr (Inr \<lparr>md_server_name = name, md_server_tag = t\<rparr>)"
    by (simp add: TLSAuth_def x(1) try_do_def ret_def)
  with c show ?thesis by blast
qed

definition plain_provider :: cert_provider where
  "plain_provider = \<lparr>cp_orgz = ''o'', cp_marshal = (\<lambda>c g t. if c = 0 \<and> g = 12 then Inr t else Inl DbError),
     cp_sign = (\<lambda>org ou exts. if ou = [''srv''] \<and> map fst exts = [ServerTagOID] then Inr (snd (hd exts), []) else Inl DbError)\<rparr>"

definition plain_x509 :: "string \<Rightarrow> x509_cert" where
  "plain_x509 c = \<lparr>ce_units = [''srv''], ce_exts = [(ServerTagOID, c)]\<rparr>"

definition plain_asn1 :: asn1 where
  "plain_asn1 v = Some (0, 12, v, [])"

theorem issued_certificate_authenticates_witness:
  "\<exists>(w :: world) cert w' t. vcm_GetCertForServer (\<lambda>k. if k < 16 then 0 else 1) plain_provider ''srv'' w = (Inr (cert, []), w') \<and>
     db_tags (w_db w) = [(5, ''aaaaaaaaaaaaaaaa'')] \<and>
     fst (TLSAuth plain_asn1 (TLSInfo [[plain_x509 cert]]) (w'\<lparr>w_faults := [], w_tx := NoTx\<rparr>)) =
       Inr (Inr \<lparr>md_server_name = ''srv'', md_server_tag = t\<rparr>)"
proof -
  let ?w = "world_of (sample_db\<lparr>db_tags := [(5, ''aaaaaaaaaaaaaaaa'')]\<rparr>) []"
  have ok: "x509_ok plain_provider plain_asn1 plain_x509"
    by (auto simp: x509_ok_def plain_provider_def plain_asn1_def plain_x509_def Cons_eq_map_conv split: if_splits)
  have "case vcm_GetCertForServer (\<lambda>k. if k < 16 then 0 else 1) plain_provider ''srv'' ?w of (Inr (cert, key), _) \<Rightarrow> key = [] | _ \<Rightarrow> False"
    by code_simp
  then obtain cert w' where run: "vcm_GetCertForServer (\<lambda>k. if k < 16 then 0 else 1) plain_provider ''srv'' ?w = (Inr (cert, []), w')"
    by (auto split: prod.splits sum.splits)
  have "db_tags (w_db ?w) = [(5, ''aaaaaaaaaaaaaaaa'')]" by (simp add: world_of_def)
  moreover obtain t where "fst (TLSAuth plain_asn1 (TLSInfo [[plain_x509 cert]]) (w'\<lparr>w_faults := [], w_tx := NoTx\<rparr>)) =
      Inr (Inr \<lparr>md_server_name = ''srv'', md_server_tag = t\<rparr>)"
    using issued_certificate_authenticates [OF ok run, of "w'\<lparr>w_faults := [], w_tx := NoTx\<rparr>" "[]" "[]"] by auto
  ultimately show ?thesis using run by (intro exI conjI)
qed

end
