(* ===== verification/Device_Resync.thy ===== *)
theory Device_Resync
  imports Devices
begin

text \<open>
  \<open>ResyncDevices\<close> of \<open>src/service/user/device.go\<close>: after the pools of a template changed, every
  device keeps the addresses that still belong to a pool not yet covered by another of its
  addresses, and is allocated one from each pool left uncovered; a device for which a pool is
  exhausted is deleted.
\<close>

section \<open>Addresses and pools\<close>

definition address_belongs_to_pool :: "prefix \<Rightarrow> address_pool \<Rightarrow> bool" where
  "address_belongs_to_pool a p =
     (if addr_compare (pfx_addr a) (ap_start p) < 0 then False
      else if addr_compare (pfx_addr a) (ap_end p) > 0 then False
      else if pfx_bits a \<noteq> ap_mask p then False
      else True)"

text \<open>The smallest candidate, the first of equals: sizes are \<open>uint64\<close> differences of \<open>uint32\<close>
  values, and candidates that are not IPv4 are skipped.\<close>

definition smaller_pool :: "(64 word \<times> address_pool) option \<Rightarrow> address_pool \<Rightarrow> (64 word \<times> address_pool) option" where
  "smaller_pool best p = (case (ap_start p, ap_end p) of
     (V4 s, V4 e) \<Rightarrow>
       if e < s then best
       else let size = ucast (e - s) in
         (case best of
            None \<Rightarrow> Some (size, p)
          | Some (m, _) \<Rightarrow> if size < m then Some (size, p) else best)
   | _ \<Rightarrow> best)"

definition find_pool_for_address :: "prefix \<Rightarrow> address_pool list \<Rightarrow> int" where
  "find_pool_for_address a ps = (case filter (address_belongs_to_pool a) ps of
     [] \<Rightarrow> -1
   | [p] \<Rightarrow> ap_id p
   | p # qs \<Rightarrow> (case foldl smaller_pool None (p # qs) of
       None \<Rightarrow> ap_id p | Some (_, q) \<Rightarrow> ap_id q))"

definition filter_uncovered_pools :: "address_pool list \<Rightarrow> int list \<Rightarrow> address_pool list" where
  "filter_uncovered_pools ps covered = filter (\<lambda>p. ap_id p \<notin> set covered) ps"

fun categorize :: "address_pool list \<Rightarrow> prefix list \<times> int list \<Rightarrow> prefix list \<Rightarrow> prefix list \<times> int list" where
  "categorize ps (kept, covered) [] = (kept, covered)"
| "categorize ps (kept, covered) (a # as) =
     (let i = find_pool_for_address a (filter_uncovered_pools ps covered) in
      if i = -1 then categorize ps (kept, covered) as
      else categorize ps (kept @ [a], covered @ [i]) as)"

definition categorize_device_addresses :: "prefix list \<Rightarrow> address_pool list \<Rightarrow> prefix list \<times> int list" where
  "categorize_device_addresses as ps = categorize ps ([], []) as"

definition allocate_addresses_for_pools :: "address_pool list \<Rightarrow> int list \<Rightarrow> prefix list wop" where
  "allocate_addresses_for_pools ps covered =
     for_map (\<lambda>p. try_do (allocate_address_from_pool p) (wrapw ''allocateAddressFromPool'') ret)
       (filter (\<lambda>p. ap_id p \<notin> set covered) ps)"

definition has_address_changes :: "prefix list \<Rightarrow> prefix list \<Rightarrow> prefix list \<Rightarrow> bool" where
  "has_address_changes current keep add = (length add > 0 \<or> length keep \<noteq> length current)"

definition update_device_addresses :: "int \<Rightarrow> prefix list \<Rightarrow> prefix list \<Rightarrow> unit wop" where
  "update_device_addresses i keep add =
     try_do (with_tx (
       try_do (DeleteDeviceWireGuardIfaceAddrs i) (wrapw ''DeleteDeviceWireGuardIfaceAddrs'') (\<lambda>_.
         for_each (insert_daddr i) (keep @ add)))) (wrapw ''transaction failed'') ret"

section \<open>Resynchronisation\<close>

definition resync_single_device :: "device_row \<Rightarrow> address_pool list \<Rightarrow> bool wop" where
  "resync_single_device v ps =
     try_do (GetDeviceWireGuardIfaceAddrs (d_id v)) (wrapw ''GetDeviceWireGuardIfaceAddrs'') (\<lambda>current.
     case categorize_device_addresses current ps of (keep, covered) \<Rightarrow>
     try_do (allocate_addresses_for_pools ps covered) (wrapw ''allocateAddressesForPools'') (\<lambda>add.
     if \<not> has_address_changes current keep add then ret False
     else
       try_do (update_device_addresses (d_id v) keep add) (wrapw ''updateDeviceAddresses'') (\<lambda>_. ret True)))"

record device_resync_response =
  dr_updated :: int
  dr_deleted :: int
  dr_errors :: "(string \<times> int) list"

definition resync_one ::
  "address_pool list \<Rightarrow> device_resync_response \<Rightarrow> device_row \<Rightarrow> device_resync_response wop" where
  "resync_one ps r v = attempt (resync_single_device v ps) (\<lambda>x. case x of
     Inr updated \<Rightarrow> ret (if updated then r\<lparr>dr_updated := dr_updated r + 1\<rparr> else r)
   | Inl e \<Rightarrow>
       if errors_is e ErrNoAvailableAddressInPool
       then attempt (um_DeleteDevice (d_id v)) (\<lambda>y. case y of
            Inl _ \<Rightarrow> ret (r\<lparr>dr_errors := dr_errors r @ [(''delete'', d_id v)]\<rparr>)
          | Inr _ \<Rightarrow> ret (r\<lparr>dr_deleted := dr_deleted r + 1\<rparr>))
       else ret (r\<lparr>dr_errors := dr_errors r @ [(''Failed to resync'', d_id v)]\<rparr>))"

definition um_ResyncDevices :: "int \<Rightarrow> device_resync_response wop" where
  "um_ResyncDevices t =
     try_do (DeviceTemplateExists t) (on_no_rows (Sentinel ErrNotFound) (wrapw ''DeviceTemplateExists'')) (\<lambda>_.
     try_do (GetDeviceTemplateAddressPools t) (wrapw ''GetDeviceTemplateAddressPools'') (\<lambda>ps.
     try_do (GetDevicesByTemplateID t) (wrapw ''GetDevicesByTemplateID'') (\<lambda>vs.
       for_fold (resync_one ps) \<lparr>dr_updated = 0, dr_deleted = 0, dr_errors = []\<rparr> vs)))"

section \<open>One address in each pool\<close>

lemma belongs_iff: "address_belongs_to_pool a p \<longleftrightarrow> in_pool p a"
  by (auto simp: address_belongs_to_pool_def in_pool_def)

lemma smaller_pool_cases:
  "smaller_pool best p = best \<or> (\<exists>s. smaller_pool best p = Some (s, p))"
  by (auto simp: smaller_pool_def Let_def split: addr.split option.split)

lemma foldl_smaller:
  "foldl smaller_pool best ps = Some (m, q) \<Longrightarrow> q \<in> set ps \<or> best = Some (m, q)"
proof (induction ps arbitrary: best)
  case (Cons p ps)
  from Cons.IH [of "smaller_pool best p"] Cons.prems smaller_pool_cases [of best p]
  show ?case by auto
qed simp

lemma find_pool_found:
  assumes "find_pool_for_address a ps \<noteq> -1"
  shows "\<exists>p\<in>set ps. in_pool p a \<and> find_pool_for_address a ps = ap_id p"
proof (cases "filter (address_belongs_to_pool a) ps")
  case Nil
  with assms show ?thesis by (simp add: find_pool_for_address_def)
next
  case c1: (Cons p qs)
  have mem: "q \<in> set ps \<and> in_pool q a" if "q \<in> set (p # qs)" for q
    using that unfolding c1 [symmetric] by (auto simp: belongs_iff)
  have "\<exists>q\<in>set (p # qs). find_pool_for_address a ps = ap_id q"
    using foldl_smaller [of None "p # qs"]
    by (cases qs) (auto simp: find_pool_for_address_def c1 split: option.split prod.split)
  with mem show ?thesis by blast
qed

text \<open>Each kept address is in the pool it covers, and no pool is covered twice.\<close>

lemma categorize_inv:
  assumes "list_all2 (\<lambda>a i. \<exists>p\<in>set ps. in_pool p a \<and> ap_id p = i) kept covered" "distinct covered"
    and "categorize ps (kept, covered) as = (kept', covered')"
  shows "list_all2 (\<lambda>a i. \<exists>p\<in>set ps. in_pool p a \<and> ap_id p = i) kept' covered' \<and> distinct covered'"
  using assms
proof (induction as arbitrary: kept covered)
  case (Cons a as)
  let ?i = "find_pool_for_address a (filter_uncovered_pools ps covered)"
  show ?case
  proof (cases "?i = -1")
    case True
    with Cons show ?thesis by simp
  next
    case False
    from find_pool_found [OF False] obtain p
      where "p \<in> set ps" "ap_id p \<notin> set covered" "in_pool p a" "?i = ap_id p"
      by (auto simp: filter_uncovered_pools_def)
    with False Cons.prems show ?thesis
      by (intro Cons.IH [of "kept @ [a]" "covered @ [?i]"]) (auto intro: list_all2_appendI)
  qed
qed simp

lemma categorize_length:
  "categorize ps (kept, covered) as = (kept', covered') \<Longrightarrow> length kept' \<le> length kept + length as"
  by (induction as arbitrary: kept covered) (fastforce simp: Let_def split: if_splits)+

lemma categorize_all:
  assumes "categorize ps (kept, covered) as = (kept', covered')" "length kept' = length kept + length as"
  shows "kept' = kept @ as"
  using assms
proof (induction as arbitrary: kept covered)
  case (Cons a as)
  let ?i = "find_pool_for_address a (filter_uncovered_pools ps covered)"
  show ?case
  proof (cases "?i = -1")
    case True
    with Cons.prems categorize_length [of ps kept covered as kept' covered'] show ?thesis by simp
  next
    case False
    with Cons.prems Cons.IH [of "kept @ [a]" "covered @ [?i]"] show ?thesis by simp
  qed
qed simp

lemma categorize_kept: "categorize ps (kept, covered) as = (kept', covered') \<Longrightarrow> set kept' \<subseteq> set kept \<union> set as"
  by (induction as arbitrary: kept covered) (fastforce simp: Let_def split: if_splits)+

text \<open>The addresses are one from each pool, in some order.\<close>

definition covers :: "address_pool list \<Rightarrow> prefix list \<Rightarrow> bool" where
  "covers ps as = (\<exists>qs. distinct qs \<and> set qs = set ps \<and> list_all2 in_pool qs as)"

lemma covers_categorized:
  assumes ids: "distinct (map ap_id ps)"
    and c: "categorize_device_addresses current ps = (kept, covered)"
    and new: "list_all2 in_pool (filter (\<lambda>p. ap_id p \<notin> set covered) ps) new"
  shows "covers ps (kept @ new)"
proof -
  define pool where "pool i = the (List.find (\<lambda>p. ap_id p = i) ps)" for i
  have pool: "pool (ap_id p) = p" if "p \<in> set ps" for p
  proof -
    have "List.find (\<lambda>q. ap_id q = ap_id p) ps = Some p"
      using that ids by (induction ps) auto
    then show ?thesis by (simp add: pool_def)
  qed
  have inv: "list_all2 (\<lambda>a i. \<exists>p\<in>set ps. in_pool p a \<and> ap_id p = i) kept covered" "distinct covered"
    using categorize_inv [of ps "[]" "[]" current kept covered] c
    by (auto simp: categorize_device_addresses_def)
  have in_ps: "pool i \<in> set ps \<and> ap_id (pool i) = i" if "i \<in> set covered" for i
  proof -
    obtain k where "k < length covered" "covered ! k = i" using \<open>i \<in> set covered\<close> by (auto simp: in_set_conv_nth)
    with list_all2_nthD2 [OF inv(1)] obtain p where "p \<in> set ps" "ap_id p = i" by blast
    with pool show ?thesis by auto
  qed
  let ?qs = "map pool covered @ filter (\<lambda>p. ap_id p \<notin> set covered) ps"
  have "distinct (map pool covered)"
    using inv(2) in_ps by (auto simp: distinct_map intro: inj_on_inverseI [where g = ap_id])
  then have "distinct ?qs"
    using in_ps distinct_map [THEN iffD1, OF ids] by auto
  moreover have "p \<in> set ?qs" if "p \<in> set ps" for p
    using pool [OF that] that by (cases "ap_id p \<in> set covered") (auto intro: rev_image_eqI)
  then have "set ?qs = set ps" using in_ps by auto
  moreover have "list_all2 in_pool (map pool covered) kept"
    unfolding list_all2_map1
  proof (rule list_all2_all_nthI)
    show "length covered = length kept" using inv(1) by (simp add: list_all2_lengthD)
    fix n assume "n < length covered"
    with list_all2_nthD2 [OF inv(1)] obtain p where "p \<in> set ps" "in_pool p (kept ! n)" "ap_id p = covered ! n"
      by blast
    with pool [of p] show "in_pool (pool (covered ! n)) (kept ! n)" by simp
  qed
  ultimately show ?thesis
    unfolding covers_def using new by (intro exI [of _ ?qs]) (simp add: list_all2_appendI)
qed

section \<open>Correctness\<close>

definition device_prefixes :: "int \<Rightarrow> db \<Rightarrow> prefix list" where
  "device_prefixes i d = map snd (filter (\<lambda>(v, _). v = i) (db_daddrs d))"

definition set_daddrs :: "int \<Rightarrow> prefix list \<Rightarrow> db \<Rightarrow> db" where
  "set_daddrs i as = db_daddrs_update (\<lambda>l. filter (\<lambda>(v, _). v \<noteq> i) l @ map (Pair i) as)"

text \<open>The addresses a device ends with: one from each pool, each either kept or fresh.\<close>

definition resynced :: "address_pool list \<Rightarrow> int \<Rightarrow> db \<Rightarrow> prefix list \<Rightarrow> bool" where
  "resynced ps i d as = (covers ps as \<and>
     (\<forall>a\<in>set as. a \<in> set (device_prefixes i d) \<or> pfx_addr a \<notin> used_addrs d))"

lemma dwp_update_device_addresses:
  assumes "Q () (set_daddrs i (keep @ add) d)" "\<And>e. X e d"
  shows "dwp (update_device_addresses i keep add) Q X d"
  unfolding update_device_addresses_def DeleteDeviceWireGuardIfaceAddrs_def
  by (intro vcg dwp_insert_daddrs assms(2)) (use assms(1) in \<open>simp_all add: set_daddrs_def comp_def\<close>)

lemma dwp_allocate_addresses_for_pools:
  assumes "\<forall>p\<in>set ps. pool4 p"
    and "\<And>as. list_all2 (fresh_in d) (filter (\<lambda>p. ap_id p \<notin> set covered) ps) as \<Longrightarrow> Q as d" "\<And>e. X e d"
  shows "dwp (allocate_addresses_for_pools ps covered) Q X d"
  unfolding allocate_addresses_for_pools_def
  by (rule dwp_for_map_reads [where R = "fresh_in d"])
    (use assms(1) in \<open>auto intro!: vcg dwp_allocate_address_from_pool assms(2,3)\<close>)

lemma resynced_new:
  assumes "distinct (map ap_id ps)"
    and "categorize_device_addresses (device_prefixes i d) ps = (keep, covered)"
    and "list_all2 (fresh_in d) (filter (\<lambda>p. ap_id p \<notin> set covered) ps) add"
  shows "resynced ps i d (keep @ add)"
proof -
  have "covers ps (keep @ add)"
    using assms(3) by (intro covers_categorized [OF assms(1,2)]) (auto elim: list_all2_mono)
  moreover have "pfx_addr a \<notin> used_addrs d" if "a \<in> set add" for a
    using that assms(3) by (auto simp: in_set_conv_nth dest: list_all2_nthD2)
  ultimately show ?thesis
    using categorize_kept [of ps "[]" "[]" "device_prefixes i d" keep covered] assms(2)
    by (auto simp: resynced_def categorize_device_addresses_def)
qed

lemma resync_single_dwp:
  assumes "\<forall>p\<in>set ps. pool4 p" "distinct (map ap_id ps)"
  shows "dwp (resync_single_device v ps)
    (\<lambda>b d'. \<exists>as. resynced ps (d_id v) d as \<and>
       (if b then d' = set_daddrs (d_id v) as d else d' = d \<and> as = device_prefixes (d_id v) d))
    (\<lambda>_ d'. d' = d) d"
  unfolding resync_single_device_def GetDeviceWireGuardIfaceAddrs_def device_prefixes_def [symmetric]
proof (intro vcg dwp_allocate_addresses_for_pools dwp_update_device_addresses assms(1))
  fix keep covered add
  assume c: "categorize_device_addresses (device_prefixes (d_id v) d) ps = (keep, covered)"
    and new: "list_all2 (fresh_in d) (filter (\<lambda>p. ap_id p \<notin> set covered) ps) add"
    and no: "\<not> has_address_changes (device_prefixes (d_id v) d) keep add"
  then have "add = []" "keep = device_prefixes (d_id v) d"
    using categorize_all [of ps "[]" "[]" "device_prefixes (d_id v) d" keep covered]
    by (simp_all add: has_address_changes_def categorize_device_addresses_def)
  with resynced_new [OF assms(2) c new]
  show "\<exists>as. resynced ps (d_id v) d as \<and> (if False then d = set_daddrs (d_id v) as d
      else d = d \<and> as = device_prefixes (d_id v) d)" by simp
qed (auto dest: resynced_new [OF assms(2)])

text \<open>C32. Resynchronising a device is all or nothing and ends with exactly one address from each
  pool of its template: an address is either one the device already had or was not in use, no
  other device is touched, the answer says whether anything changed, and an error leaves the
  tables as they were.\<close>

theorem resync_device_covers_pools:
  assumes "\<forall>p\<in>set ps. pool4 p" and "distinct (map ap_id ps)"
  shows "case resync_single_device v ps w of
     (Inr changed, w') \<Rightarrow> \<exists>as. resynced ps (d_id v) (w_db w) as \<and>
       (if changed then w_db w' = set_daddrs (d_id v) as (w_db w)
        else w_db w' = w_db w \<and> as = device_prefixes (d_id v) (w_db w))
   | (Inl _, w') \<Rightarrow> w_db w' = w_db w"
  by (rule dwp_outcome, rule resync_single_dwp, rule assms, rule assms)

lemma resync_device_covers_pools_witness:
  "\<exists>as. resynced [sample_pool\<lparr>ap_start := V4 0x0A000007\<rparr>] 4 sample_db as"
proof -
  let ?ps = "[sample_pool\<lparr>ap_start := V4 0x0A000007\<rparr>]" and ?w = "world_of sample_db []"
  have pools: "\<forall>p\<in>set ?ps. pool4 p" "distinct (map ap_id ?ps)" by code_simp+
  have "is_ok (fst (resync_single_device sample_device ?ps ?w))" by code_simp
  then obtain b w' where "resync_single_device sample_device ?ps ?w = (Inr b, w')"
    using is_ok_run by blast
  with resync_device_covers_pools [OF pools, where v = sample_device and w = ?w]
  have "\<exists>as. resynced ?ps (d_id sample_device) sample_db as" by auto
  then show ?thesis by (simp add: sample_device_def)
qed

end
