(* ===== verification/Vcm_Resync.thy ===== *)
theory Vcm_Resync
  imports Vcm_Adjacency
begin

text \<open>
  \<open>ResyncDeviceAdjacencies\<close> of \<open>src/service/vcm/postgres.go\<close>: for every device of a user the
  adjacencies are deleted, changed or created until they follow the user's adjacency templates.
  A failing step is recorded and the loop goes on.  Go iterates over a map in an unspecified
  order: the order is a parameter \<open>ord\<close>, which permutes the keys anew for each loop.
\<close>

record resync_response =
  rs_created :: int
  rs_updated :: int
  rs_deleted :: int
  rs_errors :: "(string \<times> int \<times> int) list"

text \<open>A map built by assignments in a loop: the last assignment to a key wins.\<close>

definition keys_of :: "('r \<Rightarrow> int) \<Rightarrow> 'r list \<Rightarrow> int list" where
  "keys_of k rs = remdups (map k rs)"

definition lookup_last :: "('r \<Rightarrow> int) \<Rightarrow> 'r list \<Rightarrow> int \<Rightarrow> 'r option" where
  "lookup_last k rs i = List.find (\<lambda>r. k r = i) (rev rs)"

definition note_err :: "string \<Rightarrow> int \<Rightarrow> int \<Rightarrow> resync_response \<Rightarrow> resync_response" where
  "note_err l v s r = r\<lparr>rs_errors := rs_errors r @ [(l, v, s)]\<rparr>"

text \<open>\<open>x, err := m; if err != nil \<open>{\<close> response.Errors = append(...); continue \<open>}\<close>; k\<close>\<close>

definition or_continue ::
  "'a wop \<Rightarrow> resync_response \<Rightarrow> ('a \<Rightarrow> resync_response wop) \<Rightarrow> resync_response wop" where
  "or_continue m failed k = attempt m (\<lambda>x. case x of Inl _ \<Rightarrow> ret failed | Inr y \<Rightarrow> k y)"

definition invalidate_or_note :: "int \<Rightarrow> int \<Rightarrow> resync_response \<Rightarrow> resync_response wop" where
  "invalidate_or_note v s r =
     or_continue (InvalidateDeviceSession v) (note_err ''Invalidating session'' v s r) (\<lambda>_. ret r)"

section \<open>Existing adjacencies\<close>

definition resync_delete :: "int \<Rightarrow> adjacency_row \<Rightarrow> resync_response \<Rightarrow> resync_response wop" where
  "resync_delete v a r =
     or_continue (DeleteAdjacencyRow (adj_id a)) (note_err ''Deleting adjacency'' v (adj_server a) r) (\<lambda>_.
       invalidate_or_note v (adj_server a) (r\<lparr>rs_deleted := rs_deleted r + 1\<rparr>))"

text \<open>The preshared key wanted, and whether it differs from the present one.\<close>

definition desired_psk :: "env \<Rightarrow> bool \<Rightarrow> string \<Rightarrow> (string \<times> bool) wop" where
  "desired_psk E use present =
     (if \<not> use then ret ([], present \<noteq> [])
      else if present \<noteq> [] then ret (present, False)
      else bind_do (draw (env_psk E)) (\<lambda>k. ret (k, True)))"

definition resync_update ::
  "env \<Rightarrow> int \<Rightarrow> int \<Rightarrow> adjacency_row \<Rightarrow> adj_template_row \<Rightarrow> resync_response \<Rightarrow> resync_response wop" where
  "resync_update E v s a t r =
     or_continue (get_device_wg_config E v) (note_err ''Getting device config'' v s r) (\<lambda>dev.
     or_continue (pg_GetServerByID s) (note_err ''Getting server'' v s r) (\<lambda>server.
     or_continue (get_server_wg_config E s) (note_err ''Getting server config'' v s r) (\<lambda>srv.
     or_continue (lift (get_server_side_allowed_ip (wc_addresses srv) (wc_addresses dev)))
       (note_err ''Computing server side allowed IP'' v s r) (\<lambda>ip.
     if \<not> is_healthcheck_addr_in_allowed_ips (at_client_ips t) (sv_healthcheck server)
     then ret (note_err ''Healthcheck address not in client side allowed IPs'' v s r)
     else
       let ips_differ = (adj_server_ips a \<noteq> [ip] \<or> adj_client_ips a \<noteq> at_client_ips t) in
     or_continue (open_op E (adj_psk a)) (note_err ''failed to decrypt existing preshared key'' v s r) (\<lambda>present.
     or_continue (desired_psk E (at_use_psk t) present) (note_err ''failed to generate preshared key'' v s r)
       (\<lambda>(psk, psk_differs).
     or_continue (seal_op E psk) (note_err ''failed to encrypt preshared key'' v s r) (\<lambda>enc.
     if \<not> (ips_differ \<or> psk_differs) then ret r
     else
       or_continue (UpdateAdjacencyRow (adj_id a) s v enc (Some [ip]) (at_client_ips t))
         (note_err ''Updating adjacency'' v s r) (\<lambda>new.
       let r' = r\<lparr>rs_updated := rs_updated r + 1\<rparr> in
       or_continue (delete_invalid_sessions_by_adjacency E (a\<lparr>adj_id := 0, adj_server := s, adj_device := v\<rparr>) new)
         (note_err ''Deleting invalid sessions'' v s r') (\<lambda>_. ret r')))))))))"

section \<open>Missing adjacencies\<close>

definition new_psk :: "env \<Rightarrow> bool \<Rightarrow> string wop" where
  "new_psk E use = (if use then draw (env_psk E) else ret [])"

definition resync_create ::
  "env \<Rightarrow> int \<Rightarrow> int \<Rightarrow> adj_template_row \<Rightarrow> resync_response \<Rightarrow> resync_response wop" where
  "resync_create E v s t r =
     or_continue (get_device_wg_config E v) (note_err ''Getting device config'' v s r) (\<lambda>dev.
     or_continue (pg_GetServerByID s) (note_err ''Getting server'' v s r) (\<lambda>server.
     or_continue (get_server_wg_config E s) (note_err ''Getting server config'' v s r) (\<lambda>srv.
     or_continue (lift (get_server_side_allowed_ip (wc_addresses srv) (wc_addresses dev)))
       (note_err ''Computing server side allowed IP'' v s r) (\<lambda>ip.
     if \<not> is_healthcheck_addr_in_allowed_ips (at_client_ips t) (sv_healthcheck server)
     then ret (note_err ''Healthcheck address not in client side allowed IPs'' v s r)
     else
     or_continue (new_psk E (at_use_psk t)) (note_err ''failed to generate preshared key'' v s r) (\<lambda>psk.
     or_continue (seal_op E psk) (note_err ''failed to encrypt preshared key'' v s r) (\<lambda>enc.
     or_continue (InsertAdjacency \<lparr>adj_id = 0, adj_server = s, adj_device = v, adj_server_ips = [ip],
         adj_client_ips = at_client_ips t, adj_psk = enc\<rparr>)
       (note_err ''Creating adjacency'' v s r) (\<lambda>_.
     invalidate_or_note v s (r\<lparr>rs_created := rs_created r + 1\<rparr>))))))))"

section \<open>The loops\<close>

text \<open>\<open>ord v phase keys\<close> is the order of iteration of device \<open>v\<close> in its first or second loop.\<close>

type_synonym map_order = "int \<Rightarrow> bool \<Rightarrow> int list \<Rightarrow> int list"

definition resync_existing ::
  "env \<Rightarrow> (adj_template_row \<times> server_row) list \<Rightarrow> int \<Rightarrow>
   (adjacency_row \<times> server_row \<times> server_cfg_row) list \<Rightarrow> resync_response \<Rightarrow> int \<Rightarrow> resync_response wop" where
  "resync_existing E ts v peers r s =
     (case lookup_last (\<lambda>p. adj_server (fst p)) peers s of
        None \<Rightarrow> ret r
      | Some (a, _) \<Rightarrow>
          (case lookup_last (\<lambda>t. at_server (fst t)) ts s of
             None \<Rightarrow> resync_delete v a r
           | Some (t, _) \<Rightarrow> resync_update E v s a t r))"

definition resync_missing ::
  "env \<Rightarrow> (adj_template_row \<times> server_row) list \<Rightarrow> int \<Rightarrow>
   (adjacency_row \<times> server_row \<times> server_cfg_row) list \<Rightarrow> resync_response \<Rightarrow> int \<Rightarrow> resync_response wop" where
  "resync_missing E ts v peers r s =
     (case lookup_last (\<lambda>p. adj_server (fst p)) peers s of
        Some _ \<Rightarrow> ret r
      | None \<Rightarrow> (case lookup_last (\<lambda>t. at_server (fst t)) ts s of
                    None \<Rightarrow> ret r
                  | Some (t, _) \<Rightarrow> resync_create E v s t r))"

definition resync_device ::
  "env \<Rightarrow> map_order \<Rightarrow> (adj_template_row \<times> server_row) list \<Rightarrow> resync_response \<Rightarrow> device_row \<Rightarrow>
   resync_response wop" where
  "resync_device E ord ts r v =
     or_continue (GetDeviceWireGuardAdjacencies (d_id v)) (note_err ''Getting adjacencies'' (d_id v) 0 r) (\<lambda>peers.
     bind_do (for_fold (resync_existing E ts (d_id v) peers) r
       (ord (d_id v) False (keys_of (\<lambda>p. adj_server (fst p)) peers))) (\<lambda>r'.
     for_fold (resync_missing E ts (d_id v) peers) r'
       (ord (d_id v) True (keys_of (\<lambda>t. at_server (fst t)) ts))))"

definition vcm_ResyncDeviceAdjacencies :: "env \<Rightarrow> map_order \<Rightarrow> int \<Rightarrow> resync_response wop" where
  "vcm_ResyncDeviceAdjacencies E ord u =
     try_do (UserExists u) (under DrvErrQueryFailed ''UserExists'') (\<lambda>ex.
     guard_do (\<not> ex) (new_under VcmErrDoesNotExist ''user with ID'') (
     try_do (GetUserAdjacencyTemplateRows u) (under DrvErrQueryFailed ''GetUserAdjacencyTemplates'') (\<lambda>ts.
     try_do (GetDevicesByUserID u) (under DrvErrQueryFailed ''GetDevicesByUserID'') (\<lambda>devs.
       for_fold (resync_device E ord ts) \<lparr>rs_created = 0, rs_updated = 0, rs_deleted = 0, rs_errors = []\<rparr> devs))))"

section \<open>Other users are left alone\<close>

definition others_adjs :: "int set \<Rightarrow> db \<Rightarrow> adjacency_row list" where
  "others_adjs us d = filter (\<lambda>a. adj_device a \<notin> us) (db_adjs d)"

text \<open>
  While the devices \<open>vs\<close> remain to be processed: the adjacencies of other users are \<open>rows\<close>, and
  no adjacency of a remaining device shares its identifier with one of them.
\<close>

definition resync_inv :: "int set \<Rightarrow> adjacency_row list \<Rightarrow> int set \<Rightarrow> db \<Rightarrow> bool" where
  "resync_inv us rows vs d =
     (others_adjs us d = rows \<and>
      (\<forall>a\<in>set (db_adjs d). adj_device a \<in> vs \<longrightarrow> adj_id a \<notin> adj_id ` set rows))"

lemma resync_inv_devices [simp]: "resync_inv us rows vs (db_devices_update f d) = resync_inv us rows vs d"
  by (simp add: resync_inv_def others_adjs_def)

lemma resync_inv_clear [simp]: "resync_inv us rows vs (clear_sessions p d) = resync_inv us rows vs d"
  by (simp add: clear_sessions_def)

lemma resync_inv_delete:
  assumes "resync_inv us rows vs d" "i \<notin> adj_id ` set rows"
  shows "resync_inv us rows vs (db_adjs_update (filter (\<lambda>a. adj_id a \<noteq> i)) d)"
proof -
  have "filter (\<lambda>a. adj_device a \<notin> us \<and> adj_id a \<noteq> i) (db_adjs d) = filter (\<lambda>a. adj_device a \<notin> us) (db_adjs d)"
    using assms by (intro filter_cong) (auto simp: resync_inv_def others_adjs_def)
  with assms(1) show ?thesis
    by (auto simp: resync_inv_def others_adjs_def conj_commute)
qed

lemma resync_inv_update:
  assumes "resync_inv us rows vs d" "i \<notin> adj_id ` set rows" "v \<in> us" "v \<notin> vs"
    and f: "\<And>a. adj_server (f a) = s \<and> adj_device (f a) = v"
  shows "resync_inv us rows vs (db_adjs_update (map (\<lambda>a. if adj_id a = i then f a else a)) d)"
proof -
  have "filter (\<lambda>a. adj_device a \<notin> us) (map (\<lambda>a. if adj_id a = i then f a else a) (db_adjs d))
      = filter (\<lambda>a. adj_device a \<notin> us) (db_adjs d)"
    using assms(1-3) f by (intro filter_map_unchanged) (auto simp: resync_inv_def others_adjs_def)
  with assms f show ?thesis by (auto simp: resync_inv_def others_adjs_def)
qed

lemma resync_inv_insert:
  "resync_inv us rows vs d \<Longrightarrow> adj_device r \<in> us \<Longrightarrow> adj_device r \<notin> vs \<Longrightarrow>
   resync_inv us rows vs (db_adjs_update (\<lambda>as. as @ [r]) d)"
  by (auto simp: resync_inv_def others_adjs_def)

abbreviation stays :: "(db \<Rightarrow> bool) \<Rightarrow> 'a wop \<Rightarrow> db \<Rightarrow> bool" where
  "stays J m d \<equiv> dwp m (\<lambda>_. J) (\<lambda>_. J) d"

lemma stays_or_continue [vcg]:
  "dwp m (\<lambda>x. stays J (k x)) (\<lambda>_. J) d \<Longrightarrow> stays J (or_continue m failed k) d"
  unfolding or_continue_def by (rule dwp_attempt) (auto elim!: dwp_mono intro: vcg)

lemma stays_invalidate [vcg]:
  "resync_inv us rows vs d \<Longrightarrow> stays (resync_inv us rows vs) (invalidate_or_note v s r) d"
  unfolding invalidate_or_note_def by (intro vcg) simp_all

lemma stays_delete:
  "resync_inv us rows vs d \<Longrightarrow> adj_id a \<notin> adj_id ` set rows \<Longrightarrow>
   stays (resync_inv us rows vs) (resync_delete v a r) d"
  unfolding resync_delete_def DeleteAdjacencyRow_def by (intro vcg resync_inv_delete)

lemma stays_update:
  assumes "resync_inv us rows vs d" "adj_id a \<notin> adj_id ` set rows" "v \<in> us" "v \<notin> vs"
  shows "stays (resync_inv us rows vs) (resync_update E v s a t r) d"
  unfolding resync_update_def desired_psk_def
  by (intro vcg; (unfold resync_inv_devices)?;
      (rule assms(1) | (rule resync_inv_update; (assumption | rule assms))))

lemma stays_create:
  assumes "resync_inv us rows vs d" "v \<in> us" "v \<notin> vs"
  shows "stays (resync_inv us rows vs) (resync_create E v s t r) d"
  unfolding resync_create_def new_psk_def InsertAdjacency_def
  by (intro vcg; (rule assms(1) | (rule resync_inv_insert; simp add: assms)))

lemma lookup_last_in: "lookup_last k rs i = Some r \<Longrightarrow> r \<in> set rs \<and> k r = i"
  by (auto simp: lookup_last_def find_Some_iff in_set_conv_nth rev_nth)
    (metis Suc_diff_Suc diff_less length_greater_0_conv less_nat_zero_code list.size(3) zero_less_Suc)

lemma stays_existing:
  assumes "resync_inv us rows vs d" "\<forall>p\<in>set peers. adj_id (fst p) \<notin> adj_id ` set rows" "v \<in> us" "v \<notin> vs"
  shows "stays (resync_inv us rows vs) (resync_existing E ts v peers r s) d"
  using assms unfolding resync_existing_def
  by (auto intro!: vcg stays_delete stays_update dest!: lookup_last_in split: option.split)

lemma stays_missing:
  assumes "resync_inv us rows vs d" "v \<in> us" "v \<notin> vs"
  shows "stays (resync_inv us rows vs) (resync_missing E ts v peers r s) d"
  using assms unfolding resync_missing_def
  by (auto intro!: vcg stays_create split: option.split)

lemma resync_inv_mono: "resync_inv us rows vs d \<Longrightarrow> vs' \<subseteq> vs \<Longrightarrow> resync_inv us rows vs' d"
  by (auto simp: resync_inv_def)

lemma stays_device:
  assumes "resync_inv us rows (insert (d_id v) vs) d" "d_id v \<in> us" "d_id v \<notin> vs"
  shows "stays (resync_inv us rows vs) (resync_device E ord ts r v) d"
proof -
  note inv = resync_inv_mono [OF assms(1) subset_insertI]
  have rows: "\<forall>p\<in>set (concat (map (\<lambda>a. concat (map (\<lambda>s. map (\<lambda>c. (a, s, c))
         (filter (\<lambda>c. sc_server c = adj_server a) (db_scfgs d)))
       (filter (\<lambda>s. s_id s = adj_server a) (db_servers d))))
     (filter (\<lambda>a. adj_device a = d_id v) (db_adjs d)))). adj_id (fst p) \<notin> adj_id ` set rows"
    using assms(1) by (auto simp: resync_inv_def)
  show ?thesis
    unfolding resync_device_def GetDeviceWireGuardAdjacencies_def
    by (intro vcg inv dwp_for_fold [where I = "\<lambda>_ _. resync_inv us rows vs"]
        stays_existing [OF _ rows assms(2,3)] stays_missing [OF _ assms(2,3)])
qed

lemma resync_dwp:
  assumes "distinct (map adj_id (db_adjs d))" "distinct (map d_id (db_devices d))"
    and us: "us = d_id ` set (user_devices u d)"
  shows "dwp (vcm_ResyncDeviceAdjacencies E ord u)
    (\<lambda>_ d'. others_adjs us d' = others_adjs us d) (\<lambda>_ d'. others_adjs us d' = others_adjs us d) d"
proof -
  have init: "resync_inv us (others_adjs us d) (d_id ` set (user_devices u d)) d"
    using assms(1) unfolding us resync_inv_def others_adjs_def distinct_map inj_on_def by auto
  have dist: "distinct (map d_id (user_devices u d))"
    using assms(2) by (simp add: user_devices_def distinct_map_filter)
  show ?thesis
    unfolding vcm_ResyncDeviceAdjacencies_def query_defs
    apply (intro vcg dwp_for_fold [where I = "\<lambda>_ vs d'. distinct (map d_id vs) \<and> d_id ` set vs \<subseteq> us
        \<and> resync_inv us (others_adjs us d) (d_id ` set vs) d'"]; (simp; fail)?)
    subgoal using init dist us by simp
    subgoal for acc v vs d'
      by (rule dwp_mono [OF stays_device [where us = us and rows = "others_adjs us d" and vs = "d_id ` set vs"]])
        (auto simp: resync_inv_def)
    subgoal by (simp add: resync_inv_def)
    done
qed



end
