(* ===== verification/Rest_Base.thy ===== *)
theory Rest_Base
  imports Server_Status Ldap_Config Certs Device_Resync Vcm_Servers Vcm_Templates Vcm_Resync
begin

text \<open>
  The vocabulary of the REST service (\<open>src/service/rest\<close>): requests with their decoded bodies, replies,
  the environment of the service and the steps that every handler is made of.

  \<open>encoding/json\<close> is a parameter (one decoder for each type of body); the fields that the tags
  \<open>binding:"required"\<close> name are checked here.  A handler that panics sends no reply: the state it leaves
  comes with \<open>Inl Panic\<close>.  Every other outcome is a reply.
\<close>

section \<open>Messages\<close>

datatype message =
    errUserNotFound | errUserAcquisition | errUserNotCreated | errUserNotUpdated | errUserNotDeleted
  | errUsersNotRetrieved | errDeviceTemplateDoesNotExist | errDeviceTemplateExists | errUserSecretsNotMFAFound
  | errDeviceNotFound | errDeviceAcquisition
  | errDeviceTemplateAcquisition | errDeviceTemplateDeletion | errDeviceTemplateNotCreated | errDeviceTemplateNotUpdated
  | errServerNotFound | errServerAcquisition | errServersNotRetrieved | errServerExists | errServerNotCreated
  | errServerNotDeleted | errServerNotUpdated
  | errServerVPNConfigDoesNotExist | errServerVPNConfigAcquisition | errServerVPNConfigNotUpdated
  | errAdjacencyNotFound | errAdjacencyExists | errAdjacencyNotCreated | errAdjacencyNotUpdated
  | errAdjacencyNotDeleted | errAdjacencyInvalid
  | errCertificateNotGenerated | errGeneric | errInvalidJSON | errNonIntegerID | errTokenNotCreated
  | errLdapConfigNotFound | errLdapTemplateNotFound | errLdapSyncInProgress | errLdapSyncNotStarted
  | errCertDataNotFound | errTemplateExists | errReplicaCheckFailed
  | Literal string

text \<open>
  A body: a message as such (\<open>JText\<close>), an \<open>ErrorResponse\<close> with a message and the text of an error
  (\<open>JError\<close>), with the text of an error alone (\<open>JErrorText\<close>), with a formatted name or identifier, or
  a result; \<open>JLimited\<close> is the object of the rate limiter.
\<close>

datatype json =
    JText message | JError message "err option" | JErrorText err | JLimited
  | JErrorName message string "err option" | JErrorID message int
  | JUsers "api_user list" | JUser api_user | JToken string
  | JDeviceTemplate api_device_template | JAdjacencies "adjacency_ext list"
  | JServers "api_server list" | JServer api_server | JStatuses "api_service_status list"
  | JInterface api_wg_iface | JSecrets string string | JFeatures bool
  | JLdapConfigs "api_ldap_config_get list" | JLdapConfig api_ldap_config_get | JLdapSyncStatus
  | JLdapTemplates "api_ldap_template list" | JLdapServers "api_ldap_template_server list"
  | JTypes "string list" | JUserSecrets string
  | JCAs "(int \<times> certificate) list" | JCRLs "(int \<times> revocation_list) list"
  | JPools "api_address_pool list" | JPool api_address_pool
  | JDevices "api_device list" | JDeviceData api_device_data
  | JDeviceResync device_resync_response | JAdjacencyResync resync_response
  | JAdjTemplates "adj_template_ext list"

text \<open>The status, and every body that was written, in order.\<close>

record reply =
  rp_status :: int
  rp_bodies :: "json list"

definition http :: "int \<Rightarrow> json list \<Rightarrow> reply" where
  "http code bs = \<lparr>rp_status = code, rp_bodies = bs\<rparr>"

section \<open>Bodies of requests\<close>

record jwt_request_creds =
  jc_username :: string
  jc_password :: string

record adjacency_request =
  ar_server :: int
  ar_device :: int
  ar_config :: "api_adjacency option"

record adj_template_request =
  tr_server :: int
  tr_user :: int
  tr_config :: "api_adj_template option"

record server_with_config =
  sw_server :: api_server
  sw_config :: api_wg_iface

record decoders =
  js_user_create :: "string \<Rightarrow> err + api_user_create"
  js_user_update :: "string \<Rightarrow> err + api_user_update"
  js_password :: "string \<Rightarrow> err + string"
  js_creds :: "string \<Rightarrow> err + jwt_request_creds"
  js_device_template :: "string \<Rightarrow> err + api_device_template"
  js_adjacency :: "string \<Rightarrow> err + adjacency_request"
  js_adj_template :: "string \<Rightarrow> err + adj_template_request"
  js_new_server :: "string \<Rightarrow> err + server_with_config"
  js_server_update :: "string \<Rightarrow> err + api_server"
  js_interface :: "string \<Rightarrow> err + api_wg_iface"
  js_server_name :: "string \<Rightarrow> err + string"
  js_ldap_config :: "string \<Rightarrow> err + api_ldap_config"
  js_ldap_template :: "string \<Rightarrow> err + api_ldap_template"
  js_ldap_server :: "string \<Rightarrow> err + api_ldap_template_server"
  js_cert :: "string \<Rightarrow> err + string"
  js_pool :: "string \<Rightarrow> err + api_address_pool"
  js_device_data :: "string \<Rightarrow> err + api_device_data"

text \<open>The required fields must not have the zero value of their type.\<close>

definition UserWithPassword_ok :: "api_user_create \<Rightarrow> bool" where
  "UserWithPassword_ok a = (auc_username a \<noteq> [] \<and> auc_password a \<noteq> [])"

definition UserUpdate_ok :: "api_user_update \<Rightarrow> bool" where
  "UserUpdate_ok a = (auu_username a \<noteq> [])"

definition UserPasswordUpdate_ok :: "string \<Rightarrow> bool" where
  "UserPasswordUpdate_ok pw = (pw \<noteq> [])"

definition JWTRequestCreds_ok :: "jwt_request_creds \<Rightarrow> bool" where
  "JWTRequestCreds_ok c = (jc_username c \<noteq> [] \<and> jc_password c \<noteq> [])"

definition Adjacency_ok :: "adjacency_request \<Rightarrow> bool" where
  "Adjacency_ok a = (ar_server a \<noteq> 0 \<and> ar_device a \<noteq> 0)"

definition AdjacencyTemplate_ok :: "adj_template_request \<Rightarrow> bool" where
  "AdjacencyTemplate_ok a = (tr_server a \<noteq> 0 \<and> tr_user a \<noteq> 0)"

definition Server_ok :: "api_server \<Rightarrow> bool" where
  "Server_ok s = (as_name s \<noteq> [] \<and> as_endpoint s \<noteq> [])"

definition ServerUpdate_ok :: "api_server \<Rightarrow> bool" where
  "ServerUpdate_ok s = (as_name s \<noteq> [] \<and> as_endpoint s \<noteq> [])"

definition VPNServerSecretsRequest_ok :: "string \<Rightarrow> bool" where
  "VPNServerSecretsRequest_ok n = (n \<noteq> [])"

definition LdapTemplateServer_ok :: "api_ldap_template_server \<Rightarrow> bool" where
  "LdapTemplateServer_ok s = (als_server s \<noteq> 0)"

definition LdapTemplate_ok :: "api_ldap_template \<Rightarrow> bool" where
  "LdapTemplate_ok t = (alt_name t \<noteq> [] \<and> alt_iface t \<noteq> [])"

section \<open>The service\<close>

text \<open>
  \<open>re_create_token\<close> and \<open>re_validate_token\<close> are the methods of \<open>TokenProvider\<close>, which depend on the
  time; \<open>re_shows\<close> tells whether the text of an error contains a phrase; \<open>re_static\<close> is what is served
  for a path without a route.
\<close>

record rest_env =
  re_env :: env
  re_users :: user_cfg
  re_mfa :: mfa_env
  re_ldap :: ldap_env
  re_order :: map_order
  re_intn :: draws
  re_certs :: cert_provider
  re_json :: decoders
  re_auth_type :: string
  re_ldap_feature :: bool
  re_create_token :: "int \<Rightarrow> string \<Rightarrow> err + string"
  re_validate_token :: "int \<Rightarrow> string \<Rightarrow> err + string"
  re_shows :: "string \<Rightarrow> err \<Rightarrow> bool"
  re_static :: "string \<Rightarrow> reply"

text \<open>A request, with the values that gin takes from its path.\<close>

record request =
  rq_id :: string
  rq_server_id :: string
  rq_body :: string
  rq_authorization :: string

type_synonym handler = "request \<Rightarrow> reply oop"

definition respond :: "int \<Rightarrow> json list \<Rightarrow> reply oop" where
  "respond code bs = ret (http code bs)"

definition ShouldBindJSON :: "(string \<Rightarrow> err + 'b) \<Rightarrow> ('b \<Rightarrow> bool) \<Rightarrow> string \<Rightarrow> err + 'b" where
  "ShouldBindJSON decode ok body =
     bind_res (decode body) (\<lambda>e. e) (\<lambda>x. if ok x then Inr x else Inl (errors_new ''required''))"

definition with_json :: "(string \<Rightarrow> err + 'b) \<Rightarrow> ('b \<Rightarrow> bool) \<Rightarrow> request \<Rightarrow> ('b \<Rightarrow> reply oop) \<Rightarrow> reply oop" where
  "with_json decode ok rq k = (case ShouldBindJSON decode ok (rq_body rq) of
     Inl e \<Rightarrow> respond 400 [JError errInvalidJSON (Some e)]
   | Inr x \<Rightarrow> k x)"

text \<open>\<open>strconv.Atoi(c.Param(...))\<close>: the message is sent as it is, or in an \<open>ErrorResponse\<close>.\<close>

definition with_id :: "string \<Rightarrow> (int \<Rightarrow> reply oop) \<Rightarrow> reply oop" where
  "with_id s k = (case atoi s of None \<Rightarrow> respond 400 [JText errNonIntegerID] | Some i \<Rightarrow> k i)"

definition with_id_json :: "string \<Rightarrow> (int \<Rightarrow> reply oop) \<Rightarrow> reply oop" where
  "with_id_json s k = (case atoi s of None \<Rightarrow> respond 400 [JError errNonIntegerID None] | Some i \<Rightarrow> k i)"

text \<open>\<open>x, err := m; if err != nil \<open>{\<close> reply \<open>bad err\<close>; return \<open>}\<close>; k\<close>\<close>

definition call :: "'a wop \<Rightarrow> (err \<Rightarrow> reply) \<Rightarrow> ('a \<Rightarrow> reply oop) \<Rightarrow> reply oop" where
  "call m bad k = attempt (on_world m) (\<lambda>r. case r of Inl e \<Rightarrow> ret (bad e) | Inr x \<Rightarrow> k x)"

text \<open>The reply 500 with a message alone, or with the text of the error.\<close>

definition failed :: "message \<Rightarrow> err \<Rightarrow> reply" where
  "failed m e = http 500 [JError m None]"

definition failed_with :: "message \<Rightarrow> err \<Rightarrow> reply" where
  "failed_with m e = http 500 [JError m (Some e)]"

definition not_found :: "message \<Rightarrow> reply" where
  "not_found m = http 404 [JError m None]"

text \<open>The two lookups that many handlers begin with compare the error itself (\<open>==\<close>), not its chain.\<close>

definition user_lookup_failed :: "err \<Rightarrow> reply" where
  "user_lookup_failed e =
     (if e = Sentinel ErrUserNotFound then not_found errUserNotFound else failed_with errUserAcquisition e)"

definition server_lookup_failed :: "err \<Rightarrow> reply" where
  "server_lookup_failed e =
     (if e = Sentinel VcmErrNotFound then not_found errServerNotFound else failed_with errServerAcquisition e)"

end
