(* ===== verification/Rest_Users.thy ===== *)
theory Rest_Users
  imports Rest_Base
begin

text \<open>
  The REST handlers for users, their tokens, second factors, address pools and devices
  (\<open>src/service/rest/handlers.go\<close>).
\<close>

section \<open>Users\<close>

definition handleCreateUser :: "rest_env \<Rightarrow> handler" where
  "handleCreateUser R rq = with_json (js_user_create (re_json R)) UserWithPassword_ok rq (\<lambda>a.
     call (um_CreateUser (re_env R) (re_users R) a)
       (\<lambda>e. if errors_is e ErrFeaturesRestriction \<or> errors_is e ErrBadUserData
            then http 400 [JError errUserNotCreated (Some e)] else failed_with errUserNotCreated e)
       (\<lambda>_. respond 200 []))"

definition handleGetAllUsers :: handler where
  "handleGetAllUsers rq = call um_GetAllUsers (failed errUsersNotRetrieved) (\<lambda>us. respond 200 [JUsers us])"

definition handleGetUser :: handler where
  "handleGetUser rq = with_id (rq_id rq) (\<lambda>i.
     call (um_GetUserByID i) user_lookup_failed (\<lambda>u. respond 200 [JUser u]))"

text \<open>What both updates of a user answer to an error.\<close>

definition user_update_failed :: "err \<Rightarrow> reply" where
  "user_update_failed e =
     (if e = Sentinel ErrUserNotFound then not_found errUserNotFound
      else if errors_is e ErrBadUserData then http 400 [JErrorText e]
      else if errors_is e ErrOnlyForIntrUsers then http 400 [JErrorText e]
      else failed_with errUserNotUpdated e)"

definition handleUpdateUser :: "rest_env \<Rightarrow> handler" where
  "handleUpdateUser R rq = with_json (js_user_update (re_json R)) UserUpdate_ok rq (\<lambda>a.
     with_id (rq_id rq) (\<lambda>i.
     call (um_UpdateUser (re_users R) i a) user_update_failed (\<lambda>u. respond 200 [JUser u])))"

definition handleUpdateUserPassword :: "rest_env \<Rightarrow> handler" where
  "handleUpdateUserPassword R rq = with_json (js_password (re_json R)) UserPasswordUpdate_ok rq (\<lambda>pw.
     with_id (rq_id rq) (\<lambda>i.
     call (um_UpdateUserPassword (re_env R) (re_users R) i pw) user_update_failed (\<lambda>_. respond 200 [])))"

definition handleDeleteUser :: handler where
  "handleDeleteUser rq = with_id (rq_id rq) (\<lambda>i.
     call (um_DeleteUser i)
       (\<lambda>e. if e = Sentinel ErrUserNotFound then not_found errUserNotFound else failed_with errUserNotDeleted e)
       (\<lambda>_. respond 200 []))"

section \<open>Tokens\<close>

definition getTokenForUser :: "rest_env \<Rightarrow> string \<Rightarrow> string \<Rightarrow> string wop" where
  "getTokenForUser R username password =
     bind_do (um_GetUserByNameAndPassword (re_env R) (re_users R) username password) (\<lambda>u.
     guard_do (\<not> au_is_admin u) (Sentinel ErrUserNotFound) (
     bind_do (gets w_now) (\<lambda>now. lift (re_create_token R now username))))"

definition handleGetJWT :: "rest_env \<Rightarrow> handler" where
  "handleGetJWT R rq = with_json (js_creds (re_json R)) JWTRequestCreds_ok rq (\<lambda>c.
     call (getTokenForUser R (jc_username c) (jc_password c))
       (\<lambda>e. if e = Sentinel ErrUserNotFound then http 400 [JError errTokenNotCreated None] else failed errGeneric e)
       (\<lambda>t. respond 200 [JToken t]))"

section \<open>Second factors\<close>

definition um_MFAGetEnabledTypes :: "user_cfg \<Rightarrow> string list" where
  "um_MFAGetEnabledTypes C = uc_mfa_types C"

definition handleGetMFAEnabledAuthTypes :: "rest_env \<Rightarrow> handler" where
  "handleGetMFAEnabledAuthTypes R rq = respond 200 [JTypes (um_MFAGetEnabledTypes (re_users R))]"

definition secret_failed :: "err \<Rightarrow> reply" where
  "secret_failed e =
     (if errors_is e ErrNotFound then not_found errUserNotFound
      else if errors_is e ErrUserSecretNotFound then not_found errUserSecretsNotMFAFound
      else failed errGeneric e)"

definition handleGetMFAUserTOTPSecrets :: "rest_env \<Rightarrow> handler" where
  "handleGetMFAUserTOTPSecrets R rq = with_id (rq_id rq) (\<lambda>i.
     call (um_MFAGetTOTPSecret (re_env R) i) secret_failed (\<lambda>s. respond 200 [JUserSecrets s]))"

definition handleCreateMFAUserTOTPSecrets :: "rest_env \<Rightarrow> handler" where
  "handleCreateMFAUserTOTPSecrets R rq = with_id (rq_id rq) (\<lambda>i.
     call (um_MFACreateTOTPSecret (re_env R) i)
       (\<lambda>e. if errors_is e ErrNotFound then not_found errUserNotFound else failed errGeneric e)
       (\<lambda>s. respond 200 [JUserSecrets s]))"

definition handleUpdateMFAUserTOTPSecrets :: "rest_env \<Rightarrow> handler" where
  "handleUpdateMFAUserTOTPSecrets R rq = with_id (rq_id rq) (\<lambda>i.
     call (um_MFAUpdateTOTPSecret (re_env R) i) secret_failed (\<lambda>s. respond 200 [JUserSecrets s]))"

definition handleGetMFACertificateCAs :: "rest_env \<Rightarrow> handler" where
  "handleGetMFACertificateCAs R rq = call (um_MFAGetAllCAs (re_mfa R)) (failed errGeneric) (\<lambda>l. respond 200 [JCAs l])"

definition handleGetMFACertificateCRLs :: "rest_env \<Rightarrow> handler" where
  "handleGetMFACertificateCRLs R rq = call (um_MFAGetAllCRLs (re_mfa R)) (failed errGeneric) (\<lambda>l. respond 200 [JCRLs l])"

definition handleAddMFACertificateCA :: "rest_env \<Rightarrow> handler" where
  "handleAddMFACertificateCA R rq = with_json (js_cert (re_json R)) (\<lambda>_. True) rq (\<lambda>c.
     call (um_MFACreateCA (re_mfa R) c) (failed errGeneric) (\<lambda>_. respond 200 []))"

definition handleAddMFACertificateCRL :: "rest_env \<Rightarrow> handler" where
  "handleAddMFACertificateCRL R rq = with_json (js_cert (re_json R)) (\<lambda>_. True) rq (\<lambda>c.
     call (um_MFACreateCRL (re_mfa R) c) (failed errGeneric) (\<lambda>_. respond 200 []))"

definition cert_failed :: "err \<Rightarrow> reply" where
  "cert_failed e = (if errors_is e ErrMFACertNotFound then not_found errCertDataNotFound else failed errGeneric e)"

definition handleDeleteMFACertificateCA :: handler where
  "handleDeleteMFACertificateCA rq = with_id (rq_id rq) (\<lambda>i.
     call (um_MFADeleteCA i) cert_failed (\<lambda>_. respond 200 []))"

definition handleDeleteMFACertificateCRL :: handler where
  "handleDeleteMFACertificateCRL rq = with_id (rq_id rq) (\<lambda>i.
     call (um_MFADeleteCRL i) cert_failed (\<lambda>_. respond 200 []))"

section \<open>Address pools\<close>

abbreviation pool_exists :: message where "pool_exists \<equiv> Literal ''Address pool with name already exists''"
abbreviation pool_invalid :: message where "pool_invalid \<equiv> Literal ''Address pool with name is invalid''"
abbreviation pool_missing :: message where "pool_missing \<equiv> Literal ''Address pool with ID not found''"

definition handleGetAllAddressPools :: handler where
  "handleGetAllAddressPools rq = call um_GetAllAddressPools (failed errGeneric) (\<lambda>ps. respond 200 [JPools ps])"

definition handleGetAddressPool :: handler where
  "handleGetAddressPool rq = with_id (rq_id rq) (\<lambda>i.
     call (um_GetAddressPoolByID i)
       (\<lambda>e. if errors_is e ErrNotFound then http 404 [JErrorID pool_missing i] else failed errGeneric e)
       (\<lambda>p. respond 200 [JPool p]))"

text \<open>The name is trimmed and the pool validated before the manager is called.\<close>

definition with_pool :: "rest_env \<Rightarrow> request \<Rightarrow> (api_address_pool \<Rightarrow> reply oop) \<Rightarrow> reply oop" where
  "with_pool R rq k = with_json (js_pool (re_json R)) (\<lambda>_. True) rq (\<lambda>a.
     let a = a\<lparr>aap_name := trim_space (aap_name a)\<rparr> in
     case um_ValidateAddressPool a of
       Inl e \<Rightarrow> respond 400 [JErrorName pool_invalid (aap_name a) (Some e)]
     | Inr _ \<Rightarrow> k a)"

definition handleCreateAddressPool :: "rest_env \<Rightarrow> handler" where
  "handleCreateAddressPool R rq = with_pool R rq (\<lambda>a.
     call (um_CreateAddressPool a)
       (\<lambda>e. if errors_is e ErrAlreadyExists then http 400 [JErrorName pool_exists (aap_name a) None] else failed errGeneric e)
       (\<lambda>p. respond 201 [JPool p]))"

text \<open>For a missing pool two bodies are written: the code goes on after the first one.\<close>

definition handleUpdateAddressPool :: "rest_env \<Rightarrow> handler" where
  "handleUpdateAddressPool R rq = with_id (rq_id rq) (\<lambda>i. with_pool R rq (\<lambda>a.
     call (um_UpdateAddressPool i a)
       (\<lambda>e. if errors_is e ErrAlreadyExists then http 400 [JErrorName pool_exists (aap_name a) None]
            else if errors_is e ErrNotFound then http 404 [JErrorID pool_missing i, JError errGeneric None]
            else failed errGeneric e)
       (\<lambda>p. respond 200 [JPool p])))"

definition handleDeleteAddressPool :: handler where
  "handleDeleteAddressPool rq = with_id (rq_id rq) (\<lambda>i.
     call (um_DeleteAddressPool i)
       (\<lambda>e. if errors_is e ErrNotFound then not_found (Literal ''Address pool not found'') else failed errGeneric e)
       (\<lambda>_. respond 204 []))"

section \<open>Devices\<close>

abbreviation template_missing :: message where "template_missing \<equiv> Literal ''Device template not found''"

definition template_failed :: "err \<Rightarrow> reply" where
  "template_failed e = (if errors_is e ErrNotFound then not_found template_missing else failed errGeneric e)"

definition handleGetDevicesByTemplateID :: "rest_env \<Rightarrow> handler" where
  "handleGetDevicesByTemplateID R rq = with_id_json (rq_id rq) (\<lambda>t.
     call (um_GetDevicesByTemplateID (re_env R) t) template_failed (\<lambda>ds. respond 200 [JDevices ds]))"

definition handleCreateDevice :: "rest_env \<Rightarrow> handler" where
  "handleCreateDevice R rq = with_id_json (rq_id rq) (\<lambda>t.
     with_json (js_device_data (re_json R)) (\<lambda>_. True) rq (\<lambda>a.
     call (um_CreateDevice (re_env R) t (Some a))
       (\<lambda>e. if errors_is e ErrNotFound then not_found template_missing
            else if errors_is e ErrDPULimitExceeded then http 403 [JErrorText e]
            else if errors_is e VcmErrInvalidData \<or> re_shows R ''validation error'' e then http 400 [JErrorText e]
            else failed errGeneric e)
       (\<lambda>_. respond 201 [])))"

definition handleGetDeviceAutogenData :: "rest_env \<Rightarrow> handler" where
  "handleGetDeviceAutogenData R rq = with_id_json (rq_id rq) (\<lambda>t.
     call (um_GenerateDeviceData (re_env R) t)
       (\<lambda>e. if errors_is e ErrNotFound then not_found template_missing
            else if errors_is e ErrDPULimitExceeded then http 403 [JErrorText e]
            else failed errGeneric e)
       (\<lambda>d. respond 200 [JDeviceData d]))"

definition handleUpdateDevice :: "rest_env \<Rightarrow> handler" where
  "handleUpdateDevice R rq = with_id_json (rq_id rq) (\<lambda>i.
     with_json (js_device_data (re_json R)) (\<lambda>_. True) rq (\<lambda>a.
     call (um_UpdateDevice (re_env R) i a)
       (\<lambda>e. if errors_is e ErrNotFound then http 404 [JErrorID (Literal ''Device with ID not found'') i]
            else failed errGeneric e)
       (\<lambda>_. respond 201 [])))"

definition handleDeleteDevice :: handler where
  "handleDeleteDevice rq = with_id_json (rq_id rq) (\<lambda>i.
     call (um_DeleteDevice i)
       (\<lambda>e. if errors_is e ErrNotFound then not_found (Literal ''Device not found'') else failed errGeneric e)
       (\<lambda>_. respond 204 []))"

definition handleResyncDevices :: handler where
  "handleResyncDevices rq = with_id_json (rq_id rq) (\<lambda>t.
     call (um_ResyncDevices t) template_failed (\<lambda>r. respond 200 [JDeviceResync r]))"

end
