(* ===== verification/Rest_Vpn.thy ===== *)
theory Rest_Vpn
  imports Rest_Base
begin

text \<open>
  The REST handlers for servers, device templates, adjacencies and their templates
  (\<open>src/service/rest/handlers.go\<close>).
\<close>

section \<open>Servers\<close>

definition handleGetAllServers :: handler where
  "handleGetAllServers rq = call vcm_GetAllServers (failed_with errServersNotRetrieved) (\<lambda>ss. respond 200 [JServers ss])"

definition handleGetAllServersStatuses :: "rest_env \<Rightarrow> handler" where
  "handleGetAllServersStatuses R rq = call vcm_GetAllServers (failed_with errServersNotRetrieved) (\<lambda>ss.
     bind_do (gets oc_status) (\<lambda>store.
     attempt (for_map (service_status (re_env R) store) ss) (\<lambda>r. case r of
       Inl e \<Rightarrow> ret (failed_with errReplicaCheckFailed e)
     | Inr page \<Rightarrow> respond 200 [JStatuses page])))"

definition handleGetServer :: handler where
  "handleGetServer rq = with_id (rq_id rq) (\<lambda>i.
     call (vcm_GetServerByID i) server_lookup_failed (\<lambda>s. respond 200 [JServer s]))"

definition handleCreateServer :: "rest_env \<Rightarrow> handler" where
  "handleCreateServer R rq = with_json (js_new_server (re_json R)) (\<lambda>b. Server_ok (sw_server b)) rq (\<lambda>b.
     call (vcm_CreateServer (re_env R) (sw_server b) (sw_config b))
       (\<lambda>e. if errors_is e VcmErrAlreadyExists then http 400 [JError errServerExists None]
            else if errors_is e VcmErrInvalidData then http 400 [JErrorText e]
            else failed_with errServerNotCreated e)
       (\<lambda>_. respond 200 []))"

definition handleUpdateServer :: "rest_env \<Rightarrow> handler" where
  "handleUpdateServer R rq = with_json (js_server_update (re_json R)) ServerUpdate_ok rq (\<lambda>a.
     with_id (rq_id rq) (\<lambda>i.
     call (vcm_UpdateServer i a)
       (\<lambda>e. if e = Sentinel VcmErrNotFound then not_found errServerNotFound else failed_with errServerNotUpdated e)
       (\<lambda>s. respond 200 [JServer s])))"

text \<open>A deleted server also loses its status.\<close>

definition handleDeleteServer :: handler where
  "handleDeleteServer rq = with_id (rq_id rq) (\<lambda>i.
     call (vcm_DeleteServer i)
       (\<lambda>e. if e = Sentinel VcmErrNotFound then not_found errServerNotFound else failed_with errServerNotDeleted e)
       (\<lambda>_. bind_do (modify (oc_status_update (map_Del i))) (\<lambda>_. respond 200 [])))"

definition handleGetServerVPNConfig :: "rest_env \<Rightarrow> handler" where
  "handleGetServerVPNConfig R rq = with_id (rq_id rq) (\<lambda>i.
     call (vcm_GetServerByID i) server_lookup_failed (\<lambda>s.
     call (vcm_GetWireGuardServerConfig (re_env R) (as_id s))
       (\<lambda>e. if errors_is e VcmErrNotFound then not_found errServerVPNConfigDoesNotExist
            else failed_with errServerVPNConfigAcquisition e)
       (\<lambda>c. respond 200 [JInterface c])))"

definition handleUpdateServerVPNConfig :: "rest_env \<Rightarrow> handler" where
  "handleUpdateServerVPNConfig R rq = with_json (js_interface (re_json R)) (\<lambda>_. True) rq (\<lambda>c.
     with_id_json (rq_id rq) (\<lambda>i.
     call (vcm_GetServerByID i) server_lookup_failed (\<lambda>s.
     call (vcm_UpdateWireGuardServerConfig (re_env R) (as_id s) c) (failed_with errServerVPNConfigNotUpdated)
       (\<lambda>_. respond 200 []))))"

definition handleGetVPNServerSecrets :: "rest_env \<Rightarrow> handler" where
  "handleGetVPNServerSecrets R rq = with_json (js_server_name (re_json R)) VPNServerSecretsRequest_ok rq (\<lambda>n.
     call (vcm_GetCertForServer (re_intn R) (re_certs R) n)
       (\<lambda>e. if e = Sentinel VcmErrNotFound then not_found errServerNotFound
            else failed_with errCertificateNotGenerated e)
       (\<lambda>(cert, key). respond 200 [JSecrets cert key]))"

definition handleGetPremiumFeatures :: "rest_env \<Rightarrow> handler" where
  "handleGetPremiumFeatures R rq = respond 200 [JFeatures (re_ldap_feature R)]"

section \<open>Device templates\<close>

definition handleCreateDeviceTemplateForUser :: "rest_env \<Rightarrow> handler" where
  "handleCreateDeviceTemplateForUser R rq = with_json (js_device_template (re_json R)) (\<lambda>_. True) rq (\<lambda>t.
     with_id (rq_id rq) (\<lambda>i.
     call (um_GetUserByID i) user_lookup_failed (\<lambda>u.
     call (vcm_CheckDeviceTemplateExistsByUserID (au_id u)) (failed_with errDeviceTemplateNotCreated) (\<lambda>ex.
     if ex then respond 400 [JError errDeviceTemplateExists None]
     else call (vcm_CreateDeviceTemplate (au_id u) t) (failed_with errDeviceTemplateNotCreated)
       (\<lambda>_. respond 200 [])))))"

definition handleUpdateDeviceTemplateByUserID :: "rest_env \<Rightarrow> handler" where
  "handleUpdateDeviceTemplateByUserID R rq = with_json (js_device_template (re_json R)) (\<lambda>_. True) rq (\<lambda>t.
     with_id (rq_id rq) (\<lambda>i.
     call (um_GetUserByID i) user_lookup_failed (\<lambda>u.
     call (vcm_UpdateDeviceTemplateByUserID (au_id u) t) (failed_with errDeviceTemplateNotUpdated)
       (\<lambda>_. respond 200 []))))"

definition handleGetDeviceTemplateByUserID :: handler where
  "handleGetDeviceTemplateByUserID rq = with_id (rq_id rq) (\<lambda>i.
     call (um_GetUserByID i) user_lookup_failed (\<lambda>u.
     call (vcm_GetDeviceTemplateByUserID (au_id u))
       (\<lambda>e. if errors_is e VcmErrNotFound then not_found errDeviceTemplateDoesNotExist
            else failed_with errDeviceTemplateAcquisition e)
       (\<lambda>t. respond 200 [JDeviceTemplate t])))"

definition handleDeleteDeviceTemplateByUserID :: handler where
  "handleDeleteDeviceTemplateByUserID rq = with_id (rq_id rq) (\<lambda>i.
     call (um_GetUserByID i) user_lookup_failed (\<lambda>u.
     call (vcm_CheckDeviceTemplateExistsByUserID (au_id u)) (failed errGeneric) (\<lambda>ex.
     if \<not> ex then ret (not_found errDeviceTemplateDoesNotExist)
     else call (vcm_DeleteDeviceTemplateByUserID (au_id u)) (failed_with errDeviceTemplateDeletion)
       (\<lambda>_. respond 200 []))))"

section \<open>Adjacencies\<close>

text \<open>
  A body may have no configuration: the pointer is then \<open>nil\<close>, and the operations of the manager panic where they first
  use it.
\<close>

definition create_adjacency_of :: "env \<Rightarrow> int \<Rightarrow> int \<Rightarrow> api_adjacency option \<Rightarrow> unit wop" where
  "create_adjacency_of E s d c = (case c of None \<Rightarrow> throw Panic | Some a \<Rightarrow> vcm_CreateAdjacency E s d a)"

definition update_adjacency_of :: "env \<Rightarrow> int \<Rightarrow> int \<Rightarrow> int \<Rightarrow> api_adjacency option \<Rightarrow> unit wop" where
  "update_adjacency_of E i s d c = (case c of
     None \<Rightarrow>
       try_do (GetAdjacency i) (on_no_rows (Sentinel VcmErrDoesNotExist) handle_error) (\<lambda>_.
       try_do (pg_GetServerByID s) handle_error (\<lambda>_. throw Panic))
   | Some a \<Rightarrow> vcm_UpdateAdjacency E i s d a)"

definition device_lookup_failed :: "err \<Rightarrow> reply" where
  "device_lookup_failed e =
     (if e = Sentinel ErrNotFound then not_found errDeviceNotFound else failed_with errDeviceAcquisition e)"

definition handleCreateVPNAdjacency :: "rest_env \<Rightarrow> handler" where
  "handleCreateVPNAdjacency R rq = with_json (js_adjacency (re_json R)) Adjacency_ok rq (\<lambda>b.
     call (um_GetDevice (re_env R) (ar_device b)) device_lookup_failed (\<lambda>_.
     call (vcm_GetServerByID (ar_server b)) server_lookup_failed (\<lambda>_.
     call (create_adjacency_of (re_env R) (ar_server b) (ar_device b) (ar_config b))
       (\<lambda>e. if errors_is e VcmErrInvalidData then http 400 [JError errAdjacencyInvalid (Some e)]
            else if errors_is e VcmErrAlreadyExists then http 400 [JError errAdjacencyExists None]
            else failed_with errAdjacencyNotCreated e)
       (\<lambda>_. respond 200 []))))"

definition handleUpdateVPNAdjacency :: "rest_env \<Rightarrow> handler" where
  "handleUpdateVPNAdjacency R rq = with_json (js_adjacency (re_json R)) Adjacency_ok rq (\<lambda>b.
     with_id (rq_id rq) (\<lambda>i.
     call (um_GetDevice (re_env R) (ar_device b)) device_lookup_failed (\<lambda>_.
     call (vcm_GetServerByID (ar_server b)) server_lookup_failed (\<lambda>_.
     call (update_adjacency_of (re_env R) i (ar_server b) (ar_device b) (ar_config b))
       (\<lambda>e. if errors_is e VcmErrInvalidData then http 400 [JError errAdjacencyInvalid (Some e)]
            else if errors_is e VcmErrDoesNotExist then not_found errAdjacencyNotFound
            else if errors_is e VcmErrAlreadyExists then http 400 [JError errAdjacencyExists None]
            else failed_with errAdjacencyNotUpdated e)
       (\<lambda>_. respond 200 [])))))"

definition handleDeleteVPNAdjacency :: handler where
  "handleDeleteVPNAdjacency rq = with_id (rq_id rq) (\<lambda>i.
     call (vcm_DeleteAdjacency i)
       (\<lambda>e. if errors_is e VcmErrNotFound then not_found errAdjacencyNotFound else failed_with errAdjacencyNotDeleted e)
       (\<lambda>_. respond 200 []))"

text \<open>An adjacency whose device cannot be read is left out of the list.\<close>

definition server_adjacency_ext :: "env \<Rightarrow> adjacency_ext list \<Rightarrow> api_peer \<Rightarrow> adjacency_ext list oop" where
  "server_adjacency_ext E acc p =
     attempt (on_world (um_GetDevice E (peer_device p))) (\<lambda>r. case r of
       Inl _ \<Rightarrow> ret acc
     | Inr v \<Rightarrow> ret (acc @ [\<lparr>ae_id = peer_id p, ae_server = None, ae_device = v, ae_config = peer_config p\<rparr>]))"

definition handleGetVPNServerAdjacencies :: "rest_env \<Rightarrow> handler" where
  "handleGetVPNServerAdjacencies R rq = with_id (rq_id rq) (\<lambda>i.
     call (vcm_GetServerByID i) server_lookup_failed (\<lambda>s.
     call (vcm_GetWireGuardServerAdjacencies (re_env R) (as_id s)) (failed errGeneric) (\<lambda>ps.
     bind_do (for_fold (server_adjacency_ext (re_env R)) [] ps) (\<lambda>l. respond 200 [JAdjacencies l]))))"

definition handleGetDeviceAdjacenciesByUserID :: "rest_env \<Rightarrow> handler" where
  "handleGetDeviceAdjacenciesByUserID R rq = with_id (rq_id rq) (\<lambda>u.
     call (vcm_GetUserDeviceAdjacencies (re_env R) u)
       (\<lambda>e. if errors_is e VcmErrDoesNotExist then not_found (Literal ''User not found'') else failed errGeneric e)
       (\<lambda>l. respond 200 [JAdjacencies l]))"

definition handleResyncDeviceAdjacencies :: "rest_env \<Rightarrow> handler" where
  "handleResyncDeviceAdjacencies R rq = with_id_json (rq_id rq) (\<lambda>u.
     call (vcm_ResyncDeviceAdjacencies (re_env R) (re_order R) u)
       (\<lambda>e. if errors_is e VcmErrDoesNotExist then not_found errUserNotFound else failed errGeneric e)
       (\<lambda>r. respond 200 [JAdjacencyResync r]))"

section \<open>Adjacency templates\<close>

definition create_adjacency_template_of :: "api_server \<Rightarrow> int \<Rightarrow> api_adj_template option \<Rightarrow> unit wop" where
  "create_adjacency_template_of s u c = (case c of
     None \<Rightarrow>
       try_do (AdjacencyTemplateExists (as_id s) u) (vcm_query_failed ''AdjacencyTemplateExists'') (\<lambda>ex.
       guard_do ex (Sentinel VcmErrAlreadyExists) (throw Panic))
   | Some a \<Rightarrow> vcm_CreateAdjacencyTemplate s u a)"

definition update_adjacency_template_of :: "int \<Rightarrow> api_server \<Rightarrow> int \<Rightarrow> api_adj_template option \<Rightarrow> unit wop" where
  "update_adjacency_template_of i s u c = (case c of
     None \<Rightarrow>
       try_do (GetAdjacencyTemplateByID i)
         (on_no_rows (Sentinel VcmErrDoesNotExist) (vcm_query_failed ''GetAdjacencyTemplateByID'')) (\<lambda>cur.
       guard_do (at_user cur \<noteq> u) (new_under VcmErrInvalidData ''user cannot be changed for adjacency template'') (
       try_do (AdjacencyTemplateExists (as_id s) u) (vcm_query_failed ''AdjacencyTemplateExists'') (\<lambda>ex.
       guard_do (ex \<and> at_server cur \<noteq> as_id s) (Sentinel VcmErrAlreadyExists) (throw Panic))))
   | Some a \<Rightarrow> vcm_UpdateAdjacencyTemplate i s u a)"

definition handleGetVPNUserAdjacencyTemplates :: handler where
  "handleGetVPNUserAdjacencyTemplates rq = with_id (rq_id rq) (\<lambda>u.
     call (vcm_GetUserAdjacencyTemplates u)
       (\<lambda>e. if errors_is e VcmErrDoesNotExist then not_found errUserNotFound else failed errGeneric e)
       (\<lambda>ts. respond 200 [JAdjTemplates ts]))"

definition handleCreateVPNAdjacencyTemplate :: "rest_env \<Rightarrow> handler" where
  "handleCreateVPNAdjacencyTemplate R rq = with_json (js_adj_template (re_json R)) AdjacencyTemplate_ok rq (\<lambda>b.
     call (um_GetUserByID (tr_user b)) user_lookup_failed (\<lambda>u.
     call (vcm_GetServerByID (tr_server b)) server_lookup_failed (\<lambda>s.
     call (create_adjacency_template_of s (au_id u) (tr_config b))
       (\<lambda>e. if errors_is e VcmErrInvalidData then http 400 [JError errAdjacencyInvalid (Some e)]
            else if errors_is e VcmErrAlreadyExists then http 400 [JError errAdjacencyExists None]
            else failed_with errAdjacencyNotCreated e)
       (\<lambda>_. respond 200 []))))"

definition handleUpdateVPNAdjacencyTemplate :: "rest_env \<Rightarrow> handler" where
  "handleUpdateVPNAdjacencyTemplate R rq = with_json (js_adj_template (re_json R)) AdjacencyTemplate_ok rq (\<lambda>b.
     with_id (rq_id rq) (\<lambda>i.
     call (um_GetUserByID (tr_user b)) user_lookup_failed (\<lambda>_.
     call (vcm_GetServerByID (tr_server b)) server_lookup_failed (\<lambda>s.
     call (update_adjacency_template_of i s (tr_user b) (tr_config b))
       (\<lambda>e. if errors_is e VcmErrInvalidData then http 400 [JError errAdjacencyInvalid (Some e)]
            else if errors_is e VcmErrDoesNotExist then http 400 [JError errAdjacencyNotFound None]
            else failed_with errAdjacencyNotUpdated e)
       (\<lambda>_. respond 200 [])))))"

definition handleDeleteVPNAdjacencyTemplate :: handler where
  "handleDeleteVPNAdjacencyTemplate rq = with_id (rq_id rq) (\<lambda>i.
     call (vcm_DeleteAdjacencyTemplate i)
       (\<lambda>e. if errors_is e VcmErrDoesNotExist then not_found errAdjacencyNotFound
            else failed_with errAdjacencyNotDeleted e)
       (\<lambda>_. respond 200 []))"

end
