(* ===== verification/Rest_Ldap.thy ===== *)
theory Rest_Ldap
  imports Rest_Base
begin

text \<open>The REST handlers for LDAP configurations and templates (\<open>src/service/rest/handlers.go\<close>).\<close>

section \<open>Configurations\<close>

definition handleGetAllLdapConfigs :: handler where
  "handleGetAllLdapConfigs rq = call um_GetAllLdapConfigs (failed errGeneric) (\<lambda>l. respond 200 [JLdapConfigs l])"

definition handleGetLdapConfig :: "rest_env \<Rightarrow> handler" where
  "handleGetLdapConfig R rq = call (um_GetLdapConfig (re_ldap R) (rq_id rq))
     (\<lambda>e. if errors_is e ErrNotFound then not_found errLdapConfigNotFound else failed errGeneric e)
     (\<lambda>c. respond 200 [JLdapConfig c])"

definition handleCreateLdapConfig :: "rest_env \<Rightarrow> handler" where
  "handleCreateLdapConfig R rq = with_json (js_ldap_config (re_json R)) (\<lambda>_. True) rq (\<lambda>a.
     call (um_CreateLdapConfig (re_env R) (re_ldap R) a)
       (\<lambda>e. if errors_is e ErrInvalidData then http 400 [JErrorText e] else failed errGeneric e)
       (\<lambda>c. respond 200 [JLdapConfig c]))"

definition handleUpdateLdapConfig :: "rest_env \<Rightarrow> handler" where
  "handleUpdateLdapConfig R rq = with_json (js_ldap_config (re_json R)) (\<lambda>_. True) rq (\<lambda>a.
     call (um_UpdateLdapConfig (re_env R) (re_ldap R) a (rq_id rq))
       (\<lambda>e. if errors_is e ErrNotFound then not_found errLdapConfigNotFound
            else if errors_is e ErrInvalidData then http 400 [JErrorText e] else failed errGeneric e)
       (\<lambda>_. respond 200 []))"

definition handleDeleteLdapConfig :: "rest_env \<Rightarrow> handler" where
  "handleDeleteLdapConfig R rq = call (um_DeleteLdapConfig (re_ldap R) (rq_id rq))
     (\<lambda>e. if errors_is e ErrNotFound then not_found errLdapConfigNotFound else failed errGeneric e)
     (\<lambda>_. respond 200 [])"

definition handleLdapResync :: handler where
  "handleLdapResync rq = call um_Resync
     (\<lambda>e. if e = Sentinel ErrSyncInProgress then http 400 [JError errLdapSyncInProgress None] else failed errGeneric e)
     (\<lambda>_. respond 200 [])"

definition handleGetLdapSyncStatus :: handler where
  "handleGetLdapSyncStatus rq = call um_GetLdapSyncStats
     (\<lambda>e. if e = Sentinel ErrSyncNotStarted then http 400 [JError errLdapSyncNotStarted None] else failed errGeneric e)
     (\<lambda>_. respond 200 [JLdapSyncStatus])"

section \<open>Templates\<close>

definition handleCreateLdapTemplate :: "rest_env \<Rightarrow> handler" where
  "handleCreateLdapTemplate R rq = with_json (js_ldap_template (re_json R)) LdapTemplate_ok rq (\<lambda>a.
     call (um_CreateLdapTemplate (re_users R) a)
       (\<lambda>e. if errors_is e VcmErrAlreadyExists then http 400 [JError errTemplateExists None]
            else if errors_is e ErrInvalidData then http 400 [JErrorText e] else failed errGeneric e)
       (\<lambda>_. respond 200 []))"

definition handleUpdateLdapTemplate :: "rest_env \<Rightarrow> handler" where
  "handleUpdateLdapTemplate R rq = with_json (js_ldap_template (re_json R)) LdapTemplate_ok rq (\<lambda>a.
     with_id (rq_id rq) (\<lambda>i.
     call (um_UpdateLdapTemplate i a)
       (\<lambda>e. if errors_is e ErrNotFound then not_found errLdapTemplateNotFound
            else if errors_is e ErrInvalidData then http 400 [JErrorText e] else failed errGeneric e)
       (\<lambda>_. respond 200 [])))"

definition handleDeleteLdapTemplate :: handler where
  "handleDeleteLdapTemplate rq = with_id (rq_id rq) (\<lambda>i.
     call (um_DeleteLdapTemplate i)
       (\<lambda>e. if errors_is e ErrNotFound then not_found errLdapTemplateNotFound else failed errGeneric e)
       (\<lambda>_. respond 200 []))"

definition handleGetAllLdapTemplates :: handler where
  "handleGetAllLdapTemplates rq = call um_GetAllLdapTemplates (failed errGeneric) (\<lambda>l. respond 200 [JLdapTemplates l])"

section \<open>Servers of a template\<close>

text \<open>The checks that the template, and then a server, exist.\<close>

definition with_ldap_template :: "int \<Rightarrow> reply oop \<Rightarrow> reply oop" where
  "with_ldap_template t k = call (um_CheckLdapTemplateExists t) (failed errGeneric) (\<lambda>ex.
     if \<not> ex then ret (not_found errLdapTemplateNotFound) else k)"

definition with_existing_server :: "int \<Rightarrow> reply oop \<Rightarrow> reply oop" where
  "with_existing_server s k = call (vcm_CheckServerExists s) (failed errGeneric) (\<lambda>ex.
     if \<not> ex then ret (not_found errServerNotFound) else k)"

definition ldap_server_failed :: "err \<Rightarrow> reply" where
  "ldap_server_failed e = (if errors_is e ErrInvalidData then http 400 [JErrorText e] else failed errGeneric e)"

definition handleGetLdapTemplateServers :: handler where
  "handleGetLdapTemplateServers rq = with_id (rq_id rq) (\<lambda>t. with_ldap_template t (
     call (um_GetLdapTemplateServers t) (failed errGeneric) (\<lambda>l. respond 200 [JLdapServers l])))"

definition handleCreateLdapTemplateServer :: "rest_env \<Rightarrow> handler" where
  "handleCreateLdapTemplateServer R rq = with_json (js_ldap_server (re_json R)) LdapTemplateServer_ok rq (\<lambda>a.
     with_id (rq_id rq) (\<lambda>t. with_ldap_template t (
     with_existing_server (als_server a) (
     call (um_CreateLdapTemplateServer (re_ldap R) t a) ldap_server_failed (\<lambda>_. respond 200 [])))))"

definition handleUpdateLdapTemplateServer :: "rest_env \<Rightarrow> handler" where
  "handleUpdateLdapTemplateServer R rq = with_json (js_ldap_server (re_json R)) LdapTemplateServer_ok rq (\<lambda>a.
     with_id (rq_id rq) (\<lambda>t. with_ldap_template t (
     with_id (rq_server_id rq) (\<lambda>old. with_existing_server old (
     call (um_UpdateLdapTemplateServer (re_ldap R) t old a) ldap_server_failed (\<lambda>_. respond 200 []))))))"

definition handleDeleteLdapTemplateServer :: handler where
  "handleDeleteLdapTemplateServer rq = with_id (rq_id rq) (\<lambda>t. with_ldap_template t (
     with_id (rq_server_id rq) (\<lambda>s. with_existing_server s (
     call (um_DeleteLdapTemplateServer t s) ldap_server_failed (\<lambda>_. respond 200 [])))))"

end
