(* ===== verification/Rest_Server.thy ===== *)
theory Rest_Server
  imports Rest_Users Rest_Vpn Rest_Ldap
begin

text \<open>
  The REST server: authentication (\<open>src/service/rest/auth.go\<close>, \<open>src/service/rest/middlewares.go\<close>),
  the routes and the rate limiter (\<open>src/service/rest/server.go\<close>).  gin finds the registered path that a
  request matches; a request therefore comes with a method and that path.
\<close>

section \<open>Authentication\<close>

definition auth_failed :: "string \<Rightarrow> err" where
  "auth_failed l = new_under RestErrAuthenticationFailed l"

text \<open>\<open>http.Request.BasicAuth\<close>\<close>

definition ascii_lower :: "char \<Rightarrow> char" where
  "ascii_lower c = (let n = (of_char c :: nat) in if 65 \<le> n \<and> n \<le> 90 then char_of (n + 32) else c)"

definition request_BasicAuth :: "string \<Rightarrow> (string \<times> string) option" where
  "request_BasicAuth h =
     (if map ascii_lower (take 6 h) \<noteq> ''basic '' then None
      else case base64_decode (drop 6 h) of None \<Rightarrow> None | Some cs \<Rightarrow> cut (CHR '':'') cs)"

definition rest_basicAuth :: "rest_env \<Rightarrow> request \<Rightarrow> api_user wop" where
  "rest_basicAuth R rq = (case request_BasicAuth (rq_authorization rq) of
     None \<Rightarrow> throw (auth_failed ''invalid or missing basicAuth'')
   | Some (username, password) \<Rightarrow>
       try_do (um_GetUserByNameAndPassword (re_env R) (re_users R) username password)
         (\<lambda>e. if e = Sentinel ErrUserNotFound then auth_failed ''unknown user name or bad password'' else e) ret)"

text \<open>\<open>strings.Split\<close> with a separator that is not empty.\<close>

fun find_sub :: "string \<Rightarrow> string \<Rightarrow> (string \<times> string) option" where
  "find_sub sep [] = None"
| "find_sub sep (c # s) =
     (if has_prefix sep (c # s) then Some ([], drop (length sep) (c # s))
      else map_option (apfst (Cons c)) (find_sub sep s))"

lemma find_sub_shorter: "find_sub sep s = Some (a, b) \<Longrightarrow> sep \<noteq> [] \<Longrightarrow> length b < length s"
proof (induction s arbitrary: a b)
  case (Cons c s)
  show ?case
  proof (cases "has_prefix sep (c # s)")
    case True
    with Cons.prems show ?thesis by (cases sep) auto
  next
    case False
    with Cons.prems obtain a' where "find_sub sep s = Some (a', b)" by (auto simp: apfst_def map_prod_def)
    from Cons.IH [OF this Cons.prems(2)] show ?thesis by simp
  qed
qed simp

function split_at :: "string \<Rightarrow> string \<Rightarrow> string list" where
  "split_at sep s = (if sep = [] then [s] else case find_sub sep s of None \<Rightarrow> [s] | Some (a, b) \<Rightarrow> a # split_at sep b)"
  by auto
termination by (relation "measure (length \<circ> snd)") (auto intro: find_sub_shorter)

declare split_at.simps [simp del]

definition bearer_token :: "string \<Rightarrow> string option" where
  "bearer_token h = (case split_at ''Bearer'' h of [_, t] \<Rightarrow> Some (trim_space t) | _ \<Rightarrow> None)"

definition rest_jwtAuth :: "rest_env \<Rightarrow> request \<Rightarrow> api_user wop" where
  "rest_jwtAuth R rq =
     (if rq_authorization rq = [] then throw (auth_failed ''missing Authorization header'')
      else case bearer_token (rq_authorization rq) of
        None \<Rightarrow> throw (auth_failed ''bad Authorization header'')
      | Some token \<Rightarrow> bind_do (gets w_now) (\<lambda>now. case re_validate_token R now token of
          Inl _ \<Rightarrow> throw (auth_failed ''invalid token'')
        | Inr username \<Rightarrow> try_do (um_GetUserByName username)
            (\<lambda>e. if e = Sentinel ErrUserNotFound then auth_failed ''invalid token'' else e) ret))"

definition authenticate :: "(request \<Rightarrow> api_user wop) \<Rightarrow> handler \<Rightarrow> handler" where
  "authenticate auth h rq = attempt (on_world (auth rq)) (\<lambda>r. case r of
     Inl e \<Rightarrow> if errors_is e RestErrAuthenticationFailed then respond 401 [JErrorText e] else respond 500 []
   | Inr u \<Rightarrow> if \<not> au_is_admin u then respond 401 [] else h rq)"

section \<open>Routes\<close>

datatype verb = GET | POST | PATCH | DELETE

type_synonym route = "(verb \<times> string) \<times> handler"

definition core_routes :: "rest_env \<Rightarrow> route list" where
  "core_routes R =
   [((GET, ''/api/v1/servers''), handleGetAllServers),
    ((POST, ''/api/v1/servers''), handleCreateServer R),
    ((GET, ''/api/v1/servers/statuses''), handleGetAllServersStatuses R),
    ((GET, ''/api/v1/servers/:id''), handleGetServer),
    ((PATCH, ''/api/v1/servers/:id''), handleUpdateServer R),
    ((DELETE, ''/api/v1/servers/:id''), handleDeleteServer),
    ((GET, ''/api/v1/users''), handleGetAllUsers),
    ((POST, ''/api/v1/users''), handleCreateUser R),
    ((GET, ''/api/v1/users/:id''), handleGetUser),
    ((PATCH, ''/api/v1/users/:id''), handleUpdateUser R),
    ((PATCH, ''/api/v1/users/:id/password''), handleUpdateUserPassword R),
    ((DELETE, ''/api/v1/users/:id''), handleDeleteUser),
    ((GET, ''/api/v1/users/:id/device-template''), handleGetDeviceTemplateByUserID),
    ((POST, ''/api/v1/users/:id/device-template''), handleCreateDeviceTemplateForUser R),
    ((PATCH, ''/api/v1/users/:id/device-template''), handleUpdateDeviceTemplateByUserID R),
    ((DELETE, ''/api/v1/users/:id/device-template''), handleDeleteDeviceTemplateByUserID),
    ((GET, ''/api/v1/servers/:id/vpn/config''), handleGetServerVPNConfig R),
    ((PATCH, ''/api/v1/servers/:id/vpn/config''), handleUpdateServerVPNConfig R),
    ((GET, ''/api/v1/vpn/adjacencies/servers/:id''), handleGetVPNServerAdjacencies R),
    ((GET, ''/api/v1/vpn/adjacencies/user/:id''), handleGetDeviceAdjacenciesByUserID R),
    ((POST, ''/api/v1/vpn/adjacencies''), handleCreateVPNAdjacency R),
    ((PATCH, ''/api/v1/vpn/adjacencies/:id''), handleUpdateVPNAdjacency R),
    ((DELETE, ''/api/v1/vpn/adjacencies/:id''), handleDeleteVPNAdjacency),
    ((GET, ''/api/v1/vpn/adjacency-templates/users/:id''), handleGetVPNUserAdjacencyTemplates),
    ((POST, ''/api/v1/vpn/adjacency-templates''), handleCreateVPNAdjacencyTemplate R),
    ((PATCH, ''/api/v1/vpn/adjacency-templates/:id''), handleUpdateVPNAdjacencyTemplate R),
    ((DELETE, ''/api/v1/vpn/adjacency-templates/:id''), handleDeleteVPNAdjacencyTemplate),
    ((POST, ''/api/v1/servers/secrets''), handleGetVPNServerSecrets R),
    ((GET, ''/api/v1/features''), handleGetPremiumFeatures R),
    ((GET, ''/api/v1/mfa/types''), handleGetMFAEnabledAuthTypes R),
    ((GET, ''/api/v1/users/:id/totp''), handleGetMFAUserTOTPSecrets R),
    ((POST, ''/api/v1/users/:id/totp''), handleCreateMFAUserTOTPSecrets R),
    ((PATCH, ''/api/v1/users/:id/totp''), handleUpdateMFAUserTOTPSecrets R),
    ((GET, ''/api/v1/mfa/cert/ca''), handleGetMFACertificateCAs R),
    ((GET, ''/api/v1/mfa/cert/crl''), handleGetMFACertificateCRLs R),
    ((POST, ''/api/v1/mfa/cert/ca''), handleAddMFACertificateCA R),
    ((POST, ''/api/v1/mfa/cert/crl''), handleAddMFACertificateCRL R),
    ((DELETE, ''/api/v1/mfa/cert/ca/:id''), handleDeleteMFACertificateCA),
    ((DELETE, ''/api/v1/mfa/cert/crl/:id''), handleDeleteMFACertificateCRL),
    ((GET, ''/api/v1/address-pools''), handleGetAllAddressPools),
    ((POST, ''/api/v1/address-pools''), handleCreateAddressPool R),
    ((GET, ''/api/v1/address-pools/:id''), handleGetAddressPool),
    ((PATCH, ''/api/v1/address-pools/:id''), handleUpdateAddressPool R),
    ((DELETE, ''/api/v1/address-pools/:id''), handleDeleteAddressPool),
    ((GET, ''/api/v1/device-templates/:id/devices''), handleGetDevicesByTemplateID R),
    ((GET, ''/api/v1/device-templates/:id/devices/autogen''), handleGetDeviceAutogenData R),
    ((POST, ''/api/v1/device-templates/:id/devices''), handleCreateDevice R),
    ((PATCH, ''/api/v1/devices/:id''), handleUpdateDevice R),
    ((DELETE, ''/api/v1/devices/:id''), handleDeleteDevice),
    ((POST, ''/api/v1/device-templates/:id/devices/resync''), handleResyncDevices),
    ((POST, ''/api/v1/users/:id/device-adjacencies/resync''), handleResyncDeviceAdjacencies R)]"

definition ldap_routes :: "rest_env \<Rightarrow> route list" where
  "ldap_routes R =
   [((GET, ''/api/v1/ldap''), handleGetAllLdapConfigs),
    ((GET, ''/api/v1/ldap/:id''), handleGetLdapConfig R),
    ((POST, ''/api/v1/ldap''), handleCreateLdapConfig R),
    ((PATCH, ''/api/v1/ldap/:id''), handleUpdateLdapConfig R),
    ((DELETE, ''/api/v1/ldap/:id''), handleDeleteLdapConfig R),
    ((POST, ''/api/v1/ldap/sync/resync''), handleLdapResync),
    ((GET, ''/api/v1/ldap/sync/status''), handleGetLdapSyncStatus),
    ((GET, ''/api/v1/ldap-templates''), handleGetAllLdapTemplates),
    ((POST, ''/api/v1/ldap-templates''), handleCreateLdapTemplate R),
    ((PATCH, ''/api/v1/ldap-templates/:id''), handleUpdateLdapTemplate R),
    ((DELETE, ''/api/v1/ldap-templates/:id''), handleDeleteLdapTemplate),
    ((GET, ''/api/v1/ldap-templates/:id/servers''), handleGetLdapTemplateServers),
    ((POST, ''/api/v1/ldap-templates/:id/servers''), handleCreateLdapTemplateServer R),
    ((PATCH, ''/api/v1/ldap-templates/:id/servers/:server-id''), handleUpdateLdapTemplateServer R),
    ((DELETE, ''/api/v1/ldap-templates/:id/servers/:server-id''), handleDeleteLdapTemplateServer)]"

definition management_routes :: "rest_env \<Rightarrow> route list" where
  "management_routes R = core_routes R @ (if re_ldap_feature R then ldap_routes R else [])"

text \<open>The authentication of the management routes; there is no server for another type.\<close>

definition auth_of :: "rest_env \<Rightarrow> (request \<Rightarrow> api_user wop) option" where
  "auth_of R = (if re_auth_type R = ''jwt'' then Some (rest_jwtAuth R)
     else if re_auth_type R = ''basic'' then Some (rest_basicAuth R) else None)"

definition NewServer :: "rest_env \<Rightarrow> err + route list" where
  "NewServer R = (case auth_of R of
     None \<Rightarrow> Inl (errors_new ''authentication of this type is not supported yet'')
   | Some auth \<Rightarrow> Inr ((if re_auth_type R = ''jwt'' then [((POST, ''/api/v1/jwt''), handleGetJWT R)] else []) @
       map (apsnd (authenticate auth)) (management_routes R)))"

text \<open>A request: the rate limiter, then the handler of its route or, without one, the static files.\<close>

definition ServeHTTP :: "rest_env \<Rightarrow> route list \<Rightarrow> bool \<Rightarrow> verb \<times> string \<Rightarrow> handler" where
  "ServeHTTP R rs limited path rq =
     (if limited then respond 429 [JLimited]
      else case map_of rs path of
        None \<Rightarrow> ret (re_static R (snd path))
      | Some h \<Rightarrow> h rq)"

end
