(* ===== verification/Rest_Access.thy ===== *)
theory Rest_Access
  imports Rest_Server
begin

text \<open>
  Who may do what through the REST service: without an administrator's credentials nothing is changed, and
  a \<open>GET\<close> request never changes anything.
\<close>

section \<open>Operations that only observe\<close>

text \<open>What a client can later notice: the tables, the watched tags and the messages that were sent.\<close>

definition world_view :: "world \<Rightarrow> db \<times> string list \<times> (string \<times> wg_ntf) list \<times> hc_ntf list" where
  "world_view w = (w_db w, w_watchers w, w_wg_sent w, w_hc_sent w)"

definition sees :: "db \<times> string list \<times> (string \<times> wg_ntf) list \<times> hc_ntf list \<Rightarrow> world \<Rightarrow> bool" where
  "sees v w = (world_view w = v)"

definition observes :: "'a wop \<Rightarrow> bool" where
  "observes m = (\<forall>v. preserves (sees v) m)"

named_theorems obs \<open>operations that only observe\<close>

lemma observesD: "observes m \<Longrightarrow> m w = (r, w') \<Longrightarrow> world_view w' = world_view w"
  unfolding observes_def preserves_def sees_def by (metis snd_conv)

lemma obs_control [obs]:
  "observes (ret x)" "observes (throw e)" "observes (lift r)" "observes (gets f)"
  "observes m \<Longrightarrow> (\<And>x. observes (k x)) \<Longrightarrow> observes (try_do m w k)"
  "observes m \<Longrightarrow> (\<And>r. observes (h r)) \<Longrightarrow> observes (attempt m h)"
  "observes k' \<Longrightarrow> observes (guard_do b e k')"
  "observes u \<Longrightarrow> observes (when_do b u)"
  unfolding observes_def by (auto intro!: pres)

lemma obs_cases [obs]:
  "observes m \<Longrightarrow> observes m' \<Longrightarrow> observes (if b then m else m')"
  "(\<And>e. observes (f e)) \<Longrightarrow> (\<And>x. observes (g x)) \<Longrightarrow> observes (case r of Inl e \<Rightarrow> f e | Inr x \<Rightarrow> g x)"
  "observes n \<Longrightarrow> (\<And>x. observes (h x)) \<Longrightarrow> observes (case opt of None \<Rightarrow> n | Some x \<Rightarrow> h x)"
  "(\<And>x y. observes (p x y)) \<Longrightarrow> observes (case pr of (x, y) \<Rightarrow> p x y)"
  "observes (q z) \<Longrightarrow> observes (Let z q)"
  by (auto split: sum.split option.split prod.split)

lemma obs_loops [obs]:
  "(\<And>x. observes (f x)) \<Longrightarrow> observes (for_each f xs)"
  "(\<And>acc x. observes (g acc x)) \<Longrightarrow> observes (for_fold g acc xs)"
  "(\<And>x. observes (h x)) \<Longrightarrow> observes (for_map h xs)"
  unfolding observes_def by (auto intro!: pres)

lemma obs_basic [obs]:
  "observes (q_many f)" "observes (q_one g)" "observes (draw h)" "observes (seal_op E p)" "observes (open_op E c)"
  by (auto simp: observes_def preserves_def sees_def world_view_def q_many_def q_one_def db_call_def draw_def
      seal_op_def open_op_def lift_def abort_tx_def Let_def split: prod.split)

lemma world_view_fields [simp]:
  "world_view (w\<lparr>w_tx := t\<rparr>) = world_view w"
  "w_db w = w_db w' \<Longrightarrow> world_view (w'\<lparr>w_db := w_db w, w_tx := t\<rparr>) = world_view w'"
  by (simp_all add: world_view_def)

lemma obs_noop: "observes (db_call (\<lambda>d. (Inr (), d)))"
  using obs_basic(1) [of "\<lambda>_. ()"] by (simp add: q_many_def)

lemma obs_with_tx [obs]:
  assumes "observes m" shows "observes (with_tx m)"
proof -
  have "world_view w' = world_view w" if "with_tx m w = (r, w')" for w r w'
    using that observesD [OF obs_noop] observesD [OF assms]
    by (fastforce simp: with_tx_def world_view_def split: prod.splits sum.splits)
  then show ?thesis unfolding observes_def preserves_def sees_def by (metis prod.collapse)
qed

lemma obs_users [obs]:
  "observes um_GetAllUsers" "observes (um_GetUserByID i)" "observes (um_GetUserByName n)"
  "observes (um_GetUserByNameAndPassword E C n pw)" "observes (um_MFAGetTOTPSecret E i)"
  "observes (um_MFAGetAllCAs M)" "observes (um_MFAGetAllCRLs M)"
  unfolding um_GetAllUsers_def um_GetUserByID_def um_GetUserByName_def um_GetUserByNameAndPassword_def
    um_MFAGetTOTPSecret_def um_MFAGetAllCAs_def um_MFAGetAllCRLs_def uq_GetUserByID_def uq_GetUserByName_def
    uq_GetLdapUserAuthsByUserID_def uq_CheckUserIDExists_def uq_GetMFACerts_def query_defs
  by (intro obs)+

lemma obs_pools [obs]: "observes um_GetAllAddressPools" "observes (um_GetAddressPoolByID i)"
  unfolding um_GetAllAddressPools_def um_GetAddressPoolByID_def query_defs by (intro obs)+

lemma obs_devices [obs]:
  "observes (um_GetDevice E i)" "observes (um_GetDevicesByTemplateID E t)" "observes (um_GenerateDeviceData E t)"
  unfolding um_GetDevice_def um_GetDevicesByTemplateID_def um_GenerateDeviceData_def api_device_of_def within_dpu_limit_def
    allocate_device_addresses_def allocate_address_from_pool_def vcm_QueryUsedAddrsForSubnet_def query_defs
  by (intro obs)+

lemma obs_servers [obs]:
  "observes vcm_GetAllServers" "observes (vcm_GetServerByID i)" "observes (vcm_AllReplicasRunning E s)"
  "observes (vcm_CheckServerExists i)" "observes (vcm_GetWireGuardServerConfig E i)"
  "observes (vcm_GetWireGuardServerAdjacencies E i)"
  unfolding vcm_GetAllServers_def vcm_GetServerByID_def vcm_AllReplicasRunning_def vcm_CheckServerExists_def
    vcm_GetWireGuardServerConfig_def vcm_GetWireGuardServerAdjacencies_def pg_GetAllServers_def pg_GetServerByID_def
    pg_GetReplicaCount_def CheckServerIDExists_def exists_of_def get_server_wg_config_def server_adjacencies_def
    server_peer_of_def query_defs
  by (intro obs)+

lemma obs_links [obs]:
  "observes (vcm_GetDeviceTemplateByUserID i)" "observes (vcm_GetUserDeviceAdjacencies E i)"
  "observes (vcm_GetUserAdjacencyTemplates i)"
  unfolding vcm_GetDeviceTemplateByUserID_def get_device_template_by_user_id_def vcm_GetUserDeviceAdjacencies_def
    vcm_GetUserAdjacencyTemplates_def device_adjacencies_def device_peer_of_def query_defs
  by (intro obs)+

lemma obs_ldap [obs]:
  "observes um_GetAllLdapConfigs" "observes (um_GetLdapConfig L i)" "observes um_GetLdapSyncStats"
  "observes um_GetAllLdapTemplates" "observes (um_GetLdapTemplateServers t)" "observes (um_CheckLdapTemplateExists t)"
  unfolding um_GetAllLdapConfigs_def um_GetLdapConfig_def um_GetLdapSyncStats_def um_GetAllLdapTemplates_def
    um_GetLdapTemplateServers_def um_CheckLdapTemplateExists_def uq_GetLdapTemplateServers_def ltemplate_with_pools_def
    on_uuid_def query_defs
  by (intro obs)+

section \<open>Handlers that only observe\<close>

definition orch_view :: "orch \<Rightarrow> (db \<times> string list \<times> (string \<times> wg_ntf) list \<times> hc_ntf list) \<times> statuses \<times> statuses" where
  "orch_view g = (world_view (oc_world g), oc_status g, oc_hc g)"

definition inert :: "'a oop \<Rightarrow> bool" where
  "inert m = (\<forall>v. preserves (\<lambda>g. orch_view g = v) m)"

lemma inertD: "inert m \<Longrightarrow> m g = (r, g') \<Longrightarrow> orch_view g' = orch_view g"
  unfolding inert_def preserves_def by (metis snd_conv)

lemma inert_control [obs]:
  "inert (ret y)" "inert (gets field)"
  "inert m \<Longrightarrow> (\<And>x. inert (k x)) \<Longrightarrow> inert (try_do m w k)"
  "inert m \<Longrightarrow> (\<And>r. inert (h r)) \<Longrightarrow> inert (attempt m h)"
  "(\<And>acc x. inert (f acc x)) \<Longrightarrow> inert (for_fold f acc xs)"
  "(\<And>x. inert (e x)) \<Longrightarrow> inert (for_map e xs)"
  "inert m' \<Longrightarrow> inert m'' \<Longrightarrow> inert (if b then m' else m'')"
  "(\<And>y. inert (p y)) \<Longrightarrow> (\<And>x. inert (q x)) \<Longrightarrow> inert (case s of Inl y \<Rightarrow> p y | Inr x \<Rightarrow> q x)"
  unfolding inert_def by (auto intro!: pres split: sum.split)

lemma inert_on_world [obs]: "observes m \<Longrightarrow> inert (on_world m)"
  using observesD [of m]
  by (auto simp: inert_def preserves_def on_world_def orch_view_def split: prod.split)

lemma inert_steps [obs]:
  "inert (respond c bs)" "observes m \<Longrightarrow> (\<And>x. inert (k x)) \<Longrightarrow> inert (call m bad k)"
  "(\<And>i. inert (f i)) \<Longrightarrow> inert (with_id s f)" "(\<And>i. inert (f i)) \<Longrightarrow> inert (with_id_json s f)"
  "(\<And>y. inert (d y)) \<Longrightarrow> inert (with_json parse ok rq d)"
  unfolding respond_def call_def with_id_def with_id_json_def with_json_def
  by (auto intro!: obs split: option.split sum.split)

lemma inert_handlers [obs]:
  "inert (handleGetAllServers rq)" "inert (handleGetAllServersStatuses R rq)" "inert (handleGetServer rq)"
  "inert (handleGetAllUsers rq)" "inert (handleGetUser rq)" "inert (handleGetDeviceTemplateByUserID rq)"
  "inert (handleGetServerVPNConfig R rq)" "inert (handleGetVPNServerAdjacencies R rq)"
  "inert (handleGetDeviceAdjacenciesByUserID R rq)" "inert (handleGetVPNUserAdjacencyTemplates rq)"
  "inert (handleGetPremiumFeatures R rq)" "inert (handleGetMFAEnabledAuthTypes R rq)"
  "inert (handleGetMFAUserTOTPSecrets R rq)" "inert (handleGetMFACertificateCAs R rq)"
  "inert (handleGetMFACertificateCRLs R rq)" "inert (handleGetAllAddressPools rq)" "inert (handleGetAddressPool rq)"
  "inert (handleGetDevicesByTemplateID R rq)" "inert (handleGetDeviceAutogenData R rq)"
  "inert (handleGetAllLdapConfigs rq)" "inert (handleGetLdapConfig R rq)" "inert (handleGetLdapSyncStatus rq)"
  "inert (handleGetAllLdapTemplates rq)" "inert (handleGetLdapTemplateServers rq)"
  unfolding handleGetAllServers_def handleGetAllServersStatuses_def handleGetServer_def handleGetAllUsers_def
    handleGetUser_def handleGetDeviceTemplateByUserID_def handleGetServerVPNConfig_def handleGetVPNServerAdjacencies_def
    handleGetDeviceAdjacenciesByUserID_def handleGetVPNUserAdjacencyTemplates_def handleGetPremiumFeatures_def
    handleGetMFAEnabledAuthTypes_def handleGetMFAUserTOTPSecrets_def handleGetMFACertificateCAs_def
    handleGetMFACertificateCRLs_def handleGetAllAddressPools_def handleGetAddressPool_def
    handleGetDevicesByTemplateID_def handleGetDeviceAutogenData_def handleGetAllLdapConfigs_def handleGetLdapConfig_def
    handleGetLdapSyncStatus_def handleGetAllLdapTemplates_def handleGetLdapTemplateServers_def service_status_def
    server_adjacency_ext_def with_ldap_template_def
  by (intro obs)+

lemma get_routes_inert:
  "list_all (\<lambda>((v, _), h). v \<noteq> GET \<or> (\<forall>rq. inert (h rq))) (core_routes R)"
  "list_all (\<lambda>((v, _), h). v \<noteq> GET \<or> (\<forall>rq. inert (h rq))) (ldap_routes R)"
  by (simp_all add: core_routes_def ldap_routes_def inert_handlers)

lemma no_jwt_route:
  "list_all (\<lambda>(p, _). p \<noteq> (POST, ''/api/v1/jwt'')) (core_routes R)"
  "list_all (\<lambda>(p, _). p \<noteq> (POST, ''/api/v1/jwt'')) (ldap_routes R)"
  by (simp_all add: core_routes_def ldap_routes_def)

section \<open>Authentication\<close>

lemma obs_auth [obs]: "observes (rest_basicAuth R rq)" "observes (rest_jwtAuth R rq)" "observes (getTokenForUser R n pw)"
  unfolding rest_basicAuth_def rest_jwtAuth_def getTokenForUser_def by (intro obs)+

lemma inert_authenticate [obs]: "observes (auth rq) \<Longrightarrow> inert (h rq) \<Longrightarrow> inert (authenticate auth h rq)"
  unfolding authenticate_def by (intro obs)

lemma auth_of_observes: "auth_of R = Some auth \<Longrightarrow> observes (auth rq)"
  by (auto simp: auth_of_def intro: obs split: if_splits)

lemma inert_handleGetJWT [obs]: "inert (handleGetJWT R rq)"
  unfolding handleGetJWT_def by (intro obs)

section \<open>Properties\<close>

lemma map_of_route: "map_of (map (apsnd f) rs) path = Some h \<Longrightarrow> \<exists>h'. (path, h') \<in> set rs \<and> h = f h'"
  by (induction rs) (auto split: if_splits)

text \<open>A service with basic authentication, and a request of the administrator \<open>ann\<close>.\<close>

definition no_decoder :: decoders where
  "no_decoder = \<lparr>js_user_create = (\<lambda>_. Inl DbError), js_user_update = (\<lambda>_. Inl DbError), js_password = Inr,
     js_creds = (\<lambda>_. Inl DbError), js_device_template = (\<lambda>_. Inl DbError), js_adjacency = (\<lambda>_. Inl DbError),
     js_adj_template = (\<lambda>_. Inl DbError), js_new_server = (\<lambda>_. Inl DbError), js_server_update = (\<lambda>_. Inl DbError),
     js_interface = (\<lambda>_. Inl DbError), js_server_name = Inr, js_ldap_config = (\<lambda>_. Inl DbError),
     js_ldap_template = (\<lambda>_. Inl DbError), js_ldap_server = (\<lambda>_. Inl DbError), js_cert = Inr,
     js_pool = (\<lambda>_. Inl DbError), js_device_data = (\<lambda>_. Inl DbError)\<rparr>"

definition sample_rest :: rest_env where
  "sample_rest = \<lparr>re_env = sample_env, re_users = sample_user_cfg, re_mfa = sample_mfa, re_ldap = sample_ldap_env,
     re_order = (\<lambda>_ _ ks. ks), re_intn = (\<lambda>_. 0), re_certs = plain_provider, re_json = no_decoder, re_auth_type = ''basic'',
     re_ldap_feature = True, re_create_token = (\<lambda>_ _. Inl DbError), re_validate_token = (\<lambda>_ _. Inl DbError),
     re_shows = (\<lambda>_ _. False), re_static = (\<lambda>_. http 404 [])\<rparr>"

definition sample_request :: request where
  "sample_request = \<lparr>rq_id = ''2'', rq_server_id = [], rq_body = [], rq_authorization = ''Basic YW5uOnB3''\<rparr>"

definition sample_orch :: orch where
  "sample_orch = \<lparr>oc_world = world_of sample_db [], oc_status = Map.empty, oc_hc = NewHealthcheckStatusStore\<rparr>"

lemma NewServer_sample: "\<exists>rs. NewServer sample_rest = Inr rs"
  by (simp add: NewServer_def auth_of_def sample_rest_def)

text \<open>C11. A \<open>GET\<close> request changes no table, no status and no watched tag, and sends no message, whoever
  sends it and whatever fails.\<close>

theorem get_requests_change_nothing:
  assumes "NewServer R = Inr rs"
  shows "orch_view (snd (ServeHTTP R rs limited (GET, url) rq g)) = orch_view g"
proof -
  from assms obtain auth where auth: "auth_of R = Some auth"
    and rs: "rs = (if re_auth_type R = ''jwt'' then [((POST, ''/api/v1/jwt''), handleGetJWT R)] else []) @
       map (apsnd (authenticate auth)) (management_routes R)"
    by (auto simp: NewServer_def split: option.splits)
  have "inert (h rq)" if h: "map_of rs (GET, url) = Some h" for h
  proof -
    from h rs have "map_of (map (apsnd (authenticate auth)) (management_routes R)) (GET, url) = Some h"
      by (simp split: if_splits)
    then obtain h' where "((GET, url), h') \<in> set (management_routes R)" "h = authenticate auth h'"
      by (auto dest: map_of_route)
    with get_routes_inert [of R] show ?thesis
      by (auto simp: list_all_iff management_routes_def intro!: obs auth_of_observes [OF auth] split: if_splits)
  qed
  then have "inert (ServeHTTP R rs limited (GET, url) rq)"
    unfolding ServeHTTP_def by (auto intro!: obs split: option.split)
  then show ?thesis by (metis inertD prod.collapse)
qed

text \<open>A request with the credentials of an administrator.\<close>

definition admin_request :: "rest_env \<Rightarrow> request \<Rightarrow> world \<Rightarrow> bool" where
  "admin_request R rq w \<longleftrightarrow>
     (re_auth_type R = ''basic'' \<and> (\<exists>n pw a. request_BasicAuth (rq_authorization rq) = Some (n, pw) \<and>
        login_ok (re_env R) (re_users R) n pw (w_db w) a \<and> au_is_admin a)) \<or>
     (re_auth_type R = ''jwt'' \<and> (\<exists>t n u. bearer_token (rq_authorization rq) = Some t \<and> re_validate_token R (w_now w) t = Inr n \<and>
        u \<in> set (db_users (w_db w)) \<and> u_username u = n \<and> u_is_admin u))"

definition refused :: "err + reply \<Rightarrow> bool" where
  "refused r \<longleftrightarrow> r = Inl Panic \<or> (\<exists>bs. r = Inr (http 401 bs) \<or> r = Inr (http 429 bs) \<or> r = Inr (http 500 bs))"

lemma get_user_by_name_dwp:
  "dwp (um_GetUserByName n) (\<lambda>a d'. d' = d \<and> (\<exists>u\<in>set (db_users d). u_username u = n \<and> a = user_to_api u)) (\<lambda>_ d'. d' = d) d"
  unfolding um_GetUserByName_def uq_GetUserByName_def GetUserByUsername_def
  by (intro vcg; (rule refl)?) (auto simp: filter_eq_Cons_iff)

lemma admin_of_row [simp]: "au_is_admin (user_to_api u) = u_is_admin u"
  by (simp add: user_to_api_def)

lemma basicAuth_admin:
  assumes "rest_basicAuth R rq w = (Inr a, w')" "au_is_admin a" "re_auth_type R = ''basic''"
  shows "admin_request R rq w"
proof -
  from assms(1) obtain n pw where "request_BasicAuth (rq_authorization rq) = Some (n, pw)"
    "um_GetUserByNameAndPassword (re_env R) (re_users R) n pw w = (Inr a, w')"
    by (auto simp: rest_basicAuth_def run split: option.splits)
  with login_run(2) [of "re_env R" "re_users R" n pw w "Inr a" w' a] assms(2,3) show ?thesis
    by (auto simp: admin_request_def)
qed

lemma jwtAuth_admin:
  assumes "rest_jwtAuth R rq w = (Inr a, w')" "au_is_admin a" "re_auth_type R = ''jwt''"
  shows "admin_request R rq w"
proof -
  from assms(1) obtain t n where t: "bearer_token (rq_authorization rq) = Some t" "re_validate_token R (w_now w) t = Inr n"
    "um_GetUserByName n w = (Inr a, w')"
    by (auto simp: rest_jwtAuth_def run split: option.splits if_splits sum.splits)
  from dwp_Inr [OF get_user_by_name_dwp t(3)] obtain u where "u \<in> set (db_users (w_db w))" "u_username u = n" "a = user_to_api u"
    by blast
  with t assms(2,3) show ?thesis by (auto simp: admin_request_def)
qed

lemma authenticate_outcome:
  assumes "auth_of R = Some auth" and "authenticate auth h rq g = (r, g')"
  shows "(orch_view g' = orch_view g \<and> refused r) \<or>
    (admin_request R rq (oc_world g) \<and> (\<exists>g1. orch_view g1 = orch_view g \<and> h rq g1 = (r, g')))"
proof -
  obtain q g1 where q: "on_world (auth rq) g = (q, g1)" by fastforce
  have v: "orch_view g1 = orch_view g"
    using inertD [OF inert_on_world [OF auth_of_observes [OF assms(1)]] q] .
  obtain w1 where w1: "auth rq (oc_world g) = (q, w1)" using q by (auto simp: on_world_def split: prod.splits)
  show ?thesis
  proof (cases q)
    case (Inl e)
    with q v assms(2) show ?thesis
      by (cases "e = Panic"; cases e) (auto simp: authenticate_def attempt_def respond_def ret_def refused_def split: if_splits)
  next
    case (Inr a)
    have "admin_request R rq (oc_world g)" if "au_is_admin a"
      using assms(1) w1 Inr that basicAuth_admin jwtAuth_admin by (auto simp: auth_of_def split: if_splits)
    with Inr q v assms(2) show ?thesis
      by (auto simp: authenticate_def attempt_def respond_def ret_def refused_def split: if_splits)
  qed
qed

text \<open>C10. A request for a management route is either refused, with status 401, 429 or 500 or without an answer,
  and nothing is changed or sent, or it carries the credentials of an administrator of the moment and its handler runs
  on an unchanged state.\<close>

theorem management_requires_admin:
  assumes "NewServer R = Inr rs" and "map_of (management_routes R) path = Some h"
  shows "case ServeHTTP R rs limited path rq g of (r, g') \<Rightarrow>
    (orch_view g' = orch_view g \<and> refused r) \<or>
    (\<not> limited \<and> admin_request R rq (oc_world g) \<and> (\<exists>g1. orch_view g1 = orch_view g \<and> h rq g1 = (r, g')))"
proof -
  from assms(1) obtain auth where auth: "auth_of R = Some auth"
    and rs: "rs = (if re_auth_type R = ''jwt'' then [((POST, ''/api/v1/jwt''), handleGetJWT R)] else []) @
       map (apsnd (authenticate auth)) (management_routes R)"
    by (auto simp: NewServer_def split: option.splits)
  have "map_of (map (apsnd (authenticate auth)) (management_routes R)) path = Some (authenticate auth h)"
    using assms(2) by (simp add: apsnd_def map_prod_def map_of_map comp_def)
  moreover have "path \<noteq> (POST, ''/api/v1/jwt'')"
    using map_of_SomeD [OF assms(2)] no_jwt_route [of R]
    by (auto simp: management_routes_def list_all_iff split: if_splits)
  ultimately have "map_of rs path = Some (authenticate auth h)" by (simp add: rs)
  with authenticate_outcome [OF auth, of h rq g] show ?thesis
    by (auto simp: ServeHTTP_def respond_def ret_def refused_def split: prod.splits)
qed

theorem get_requests_change_nothing_witness:
  "\<exists>rs. NewServer sample_rest = Inr rs \<and>
     orch_view (snd (ServeHTTP sample_rest rs False (GET, ''/api/v1/users'') sample_request sample_orch)) = orch_view sample_orch"
  using NewServer_sample get_requests_change_nothing by blast

lemma admin_request_sample: "admin_request sample_rest sample_request (oc_world sample_orch)"
proof -
  have "request_BasicAuth (rq_authorization sample_request) = Some (''ann'', ''pw'')" by code_simp
  moreover have "login_ok sample_env sample_user_cfg ''ann'' ''pw'' (w_db (world_of sample_db [])) (user_to_api sample_user)"
    by (simp add: login_ok_def sample_db_def empty_db_def sample_user_def is_internal_def is_ldap_def sample_env_def)
  moreover have "re_auth_type sample_rest = ''basic''" "re_env sample_rest = sample_env" "re_users sample_rest = sample_user_cfg"
    "oc_world sample_orch = world_of sample_db []" by (simp_all add: sample_rest_def sample_orch_def)
  moreover have "au_is_admin (user_to_api sample_user)" by (simp add: sample_user_def)
  ultimately show ?thesis unfolding admin_request_def by metis
qed

theorem management_requires_admin_witness:
  "\<exists>rs. NewServer sample_rest = Inr rs \<and> admin_request sample_rest sample_request (oc_world sample_orch) \<and>
     (case ServeHTTP sample_rest rs False (DELETE, ''/api/v1/address-pools/:id'') sample_request sample_orch of (r, g') \<Rightarrow>
        orch_view g' = orch_view sample_orch \<and> refused r \<or>
        (\<exists>g1. orch_view g1 = orch_view sample_orch \<and> handleDeleteAddressPool sample_request g1 = (r, g')))"
proof -
  obtain rs where rs: "NewServer sample_rest = Inr rs" using NewServer_sample by blast
  have "map_of (management_routes sample_rest) (DELETE, ''/api/v1/address-pools/:id'') = Some handleDeleteAddressPool"
    by (simp add: management_routes_def core_routes_def)
  from management_requires_admin [OF rs this, where limited = False and rq = sample_request and g = sample_orch] rs admin_request_sample show ?thesis
    by (auto split: prod.splits)
qed

end
