(* ===== verification/Rest_Answers.thy ===== *)
theory Rest_Answers
  imports Rest_Access
begin

text \<open>Answers that do not say what the handler means to say.\<close>

lemma call_failed:
  assumes "m (oc_world g) = (Inl e, w)" and "e \<noteq> Panic"
  shows "call m bad k g = (Inr (bad e), g\<lparr>oc_world := w\<rparr>)"
  using assms by (cases e) (simp_all add: call_def attempt_def on_world_def ret_def)

text \<open>When a pool to update is missing, two JSON objects are sent in one body, the second one about an internal error.\<close>

lemma missing_pool_answered_twice:
  assumes "atoi (rq_id rq) = Some i" and "ShouldBindJSON (js_pool (re_json R)) (\<lambda>_. True) (rq_body rq) = Inr a"
    and "um_ValidateAddressPool (a\<lparr>aap_name := trim_space (aap_name a)\<rparr>) = Inr ()"
    and "um_UpdateAddressPool i (a\<lparr>aap_name := trim_space (aap_name a)\<rparr>) (oc_world g) = (Inl (Sentinel ErrNotFound), w)"
  shows "fst (handleUpdateAddressPool R rq g) = Inr (http 404 [JErrorID pool_missing i, JError errGeneric None])"
  using assms by (simp add: handleUpdateAddressPool_def with_id_def with_pool_def with_json_def Let_def call_failed)

text \<open>That the user of a one-time password secret does not exist is answered as an internal error.\<close>

lemma get_secret_no_user:
  assumes "\<not> list_ex (\<lambda>u. u_id u = i) (db_users d)"
  shows "dwp (um_MFAGetTOTPSecret E i) (\<lambda>_ _. False) (\<lambda>e _. \<not> errors_is e ErrNotFound \<and> \<not> errors_is e ErrUserSecretNotFound) d"
  unfolding um_MFAGetTOTPSecret_def uq_CheckUserIDExists_def UserIDCheck_def
  by (intro vcg) (use assms in \<open>auto simp: list_ex_iff filter_eq_Cons_iff query_err_def replace_err_def new_under_def intro!: vcg\<close>)

lemma missing_user_of_secret_hidden:
  assumes "\<not> list_ex (\<lambda>u. u_id u = i) (db_users (w_db (oc_world g)))"
    and "atoi (rq_id rq) = Some i" "handleGetMFAUserTOTPSecrets R rq g = (Inr rep, g')"
  shows "rep = http 500 [JError errGeneric None]"
proof -
  obtain r w where r: "um_MFAGetTOTPSecret (re_env R) i (oc_world g) = (r, w)" by fastforce
  have p: "handleGetMFAUserTOTPSecrets R rq = call (um_MFAGetTOTPSecret (re_env R) i) secret_failed (\<lambda>s. respond 200 [JUserSecrets s])"
    using assms(2) by (simp add: handleGetMFAUserTOTPSecrets_def with_id_def)
  show ?thesis
  proof (cases r)
    case (Inl e)
    from dwp_Inl [OF get_secret_no_user [OF assms(1)] r [unfolded Inl]] assms(3) r show ?thesis
      by (cases "e = Panic") (auto simp: p Inl call_def attempt_def on_world_def secret_failed_def failed_def ret_def split: err.splits)
  next
    case (Inr s)
    from dwp_Inr [OF get_secret_no_user [OF assms(1)] r [unfolded Inr]] show ?thesis by simp
  qed
qed

text \<open>A request for a user with an identifier below 1 is answered as an internal error.\<close>

lemma small_user_id_internal_error:
  assumes "atoi (rq_id rq) = Some i" "i < 1"
  shows "fst (handleGetUser rq g) = Inr (http 500 [JError errUserAcquisition (Some (Sentinel ErrTooSmallUserID))])"
proof -
  have "um_GetUserByID i (oc_world g) = (Inl (Sentinel ErrTooSmallUserID), oc_world g)"
    using assms(2) by (simp add: um_GetUserByID_def uq_GetUserByID_def new_user_model_with_id_def um_set_id_def
        um_set_auth_type_def try_do_def lift_def)
  with assms(1) show ?thesis
    by (simp add: handleGetUser_def with_id_def call_failed user_lookup_failed_def failed_with_def)
qed

text \<open>Data of a device that creation refuses as invalid is an internal error for the update.\<close>

lemma invalid_device_update_internal_error:
  assumes "atoi (rq_id rq) = Some i" and "ShouldBindJSON (js_device_data (re_json R)) (\<lambda>_. True) (rq_body rq) = Inr a"
    and "validate_device_data a = Inl e" "e \<noteq> Panic" "\<not> errors_is e ErrNotFound"
  shows "fst (handleUpdateDevice R rq g) = Inr (http 500 [JError errGeneric None])"
proof -
  have "um_UpdateDevice (re_env R) i a (oc_world g) = (Inl e, oc_world g)"
    using assms(3) by (simp add: um_UpdateDevice_def try_do_def lift_def)
  with assms show ?thesis
    by (simp add: handleUpdateDevice_def with_id_json_def with_json_def call_failed failed_def)
qed

text \<open>A second template for the same server is answered 400 on creation, but 500 on an update.\<close>

lemma template_conflict_internal_error:
  assumes "ShouldBindJSON (js_adj_template (re_json R)) AdjacencyTemplate_ok (rq_body rq) = Inr b"
    and "atoi (rq_id rq) = Some i" "um_GetUserByID (tr_user b) (oc_world g) = (Inr u, w1)"
    "vcm_GetServerByID (tr_server b) w1 = (Inr s, w2)"
    "update_adjacency_template_of i s (tr_user b) (tr_config b) w2 = (Inl (Sentinel VcmErrAlreadyExists), w3)"
  shows "fst (handleUpdateVPNAdjacencyTemplate R rq g) =
    Inr (http 500 [JError errAdjacencyNotUpdated (Some (Sentinel VcmErrAlreadyExists))])"
  using assms
  by (simp add: handleUpdateVPNAdjacencyTemplate_def with_json_def with_id_def call_def attempt_def on_world_def ret_def failed_with_def)

end
