(* ===== verification/Quiet_Runs.thy ===== *)
theory Quiet_Runs
  imports Store
begin

text \<open>
  Total correctness while the database works: \<open>qwp m Q d\<close> says that from the tables \<open>d\<close>, with no
  failure scheduled, \<open>m\<close> returns a value and ends in \<open>Q\<close>.  The rules of \<open>qvcg\<close> decompose a
  program.
\<close>

named_theorems qvcg \<open>rules for operations that run without failures\<close>

definition qwp :: "'a wop \<Rightarrow> ('a \<Rightarrow> db \<Rightarrow> bool) \<Rightarrow> db \<Rightarrow> bool" where
  "qwp m Q d = (\<forall>w. quiet w \<longrightarrow> w_db w = d \<longrightarrow> (\<exists>x w'. m w = (Inr x, w') \<and> quiet w' \<and> Q x (w_db w')))"

lemma qwp_run: "qwp m Q (w_db w) \<Longrightarrow> quiet w \<Longrightarrow> \<exists>x w'. m w = (Inr x, w') \<and> quiet w' \<and> Q x (w_db w')"
  by (simp add: qwp_def)

lemma qwp_mono: "qwp m Q d \<Longrightarrow> (\<And>x d'. Q x d' \<Longrightarrow> Q' x d') \<Longrightarrow> qwp m Q' d"
  unfolding qwp_def by fastforce

lemma qwp_ret [qvcg]: "Q x d \<Longrightarrow> qwp (ret x) Q d"
  by (simp add: qwp_def ret_def)

lemma qwp_gets [qvcg]: "(\<And>w. w_db w = d \<Longrightarrow> Q (f w) d) \<Longrightarrow> qwp (gets f) Q d"
  by (simp add: qwp_def gets_def)

lemma qwp_try_do [qvcg]: "qwp m (\<lambda>x. qwp (k x) Q) d \<Longrightarrow> qwp (try_do m w k) Q d"
  unfolding qwp_def by (fastforce simp: try_do_def)

lemma qwp_attempt [qvcg]: "qwp m (\<lambda>x. qwp (k (Inr x)) Q) d \<Longrightarrow> qwp (attempt m k) Q d"
  unfolding qwp_def by (fastforce simp: attempt_def)

lemma qwp_ignore_err [qvcg]: "qwp m Q d \<Longrightarrow> qwp (ignore_err m) Q d"
  unfolding qwp_def by (fastforce simp: ignore_err_def attempt_def ret_def)

lemma qwp_guard_do [qvcg]: "\<not> b \<Longrightarrow> qwp k Q d \<Longrightarrow> qwp (guard_do b e k) Q d"
  by (simp add: guard_do_def)

lemma qwp_cases [qvcg]:
  "(c \<Longrightarrow> qwp m Q d) \<Longrightarrow> (\<not> c \<Longrightarrow> qwp m' Q d) \<Longrightarrow> qwp (if c then m else m') Q d"
  "(\<And>x y. pr = (x, y) \<Longrightarrow> qwp (p x y) Q d) \<Longrightarrow> qwp (case pr of (x, y) \<Rightarrow> p x y) Q d"
  by (auto split: prod.split)

lemma qwp_db_call: "f d = (Inr x, d') \<Longrightarrow> Q x d' \<Longrightarrow> qwp (db_call f) Q d"
  by (auto simp: qwp_def quiet_def db_call_def Let_def)

lemma qwp_q_many [qvcg]: "Q (f d) d \<Longrightarrow> qwp (q_many f) Q d"
  unfolding q_many_def by (rule qwp_db_call) auto

lemma qwp_q_exec [qvcg]: "ok d \<Longrightarrow> Q () (f d) \<Longrightarrow> qwp (q_exec ok f) Q d"
  unfolding q_exec_def by (rule qwp_db_call) auto

lemma qwp_for_each:
  assumes "I xs d" and "\<And>x xs d. I (x # xs) d \<Longrightarrow> qwp (f x) (\<lambda>_. I xs) d" and "\<And>d. I [] d \<Longrightarrow> Q () d"
  shows "qwp (for_each f xs) Q d"
  using assms(1)
proof (induction xs arbitrary: d)
  case Nil
  then show ?case by (simp add: qvcg assms(3))
next
  case (Cons x xs)
  show ?case by (simp, rule qwp_try_do, rule qwp_mono [OF assms(2) [OF Cons.prems]], rule Cons.IH)
qed

end
