(* ===== verification/Dpu.thy ===== *)
theory Dpu
  imports Devices Quiet_Runs "HOL-Library.Multiset" "HOL-Library.Product_Lexorder"
begin

text \<open>
  Enforcement of the limit of devices per user at start-up:
  \<open>src/service/user/dpu_enforcement.go\<close>.  \<open>sort.Slice\<close> is a parameter: it is not stable, and the
  order of equal elements is not specified.
\<close>

section \<open>Priorities\<close>

definition less_for_deletion :: "device_row \<Rightarrow> device_row \<Rightarrow> bool" where
  "less_for_deletion a b =
     (if d_external_id a = [] \<and> d_external_id b \<noteq> [] then True
      else if d_external_id a \<noteq> [] \<and> d_external_id b = [] then False
      else if d_last_connected a = None \<and> d_last_connected b \<noteq> None then True
      else if d_last_connected a \<noteq> None \<and> d_last_connected b = None then False
      else if d_session a = [] \<and> d_session b = [] then
        (case (d_last_connected a, d_last_connected b) of (Some x, Some y) \<Rightarrow> x < y | _ \<Rightarrow> False)
      else if d_session a = [] \<and> d_session b \<noteq> [] then True
      else if d_session a \<noteq> [] \<and> d_session b = [] then False
      else
        (case (d_last_connected a, d_last_connected b) of (Some x, Some y) \<Rightarrow> x < y | _ \<Rightarrow> d_id a < d_id b))"

type_synonym sorter = "(device_row \<Rightarrow> device_row \<Rightarrow> bool) \<Rightarrow> device_row list \<Rightarrow> device_row list"

definition prioritize_devices_for_deletion :: "sorter \<Rightarrow> device_row list \<Rightarrow> device_row list" where
  "prioritize_devices_for_deletion srt ds = srt less_for_deletion ds"

text \<open>Failed reads and deletions are logged and skipped.\<close>

definition enforce_user :: "sorter \<Rightarrow> env \<Rightarrow> user_row \<Rightarrow> unit wop" where
  "enforce_user srt E u = attempt (GetDevicesByUserID (u_id u)) (\<lambda>r. case r of
     Inl _ \<Rightarrow> ret ()
   | Inr ds \<Rightarrow>
       if int (length ds) \<le> env_dpu_limit E then ret ()
       else for_each (\<lambda>v. ignore_err (um_DeleteDevice (d_id v)))
              (take (nat (int (length ds) - env_dpu_limit E)) (prioritize_devices_for_deletion srt ds)))"

definition um_EnforceDPULimit :: "sorter \<Rightarrow> env \<Rightarrow> unit wop" where
  "um_EnforceDPULimit srt E = try_do GetAllUsers (wrapw ''get all users'') (for_each (enforce_user srt E))"

section \<open>The order of deletion\<close>

text \<open>What the code relies on: \<open>sort.Slice\<close> permutes, and leaves no inversion when the comparison is a
  strict weak order, that is, compares a key in a linear order.\<close>

locale slice_sort =
  fixes srt :: sorter
  assumes permutes: "mset (srt lt xs) = mset xs"
    and no_inversion: "(\<And>a b. lt a b \<longleftrightarrow> key a < (key b :: bool \<times> bool \<times> bool \<times> int)) \<Longrightarrow>
      sorted_wrt (\<lambda>a b. \<not> lt b a) (srt lt xs)"
begin

lemma set_srt [simp]: "set (srt lt xs) = set xs"
  using permutes by (metis set_mset_mset)

lemma length_srt [simp]: "length (srt lt xs) = length xs"
  using permutes by (metis size_mset)

lemma prefix_first:
  assumes "\<And>a b. lt a b \<longleftrightarrow> key a < (key b :: bool \<times> bool \<times> bool \<times> int)"
    and "a \<in> set (take n (srt lt xs))" "b \<in> set (drop n (srt lt xs))"
  shows "\<not> lt b a"
proof -
  have "sorted_wrt (\<lambda>a b. \<not> lt b a) (take n (srt lt xs) @ drop n (srt lt xs))"
    by (subst append_take_drop_id) (rule no_inversion [OF assms(1)])
  with assms(2,3) show ?thesis unfolding sorted_wrt_append by blast
qed

end

text \<open>Insertion sort, as \<open>sort.Slice\<close> does for short slices.\<close>

fun insert_before :: "(device_row \<Rightarrow> device_row \<Rightarrow> bool) \<Rightarrow> device_row \<Rightarrow> device_row list \<Rightarrow> device_row list" where
  "insert_before lt x [] = [x]"
| "insert_before lt x (y # ys) = (if lt y x then y # insert_before lt x ys else x # y # ys)"

definition insertion_sort :: sorter where
  "insertion_sort lt xs = foldr (insert_before lt) xs []"

lemma mset_insert_before [simp]: "mset (insert_before lt x xs) = add_mset x (mset xs)"
  by (induction xs) auto

lemma set_insert_before [simp]: "set (insert_before lt x xs) = insert x (set xs)"
  by (induction xs) auto

lemma insertion_sort_Cons: "insertion_sort lt (x # xs) = insert_before lt x (insertion_sort lt xs)"
  by (simp add: insertion_sort_def)

lemma mset_insertion_sort [simp]: "mset (insertion_sort lt xs) = mset xs"
  by (induction xs) (simp_all add: insertion_sort_Cons, simp add: insertion_sort_def)

lemma insert_before_sorted:
  assumes "\<And>a b. lt a b \<longleftrightarrow> key a < (key b :: 'k :: linorder)"
  shows "sorted_wrt (\<lambda>a b. \<not> lt b a) xs \<Longrightarrow> sorted_wrt (\<lambda>a b. \<not> lt b a) (insert_before lt x xs)"
proof (induction xs)
  case (Cons y ys)
  then show ?case by (auto simp: assms)
qed simp

interpretation insertion: slice_sort insertion_sort
proof
  show "sorted_wrt (\<lambda>a b. \<not> lt b a) (insertion_sort lt xs)"
    if "\<And>a b. lt a b \<longleftrightarrow> key a < (key b :: bool \<times> bool \<times> bool \<times> int)" for lt key xs
  proof (induction xs)
    case (Cons x xs)
    then show ?case unfolding insertion_sort_Cons by (intro insert_before_sorted [OF that])
  qed (simp add: insertion_sort_def)
qed simp

definition deletion_key :: "device_row \<Rightarrow> bool \<times> bool \<times> bool \<times> int" where
  "deletion_key v = (d_external_id v \<noteq> [], d_last_connected v \<noteq> None, d_session v \<noteq> [],
     (case d_last_connected v of Some t \<Rightarrow> t | None \<Rightarrow> if d_session v = [] then 0 else d_id v))"

lemma deletion_order_key: "less_for_deletion a b \<longleftrightarrow> deletion_key a < deletion_key b"
  by (auto simp: less_for_deletion_def deletion_key_def less_prod_def split: option.splits)

text \<open>The comparison of \<open>prioritizeDevicesForDeletion\<close> is the lexicographic order on the presence of an
  external identifier, of a last connection and of a session, and on the time of the last
  connection (the identifier where there is none but a session), hence a strict weak order.\<close>

theorem deletion_order_lexicographic:
  "less_for_deletion a b \<longleftrightarrow> deletion_key a < deletion_key b"
  by (rule deletion_order_key)

section \<open>What is deleted\<close>

lemma dwp_delete_device:
  assumes "\<And>d'. db_devices d' = filter (\<lambda>v. d_id v \<noteq> i) (db_devices d) \<Longrightarrow> db_templates d' = db_templates d \<Longrightarrow> Q () d'"
    and "\<And>e d'. db_devices d' = db_devices d \<Longrightarrow> db_templates d' = db_templates d \<Longrightarrow> X e d'"
  shows "dwp (um_DeleteDevice i) Q X d"
proof -
  let ?J = "\<lambda>d'. db_devices d' = db_devices d \<and> db_templates d' = db_templates d"
  have adjs: "keeps ?J (for_each (\<lambda>(a, _). ignore_err (DeleteAdjacencyRow (adj_id a))) peers)" for peers :: "(adjacency_row \<times> 'b) list"
    unfolding DeleteAdjacencyRow_def by (intro pres keeps_q_exec) simp_all
  show ?thesis
    unfolding um_DeleteDevice_def GetDeviceWireGuardAdjacencies_def DeleteDeviceRow_def
    by (intro vcg dwp_keeps [OF adjs] dwp_db_call)
      (auto simp: drop_devices_def Let_def filter_empty_conv filter_id_conv split: if_splits intro!: assms)
qed

definition excess_devices :: "sorter \<Rightarrow> env \<Rightarrow> db \<Rightarrow> int \<Rightarrow> device_row list" where
  "excess_devices srt E d u =
     take (nat (int (length (user_devices u d)) - env_dpu_limit E)) (srt less_for_deletion (user_devices u d))"

definition keyed :: "db \<Rightarrow> bool" where
  "keyed d = (distinct (map d_id (db_devices d)) \<and> distinct (map dt_id (db_templates d)) \<and>
     distinct (map u_id (db_users d)))"

text \<open>Some of the devices \<open>D\<close> are gone.\<close>

definition lost_among :: "device_row set \<Rightarrow> db \<Rightarrow> db \<Rightarrow> bool" where
  "lost_among D d d' \<longleftrightarrow> db_templates d' = db_templates d \<and>
     (\<exists>p. db_devices d' = filter p (db_devices d) \<and> (\<forall>v\<in>set (db_devices d). \<not> p v \<longrightarrow> v \<in> D))"

lemma lost_among_refl: "lost_among D d d"
  unfolding lost_among_def by (intro conjI exI [of _ "\<lambda>_. True"]) auto

lemma lost_among_step:
  assumes "lost_among D d d'" "distinct (map d_id (db_devices d))" "v \<in> D" "v \<in> set (db_devices d)"
    and "db_devices d'' = filter (\<lambda>x. d_id x \<noteq> d_id v) (db_devices d')" "db_templates d'' = db_templates d'"
  shows "lost_among D d d''"
proof -
  obtain p where p: "db_devices d' = filter p (db_devices d)" "\<forall>v\<in>set (db_devices d). \<not> p v \<longrightarrow> v \<in> D"
    using assms(1) by (auto simp: lost_among_def)
  have "x = v" if "x \<in> set (db_devices d)" "d_id x = d_id v" for x
    using assms(2,4) that by (auto simp: distinct_map dest: inj_onD)
  with p assms show ?thesis
    unfolding lost_among_def by (intro conjI exI [of _ "\<lambda>x. p x \<and> d_id x \<noteq> d_id v"]) (auto simp: conj_commute)
qed

lemma lost_user_devices:
  assumes "lost_among D d d'" "\<forall>v\<in>D. \<not> template_of_user d u (d_template v)"
  shows "user_devices u d' = user_devices u d"
proof -
  obtain p where p: "db_devices d' = filter p (db_devices d)" "\<forall>v\<in>set (db_devices d). \<not> p v \<longrightarrow> v \<in> D"
    using assms(1) by (auto simp: lost_among_def)
  have "template_of_user d' u = template_of_user d u"
    using assms(1) by (simp add: lost_among_def template_of_user_def fun_eq_iff)
  with p assms(2) show ?thesis by (auto simp: user_devices_def intro: filter_cong)
qed

lemma lost_among_mono: "lost_among D d d' \<Longrightarrow> D \<subseteq> D' \<Longrightarrow> lost_among D' d d'"
  unfolding lost_among_def by blast

lemma template_has_one_user:
  "keyed d \<Longrightarrow> template_of_user d u t \<Longrightarrow> template_of_user d u' t \<Longrightarrow> u' = u"
  by (auto simp: keyed_def template_of_user_def list_ex_iff distinct_map dest: inj_onD)

lemma excess_owned:
  "slice_sort srt \<Longrightarrow> v \<in> set (excess_devices srt E d u) \<Longrightarrow>
   v \<in> set (db_devices d) \<and> template_of_user d u (d_template v)"
  unfolding excess_devices_def
  by (drule in_set_takeD) (simp add: slice_sort.set_srt user_devices_def)

lemma dwp_delete_excess:
  assumes "keyed d" "slice_sort srt" "lost_among D d d'" "set vs \<subseteq> set (excess_devices srt E d u)"
    and "\<And>d''. lost_among (D \<union> set (excess_devices srt E d u)) d d'' \<Longrightarrow> Q () d''"
    and "\<And>d'' e. lost_among (D \<union> set (excess_devices srt E d u)) d d'' \<Longrightarrow> X e d''"
  shows "dwp (for_each (\<lambda>v. ignore_err (um_DeleteDevice (d_id v))) vs) Q X d'"
proof (rule dwp_for_each [where I = "\<lambda>xs d''. lost_among (D \<union> set (excess_devices srt E d u)) d d'' \<and> set xs \<subseteq> set (excess_devices srt E d u)"])
  fix v xs d1
  assume I: "lost_among (D \<union> set (excess_devices srt E d u)) d d1 \<and> set (v # xs) \<subseteq> set (excess_devices srt E d u)"
  then have v: "v \<in> set (excess_devices srt E d u)" "v \<in> set (db_devices d)"
    using excess_owned [OF assms(2)] by auto
  have "lost_among (D \<union> set (excess_devices srt E d u)) d d2"
    if "db_devices d2 = db_devices d1 \<or> db_devices d2 = filter (\<lambda>x. d_id x \<noteq> d_id v) (db_devices d1)"
      "db_templates d2 = db_templates d1" for d2
    using that(1)
  proof
    assume "db_devices d2 = db_devices d1"
    with that(2) I show ?thesis by (simp add: lost_among_def)
  next
    assume "db_devices d2 = filter (\<lambda>x. d_id x \<noteq> d_id v) (db_devices d1)"
    with that(2) I v assms(1) show ?thesis by (intro lost_among_step [of _ d d1 v d2]) (auto simp: keyed_def)
  qed
  with I show "dwp (ignore_err (um_DeleteDevice (d_id v)))
      (\<lambda>_ d''. lost_among (D \<union> set (excess_devices srt E d u)) d d'' \<and> set xs \<subseteq> set (excess_devices srt E d u)) X d1"
    by (intro vcg dwp_delete_device) (auto intro: assms(6))
qed (use assms lost_among_mono in auto)

lemma dwp_enforce_user:
  assumes k: "keyed d" and s: "slice_sort srt"
    and lost: "lost_among (\<Union>j\<in>J. set (excess_devices srt E d j)) d d'" and "u_id u \<notin> J"
    and Q: "\<And>d''. lost_among (\<Union>j\<in>insert (u_id u) J. set (excess_devices srt E d j)) d d'' \<Longrightarrow> Q () d''"
    and X: "\<And>d'' e. lost_among (\<Union>j\<in>insert (u_id u) J. set (excess_devices srt E d j)) d d'' \<Longrightarrow> X e d''"
  shows "dwp (enforce_user srt E u) Q X d'"
proof -
  have "user_devices (u_id u) d' = user_devices (u_id u) d"
    using assms(4) excess_owned [OF s] template_has_one_user [OF k]
    by (intro lost_user_devices [OF lost]) blast
  then have devs: "take (nat (int (length (user_devices (u_id u) d')) - env_dpu_limit E))
      (prioritize_devices_for_deletion srt (user_devices (u_id u) d')) = excess_devices srt E d (u_id u)"
    by (simp add: excess_devices_def prioritize_devices_for_deletion_def)
  have same: "lost_among (\<Union>j\<in>insert (u_id u) J. set (excess_devices srt E d j)) d d'"
    by (rule lost_among_mono [OF lost]) auto
  have "dwp (for_each (\<lambda>v. ignore_err (um_DeleteDevice (d_id v))) (excess_devices srt E d (u_id u))) Q X d'"
    by (rule dwp_delete_excess [OF k s lost order_refl]) (auto intro!: Q X simp: Un_commute)
  then show ?thesis
    unfolding enforce_user_def GetDevicesByUserID_def
    by (intro vcg) (auto intro!: vcg Q X same simp: devs)
qed

text \<open>The devices above the limit: of every user with too many, the first in the order of deletion.\<close>

definition condemned :: "sorter \<Rightarrow> env \<Rightarrow> db \<Rightarrow> device_row set" where
  "condemned srt E d = (\<Union>u\<in>u_id ` set (db_users d). set (excess_devices srt E d u))"

lemma enforce_dwp:
  assumes k: "keyed d" and s: "slice_sort srt"
  shows "dwp (um_EnforceDPULimit srt E) (\<lambda>_. lost_among (condemned srt E d) d) (\<lambda>_. lost_among (condemned srt E d) d) d"
proof -
  let ?us = "sort_key u_id (db_users d)"
  have D: "distinct (map u_id ?us)" "u_id ` set ?us = u_id ` set (db_users d)"
    using k by (simp_all add: keyed_def distinct_map)
  have "dwp (for_each (enforce_user srt E) ?us)
      (\<lambda>_. lost_among (condemned srt E d) d) (\<lambda>_. lost_among (condemned srt E d) d) d"
  proof (rule dwp_for_each [where I = "\<lambda>us d'. \<exists>done. ?us = done @ us \<and>
      lost_among (\<Union>j\<in>u_id ` set done. set (excess_devices srt E d j)) d d'"])
    show "\<exists>done. ?us = done @ ?us \<and> lost_among (\<Union>j\<in>u_id ` set done. set (excess_devices srt E d j)) d d"
      by (simp add: lost_among_refl)
  next
    fix u us d'
    assume "\<exists>done. ?us = done @ u # us \<and> lost_among (\<Union>j\<in>u_id ` set done. set (excess_devices srt E d j)) d d'"
    then obtain "done" where split: "?us = done @ u # us"
      and lost: "lost_among (\<Union>j\<in>u_id ` set done. set (excess_devices srt E d j)) d d'" by blast
    have new: "u_id u \<notin> u_id ` set done" using D(1) unfolding split by auto
    have sub: "insert (u_id u) (u_id ` set done) \<subseteq> u_id ` set (db_users d)"
      unfolding D(2) [symmetric] split by auto
    show "dwp (enforce_user srt E u) (\<lambda>_ d''. \<exists>done. ?us = done @ us \<and>
        lost_among (\<Union>j\<in>u_id ` set done. set (excess_devices srt E d j)) d d'')
        (\<lambda>_. lost_among (condemned srt E d) d) d'"
    proof (rule dwp_enforce_user [OF k s lost new])
      fix d'' assume l: "lost_among (\<Union>j\<in>insert (u_id u) (u_id ` set done). set (excess_devices srt E d j)) d d''"
      then show "\<exists>done. ?us = done @ us \<and> lost_among (\<Union>j\<in>u_id ` set done. set (excess_devices srt E d j)) d d''"
        by (intro exI [of _ "done @ [u]"]) (simp add: split Un_commute)
      show "lost_among (condemned srt E d) d d''"
        unfolding condemned_def by (rule lost_among_mono [OF l]) (rule UN_mono [OF sub order_refl])
    qed
  next
    fix d' assume "\<exists>done. ?us = done @ [] \<and> lost_among (\<Union>j\<in>u_id ` set done. set (excess_devices srt E d j)) d d'"
    then have "lost_among (\<Union>j\<in>u_id ` set ?us. set (excess_devices srt E d j)) d d'" by simp
    then show "lost_among (condemned srt E d) d d'" unfolding condemned_def D(2) .
  qed
  then show ?thesis
    unfolding um_EnforceDPULimit_def GetAllUsers_def by (intro vcg) (simp_all add: lost_among_refl)
qed

text \<open>C26. \<open>EnforceDPULimit\<close> deletes only what it must: whatever fails on the way, only devices of users above
  the limit are deleted, of each such user at most as many as it has in excess, and none of them
  while a device that comes before it in the order of deletion is outside the excess.\<close>

theorem dpu_deletes_only_excess:
  assumes "slice_sort srt" and "keyed (w_db w)"
  shows "lost_among (condemned srt E (w_db w)) (w_db w) (w_db (snd (um_EnforceDPULimit srt E w)))
    \<and> (\<forall>u. \<forall>a\<in>set (excess_devices srt E (w_db w) u). \<forall>b\<in>set (user_devices u (w_db w)).
         b \<notin> set (excess_devices srt E (w_db w) u) \<longrightarrow> \<not> less_for_deletion b a)"
proof (intro conjI allI ballI impI)
  show "lost_among (condemned srt E (w_db w)) (w_db w) (w_db (snd (um_EnforceDPULimit srt E w)))"
    by (rule dwp_snd [OF enforce_dwp [OF assms(2,1)]])
  fix u a b
  assume ab: "a \<in> set (excess_devices srt E (w_db w) u)" "b \<in> set (user_devices u (w_db w))"
    "b \<notin> set (excess_devices srt E (w_db w) u)"
  let ?xs = "srt less_for_deletion (user_devices u (w_db w))"
  obtain n where n: "excess_devices srt E (w_db w) u = take n ?xs" unfolding excess_devices_def by blast
  have "b \<in> set (take n ?xs) \<union> set (drop n ?xs)"
    using ab(2) assms(1) by (metis set_append append_take_drop_id slice_sort.set_srt)
  with ab n have "b \<in> set (drop n ?xs)" by simp
  then show "\<not> less_for_deletion b a"
    using slice_sort.prefix_first [OF assms(1) deletion_order_key, where a = a and b = b and n = n and
        xs = "user_devices u (w_db w)"] ab(1) n by simp
qed

section \<open>The limit holds\<close>

text \<open>Every adjacency refers to a server that has a configuration, so that the join finds it.\<close>

definition adjs_joined :: "db \<Rightarrow> bool" where
  "adjs_joined d = (\<forall>a\<in>set (db_adjs d). (\<exists>s\<in>set (db_servers d). s_id s = adj_server a) \<and>
     (\<exists>c\<in>set (db_scfgs d). sc_server c = adj_server a))"

definition gone :: "device_row set \<Rightarrow> db \<Rightarrow> db \<Rightarrow> bool" where
  "gone D d d' \<longleftrightarrow> db_devices d' = filter (\<lambda>v. v \<notin> D) (db_devices d) \<and> db_templates d' = db_templates d \<and>
     db_servers d' = db_servers d \<and> db_scfgs d' = db_scfgs d \<and> set (db_adjs d') \<subseteq> set (db_adjs d)"

lemma gone_lost: "gone D d d' \<Longrightarrow> lost_among D d d'"
  unfolding gone_def lost_among_def by auto

lemma qwp_delete_adjs:
  fixes ps :: "(adjacency_row \<times> 'b) list"
  assumes "\<And>as. set as \<subseteq> set (db_adjs d) \<Longrightarrow> adj_id ` set as \<inter> set (map (adj_id \<circ> fst) ps) = {} \<Longrightarrow> Q () (d\<lparr>db_adjs := as\<rparr>)"
  shows "qwp (for_each (\<lambda>(a, _). ignore_err (DeleteAdjacencyRow (adj_id a))) ps) Q d"
proof (rule qwp_for_each [where I = "\<lambda>qs d'. \<exists>as. d' = d\<lparr>db_adjs := as\<rparr> \<and> set as \<subseteq> set (db_adjs d) \<and>
    adj_id ` set as \<inter> set (map (adj_id \<circ> fst) ps) \<subseteq> set (map (adj_id \<circ> fst) qs)"])
  show "\<exists>as. d = d\<lparr>db_adjs := as\<rparr> \<and> set as \<subseteq> set (db_adjs d) \<and>
      adj_id ` set as \<inter> set (map (adj_id \<circ> fst) ps) \<subseteq> set (map (adj_id \<circ> fst) ps)"
    by (rule exI [of _ "db_adjs d"]) auto
next
  fix q :: "adjacency_row \<times> 'b" and qs d'
  assume "\<exists>as. d' = d\<lparr>db_adjs := as\<rparr> \<and> set as \<subseteq> set (db_adjs d) \<and>
    adj_id ` set as \<inter> set (map (adj_id \<circ> fst) ps) \<subseteq> set (map (adj_id \<circ> fst) (q # qs))"
  then obtain as where as: "d' = d\<lparr>db_adjs := as\<rparr>" "set as \<subseteq> set (db_adjs d)"
    "adj_id ` set as \<inter> set (map (adj_id \<circ> fst) ps) \<subseteq> set (map (adj_id \<circ> fst) (q # qs))" by blast
  then have "\<exists>as'. db_adjs_update (filter (\<lambda>a. adj_id a \<noteq> adj_id (fst q))) d' = d\<lparr>db_adjs := as'\<rparr> \<and>
      set as' \<subseteq> set (db_adjs d) \<and> adj_id ` set as' \<inter> set (map (adj_id \<circ> fst) ps) \<subseteq> set (map (adj_id \<circ> fst) qs)"
    by (intro exI [of _ "filter (\<lambda>a. adj_id a \<noteq> adj_id (fst q)) as"]) auto
  then show "qwp (case q of (a, _) \<Rightarrow> ignore_err (DeleteAdjacencyRow (adj_id a))) (\<lambda>_ d'. \<exists>as. d' = d\<lparr>db_adjs := as\<rparr> \<and>
      set as \<subseteq> set (db_adjs d) \<and> adj_id ` set as \<inter> set (map (adj_id \<circ> fst) ps) \<subseteq> set (map (adj_id \<circ> fst) qs)) d'"
    unfolding DeleteAdjacencyRow_def by (cases q) (auto intro!: qvcg)
qed (use assms in auto)

lemma qwp_delete_device:
  assumes "adjs_joined d" "\<exists>v\<in>set (db_devices d). d_id v = i"
    and "\<And>as d'. d' = d\<lparr>db_adjs := as\<rparr> \<Longrightarrow> set as \<subseteq> set (db_adjs d) \<Longrightarrow> Q () (drop_devices (\<lambda>v. d_id v = i) d')"
  shows "qwp (um_DeleteDevice i) Q d"
  unfolding um_DeleteDevice_def GetDeviceWireGuardAdjacencies_def DeleteDeviceRow_def
proof (rule qwp_try_do, rule qwp_q_many, rule qwp_try_do, rule qwp_delete_adjs)
  let ?ps = "concat (map (\<lambda>a. concat (map (\<lambda>s. map (\<lambda>c. (a, s, c)) (filter (\<lambda>c. sc_server c = adj_server a) (db_scfgs d)))
    (filter (\<lambda>s. s_id s = adj_server a) (db_servers d)))) (filter (\<lambda>a. adj_device a = i) (db_adjs d)))"
  fix as assume as: "set as \<subseteq> set (db_adjs d)" "adj_id ` set as \<inter> set (map (adj_id \<circ> fst) ?ps) = {}"
  have "adj_id a \<in> set (map (adj_id \<circ> fst) ?ps)" if "a \<in> set (db_adjs d)" "adj_device a = i" for a
  proof -
    from assms(1) that(1) obtain s c where "s \<in> set (db_servers d)" "s_id s = adj_server a"
      "c \<in> set (db_scfgs d)" "sc_server c = adj_server a" by (auto simp: adjs_joined_def)
    with that have "(a, s, c) \<in> set ?ps" by auto
    then show ?thesis by (force simp del: set_concat)
  qed
  with as have "adj_device a \<noteq> i" if "a \<in> set as" for a
    using that by blast
  then have free: "devices_free (\<lambda>v. d_id v = i) (d\<lparr>db_adjs := as\<rparr>)"
    by (auto simp: devices_free_def list_all_iff list_ex_iff)
  from assms(2) have "filter (\<lambda>v. d_id v = i) (db_devices d) \<noteq> []" by (auto simp: filter_empty_conv)
  then show "qwp (try_do (db_call (\<lambda>d. if devices_free (\<lambda>v. d_id v = i) d
      then (Inr (int (length (filter (\<lambda>v. d_id v = i) (db_devices d)))), drop_devices (\<lambda>v. d_id v = i) d)
      else (Inl DbError, d))) (wrapw ''DeleteDevice'')
      (\<lambda>n. guard_do (n = 0) (Sentinel ErrNotFound) (ret ()))) Q (d\<lparr>db_adjs := as\<rparr>)"
    using free as(1) by (intro qvcg qwp_db_call) (auto intro!: qvcg assms(3))
qed

lemma gone_step:
  assumes "gone D d d'" "distinct (map d_id (db_devices d))" "v \<in> set (db_devices d)"
    and "d1 = d'\<lparr>db_adjs := as\<rparr>" "set as \<subseteq> set (db_adjs d')"
  shows "gone (insert v D) d (drop_devices (\<lambda>x. d_id x = d_id v) d1)"
proof -
  have "x = v \<longleftrightarrow> d_id x = d_id v" if "x \<in> set (db_devices d)" for x
    using assms(2,3) that by (auto simp: distinct_map dest: inj_onD)
  then have "filter (\<lambda>x. d_id x \<noteq> d_id v) (filter (\<lambda>v. v \<notin> D) (db_devices d)) = filter (\<lambda>x. x \<notin> insert v D) (db_devices d)"
    by (auto intro: filter_cong)
  with assms show ?thesis by (auto simp: gone_def drop_devices_def Let_def)
qed

lemma gone_joined: "gone D d d' \<Longrightarrow> adjs_joined d \<Longrightarrow> adjs_joined d'"
  unfolding gone_def adjs_joined_def by auto

lemma qwp_delete_listed:
  assumes k: "keyed d" and j: "adjs_joined d" and g: "gone D d d'"
    and vs: "distinct vs" "set vs \<subseteq> set (db_devices d)" "set vs \<inter> D = {}"
    and Q: "\<And>d''. gone (D \<union> set vs) d d'' \<Longrightarrow> Q () d''"
  shows "qwp (for_each (\<lambda>v. ignore_err (um_DeleteDevice (d_id v))) vs) Q d'"
  using g vs Q
proof (induction vs arbitrary: D d')
  case Nil
  then show ?case by (simp add: qvcg)
next
  case (Cons v vs)
  have v: "v \<in> set (db_devices d)" and present: "\<exists>x\<in>set (db_devices d'). d_id x = d_id v"
    using Cons.prems by (auto simp: gone_def)
  have dist: "distinct (map d_id (db_devices d))" using k by (simp add: keyed_def)
  show ?case
    unfolding for_each.simps
  proof (rule qwp_try_do, rule qwp_ignore_err, rule qwp_delete_device [OF gone_joined [OF Cons.prems(1) j] present])
    fix as d1 assume "d1 = d'\<lparr>db_adjs := as\<rparr>" "set as \<subseteq> set (db_adjs d')"
    then have "gone (insert v D) d (drop_devices (\<lambda>x. d_id x = d_id v) d1)"
      by (rule gone_step [OF Cons.prems(1) dist v])
    then show "qwp (for_each (\<lambda>v. ignore_err (um_DeleteDevice (d_id v))) vs) Q (drop_devices (\<lambda>x. d_id x = d_id v) d1)"
      by (rule Cons.IH) (use Cons.prems in auto)
  qed
qed

lemma excess_distinct:
  assumes "keyed d" "slice_sort srt"
  shows "distinct (excess_devices srt E d u)"
proof -
  have "distinct (user_devices u d)"
    using assms(1) by (auto simp: keyed_def user_devices_def distinct_map)
  then have "distinct (srt less_for_deletion (user_devices u d))"
    using slice_sort.permutes [OF assms(2)] by (metis mset_eq_imp_distinct_iff)
  then show ?thesis by (simp add: excess_devices_def)
qed

lemma qwp_enforce_user:
  assumes k: "keyed d" and s: "slice_sort srt" and j: "adjs_joined d"
    and g: "gone (\<Union>i\<in>J. set (excess_devices srt E d i)) d d'" and new: "u_id u \<notin> J"
    and Q: "\<And>d''. gone (\<Union>i\<in>insert (u_id u) J. set (excess_devices srt E d i)) d d'' \<Longrightarrow> Q () d''"
  shows "qwp (enforce_user srt E u) Q d'"
proof -
  let ?D = "\<Union>i\<in>J. set (excess_devices srt E d i)" and ?vs = "excess_devices srt E d (u_id u)"
  have own: "set ?vs \<inter> ?D = {}"
    using new excess_owned [OF s] template_has_one_user [OF k] by blast
  have "user_devices (u_id u) d' = user_devices (u_id u) d"
    using new excess_owned [OF s] template_has_one_user [OF k]
    by (intro lost_user_devices [OF gone_lost [OF g]]) blast
  then have devs: "take (nat (int (length (user_devices (u_id u) d)) - env_dpu_limit E))
      (prioritize_devices_for_deletion srt (user_devices (u_id u) d')) = ?vs"
    "length (user_devices (u_id u) d') = length (user_devices (u_id u) d)"
    by (simp_all add: excess_devices_def prioritize_devices_for_deletion_def)
  have "qwp (for_each (\<lambda>v. ignore_err (um_DeleteDevice (d_id v))) ?vs) Q d'"
    by (rule qwp_delete_listed [OF k j g excess_distinct [OF k s] _ own])
      (use excess_owned [OF s] Q in \<open>auto simp: Un_commute\<close>)
  moreover have "Q () d'" if "int (length (user_devices (u_id u) d)) \<le> env_dpu_limit E"
    using g that by (intro Q) (simp add: excess_devices_def [of _ _ _ "u_id u"])
  ultimately show ?thesis
    unfolding enforce_user_def GetDevicesByUserID_def
    by (intro qwp_attempt qwp_q_many) (auto intro!: qvcg simp: devs)
qed

lemma excess_rest_length:
  assumes "keyed d" "slice_sort srt" "0 \<le> env_dpu_limit E"
  shows "int (length (filter (\<lambda>v. v \<notin> set (excess_devices srt E d u)) (user_devices u d))) \<le> env_dpu_limit E"
proof -
  let ?xs = "user_devices u d" and ?e = "excess_devices srt E d u"
  have d: "distinct ?xs" using assms(1) by (auto simp: keyed_def user_devices_def distinct_map)
  have "length ?e = min (nat (int (length ?xs) - env_dpu_limit E)) (length ?xs)"
    by (simp add: excess_devices_def slice_sort.length_srt [OF assms(2)] min.commute)
  moreover have "length (filter (\<lambda>v. v \<notin> set ?e) ?xs) = card (set ?xs - set ?e)"
    using d by (simp add: distinct_card [symmetric] set_diff_eq)
  moreover have "set ?e \<subseteq> set ?xs"
    using assms(2) unfolding excess_devices_def by (metis set_take_subset slice_sort.set_srt)
  then have "card (set ?xs - set ?e) = length ?xs - length ?e"
    using d excess_distinct [OF assms(1,2)] by (simp add: card_Diff_subset distinct_card)
  ultimately show ?thesis using assms(3) by auto
qed

lemma condemned_iff:
  assumes "slice_sort srt" "keyed d" "u \<in> u_id ` set (db_users d)" "template_of_user d u (d_template v)"
  shows "v \<in> condemned srt E d \<longleftrightarrow> v \<in> set (excess_devices srt E d u)"
proof
  assume "v \<in> condemned srt E d"
  then obtain j where j: "v \<in> set (excess_devices srt E d j)" by (auto simp: condemned_def)
  with excess_owned [OF assms(1)] have "template_of_user d j (d_template v)" by blast
  with assms(2,4) have "j = u" by (blast dest: template_has_one_user)
  with j show "v \<in> set (excess_devices srt E d u)" by simp
qed (use assms(3) in \<open>unfold condemned_def, blast\<close>)

text \<open>C22. While the database works, \<open>EnforceDPULimit\<close> succeeds and afterwards no user has more devices than
  the limit: each user keeps exactly the devices outside its excess.\<close>

theorem dpu_limit_reached:
  assumes "slice_sort srt" "keyed (w_db w)" "adjs_joined (w_db w)" "quiet w" "0 \<le> env_dpu_limit E"
  shows "\<exists>w'. um_EnforceDPULimit srt E w = (Inr (), w') \<and>
    (\<forall>u\<in>u_id ` set (db_users (w_db w)).
       user_devices u (w_db w') = filter (\<lambda>v. v \<notin> set (excess_devices srt E (w_db w) u)) (user_devices u (w_db w)) \<and>
       int (length (user_devices u (w_db w'))) \<le> env_dpu_limit E)"
proof -
  let ?d = "w_db w"
  let ?us = "sort_key u_id (db_users ?d)"
  have D: "distinct (map u_id ?us)" "u_id ` set ?us = u_id ` set (db_users ?d)"
    using assms(2) by (simp_all add: keyed_def distinct_map)
  have "qwp (um_EnforceDPULimit srt E) (\<lambda>_. gone (condemned srt E ?d) ?d) ?d"
    unfolding um_EnforceDPULimit_def GetAllUsers_def
  proof (intro qwp_try_do qwp_q_many qwp_for_each [where I = "\<lambda>us d'. \<exists>done. ?us = done @ us \<and>
      gone (\<Union>i\<in>u_id ` set done. set (excess_devices srt E ?d i)) ?d d'"])
    show "\<exists>done. ?us = done @ ?us \<and> gone (\<Union>i\<in>u_id ` set done. set (excess_devices srt E ?d i)) ?d ?d"
      by (simp add: gone_def)
  next
    fix u us d'
    assume "\<exists>done. ?us = done @ u # us \<and> gone (\<Union>i\<in>u_id ` set done. set (excess_devices srt E ?d i)) ?d d'"
    then obtain "done" where split: "?us = done @ u # us"
      and g: "gone (\<Union>i\<in>u_id ` set done. set (excess_devices srt E ?d i)) ?d d'" by blast
    have new: "u_id u \<notin> u_id ` set done" using D(1) unfolding split by auto
    show "qwp (enforce_user srt E u) (\<lambda>_ d''. \<exists>done. ?us = done @ us \<and>
        gone (\<Union>i\<in>u_id ` set done. set (excess_devices srt E ?d i)) ?d d'') d'"
      by (rule qwp_enforce_user [OF assms(2,1,3) g new], rule exI [of _ "done @ [u]"]) (simp add: split Un_commute)
  next
    fix d' assume "\<exists>done. ?us = done @ [] \<and> gone (\<Union>i\<in>u_id ` set done. set (excess_devices srt E ?d i)) ?d d'"
    then have "gone (\<Union>i\<in>u_id ` set ?us. set (excess_devices srt E ?d i)) ?d d'" by simp
    then show "gone (condemned srt E ?d) ?d d'" unfolding condemned_def D(2) .
  qed
  from qwp_run [OF this assms(4)] obtain w' where run: "um_EnforceDPULimit srt E w = (Inr (), w')"
    and g: "gone (condemned srt E ?d) ?d (w_db w')" by auto
  have "v \<in> condemned srt E ?d \<longleftrightarrow> v \<in> set (excess_devices srt E ?d u)"
    if "u \<in> u_id ` set (db_users ?d)" "template_of_user ?d u (d_template v)" for u v
    using that by (rule condemned_iff [OF assms(1,2)])
  with g have "user_devices u (w_db w') = filter (\<lambda>v. v \<notin> set (excess_devices srt E ?d u)) (user_devices u ?d)"
    if "u \<in> u_id ` set (db_users ?d)" for u
    using that by (auto simp: user_devices_def gone_def template_of_user_def intro: filter_cong)
  with run excess_rest_length [OF assms(2,1,5)] show ?thesis by auto
qed

definition crowded_db :: db where
  "crowded_db = sample_db\<lparr>db_devices := [sample_device, sample_device\<lparr>d_id := 7, d_external_id := []\<rparr>]\<rparr>"

lemma crowded_db_wf: "keyed crowded_db" "adjs_joined crowded_db"
  by (simp_all add: keyed_def adjs_joined_def crowded_db_def sample_db_def empty_db_def sample_device_def)

lemma dpu_limit_reached_witness:
  "\<exists>d'. length (user_devices 1 d') \<le> 1 \<and> length (user_devices 1 crowded_db) = 2"
proof -
  have "quiet (world_of crowded_db [])" by (simp add: quiet_def world_of_def)
  moreover have limit: "env_dpu_limit sample_env = 1" by (simp add: sample_env_def)
  ultimately obtain w' :: world where "\<forall>u\<in>u_id ` set (db_users crowded_db). int (length (user_devices u (w_db w'))) \<le> 1"
    using dpu_limit_reached [OF insertion.slice_sort_axioms, of "world_of crowded_db []" sample_env]
      crowded_db_wf zero_le_one [where ?'a = int]
    unfolding limit w_db_world_of by blast
  moreover have "1 \<in> u_id ` set (db_users crowded_db)"
    by (simp add: crowded_db_def sample_db_def sample_user_def)
  moreover have "length (user_devices 1 crowded_db) = 2" by code_simp
  ultimately show ?thesis by fastforce
qed

lemma dpu_deletes_only_excess_witness:
  "lost_among (condemned insertion_sort sample_env crowded_db) crowded_db
     (w_db (snd (um_EnforceDPULimit insertion_sort sample_env (world_of crowded_db [True]))))"
  using dpu_deletes_only_excess [OF insertion.slice_sort_axioms, of "world_of crowded_db [True]" sample_env]
      crowded_db_wf zero_le_one [where ?'a = int]
  by simp

end
