(* ===== verification/Invariants.thy ===== *)
theory Invariants
  imports Dpu Ldap_Config Mfa Device_Resync Vcm_Servers Vcm_Templates Vcm_Resync Certs
begin

text \<open>
  Invariants of the database under every operation of the two managers.  An invariant that reads only
  the users, only the LDAP configurations, or only the number of devices of each template is kept by
  every operation that leaves these alone; the locale \<open>frame\<close> states this once for all such invariants
  and proves it for every query and every operation.  It is interpreted for the three invariants of
  the system, for which the remaining operations are treated in their own theories.
\<close>

section \<open>Invariants with a frame\<close>

definition fewer :: "db \<Rightarrow> db \<Rightarrow> bool" where
  "fewer d d' = (\<forall>t. template_count t d' \<le> template_count t d)"

lemma fewer_refl [simp]: "fewer d d"
  by (simp add: fewer_def)

lemma fewer_same: "db_devices d' = db_devices d \<Longrightarrow> fewer d d'"
  by (simp add: fewer_def template_count_def)

lemma fewer_trans: "fewer d d' \<Longrightarrow> fewer d' d'' \<Longrightarrow> fewer d d''"
  unfolding fewer_def by (meson order_trans)

lemma fewer_filter: "db_devices d' = filter p (db_devices d) \<Longrightarrow> fewer d d'"
proof -
  assume e: "db_devices d' = filter p (db_devices d)"
  have "length (filter q (filter p xs)) \<le> length (filter q xs)" for q and xs :: "device_row list"
    by (induction xs) auto
  then show ?thesis by (simp add: fewer_def template_count_def e del: filter_filter)
qed

lemma fewer_map: "(\<And>v. d_template (f v) = d_template v) \<Longrightarrow> fewer d (db_devices_update (map f) d)"
  by (simp add: fewer_def)

text \<open>What \<open>users_wf\<close> reads of a user.\<close>

definition user_keys :: "db \<Rightarrow> (int \<times> string) list" where
  "user_keys d = map (\<lambda>u. (u_id u, u_username u)) (db_users d)"

lemma user_keys_map:
  assumes "db_users d' = map f (db_users d)" and "\<And>u. u_id (f u) = u_id u \<and> u_username (f u) = u_username u"
  shows "user_keys d' = user_keys d"
  using assms by (simp add: user_keys_def)

named_theorems kept \<open>queries and operations that keep an invariant with a frame\<close>
named_theorems kept_unread \<open>those that keep it when it does not read what they write\<close>

lemma drop_templates_frame [simp]:
  "db_users (drop_templates q d) = db_users d" "db_ldaps (drop_templates q d) = db_ldaps d"
  "db_users (drop_devices p d) = db_users d" "db_ldaps (drop_devices p d) = db_ldaps d"
  by (simp_all add: drop_templates_def drop_devices_def Let_def)

lemma drop_devices_filter: "db_devices (drop_devices p d) = filter (\<lambda>v. \<not> p v) (db_devices d)"
  by (simp add: drop_devices_def Let_def)

lemma drop_templates_filter:
  "db_devices (drop_templates q d) =
   filter (\<lambda>v. d_template v \<notin> set (map dt_id (filter q (db_templates d)))) (db_devices d)"
  by (simp add: drop_templates_def drop_devices_filter Let_def)

lemma user_keys_drop [simp]:
  "user_keys (drop_devices p d) = user_keys d" "user_keys (drop_templates q d) = user_keys d"
  by (simp_all add: user_keys_def)

lemma fewer_drop_templates: "db_devices d' = db_devices (drop_templates q d) \<Longrightarrow> fewer d d'"
  unfolding drop_templates_filter by (rule fewer_filter)

lemmas devices_frame = fewer_drop_templates fewer_filter [OF drop_devices_filter] fewer_filter [OF drop_templates_filter]

lemmas same_frame = fewer_same user_keys_def

lemma keeps_on_uuid [pres]: "(\<And>u. keeps J (k u)) \<Longrightarrow> keeps J (on_uuid L i k)"
  unfolding on_uuid_def by (intro pres)

locale frame =
  fixes J :: "db \<Rightarrow> bool" and U L D :: bool
  assumes step: "J d \<Longrightarrow> (U \<Longrightarrow> user_keys d' = user_keys d) \<Longrightarrow> (L \<Longrightarrow> db_ldaps d' = db_ldaps d) \<Longrightarrow>
    (D \<Longrightarrow> fewer d d') \<Longrightarrow> J d'"
begin

lemmas leaf_rules = pres keeps_q_exec keeps_q_update keeps_q_update_rows keeps_q_insert keeps_db_call

text \<open>Queries that write none of the three.\<close>

lemma kept_server_queries [kept]:
  "keeps J (InsertServer s)" "keeps J (UpdateServerRow i n ep de hc)" "keeps J (DeleteServer i)"
  "keeps J (InsertServerWireGuardConfig c)" "keeps J (UpdateServerWireGuardConfig c)"
  "keeps J (InsertServerWireGuardIfaceAddr j a)" "keeps J (InsertServerWireGuardIfaceDNS j t)"
  "keeps J (DeleteServerWireGuardIfaceAddrs j)" "keeps J (DeleteServerWireGuardDNS j)"
  unfolding query_defs by (intro leaf_rules; erule step; simp add: drop_scfgs_def same_frame Let_def)+

lemma kept_template_queries [kept]:
  "keeps J (InsertDeviceTemplate t)" "keeps J (UpdateDeviceTemplateByUserID i n port mtu)"
  "keeps J (InsertDeviceTemplateAddressPool i j)" "keeps J (DeleteDeviceTemplateAddressPools i)"
  "keeps J (InsertDeviceTemplateWireGuardIfaceDNS i x)" "keeps J (DeleteDeviceTemplateWireGuardDNS i)"
  "keeps J (InsertAddressPool p)" "keeps J (UpdateAddressPoolRow p)"
  unfolding query_defs by (intro leaf_rules; erule step; simp add: same_frame)+

lemma kept_pool_delete [kept]: "keeps J (DeleteAddressPoolRow i)"
  unfolding query_defs
  by (intro leaf_rules) (auto elim!: step simp: same_frame split: list.split)

lemma kept_adjacency_queries [kept]:
  "keeps J (InsertAdjacencyTemplate a)" "keeps J (UpdateAdjacencyTemplateRow i k ips b)"
  "keeps J (DeleteAdjacencyTemplateRow i)" "keeps J (UpdateAdjacencyClientSideAllowedIPs i ips)"
  "keeps J (UpdateAdjacencyTemplateClientSideAllowedIPs i ips)" "keeps J (InsertAdjacency c)"
  "keeps J (DeleteAdjacencyRow i)" "keeps J (UpdateLdapTemplateServerAllowedIPs i k ips)"
  unfolding query_defs by (intro leaf_rules; erule step; simp add: same_frame)+

lemma kept_adjacency_update [kept]: "keeps J (UpdateAdjacencyRow i k v psk sips cips)"
  unfolding query_defs
  by (intro leaf_rules) (auto elim!: step simp: same_frame Let_def split: list.split)

lemma kept_secret_queries [kept]:
  "keeps J (UpdateUserTOTP x i)" "keeps J (TryToUpdateUserTOTPCounter m i)"
  "keeps J (InsertMFACert x y)" "keeps J (DeleteMFACert i)"
  unfolding query_defs by (intro leaf_rules; erule step; simp add: same_frame)+

lemma kept_secret_insert [kept]: "keeps J (InsertUserTOTP x i)"
  unfolding query_defs by (intro leaf_rules) (auto elim!: step simp: same_frame Let_def)

lemma kept_user_rows [kept]: "keeps J (UpdateUserPwd x m i)" "keeps J (UpdateUserEditTime m i)"
  unfolding query_defs
  by (intro leaf_rules; erule step; (simp add: fewer_same)?; simp add: user_keys_map)+

lemma kept_ldap_template_queries [kept]:
  "keeps J (InsertLdapTemplate t)" "keeps J (InsertLdapTemplateAddressPool i j)"
  "keeps J (DeleteLdapTemplateAddressPools i)" "keeps J (DeleteLdapTemplate i)"
  unfolding query_defs by (intro leaf_rules; erule step; simp add: same_frame)+

lemma kept_ldap_rows [kept]:
  "keeps J (UpdateLdapTemplate t)" "keeps J (InsertLdapTemplateServer X i k ips b)"
  "keeps J (UpdateLdapTemplateServer X i k k' ips b)" "keeps J (DeleteLdapTemplateServer i k)"
  "keeps J (UpdateLdapRelation X k' i x y z m)" "keeps J (DeleteLdapRelations m)"
  "keeps J (InsertLdapRelation X i x y z m n)"
  unfolding query_defs
  by (intro leaf_rules; auto elim!: step simp: same_frame Let_def split: option.split)+

lemma kept_device_rows [kept]:
  "keeps J (UpdateDeviceFromConfiguration i x y z info)" "keeps J (UpdateDeviceRow i de priv pub)"
  "keeps J (UpdateDeviceSessionAndLastTimeConnected i y z)" "keeps J (InvalidateDeviceSession i)"
  "keeps J (InvalidateTemplateDeviceSessions i)" "keeps J (InvalidateOldDeviceSessions m)"
  "keeps J InvalidateAllDeviceSessionsWithCert" "keeps J (InvalidateAllDeviceSessionsByServerID i)"
  unfolding query_defs
  by (intro leaf_rules; erule step; (simp add: user_keys_def; fail)?; rule fewer_map; simp add: clear_session_def)+

lemma kept_device_addresses [kept]:
  "keeps J (InsertDeviceWireGuardIfaceAddr i p)" "keeps J (DeleteDeviceWireGuardIfaceAddrs i)"
  unfolding query_defs by (intro leaf_rules; erule step; simp add: same_frame)+

lemma kept_deletions [kept]: "keeps J (DeleteDeviceRow i)" "keeps J (DeleteDeviceTemplate i)"
  unfolding query_defs
  by (intro leaf_rules; (erule step | clarsimp simp: split: if_splits); auto elim!: step intro: devices_frame)+

text \<open>Queries that write one of them.\<close>

lemma kept_user_queries [kept_unread]:
  assumes "\<not> U"
  shows "keeps J (InsertUser u)" "keeps J (UpdateUser i x b y z m)" "keeps J (DeleteUser i)"
  unfolding query_defs using assms
  by (intro leaf_rules; auto elim!: step simp: fewer_same intro: devices_frame fewer_trans)+

lemma kept_ldap_queries [kept_unread]:
  assumes "\<not> L"
  shows "keeps J (InsertLdapConfig X l)" "keeps J (UpdateLdapConfig X l)" "keeps J (DeleteLdapConfig X i)"
  unfolding query_defs using assms
  by (intro leaf_rules; auto elim!: step simp: same_frame)+

lemma kept_device_insert [kept_unread]: "\<not> D \<Longrightarrow> keeps J (InsertDevice v)"
  unfolding query_defs by (intro leaf_rules; erule step; simp add: user_keys_def)

text \<open>Reading, messages and the choice of tags.\<close>

lemma kept_ldap_reads [kept]:
  "keeps J (LdapTemplateIDCheck i)" "keeps J (LdapConfigVerifyPriority m)" "keeps J (LdapTemplateNameCheck x)"
  "keeps J GetAllLdapConfigs" "keeps J (GetLdapTemplateAddressPools i)" "keeps J GetAllLdapTemplates"
  "keeps J (GetLdapConfigByID X x)" "keeps J (GetLdapTemplateServers i)" "keeps J (GetLdapTemplateByID i)"
  unfolding query_defs by (intro pres)+

lemma kept_messages [kept]:
  "keeps J (NotifyWGDelPeerPubKey a b)" "keeps J (NotifyWGAddPeer a b c d)" "keeps J (notify_wg_config_changes a e)"
  "keeps J (modify (w_watchers_update f))" "keeps J (draw_tag X x)"
  by (auto simp: keeps_def preserves_def NotifyWGDelPeerPubKey_def NotifyWGAddPeer_def notify_wg_config_changes_def
      deliver_def modify_def draw_tag_def Let_def split: option.split)

lemma kept_direct [kept]:
  "keeps J (uq_DeleteMFACerts i)" "keeps J (pg_InsertUsedTag x i)" "keeps J (pg_IncreaseReplicaCount i)"
  unfolding uq_DeleteMFACerts_def DeleteMFACert_def pg_InsertUsedTag_def pg_IncreaseReplicaCount_def
  by (intro leaf_rules; auto elim!: step simp: same_frame Let_def split: list.split)+

text \<open>The operations of the managers, by the depth of their calls.\<close>

lemma kept_level_1 [kept]:
  "keeps J (pg_GetServerByID i)" "keeps J (get_device_wg_config E i)" "keeps J (get_server_wg_config E i)"
  "keeps J (server_peer_of E a)" "keeps J (vcm_CreateAdjacencyTemplate c i d)" "keeps J (uq_GetUserByName s)"
  "keeps J (uq_GetLdapUserAuthsByUserID i)" "keeps J (claim_slot s t u i v e)"
  "keeps J (vcm_QueryUsedAddrsForSubnet f)" "keeps J (within_dpu_limit E i)" "keeps J (insert_daddr i f)"
  "keeps J (um_CheckLdapTemplateExists i)" "keeps J (pool_name_free s)"
  "keeps J (uq_VerifyLdapConfigPriority i)" "keeps J (ltemplate_read_pools g)"
  "keeps J (ltemplate_check_pools h)" "keeps J (ltemplate_insert_pool i m)"
  "keeps J (uq_InsertLdapTemplateServer X i j n b)" "keeps J uq_CountUsers" "keeps J (uq_CheckUsernameExists s)"
  "keeps J (um_set_password E s p)" "keeps J (um_DeleteAddressPool i)" "keeps J (um_DeleteDevice i)"
  "keeps J (delete_device_session i)" "keeps J delete_sessions_of_all_users_with_cert_mfa"
  "keeps J (delete_user_device_sessions i)" "keeps J (um_DeleteLdapTemplate i)"
  "keeps J (uq_DeleteLdapTemplateServer i j)" "keeps J (drop_device_adjacencies i)"
  "keeps J (delete_template_devices_sessions i)" "keeps J (um_GetAddressPoolByID i)"
  "keeps J um_GetAllAddressPools" "keeps J um_GetAllDevicesSessions" "keeps J um_GetAllLdapConfigs"
  "keeps J (ltemplate_with_pools q)" "keeps J um_GetAllUsers" "keeps J (api_device_of E e)"
  "keeps J (um_GetLdapConfig X s)" "keeps J um_GetLdapSyncStats" "keeps J (uq_GetLdapTemplateServers i)"
  "keeps J (uq_GetUserByID i)" "keeps J (um_InvalidateOldDevicesSessions i)" "keeps J (totp_check E M i r)"
  "keeps J (totp_commit i j)" "keeps J (uq_GetMFACerts s)" "keeps J (uq_InsertMFACerts s t)"
  "keeps J (create_totp_key E)" "keeps J (seal_secret E s)" "keeps J (touch_user i)"
  "keeps J (uq_CheckUserIDExists i)" "keeps J um_Resync" "keeps J (announce_new_key E s t w)"
  "keeps J (uq_UpdateLdapTemplateServer X i j k n b)" "keeps J (uq_UpdateUserPassword i s)"
  "keeps J (new_psk E b)" "keeps J (vcm_UpdateAdjacencyTemplate i c j d)" "keeps J (pg_GetReplicaCount i)"
  "keeps J (vcm_CheckDeviceTemplateExistsByUserID i)" "keeps J (CheckServerIDExists i)" "keeps J (read_pools h)"
  "keeps J (check_pools h)" "keeps J (insert_tpool i x)" "keeps J (insert_tdns i s)"
  "keeps J (CheckServerNameExists s)" "keeps J (insert_saddr i s)" "keeps J (insert_sdns i s)"
  "keeps J (vcm_DeleteAdjacency i)" "keeps J (vcm_DeleteAdjacencyTemplate i)" "keeps J (pg_DeleteServer i)"
  "keeps J pg_GetAllServers" "keeps J (pg_GetServerByName s)" "keeps J (pg_GetServerTags i)"
  "keeps J (vcm_GetDeviceTemplateByUserID i)" "keeps J (vcm_GetUserAdjacencyTemplates i)"
  "keeps J (device_peer_of E i w)" "keeps J (resync_delete i y z)" "keeps J (desired_psk E b s)"
  "keeps J (pg_UpdateServer a1)" "keeps J (rewrite_adj c1 y)" "keeps J (rewrite_atemplate c1 d1)"
  "keeps J (rewrite_lts c1 e1)" "keeps J (delete_invalid_sessions_by_server a1 a1')"
  "keeps J (delete_invalid_sessions_by_server_wg_config i f1 f1')" "keeps J (pg_GetServerTagsByName s)"
  unfolding pg_GetServerByID_def get_device_wg_config_def get_server_wg_config_def server_peer_of_def
    vcm_CreateAdjacencyTemplate_def uq_GetUserByName_def uq_GetLdapUserAuthsByUserID_def claim_slot_def
    vcm_QueryUsedAddrsForSubnet_def within_dpu_limit_def insert_daddr_def um_CheckLdapTemplateExists_def
    pool_name_free_def uq_VerifyLdapConfigPriority_def ltemplate_read_pools_def ltemplate_check_pools_def
    ltemplate_insert_pool_def uq_InsertLdapTemplateServer_def uq_CountUsers_def uq_CheckUsernameExists_def
    um_set_password_def um_DeleteAddressPool_def um_DeleteDevice_def delete_device_session_def
    delete_sessions_of_all_users_with_cert_mfa_def delete_user_device_sessions_def um_DeleteLdapTemplate_def
    uq_DeleteLdapTemplateServer_def drop_device_adjacencies_def delete_template_devices_sessions_def
    um_GetAddressPoolByID_def um_GetAllAddressPools_def um_GetAllDevicesSessions_def um_GetAllLdapConfigs_def
    ltemplate_with_pools_def um_GetAllUsers_def api_device_of_def um_GetLdapConfig_def um_GetLdapSyncStats_def
    uq_GetLdapTemplateServers_def uq_GetUserByID_def um_InvalidateOldDevicesSessions_def totp_check_def
    totp_commit_def uq_GetMFACerts_def uq_InsertMFACerts_def create_totp_key_def seal_secret_def touch_user_def
    uq_CheckUserIDExists_def um_Resync_def announce_new_key_def uq_UpdateLdapTemplateServer_def
    uq_UpdateUserPassword_def new_psk_def vcm_UpdateAdjacencyTemplate_def pg_GetReplicaCount_def
    vcm_CheckDeviceTemplateExistsByUserID_def CheckServerIDExists_def read_pools_def check_pools_def
    insert_tpool_def insert_tdns_def CheckServerNameExists_def insert_saddr_def insert_sdns_def
    vcm_DeleteAdjacency_def vcm_DeleteAdjacencyTemplate_def pg_DeleteServer_def pg_GetAllServers_def
    pg_GetServerByName_def pg_GetServerTags_def vcm_GetDeviceTemplateByUserID_def
    vcm_GetUserAdjacencyTemplates_def device_peer_of_def resync_delete_def desired_psk_def pg_UpdateServer_def
    rewrite_adj_def rewrite_atemplate_def rewrite_lts_def delete_invalid_sessions_by_server_def
    delete_invalid_sessions_by_server_wg_config_def pg_GetServerTagsByName_def exists_of_def
    get_device_template_by_user_id_def invalidate_or_note_def or_continue_def
  by (intro pres kept)+

lemma kept_level_1_L [kept_unread]:
  assumes "\<not> L"
  shows "keeps J (uq_DeleteLdapConfig X s)"
  unfolding uq_DeleteLdapConfig_def
  using assms by (intro pres kept kept_unread; assumption?)+

lemma kept_level_1_U [kept_unread]:
  assumes "\<not> U"
  shows "keeps J (uq_InsertUser a)" "keeps J (uq_UpdateUser a)"
  unfolding uq_InsertUser_def uq_UpdateUser_def
  using assms by (intro pres kept kept_unread; assumption?)+

lemma kept_level_2 [kept]:
  "keeps J (server_adjacencies E i)" "keeps J (um_GetUserByNameAndPassword E C s t)"
  "keeps J (um_GetUserByName s)" "keeps J (allocate_address_from_pool a)"
  "keeps J (slot_when_exhausted i s t u j)" "keeps J (um_CreateAddressPool c)"
  "keeps J (um_CreateLdapTemplate C d)" "keeps J (vcm_GetServerByID i)" "keeps J (ensure_user_can_be_added C)"
  "keeps J (um_DeleteInvalidSessionsByDevice i e e')" "keeps J (um_DeleteInvalidSessionsByMFACert f s)"
  "keeps J (um_DeleteInvalidSessionsByUser g g')" "keeps J (um_DeleteInvalidSessionsByUserPassword g)"
  "keeps J (um_DeleteInvalidSessionsByUserTOTP g)" "keeps J (um_DeleteLdapTemplateServer i j)"
  "keeps J (delete_template i)" "keeps J (enforce_user h E m)" "keeps J um_GetAllLdapTemplates"
  "keeps J (um_GetDevice E i)" "keeps J (um_GetDeviceByExternalIDAndUserID E s i)"
  "keeps J (um_GetDevicesByTemplateID E i)" "keeps J (um_GetDevicesByUserID E i)"
  "keeps J (um_GetLdapTemplate i)" "keeps J (um_GetLdapTemplateServers i)" "keeps J (um_GetUserByID i)"
  "keeps J (um_MFAAuthenticate E M i s n)" "keeps J (user_of_secret i)" "keeps J (um_MFAGetAllCAs M)"
  "keeps J (um_MFAGetAllCRLs M)" "keeps J (um_MFAGetTOTPSecret E i)" "keeps J (update_device_addresses i p p')"
  "keeps J (um_RunSessionInvalidation i)" "keeps J (um_UpdateAddressPool i c)" "keeps J (insert_daddr_text i s)"
  "keeps J (um_UpdateLdapTemplate i d)" "keeps J (change_name q g)"
  "keeps J (delete_invalid_sessions_by_adjacency E r r')" "keeps J (vcm_AllReplicasRunning E w)"
  "keeps J (vcm_CheckServerExists i)" "keeps J (vcm_CreateDeviceTemplate i x)"
  "keeps J (insert_server_with_wg_config E y z)" "keeps J (vcm_DeleteServer i)" "keeps J vcm_GetAllServers"
  "keeps J (vcm_GetCertForServer a1 c1 s)" "keeps J (vcm_GetDeviceWireGuardConfig E i)"
  "keeps J (vcm_GetServerByName s)" "keeps J (device_adjacencies E i)"
  "keeps J (vcm_GetWireGuardServerConfig E i)" "keeps J (resync_create E i j d1 e1)"
  "keeps J (delete_invalid_sessions_by_device_template i x x')" "keeps J (rewrite_allowed_ips f1 i)"
  "keeps J (vcm_VerifyServerTag s t)" "keeps J (increase_rep_count E i)"
  unfolding server_adjacencies_def um_GetUserByNameAndPassword_def um_GetUserByName_def allocate_address_from_pool_def
    slot_when_exhausted_def um_CreateAddressPool_def um_CreateLdapTemplate_def vcm_GetServerByID_def
    ensure_user_can_be_added_def um_DeleteInvalidSessionsByDevice_def um_DeleteInvalidSessionsByMFACert_def
    um_DeleteInvalidSessionsByUser_def um_DeleteInvalidSessionsByUserPassword_def
    um_DeleteInvalidSessionsByUserTOTP_def um_DeleteLdapTemplateServer_def delete_template_def enforce_user_def
    um_GetAllLdapTemplates_def um_GetDevice_def um_GetDeviceByExternalIDAndUserID_def
    um_GetDevicesByTemplateID_def um_GetDevicesByUserID_def um_GetLdapTemplate_def um_GetLdapTemplateServers_def
    um_GetUserByID_def um_MFAAuthenticate_def user_of_secret_def um_MFAGetAllCAs_def um_MFAGetAllCRLs_def
    um_MFAGetTOTPSecret_def update_device_addresses_def um_RunSessionInvalidation_def um_UpdateAddressPool_def
    insert_daddr_text_def um_UpdateLdapTemplate_def change_name_def delete_invalid_sessions_by_adjacency_def
    vcm_AllReplicasRunning_def vcm_CheckServerExists_def vcm_CreateDeviceTemplate_def
    insert_server_with_wg_config_def vcm_DeleteServer_def vcm_GetAllServers_def vcm_GetCertForServer_def
    vcm_GetDeviceWireGuardConfig_def vcm_GetServerByName_def device_adjacencies_def
    vcm_GetWireGuardServerConfig_def resync_create_def delete_invalid_sessions_by_device_template_def
    rewrite_allowed_ips_def vcm_VerifyServerTag_def increase_rep_count_def found_or_next_def
    invalidate_or_note_def many_or_empty_def or_continue_def
  by (intro pres kept)+

lemma kept_level_2_L [kept_unread]:
  assumes "\<not> L"
  shows "keeps J (um_CreateLdapConfig E X a)" "keeps J (um_DeleteLdapConfig X s)"
  "keeps J (um_UpdateLdapConfig E X a s)"
  unfolding um_CreateLdapConfig_def um_DeleteLdapConfig_def um_UpdateLdapConfig_def
  using assms by (intro pres kept kept_unread; assumption?)+

lemma kept_level_3 [kept]:
  "keeps J (vcm_CreateAdjacency E i j a)" "keeps J (allocate_device_addresses i)"
  "keeps J (validateAndPrepareTemplateServer i c)" "keeps J (vcm_DeleteDeviceTemplateByUserID i)"
  "keeps J (um_EnforceDPULimit d E)" "keeps J (um_MFACreateCA M s)" "keeps J (um_MFACreateCRL M s)"
  "keeps J (um_MFACreateTOTPSecret E i)" "keeps J (um_MFADeleteCA i)" "keeps J (um_MFADeleteCRL i)"
  "keeps J (um_MFAUpdateTOTPSecret E i)" "keeps J (allocate_addresses_for_pools e f)"
  "keeps J (um_UpdateDevice E i g)" "keeps J (um_UpdateUserPassword E C i s)"
  "keeps J (vcm_UpdateAdjacency E i j k a)" "keeps J (vcm_CreateServer E h m)"
  "keeps J (vcm_GetUserDeviceAdjacencies E i)" "keeps J (vcm_GetWireGuardDeviceAdjacencies E i)"
  "keeps J (vcm_GetWireGuardServerAdjacencies E i)" "keeps J (resync_update E i j n p q)"
  "keeps J (resync_missing E r i w q j)" "keeps J (vcm_UpdateDeviceTemplateByUserID i x)"
  "keeps J (remove_healthcheck_from_existing_adjacencies i y)"
  "keeps J (update_existing_adjacencies_with_healthcheck i y)" "keeps J (vcm_UpdateWireGuardServerConfig E i m)"
  "keeps J (vcm_WatchWireGuardConfig E i s)"
  unfolding vcm_CreateAdjacency_def allocate_device_addresses_def validateAndPrepareTemplateServer_def
    vcm_DeleteDeviceTemplateByUserID_def um_EnforceDPULimit_def um_MFACreateCA_def um_MFACreateCRL_def
    um_MFACreateTOTPSecret_def um_MFADeleteCA_def um_MFADeleteCRL_def um_MFAUpdateTOTPSecret_def
    allocate_addresses_for_pools_def um_UpdateDevice_def um_UpdateUserPassword_def vcm_UpdateAdjacency_def
    vcm_CreateServer_def vcm_GetUserDeviceAdjacencies_def vcm_GetWireGuardDeviceAdjacencies_def
    vcm_GetWireGuardServerAdjacencies_def resync_update_def resync_missing_def
    vcm_UpdateDeviceTemplateByUserID_def remove_healthcheck_from_existing_adjacencies_def
    update_existing_adjacencies_with_healthcheck_def vcm_UpdateWireGuardServerConfig_def
    vcm_WatchWireGuardConfig_def get_device_template_by_user_id_def or_continue_def
  by (intro pres kept)+

lemma kept_level_3_U [kept_unread]:
  assumes "\<not> U"
  shows "keeps J (um_CreateUser E C a)" "keeps J (um_UpdateUser C i c)"
  unfolding um_CreateUser_def um_UpdateUser_def
  using assms by (intro pres kept kept_unread; assumption?)+

lemma kept_level_4 [kept]:
  "keeps J (create_adjacencies_for_new_device E i j)" "keeps J (um_CreateLdapTemplateServer X i a)"
  "keeps J (um_GenerateDeviceData E i)" "keeps J (resync_single_device c d)"
  "keeps J (um_UpdateLdapTemplateServer X i j a)" "keeps J (resync_existing E e i f g j)"
  "keeps J (vcm_UpdateServer i h)"
  unfolding create_adjacencies_for_new_device_def um_CreateLdapTemplateServer_def um_GenerateDeviceData_def
    resync_single_device_def um_UpdateLdapTemplateServer_def resync_existing_def vcm_UpdateServer_def
  by (intro pres kept)+

lemma kept_level_4_U [kept_unread]:
  assumes "\<not> U"
  shows "keeps J (um_DeleteUser i)"
  unfolding um_DeleteUser_def
  using assms by (intro pres kept kept_unread; assumption?)+

lemma kept_level_5 [kept]:
  "keeps J (resync_one a c d)" "keeps J (resync_device E R e f d)"
  unfolding resync_one_def resync_device_def or_continue_def
  by (intro pres kept)+

lemma kept_level_5_D [kept_unread]:
  assumes "\<not> D"
  shows "keeps J (create_device_internal E i s t u v a'''' c)"
  unfolding create_device_internal_def
  using assms by (intro pres kept kept_unread; assumption?)+

lemma kept_level_6 [kept]:
  "keeps J (um_ResyncDevices i)" "keeps J (vcm_ResyncDeviceAdjacencies E R i)"
  unfolding um_ResyncDevices_def vcm_ResyncDeviceAdjacencies_def
  by (intro pres kept)+

lemma kept_level_6_D [kept_unread]:
  assumes "\<not> D"
  shows "keeps J (um_CreateDeviceWithAutogenData E i s t)" "keeps J (um_CreateDevice E i a)"
  unfolding um_CreateDeviceWithAutogenData_def um_CreateDevice_def
  using assms by (intro pres kept kept_unread; assumption?)+

lemma kept_level_7_D [kept_unread]:
  assumes "\<not> D"
  shows "keeps J (slot_new_or_exhausted E i s t u j)"
  unfolding slot_new_or_exhausted_def
  using assms by (intro pres kept kept_unread; assumption?)+

lemma kept_level_8_D [kept_unread]:
  assumes "\<not> D"
  shows "keeps J (um_AssignDeviceSlot E i s t u)"
  unfolding um_AssignDeviceSlot_def found_or_next_def
  using assms by (intro pres kept kept_unread; assumption?)+

end

section \<open>The invariants of the system\<close>

text \<open>
  Names and identifiers of users are unique (\<open>users_wf\<close>), priorities and identifiers of LDAP
  configurations are unique (\<open>ldaps_distinct\<close>), and no device template has more devices than the
  limit (\<open>within_limit\<close>).  For each the frame treats all operations but those whose lemmas the theories
  \<open>Users\<close>, \<open>Ldap_Config\<close> and \<open>Devices\<close> provide.
\<close>

lemma users_wf_keys: "user_keys d' = user_keys d \<Longrightarrow> users_wf d \<Longrightarrow> users_wf d'"
proof -
  assume "user_keys d' = user_keys d"
  then have "map fst (user_keys d') = map fst (user_keys d)" "map snd (user_keys d') = map snd (user_keys d)" by simp_all
  then show "users_wf d \<Longrightarrow> users_wf d'" by (simp add: users_wf_def usernames_def user_keys_def comp_def)
qed

lemma kept_not_False: "\<not> False"
  by simp

text \<open>
  An invariant that all operations keep: it has a frame, and the operations that write what it reads
  keep it.  Those that create devices keep it where the limit is \<open>N\<close>.
\<close>

locale system_invariant = frame J U L D for J and U L D :: bool +
  fixes N :: int
  assumes users_kept: "keeps J (um_CreateUser E C a)" "keeps J (um_UpdateUser C i u)" "keeps J (um_DeleteUser i)"
    and ldaps_kept: "keeps J (um_CreateLdapConfig E X l)" "keeps J (um_UpdateLdapConfig E X l s)"
      "keeps J (um_DeleteLdapConfig X s)"
    and devices_kept: "env_dpu_limit E = N \<Longrightarrow> keeps J (um_CreateDevice E i v)"
      "env_dpu_limit E = N \<Longrightarrow> keeps J (um_CreateDeviceWithAutogenData E i ext info)"
      "env_dpu_limit E = N \<Longrightarrow> keeps J (um_AssignDeviceSlot E i sid ext info)"
begin

lemmas critical_kept [kept] = users_kept ldaps_kept devices_kept

end

interpretation users_frame: frame users_wf True False False
  by unfold_locales (auto intro: users_wf_keys)

interpretation ldaps_frame: frame ldaps_distinct False True False
  by unfold_locales (simp add: ldaps_distinct_def)

interpretation limit_frame: frame "within_limit N" False False True for N
proof
  fix d d'
  assume "within_limit N d" "True \<Longrightarrow> fewer d d'"
  then show "within_limit N d'" unfolding within_limit_def fewer_def by (meson of_nat_mono order_trans)
qed

interpretation users: system_invariant users_wf True False False N for N
  by unfold_locales (rule keeps_users_wf users_frame.kept_level_2_L users_frame.kept_level_6_D
      users_frame.kept_level_8_D kept_not_False)+

interpretation ldaps: system_invariant ldaps_distinct False True False N for N
  by unfold_locales (rule keeps_ldaps_distinct ldaps_frame.kept_level_3_U ldaps_frame.kept_level_4_U
      ldaps_frame.kept_level_6_D ldaps_frame.kept_level_8_D kept_not_False)+

interpretation limit: system_invariant "within_limit N" False False True N for N
proof unfold_locales
  fix E :: env and i v ext info sid
  assume N: "env_dpu_limit E = N"
  show "keeps (within_limit N) (um_CreateDevice E i v)"
    "keeps (within_limit N) (um_CreateDeviceWithAutogenData E i ext info)"
    "keeps (within_limit N) (um_AssignDeviceSlot E i sid ext info)"
    using keeps_within_limit [of E] unfolding N .
qed (rule limit_frame.kept_level_3_U limit_frame.kept_level_4_U limit_frame.kept_level_2_L kept_not_False)+

end
