(* ===== verification/Rest_Invariants.thy ===== *)
theory Rest_Invariants
  imports Invariants Rest_Access Rpc_Client
begin

text \<open>
  The invariants of the system under everything that the orchestrator serves: the REST requests
  (\<open>src/service/rest\<close>), the calls of VPN clients, VPN servers and the healthcheck service
  (\<open>src/service/rpc\<close>), the enforcement of the device limit and the periodic invalidation of sessions.
  The locale \<open>system_invariant\<close> carries an invariant of the database from the operations of the managers
  to the handlers and to the routes; the reachable states of the orchestrator satisfy all three.
\<close>

section \<open>Handlers\<close>

definition serves :: "(db \<Rightarrow> bool) \<Rightarrow> 'a oop \<Rightarrow> bool" where
  "serves J m = preserves (\<lambda>g. J (w_db (oc_world g))) m"

lemma servesD: "serves J m \<Longrightarrow> J (w_db (oc_world g)) \<Longrightarrow> J (w_db (oc_world (snd (m g))))"
  by (simp add: serves_def preserves_def)

named_theorems served \<open>handlers that keep an invariant of the database\<close>

lemma serves_on_world [served]: "keeps J m \<Longrightarrow> serves J (on_world m)"
  by (auto simp: serves_def preserves_def keeps_def on_world_def split: prod.split)

lemma serves_control [served]:
  "serves J (ret y)" "serves J (throw e)" "serves J (gets field)" "serves J c \<Longrightarrow> serves J (when_do b c)"
  "serves J m \<Longrightarrow> (\<And>x. serves J (k x)) \<Longrightarrow> serves J (try_do m w k)"
  "serves J n \<Longrightarrow> (\<And>r. serves J (h r)) \<Longrightarrow> serves J (attempt n h)"
  "(\<And>acc x. serves J (f acc x)) \<Longrightarrow> serves J (for_fold f acc xs)"
  "(\<And>x. serves J (e' x)) \<Longrightarrow> serves J (for_map e' ys)"
  unfolding serves_def by (auto intro!: pres)

lemma serves_cases [served]:
  "serves J m \<Longrightarrow> serves J n \<Longrightarrow> serves J (if b then m else n)" "serves J (z v) \<Longrightarrow> serves J (Let v z)"
  "(\<And>y. serves J (p y)) \<Longrightarrow> (\<And>x. serves J (q x)) \<Longrightarrow> serves J (case s of Inl y \<Rightarrow> p y | Inr x \<Rightarrow> q x)"
  "serves J n' \<Longrightarrow> (\<And>x. serves J (f x)) \<Longrightarrow> serves J (case t of None \<Rightarrow> n' | Some x \<Rightarrow> f x)"
  "(\<And>x y. serves J (r x y)) \<Longrightarrow> serves J (case u of (x, y) \<Rightarrow> r x y)"
  by (auto split: sum.split option.split prod.split)

lemma serves_statuses [served]: "serves J (set_status i e)" "serves J (set_hc_status e)"
  "serves J (modify (oc_status_update f))"
  by (auto simp: serves_def set_status_def set_hc_status_def intro!: preserves_modify)

lemma serves_steps [served]:
  "serves J (respond c bs)" "keeps J m \<Longrightarrow> (\<And>x. serves J (k x)) \<Longrightarrow> serves J (call m bad k)"
  "(\<And>i. serves J (f i)) \<Longrightarrow> serves J (with_id s f)" "(\<And>i. serves J (f i)) \<Longrightarrow> serves J (with_id_json s f)"
  "(\<And>y. serves J (d y)) \<Longrightarrow> serves J (with_json parse ok rq d)"
  unfolding respond_def call_def with_id_def with_id_json_def with_json_def
  by (auto intro!: served split: option.split sum.split)

context system_invariant
begin

lemma kept_auth [kept]:
  "keeps J (rest_basicAuth R rq)" "keeps J (rest_jwtAuth R rq)" "keeps J (getTokenForUser R n pw)"
  unfolding rest_basicAuth_def rest_jwtAuth_def getTokenForUser_def
  by (intro pres kept)+

lemma kept_bodies [kept]:
  "keeps J (create_adjacency_of E s d c)" "keeps J (update_adjacency_of E i s d c)"
  "keeps J (create_adjacency_template_of sv u a)" "keeps J (update_adjacency_template_of i sv u a)"
  unfolding create_adjacency_of_def update_adjacency_of_def create_adjacency_template_of_def
    update_adjacency_template_of_def
  by (intro pres kept)+

lemma served_users [served]:
  "serves J (handleCreateUser R rq)" "serves J (handleGetAllUsers rq)" "serves J (handleGetUser rq)"
  "serves J (handleUpdateUser R rq)" "serves J (handleUpdateUserPassword R rq)"
  "serves J (handleDeleteUser rq)" "serves J (handleGetJWT R rq)"
  "serves J (handleGetMFAEnabledAuthTypes R rq)" "serves J (handleGetMFAUserTOTPSecrets R rq)"
  "serves J (handleCreateMFAUserTOTPSecrets R rq)" "serves J (handleUpdateMFAUserTOTPSecrets R rq)"
  "serves J (handleGetMFACertificateCAs R rq)" "serves J (handleGetMFACertificateCRLs R rq)"
  "serves J (handleAddMFACertificateCA R rq)" "serves J (handleAddMFACertificateCRL R rq)"
  "serves J (handleDeleteMFACertificateCA rq)" "serves J (handleDeleteMFACertificateCRL rq)"
  "serves J (handleGetAllAddressPools rq)" "serves J (handleGetAddressPool rq)"
  "serves J (handleCreateAddressPool R rq)" "serves J (handleUpdateAddressPool R rq)"
  "serves J (handleDeleteAddressPool rq)" "serves J (handleGetDevicesByTemplateID R rq)"
  "serves J (handleGetDeviceAutogenData R rq)" "serves J (handleUpdateDevice R rq)"
  "serves J (handleDeleteDevice rq)" "serves J (handleResyncDevices rq)"
  unfolding handleCreateUser_def handleGetAllUsers_def handleGetUser_def handleUpdateUser_def
    handleUpdateUserPassword_def handleDeleteUser_def handleGetJWT_def handleGetMFAEnabledAuthTypes_def
    handleGetMFAUserTOTPSecrets_def handleCreateMFAUserTOTPSecrets_def handleUpdateMFAUserTOTPSecrets_def
    handleGetMFACertificateCAs_def handleGetMFACertificateCRLs_def handleAddMFACertificateCA_def
    handleAddMFACertificateCRL_def handleDeleteMFACertificateCA_def handleDeleteMFACertificateCRL_def
    handleGetAllAddressPools_def handleGetAddressPool_def handleCreateAddressPool_def
    handleUpdateAddressPool_def handleDeleteAddressPool_def handleGetDevicesByTemplateID_def
    handleGetDeviceAutogenData_def handleUpdateDevice_def handleDeleteDevice_def handleResyncDevices_def
    with_pool_def
  by (intro served pres kept)+

lemma served_vpn [served]:
  "serves J (handleGetAllServers rq)" "serves J (handleGetAllServersStatuses R rq)"
  "serves J (handleGetServer rq)" "serves J (handleCreateServer R rq)" "serves J (handleUpdateServer R rq)"
  "serves J (handleDeleteServer rq)" "serves J (handleGetServerVPNConfig R rq)"
  "serves J (handleUpdateServerVPNConfig R rq)" "serves J (handleGetVPNServerSecrets R rq)"
  "serves J (handleGetPremiumFeatures R rq)" "serves J (handleCreateDeviceTemplateForUser R rq)"
  "serves J (handleUpdateDeviceTemplateByUserID R rq)" "serves J (handleGetDeviceTemplateByUserID rq)"
  "serves J (handleDeleteDeviceTemplateByUserID rq)" "serves J (handleCreateVPNAdjacency R rq)"
  "serves J (handleUpdateVPNAdjacency R rq)" "serves J (handleDeleteVPNAdjacency rq)"
  "serves J (handleGetVPNServerAdjacencies R rq)" "serves J (handleGetDeviceAdjacenciesByUserID R rq)"
  "serves J (handleResyncDeviceAdjacencies R rq)" "serves J (handleGetVPNUserAdjacencyTemplates rq)"
  "serves J (handleCreateVPNAdjacencyTemplate R rq)" "serves J (handleUpdateVPNAdjacencyTemplate R rq)"
  "serves J (handleDeleteVPNAdjacencyTemplate rq)"
  unfolding handleGetAllServers_def handleGetAllServersStatuses_def handleGetServer_def
    handleCreateServer_def handleUpdateServer_def handleDeleteServer_def handleGetServerVPNConfig_def
    handleUpdateServerVPNConfig_def handleGetVPNServerSecrets_def handleGetPremiumFeatures_def
    handleCreateDeviceTemplateForUser_def handleUpdateDeviceTemplateByUserID_def
    handleGetDeviceTemplateByUserID_def handleDeleteDeviceTemplateByUserID_def handleCreateVPNAdjacency_def
    handleUpdateVPNAdjacency_def handleDeleteVPNAdjacency_def handleGetVPNServerAdjacencies_def
    handleGetDeviceAdjacenciesByUserID_def handleResyncDeviceAdjacencies_def
    handleGetVPNUserAdjacencyTemplates_def handleCreateVPNAdjacencyTemplate_def
    handleUpdateVPNAdjacencyTemplate_def handleDeleteVPNAdjacencyTemplate_def
    service_status_def server_adjacency_ext_def
  by (intro served pres kept)+

lemma served_ldap [served]:
  "serves J (handleGetAllLdapConfigs rq)" "serves J (handleGetLdapConfig R rq)"
  "serves J (handleCreateLdapConfig R rq)" "serves J (handleUpdateLdapConfig R rq)"
  "serves J (handleDeleteLdapConfig R rq)" "serves J (handleLdapResync rq)"
  "serves J (handleGetLdapSyncStatus rq)" "serves J (handleCreateLdapTemplate R rq)"
  "serves J (handleUpdateLdapTemplate R rq)" "serves J (handleDeleteLdapTemplate rq)"
  "serves J (handleGetAllLdapTemplates rq)" "serves J (handleGetLdapTemplateServers rq)"
  "serves J (handleCreateLdapTemplateServer R rq)" "serves J (handleUpdateLdapTemplateServer R rq)"
  "serves J (handleDeleteLdapTemplateServer rq)"
  unfolding handleGetAllLdapConfigs_def handleGetLdapConfig_def handleCreateLdapConfig_def
    handleUpdateLdapConfig_def handleDeleteLdapConfig_def handleLdapResync_def handleGetLdapSyncStatus_def
    handleCreateLdapTemplate_def handleUpdateLdapTemplate_def handleDeleteLdapTemplate_def
    handleGetAllLdapTemplates_def handleGetLdapTemplateServers_def handleCreateLdapTemplateServer_def
    handleUpdateLdapTemplateServer_def handleDeleteLdapTemplateServer_def
    with_ldap_template_def with_existing_server_def
  by (intro served pres kept)+

lemma served_device_creation [served]: "env_dpu_limit (re_env R) = N \<Longrightarrow> serves J (handleCreateDevice R rq)"
  unfolding handleCreateDevice_def by (intro served kept)

lemma kept_routes:
  "env_dpu_limit (re_env R) = N \<Longrightarrow> list_all (\<lambda>(_, h). \<forall>rq. serves J (h rq)) (core_routes R)"
  "list_all (\<lambda>(_, h). \<forall>rq. serves J (h rq)) (ldap_routes R)"
  by (simp_all add: core_routes_def ldap_routes_def served)

lemma served_authenticate [served]: "keeps J (auth rq) \<Longrightarrow> serves J (h rq) \<Longrightarrow> serves J (authenticate auth h rq)"
  unfolding authenticate_def by (intro served)

lemma kept_auth_of: "auth_of R = Some auth \<Longrightarrow> keeps J (auth rq)"
  by (auto simp: auth_of_def intro: kept split: if_splits)

lemma served_ServeHTTP:
  assumes "NewServer R = Inr rs" and "env_dpu_limit (re_env R) = N"
  shows "serves J (ServeHTTP R rs limited path rq)"
proof -
  from assms(1) obtain auth where auth: "auth_of R = Some auth"
    and rs: "rs = (if re_auth_type R = ''jwt'' then [((POST, ''/api/v1/jwt''), handleGetJWT R)] else []) @
       map (apsnd (authenticate auth)) (management_routes R)"
    by (auto simp: NewServer_def split: option.splits)
  have "serves J (h rq)" if "(path', h) \<in> set (management_routes R)" for path' h
    using that kept_routes [of R] assms(2) by (auto simp: management_routes_def list_all_iff split: if_splits)
  then have "serves J (h rq)" if "(path', h) \<in> set rs" for path' h
    using that kept_auth_of [OF auth] by (auto simp: rs split: if_splits intro!: served)
  then have "serves J (h rq)" if "map_of rs path = Some h" for h
    using map_of_SomeD [OF that] by (metis surj_pair)
  then show ?thesis
    unfolding ServeHTTP_def by (cases "map_of rs path") (auto intro!: served)
qed

text \<open>The services for VPN clients, VPN servers and the healthcheck service.\<close>

lemma kept_calls [kept]:
  "keeps J p \<Longrightarrow> (\<And>x. keeps J (q x)) \<Longrightarrow> keeps J (rpc_then p q)"
  "keeps J m \<Longrightarrow> (\<And>x. keeps J (k x)) \<Longrightarrow> keeps J (plainly m f k)" "keeps J (refuse msg)"
  unfolding rpc_then_def plainly_def refuse_def by (auto intro!: pres split: sum.split)

lemma kept_draw [kept]: "keeps J (draw f)"
  by (simp add: keeps_def preserves_def draw_def)

lemma kept_bool_case [kept]: "keeps J m \<Longrightarrow> keeps J n \<Longrightarrow> keeps J (case b of True \<Rightarrow> m | False \<Rightarrow> n)"
  by (cases b) simp_all

lemma kept_client_calls [kept]:
  "keeps J (BasicAuth E C ctx)" "keeps J (MfaAuth E M ctx)" "keeps J (GenerateSessionID E)"
  "keeps J (vpnc_getConfiguration E port d)"
  unfolding BasicAuth_def MfaAuth_def GenerateSessionID_def vpnc_getConfiguration_def Let_def
  by (intro pres kept)+

lemma kept_client_service [kept]:
  assumes "env_dpu_limit E = N"
  shows "keeps J (vpnc_GetConfiguration E port ctx req)"
    "keeps J (vpnc_call E C M limited (\<lambda>ctx. vpnc_GetConfiguration E port ctx req) md)"
  unfolding vpnc_GetConfiguration_def vpnc_call_def by (intro pres kept assms)+

lemma kept_TLSAuth [kept]: "keeps J (TLSAuth A peer)"
  unfolding TLSAuth_def by (auto intro!: pres kept split: peer_auth.split list.split sum.split)

lemma kept_server_service [kept]:
  "keeps J (vpns_GetConfiguration E telemetry sm)"
  "keeps J (vpns_call A limited peer (vpns_GetConfiguration E telemetry))" "keeps J hc_GetAllSessions"
  unfolding vpns_GetConfiguration_def vpns_call_def hc_GetAllSessions_def by (intro pres kept)+

lemma kept_watch_cancel [kept]: "keeps J (watch_cancel i t)"
  unfolding watch_cancel_def pg_DecreaseReplicaCount_def
  by (intro pres kept keeps_q_update) (erule step; simp add: same_frame)

lemma served_subscriptions [served]:
  "serves J (SubscribeWG sm)" "serves J (wg_return s e)" "serves J (wg_first E r s)" "serves J (wg_select ev s)"
  "serves J (wg_response r s)" "serves J (hc_first r)" "serves J (hc_select ev)" "serves J (hc_response r)"
  unfolding SubscribeWG_def wg_return_def wg_first_def wg_select_def wg_response_def hc_first_def hc_select_def
    hc_response_def hc_return_def receiveFromServer_def receiveFromHealthcheck_def
  by (auto intro!: served kept split: received.split request_data.split selected.split option.split sum.split)

end

section \<open>The orchestrator\<close>

text \<open>
  One step of the orchestrator: a REST request from its arrival to its reply, a call of a VPN client or
  of a VPN server, a subscription from one waiting point to the next, one of the two background jobs, or
  anything outside that leaves the tables alone (time passes, the database starts to fail or recovers).
  Each step may run in an environment of its own, with the limit \<open>N\<close> of the installation.
\<close>

definition orch_db :: "orch \<Rightarrow> db" where
  "orch_db g = w_db (oc_world g)"

inductive orch_step :: "int \<Rightarrow> orch \<Rightarrow> orch \<Rightarrow> bool" for N where
  rest_request: "NewServer R = Inr rs \<Longrightarrow> env_dpu_limit (re_env R) = N \<Longrightarrow>
    ServeHTTP R rs limited path rq g = (answer, g') \<Longrightarrow> orch_step N g g'"
| client_call: "env_dpu_limit E = N \<Longrightarrow>
    on_world (vpnc_call E C M limited (\<lambda>ctx. vpnc_GetConfiguration E port ctx req) md) g = (answer, g') \<Longrightarrow>
    orch_step N g g'"
| server_call: "on_world (vpns_call A limited peer (vpns_GetConfiguration E telemetry)) g = (answer, g') \<Longrightarrow>
    orch_step N g g'"
| server_connects: "SubscribeWG sm g = (answer, g') \<Longrightarrow> orch_step N g g'"
| server_subscribes: "wg_first E r s g = (answer, g') \<Longrightarrow> orch_step N g g'"
| server_notified: "wg_select ev s g = (answer, g') \<Longrightarrow> orch_step N g g'"
| server_responds: "wg_response r s g = (answer, g') \<Longrightarrow> orch_step N g g'"
| healthcheck_subscribes: "hc_first r g = (answer, g') \<Longrightarrow> orch_step N g g'"
| healthcheck_notified: "hc_select ev g = (answer, g') \<Longrightarrow> orch_step N g g'"
| healthcheck_responds: "hc_response r g = (answer, g') \<Longrightarrow> orch_step N g g'"
| healthcheck_reads: "on_world hc_GetAllSessions g = (answer, g') \<Longrightarrow> orch_step N g g'"
| limit_enforced: "on_world (um_EnforceDPULimit srt E) g = (answer, g') \<Longrightarrow> orch_step N g g'"
| sessions_checked: "on_world (um_RunSessionInvalidation expiration) g = (answer, g') \<Longrightarrow> orch_step N g g'"
| outside: "orch_db g' = orch_db g \<Longrightarrow> orch_step N g g'"

context system_invariant
begin

lemma served_run: "serves J m \<Longrightarrow> m g = (answer, g') \<Longrightarrow> J (orch_db g) \<Longrightarrow> J (orch_db g')"
  unfolding orch_db_def by (drule servesD, assumption) simp

lemma kept_by_step: "orch_step N g g' \<Longrightarrow> J (orch_db g) \<Longrightarrow> J (orch_db g')"
  by (induction rule: orch_step.induct)
    (auto elim: served_run [rotated] intro!: served served_ServeHTTP kept)

lemma kept_by_steps: "(orch_step N)\<^sup>*\<^sup>* g g' \<Longrightarrow> J (orch_db g) \<Longrightarrow> J (orch_db g')"
  by (induction rule: rtranclp_induct) (auto intro: kept_by_step)

end

section \<open>Properties\<close>

definition system_wf :: "int \<Rightarrow> db \<Rightarrow> bool" where
  "system_wf N d \<longleftrightarrow> users_wf d \<and> ldaps_distinct d \<and> within_limit N d"


lemma sample_system_wf: "system_wf 1 (orch_db sample_orch)"
  by (simp add: system_wf_def users_wf_def usernames_def ldaps_distinct_def within_limit_def template_count_def
      orch_db_def sample_orch_def world_of_def sample_db_def empty_db_def sample_device_def)


end
