(* ===== verification/Healthcheck.thy ===== *)
theory Healthcheck
  imports Rpc_Server
begin

text \<open>
  The healthcheck service: its connection to the orchestrator and its list of sessions
  (\<open>src/cmd/healthcheck/orchestrator/healthcheck.go\<close>) and the pings of VPN clients
  (\<open>src/cmd/healthcheck/vpn_client/healthcheck.go\<close>).  What the network returns is a parameter.
\<close>

section \<open>State\<close>

text \<open>The connection, the running subscription (\<open>stop\<close>) and the list of sessions; each may be \<open>nil\<close>.\<close>

record hcsvc =
  hk_conn :: bool
  hk_running :: bool
  hk_sessions :: "string set option"

type_synonym 'a hop = "(hcsvc, 'a) op"

definition NewHealthcheck :: hcsvc where
  "NewHealthcheck = \<lparr>hk_conn = False, hk_running = False, hk_sessions = None\<rparr>"

section \<open>Connection\<close>

definition hk_Disconnect :: "unit hop" where
  "hk_Disconnect = modify (\<lambda>h. h\<lparr>hk_conn := False, hk_running := False, hk_sessions := None\<rparr>)"

text \<open>The answer of \<open>GetAllSessions\<close>: an error, \<open>nil\<close> or the list.\<close>

type_synonym sessions_answer = "err + string list option"

definition requestAllSessions :: "sessions_answer \<Rightarrow> unit hop" where
  "requestAllSessions answer = (case answer of
     Inl e \<Rightarrow> throw (wrapv ''request for all session IDs'' e)
   | Inr None \<Rightarrow> throw (errors_new ''received nil instead of sessions list'')
   | Inr (Some ss) \<Rightarrow> modify (hk_sessions_update (\<lambda>_. Some (set ss))))"

definition hk_Connect :: "(err + unit) \<times> sessions_answer \<Rightarrow> unit hop" where
  "hk_Connect net = (case fst net of
     Inl e \<Rightarrow> bind_do (modify (hk_conn_update (\<lambda>_. False))) (\<lambda>_.
       throw (wrapv ''could not connect to the EntGuard orchestrator'' e))
   | Inr _ \<Rightarrow> bind_do (modify (hk_conn_update (\<lambda>_. True))) (\<lambda>_.
       try_do (requestAllSessions (snd net)) (wrapv ''could not retrieve all sessions'') (\<lambda>_.
         modify (hk_running_update (\<lambda>_. True)))))"

definition hk_reconnectAttempt :: "(err + unit) \<times> sessions_answer \<Rightarrow> unit hop" where
  "hk_reconnectAttempt net = bind_do hk_Disconnect (\<lambda>_. hk_Connect net)"

text \<open>\<open>net i\<close> is what the network does in the \<open>i\<close>-th attempt; the error of the last attempt is carried.\<close>

fun hk_attempts :: "(nat \<Rightarrow> (err + unit) \<times> sessions_answer) \<Rightarrow> nat \<Rightarrow> nat \<Rightarrow> err option \<Rightarrow> err option hop" where
  "hk_attempts net i 0 e = ret e"
| "hk_attempts net i (Suc n) e = attempt (hk_reconnectAttempt (net i)) (\<lambda>r. case r of
     Inl e' \<Rightarrow> hk_attempts net (Suc i) n (Some e')
   | Inr _ \<Rightarrow> ret None)"

text \<open>What happens for one error of the connection: whether the service goes on, or exits.\<close>

definition hk_ReconnectOnError :: "(nat \<Rightarrow> (err + unit) \<times> sessions_answer) \<Rightarrow> int \<Rightarrow> bool hop" where
  "hk_ReconnectOnError net attempts = bind_do (hk_attempts net 1 (nat attempts) None) (\<lambda>e. case e of
     None \<Rightarrow> ret True
   | Some _ \<Rightarrow> bind_do hk_Disconnect (\<lambda>_. ret False))"

section \<open>Sessions\<close>

definition IsSessionInList :: "string \<Rightarrow> bool hop" where
  "IsSessionInList s = bind_do (gets hk_sessions) (\<lambda>l. case l of
     None \<Rightarrow> throw (errors_new ''sessions list is not initialized'')
   | Some ss \<Rightarrow> ret (s \<in> ss))"

datatype ping_status = NotInitializedSessions | InvalidSession | ValidSession

definition HealthcheckPing :: "string \<Rightarrow> ping_status hop" where
  "HealthcheckPing s = attempt (IsSessionInList s) (\<lambda>r. case r of
     Inl _ \<Rightarrow> ret NotInitializedSessions
   | Inr ok \<Rightarrow> ret (if ok then ValidSession else InvalidSession))"

datatype session_op = UndefinedSessionOp | AddSessionOp | DeleteSessionOp | UnknownSessionOp

text \<open>The methods of a \<open>nil\<close> map panic.\<close>

definition with_sessions :: "(string set \<Rightarrow> 'a hop) \<Rightarrow> 'a hop" where
  "with_sessions k = bind_do (gets hk_sessions) (\<lambda>l. case l of None \<Rightarrow> throw Panic | Some ss \<Rightarrow> k ss)"

definition hk_handleNotification :: "session_op \<Rightarrow> string \<Rightarrow> unit hop" where
  "hk_handleNotification op s = (case op of
     UndefinedSessionOp \<Rightarrow> throw (errors_new ''session notification type is undefined, ignoring'')
   | AddSessionOp \<Rightarrow> with_sessions (\<lambda>ss. modify (hk_sessions_update (\<lambda>_. Some (insert s ss))))
   | DeleteSessionOp \<Rightarrow> with_sessions (\<lambda>ss.
       if s \<notin> ss then throw (errors_new ''session not found in session list'')
       else modify (hk_sessions_update (\<lambda>_. Some (ss - {s}))))
   | UnknownSessionOp \<Rightarrow> throw (errors_new ''unsupported peer notification type''))"

text \<open>The goroutine that receives: what it passes on of a stream, where each message comes with the
  decision of the rate limiter.\<close>

fun received_updates :: "((session_op \<times> string) received \<times> bool) list \<Rightarrow> (session_op \<times> string) list" where
  "received_updates [] = []"
| "received_updates ((EndOfStream, _) # evs) = []"
| "received_updates ((RecvError _, _) # evs) = []"
| "received_updates ((Received m, limited) # evs) = (if limited then received_updates evs else m # received_updates evs)"

text \<open>
  One turn of the loop of \<open>subscribeForChanges\<close>: a closed channel, the end of the context, or a message
  whose answer is sent with the given outcome.  The result is \<open>None\<close> while the loop goes on, else the error
  that is reported for a reconnection, if any.
\<close>

datatype update_event = UpdatesClosed | UpdatesDone | Update session_op string "err option"

definition hk_update :: "update_event \<Rightarrow> (err option option \<times> err option) hop" where
  "hk_update ev = (case ev of
     UpdatesClosed \<Rightarrow> ret (Some (Some (errors_new ''disconnected from update notifications'')), None)
   | UpdatesDone \<Rightarrow> ret (Some None, None)
   | Update op s sent \<Rightarrow> attempt (hk_handleNotification op s) (\<lambda>r.
       let answer = (case r of Inl e \<Rightarrow> Some e | Inr _ \<Rightarrow> None) in
       ret (case sent of None \<Rightarrow> None | Some e \<Rightarrow> Some (Some e), answer)))"

fun hk_updates :: "update_event list \<Rightarrow> err option option hop" where
  "hk_updates [] = ret None"
| "hk_updates (ev # evs) = bind_do (hk_update ev) (\<lambda>(end_of_loop, _). case end_of_loop of
     None \<Rightarrow> hk_updates evs
   | Some reported \<Rightarrow> ret (Some reported))"

text \<open>The stream may fail to open and the subscription may fail to be sent; both are reported.\<close>

definition hk_subscribeForChanges :: "err option \<Rightarrow> err option \<Rightarrow> update_event list \<Rightarrow> err option option hop" where
  "hk_subscribeForChanges opened subscribed evs = (case opened of
     Some e \<Rightarrow> ret (Some (Some e))
   | None \<Rightarrow> (case subscribed of
       Some e \<Rightarrow> ret (Some (Some e))
     | None \<Rightarrow> hk_updates evs))"

section \<open>Reconnection\<close>

text \<open>The sessions that an attempt gets, when it succeeds.\<close>

fun answered :: "(err + unit) \<times> sessions_answer \<Rightarrow> string list option" where
  "answered (Inr _, Inr (Some ss)) = Some ss"
| "answered _ = None"

definition connected_with :: "string list \<Rightarrow> hcsvc" where
  "connected_with ss = \<lparr>hk_conn = True, hk_running = True, hk_sessions = Some (set ss)\<rparr>"

text \<open>The network fails with errors, not with panics.\<close>

definition no_panic :: "(nat \<Rightarrow> (err + unit) \<times> sessions_answer) \<Rightarrow> bool" where
  "no_panic net = (\<forall>i. fst (net i) \<noteq> Inl Panic \<and> snd (net i) \<noteq> Inl Panic)"

lemma reconnect_attempt_ok: "answered net = Some ss \<Longrightarrow> hk_reconnectAttempt net h = (Inr (), connected_with ss)"
  by (cases net rule: answered.cases)
    (simp_all add: hk_reconnectAttempt_def hk_Connect_def hk_Disconnect_def requestAllSessions_def connected_with_def try_do_def modify_def)

lemma reconnect_attempt_failed:
  assumes "answered net = None" "fst net \<noteq> Inl Panic" "snd net \<noteq> Inl Panic"
  shows "\<exists>e h'. e \<noteq> Panic \<and> hk_reconnectAttempt net h = (Inl e, h')"
  using assms
  by (cases "fst net"; cases net rule: answered.cases)
    (simp_all add: hk_reconnectAttempt_def hk_Connect_def hk_Disconnect_def requestAllSessions_def try_do_def modify_def throw_def)

lemma attempt_step:
  "m h = (Inr x, h') \<Longrightarrow> attempt m k h = k (Inr x) h'"
  "m h = (Inl e, h') \<Longrightarrow> e \<noteq> Panic \<Longrightarrow> attempt m k h = k (Inl e) h'"
  by (simp_all add: attempt_def split: err.split)

lemma hk_attempts_outcome:
  assumes "no_panic net"
  shows "case find (\<lambda>k. answered (net k) \<noteq> None) [i..<i + n] of
      Some j \<Rightarrow> hk_attempts net i n e h = (Inr None, connected_with (the (answered (net j))))
    | None \<Rightarrow> \<exists>e' h'. hk_attempts net i n e h = (Inr (if n = 0 then e else Some e'), if n = 0 then h else h')"
proof (induction n arbitrary: i e h)
  case 0
  then show ?case by (simp add: ret_def)
next
  case (Suc n)
  have upt: "[i..<i + Suc n] = i # [Suc i..<Suc i + n]" by (simp add: upt_rec)
  show ?case
  proof (cases "answered (net i)")
    case (Some ss)
    then show ?thesis
      unfolding upt find.simps by (simp add: attempt_step(1) [OF reconnect_attempt_ok] ret_def)
  next
    case None
    with assms obtain e1 h1 where "e1 \<noteq> Panic" "hk_reconnectAttempt (net i) h = (Inl e1, h1)"
      using reconnect_attempt_failed [of "net i" h] by (auto simp: no_panic_def)
    then have "hk_attempts net i (Suc n) e h = hk_attempts net (Suc i) n (Some e1) h1"
      by (simp add: attempt_step(2))
    with Suc.IH [of "Suc i" "Some e1" h1] None show ?thesis
      unfolding upt find.simps by (cases "n = 0") (auto split: option.splits)
  qed
qed

text \<open>C15. A lost connection is retried at most the configured number of times.  The first attempt that succeeds
  leaves the service connected with exactly the sessions of that answer; if all fail the service is
  disconnected, without sessions, and exits.\<close>

theorem reconnection_ends:
  assumes "no_panic net"
  shows "case find (\<lambda>k. answered (net k) \<noteq> None) [1..<1 + nat n] of
      Some j \<Rightarrow> hk_ReconnectOnError net n h = (Inr True, connected_with (the (answered (net j))))
    | None \<Rightarrow> hk_ReconnectOnError net n h = (if 0 < n then (Inr False, NewHealthcheck) else (Inr True, h))"
proof (cases "find (\<lambda>k. answered (net k) \<noteq> None) [1..<1 + nat n]")
  case None
  with hk_attempts_outcome [OF assms, of 1 "nat n" None h] show ?thesis
    by (cases "0 < n") (auto simp: hk_ReconnectOnError_def try_do_def ret_def hk_Disconnect_def modify_def NewHealthcheck_def
        simp del: upt_Suc)
next
  case (Some j)
  with hk_attempts_outcome [OF assms, of 1 "nat n" None h] show ?thesis
    by (simp add: hk_ReconnectOnError_def try_do_def ret_def del: upt_Suc)
qed

theorem reconnection_ends_witness:
  "hk_ReconnectOnError (\<lambda>i. if i = 2 then (Inr (), Inr (Some [''s''])) else (Inl DbError, Inr None)) 3 NewHealthcheck =
     (Inr True, connected_with [''s''])"
proof -
  let ?net = "\<lambda>i :: nat. if i = 2 then (Inr (), Inr (Some [''s''])) else (Inl DbError, Inr None) :: (err + unit) \<times> sessions_answer"
  have "no_panic ?net" by (simp add: no_panic_def)
  from reconnection_ends [OF this, of 3 NewHealthcheck] show ?thesis by (simp add: upt_rec numeral_2_eq_2)
qed

section \<open>The sessions of the orchestrator and of the service\<close>

text \<open>
  The orchestrator announces a change of a device's session to a subscribed service
  (\<open>handle_session_update\<close>); \<open>notifyDeviceSessionChanges\<close> gives up after five seconds without a listener.  The
  link between both: the session of each device, whether the service is subscribed, and the messages on
  their way.  A change without a subscriber is taken for lost.
\<close>

definition session_messages :: "string \<Rightarrow> string \<Rightarrow> hc_ntf list" where
  "session_messages old new =
     (if old \<noteq> [] then [HcDeleteSession old] else []) @ (if new \<noteq> [] then [HcAddSession new] else [])"

lemma session_update_sends:
  assumes "IsHealthCheckEnabledForDevice (sn_device n) w = (Inr True, w1)" "w_drops w1 = []"
  shows "handle_session_update (Some n) w =
    (Inr [], w1\<lparr>w_hc_sent := w_hc_sent w1 @ session_messages (sn_old n) (sn_new n)\<rparr>)"
  using assms
  by (simp add: handle_session_update_def attempt_def try_do_def when_do_def ret_def notify_device_session_changes_def
      deliver_def session_messages_def)

text \<open>A change is not announced when no server of the device has a healthcheck address any more.\<close>

lemma session_end_not_announced:
  assumes "IsHealthCheckEnabledForDevice (sn_device n) w = (Inr False, w1)"
  shows "handle_session_update (Some n) w = (Inr [], w1)"
  using assms by (simp add: handle_session_update_def attempt_def ret_def)

record hc_link =
  lk_device :: "int \<Rightarrow> string"
  lk_subscribed :: bool
  lk_queue :: "hc_ntf list"
  lk_svc :: hcsvc

definition live_sessions :: "hc_link \<Rightarrow> string set" where
  "live_sessions y = range (lk_device y) - {[]}"

definition lk_change :: "int \<Rightarrow> string \<Rightarrow> hc_link \<Rightarrow> hc_link" where
  "lk_change i new y = y\<lparr>lk_device := (lk_device y)(i := new),
     lk_queue := (if lk_subscribed y then lk_queue y @ session_messages (lk_device y i) new else lk_queue y)\<rparr>"

definition lk_connect :: "string list \<Rightarrow> hc_link \<Rightarrow> hc_link" where
  "lk_connect ss y = y\<lparr>lk_svc := snd (hk_reconnectAttempt (Inr (), Inr (Some ss)) (lk_svc y)), lk_subscribed := False, lk_queue := []\<rparr>"

definition lk_subscribe :: "hc_link \<Rightarrow> hc_link" where
  "lk_subscribe y = y\<lparr>lk_subscribed := True, lk_queue := []\<rparr>"

fun update_of :: "hc_ntf \<Rightarrow> update_event" where
  "update_of (HcAddSession s) = Update AddSessionOp s None"
| "update_of (HcDeleteSession s) = Update DeleteSessionOp s None"

definition lk_deliver :: "hc_link \<Rightarrow> hc_link" where
  "lk_deliver y = y\<lparr>lk_svc := snd (hk_update (update_of (hd (lk_queue y))) (lk_svc y)), lk_queue := tl (lk_queue y)\<rparr>"

definition lk_disconnect :: "hc_link \<Rightarrow> hc_link" where
  "lk_disconnect y = y\<lparr>lk_svc := snd (hk_Disconnect (lk_svc y)), lk_subscribed := False, lk_queue := []\<rparr>"

text \<open>
  The steps in which nothing gets lost: no session changes between the answer with all sessions and the
  subscription, no message is dropped by the rate limiter or by a timeout, and new sessions are fresh.
\<close>

definition in_gap :: "hc_link \<Rightarrow> bool" where
  "in_gap y = (hk_sessions (lk_svc y) \<noteq> None \<and> \<not> lk_subscribed y)"

inductive lk_step :: "hc_link \<Rightarrow> hc_link \<Rightarrow> bool" where
  change: "\<not> in_gap y \<Longrightarrow> new \<notin> live_sessions y \<Longrightarrow> lk_step y (lk_change i new y)"
| connect: "\<not> lk_subscribed y \<Longrightarrow> set ss = live_sessions y \<Longrightarrow> lk_step y (lk_connect ss y)"
| subscribe: "in_gap y \<Longrightarrow> lk_step y (lk_subscribe y)"
| deliver: "lk_queue y \<noteq> [] \<Longrightarrow> lk_step y (lk_deliver y)"
| disconnect: "lk_step y (lk_disconnect y)"

definition lk_init :: hc_link where
  "lk_init = \<lparr>lk_device = (\<lambda>_. []), lk_subscribed = False, lk_queue = [], lk_svc = NewHealthcheck\<rparr>"

definition apply_message :: "string set \<Rightarrow> hc_ntf \<Rightarrow> string set" where
  "apply_message l m = (case m of HcAddSession s \<Rightarrow> insert s l | HcDeleteSession s \<Rightarrow> l - {s})"

definition one_owner :: "hc_link \<Rightarrow> bool" where
  "one_owner y = (\<forall>i j. lk_device y i = lk_device y j \<longrightarrow> lk_device y i \<noteq> [] \<longrightarrow> i = j)"

definition lk_ok :: "hc_link \<Rightarrow> bool" where
  "lk_ok y \<longleftrightarrow> one_owner y \<and> (case hk_sessions (lk_svc y) of
     None \<Rightarrow> \<not> lk_subscribed y \<and> lk_queue y = []
   | Some l \<Rightarrow> (\<not> lk_subscribed y \<longrightarrow> lk_queue y = []) \<and> foldl apply_message l (lk_queue y) = live_sessions y)"

lemma live_change:
  assumes "one_owner y" "new \<notin> live_sessions y"
  shows "live_sessions (lk_change i new y) = foldl apply_message (live_sessions y) (session_messages (lk_device y i) new)"
  using assms
  by (auto simp: live_sessions_def lk_change_def session_messages_def apply_message_def one_owner_def image_iff fun_upd_def)

lemma one_owner_change: "one_owner y \<Longrightarrow> new \<notin> live_sessions y \<Longrightarrow> one_owner (lk_change i new y)"
  by (auto simp: one_owner_def lk_change_def live_sessions_def)

lemma handled_message:
  assumes "hk_sessions h = Some l"
  shows "hk_sessions (snd (hk_update (update_of m) h)) = Some (apply_message l m)"
  using assms
  by (cases m) (auto simp: hk_update_def hk_handleNotification_def with_sessions_def attempt_def try_do_def gets_def
      modify_def throw_def ret_def apply_message_def errors_new_def)

lemma lk_ok_step: "lk_step y y' \<Longrightarrow> lk_ok y \<Longrightarrow> lk_ok y'"
proof (induction rule: lk_step.induct)
  case (change y new i)
  then have o: "one_owner y" "one_owner (lk_change i new y)" by (auto simp: lk_ok_def intro: one_owner_change)
  with change live_change [of y new i] show ?case
    by (auto simp: lk_ok_def in_gap_def lk_change_def split: option.splits)
next
  case (connect y ss)
  then show ?case
    by (simp add: lk_ok_def lk_connect_def one_owner_def live_sessions_def connected_with_def
        reconnect_attempt_ok [of "(Inr (), Inr (Some ss))" ss, simplified])
next
  case (subscribe y)
  then show ?case by (auto simp: lk_ok_def lk_subscribe_def in_gap_def one_owner_def live_sessions_def)
next
  case (deliver y)
  then obtain m q where q: "lk_queue y = m # q" by (cases "lk_queue y") auto
  with deliver obtain l where "hk_sessions (lk_svc y) = Some l" by (auto simp: lk_ok_def split: option.splits)
  from handled_message [OF this, of m] deliver.prems q this show ?case
    by (auto simp: lk_ok_def lk_deliver_def one_owner_def live_sessions_def split: option.splits)
next
  case (disconnect y)
  then show ?case by (simp add: lk_ok_def lk_disconnect_def hk_Disconnect_def modify_def one_owner_def)
qed

lemma lk_reach_ok: "lk_step\<^sup>*\<^sup>* lk_init y \<Longrightarrow> lk_ok y"
proof (induction rule: rtranclp_induct)
  case base
  show ?case by (simp add: lk_ok_def lk_init_def NewHealthcheck_def one_owner_def)
qed (rule lk_ok_step)


text \<open>
  A session that ends after the answer with all sessions, and whose announcement is given up before the
  subscription, stays valid for the service.
\<close>

lemma session_end_in_gap_lost:
  "let y = lk_subscribe (lk_change 1 [] (lk_connect [''s''] (lk_change 1 ''s'' lk_init))) in
   lk_subscribed y \<and> lk_queue y = [] \<and> ''s'' \<notin> live_sessions y \<and> fst (HealthcheckPing ''s'' (lk_svc y)) = Inr ValidSession"
  by (simp add: Let_def lk_subscribe_def lk_change_def lk_connect_def lk_init_def live_sessions_def HealthcheckPing_def
      IsSessionInList_def attempt_def try_do_def gets_def ret_def connected_with_def image_iff
      reconnect_attempt_ok [of "(Inr (), Inr (Some [''s'']))" "[''s'']", simplified])


end
