(* ===== verification/Vpp_Client.thy ===== *)
theory Vpp_Client
  imports Vpn_Server
begin

text \<open>
  The WireGuard client for VPP (\<open>src/cmd/vpn_server/vpns/wireguard/vpp/client.go\<close>,
  \<open>vpp/vpp_calls.go\<close>), the second implementation of \<open>wireguard.Client\<close>.  The govpp packages and the VPP
  process behind them are parameters; \<open>'k\<close> is the state of VPP.
\<close>

section \<open>Requests\<close>

text \<open>An IPv4 prefix: the address and the length.\<close>

type_synonym prefix4 = "32 word \<times> nat"

record vpp_peer =
  vq_key :: "nat list"
  vq_if :: "32 word"
  vq_n_allowed :: "8 word"
  vq_allowed :: "prefix list"
  vq_endpoint :: "addr option"
  vq_keepalive :: "16 word"

datatype vpp_call =
    SetInterfaceName "32 word" string | SetMtu "32 word" "32 word" | SetUp "32 word"
  | AddDelAddress bool "32 word" prefix4 | AddDelRoute bool "32 word" prefix4
  | DeleteInterface "32 word" | PeerRemove "32 word"

datatype vpp_create = CreateInterface "nat list" "16 word" string | PeerAdd vpp_peer

text \<open>
  Calls without and with a resulting index; the dumps of interfaces (index and tag) and of the addresses
  of one; \<open>ip_types.ParsePrefix\<close> and \<open>ip_types.ParseAddress\<close>; the connection; the order in which a map of
  destinations is visited.
\<close>

record 'k vpp =
  vd_do :: "vpp_call \<Rightarrow> 'k \<Rightarrow> err option \<times> 'k"
  vd_new :: "vpp_create \<Rightarrow> 'k \<Rightarrow> (err + 32 word) \<times> 'k"
  vd_interfaces :: "'k \<Rightarrow> err + (32 word \<times> string) list"
  vd_addresses :: "32 word \<Rightarrow> 'k \<Rightarrow> err + string list"
  vd_prefix :: "string \<Rightarrow> err + prefix"
  vd_addr :: "string \<Rightarrow> err + addr"
  vd_connect :: "'k \<Rightarrow> err option"
  vd_version :: "'k \<Rightarrow> err option"
  vd_order :: "string list \<Rightarrow> string list"

definition invalid_index :: "32 word" where
  "invalid_index = NOT 0"

section \<open>The client\<close>

text \<open>
  \<open>vx_peers\<close> is \<open>peerToIndexMapping\<close>; its keys, pointers to messages, are told apart by the messages, which
  is what \<open>DelPeers\<close> compares.  \<open>vx_dests\<close> holds the keys of \<open>destOfCreatedroutes\<close>.
\<close>

record 'k vppc =
  vx_vpp :: 'k
  vx_cfg :: "pb_wg option"
  vx_if :: "32 word"
  vx_peers :: "(pb_peer \<times> 32 word) list"
  vx_dests :: "string list"

type_synonym ('k, 'a) xop = "('k vppc, 'a) op"

definition vcall :: "'k vpp \<Rightarrow> vpp_call \<Rightarrow> ('k, unit) xop" where
  "vcall v c = (\<lambda>s. case vd_do v c (vx_vpp s) of
     (None, k) \<Rightarrow> (Inr (), s\<lparr>vx_vpp := k\<rparr>) | (Some e, k) \<Rightarrow> (Inl e, s\<lparr>vx_vpp := k\<rparr>))"

definition vcreate :: "'k vpp \<Rightarrow> vpp_create \<Rightarrow> ('k, 32 word) xop" where
  "vcreate v c = (\<lambda>s. case vd_new v c (vx_vpp s) of (r, k) \<Rightarrow> (r, s\<lparr>vx_vpp := k\<rparr>))"

text \<open>\<open>ipv4ToVPPAddress\<close>: an IPv6 address becomes 0.0.0.0.\<close>

fun ipv4_to_vpp :: "addr \<Rightarrow> 32 word" where
  "ipv4_to_vpp (V4 w) = w"
| "ipv4_to_vpp (V6 w z) = (if is4in6 (V6 w z) then ucast w else 0)"
| "ipv4_to_vpp NoAddr = 0"

definition network_to_vpp :: "addr \<times> nat \<Rightarrow> prefix4" where
  "network_to_vpp x = (ipv4_to_vpp (pfx_addr (masked (mk_prefix (fst x) (int (snd x))))), snd x)"

definition cidr_of :: "string \<Rightarrow> err + addr \<times> nat" where
  "cidr_of t = (case cidr_parts t of None \<Rightarrow> Inl (errors_new ''ParseCIDR'') | Some x \<Rightarrow> Inr x)"

definition vx_addRemoveRoute :: "'k vpp \<Rightarrow> bool \<Rightarrow> string \<Rightarrow> 32 word \<Rightarrow> ('k, unit) xop" where
  "vx_addRemoveRoute v add d i =
     try_do (lift (cidr_of d)) (wrapv ''failed to parse destination subnet'') (\<lambda>x.
     try_do (vcall v (AddDelRoute add i (network_to_vpp x))) (wrapw ''failed to add or remove route'') ret)"

definition vx_setMTU :: "'k vpp \<Rightarrow> 32 word \<Rightarrow> int \<Rightarrow> ('k, unit) xop" where
  "vx_setMTU v i m =
     guard_do (m \<le> 0) (errors_new ''MTU value cannot be less than or equal to zero'')
       (try_do (vcall v (SetMtu i (word_of_int m))) (wrapw ''failed to set MTU value'') ret)"

definition vx_addRemoveAddress :: "'k vpp \<Rightarrow> 32 word \<Rightarrow> string \<Rightarrow> bool \<Rightarrow> ('k, unit) xop" where
  "vx_addRemoveAddress v i a add =
     guard_do (a = []) (errors_new ''address cannot be an empty string'')
       (try_do (lift (cidr_of a)) (wrapv ''parsing address failed'') (\<lambda>x.
        try_do (vcall v (AddDelAddress add i (ipv4_to_vpp (fst x), snd x))) (wrapv ''failed to add or remove ip address'') ret))"

definition vx_deletePeer :: "'k vpp \<Rightarrow> 32 word \<Rightarrow> ('k, unit) xop" where
  "vx_deletePeer v j = try_do (vcall v (PeerRemove j)) (wrapw ''failed to remove peer'') ret"

abbreviation vx_setInterfaceName :: "'k vpp \<Rightarrow> 32 word \<Rightarrow> string \<Rightarrow> ('k, unit) xop" where
  "vx_setInterfaceName v i n \<equiv> vcall v (SetInterfaceName i n)"

abbreviation vx_setInterfaceStateToUp :: "'k vpp \<Rightarrow> 32 word \<Rightarrow> ('k, unit) xop" where
  "vx_setInterfaceStateToUp v i \<equiv> vcall v (SetUp i)"

definition b64_bytes :: "string \<Rightarrow> err + nat list" where
  "b64_bytes t = (case b64_decode t of None \<Rightarrow> Inl (errors_new ''illegal base64 data'') | Some b \<Rightarrow> Inr b)"

definition atoi_res :: "string \<Rightarrow> err + int" where
  "atoi_res t = (case atoi t of None \<Rightarrow> Inl (errors_new ''Atoi'') | Some n \<Rightarrow> Inr n)"

definition vpp_peer_of :: "'k vpp \<Rightarrow> pb_peer \<Rightarrow> 32 word \<Rightarrow> err + vpp_peer" where
  "vpp_peer_of v p i =
     bind_res (b64_bytes (pp_public_key p)) (wrapw ''decoding public key failed'') (\<lambda>key.
     bind_res (map_res (vd_prefix v) (wrapw ''parsing allowedIp failed'') (pp_allowed p)) (\<lambda>e. e) (\<lambda>ips.
     bind_res (if pp_endpoint p = [] then Inr None
               else bind_res (vd_addr v (pp_endpoint p)) (wrapw ''parsing endpoint failed'') (\<lambda>a. Inr (Some a))) (\<lambda>e. e) (\<lambda>ep.
     bind_res (if pp_keepalive p = [] then Inr 0
               else bind_res (atoi_res (pp_keepalive p)) (wrapw ''parsing persistentKeepalive failed'')
                 (\<lambda>n. Inr (word_of_int n))) (\<lambda>e. e) (\<lambda>ka.
       Inr \<lparr>vq_key = key, vq_if = i, vq_n_allowed = of_nat (length ips), vq_allowed = ips, vq_endpoint = ep, vq_keepalive = ka\<rparr>))))"

definition vx_addPeer :: "'k vpp \<Rightarrow> pb_peer \<Rightarrow> 32 word \<Rightarrow> ('k, 32 word) xop" where
  "vx_addPeer v p i = bind_do (lift (vpp_peer_of v p i)) (\<lambda>q.
     try_do (vcreate v (PeerAdd q)) (wrapv ''failed to add peer to wireguard interface'') ret)"

definition vx_createWGInterface :: "'k vpp \<Rightarrow> string \<Rightarrow> int \<Rightarrow> string \<Rightarrow> ('k, 32 word) xop" where
  "vx_createWGInterface v pk port src =
     try_do (lift (b64_bytes pk)) (wrapv ''failed to decode private key'') (\<lambda>key.
     try_do (vcreate v (CreateInterface key (word_of_int port) src)) (wrapw ''failed to create wg interface'') ret)"

definition vx_deleteWGInterface :: "'k vpp \<Rightarrow> 32 word \<Rightarrow> ('k, unit) xop" where
  "vx_deleteWGInterface v i =
     guard_do (i = invalid_index) (errors_new ''got invalid interface index(swIfIndex)'')
       (try_do (vcall v (DeleteInterface i)) (wrapw ''failed to delete WG interface'') ret)"

section \<open>Operations\<close>

definition vx_NewClient :: "'k vpp \<Rightarrow> ('k, unit) xop" where
  "vx_NewClient v = bind_do (gets vx_vpp) (\<lambda>k. case vd_connect v k of
     Some e \<Rightarrow> throw (wrapv ''failed to start async connecting to VPP'' e)
   | None \<Rightarrow> (case vd_version v k of
       Some e \<Rightarrow> throw (wrapv ''simple API check(retrieving VPP info) failed'' e)
     | None \<Rightarrow> modify (\<lambda>s. s\<lparr>vx_cfg := None, vx_if := invalid_index, vx_peers := [], vx_dests := []\<rparr>)))"

definition retrieveWGUnderlayInterface :: "'k vpp \<Rightarrow> ('k, 32 word) xop" where
  "retrieveWGUnderlayInterface v = bind_do (gets vx_vpp) (\<lambda>k.
     try_do (lift (vd_interfaces v k)) (wrapv ''dumping of the VPP interfaces failed'') (\<lambda>xs.
     case find (\<lambda>x. snd x = ''wg-underlay'') xs of
       None \<Rightarrow> throw (errors_new ''no interface with tag wg-underlay found'')
     | Some x \<Rightarrow> ret (fst x)))"

definition addWireguardInterface :: "'k vpp \<Rightarrow> pb_wg \<Rightarrow> pb_iface \<Rightarrow> ('k, unit) xop" where
  "addWireguardInterface v w ifc =
     try_do (retrieveWGUnderlayInterface v) (wrapv ''could not retrieve underlay interface'') (\<lambda>u.
     bind_do (gets vx_vpp) (\<lambda>k.
     try_do (lift (vd_addresses v u k)) (wrapv ''retrieving underlay interface IP addresses failed'') (\<lambda>as.
     guard_do (as = []) (errors_new ''wireguard underlay interface doesn't have IP address'') (
     try_do (lift (atoi_res (pi_port ifc))) (wrapw ''parsing wg interface port failed'') (\<lambda>port.
     try_do (vx_createWGInterface v (pi_private_key ifc) port (hd as)) (wrapw ''failed to create wg interface'') (\<lambda>i.
     bind_do (modify (vx_if_update (\<lambda>_. i))) (\<lambda>_.
     try_do (vx_setInterfaceName v i (wg_name w)) (wrapw ''failed to set wg interface name'') (\<lambda>_.
     bind_do (for_each (\<lambda>a. try_do (vx_addRemoveAddress v i a True) (wrapw ''could not assign the address'') ret) (pi_addresses ifc)) (\<lambda>_.
     bind_do (when_do (pi_mtu ifc \<noteq> [])
       (try_do (lift (atoi_res (pi_mtu ifc))) (wrapv ''bad MTU value'') (\<lambda>m.
        try_do (vx_setMTU v i m) (wrapw ''could not set MTU to the interface'') ret))) (\<lambda>_.
       try_do (vx_setInterfaceStateToUp v i) (wrapw ''failed to set wg interface state'') ret))))))))))"

definition vx_add_peer_routes :: "'k vpp \<Rightarrow> 32 word \<Rightarrow> pb_peer \<Rightarrow> ('k, unit) xop" where
  "vx_add_peer_routes v i p = for_each (\<lambda>d.
     try_do (vx_addRemoveRoute v True d i) (wrapw ''could not add route'') (\<lambda>_.
       modify (vx_dests_update (List.insert d)))) (pp_allowed p)"

definition vx_add_one :: "'k vpp \<Rightarrow> 32 word \<Rightarrow> pb_peer \<Rightarrow> ('k, unit) xop" where
  "vx_add_one v i p =
     try_do (vx_addPeer v p i) (wrapw ''failed to add peer'') (\<lambda>j.
     bind_do (modify (\<lambda>s. s\<lparr>vx_peers := AList.update p j (vx_peers s)\<rparr>)) (\<lambda>_. vx_add_peer_routes v i p))"

definition vx_AddPeers :: "'k vpp \<Rightarrow> pb_peer list \<Rightarrow> ('k, unit) xop" where
  "vx_AddPeers v ps = bind_do (gets vx_if) (\<lambda>i.
     guard_do (i = invalid_index) (Sentinel WgErrNotManaging)
       (for_each (vx_add_one v i) ps))"

text \<open>The remembered configuration is set before anything is created.\<close>

definition vx_AddWireGuard :: "'k vpp \<Rightarrow> pb_wg \<Rightarrow> ('k, unit) xop" where
  "vx_AddWireGuard v w = bind_do (gets vx_if) (\<lambda>i.
     guard_do (i \<noteq> invalid_index) (Sentinel WgErrAlreadyManaging)
       (try_do (lift (validate_wg_config w)) (wrapv ''invalid configuration'') (\<lambda>ifc.
        bind_do (modify (vx_cfg_update (\<lambda>_. Some w))) (\<lambda>_.
        try_do (addWireguardInterface v w ifc) (wrapw ''could not create wg interface'') (\<lambda>_.
        try_do (vx_AddPeers v (wg_peers w)) (wrapw ''could not add peers to wg interface'') ret)))))"

definition vx_del_peer_routes :: "'k vpp \<Rightarrow> 32 word \<Rightarrow> pb_peer \<Rightarrow> ('k, unit) xop" where
  "vx_del_peer_routes v i p = for_each (\<lambda>d.
     try_do (vx_addRemoveRoute v False d i) (wrapw ''could not remove route'') (\<lambda>_.
       modify (vx_dests_update (removeAll d)))) (pp_allowed p)"

definition vx_del_one :: "'k vpp \<Rightarrow> 32 word \<Rightarrow> pb_peer \<Rightarrow> ('k, unit) xop" where
  "vx_del_one v i p = bind_do (gets (\<lambda>s. map_of (vx_peers s) p)) (\<lambda>found.
     let j = (case found of None \<Rightarrow> invalid_index | Some j \<Rightarrow> j) in
     guard_do (j = invalid_index) (errors_new ''could not find peer index for peer'')
       (try_do (vx_deletePeer v j) (wrapw ''failed to remove peer'') (\<lambda>_.
        bind_do (modify (\<lambda>s. s\<lparr>vx_peers := AList.delete p (vx_peers s)\<rparr>)) (\<lambda>_. vx_del_peer_routes v i p))))"

definition vx_DelPeers :: "'k vpp \<Rightarrow> pb_peer list \<Rightarrow> ('k, unit) xop" where
  "vx_DelPeers v ps = bind_do (gets vx_if) (\<lambda>i.
     guard_do (i = invalid_index) (Sentinel WgErrNotManaging)
       (for_each (vx_del_one v i) ps))"

definition cleanVPP :: "'k vpp \<Rightarrow> ('k, unit) xop" where
  "cleanVPP v = bind_do (gets (\<lambda>s. (vx_if s, vx_dests s))) (\<lambda>(i, ds).
     if i = invalid_index then ret ()
     else
       bind_do (for_each (\<lambda>d. try_do (vx_addRemoveRoute v False d i) (wrapw ''can't cleanup route'') ret) (vd_order v ds)) (\<lambda>_.
       try_do (vx_deleteWGInterface v i) (wrapw ''can't cleanup wg interface in VPP'') ret))"

definition cleanVPPObjectTracking :: "('k, unit) xop" where
  "cleanVPPObjectTracking = modify (\<lambda>s. s\<lparr>vx_if := invalid_index, vx_peers := [], vx_dests := []\<rparr>)"

text \<open>VPP cannot change a private key or a port: the tunnel is removed and created again, with the new peers.\<close>

definition vx_recreate :: "'k vpp \<Rightarrow> pb_wg \<Rightarrow> ('k, unit) xop" where
  "vx_recreate v w =
     try_do (cleanVPP v) (wrapw ''couldn't properly clean VPP configuration for vpp config recreation'') (\<lambda>_.
     bind_do cleanVPPObjectTracking (\<lambda>_.
     try_do (vx_AddWireGuard v w) (wrapw ''could not add wireguard to VPP'') ret))"

text \<open>The changes VPP supports.\<close>

definition vx_update_in_place :: "'k vpp \<Rightarrow> 32 word \<Rightarrow> pb_wg \<Rightarrow> pb_iface \<Rightarrow> pb_wg \<Rightarrow> pb_iface \<Rightarrow> ('k, unit) xop" where
  "vx_update_in_place v i w0 old w new =
     bind_do (when_do (wg_name w0 \<noteq> wg_name w)
       (try_do (vx_setInterfaceName v i (wg_name w)) (wrapw ''could not rename WireGuard interface'') ret)) (\<lambda>_.
     bind_do (when_do (pi_mtu old \<noteq> pi_mtu new)
       (try_do (lift (atoi_res (pi_mtu new))) (wrapw ''bad MTU value'') (\<lambda>m.
        try_do (vx_setMTU v i m) (wrapw ''could not set new MTU'') ret))) (\<lambda>_.
     let (add, rem) = diff_addresses (pi_addresses old) (pi_addresses new) in
     bind_do (for_each (\<lambda>a. try_do (vx_addRemoveAddress v i a True) (wrapw ''could not add address'') ret) add) (\<lambda>_.
     bind_do (for_each (\<lambda>a. try_do (vx_addRemoveAddress v i a False) (wrapw ''could not remove address'') ret) rem) (\<lambda>_.
       modify (vx_cfg_update (\<lambda>_. Some w))))))"

definition vx_UpdateWireGuardInterface :: "'k vpp \<Rightarrow> pb_wg \<Rightarrow> ('k, unit) xop" where
  "vx_UpdateWireGuardInterface v w = bind_do (gets (\<lambda>s. (vx_if s, vx_cfg s))) (\<lambda>(i, cfg).
     guard_do (i = invalid_index) (Sentinel WgErrNotManaging)
       (try_do (lift (validate_wg_config w)) (wrapw ''invalid new configuration'') (\<lambda>new.
        case cfg of
          None \<Rightarrow> throw Panic
        | Some w0 \<Rightarrow> (case wg_iface w0 of
            None \<Rightarrow> throw Panic
          | Some old \<Rightarrow>
              if pi_private_key old \<noteq> pi_private_key new \<or> pi_port old \<noteq> pi_port new then vx_recreate v w
              else vx_update_in_place v i w0 old w new))))"

text \<open>The error of the cleaning is only logged.\<close>

definition vx_Close :: "'k vpp \<Rightarrow> ('k, unit) xop" where
  "vx_Close v = bind_do (attempt (cleanVPP v) (\<lambda>_. ret ())) (\<lambda>_. cleanVPPObjectTracking)"

definition vpp_client :: "'k vpp \<Rightarrow> 'k vppc wg_ops" where
  "vpp_client v = \<lparr>op_NewClient = vx_NewClient v, op_UpdateWireGuardInterface = vx_UpdateWireGuardInterface v,
     op_AddWireGuard = vx_AddWireGuard v, op_AddPeers = vx_AddPeers v, op_DelPeers = vx_DelPeers v, op_Close = vx_Close v\<rparr>"

end
