(* ===== verification/Vpp_Tunnel.thy ===== *)
theory Vpp_Tunnel
  imports Vpp_Client
begin

text \<open>
  The contract of VPP, the proof that the VPP client keeps the contract \<open>wg_client\<close>, a VPP that keeps the
  contract, and what follows for a VPN server on VPP.
\<close>

section \<open>Contract of VPP\<close>

fun keeps_vpp_tunnel :: "vpp_call \<Rightarrow> bool" where
  "keeps_vpp_tunnel (AddDelRoute _ _ _) = False"
| "keeps_vpp_tunnel (DeleteInterface _) = False"
| "keeps_vpp_tunnel (PeerRemove _) = False"
| "keeps_vpp_tunnel _ = True"

text \<open>
  The peers of an interface by their index (key and allowed networks) and the routes over it.  A peer whose
  key is in use is refused; adding a route that exists is not.
\<close>

locale lawful_vpp =
  fixes v :: "'k vpp" and peers :: "'k \<Rightarrow> 32 word \<Rightarrow> 32 word \<Rightarrow> (nat list \<times> prefix list) option"
    and routes :: "'k \<Rightarrow> 32 word \<Rightarrow> prefix4 set"
  assumes other_call: "keeps_vpp_tunnel c \<Longrightarrow> vd_do v c k = (None, k') \<Longrightarrow> peers k' = peers k \<and> routes k' = routes k"
    and route_call: "vd_do v (AddDelRoute add i x) k = (None, k') \<Longrightarrow> peers k' = peers k \<and>
      routes k' = (routes k)(i := (if add then insert x (routes k i) else routes k i - {x}))"
    and peer_remove: "vd_do v (PeerRemove j) k = (None, k') \<Longrightarrow>
      routes k' = routes k \<and> peers k' i = (peers k i)(j := None)"
    and create_interface: "vd_new v (CreateInterface key port a) k = (Inr i, k') \<Longrightarrow>
      i \<noteq> invalid_index \<and> peers k' i = Map.empty \<and> routes k' i = {}"
    and peer_add: "vd_new v (PeerAdd q) k = (Inr j, k') \<Longrightarrow>
      j \<noteq> invalid_index \<and> peers k (vq_if q) j = None \<and> vq_key q \<notin> fst ` ran (peers k (vq_if q)) \<and>
      routes k' = routes k \<and> peers k' (vq_if q) = (peers k (vq_if q))(j \<mapsto> (vq_key q, vq_allowed q))"

section \<open>The tunnel of a list of peers\<close>

definition vpp_entry :: "'k vpp \<Rightarrow> pb_peer \<Rightarrow> (nat list \<times> prefix list) option" where
  "vpp_entry v p = (case vpp_peer_of v p 0 of Inl _ \<Rightarrow> None | Inr q \<Rightarrow> Some (vq_key q, vq_allowed q))"

definition nets_of :: "string list \<Rightarrow> prefix4 set" where
  "nets_of ts = set (List.map_filter (\<lambda>t. map_option network_to_vpp (cidr_parts t)) ts)"

abbreviation vpp_nets :: "pb_peer \<Rightarrow> prefix4 set" where
  "vpp_nets p \<equiv> nets_of (pp_allowed p)"

definition other_nets :: "pb_peer list \<Rightarrow> bool" where
  "other_nets ps \<longleftrightarrow> distinct ps \<and> (\<forall>p\<in>set ps. \<forall>q\<in>set ps. p \<noteq> q \<longrightarrow> vpp_nets p \<inter> vpp_nets q = {})"

definition vpp_peers_are ::
  "'k vpp \<Rightarrow> (32 word \<Rightarrow> (nat list \<times> prefix list) option) \<Rightarrow> (pb_peer \<Rightarrow> 32 word option) \<Rightarrow> pb_peer list \<Rightarrow> bool" where
  "vpp_peers_are v P m ps \<longleftrightarrow> dom m = set ps \<and> dom P = ran m \<and>
     (\<forall>p j. m p = Some j \<longrightarrow> j \<noteq> invalid_index \<and> vpp_entry v p \<noteq> None \<and> P j = vpp_entry v p) \<and>
     (\<forall>p q j. m p = Some j \<longrightarrow> m q = Some j \<longrightarrow> p = q)"

definition vpp_carries :: "'k vpp \<Rightarrow> ('k \<Rightarrow> 32 word \<Rightarrow> 32 word \<Rightarrow> (nat list \<times> prefix list) option) \<Rightarrow>
    ('k \<Rightarrow> 32 word \<Rightarrow> prefix4 set) \<Rightarrow> 'k vppc \<Rightarrow> pb_peer list \<Rightarrow> bool" where
  "vpp_carries v peers routes s ps \<longleftrightarrow> vx_if s \<noteq> invalid_index \<and> other_nets ps \<and>
     vpp_peers_are v (peers (vx_vpp s) (vx_if s)) (map_of (vx_peers s)) ps \<and>
     (\<forall>p\<in>set ps. \<forall>t\<in>set (pp_allowed p). cidr_parts t \<noteq> None) \<and>
     routes (vx_vpp s) (vx_if s) = (\<Union>p\<in>set ps. vpp_nets p) \<and>
     set (vx_dests s) = (\<Union>p\<in>set ps. set (pp_allowed p))"

definition vpp_idle :: "'k vppc \<Rightarrow> bool" where
  "vpp_idle s \<longleftrightarrow> vx_if s = invalid_index \<and> vx_peers s = [] \<and> vx_dests s = []"

lemma other_nets_perm: "other_nets ps \<Longrightarrow> mset ps = mset qs \<Longrightarrow> other_nets qs"
  unfolding other_nets_def by (metis mset_eq_imp_distinct_iff mset_eq_setD)

lemma other_nets_append: "other_nets (ps @ qs) \<Longrightarrow> other_nets ps"
  by (auto simp: other_nets_def)

lemma vpp_carries_perm: "vpp_carries v P R s ps \<Longrightarrow> mset ps = mset qs \<Longrightarrow> vpp_carries v P R s qs"
  using other_nets_perm [of ps qs] mset_eq_setD [of ps qs] by (simp add: vpp_carries_def vpp_peers_are_def)

lemma nets_of_set: "nets_of ts = network_to_vpp ` {x. \<exists>t\<in>set ts. cidr_parts t = Some x}"
  by (induction ts) (auto simp: nets_of_def List.map_filter_simps image_iff split: option.splits)

lemma nets_of_simps [simp]:
  "nets_of [] = {}"
  "cidr_parts t = Some x \<Longrightarrow> nets_of (t # ts) = insert (network_to_vpp x) (nets_of ts)"
  by (auto simp: nets_of_set)

lemma vpp_peer_of_Inr:
  assumes "vpp_peer_of v p i = Inr q"
  shows "vq_if q = i" "vpp_entry v p = Some (vq_key q, vq_allowed q)"
proof -
  obtain key ips ep ka where *: "b64_bytes (pp_public_key p) = Inr key"
    "map_res (vd_prefix v) (wrapw ''parsing allowedIp failed'') (pp_allowed p) = Inr ips"
    "(if pp_endpoint p = [] then Inr None
      else bind_res (vd_addr v (pp_endpoint p)) (wrapw ''parsing endpoint failed'') (\<lambda>a. Inr (Some a))) = Inr ep"
    "(if pp_keepalive p = [] then Inr 0
      else bind_res (atoi_res (pp_keepalive p)) (wrapw ''parsing persistentKeepalive failed'') (\<lambda>n. Inr (word_of_int n))) = Inr ka"
    "q = \<lparr>vq_key = key, vq_if = i, vq_n_allowed = of_nat (length ips), vq_allowed = ips, vq_endpoint = ep, vq_keepalive = ka\<rparr>"
    using assms unfolding vpp_peer_of_def bind_res_Inr_iff by blast
  then show "vq_if q = i" by simp
  from * show "vpp_entry v p = Some (vq_key q, vq_allowed q)"
    unfolding vpp_entry_def vpp_peer_of_def by (simp only: bind_res_def sum.case vpp_peer.select_convs)
qed

section \<open>Steps\<close>

text \<open>Steps that touch neither the tracking nor the tunnel.\<close>

definition same_vpp :: "('k \<Rightarrow> 32 word \<Rightarrow> 32 word \<Rightarrow> (nat list \<times> prefix list) option) \<Rightarrow> ('k \<Rightarrow> 32 word \<Rightarrow> prefix4 set) \<Rightarrow>
    'k vppc \<Rightarrow> 'k vppc \<Rightarrow> bool" where
  "same_vpp P R s s' \<longleftrightarrow> P (vx_vpp s') = P (vx_vpp s) \<and> R (vx_vpp s') = R (vx_vpp s) \<and>
     vx_if s' = vx_if s \<and> vx_peers s' = vx_peers s \<and> vx_dests s' = vx_dests s"

lemma vpp_carries_same: "same_vpp P R s s' \<Longrightarrow> vpp_carries v P R s ps \<Longrightarrow> vpp_carries v P R s' ps"
  by (simp add: same_vpp_def vpp_carries_def)

lemma run_vcall: "vcall v c s = (Inr u, s') \<longleftrightarrow> (\<exists>k. vd_do v c (vx_vpp s) = (None, k) \<and> s' = s\<lparr>vx_vpp := k\<rparr>)"
  by (auto simp: vcall_def split: prod.splits option.splits)

lemma run_vcreate: "vcreate v c s = (Inr i, s') \<longleftrightarrow> (\<exists>k. vd_new v c (vx_vpp s) = (Inr i, k) \<and> s' = s\<lparr>vx_vpp := k\<rparr>)"
  by (auto simp: vcreate_def split: prod.splits)

lemma run_addRemoveRoute:
  "vx_addRemoveRoute v add d i s = (Inr u, s') \<longleftrightarrow> (\<exists>x k. cidr_parts d = Some x \<and>
     vd_do v (AddDelRoute add i (network_to_vpp x)) (vx_vpp s) = (None, k) \<and> s' = s\<lparr>vx_vpp := k\<rparr>)"
  by (auto simp: vx_addRemoveRoute_def cidr_of_def run run_vcall split: option.splits)

text \<open>A new entry in the table of peers, and the removal of one.\<close>

lemma vpp_peers_are_add:
  assumes "vpp_peers_are v P m ps" "P j = None" "j \<noteq> invalid_index" "vpp_entry v p = Some e" "p \<notin> set ps"
  shows "vpp_peers_are v (P(j \<mapsto> e)) (m(p \<mapsto> j)) (ps @ [p])"
proof -
  from assms(1) have P: "dom m = set ps" "dom P = ran m"
    and e: "\<And>p j. m p = Some j \<Longrightarrow> j \<noteq> invalid_index \<and> vpp_entry v p \<noteq> None \<and> P j = vpp_entry v p"
    and i: "\<And>p q j. m p = Some j \<Longrightarrow> m q = Some j \<Longrightarrow> p = q"
    unfolding vpp_peers_are_def by blast+
  have free: "m q \<noteq> Some j" for q using P(2) assms(2) by (auto simp: ran_def)
  have "m p = None" using P(1) assms(5) by auto
  then have "ran (m(p \<mapsto> j)) = insert j (ran m)" by (rule ran_map_upd)
  then have "dom (m(p \<mapsto> j)) = set (ps @ [p])" "dom (P(j \<mapsto> e)) = ran (m(p \<mapsto> j))" using P by simp_all
  moreover have "j' \<noteq> invalid_index \<and> vpp_entry v q \<noteq> None \<and> (P(j \<mapsto> e)) j' = vpp_entry v q"
    if "(m(p \<mapsto> j)) q = Some j'" for q j'
    using that e [of q j'] free [of q] assms(3,4) by (cases "q = p") auto
  moreover have "q = r" if "(m(p \<mapsto> j)) q = Some j'" "(m(p \<mapsto> j)) r = Some j'" for q r j'
    using that i [of q j' r] free [of q] free [of r] by (auto split: if_splits)
  ultimately show ?thesis unfolding vpp_peers_are_def by blast
qed

lemma vpp_peers_are_remove:
  assumes "vpp_peers_are v P m (p # ps)" "m p = Some j" "p \<notin> set ps"
  shows "vpp_peers_are v (P(j := None)) (m(p := None)) ps"
proof -
  have P: "dom m = insert p (set ps)" "dom P = ran m" using assms(1) by (simp_all add: vpp_peers_are_def)
  have e: "\<And>p j. m p = Some j \<Longrightarrow> j \<noteq> invalid_index \<and> vpp_entry v p \<noteq> None \<and> P j = vpp_entry v p"
    and i: "\<And>p q j. m p = Some j \<Longrightarrow> m q = Some j \<Longrightarrow> p = q"
    using assms(1) unfolding vpp_peers_are_def by blast+
  have ran: "ran (m(p := None)) = ran m - {j}"
  proof (intro equalityI subsetI)
    fix x assume "x \<in> ran (m(p := None))"
    then obtain q where "q \<noteq> p" "m q = Some x" by (auto simp: ran_def split: if_splits)
    with i [of q j p] assms(2) show "x \<in> ran m - {j}" by (auto simp: ran_def)
  next
    fix x assume "x \<in> ran m - {j}"
    then obtain q where q: "m q = Some x" "x \<noteq> j" by (auto simp: ran_def)
    with assms(2) have "q \<noteq> p" by auto
    with q show "x \<in> ran (m(p := None))" by (auto simp: ran_def intro: exI [of _ q])
  qed
  have "dom (m(p := None)) = set ps" unfolding dom_fun_upd using P(1) assms(3) by simp
  moreover have "dom (P(j := None)) = ran (m(p := None))" unfolding ran dom_fun_upd using P(2) by simp
  moreover have "j' \<noteq> invalid_index \<and> vpp_entry v q \<noteq> None \<and> (P(j := None)) j' = vpp_entry v q"
    if "(m(p := None)) q = Some j'" for q j'
  proof -
    have q: "q \<noteq> p" "m q = Some j'" using that by (simp_all split: if_splits)
    with i [of q j' p] assms(2) have "j' \<noteq> j" by blast
    with e [OF q(2)] show ?thesis by simp
  qed
  moreover have "q = r" if "(m(p := None)) q = Some j'" "(m(p := None)) r = Some j'" for q r j'
    using that i [of q j' r] by (simp split: if_splits)
  ultimately show ?thesis unfolding vpp_peers_are_def by blast
qed

lemma vpp_peers_are_index:
  assumes "vpp_peers_are v P m ps"
  shows "\<exists>index. bij_betw index (set ps) (dom P) \<and> (\<forall>p\<in>set ps. vpp_entry v p \<noteq> None \<and> P (index p) = vpp_entry v p)"
proof (intro exI conjI ballI)
  from assms have P: "dom m = set ps" "dom P = ran m"
    and e: "\<And>p j. m p = Some j \<Longrightarrow> vpp_entry v p \<noteq> None \<and> P j = vpp_entry v p"
    and i: "\<And>p q j. m p = Some j \<Longrightarrow> m q = Some j \<Longrightarrow> p = q"
    unfolding vpp_peers_are_def by blast+
  have m: "m p = Some (the (m p))" if "p \<in> set ps" for p using that P(1) by (metis domIff option.collapse)
  show "bij_betw (\<lambda>p. the (m p)) (set ps) (dom P)"
  proof (rule bij_betwI')
    show "(the (m p) = the (m q)) = (p = q)" if "p \<in> set ps" "q \<in> set ps" for p q
      using i m that by metis
    show "the (m p) \<in> dom P" if "p \<in> set ps" for p using P(2) m [OF that] by (metis ranI)
    show "\<exists>p\<in>set ps. j = the (m p)" if j: "j \<in> dom P" for j
    proof -
      from j P(2) obtain p where p: "m p = Some j" by (auto simp only: ran_def)
      with P(1) have "p \<in> set ps" by blast
      with p show ?thesis by (intro bexI [of _ p]) simp_all
    qed
  qed
  show "vpp_entry v p \<noteq> None" "P (the (m p)) = vpp_entry v p" if "p \<in> set ps" for p
    using e [OF m [OF that]] by blast+
qed

context lawful_vpp
begin

lemma vcall_same: "keeps_vpp_tunnel c \<Longrightarrow> vcall v c s = (Inr u, s') \<Longrightarrow> same_vpp peers routes s s'"
  by (auto simp: run_vcall same_vpp_def dest: other_call)

lemma add_routes_run:
  assumes "for_each (\<lambda>d. try_do (vx_addRemoveRoute v True d i) w (\<lambda>_. modify (vx_dests_update (List.insert d)))) ts s = (Inr u, s')"
  shows "\<forall>t\<in>set ts. cidr_parts t \<noteq> None" "peers (vx_vpp s') = peers (vx_vpp s)" "vx_if s' = vx_if s" "vx_peers s' = vx_peers s"
    "routes (vx_vpp s') i = routes (vx_vpp s) i \<union> nets_of ts" "set (vx_dests s') = set (vx_dests s) \<union> set ts"
  using assms
proof (induction ts arbitrary: s)
  case (Cons t ts)
  {
    case 1
    with Cons.IH(1) show ?case by (auto simp: run run_modify run_addRemoveRoute)
  next
    case 2
    with Cons.IH(2) show ?case by (auto simp: run run_modify run_addRemoveRoute dest!: route_call)
  next
    case 3
    with Cons.IH(3) show ?case by (auto simp: run run_modify run_addRemoveRoute)
  next
    case 4
    with Cons.IH(4) show ?case by (auto simp: run run_modify run_addRemoveRoute)
  next
    case 5
    with Cons.IH(5) show ?case by (auto simp: run run_modify run_addRemoveRoute dest!: route_call)
  next
    case 6
    with Cons.IH(6) show ?case by (auto simp: run run_modify run_addRemoveRoute)
  }
qed (simp_all add: run)

lemma del_routes_run:
  assumes "for_each (\<lambda>d. try_do (vx_addRemoveRoute v False d i) w (\<lambda>_. modify (vx_dests_update (removeAll d)))) ts s = (Inr u, s')"
  shows "peers (vx_vpp s') = peers (vx_vpp s)" "vx_if s' = vx_if s" "vx_peers s' = vx_peers s"
    "routes (vx_vpp s') i = routes (vx_vpp s) i - nets_of ts" "set (vx_dests s') = set (vx_dests s) - set ts"
  using assms
proof (induction ts arbitrary: s)
  case (Cons t ts)
  {
    case 1
    with Cons.IH(1) show ?case by (auto simp: run run_modify run_addRemoveRoute dest!: route_call)
  next
    case 2
    with Cons.IH(2) show ?case by (auto simp: run run_modify run_addRemoveRoute)
  next
    case 3
    with Cons.IH(3) show ?case by (auto simp: run run_modify run_addRemoveRoute)
  next
    case 4
    with Cons.IH(4) show ?case by (auto simp: run run_modify run_addRemoveRoute dest!: route_call)
  next
    case 5
    with Cons.IH(5) show ?case by (auto simp: run run_modify run_addRemoveRoute)
  }
qed (simp_all add: run)

lemma add_peer_run:
  assumes "vx_addPeer v p i s = (Inr j, s')"
  obtains q k where "vpp_entry v p = Some (vq_key q, vq_allowed q)" "vq_if q = i"
    "vd_new v (PeerAdd q) (vx_vpp s) = (Inr j, k)" "s' = s\<lparr>vx_vpp := k\<rparr>"
proof -
  from assms obtain q k where "vpp_peer_of v p i = Inr q" "vd_new v (PeerAdd q) (vx_vpp s) = (Inr j, k)" "s' = s\<lparr>vx_vpp := k\<rparr>"
    by (auto simp: vx_addPeer_def run run_vcreate)
  with vpp_peer_of_Inr that show thesis by blast
qed

lemma add_one:
  assumes s: "vpp_carries v peers routes s ps" and n: "other_nets (ps @ [p])"
    and one: "vx_add_one v (vx_if s) p s = (Inr u, s')"
  shows "vpp_carries v peers routes s' (ps @ [p])" "vx_if s' = vx_if s"
proof -
  obtain j s1 where j: "vx_addPeer v p (vx_if s) s = (Inr j, s1)"
    and r: "vx_add_peer_routes v (vx_if s) p (s1\<lparr>vx_peers := AList.update p j (vx_peers s1)\<rparr>) = (Inr u, s')"
    using one unfolding vx_add_one_def run run_modify by blast
  obtain q k where q: "vpp_entry v p = Some (vq_key q, vq_allowed q)" "vq_if q = vx_if s"
    "vd_new v (PeerAdd q) (vx_vpp s) = (Inr j, k)" "s1 = s\<lparr>vx_vpp := k\<rparr>"
    by (rule add_peer_run [OF j])
  note a = peer_add [OF q(3), unfolded q(2)]
  note r' = add_routes_run [OF r [unfolded vx_add_peer_routes_def], unfolded q(4)]
  from s have p: "vpp_peers_are v (peers (vx_vpp s) (vx_if s)) (map_of (vx_peers s)) ps" by (simp add: vpp_carries_def)
  have "p \<notin> set ps" using n by (simp add: other_nets_def)
  with vpp_peers_are_add [OF p _ _ q(1)] a
  have "vpp_peers_are v (peers k (vx_if s)) (map_of (AList.update p j (vx_peers s))) (ps @ [p])"
    by (simp add: update_conv')
  with r' show "vx_if s' = vx_if s" "vpp_carries v peers routes s' (ps @ [p])"
    using s n a by (auto simp: vpp_carries_def)
qed

lemma vx_AddPeers_run:
  assumes "vx_AddPeers v qs s = (Inr u, s')" "vpp_carries v peers routes s ps" "other_nets (ps @ qs)"
  shows "vpp_carries v peers routes s' (ps @ qs)"
proof -
  have "for_each (vx_add_one v i) qs s = (Inr u, s') \<Longrightarrow> vx_if s = i \<Longrightarrow> vpp_carries v peers routes s ps \<Longrightarrow> other_nets (ps @ qs) \<Longrightarrow>
    vpp_carries v peers routes s' (ps @ qs)" for i
  proof (induction qs arbitrary: s ps)
    case (Cons q qs)
    then obtain s2 where q: "vx_add_one v (vx_if s) q s = (Inr (), s2)" and rest: "for_each (vx_add_one v i) qs s2 = (Inr u, s')"
      by (auto simp: run)
    have n: "other_nets ((ps @ [q]) @ qs)" using Cons.prems(4) by simp
    note one = add_one [OF Cons.prems(3) other_nets_append [OF n] q]
    from Cons.IH [OF rest _ one(1) n] one(2) Cons.prems(2) show ?case by simp
  qed (simp add: run)
  with assms show ?thesis by (auto simp: vx_AddPeers_def run)
qed

text \<open>A peer of the tunnel is refused, whatever was added before it.\<close>

lemma vx_AddPeers_refused:
  assumes s: "vpp_carries v peers routes s ps" and p: "p \<in> set ps" "p \<in> set qs"
  shows "vx_AddPeers v qs s \<noteq> (Inr u, s')"
proof -
  let ?used = "\<lambda>i s. \<exists>e. vpp_entry v p = Some e \<and> e \<in> ran (peers (vx_vpp s) i)"
  have "for_each (vx_add_one v i) qs s = (Inr u, s') \<Longrightarrow> ?used i s \<Longrightarrow> p \<in> set qs \<Longrightarrow> False" for i
  proof (induction qs arbitrary: s)
    case (Cons q qs)
    then obtain s2 where one: "vx_add_one v i q s = (Inr (), s2)" and rest: "for_each (vx_add_one v i) qs s2 = (Inr u, s')"
      by (auto simp: run)
    obtain j s1 where j: "vx_addPeer v q i s = (Inr j, s1)"
      and r: "vx_add_peer_routes v i q (s1\<lparr>vx_peers := AList.update q j (vx_peers s1)\<rparr>) = (Inr (), s2)"
      using one unfolding vx_add_one_def run run_modify by blast
    obtain x k where x: "vpp_entry v q = Some (vq_key x, vq_allowed x)" "vq_if x = i"
      "vd_new v (PeerAdd x) (vx_vpp s) = (Inr j, k)" "s1 = s\<lparr>vx_vpp := k\<rparr>"
      by (rule add_peer_run [OF j])
    note a = peer_add [OF x(3), unfolded x(2)]
    from Cons.prems(2) a x(1) have "q \<noteq> p" by force
    moreover have "?used i s2"
    proof -
      have "peers (vx_vpp s2) i = (peers (vx_vpp s) i)(j \<mapsto> (vq_key x, vq_allowed x))"
        using a add_routes_run(2) [OF r [unfolded vx_add_peer_routes_def]] x(4) by simp
      with a have "ran (peers (vx_vpp s2) i) = insert (vq_key x, vq_allowed x) (ran (peers (vx_vpp s) i))" by simp
      with Cons.prems(2) show ?thesis by blast
    qed
    ultimately show ?case using Cons.IH [OF rest] Cons.prems(3) by simp
  qed simp
  moreover have "?used (vx_if s) s"
  proof -
    from s p(1) have "p \<in> dom (map_of (vx_peers s))" unfolding vpp_carries_def vpp_peers_are_def by simp
    then obtain j where "map_of (vx_peers s) p = Some j" by blast
    with s have "vpp_entry v p \<noteq> None" "peers (vx_vpp s) (vx_if s) j = vpp_entry v p"
      by (simp_all add: vpp_carries_def vpp_peers_are_def)
    then show ?thesis by (auto intro: ranI)
  qed
  ultimately show ?thesis using p(2) by (auto simp: vx_AddPeers_def run)
qed

lemma del_one:
  assumes s: "vpp_carries v peers routes s (p # ps)" and one: "vx_del_one v (vx_if s) p s = (Inr u, s')"
  shows "vpp_carries v peers routes s' ps" "vx_if s' = vx_if s"
proof -
  from s have "p \<in> dom (map_of (vx_peers s))" unfolding vpp_carries_def vpp_peers_are_def by simp
  then obtain j where j: "map_of (vx_peers s) p = Some j" by blast
  with one obtain s1 where d: "vx_deletePeer v j s = (Inr (), s1)"
    and r: "vx_del_peer_routes v (vx_if s) p (s1\<lparr>vx_peers := AList.delete p (vx_peers s1)\<rparr>) = (Inr u, s')"
    unfolding vx_del_one_def Let_def run run_modify by auto
  from d obtain k where k: "vd_do v (PeerRemove j) (vx_vpp s) = (None, k)" "s1 = s\<lparr>vx_vpp := k\<rparr>"
    by (auto simp: vx_deletePeer_def run run_vcall)
  note a = peer_remove [OF k(1)]
  note r' = del_routes_run [OF r [unfolded vx_del_peer_routes_def], unfolded k(2)]
  from s have c: "vpp_peers_are v (peers (vx_vpp s) (vx_if s)) (map_of (vx_peers s)) (p # ps)" "other_nets (p # ps)"
    and t: "\<forall>q\<in>set (p # ps). \<forall>t\<in>set (pp_allowed q). cidr_parts t \<noteq> None"
    by (simp_all add: vpp_carries_def)
  then have p: "p \<notin> set ps" by (simp add: other_nets_def)
  have nets: "vpp_nets p \<inter> vpp_nets q = {}" if "q \<in> set ps" for q
    using c(2) p that by (auto simp: other_nets_def)
  then have texts: "set (pp_allowed p) \<inter> set (pp_allowed q) = {}" if "q \<in> set ps" for q
    using t that unfolding nets_of_set by fastforce
  have "(\<Union>q\<in>set (p # ps). vpp_nets q) - vpp_nets p = (\<Union>q\<in>set ps. vpp_nets q)"
    "(\<Union>q\<in>set (p # ps). set (pp_allowed q)) - set (pp_allowed p) = (\<Union>q\<in>set ps. set (pp_allowed q))"
    using nets texts by auto
  moreover have "vpp_peers_are v (peers k (vx_if s)) (map_of (AList.delete p (vx_peers s))) ps"
    using vpp_peers_are_remove [OF c(1) j p] a by (simp add: delete_conv')
  moreover have "other_nets ps" using c(2) by (simp add: other_nets_def)
  ultimately show "vx_if s' = vx_if s" "vpp_carries v peers routes s' ps"
    using s t a r' by (simp_all add: vpp_carries_def)
qed

lemma vx_DelPeers_run:
  assumes "vx_DelPeers v qs s = (Inr u, s')" "vpp_carries v peers routes s (qs @ ps)"
  shows "vpp_carries v peers routes s' ps"
proof -
  have "for_each (vx_del_one v i) qs s = (Inr u, s') \<Longrightarrow> vx_if s = i \<Longrightarrow> vpp_carries v peers routes s (qs @ ps) \<Longrightarrow>
    vpp_carries v peers routes s' ps" for i
  proof (induction qs arbitrary: s)
    case (Cons q qs)
    then obtain s2 where q: "vx_del_one v (vx_if s) q s = (Inr (), s2)" and rest: "for_each (vx_del_one v i) qs s2 = (Inr u, s')"
      by (auto simp: run)
    have c: "vpp_carries v peers routes s (q # qs @ ps)" using Cons.prems(3) by simp
    from Cons.IH [OF rest] del_one [OF c q] Cons.prems(2) show ?case by simp
  qed (simp add: run)
  with assms show ?thesis by (auto simp: vx_DelPeers_def run)
qed

text \<open>A peer that is not there cannot be deleted.\<close>

lemma vx_DelPeers_absent:
  assumes "vpp_carries v peers routes s ps" "p \<notin> set ps" "p \<in> set qs"
  shows "vx_DelPeers v qs s \<noteq> (Inr u, s')"
proof -
  have "for_each (vx_del_one v i) qs s = (Inr u, s') \<Longrightarrow> map_of (vx_peers s) p = None \<Longrightarrow> p \<in> set qs \<Longrightarrow> False" for i
  proof (induction qs arbitrary: s)
    case (Cons q qs)
    then obtain s2 where q: "vx_del_one v i q s = (Inr (), s2)" and rest: "for_each (vx_del_one v i) qs s2 = (Inr u, s')"
      by (auto simp: run)
    obtain j s1 where j: "map_of (vx_peers s) q \<noteq> None" "vx_deletePeer v j s = (Inr (), s1)"
      and r: "vx_del_peer_routes v i q (s1\<lparr>vx_peers := AList.delete q (vx_peers s1)\<rparr>) = (Inr (), s2)"
      using q unfolding vx_del_one_def Let_def run run_modify by (auto split: option.splits)
    from j Cons.prems(2) have "q \<noteq> p" by auto
    moreover have "vx_peers s1 = vx_peers s" using j(2) by (auto simp: vx_deletePeer_def run run_vcall)
    ultimately show ?case
      using Cons.IH [OF rest] Cons.prems del_routes_run(3) [OF r [unfolded vx_del_peer_routes_def]]
      by (simp add: delete_conv')
  qed simp
  moreover have "map_of (vx_peers s) p = None"
  proof -
    from assms(1,2) have "p \<notin> dom (map_of (vx_peers s))" unfolding vpp_carries_def vpp_peers_are_def by simp
    then show ?thesis by blast
  qed
  ultimately show ?thesis using assms(3) by (auto simp: vx_DelPeers_def run)
qed

lemma iface_calls_same:
  "keeps_vpp_tunnel c \<Longrightarrow> try_do (vcall v c) w ret s = (Inr u, s') \<Longrightarrow> same_vpp peers routes s s'"
  "vx_setMTU v i m s = (Inr u, s') \<Longrightarrow> same_vpp peers routes s s'"
  "vx_addRemoveAddress v i a add s = (Inr u, s') \<Longrightarrow> same_vpp peers routes s s'"
  unfolding vx_setMTU_def vx_addRemoveAddress_def by (auto simp: run dest!: vcall_same [rotated])

lemma ok_vpp_ops:
  fixes ps defines "I \<equiv> \<lambda>s. vpp_carries v peers routes s ps"
  shows "keeps_vpp_tunnel c \<Longrightarrow> ok_keeps I (vcall v c)" "ok_keeps I (vx_setMTU v i m)" "ok_keeps I (vx_addRemoveAddress v i a add)"
    "ok_keeps I (modify (vx_cfg_update f))"
  unfolding ok_keeps_def I_def
     apply (blast dest: vcall_same intro: vpp_carries_same)
    apply (blast dest: iface_calls_same intro: vpp_carries_same)
   apply (blast dest: iface_calls_same intro: vpp_carries_same)
  by (simp add: run_modify vpp_carries_def)

lemma addWireguardInterface_run:
  assumes "addWireguardInterface v w ifc s = (Inr u, s')" "vpp_idle s"
  shows "vpp_carries v peers routes s' []"
proof -
  let ?I = "\<lambda>s. vpp_carries v peers routes s []"
  let ?rest = "\<lambda>i. try_do (vcall v (SetInterfaceName i (wg_name w))) (wrapw ''failed to set wg interface name'') (\<lambda>_.
     bind_do (for_each (\<lambda>a. try_do (vx_addRemoveAddress v i a True) (wrapw ''could not assign the address'') ret) (pi_addresses ifc)) (\<lambda>_.
     bind_do (when_do (pi_mtu ifc \<noteq> [])
       (try_do (lift (atoi_res (pi_mtu ifc))) (wrapv ''bad MTU value'') (\<lambda>m.
        try_do (vx_setMTU v i m) (wrapw ''could not set MTU to the interface'') ret))) (\<lambda>_.
       try_do (vcall v (SetUp i)) (wrapw ''failed to set wg interface state'') ret)))"
  obtain n a i s1 where c: "vx_createWGInterface v (pi_private_key ifc) n a s = (Inr i, s1)"
    and rest: "?rest i (s1\<lparr>vx_if := i\<rparr>) = (Inr u, s')"
  proof -
    have "retrieveWGUnderlayInterface v s = (Inr x, s2) \<Longrightarrow> s2 = s" for x s2
      by (auto simp: retrieveWGUnderlayInterface_def run split: option.splits)
    with assms(1) that show thesis
      unfolding addWireguardInterface_def by (simp only: run run_modify) blast
  qed
  from c obtain key p k where k: "vd_new v (CreateInterface key p a) (vx_vpp s) = (Inr i, k)" "s1 = s\<lparr>vx_vpp := k\<rparr>"
    by (auto simp: vx_createWGInterface_def run run_vcreate)
  have "?I (s1\<lparr>vx_if := i\<rparr>)"
    using create_interface [OF k(1)] k(2) assms(2)
    by (simp add: vpp_carries_def vpp_idle_def other_nets_def vpp_peers_are_def)
  moreover have "ok_keeps ?I (?rest i)"
    by (intro ok_keeps_rules ok_vpp_ops) simp_all
  ultimately show ?thesis using rest by (auto simp: ok_keeps_def)
qed

lemma vx_AddWireGuard_run:
  assumes "vx_AddWireGuard v w s = (Inr u, s')" "vpp_idle s" "other_nets (wg_peers w)"
  shows "vpp_carries v peers routes s' (wg_peers w)"
proof -
  from assms(1) obtain ifc s1 where i: "addWireguardInterface v w ifc (s\<lparr>vx_cfg := Some w\<rparr>) = (Inr (), s1)"
    and a: "vx_AddPeers v (wg_peers w) s1 = (Inr (), s')"
    by (auto simp: vx_AddWireGuard_def run run_modify)
  have "vpp_idle (s\<lparr>vx_cfg := Some w\<rparr>)" using assms(2) by (simp add: vpp_idle_def)
  from vx_AddPeers_run [OF a addWireguardInterface_run [OF i this]] assms(3) show ?thesis by simp
qed

lemma vx_recreate_run:
  assumes "vx_recreate v w s = (Inr u, s')" "other_nets (wg_peers w)"
  shows "vpp_carries v peers routes s' (wg_peers w)"
proof -
  from assms(1) obtain s1 where "vx_AddWireGuard v w (s1\<lparr>vx_if := invalid_index, vx_peers := [], vx_dests := []\<rparr>) = (Inr (), s')"
    by (auto simp: vx_recreate_def cleanVPPObjectTracking_def run run_modify)
  then show ?thesis by (rule vx_AddWireGuard_run) (simp_all add: vpp_idle_def assms(2))
qed

lemma vx_Update_run:
  assumes r: "vx_UpdateWireGuardInterface v w s = (Inr u, s')" and s: "vpp_carries v peers routes s ps"
    and w: "other_nets (wg_peers w)"
  shows "vpp_carries v peers routes s' ps \<or> vpp_carries v peers routes s' (wg_peers w)"
proof -
  obtain new w0 old where "(if pi_private_key old \<noteq> pi_private_key new \<or> pi_port old \<noteq> pi_port new
      then vx_recreate v w else vx_update_in_place v (vx_if s) w0 old w new) s = (Inr u, s')"
  proof (cases "vx_cfg s")
    case None
    with r show thesis by (simp add: vx_UpdateWireGuardInterface_def run)
  next
    case (Some w0)
    with r show thesis by (cases "wg_iface w0") (auto simp: vx_UpdateWireGuardInterface_def run intro: that)
  qed
  then consider "vx_recreate v w s = (Inr u, s')" | "vx_update_in_place v (vx_if s) w0 old w new s = (Inr u, s')"
    by (auto split: if_splits)
  then show ?thesis
  proof cases
    case 1
    from vx_recreate_run [OF this w] show ?thesis by blast
  next
    case 2
    have "ok_keeps (\<lambda>s. vpp_carries v peers routes s ps) (vx_update_in_place v (vx_if s) w0 old w new)"
      unfolding Let_def vx_update_in_place_def by (intro ok_keeps_rules ok_vpp_ops) simp_all
    with 2 s show ?thesis unfolding ok_keeps_def by blast
  qed
qed

end

sublocale lawful_vpp \<subseteq> vx: wg_client "vpp_client v" "vpp_carries v peers routes" vpp_idle other_nets True
proof unfold_locales
  show "distinct ps" if "other_nets ps" for ps using that by (simp add: other_nets_def)
  show "other_nets qs" if "other_nets ps" "mset ps = mset qs" for ps qs using that by (rule other_nets_perm)
  show "other_nets ps" if "vpp_carries v peers routes c ps" for c ps using that by (simp add: vpp_carries_def)
  show "vpp_carries v peers routes c qs" if "vpp_carries v peers routes c ps" "mset ps = mset qs" for c ps qs
    using that by (rule vpp_carries_perm)
  show "vpp_idle c'" if "op_NewClient (vpp_client v) c = (Inr u, c')" for c c' u
    using that by (auto simp: vpp_client_def vx_NewClient_def vpp_idle_def run run_modify split: option.splits)
  show "vpp_carries v peers routes c' (wg_peers w)"
    if "vpp_idle c" "other_nets (wg_peers w)" "op_AddWireGuard (vpp_client v) w c = (Inr u, c')" for c c' u and w :: pb_wg
    by (rule vx_AddWireGuard_run [OF _ that(1,2)]) (use that(3) in \<open>simp add: vpp_client_def\<close>)
  show "vpp_carries v peers routes c' (ps @ qs)"
    if "vpp_carries v peers routes c ps" "other_nets (ps @ qs)" "op_AddPeers (vpp_client v) qs c = (Inr u, c')" for c c' ps qs u
    by (rule vx_AddPeers_run [OF _ that(1,2)]) (use that(3) in \<open>simp add: vpp_client_def\<close>)
  show "vpp_carries v peers routes c' ps"
    if "vpp_carries v peers routes c (qs @ ps)" "op_DelPeers (vpp_client v) qs c = (Inr u, c')" for c c' ps qs u
    by (rule vx_DelPeers_run [OF _ that(1)]) (use that(2) in \<open>simp add: vpp_client_def\<close>)
  show "vpp_carries v peers routes c' ps \<or> True \<and> vpp_carries v peers routes c' (wg_peers w)"
    if "vpp_carries v peers routes c ps" "other_nets (wg_peers w)" "op_UpdateWireGuardInterface (vpp_client v) w c = (Inr u, c')"
    for c c' ps u and w :: pb_wg
    using vx_Update_run [OF _ that(1,2)] that(3) by (simp add: vpp_client_def)
  show "op_DelPeers (vpp_client v) qs c \<noteq> (Inr u, c')"
    if "vpp_carries v peers routes c ps" "p \<in> set qs" "p \<notin> set ps" for c c' p ps qs u
    using vx_DelPeers_absent [OF that(1,3,2)] by (simp add: vpp_client_def)
  show "op_AddPeers (vpp_client v) qs c \<noteq> (Inr u, c')"
    if "vpp_carries v peers routes c ps" "p \<in> set ps" "p \<in> set qs" for c c' p ps qs u
    using vx_AddPeers_refused [OF that] by (simp add: vpp_client_def)
qed

section \<open>A VPN server on VPP\<close>

context lawful_vpp
begin

lemma vpp_tunnel:
  assumes "vp_Connect (vpp_client v) tel True e s = (Inr u, s1)" "sends other_nets e"
    and "served (vpp_client v) other_nets s1 s2"
  shows "synced (vpp_carries v peers routes) s2"
  using assms(3) vx.connected_synced [OF assms(1,2)] by (rule vx.served_synced)

text \<open>A new key or port sets up the new peers at once; when they differ from the old ones, the update of the
  peers that follows fails, and so does the rebuild.\<close>

lemma vpp_rekey:
  assumes s: "synced (vpp_carries v peers routes) s" and old: "cfg_wg s = Some old" "wg_iface old = Some i0"
    and cfg: "vx_cfg (vp_client s) = Some old"
    and new: "wg_iface new = Some i1" "pi_private_key i0 \<noteq> pi_private_key i1 \<or> pi_port i0 \<noteq> pi_port i1"
      "well_keyed other_nets (wg_peers new)"
    and p: "p \<in> set (wg_peers new)" "p \<notin> set (wg_peers old)"
  shows "reconfigureWireGuardVPN (vpp_client v) new s \<noteq> (Inr u, s')"
proof
  assume run: "reconfigureWireGuardVPN (vpp_client v) new s = (Inr u, s')"
  have scratch: False if "reconfigureWireGuardVPNFromScratch (vpp_client v) new s1 = (Inr (), s2)" for s1 s2
    using vx.scratch_peers(1) [OF that] new(3) p(1) by (auto simp: well_keyed_def)
  have "wg_iface old \<noteq> wg_iface new" using old(2) new(1,2) by auto
  then have "or_scratch (vpp_client v) new (op_UpdateWireGuardInterface (vpp_client v) new)
      (update_peers (vpp_client v) old new) s = (Inr u, s')"
    using run old(1) by (simp add: reconfigureWireGuardVPN_def Prelude.run)
  then obtain c where c: "vx_UpdateWireGuardInterface v new (vp_client s) = (Inr (), c)"
    and rest: "update_peers (vpp_client v) old new (s\<lparr>vp_client := c\<rparr>) = (Inr u, s')"
    by (rule run_or_scratch) (use scratch in \<open>auto simp: vpp_client_def\<close>)
  from c cfg old(2) new(1,2) have "vx_recreate v new (vp_client s) = (Inr (), c)"
    by (auto simp: vx_UpdateWireGuardInterface_def Prelude.run validate_wg_config_def split: if_splits)
  then have c': "vpp_carries v peers routes c (wg_peers new)" using new(3) by (intro vx_recreate_run) (simp_all add: well_keyed_def)
  have add: False if "or_scratch (vpp_client v) new (op_AddPeers (vpp_client v) qs) m (s\<lparr>vp_client := c\<rparr>) = (Inr u, s')"
    "p \<in> set qs" for qs m
    using that(1) by (rule run_or_scratch) (use vx_AddPeers_refused [OF c' p(1) that(2)] scratch in \<open>auto simp: vpp_client_def\<close>)
  from p have p': "p \<in> set (filter (\<lambda>p. p \<notin> set (wg_peers old)) (wg_peers new))" by simp
  from rest show False
  proof (cases rule: run_update_peers)
    case 1
    moreover have "filter (\<lambda>p. p \<notin> set (wg_peers old)) (wg_peers new) \<noteq> []"
      using p' by (metis empty_iff empty_set)
    ultimately show False using add [OF _ p'] by simp
  next
    case (2 q)
    from 2(2) show False
      by (rule run_or_scratch)
        (use vx_DelPeers_absent [OF c' _ 2(1)] 2(1) scratch in \<open>auto simp: vpp_client_def\<close>)
  qed
qed

end

section \<open>A simulated VPP\<close>

text \<open>Interfaces and peers get the next free index; peers and routes are lists.\<close>

record sim_vpp =
  sv_next :: "32 word"
  sv_peers :: "((32 word \<times> 32 word) \<times> nat list \<times> prefix list) list"
  sv_routes :: "(32 word \<times> prefix4) list"

definition empty_vpp :: sim_vpp where
  "empty_vpp = \<lparr>sv_next = 1, sv_peers = [], sv_routes = []\<rparr>"

fun sim_vpp_do :: "vpp_call \<Rightarrow> sim_vpp \<Rightarrow> err option \<times> sim_vpp" where
  "sim_vpp_do (AddDelRoute add i x) k = (None, k\<lparr>sv_routes :=
     (if add then List.insert (i, x) (sv_routes k) else removeAll (i, x) (sv_routes k))\<rparr>)"
| "sim_vpp_do (PeerRemove j) k = (None, k\<lparr>sv_peers := filter (\<lambda>x. snd (fst x) \<noteq> j) (sv_peers k)\<rparr>)"
| "sim_vpp_do (DeleteInterface i) k = (None, k\<lparr>sv_peers := filter (\<lambda>x. fst (fst x) \<noteq> i) (sv_peers k),
     sv_routes := filter (\<lambda>x. fst x \<noteq> i) (sv_routes k)\<rparr>)"
| "sim_vpp_do _ k = (None, k)"

fun sim_vpp_new :: "vpp_create \<Rightarrow> sim_vpp \<Rightarrow> (err + 32 word) \<times> sim_vpp" where
  "sim_vpp_new (CreateInterface key port a) k =
     (let i = sv_next k in
      if i = invalid_index then (Inl (errors_new ''no index left''), k)
      else (Inr i, \<lparr>sv_next = i + 1, sv_peers = filter (\<lambda>x. fst (fst x) \<noteq> i) (sv_peers k),
         sv_routes = filter (\<lambda>x. fst x \<noteq> i) (sv_routes k)\<rparr>))"
| "sim_vpp_new (PeerAdd q) k =
     (let j = sv_next k in
      if j = invalid_index \<or> list_ex (\<lambda>x. snd (fst x) = j \<or> fst (fst x) = vq_if q \<and> fst (snd x) = vq_key q) (sv_peers k)
      then (Inl (errors_new ''entry already exists''), k)
      else (Inr j, k\<lparr>sv_next := j + 1, sv_peers := ((vq_if q, j), vq_key q, vq_allowed q) # sv_peers k\<rparr>))"

definition sim_vpp :: "sim_vpp vpp" where
  "sim_vpp = \<lparr>vd_do = sim_vpp_do, vd_new = sim_vpp_new, vd_interfaces = (\<lambda>_. Inr [(0, ''wg-underlay'')]),
     vd_addresses = (\<lambda>_ _. Inr [''192.0.2.1'']),
     vd_prefix = (\<lambda>t. case parse_prefix t of None \<Rightarrow> Inl (errors_new ''ParsePrefix'') | Some p \<Rightarrow> Inr p),
     vd_addr = (\<lambda>t. case parse_addr t of None \<Rightarrow> Inl (errors_new ''ParseAddress'') | Some a \<Rightarrow> Inr a),
     vd_connect = (\<lambda>_. None), vd_version = (\<lambda>_. None), vd_order = (\<lambda>ds. ds)\<rparr>"

definition sim_vpp_peers :: "sim_vpp \<Rightarrow> 32 word \<Rightarrow> 32 word \<Rightarrow> (nat list \<times> prefix list) option" where
  "sim_vpp_peers k i j = map_of (sv_peers k) (i, j)"

definition sim_vpp_routes :: "sim_vpp \<Rightarrow> 32 word \<Rightarrow> prefix4 set" where
  "sim_vpp_routes k i = {x. (i, x) \<in> set (sv_routes k)}"

lemma map_of_filter_key: "map_of (filter (\<lambda>x. P (fst x)) xs) y = (if P y then map_of xs y else None)"
  by (induction xs) auto

lemma sim_vpp_laws:
  "keeps_vpp_tunnel c \<Longrightarrow> sim_vpp_do c k = (None, k') \<Longrightarrow> sim_vpp_peers k' = sim_vpp_peers k \<and> sim_vpp_routes k' = sim_vpp_routes k"
  "sim_vpp_do (AddDelRoute add i x) k = (None, k') \<Longrightarrow> sim_vpp_peers k' = sim_vpp_peers k \<and> sim_vpp_routes k' =
     (sim_vpp_routes k)(i := (if add then insert x (sim_vpp_routes k i) else sim_vpp_routes k i - {x}))"
  "sim_vpp_do (PeerRemove j) k = (None, k') \<Longrightarrow> sim_vpp_routes k' = sim_vpp_routes k \<and> sim_vpp_peers k' i = (sim_vpp_peers k i)(j := None)"
  "sim_vpp_new (CreateInterface key port a) k = (Inr i, k') \<Longrightarrow>
     i \<noteq> invalid_index \<and> sim_vpp_peers k' i = Map.empty \<and> sim_vpp_routes k' i = {}"
proof -
  show "keeps_vpp_tunnel c \<Longrightarrow> sim_vpp_do c k = (None, k') \<Longrightarrow> sim_vpp_peers k' = sim_vpp_peers k \<and> sim_vpp_routes k' = sim_vpp_routes k"
    by (cases c) (auto simp: sim_vpp_peers_def [abs_def] sim_vpp_routes_def [abs_def])
  show "sim_vpp_do (AddDelRoute add i x) k = (None, k') \<Longrightarrow> sim_vpp_peers k' = sim_vpp_peers k \<and> sim_vpp_routes k' =
     (sim_vpp_routes k)(i := (if add then insert x (sim_vpp_routes k i) else sim_vpp_routes k i - {x}))"
    by (auto simp: sim_vpp_peers_def [abs_def] sim_vpp_routes_def [abs_def] intro!: ext split: if_splits)
  show "sim_vpp_do (PeerRemove j) k = (None, k') \<Longrightarrow> sim_vpp_routes k' = sim_vpp_routes k \<and> sim_vpp_peers k' i = (sim_vpp_peers k i)(j := None)"
    by (auto simp: sim_vpp_peers_def sim_vpp_routes_def map_of_filter_key [where P = "\<lambda>x. snd x \<noteq> j"])
  show "sim_vpp_new (CreateInterface key port a) k = (Inr i, k') \<Longrightarrow>
     i \<noteq> invalid_index \<and> sim_vpp_peers k' i = Map.empty \<and> sim_vpp_routes k' i = {}"
    by (auto simp: Let_def sim_vpp_peers_def sim_vpp_routes_def map_of_filter_key [where P = "\<lambda>x. fst x \<noteq> sv_next k"] fun_eq_iff
        split: if_splits)
qed

lemma sim_vpp_add:
  assumes "sim_vpp_new (PeerAdd q) k = (Inr j, k')"
  shows "j \<noteq> invalid_index \<and> sim_vpp_peers k (vq_if q) j = None \<and> vq_key q \<notin> fst ` ran (sim_vpp_peers k (vq_if q)) \<and>
    sim_vpp_routes k' = sim_vpp_routes k \<and>
    sim_vpp_peers k' (vq_if q) = (sim_vpp_peers k (vq_if q))(j \<mapsto> (vq_key q, vq_allowed q))"
proof -
  from assms have j: "j \<noteq> invalid_index" "k' = k\<lparr>sv_next := j + 1, sv_peers := ((vq_if q, j), vq_key q, vq_allowed q) # sv_peers k\<rparr>"
    and free: "\<forall>x\<in>set (sv_peers k). snd (fst x) \<noteq> j \<and> \<not> (fst (fst x) = vq_if q \<and> fst (snd x) = vq_key q)"
    by (auto simp: Let_def list_ex_iff split: if_splits)
  have "sim_vpp_peers k (vq_if q) j = None"
    using free by (auto simp: sim_vpp_peers_def map_of_eq_None_iff)
  moreover have "vq_key q \<notin> fst ` ran (sim_vpp_peers k (vq_if q))"
    using free by (fastforce simp: sim_vpp_peers_def ran_def dest: map_of_SomeD)
  ultimately show ?thesis using j by (auto simp: sim_vpp_peers_def sim_vpp_routes_def)
qed

interpretation svpp: lawful_vpp sim_vpp sim_vpp_peers sim_vpp_routes
proof unfold_locales
qed (simp only: sim_vpp_def vpp.select_convs, fact sim_vpp_laws sim_vpp_add)+

section \<open>Properties\<close>


definition sample_vpp_wg :: "pb_peer list \<Rightarrow> pb_wg" where
  "sample_vpp_wg ps = \<lparr>wg_name = ''wg0'', wg_iface = Some \<lparr>pi_private_key = ''priv'', pi_addresses = [''10.0.0.254/24''],
     pi_port = ''53'', pi_dns = [], pi_mtu = []\<rparr>, wg_peers = ps\<rparr>"

definition sample_rekey :: pb_wg where
  "sample_rekey = \<lparr>wg_name = ''wg0'', wg_iface = Some \<lparr>pi_private_key = ''keys'', pi_addresses = [''10.0.0.254/24''],
     pi_port = ''53'', pi_dns = [], pi_mtu = []\<rparr>, wg_peers = [sample_peer ''1'']\<rparr>"

definition sample_vpp_attempt :: attempt_env where
  "sample_vpp_attempt = \<lparr>ae_conn = None, ae_config = Inr (Some \<lparr>vc_type = WireguardType, vc_telemetry = False,
     vc_wg = Some (sample_vpp_wg [sample_peer ''1''])\<rparr>), ae_telemetry = None\<rparr>"

definition vpp_start :: "sim_vpp vppc vpns" where
  "vpp_start = \<lparr>vp_client = \<lparr>vx_vpp = empty_vpp, vx_cfg = None, vx_if = 0, vx_peers = [], vx_dests = []\<rparr>,
     vp_wgc = False, vp_cfg = None, vp_conn = False, vp_updates = False, vp_sending = False\<rparr>"

definition vpp_connected :: "sim_vpp vppc vpns" where
  "vpp_connected = snd (vp_Connect (vpp_client sim_vpp) False True sample_vpp_attempt vpp_start)"

definition vpp_rekeyed :: "sim_vpp vppc vpns" where
  "vpp_rekeyed = snd (answer_notification (vpp_client sim_vpp) (ConfigNtf sample_rekey) vpp_connected)"

lemma vpp_sample_connect:
  "vp_Connect (vpp_client sim_vpp) False True sample_vpp_attempt vpp_start = (Inr (), vpp_connected)"
proof -
  have "fst (vp_Connect (vpp_client sim_vpp) False True sample_vpp_attempt vpp_start) = Inr ()" by code_simp
  then show ?thesis by (simp add: vpp_connected_def prod_eq_iff)
qed

lemma vpp_sample_rekey:
  "answer_notification (vpp_client sim_vpp) (ConfigNtf sample_rekey) vpp_connected = (Inr (RpcOk, None), vpp_rekeyed)"
proof -
  have "fst (answer_notification (vpp_client sim_vpp) (ConfigNtf sample_rekey) vpp_connected) = Inr (RpcOk, None)" by code_simp
  then show ?thesis by (simp add: vpp_rekeyed_def prod_eq_iff)
qed

lemma vpp_sample_fit: "sends other_nets sample_vpp_attempt" "ntf_ok other_nets vpp_connected (ConfigNtf sample_rekey)"
  by (simp_all add: sends_def sample_vpp_attempt_def sample_vpp_wg_def sample_rekey_def well_keyed_def other_nets_def sample_peer_def)


text \<open>A configuration with another private key or port and a peer the old one did not have is never applied on
  VPP without an error.\<close>

theorem vpp_rekey_with_new_peer_fails:
  assumes "lawful_vpp v peers routes" and "synced (vpp_carries v peers routes) s"
    and "cfg_wg s = Some old" "vx_cfg (vp_client s) = Some old" "wg_iface old = Some i0" "wg_iface new = Some i1"
    and "pi_private_key i0 \<noteq> pi_private_key i1 \<or> pi_port i0 \<noteq> pi_port i1" "well_keyed other_nets (wg_peers new)"
    and "p \<in> set (wg_peers new)" "p \<notin> set (wg_peers old)"
  shows "reconfigureWireGuardVPN (vpp_client v) new s \<noteq> (Inr u, s')"
  by (rule lawful_vpp.vpp_rekey [OF assms(1,2,3,5,4,6-10)])

text \<open>The IPv6 networks of a peer become IPv4 routes: the default route for IPv6 is set for IPv4.\<close>

lemma ipv6_route_becomes_ipv4:
  "map_option network_to_vpp (cidr_parts ''::/0'') = Some (0, 0)"
  "map_option network_to_vpp (cidr_parts ''::2/128'') = Some (0, 128)"
  by code_simp+

end
