(* ===== verification/Tokens.thy ===== *)
theory Tokens
  imports Rest_Access
begin

text \<open>
  The tokens of the REST service: \<open>src/pkg/jwt/jwt.go\<close>.  The library \<open>golang-jwt\<close> is a parameter: it signs
  claims, and \<open>ParseWithClaims\<close> asks for the key of the signing method it finds, checks the signature and
  validates the claims by the given options.  Times are seconds, as in tokens; durations are nanoseconds.
\<close>

section \<open>The library\<close>

datatype signing_method = SigningMethodHMAC string | OtherMethod string

record claims =
  ExpiresAt :: "int option"
  IssuedAt :: "int option"
  NotBefore :: "int option"
  Subject :: string
  Issuer :: string
  Audience :: "string list"

record parser_options =
  WithExpirationRequired :: bool
  WithIssuedAt :: bool
  WithNotBeforeRequired :: bool
  WithIssuer :: string
  WithAudience :: string

record jwt_lib =
  jl_sign :: "signing_method \<Rightarrow> string \<Rightarrow> claims \<Rightarrow> err + string"
  jl_parse :: "(signing_method \<Rightarrow> err + string) \<Rightarrow> parser_options \<Rightarrow> int \<Rightarrow> string \<Rightarrow> err + (claims \<times> bool)"

text \<open>The validator of claims, as the library documents it.\<close>

definition claims_valid :: "parser_options \<Rightarrow> int \<Rightarrow> claims \<Rightarrow> bool" where
  "claims_valid o' now c =
     ((case ExpiresAt c of None \<Rightarrow> \<not> WithExpirationRequired o' | Some e \<Rightarrow> now < e)
      \<and> (case NotBefore c of None \<Rightarrow> \<not> WithNotBeforeRequired o' | Some n \<Rightarrow> n \<le> now)
      \<and> (case IssuedAt c of None \<Rightarrow> True | Some i \<Rightarrow> WithIssuedAt o' \<longrightarrow> i \<le> now)
      \<and> Issuer c = WithIssuer o' \<and> WithAudience o' \<in> set (Audience c))"

text \<open>What the code relies on: parsing a signed token under its key yields its claims while they are valid.\<close>

definition jwt_lawful :: "jwt_lib \<Rightarrow> bool" where
  "jwt_lawful J = (\<forall>m k c t kf o' now. jl_sign J m k c = Inr t \<and> kf m = Inr k \<longrightarrow>
     (if claims_valid o' now c then jl_parse J kf o' now t = Inr (c, True)
      else \<not> is_ok (jl_parse J kf o' now t)))"

section \<open>The provider\<close>

record token_provider =
  tp_secret :: string
  tp_expiration :: int
  tp_signMethod :: string

definition minExpiration :: int where "minExpiration = 60 * 10 ^ 9"
definition jwt_issuer :: string where "jwt_issuer = ''urn:entguard:orchestrator''"
definition jwt_audience :: string where "jwt_audience = ''urn:entguard:orchestrator:api''"

text \<open>\<open>generateSecretKey\<close> reads 64 bytes from the random source.\<close>

definition NewTokenProvider :: "int \<Rightarrow> err + string \<Rightarrow> err + token_provider" where
  "NewTokenProvider expiration random =
     (if expiration < minExpiration then Inl (errors_new ''expiration time must at least 1m0s'')
      else bind_res random (\<lambda>e. e) (\<lambda>secret.
        Inr \<lparr>tp_secret = secret, tp_expiration = expiration, tp_signMethod = ''HS256''\<rparr>))"

definition createToken :: "jwt_lib \<Rightarrow> token_provider \<Rightarrow> claims \<Rightarrow> err + string" where
  "createToken J p c =
     bind_res (jl_sign J (SigningMethodHMAC (tp_signMethod p)) (tp_secret p) c) (\<lambda>e. e) Inr"

definition CreateToken :: "jwt_lib \<Rightarrow> token_provider \<Rightarrow> int \<Rightarrow> string \<Rightarrow> err + string" where
  "CreateToken J p now username =
     createToken J p \<lparr>ExpiresAt = Some (now + tp_expiration p div 10 ^ 9), IssuedAt = Some now,
       NotBefore = Some now, Subject = username, Issuer = jwt_issuer, Audience = [jwt_audience]\<rparr>"

definition hmac_key :: "token_provider \<Rightarrow> signing_method \<Rightarrow> err + string" where
  "hmac_key p m = (case m of
     SigningMethodHMAC _ \<Rightarrow> Inr (tp_secret p)
   | OtherMethod _ \<Rightarrow> Inl (errors_new ''unexpected signing method''))"

definition validate_options :: parser_options where
  "validate_options = \<lparr>WithExpirationRequired = True, WithIssuedAt = True, WithNotBeforeRequired = True,
     WithIssuer = jwt_issuer, WithAudience = jwt_audience\<rparr>"

definition ValidateToken :: "jwt_lib \<Rightarrow> token_provider \<Rightarrow> int \<Rightarrow> string \<Rightarrow> err + string" where
  "ValidateToken J p now token =
     bind_res (jl_parse J (hmac_key p) validate_options now token) (wrapv ''invalid token'') (\<lambda>(c, valid).
     if \<not> valid then Inl (errors_new ''invalid token'') else Inr (Subject c))"

section \<open>Properties\<close>

lemma token_lifetime:
  assumes "jwt_lawful J" and "CreateToken J p t0 u = Inr t" and "t0 \<le> now"
  shows "if now < t0 + tp_expiration p div 10 ^ 9 then ValidateToken J p now t = Inr u
     else \<not> is_ok (ValidateToken J p now t)"
proof -
  let ?c = "\<lparr>ExpiresAt = Some (t0 + tp_expiration p div 10 ^ 9), IssuedAt = Some t0,
       NotBefore = Some t0, Subject = u, Issuer = jwt_issuer, Audience = [jwt_audience]\<rparr>"
  have s: "jl_sign J (SigningMethodHMAC (tp_signMethod p)) (tp_secret p) ?c = Inr t"
    using assms(2) by (auto simp: CreateToken_def createToken_def bind_res_Inr_iff)
  have k: "hmac_key p (SigningMethodHMAC (tp_signMethod p)) = Inr (tp_secret p)"
    by (simp add: hmac_key_def)
  have v: "claims_valid validate_options now ?c \<longleftrightarrow> now < t0 + tp_expiration p div 10 ^ 9"
    using assms(3) by (auto simp: claims_valid_def validate_options_def)
  have "if claims_valid validate_options now ?c then jl_parse J (hmac_key p) validate_options now t = Inr (?c, True)
      else \<not> is_ok (jl_parse J (hmac_key p) validate_options now t)"
    using assms(1) s k unfolding jwt_lawful_def by blast
  then show ?thesis
    unfolding v ValidateToken_def
    by (cases "jl_parse J (hmac_key p) validate_options now t") (auto split: if_splits)
qed

lemma bearer_header:
  assumes "find_sub ''Bearer'' t = None" and "trim_space t = t"
  shows "bearer_token (''Bearer '' @ t) = Some t"
proof -
  have "find_sub ''Bearer'' (''Bearer '' @ t) = Some ([], '' '' @ t)"
    by (simp add: has_prefix_def)
  moreover have "find_sub ''Bearer'' ('' '' @ t) = None"
    using assms(1) by (simp add: has_prefix_def)
  ultimately have "split_at ''Bearer'' (''Bearer '' @ t) = [[], '' '' @ t]"
    by (simp add: split_at.simps)
  moreover have "trim_space ('' '' @ t) = trim_space t"
    by (simp add: trim_space_def is_space_def)
  ultimately show ?thesis
    using assms(2) by (simp add: bearer_token_def)
qed

text \<open>C7. The token that an administrator gets for a name and a password authenticates requests as that user,
  from the moment it was issued for exactly the configured time, which is at least a minute; afterwards it
  is refused.\<close>

theorem login_token_authenticates:
  assumes "jwt_lawful J" and "NewTokenProvider expiration random = Inr p"
    and "re_create_token R = CreateToken J p" and "re_validate_token R = ValidateToken J p"
    and "getTokenForUser R u pw w0 = (Inr t, w1)"
    and "find_sub ''Bearer'' t = None" and "trim_space t = t"
    and "w_now w1 \<le> w_now w" and "rq_authorization rq = ''Bearer '' @ t"
  shows "rest_jwtAuth R rq w =
      (if w_now w < w_now w1 + expiration div 10 ^ 9
       then try_do (um_GetUserByName u)
         (\<lambda>e. if e = Sentinel ErrUserNotFound then auth_failed ''invalid token'' else e) ret w
       else (Inl (auth_failed ''invalid token''), w))
    \<and> 60 \<le> expiration div 10 ^ 9"
proof -
  have p: "tp_expiration p = expiration" "minExpiration \<le> expiration"
    using assms(2) by (auto simp: NewTokenProvider_def bind_res_Inr_iff split: if_splits)
  have bt: "bearer_token (rq_authorization rq) = Some t"
    unfolding assms(9) by (rule bearer_header [OF assms(6,7)])
  have ne: "rq_authorization rq \<noteq> []"
    unfolding assms(9) by simp
  have "CreateToken J p (w_now w1) u = Inr t"
    using assms(5) by (auto simp: getTokenForUser_def run assms(3))
  from token_lifetime [OF assms(1) this assms(8)]
  have "if w_now w < w_now w1 + expiration div 10 ^ 9 then ValidateToken J p (w_now w) t = Inr u
      else \<not> is_ok (ValidateToken J p (w_now w) t)"
    by (simp add: p)
  then have "rest_jwtAuth R rq w =
      (if w_now w < w_now w1 + expiration div 10 ^ 9
       then try_do (um_GetUserByName u)
         (\<lambda>e. if e = Sentinel ErrUserNotFound then auth_failed ''invalid token'' else e) ret w
       else (Inl (auth_failed ''invalid token''), w))"
    using bt ne by (cases "ValidateToken J p (w_now w) t")
      (auto simp: rest_jwtAuth_def assms(4) try_do_def gets_def throw_def split: if_splits)
  moreover have "60 \<le> expiration div 10 ^ 9"
    using p(2) by (simp add: minExpiration_def)
  ultimately show ?thesis by blast
qed

text \<open>A library that signs one token.\<close>

definition sample_claims :: claims where
  "sample_claims = \<lparr>ExpiresAt = Some 125, IssuedAt = Some 5, NotBefore = Some 5, Subject = ''ann'',
     Issuer = jwt_issuer, Audience = [jwt_audience]\<rparr>"

definition sample_jwt :: jwt_lib where
  "sample_jwt =
     \<lparr>jl_sign = (\<lambda>m k c. if m = SigningMethodHMAC ''HS256'' \<and> k = ''s'' \<and> c = sample_claims then Inr ''tok'' else Inl DbError),
      jl_parse = (\<lambda>kf o' now t. if t \<noteq> ''tok'' then Inl DbError
        else bind_res (kf (SigningMethodHMAC ''HS256'')) (\<lambda>e. e) (\<lambda>k.
          if k = ''s'' \<and> claims_valid o' now sample_claims then Inr (sample_claims, True) else Inl DbError))\<rparr>"

definition sample_provider :: token_provider where
  "sample_provider = \<lparr>tp_secret = ''s'', tp_expiration = 120 * 10 ^ 9, tp_signMethod = ''HS256''\<rparr>"

definition token_rest :: rest_env where
  "token_rest = sample_rest\<lparr>re_auth_type := ''jwt'', re_create_token := CreateToken sample_jwt sample_provider,
     re_validate_token := ValidateToken sample_jwt sample_provider\<rparr>"

lemma sample_jwt_lawful: "jwt_lawful sample_jwt"
  by (auto simp: jwt_lawful_def sample_jwt_def is_ok_def split: if_splits)

lemma sample_token:
  "fst (getTokenForUser token_rest ''ann'' ''pw'' (world_of sample_db [])) = Inr ''tok''"
  "w_now (snd (getTokenForUser token_rest ''ann'' ''pw'' (world_of sample_db []))) = 5"
  by code_simp+

theorem login_token_authenticates_witness:
  "getTokenForUser token_rest ''ann'' ''pw'' (world_of sample_db []) =
     (Inr ''tok'', snd (getTokenForUser token_rest ''ann'' ''pw'' (world_of sample_db [])))
   \<and> rest_jwtAuth token_rest (sample_request\<lparr>rq_authorization := ''Bearer '' @ ''tok''\<rparr>) ((world_of sample_db [])\<lparr>w_now := 125\<rparr>)
       = (Inl (auth_failed ''invalid token''), (world_of sample_db [])\<lparr>w_now := 125\<rparr>)"
proof -
  let ?g = "getTokenForUser token_rest ''ann'' ''pw'' (world_of sample_db [])"
  have g: "?g = (Inr ''tok'', snd ?g)"
    using sample_token(1) by (metis prod.collapse)
  have p: "NewTokenProvider (120 * 10 ^ 9) (Inr ''s'') = Inr sample_provider"
    by (simp add: NewTokenProvider_def minExpiration_def sample_provider_def)
  have t: "re_create_token token_rest = CreateToken sample_jwt sample_provider"
      "re_validate_token token_rest = ValidateToken sample_jwt sample_provider"
    by (simp_all add: token_rest_def)
  have s: "find_sub ''Bearer'' ''tok'' = None" "trim_space ''tok'' = ''tok''"
    by code_simp+
  have "w_now (snd ?g) \<le> w_now ((world_of sample_db [])\<lparr>w_now := 125\<rparr>)"
    by (simp add: sample_token(2))
  from login_token_authenticates [OF sample_jwt_lawful p t g s this,
      where rq = "sample_request\<lparr>rq_authorization := ''Bearer '' @ ''tok''\<rparr>"]
  show ?thesis using g by (simp add: sample_token(2))
qed

end
