(* ===== verification/Config.thy ===== *)
theory Config
  imports Users Complex_Main
begin

text \<open>
  The configuration of the orchestrator from environment variables (\<open>src/service/config/config.go\<close>, with the
  features of the community edition in \<open>features_stub.go\<close>), the periodic check that its session settings
  control, and the configuration file of the VPN server (\<open>src/pkg/server-config/config.go\<close>).

  A duration is a number of nanoseconds.  \<open>getenv\<close> gives the value of a variable, empty when it is not set.
  The functions of libraries are parameters: the parsers of floating-point numbers and durations, whose
  results are only stored, and \<open>mergo.Merge\<close>.
\<close>

section \<open>Features\<close>

record features =
  Version :: int
  MaxUsers :: int
  MaxDPU :: int
  StartDate :: int
  ExpirationDate :: int
  FeaturesDetails :: string

text \<open>\<open>RetrieveFeatures\<close>; the dates are those of the clock, \<open>add_years\<close> is \<open>time.AddDate\<close>.\<close>

definition RetrieveFeatures :: "int \<Rightarrow> (int \<Rightarrow> int \<Rightarrow> int) \<Rightarrow> err + features" where
  "RetrieveFeatures now add_years =
     Inr \<lparr>Version = 2, MaxUsers = 0, MaxDPU = 1, StartDate = now, ExpirationDate = add_years now 1000,
          FeaturesDetails = []\<rparr>"

definition GetMaxUserQuantity :: "features \<Rightarrow> int" where "GetMaxUserQuantity f = 0"
definition GetDPULimit :: "features \<Rightarrow> int" where "GetDPULimit f = 1"
definition feature_LDAP :: "features \<Rightarrow> bool" where "feature_LDAP f = False"
definition feature_Telemetry :: "features \<Rightarrow> bool" where "feature_Telemetry f = False"
definition feature_Version :: "features \<Rightarrow> int" where "feature_Version f = 2"

definition feature_Details :: "features \<Rightarrow> string" where
  "feature_Details f = (if length (FeaturesDetails f) = 0 then ''no details specified'' else FeaturesDetails f)"

section \<open>The data of the configuration\<close>

record 'f rest_config =
  re_AuthType :: string
  re_Port :: string
  re_CertFile :: string
  re_KeyFile :: string
  re_TokenExpiration :: int
  re_TokensPerSecond :: 'f
  re_BucketSize :: int

record 'f rpc_config =
  rp_PortVpnS :: string
  rp_PortVpnC :: string
  rp_PortHealthcheck :: string
  rp_CertFile :: string
  rp_KeyFile :: string
  rp_TokensPerSecond :: 'f
  rp_BucketSize :: int

record password_config =
  pc_MinLength :: int
  pc_Uppercase :: bool
  pc_Lowercase :: bool
  pc_Symbol :: bool
  pc_Digit :: bool

record user_management_config =
  um_LdapSyncInterval :: int
  um_PwdCfg :: password_config
  um_MFAEnabledTypes :: "string list"
  um_HealthcheckRPCPortVpnC :: string
  um_SessionExpiration :: int
  um_SessionExpCheckInterval :: int

record postgres_config =
  pg_Host :: string
  pg_Port :: "16 word"
  pg_Database :: string
  pg_User :: string
  pg_Password :: string
  pg_ConnPoolSize :: int

datatype log_level = DebugLevel | InfoLevel | WarnLevel

record 'f config =
  cf_REST :: "'f rest_config"
  cf_RPC :: "'f rpc_config"
  cf_ReinitCert :: bool
  cf_UserManager :: user_management_config
  cf_DB :: postgres_config
  cf_LogLevel :: log_level
  cf_Features :: features
  cf_EncryptionKeyPath :: string

record 'f config_libs =
  cl_parse_float :: "string \<Rightarrow> err + 'f"
  cl_parse_duration :: "string \<Rightarrow> err + int"
  cl_merge :: "postgres_config \<Rightarrow> postgres_config \<Rightarrow> err + postgres_config"
  cl_num_cpu :: int
  cl_now :: int
  cl_add_years :: "int \<Rightarrow> int \<Rightarrow> int"

section \<open>The variables\<close>

definition serviceRESTPortEnv :: string where "serviceRESTPortEnv = ''VPN_ORCHESTRATOR_REST_PORT''"
definition serviceRPCPortVpnSEnv :: string where "serviceRPCPortVpnSEnv = ''VPN_ORCHESTRATOR_RPC_PORT_VPN_S''"
definition serviceRPCPortVpnCEnv :: string where "serviceRPCPortVpnCEnv = ''VPN_ORCHESTRATOR_RPC_PORT_VPN_C''"
definition serviceRPCPortHealthcheckEnv :: string where "serviceRPCPortHealthcheckEnv = ''VPN_ORCHESTRATOR_RPC_PORT_HEALTH_CHECK''"
definition healthcheckRPCPortVpnCEnv :: string where "healthcheckRPCPortVpnCEnv = ''VPN_HEALTH_CHECK_RPC_PORT_VPN_C''"
definition serviceRPCCertFileEnv :: string where "serviceRPCCertFileEnv = ''VPN_ORCHESTRATOR_RPC_CERT_FILE''"
definition serviceRPCKeyFileEnv :: string where "serviceRPCKeyFileEnv = ''VPN_ORCHESTRATOR_RPC_KEY_FILE''"
definition authTypeEnv :: string where "authTypeEnv = ''VPN_ORCHESTRATOR_AUTH_TYPE''"
definition serviceEncryptionKeyPathEnv :: string where "serviceEncryptionKeyPathEnv = ''VPN_ORCHESTRATOR_ENCRYPTION_KEY_FILE''"
definition logLevelEnv :: string where "logLevelEnv = ''VPN_ORCHESTRATOR_LOG_LEVEL''"
definition reinitCertProviderEnv :: string where "reinitCertProviderEnv = ''VPN_ORCHESTRATOR_RPC_REINIT_CERT_PROVIDER''"
definition grpcBucketSizeEnv :: string where "grpcBucketSizeEnv = ''VPN_ORCHESTRATOR_RPC_RL_SIZE''"
definition grpcTokensPerSecondEnv :: string where "grpcTokensPerSecondEnv = ''VPN_ORCHESTRATOR_RPC_RL_RATE''"
definition restBucketSizeEnv :: string where "restBucketSizeEnv = ''VPN_ORCHESTRATOR_REST_RL_SIZE''"
definition restTokensPerSecondEnv :: string where "restTokensPerSecondEnv = ''VPN_ORCHESTRATOR_REST_RL_RATE''"
definition passwordMinLengthEnv :: string where "passwordMinLengthEnv = ''VPN_ORCHESTRATOR_PWD_MIN_LEN''"
definition passwordLowerEnv :: string where "passwordLowerEnv = ''VPN_ORCHESTRATOR_PWD_LOWER''"
definition passwordUpperEnv :: string where "passwordUpperEnv = ''VPN_ORCHESTRATOR_PWD_UPPER''"
definition passwordDigitEnv :: string where "passwordDigitEnv = ''VPN_ORCHESTRATOR_PWD_DIGIT''"
definition passwordSymbolEnv :: string where "passwordSymbolEnv = ''VPN_ORCHESTRATOR_PWD_SYMBOL''"
definition ldapSyncIntervalEnv :: string where "ldapSyncIntervalEnv = ''VPN_ORCHESTRATOR_LDAP_SYNC_INTERVAL''"
definition authTokenExpirationEnv :: string where "authTokenExpirationEnv = ''VPN_ORCHESTRATOR_AUTH_TOKEN_EXPIRATION''"
definition pgHostEnv :: string where "pgHostEnv = ''PGHOST''"
definition pgPortEnv :: string where "pgPortEnv = ''PGPORT''"
definition pgDatabaseEnv :: string where "pgDatabaseEnv = ''PGDATABASE''"
definition pgUserEnv :: string where "pgUserEnv = ''PGUSER''"
definition pgPasswordEnv :: string where "pgPasswordEnv = ''PGPASSWORD''"
definition mfaTOTPEnv :: string where "mfaTOTPEnv = ''VPN_ORCHESTRATOR_2FA_TOTP''"
definition mfaCertificateEnv :: string where "mfaCertificateEnv = ''VPN_ORCHESTRATOR_2FA_CERTIFICATE''"
definition sessionExpirationEnv :: string where "sessionExpirationEnv = ''VPN_ORCHESTRATOR_SESSION_EXPIRATION''"
definition sessionExpCheckIntervalEnv :: string where "sessionExpCheckIntervalEnv = ''VPN_ORCHESTRATOR_SESSION_EXP_CHECK_INTERVAL''"

lemmas variable_names =
  serviceRESTPortEnv_def serviceRPCPortVpnSEnv_def serviceRPCPortVpnCEnv_def serviceRPCPortHealthcheckEnv_def
  healthcheckRPCPortVpnCEnv_def serviceRPCCertFileEnv_def serviceRPCKeyFileEnv_def authTypeEnv_def
  serviceEncryptionKeyPathEnv_def logLevelEnv_def reinitCertProviderEnv_def grpcBucketSizeEnv_def
  grpcTokensPerSecondEnv_def restBucketSizeEnv_def restTokensPerSecondEnv_def passwordMinLengthEnv_def
  passwordLowerEnv_def passwordUpperEnv_def passwordDigitEnv_def passwordSymbolEnv_def
  ldapSyncIntervalEnv_def authTokenExpirationEnv_def pgHostEnv_def pgPortEnv_def
  pgDatabaseEnv_def pgUserEnv_def pgPasswordEnv_def mfaTOTPEnv_def
  mfaCertificateEnv_def sessionExpirationEnv_def sessionExpCheckIntervalEnv_def

section \<open>Parsing\<close>

text \<open>\<open>strconv.ParseBool\<close> and \<open>strconv.Atoi\<close>\<close>

definition parse_bool :: "string \<Rightarrow> err + bool" where
  "parse_bool s =
     (if s \<in> {''1'', ''t'', ''T'', ''true'', ''TRUE'', ''True''} then Inr True
      else if s \<in> {''0'', ''f'', ''F'', ''false'', ''FALSE'', ''False''} then Inr False
      else Inl (errors_new ''invalid syntax''))"

definition parse_int :: "string \<Rightarrow> err + int" where
  "parse_int s = (case atoi s of None \<Rightarrow> Inl (errors_new ''invalid syntax'') | Some i \<Rightarrow> Inr i)"

definition envOrDefault :: "(string \<Rightarrow> string) \<Rightarrow> string \<Rightarrow> string \<Rightarrow> string" where
  "envOrDefault getenv key defalt = (let val = getenv key in if val = [] then defalt else val)"

definition parse_log_level :: "string \<Rightarrow> log_level" where
  "parse_log_level s =
     (if s = ''debug'' then DebugLevel else if s = ''info'' then InfoLevel
      else if s = ''warn'' \<or> s = ''warning'' then WarnLevel else WarnLevel)"

section \<open>The database\<close>

definition DefaultPostgresConfig :: "int \<Rightarrow> postgres_config" where
  "DefaultPostgresConfig num_cpu =
     \<lparr>pg_Host = ''localhost'', pg_Port = 5432, pg_Database = ''entguard'', pg_User = ''postgres'',
      pg_Password = ''postgres'', pg_ConnPoolSize = (if num_cpu > 4 then num_cpu else 4)\<rparr>"

definition parse_pg_port :: "string \<Rightarrow> err + 16 word" where
  "parse_pg_port p =
     (if p \<noteq> [] then
        bind_res (parse_int p) (wrapw ''failed to parse environment variable'') (\<lambda>port.
        if port < 0 \<or> port > 65535 then Inl (errors_new ''port is outside of allowed range (0-65535)'')
        else Inr (word_of_int port))
      else Inr 0)"

definition PostgresConfigFromEnv :: "'f config_libs \<Rightarrow> (string \<Rightarrow> string) \<Rightarrow> err + postgres_config" where
  "PostgresConfigFromEnv L getenv =
     (let cfg = DefaultPostgresConfig (cl_num_cpu L);
          envCfg = \<lparr>pg_Host = getenv pgHostEnv, pg_Port = 0, pg_Database = getenv pgDatabaseEnv,
             pg_User = getenv pgUserEnv, pg_Password = getenv pgPasswordEnv, pg_ConnPoolSize = 0\<rparr>
      in bind_res (parse_pg_port (getenv pgPortEnv)) (\<lambda>e. e) (\<lambda>port.
         bind_res (cl_merge L cfg (envCfg\<lparr>pg_Port := port\<rparr>))
           (wrapw ''failed to create postgres config from environment variables'') Inr))"

definition ToURL :: "postgres_config \<Rightarrow> string" where
  "ToURL c = ''postgres://'' @ pg_User c @ '':'' @ pg_Password c @ ''@'' @ pg_Host c @ '':'' @
     itoa (uint (pg_Port c)) @ ''/'' @ pg_Database c @ ''?pool_max_conns='' @ itoa (pg_ConnPoolSize c)"

section \<open>\<open>FromEnv\<close>\<close>

text \<open>The rate limits.\<close>

definition read_limits ::
  "'f config_libs \<Rightarrow> (string \<Rightarrow> string) \<Rightarrow> err + (int \<times> 'f) \<times> (int \<times> 'f)" where
  "read_limits L getenv =
     bind_res (parse_int (envOrDefault getenv grpcBucketSizeEnv ''500''))
       (wrapv ''failed to parse grpc rate limiting's bucket size'') (\<lambda>grpcBucketSize.
     bind_res (cl_parse_float L (envOrDefault getenv grpcTokensPerSecondEnv ''10''))
       (wrapv ''failed to parse grpc rate limiting's tokens per second'') (\<lambda>grpcTps.
     bind_res (parse_int (envOrDefault getenv restBucketSizeEnv ''500''))
       (wrapv ''failed to parse REST rate limiting's bucket size'') (\<lambda>restBucketSize.
     bind_res (cl_parse_float L (envOrDefault getenv restTokensPerSecondEnv ''10''))
       (wrapv ''failed to parse REST rate limiting's tokens per second'') (\<lambda>restTps.
     Inr ((grpcBucketSize, grpcTps), (restBucketSize, restTps))))))"

text \<open>The rules for passwords.\<close>

definition read_password_config :: "(string \<Rightarrow> string) \<Rightarrow> err + password_config" where
  "read_password_config getenv =
     bind_res (parse_int (envOrDefault getenv passwordMinLengthEnv ''15''))
       (wrapv ''failed to parse password minimum length'') (\<lambda>pwdMinLen.
     bind_res (parse_bool (envOrDefault getenv passwordLowerEnv ''false''))
       (wrapv ''failed to parse lower case requirement'') (\<lambda>lowerReq.
     bind_res (parse_bool (envOrDefault getenv passwordUpperEnv ''false''))
       (wrapv ''failed to parse upper case requirement'') (\<lambda>upperReq.
     bind_res (parse_bool (envOrDefault getenv passwordDigitEnv ''false''))
       (wrapv ''failed to parse digit requirement'') (\<lambda>digit.
     bind_res (parse_bool (envOrDefault getenv passwordSymbolEnv ''false''))
       (wrapv ''failed to parse special symbol requirement'') (\<lambda>symbol.
     Inr \<lparr>pc_MinLength = pwdMinLen, pc_Uppercase = upperReq, pc_Lowercase = lowerReq,
          pc_Symbol = symbol, pc_Digit = digit\<rparr>)))))"

text \<open>The enabled second factors; both are read from the variable of the one-time passwords.\<close>

definition read_mfa_types :: "(string \<Rightarrow> string) \<Rightarrow> err + string list" where
  "read_mfa_types getenv =
     bind_res (parse_bool (envOrDefault getenv mfaTOTPEnv ''false'')) (wrapv ''failed to parse MFA TOTP'') (\<lambda>mfaTOPT.
     bind_res (parse_bool (envOrDefault getenv mfaTOTPEnv ''false'')) (wrapv ''failed to parse MFA TOTP'') (\<lambda>mfaCertificate.
     let mfaAuthTypes = [];
         mfaAuthTypes = (if mfaTOPT then mfaAuthTypes @ [''totp''] else mfaAuthTypes);
         mfaAuthTypes = (if mfaCertificate then mfaAuthTypes @ [''cert''] else mfaAuthTypes)
     in Inr mfaAuthTypes))"

definition read_ldap_interval :: "'f config_libs \<Rightarrow> (string \<Rightarrow> string) \<Rightarrow> features \<Rightarrow> err + int" where
  "read_ldap_interval L getenv feats =
     (if feature_LDAP feats then
        bind_res (cl_parse_duration L (envOrDefault getenv ldapSyncIntervalEnv ''1h''))
          (wrapv ''failed to parse ldap sync interval duration'') (\<lambda>i.
        if i = 0 then Inl (errors_new ''ldap sync interval duration must be non-zero'') else Inr i)
      else Inr 0)"

text \<open>The expiration of tokens and of sessions and the interval of the check of sessions.\<close>

definition read_expirations :: "'f config_libs \<Rightarrow> (string \<Rightarrow> string) \<Rightarrow> err + int \<times> int \<times> int" where
  "read_expirations L getenv =
     bind_res (cl_parse_duration L (envOrDefault getenv authTokenExpirationEnv ''30m''))
       (wrapv ''failed to parse auth token expiration duration'') (\<lambda>tokenExpiration.
     bind_res (cl_parse_duration L (envOrDefault getenv sessionExpirationEnv ''168h''))
       (wrapv ''failed to parse session expiration duration'') (\<lambda>sessionExpiration.
     bind_res (cl_parse_duration L (envOrDefault getenv sessionExpCheckIntervalEnv ''1h''))
       (wrapv ''failed to parse session expiration check interval duration'') (\<lambda>sessionExpCheckInterval.
     if sessionExpCheckInterval = 0
     then Inl (errors_new ''session expiration check interval duration must be non-zero'')
     else Inr (tokenExpiration, sessionExpiration, sessionExpCheckInterval))))"

definition FromEnv :: "'f config_libs \<Rightarrow> (string \<Rightarrow> string) \<Rightarrow> err + 'f config" where
  "FromEnv L getenv =
     (let restPort = envOrDefault getenv serviceRESTPortEnv ''8080'';
          rpcPortVpnS = envOrDefault getenv serviceRPCPortVpnSEnv ''8081'';
          rpcPortVpnC = envOrDefault getenv serviceRPCPortVpnCEnv ''8082'';
          rpcPortHealthcheck = envOrDefault getenv serviceRPCPortHealthcheckEnv ''8083'';
          healthcheckRPCPortVpnC = envOrDefault getenv healthcheckRPCPortVpnCEnv ''8084'';
          rpcCert = envOrDefault getenv serviceRPCCertFileEnv [];
          rpcKey = envOrDefault getenv serviceRPCKeyFileEnv [];
          authType = envOrDefault getenv authTypeEnv ''jwt'';
          encryptionKeyPath = envOrDefault getenv serviceEncryptionKeyPathEnv [];
          logLevel = parse_log_level (getenv logLevelEnv)
      in bind_res (read_limits L getenv) (\<lambda>e. e) (\<lambda>(grpc, rest).
         bind_res (read_password_config getenv) (\<lambda>e. e) (\<lambda>pwdCfg.
         bind_res (read_mfa_types getenv) (\<lambda>e. e) (\<lambda>mfaAuthTypes.
         bind_res (parse_bool (envOrDefault getenv reinitCertProviderEnv ''false''))
           (wrapv ''failed to parse new CA option'') (\<lambda>reinitCert.
         bind_res (RetrieveFeatures (cl_now L) (cl_add_years L))
           (wrapv ''failed to validate the features'') (\<lambda>feats.
         bind_res (read_ldap_interval L getenv feats) (\<lambda>e. e) (\<lambda>ldapSyncInterval.
         bind_res (read_expirations L getenv) (\<lambda>e. e)
           (\<lambda>(tokenExpiration, sessionExpiration, sessionExpCheckInterval).
         bind_res (PostgresConfigFromEnv L getenv) (wrapw ''failed to create DB config'') (\<lambda>pgCfg.
         Inr \<lparr>cf_REST = \<lparr>re_AuthType = authType, re_Port = restPort, re_CertFile = rpcCert,
                re_KeyFile = rpcKey, re_TokenExpiration = tokenExpiration,
                re_TokensPerSecond = snd rest, re_BucketSize = fst rest\<rparr>,
              cf_RPC = \<lparr>rp_PortVpnS = rpcPortVpnS, rp_PortVpnC = rpcPortVpnC,
                rp_PortHealthcheck = rpcPortHealthcheck, rp_CertFile = rpcCert, rp_KeyFile = rpcKey,
                rp_TokensPerSecond = snd grpc, rp_BucketSize = fst grpc\<rparr>,
              cf_ReinitCert = reinitCert,
              cf_UserManager = \<lparr>um_LdapSyncInterval = ldapSyncInterval, um_PwdCfg = pwdCfg,
                um_MFAEnabledTypes = mfaAuthTypes, um_HealthcheckRPCPortVpnC = healthcheckRPCPortVpnC,
                um_SessionExpiration = sessionExpiration,
                um_SessionExpCheckInterval = sessionExpCheckInterval\<rparr>,
              cf_DB = pgCfg, cf_LogLevel = logLevel, cf_Features = feats,
              cf_EncryptionKeyPath = encryptionKeyPath\<rparr>)))))))))"

text \<open>The settings of the user manager: \<open>NewPostgresManager\<close> keeps the configuration it is given.\<close>

definition user_cfg_from :: "'f config \<Rightarrow> user_cfg \<Rightarrow> user_cfg" where
  "user_cfg_from c C =
     (let p = um_PwdCfg (cf_UserManager c) in
      C\<lparr>uc_min_length := pc_MinLength p, uc_upper := pc_Uppercase p, uc_lower := pc_Lowercase p,
        uc_digit := pc_Digit p, uc_symbol := pc_Symbol p,
        uc_mfa_types := um_MFAEnabledTypes (cf_UserManager c),
        uc_max_users := GetMaxUserQuantity (cf_Features c)\<rparr>)"

section \<open>The periodic check of sessions\<close>

text \<open>\<open>Ticker.Reset\<close> panics unless the duration is positive.\<close>

definition ticker_reset :: "int \<Rightarrow> err + unit" where
  "ticker_reset d = (if d \<le> 0 then Inl Panic else Inr ())"

text \<open>
  \<open>startSessionInvalidation\<close>, up to its \<open>n\<close>-th tick; the context is cancelled afterwards.  The clock of the
  world counts seconds, so an expiration is cut to whole seconds.
\<close>

definition session_tick :: "user_management_config \<Rightarrow> unit wop" where
  "session_tick cfg =
     bind_do (um_RunSessionInvalidation (um_SessionExpiration cfg div 10 ^ 9)) (\<lambda>_.
     lift (ticker_reset (um_SessionExpCheckInterval cfg)))"

definition startSessionInvalidation :: "user_management_config \<Rightarrow> nat \<Rightarrow> unit wop" where
  "startSessionInvalidation cfg n =
     (if um_SessionExpiration cfg = 0 then ret () else for_each (\<lambda>_. session_tick cfg) [0..<n])"

section \<open>The configuration file of a VPN server\<close>

text \<open>Rates are floating-point numbers, of which only their being zero matters here.\<close>

record server_config =
  UseVPP :: bool
  RPCAddr :: string
  RPCTimeout :: int
  CaName :: string
  CaCert :: string
  ReconnectAttempts :: int
  ReconnectPause :: int
  LogLevel :: string
  TokensPerSecond :: rat
  BucketSize :: int
  HCGRPCAddr :: string
  HCListenPort :: int
  HCTokensPerSecond :: rat
  HCBucketSize :: int

definition second :: int where "second = 10 ^ 9"

text \<open>Every unset setting gets its default; each test reads only its own setting.\<close>

definition set_server_defaults :: "server_config \<Rightarrow> server_config" where
  "set_server_defaults c =
     c\<lparr>RPCAddr := (if RPCAddr c = [] then ''127.0.0.1:8081'' else RPCAddr c),
        RPCTimeout := (if RPCTimeout c = 0 then 15 * second else RPCTimeout c),
        CaName := (if CaName c = [] then ''cnf-vpn-o.local'' else CaName c),
        ReconnectAttempts := (if ReconnectAttempts c = 0 then 10 else ReconnectAttempts c),
        ReconnectPause := (if ReconnectPause c = 0 then 5 * second else ReconnectPause c),
        LogLevel := (if LogLevel c = [] then ''info'' else LogLevel c),
        TokensPerSecond := (if TokensPerSecond c = 0 then 20 else TokensPerSecond c),
        BucketSize := (if BucketSize c = 0 then 500 else BucketSize c),
        HCGRPCAddr := (if HCGRPCAddr c = [] then ''127.0.0.1:8083'' else HCGRPCAddr c),
        HCListenPort := (if HCListenPort c = 0 then 8084 else HCListenPort c),
        HCTokensPerSecond := (if HCTokensPerSecond c = 0 then 20 else HCTokensPerSecond c),
        HCBucketSize := (if HCBucketSize c = 0 then 500 else HCBucketSize c)\<rparr>"

text \<open>\<open>NewConfigFromFile\<close>; \<open>read_file\<close> and \<open>decode\<close> are \<open>os.ReadFile\<close> and \<open>json.Unmarshal\<close>.\<close>

definition NewConfigFromFile ::
  "(string \<Rightarrow> err + string) \<Rightarrow> (string \<Rightarrow> err + server_config) \<Rightarrow> string \<Rightarrow> err + server_config" where
  "NewConfigFromFile read_file decode path =
     bind_res (read_file path) (\<lambda>e. e) (\<lambda>data.
     bind_res (decode data) (\<lambda>e. e) (\<lambda>c.
     if length (CaCert c) = 0 then Inl (errors_new ''provided CA certificate is empty'')
     else Inr (set_server_defaults c)))"

lemma bind_res_InrE:
  assumes "bind_res r w k = Inr y"
  obtains x where "r = Inr x" and "k x = Inr y"
  using assms by (auto simp: bind_res_Inr_iff)

lemma case_prod_InrE:
  assumes "(case p of (a, b) \<Rightarrow> f a b) = Inr y"
  obtains a b where "p = (a, b)" and "f a b = Inr y"
  using assms by (cases p) auto

text \<open>A loaded configuration has no empty setting: the service can connect, retry and answer.\<close>

theorem loaded_config_complete:
  assumes "NewConfigFromFile read_file decode path = Inr c"
  shows "RPCAddr c \<noteq> [] \<and> RPCTimeout c \<noteq> 0 \<and> CaName c \<noteq> [] \<and> CaCert c \<noteq> [] \<and> ReconnectAttempts c \<noteq> 0
    \<and> ReconnectPause c \<noteq> 0 \<and> TokensPerSecond c \<noteq> 0 \<and> BucketSize c \<noteq> 0 \<and> HCListenPort c \<noteq> 0
    \<and> HCTokensPerSecond c \<noteq> 0 \<and> HCBucketSize c \<noteq> 0"
proof -
  obtain c0 where "c = set_server_defaults c0" and "CaCert c0 \<noteq> []"
    using assms unfolding NewConfigFromFile_def by (elim bind_res_InrE) (auto split: if_splits)
  then show ?thesis by (simp add: set_server_defaults_def second_def)
qed

section \<open>Properties\<close>

lemma FromEnv_cases:
  assumes "FromEnv L getenv = Inr c"
  obtains
    "read_mfa_types getenv = Inr (um_MFAEnabledTypes (cf_UserManager c))"
    "read_password_config getenv = Inr (um_PwdCfg (cf_UserManager c))"
    "read_expirations L getenv = Inr (re_TokenExpiration (cf_REST c), um_SessionExpiration (cf_UserManager c),
       um_SessionExpCheckInterval (cf_UserManager c))"
    "PostgresConfigFromEnv L getenv = Inr (cf_DB c)"
    "RetrieveFeatures (cl_now L) (cl_add_years L) = Inr (cf_Features c)"
  using assms unfolding FromEnv_def Let_def
  by (elim bind_res_InrE case_prod_InrE) (drule sum.inject(2) [THEN iffD1], hypsubst,
    simp only: config.simps rest_config.simps user_management_config.simps)

lemma mfa_types_read:
  "read_mfa_types getenv = Inr ts \<longleftrightarrow>
   (\<exists>b. parse_bool (envOrDefault getenv mfaTOTPEnv ''false'') = Inr b \<and> ts = (if b then [''totp'', ''cert''] else []))"
  by (cases "parse_bool (envOrDefault getenv mfaTOTPEnv ''false'')") (auto simp: read_mfa_types_def)

lemma other_names: "mfaCertificateEnv \<notin> {serviceRESTPortEnv, serviceRPCPortVpnSEnv, serviceRPCPortVpnCEnv, serviceRPCPortHealthcheckEnv, healthcheckRPCPortVpnCEnv, serviceRPCCertFileEnv, serviceRPCKeyFileEnv, authTypeEnv, serviceEncryptionKeyPathEnv, logLevelEnv, reinitCertProviderEnv, grpcBucketSizeEnv, grpcTokensPerSecondEnv, restBucketSizeEnv, restTokensPerSecondEnv, passwordMinLengthEnv, passwordLowerEnv, passwordUpperEnv, passwordDigitEnv, passwordSymbolEnv, ldapSyncIntervalEnv, authTokenExpirationEnv, pgHostEnv, pgPortEnv, pgDatabaseEnv, pgUserEnv, pgPasswordEnv, mfaTOTPEnv, sessionExpirationEnv, sessionExpCheckIntervalEnv}"
  unfolding variable_names by code_simp

lemma other_variable:
  assumes "k \<noteq> mfaCertificateEnv"
  shows "envOrDefault (getenv(mfaCertificateEnv := v)) k d = envOrDefault getenv k d"
    and "(getenv(mfaCertificateEnv := v)) k = getenv k"
  using assms by (simp_all add: envOrDefault_def)

lemmas certificate_variable_other = other_variable [OF not_sym]

lemma certificate_variable_parts:
  "read_limits L (getenv(mfaCertificateEnv := v)) = read_limits L getenv"
  "read_password_config (getenv(mfaCertificateEnv := v)) = read_password_config getenv"
  "read_mfa_types (getenv(mfaCertificateEnv := v)) = read_mfa_types getenv"
  "read_ldap_interval L (getenv(mfaCertificateEnv := v)) f = read_ldap_interval L getenv f"
  "read_expirations L (getenv(mfaCertificateEnv := v)) = read_expirations L getenv"
  "PostgresConfigFromEnv L (getenv(mfaCertificateEnv := v)) = PostgresConfigFromEnv L getenv"
  using other_names
  by (simp_all add: read_limits_def read_password_config_def read_mfa_types_def read_ldap_interval_def
      read_expirations_def PostgresConfigFromEnv_def certificate_variable_other del: fun_upd_apply)

lemma certificate_variable_unread: "FromEnv L (getenv(mfaCertificateEnv := v)) = FromEnv L getenv"
  unfolding FromEnv_def certificate_variable_parts
  using other_names by (simp add: certificate_variable_other del: fun_upd_apply)

lemma session_tick_run:
  "fst (session_tick cfg w) = (if um_SessionExpCheckInterval cfg \<le> 0 then Inl Panic else Inr ())"
proof -
  have "\<exists>w'. um_RunSessionInvalidation t w = (Inr (), w')" for t
    by (auto simp: um_RunSessionInvalidation_def um_InvalidateOldDevicesSessions_def InvalidateOldDeviceSessions_def
        q_update_rows_def ignore_err_def attempt_def try_do_def gets_def ret_def db_call_def Let_def under_both_def
        split: prod.splits sum.splits err.splits)
  then obtain w' where "um_RunSessionInvalidation (um_SessionExpiration cfg div 10 ^ 9) w = (Inr (), w')" by blast
  then show ?thesis by (simp add: session_tick_def try_do_def lift_def ticker_reset_def)
qed

lemma session_ticks_run:
  "fst (for_each (\<lambda>_. session_tick cfg) xs w) =
   (if xs \<noteq> [] \<and> um_SessionExpCheckInterval cfg \<le> 0 then Inl Panic else Inr ())"
proof (induction xs arbitrary: w)
  case (Cons x xs)
  then show ?case
    using session_tick_run [of cfg w]
    by (cases "session_tick cfg w") (auto simp: try_do_def split: sum.splits if_splits)
qed (simp add: ret_def)

text \<open>C21. What an accepted configuration means for the user manager: the second factors are both enabled or
  both disabled, by the variable of the one-time passwords alone, so the variable of certificates has no
  effect; the community edition allows one device per user and any number of users; and the periodic
  check of sessions ends the orchestrator at its first tick exactly when sessions expire and the
  interval is negative.\<close>

theorem configuration_enables_factors:
  "FromEnv L (getenv(mfaCertificateEnv := v)) = FromEnv L getenv
   \<and> (\<forall>c. FromEnv L getenv = Inr c \<longrightarrow>
        (\<forall>t \<in> {''totp'', ''cert''}. is_ok (ensure_mfa_can_be_set (user_cfg_from c C) t) \<longleftrightarrow>
           parse_bool (envOrDefault getenv mfaTOTPEnv ''false'') = Inr True)
        \<and> GetDPULimit (cf_Features c) = 1 \<and> uc_max_users (user_cfg_from c C) = 0
        \<and> (\<forall>w n. fst (startSessionInvalidation (cf_UserManager c) (Suc n) w) = Inl Panic \<longleftrightarrow>
             um_SessionExpiration (cf_UserManager c) \<noteq> 0 \<and> um_SessionExpCheckInterval (cf_UserManager c) < 0))"
proof (intro conjI allI impI)
  show "FromEnv L (getenv(mfaCertificateEnv := v)) = FromEnv L getenv"
    by (rule certificate_variable_unread)
next
  fix c
  assume c: "FromEnv L getenv = Inr c"
  show "\<forall>t \<in> {''totp'', ''cert''}. is_ok (ensure_mfa_can_be_set (user_cfg_from c C) t) \<longleftrightarrow>
      parse_bool (envOrDefault getenv mfaTOTPEnv ''false'') = Inr True"
    using c by (rule FromEnv_cases)
      (auto simp: mfa_types_read ensure_mfa_can_be_set_def user_cfg_from_def Let_def)
  show "GetDPULimit (cf_Features c) = 1" and "uc_max_users (user_cfg_from c C) = 0"
    by (simp_all add: GetDPULimit_def user_cfg_from_def Let_def GetMaxUserQuantity_def)
  fix w n
  have "um_SessionExpCheckInterval (cf_UserManager c) \<noteq> 0"
    using c by (rule FromEnv_cases) (auto simp: read_expirations_def bind_res_Inr_iff split: if_splits)
  moreover have "xs = [0..<Suc n] \<Longrightarrow> xs \<noteq> []" for xs by simp
  ultimately show "(fst (startSessionInvalidation (cf_UserManager c) (Suc n) w) = Inl Panic) \<longleftrightarrow>
      um_SessionExpiration (cf_UserManager c) \<noteq> 0 \<and> um_SessionExpCheckInterval (cf_UserManager c) < 0"
    by (auto simp: startSessionInvalidation_def session_ticks_run ret_def simp del: upt_Suc)
qed

section \<open>A configuration\<close>

text \<open>Durations in whole hours, rates as natural numbers; unset variables of the database keep the defaults.\<close>

definition sample_libs :: "int config_libs" where
  "sample_libs = \<lparr>cl_parse_float = parse_int,
     cl_parse_duration = (\<lambda>s. if s = ''30m'' then Inr (1800 * second)
        else if s \<noteq> [] \<and> last s = CHR ''h'' then map_sum id (\<lambda>h. h * 3600 * second) (parse_int (butlast s))
        else Inl (errors_new ''invalid duration'')),
     cl_merge = (\<lambda>d s. Inr \<lparr>pg_Host = (if pg_Host s = [] then pg_Host d else pg_Host s),
        pg_Port = (if pg_Port s = 0 then pg_Port d else pg_Port s),
        pg_Database = (if pg_Database s = [] then pg_Database d else pg_Database s),
        pg_User = (if pg_User s = [] then pg_User d else pg_User s),
        pg_Password = (if pg_Password s = [] then pg_Password d else pg_Password s),
        pg_ConnPoolSize = (if pg_ConnPoolSize s = 0 then pg_ConnPoolSize d else pg_ConnPoolSize s)\<rparr>),
     cl_num_cpu = 8, cl_now = 0, cl_add_years = (\<lambda>t y. t + y * 31557600)\<rparr>"

text \<open>With the variable of certificates set, no certificate can be chosen; a negative interval is accepted.\<close>

definition sample_getenv :: "string \<Rightarrow> string" where
  "sample_getenv = (\<lambda>_. [])(sessionExpCheckIntervalEnv := ''-1h'', mfaCertificateEnv := ''true'')"

lemma sample_config_parts:
  "is_ok (FromEnv sample_libs sample_getenv)"
  "read_expirations sample_libs sample_getenv = Inr (1800 * second, 168 * 3600 * second, - 3600 * second)"
  "parse_bool (envOrDefault sample_getenv mfaTOTPEnv ''false'') = Inr False"
  by code_simp+

theorem configuration_enables_factors_witness:
  "\<exists>c. FromEnv sample_libs sample_getenv = Inr c
    \<and> (\<forall>C. \<not> is_ok (ensure_mfa_can_be_set (user_cfg_from c C) ''cert''))
    \<and> (\<forall>w. fst (startSessionInvalidation (cf_UserManager c) (Suc 0) w) = Inl Panic)"
proof -
  obtain c where c: "FromEnv sample_libs sample_getenv = Inr c"
    using sample_config_parts(1) by (cases "FromEnv sample_libs sample_getenv") simp_all
  from c have "um_SessionExpiration (cf_UserManager c) = 168 * 3600 * second"
    and "um_SessionExpCheckInterval (cf_UserManager c) = - 3600 * second"
    by (rule FromEnv_cases; simp add: sample_config_parts)+
  then have "um_SessionExpiration (cf_UserManager c) \<noteq> 0 \<and> um_SessionExpCheckInterval (cf_UserManager c) < 0"
    by (simp add: second_def)
  then have "\<not> is_ok (ensure_mfa_can_be_set (user_cfg_from c C) ''cert'')
      \<and> fst (startSessionInvalidation (cf_UserManager c) (Suc 0) w) = Inl Panic" for C w
    using configuration_enables_factors [of sample_libs sample_getenv "[]" C] c
    by (simp add: sample_config_parts(3))
  with c show ?thesis by blast
qed

end
