(* ===== verification/Crypt.thy ===== *)
theory Crypt
  imports Api_Model
begin

text \<open>
  The command \<open>egvpn crypt\<close> (\<open>src/cmd/egvpn/cmd/crypt.go\<close>, \<open>src/pkg/crypto/aesgcm/aesgcm.go\<close>): it
  encrypts, reencrypts or decrypts the secret columns of the database while the orchestrator is
  stopped.  The statements of this command name their tables and columns by text, so the database is
  modelled here as named tables of rows of named cells.  As in \<open>Store\<close>, a fault schedule says which of
  the coming statements fail.  A rollback whose own statement fails is done by the server when the
  connection ends.  Bytes are characters, as for the cipher of \<open>env\<close>.
\<close>

section \<open>The database of the command\<close>

datatype cell = CNull | CInt int | CText string | CBytes string

type_synonym crypt_row = "(string \<times> cell) list"
type_synonym crypt_tables = "(string \<times> crypt_row list) list"

record crypt_world =
  cw_tables :: crypt_tables
  cw_faults :: "bool list"
  cw_rnd :: nat
  cw_printed :: "nat list"

type_synonym 'a cop = "(crypt_world, 'a) op"

definition cw_call :: "(crypt_tables \<Rightarrow> (err + 'a) \<times> crypt_tables) \<Rightarrow> 'a cop" where
  "cw_call f = (\<lambda>w.
     let w' = w\<lparr>cw_faults := tl (cw_faults w)\<rparr> in
     if cw_faults w \<noteq> [] \<and> hd (cw_faults w) then (Inl DbError, w')
     else case f (cw_tables w) of (r, t) \<Rightarrow> (r, w'\<lparr>cw_tables := t\<rparr>))"

definition cw_draw :: "(nat \<Rightarrow> err + 'a) \<Rightarrow> 'a cop" where
  "cw_draw f = (\<lambda>w. (f (cw_rnd w), w\<lparr>cw_rnd := Suc (cw_rnd w)\<rparr>))"

text \<open>A cell of a row; an unknown column is an error of the statement.\<close>

definition get_cell :: "string \<Rightarrow> crypt_row \<Rightarrow> err + cell" where
  "get_cell c row = (case map_of row c of None \<Rightarrow> Inl DbError | Some v \<Rightarrow> Inr v)"

definition set_cell :: "string \<Rightarrow> cell \<Rightarrow> crypt_row \<Rightarrow> crypt_row" where
  "set_cell c v row = map (\<lambda>(n, x). (n, if n = c then v else x)) row"

definition set_rows :: "string \<Rightarrow> crypt_row list \<Rightarrow> crypt_tables \<Rightarrow> crypt_tables" where
  "set_rows t rs T = map (\<lambda>(n, x). (n, if n = t then rs else x)) T"

section \<open>Ciphertexts\<close>

text \<open>\<open>aesgcm.NewEmptyCiphertext\<close>, \<open>Ciphertext.IsEmpty\<close>, \<open>aesgcm.Seal\<close>, \<open>aesgcm.Open\<close>.\<close>

definition NewEmptyCiphertext :: string where
  "NewEmptyCiphertext = []"

definition ciphertext_is_empty :: "string \<Rightarrow> bool" where
  "ciphertext_is_empty c = (length c = 0)"

definition aesgcm_Seal :: "env \<Rightarrow> string \<Rightarrow> string \<Rightarrow> string cop" where
  "aesgcm_Seal E key p = cw_draw (\<lambda>n. env_seal E key n p)"

definition aesgcm_Open :: "env \<Rightarrow> string \<Rightarrow> string \<Rightarrow> err + string" where
  "aesgcm_Open E key c = env_open E key c"

text \<open>\<open>aesgcm.ReadKeyFromFile\<close>; \<open>files\<close> is the file system.\<close>

definition ReadKeyFromFile :: "env \<Rightarrow> (string \<Rightarrow> err + string) \<Rightarrow> string \<Rightarrow> string cop" where
  "ReadKeyFromFile E files path =
     try_do (lift (files path)) (wrapv ''failed to read file'') (\<lambda>key.
     guard_do (length key = 0) (errors_new ''encryption key is empty'') (
     try_do (aesgcm_Seal E key ''dummy'') (wrapv ''encryption key is not valid AES key'') (\<lambda>_.
     ret key)))"

text \<open>\<open>config.ReadEncryptionKey\<close>, with which the orchestrator reads its key.\<close>

definition ReadEncryptionKey :: "env \<Rightarrow> (string \<Rightarrow> err + string) \<Rightarrow> string \<Rightarrow> string cop" where
  "ReadEncryptionKey E files encryptionKeyPath =
     guard_do (encryptionKeyPath = []) (errors_new ''missing path to encryption key file'') (
     try_do (ReadKeyFromFile E files encryptionKeyPath) (wrapv ''failed to read encryption key'') ret)"

section \<open>Options\<close>

record crypt_options =
  co_Mode :: string
  co_OldKeyPath :: string
  co_NewKeyPath :: string

definition modeEncrypt :: string where "modeEncrypt = ''encrypt''"
definition modeReencrypt :: string where "modeReencrypt = ''reencrypt''"
definition modeDecrypt :: string where "modeDecrypt = ''decrypt''"
definition modeStatus :: string where "modeStatus = ''status''"

lemmas crypt_modes = modeEncrypt_def modeReencrypt_def modeDecrypt_def modeStatus_def

definition verifyCryptOptions :: "crypt_options \<Rightarrow> err + unit" where
  "verifyCryptOptions opts =
     (if co_Mode opts = modeEncrypt then
        (if co_OldKeyPath opts \<noteq> [] \<or> co_NewKeyPath opts = []
         then Inl (errors_new ''old-key-path must NOT be set and new-key-path must be set'') else Inr ())
      else if co_Mode opts = modeReencrypt then
        (if co_OldKeyPath opts = [] \<or> co_NewKeyPath opts = []
         then Inl (errors_new ''both old-key-path and new-key-path must be set'') else Inr ())
      else if co_Mode opts = modeDecrypt then
        (if co_OldKeyPath opts = [] \<or> co_NewKeyPath opts \<noteq> []
         then Inl (errors_new ''old-key-path must be set and new-key-path must NOT be set'') else Inr ())
      else if co_Mode opts = modeStatus then Inr ()
      else Inl (errors_new ''unsupported mode''))"

section \<open>Secret columns\<close>

record secret_column =
  TableName :: string
  IDColumnName :: string
  PlaintextColumnName :: string
  CiphertextColumnName :: string

definition secret_column :: "string \<Rightarrow> string \<Rightarrow> string \<Rightarrow> string \<Rightarrow> secret_column" where
  "secret_column t i p c =
     \<lparr>TableName = t, IDColumnName = i, PlaintextColumnName = p, CiphertextColumnName = c\<rparr>"

definition secretColumns :: "secret_column list" where
  "secretColumns =
     [secret_column ''devices'' ''id'' ''private_key'' ''private_key_encrypted'',
      secret_column ''server_wg_configs'' ''id'' ''private_key'' ''private_key_encrypted'',
      secret_column ''totp'' ''id'' ''key'' ''key_encrypted'',
      secret_column ''adjacencies'' ''id'' ''preshared_key'' ''preshared_key_encrypted'']"

definition secretColumnsIdAsString :: "secret_column list" where
  "secretColumnsIdAsString = [secret_column ''ldaps'' ''id'' ''bind_pw'' ''bind_pw_encrypted'']"

definition secretColumnsPlaintextAsBytes :: "secret_column list" where
  "secretColumnsPlaintextAsBytes = [secret_column ''root_ca'' ''id'' ''key'' ''key_encrypted'']"

text \<open>The type parameters of \<open>transformColumns\<close>: an integer or a string, a string or bytes.\<close>

datatype id_type = IdInt | IdString
datatype plain_type = PlainString | PlainBytes

section \<open>Encryption status\<close>

datatype enc_status = Unencrypted | Encrypted | NoEncryptableData

definition scan_ciphertext :: "cell \<Rightarrow> err + string" where
  "scan_ciphertext v = (case v of CBytes b \<Rightarrow> Inr b | CNull \<Rightarrow> Inr [] | _ \<Rightarrow> Inl DbError)"

definition query_ciphertext :: "secret_column \<Rightarrow> string cop" where
  "query_ciphertext col = cw_call (\<lambda>T.
     (case map_of T (TableName col) of
        None \<Rightarrow> Inl DbError
      | Some [] \<Rightarrow> Inl (Sentinel PgxErrNoRows)
      | Some (row # _) \<Rightarrow>
          bind_res (get_cell (CiphertextColumnName col) row) (\<lambda>e. e) scan_ciphertext, T))"

fun detect_columns :: "secret_column list \<Rightarrow> enc_status cop" where
  "detect_columns [] = ret NoEncryptableData"
| "detect_columns (col # cols) =
     attempt (query_ciphertext col) (\<lambda>r. case r of
       Inl e \<Rightarrow>
         if e = Sentinel PgxErrNoRows then detect_columns cols
         else throw (wrapv ''database query failed'' e)
     | Inr c \<Rightarrow> ret (if ciphertext_is_empty c then Unencrypted else Encrypted))"

definition detectEncStatus :: "enc_status cop" where
  "detectEncStatus =
     detect_columns (secretColumns @ secretColumnsIdAsString @ secretColumnsPlaintextAsBytes)"

text \<open>\<open>printEncStatus\<close>: which of the three messages is printed.\<close>

definition printEncStatus :: "enc_status \<Rightarrow> unit cop" where
  "printEncStatus s = modify (\<lambda>w. w\<lparr>cw_printed := cw_printed w @
     [case s of Unencrypted \<Rightarrow> 0 | Encrypted \<Rightarrow> 1 | NoEncryptableData \<Rightarrow> 2]\<rparr>)"

section \<open>Transformation\<close>

text \<open>\<open>computeRecord\<close>: the new plaintext and the new ciphertext of one record.\<close>

definition computeRecord ::
  "env \<Rightarrow> string \<Rightarrow> string \<Rightarrow> string option \<Rightarrow> string \<Rightarrow> (string \<times> string) cop" where
  "computeRecord E oldKey newKey plaintextIn ciphertextIn =
     guard_do (\<not> ciphertext_is_empty ciphertextIn \<and> length oldKey = 0)
       (errors_new ''expected plaintext record, but found encrypted record'') (
     guard_do (ciphertext_is_empty ciphertextIn \<and> length oldKey \<noteq> 0)
       (errors_new ''expected encrypted record not found'') (
     try_do
       (if length oldKey = 0
        then ret (case plaintextIn of None \<Rightarrow> [] | Some p \<Rightarrow> p)
        else lift (aesgcm_Open E oldKey ciphertextIn))
       (wrapv ''failed to decrypt database record'') (\<lambda>middleStep.
     if length newKey = 0 then ret (middleStep, NewEmptyCiphertext)
     else
       try_do (aesgcm_Seal E newKey middleStep) (wrapv ''failed to encrypt database record'')
         (\<lambda>ciphertextOut. ret ([], ciphertextOut)))))"

record scanned_row =
  scan_id :: cell
  scan_plain :: "string option"
  scan_cipher :: string

fun scan_id_cell :: "id_type \<Rightarrow> cell \<Rightarrow> err + cell" where
  "scan_id_cell IdInt (CInt i) = Inr (CInt i)"
| "scan_id_cell IdString (CText s) = Inr (CText s)"
| "scan_id_cell _ _ = Inl DbError"

fun scan_plain_cell :: "plain_type \<Rightarrow> cell \<Rightarrow> err + string option" where
  "scan_plain_cell _ CNull = Inr None"
| "scan_plain_cell PlainString (CText s) = Inr (Some s)"
| "scan_plain_cell PlainBytes (CBytes s) = Inr (Some s)"
| "scan_plain_cell _ _ = Inl DbError"

fun plain_cell :: "plain_type \<Rightarrow> string \<Rightarrow> cell" where
  "plain_cell PlainString s = CText s"
| "plain_cell PlainBytes s = CBytes s"

definition scan_row :: "id_type \<Rightarrow> plain_type \<Rightarrow> secret_column \<Rightarrow> crypt_row \<Rightarrow> err + scanned_row" where
  "scan_row it pt col row =
     bind_res (get_cell (IDColumnName col) row) (\<lambda>e. e) (\<lambda>ic.
     bind_res (get_cell (PlaintextColumnName col) row) (\<lambda>e. e) (\<lambda>pc.
     bind_res (get_cell (CiphertextColumnName col) row) (\<lambda>e. e) (\<lambda>cc.
     bind_res (scan_id_cell it ic) (\<lambda>e. e) (\<lambda>i.
     bind_res (scan_plain_cell pt pc) (\<lambda>e. e) (\<lambda>p.
     bind_res (scan_ciphertext cc) (\<lambda>e. e) (\<lambda>c.
     Inr \<lparr>scan_id = i, scan_plain = p, scan_cipher = c\<rparr>))))))"

text \<open>\<open>UPDATE table SET plaintext = $1, ciphertext = $2 WHERE id = $3\<close>\<close>

definition write_row :: "plain_type \<Rightarrow> secret_column \<Rightarrow> string \<Rightarrow> string \<Rightarrow> crypt_row \<Rightarrow> crypt_row" where
  "write_row pt col p c row =
     set_cell (CiphertextColumnName col) (CBytes c)
       (set_cell (PlaintextColumnName col) (plain_cell pt p) row)"

definition update_record ::
  "plain_type \<Rightarrow> secret_column \<Rightarrow> string \<Rightarrow> string \<Rightarrow> cell \<Rightarrow> unit cop" where
  "update_record pt col p c i = cw_call (\<lambda>T.
     case map_of T (TableName col) of
       None \<Rightarrow> (Inl DbError, T)
     | Some rows \<Rightarrow>
         (Inr (), set_rows (TableName col)
            (map (\<lambda>row. if map_of row (IDColumnName col) = Some i then write_row pt col p c row else row) rows)
            T))"

definition query_rows :: "secret_column \<Rightarrow> crypt_row list cop" where
  "query_rows col = cw_call (\<lambda>T.
     (case map_of T (TableName col) of None \<Rightarrow> Inl DbError | Some rows \<Rightarrow> Inr rows, T))"

definition transform_record ::
  "env \<Rightarrow> string \<Rightarrow> string \<Rightarrow> plain_type \<Rightarrow> secret_column \<Rightarrow> scanned_row \<Rightarrow> unit cop" where
  "transform_record E oldKey newKey pt col sr =
     try_do (computeRecord E oldKey newKey (scan_plain sr) (scan_cipher sr))
       (wrapv ''error in computing plaintext or ciphertext'') (\<lambda>(newP, newC).
     try_do (update_record pt col newP newC (scan_id sr)) (wrapv ''database query failed'') ret)"

definition transform_column ::
  "env \<Rightarrow> string \<Rightarrow> string \<Rightarrow> id_type \<Rightarrow> plain_type \<Rightarrow> secret_column \<Rightarrow> unit cop" where
  "transform_column E oldKey newKey it pt col =
     try_do (query_rows col) (wrapv ''database query failed'') (\<lambda>rows.
     try_do (lift (map_res (scan_row it pt col) (\<lambda>e. e) rows)) (wrapv ''CollectRows failed'') (\<lambda>scannedRows.
     for_each (transform_record E oldKey newKey pt col) scannedRows))"

definition transformColumns ::
  "env \<Rightarrow> string \<Rightarrow> string \<Rightarrow> id_type \<Rightarrow> plain_type \<Rightarrow> secret_column list \<Rightarrow> unit cop" where
  "transformColumns E oldKey newKey it pt cols = for_each (transform_column E oldKey newKey it pt) cols"

text \<open>\<open>transformDatabase\<close>: one transaction around the three groups of columns.\<close>

definition transform_all :: "env \<Rightarrow> string \<Rightarrow> string \<Rightarrow> unit cop" where
  "transform_all E oldKey newKey =
     bind_do (transformColumns E oldKey newKey IdInt PlainString secretColumns) (\<lambda>_.
     bind_do (transformColumns E oldKey newKey IdString PlainString secretColumnsIdAsString) (\<lambda>_.
     transformColumns E oldKey newKey IdInt PlainBytes secretColumnsPlaintextAsBytes))"

definition transformDatabase :: "env \<Rightarrow> string \<Rightarrow> string \<Rightarrow> unit cop" where
  "transformDatabase E oldKey newKey = (\<lambda>w.
     case cw_call (\<lambda>T. (Inr (), T)) w of
       (Inl e, w1) \<Rightarrow> (Inl (wrapw ''failed to begin transaction'' e), w1)
     | (Inr _, w1) \<Rightarrow>
         (case transform_all E oldKey newKey w1 of
            (Inl e, w2) \<Rightarrow> (Inl e, w2\<lparr>cw_tables := cw_tables w\<rparr>)
          | (Inr _, w2) \<Rightarrow>
              (case cw_call (\<lambda>T. (Inr (), T)) w2 of
                 (Inl e, w3) \<Rightarrow>
                   (Inl (wrapw ''failed to commit transaction'' e), w3\<lparr>cw_tables := cw_tables w\<rparr>)
               | (Inr _, w3) \<Rightarrow> (Inr (), w3))))"

section \<open>The command\<close>

definition dbMigrationName :: string where
  "dbMigrationName = ''20260603122956-v1.14.0-add-encrypted-fields.sql''"

text \<open>\<open>connectToDBAndCheckVersion\<close>: the connection, and the row of the migration.\<close>

definition connectToDBAndCheckVersion :: "unit cop" where
  "connectToDBAndCheckVersion =
     try_do (cw_call (\<lambda>T. (Inr (), T)))
       (wrapw ''could not create Postgres connection pool and connect to DB'') (\<lambda>_.
     attempt (cw_call (\<lambda>T.
        (case map_of T ''migrations'' of
           None \<Rightarrow> Inl DbError
         | Some rows \<Rightarrow>
             if list_ex (\<lambda>row. map_of row ''id'' = Some (CText dbMigrationName)) rows
             then Inr () else Inl (Sentinel PgxErrNoRows), T)))
     (\<lambda>r. case r of
        Inl e \<Rightarrow>
          if e = Sentinel PgxErrNoRows
          then throw (errors_new ''database schema is outdated and incompatible with encryption'')
          else throw (wrapv ''checking database schema version failed'' e)
      | Inr _ \<Rightarrow> ret ()))"

definition read_key :: "env \<Rightarrow> (string \<Rightarrow> err + string) \<Rightarrow> string \<Rightarrow> string \<Rightarrow> string cop" where
  "read_key E files msg path =
     (if path \<noteq> [] then try_do (ReadKeyFromFile E files path) (wrapv msg) ret else ret [])"

text \<open>The part of \<open>runCrypt\<close> after the status is known.\<close>

definition run_mode :: "env \<Rightarrow> (string \<Rightarrow> err + string) \<Rightarrow> crypt_options \<Rightarrow> enc_status \<Rightarrow> unit cop" where
  "run_mode E files opts s =
     (if co_Mode opts = modeStatus then printEncStatus s
      else
        guard_do (co_Mode opts = modeEncrypt \<and> s = Encrypted)
          (errors_new ''attempted to encrypt already encrypted database'') (
        guard_do (co_Mode opts = modeReencrypt \<and> s = Unencrypted)
          (errors_new ''attempted to reencrypt unencrypted database'') (
        guard_do (co_Mode opts = modeDecrypt \<and> s = Unencrypted)
          (errors_new ''attempted to decrypt unencrypted database'') (
        bind_do (read_key E files ''failed to read old key'' (co_OldKeyPath opts)) (\<lambda>oldKey.
        bind_do (read_key E files ''failed to read new key'' (co_NewKeyPath opts)) (\<lambda>newKey.
        try_do (transformDatabase E oldKey newKey) (wrapv ''failed to transform database'') ret))))))"

definition runCrypt ::
  "env \<Rightarrow> (string \<Rightarrow> err + string) \<Rightarrow> string \<Rightarrow> crypt_options \<Rightarrow> unit cop" where
  "runCrypt E files answer opts =
     (if co_Mode opts = modeDecrypt \<and> answer \<noteq> ''y'' \<and> answer \<noteq> ''Y'' then ret ()
      else
        bind_do (lift (verifyCryptOptions opts)) (\<lambda>_.
        bind_do connectToDBAndCheckVersion (\<lambda>_.
        try_do detectEncStatus (wrapv ''failed to check encryption status'') (run_mode E files opts))))"

section \<open>What a row holds\<close>

text \<open>The columns of the three groups with their types, in the order of \<open>transformDatabase\<close>.\<close>

definition column_specs :: "(id_type \<times> plain_type \<times> secret_column) list" where
  "column_specs =
     map (\<lambda>c. (IdInt, PlainString, c)) secretColumns
     @ map (\<lambda>c. (IdString, PlainString, c)) secretColumnsIdAsString
     @ map (\<lambda>c. (IdInt, PlainBytes, c)) secretColumnsPlaintextAsBytes"

text \<open>The secret of a row under a key; no key means that it is stored as plaintext.\<close>

definition reveal :: "env \<Rightarrow> string \<Rightarrow> string option \<Rightarrow> string \<Rightarrow> string option" where
  "reveal E k pl ci =
     (if k = [] then (if ci = [] then Some (case pl of None \<Rightarrow> [] | Some p \<Rightarrow> p) else None)
      else if ci = [] then None
      else case env_open E k ci of Inl _ \<Rightarrow> None | Inr v \<Rightarrow> Some v)"

definition reveal_row :: "env \<Rightarrow> string \<Rightarrow> id_type \<times> plain_type \<times> secret_column \<Rightarrow> crypt_row \<Rightarrow> string option" where
  "reveal_row E k = (\<lambda>(it, pt, col) row.
     case scan_row it pt col row of Inl _ \<Rightarrow> None | Inr sr \<Rightarrow> reveal E k (scan_plain sr) (scan_cipher sr))"

text \<open>All secrets of the database under a key, by table and identifier.\<close>

definition secrets ::
  "env \<Rightarrow> string \<Rightarrow> crypt_tables \<Rightarrow> (string \<times> (cell option \<times> string option) list option) list" where
  "secrets E k T = map (\<lambda>(it, pt, col).
     (TableName col,
      map_option (map (\<lambda>row. (map_of row (IDColumnName col), reveal_row E k (it, pt, col) row)))
        (map_of T (TableName col)))) column_specs"

text \<open>Primary keys: no two rows of a table with secrets share their identifier.\<close>

definition keyed :: "secret_column \<Rightarrow> crypt_tables \<Rightarrow> bool" where
  "keyed col T = (case map_of T (TableName col) of None \<Rightarrow> True
     | Some rows \<Rightarrow> distinct (map (\<lambda>row. map_of row (IDColumnName col)) rows))"

definition well_keyed :: "crypt_tables \<Rightarrow> bool" where
  "well_keyed T = list_all (\<lambda>(it, pt, col). keyed col T) column_specs"

text \<open>What the command relies on: a ciphertext is not empty and opens to what was sealed.\<close>

definition seal_opens :: "env \<Rightarrow> string \<Rightarrow> bool" where
  "seal_opens E k = (\<forall>n p c. env_seal E k n p = Inr c \<longrightarrow> c \<noteq> [] \<and> env_open E k c = Inr p)"

text \<open>A row before and after.\<close>

definition conceals :: "env \<Rightarrow> string \<Rightarrow> string \<Rightarrow> string \<Rightarrow> string \<Rightarrow> bool" where
  "conceals E k v p c =
     (if k = [] then p = v \<and> c = [] else p = [] \<and> (\<exists>n. env_seal E k n v = Inr c))"

definition row_image ::
  "env \<Rightarrow> string \<Rightarrow> string \<Rightarrow> id_type \<times> plain_type \<times> secret_column \<Rightarrow> crypt_row \<Rightarrow> crypt_row \<Rightarrow> bool" where
  "row_image E old new s row row' =
     (\<exists>v p c. reveal_row E old s row = Some v \<and> conceals E new v p c \<and>
        row' = write_row (fst (snd s)) (snd (snd s)) p c row)"

section \<open>Cells and rows\<close>

lemma map_of_set_cell [simp]:
  "map_of (set_cell c v row) c' = (if c' = c then map_option (\<lambda>_. v) (map_of row c) else map_of row c')"
  by (induction row) (auto simp: set_cell_def)

lemma map_of_set_rows [simp]:
  "map_of (set_rows t rs T) t' = (if t' = t then map_option (\<lambda>_. rs) (map_of T t) else map_of T t')"
  by (induction T) (auto simp: set_rows_def)

lemma map_fst_set_rows [simp]: "map fst (set_rows t rs T) = map fst T"
  by (induction T) (auto simp: set_rows_def)

definition proper :: "secret_column \<Rightarrow> bool" where
  "proper col = distinct [IDColumnName col, PlaintextColumnName col, CiphertextColumnName col]"

lemma write_row_id [simp]:
  "proper col \<Longrightarrow> map_of (write_row pt col p c row) (IDColumnName col) = map_of row (IDColumnName col)"
  by (simp add: write_row_def proper_def)

lemma scan_id_cellD: "scan_id_cell it v = Inr i \<Longrightarrow> i = v"
  by (cases "(it, v)" rule: scan_id_cell.cases) auto

lemma scan_row_id: "scan_row it pt col row = Inr sr \<Longrightarrow> map_of row (IDColumnName col) = Some (scan_id sr)"
  by (auto simp: scan_row_def bind_res_Inr_iff get_cell_def split: option.splits dest: scan_id_cellD)

lemma scan_plain_plain [simp]: "scan_plain_cell pt (plain_cell pt p) = Inr (Some p)"
  by (cases pt) auto

lemma scan_write_row:
  assumes "proper col" and "scan_row it pt col row = Inr sr"
  shows "scan_row it pt col (write_row pt col p c row) = Inr (sr\<lparr>scan_plain := Some p, scan_cipher := c\<rparr>)"
  using assms
  by (auto simp: scan_row_def bind_res_Inr_iff get_cell_def write_row_def proper_def scan_ciphertext_def
      split: option.splits)

lemma reveal_concealed:
  assumes "new \<noteq> [] \<Longrightarrow> seal_opens E new" and "conceals E new v p c"
  shows "reveal E new (Some p) c = Some v"
  using assms by (auto simp: reveal_def conceals_def seal_opens_def split: if_splits)

lemma row_image_reveals:
  assumes "new \<noteq> [] \<Longrightarrow> seal_opens E new" and "proper (snd (snd s))" and "row_image E old new s row row'"
  shows "reveal_row E new s row' = reveal_row E old s row"
  using assms
  by (cases s) (auto simp: row_image_def reveal_row_def scan_write_row reveal_concealed split: sum.splits)

section \<open>One column\<close>

text \<open>A run that meets no failure of the database and no failure of the cipher.\<close>

definition seal_total :: "env \<Rightarrow> string \<Rightarrow> bool" where
  "seal_total E k = (\<forall>n p. is_ok (env_seal E k n p))"

definition revealed :: "env \<Rightarrow> string \<Rightarrow> id_type \<times> plain_type \<times> secret_column \<Rightarrow> crypt_tables \<Rightarrow> bool" where
  "revealed E k s T = (case map_of T (TableName (snd (snd s))) of None \<Rightarrow> False
     | Some rows \<Rightarrow> list_all (\<lambda>row. reveal_row E k s row \<noteq> None) rows)"

definition sealable :: "env \<Rightarrow> string \<Rightarrow> bool" where
  "sealable E k = (k = [] \<or> seal_total E k)"

lemma wpo_cw_call:
  "wpo (cw_call f) Q F w =
     (if cw_faults w \<noteq> [] \<and> hd (cw_faults w) then F DbError (w\<lparr>cw_faults := tl (cw_faults w)\<rparr>)
      else case f (cw_tables w) of
        (Inl e, t) \<Rightarrow> F e (w\<lparr>cw_faults := tl (cw_faults w), cw_tables := t\<rparr>)
      | (Inr x, t) \<Rightarrow> Q x (w\<lparr>cw_faults := tl (cw_faults w), cw_tables := t\<rparr>))"
  by (auto simp: wpo_def cw_call_def Let_def split: prod.splits sum.splits)

text \<open>
  The loops carry the same two facts: an error needs a failing statement or a reason \<open>bad\<close> in the data,
  and the failures still to come are those at the beginning.
\<close>

definition calm :: "crypt_world \<Rightarrow> bool" where
  "calm w = (cw_faults w = [])"

lemma wpo_cw_draw:
  "wpo (cw_draw f) Q F w = (case f (cw_rnd w) of
     Inl e \<Rightarrow> F e (w\<lparr>cw_rnd := Suc (cw_rnd w)\<rparr>) | Inr x \<Rightarrow> Q x (w\<lparr>cw_rnd := Suc (cw_rnd w)\<rparr>))"
  by (simp add: wpo_def cw_draw_def split: sum.split)

lemma sealableD: "sealable E k \<Longrightarrow> k \<noteq> [] \<Longrightarrow> env_seal E k n p \<noteq> Inl e"
  by (auto simp: sealable_def seal_total_def is_ok_def split: sum.splits dest: spec)

lemma wpo_computeRecord:
  "wpo (computeRecord E old new pl ci)
     (\<lambda>r w'. (\<exists>v. reveal E old pl ci = Some v \<and> conceals E new v (fst r) (snd r)) \<and>
        cw_tables w' = cw_tables w \<and> cw_faults w' = cw_faults w)
     (\<lambda>_ w'. reveal E old pl ci = None \<or> \<not> sealable E new) w"
proof (cases "ci = [] \<longleftrightarrow> old = []")
  case True
  then show ?thesis
    by (cases "old = []"; cases "new = []")
      (auto simp: computeRecord_def wp wpo_if wpo_cw_draw aesgcm_Seal_def aesgcm_Open_def reveal_def
        conceals_def ciphertext_is_empty_def NewEmptyCiphertext_def sealableD
        split: sum.split option.split)
next
  case False
  then show ?thesis
    by (auto simp: computeRecord_def wp ciphertext_is_empty_def reveal_def)
qed

text \<open>The update of the head of the rows still to visit leaves the others alone.\<close>

lemma update_head_row:
  assumes "proper col" and "distinct (map (\<lambda>r. map_of r (IDColumnName col)) (xs @ y # ys))"
    and "map_of y (IDColumnName col) = Some i"
    and "map (\<lambda>r. map_of r (IDColumnName col)) xs' = map (\<lambda>r. map_of r (IDColumnName col)) xs"
  shows "map (\<lambda>row. if map_of row (IDColumnName col) = Some i then f row else row) (xs' @ y # ys)
    = (xs' @ [f y]) @ ys"
proof -
  have out: "Some i \<notin> set (map (\<lambda>r. map_of r (IDColumnName col)) xs')"
      "Some i \<notin> set (map (\<lambda>r. map_of r (IDColumnName col)) ys)"
    using assms(2,3) unfolding assms(4) by auto
  have "map_of r (IDColumnName col) \<noteq> Some i" if "r \<in> set xs' \<union> set ys" for r
    using that out unfolding set_map by (metis Un_iff image_eqI)
  then show ?thesis
    using assms(3) by (simp add: map_idI)
qed

lemma row_image_id:
  "proper (snd (snd s)) \<Longrightarrow> row_image E old new s r r' \<Longrightarrow>
   map_of r' (IDColumnName (snd (snd s))) = map_of r (IDColumnName (snd (snd s)))"
  by (auto simp: row_image_def)

lemma rows_image_ids:
  assumes "proper (snd (snd s))" and "list_all2 (row_image E old new s) rs rs'"
  shows "map (\<lambda>r. map_of r (IDColumnName (snd (snd s)))) rs' = map (\<lambda>r. map_of r (IDColumnName (snd (snd s)))) rs"
  using assms(2) by (induction) (auto dest: row_image_id [OF assms(1)])

lemma row_imageI:
  "scan_row it pt col y = Inr sr \<Longrightarrow> reveal E old (scan_plain sr) (scan_cipher sr) = Some v \<Longrightarrow>
   conceals E new v p c \<Longrightarrow> row_image E old new (it, pt, col) y (write_row pt col p c y)"
  by (auto simp: row_image_def reveal_row_def)

lemma wpo_transform_record:
  assumes "proper col" and "scan_row it pt col y = Inr sr"
    and "distinct (map (\<lambda>r. map_of r (IDColumnName col)) (xs @ y # ys))"
    and "map (\<lambda>r. map_of r (IDColumnName col)) xs' = map (\<lambda>r. map_of r (IDColumnName col)) xs"
    and "map_of (cw_tables w) (TableName col) = Some (xs' @ y # ys)"
  shows "wpo (transform_record E old new pt col sr)
     (\<lambda>_ w'. \<exists>y'. row_image E old new (it, pt, col) y y' \<and>
        cw_tables w' = set_rows (TableName col) ((xs' @ [y']) @ ys) (cw_tables w) \<and> (calm w \<longrightarrow> calm w'))
     (\<lambda>_ w'. \<not> (calm w \<and> sealable E new \<and> reveal_row E old (it, pt, col) y \<noteq> None)) w"
  unfolding transform_record_def wpo_try_do
proof (rule wpo_mono [OF wpo_computeRecord])
  fix r and w' :: crypt_world
  assume r: "(\<exists>v. reveal E old (scan_plain sr) (scan_cipher sr) = Some v \<and> conceals E new v (fst r) (snd r)) \<and>
    cw_tables w' = cw_tables w \<and> cw_faults w' = cw_faults w"
  then obtain v where v: "reveal E old (scan_plain sr) (scan_cipher sr) = Some v"
    and c: "conceals E new v (fst r) (snd r)" by blast
  have i: "map_of y (IDColumnName col) = Some (scan_id sr)"
    by (rule scan_row_id [OF assms(2)])
  show "wpo ((\<lambda>(newP, newC). try_do (update_record pt col newP newC (scan_id sr)) (wrapv ''database query failed'') ret) r)
    (\<lambda>_ w'. \<exists>y'. row_image E old new (it, pt, col) y y' \<and>
        cw_tables w' = set_rows (TableName col) ((xs' @ [y']) @ ys) (cw_tables w) \<and> (calm w \<longrightarrow> calm w'))
    (\<lambda>_ w'. \<not> (calm w \<and> sealable E new \<and> reveal_row E old (it, pt, col) y \<noteq> None)) w'"
    using r assms(5) row_imageI [OF assms(2) v c] update_head_row [OF assms(1,3) i assms(4)]
    by (auto simp: update_record_def wp wpo_cw_call calm_def split: prod.split)
qed (use assms(2) in \<open>auto simp: reveal_row_def\<close>)

lemma wpo_transform_records:
  fixes it pt col
  defines "s \<equiv> (it, pt, col)"
  assumes p: "proper col" and T: "map_of T0 (TableName col) = Some rs0"
    and d: "distinct (map (\<lambda>r. map_of r (IDColumnName col)) rs0)"
    and srs: "list_all2 (\<lambda>row sr. scan_row it pt col row = Inr sr) rs0 srs"
    and w: "cw_tables w = T0" "calm w0 \<longrightarrow> calm w"
  shows "wpo (for_each (transform_record E old new pt col) srs)
     (\<lambda>_ w'. \<exists>rs'. list_all2 (row_image E old new s) rs0 rs' \<and> (calm w0 \<longrightarrow> calm w') \<and>
        map_of (cw_tables w') = (map_of T0)(TableName col \<mapsto> rs'))
     (\<lambda>_ w'. \<not> (calm w0 \<and> sealable E new \<and> revealed E old s T0)) w"
proof (rule wpo_for_each_inv [where I = "\<lambda>srs w1. \<exists>xs ys xs'. rs0 = xs @ ys \<and>
    list_all2 (row_image E old new s) xs xs' \<and>
    list_all2 (\<lambda>row sr. scan_row it pt col row = Inr sr) ys srs \<and>
    map_of (cw_tables w1) = (map_of T0)(TableName col \<mapsto> xs' @ ys) \<and> (calm w0 \<longrightarrow> calm w1)"])
  show "\<exists>xs ys xs'. rs0 = xs @ ys \<and> list_all2 (row_image E old new s) xs xs' \<and>
    list_all2 (\<lambda>row sr. scan_row it pt col row = Inr sr) ys srs \<and>
    map_of (cw_tables w) = (map_of T0)(TableName col \<mapsto> xs' @ ys) \<and> (calm w0 \<longrightarrow> calm w)"
    using srs w T by (intro exI [of _ "[]"] exI [of _ rs0]) auto
next
  fix sr srs w1
  assume "\<exists>xs ys xs'. rs0 = xs @ ys \<and> list_all2 (row_image E old new s) xs xs' \<and>
    list_all2 (\<lambda>row sr. scan_row it pt col row = Inr sr) ys (sr # srs) \<and>
    map_of (cw_tables w1) = (map_of T0)(TableName col \<mapsto> xs' @ ys) \<and> (calm w0 \<longrightarrow> calm w1)"
  then obtain xs y ys xs' where *: "rs0 = xs @ y # ys" "list_all2 (row_image E old new s) xs xs'"
      "scan_row it pt col y = Inr sr" "list_all2 (\<lambda>row sr. scan_row it pt col row = Inr sr) ys srs"
      "map_of (cw_tables w1) = (map_of T0)(TableName col \<mapsto> xs' @ y # ys)" "calm w0 \<longrightarrow> calm w1"
    by (auto simp: list_all2_Cons2)
  have ids: "map (\<lambda>r. map_of r (IDColumnName col)) xs' = map (\<lambda>r. map_of r (IDColumnName col)) xs"
    using rows_image_ids [of s] p *(2) by (simp add: s_def)
  have tab: "map_of (cw_tables w1) (TableName col) = Some (xs' @ y # ys)"
    by (simp add: *(5))
  show "wpo (transform_record E old new pt col sr)
     (\<lambda>_ w1. \<exists>xs ys xs'. rs0 = xs @ ys \<and> list_all2 (row_image E old new s) xs xs' \<and>
        list_all2 (\<lambda>row sr. scan_row it pt col row = Inr sr) ys srs \<and>
        map_of (cw_tables w1) = (map_of T0)(TableName col \<mapsto> xs' @ ys) \<and> (calm w0 \<longrightarrow> calm w1))
     (\<lambda>_ w'. \<not> (calm w0 \<and> sealable E new \<and> revealed E old s T0)) w1"
  proof (rule wpo_mono [OF wpo_transform_record [OF p *(3) d [unfolded *(1)] ids tab]], goal_cases)
    case (1 u w')
    then obtain y' where y': "row_image E old new s y y'"
      "cw_tables w' = set_rows (TableName col) ((xs' @ [y']) @ ys) (cw_tables w1)" "calm w1 \<longrightarrow> calm w'"
      by (auto simp: s_def)
    have "map_of (cw_tables w') = (map_of T0)(TableName col \<mapsto> (xs' @ [y']) @ ys)"
      by (rule ext) (simp add: y'(2) *(5))
    moreover have "list_all2 (row_image E old new s) (xs @ [y]) (xs' @ [y'])"
      using *(2) y'(1) by (simp add: list_all2_appendI)
    ultimately show ?case
      using * y'(3) by (intro exI [of _ "xs @ [y]"] exI [of _ ys] exI [of _ "xs' @ [y']"]) simp
  next
    case (2 e w')
    then show ?case using * T by (auto simp: revealed_def s_def)
  qed
qed auto

section \<open>All columns\<close>

abbreviation spec_table :: "id_type \<times> plain_type \<times> secret_column \<Rightarrow> string" where
  "spec_table s \<equiv> TableName (snd (snd s))"

definition rows_image ::
  "env \<Rightarrow> string \<Rightarrow> string \<Rightarrow> crypt_tables \<Rightarrow> crypt_tables \<Rightarrow> id_type \<times> plain_type \<times> secret_column \<Rightarrow> bool" where
  "rows_image E old new T T' s =
     (\<exists>rs rs'. map_of T (spec_table s) = Some rs \<and> map_of T' (spec_table s) = Some rs' \<and>
        list_all2 (row_image E old new s) rs rs')"

lemma wpo_transform_column:
  fixes it pt col
  defines "s \<equiv> (it, pt, col)"
  assumes p: "proper col" and k: "keyed col (cw_tables w)" and w: "calm w0 \<longrightarrow> calm w"
  shows "wpo (transform_column E old new it pt col)
     (\<lambda>_ w'. rows_image E old new (cw_tables w) (cw_tables w') s \<and> (calm w0 \<longrightarrow> calm w') \<and>
        (\<forall>t. t \<noteq> TableName col \<longrightarrow> map_of (cw_tables w') t = map_of (cw_tables w) t))
     (\<lambda>_ w'. \<not> (calm w0 \<and> sealable E new \<and> revealed E old s (cw_tables w))) w"
proof (cases "map_of (cw_tables w) (TableName col)")
  case None
  then show ?thesis
    by (simp add: transform_column_def query_rows_def wp wpo_cw_call revealed_def s_def)
next
  case (Some rs)
  let ?w = "w\<lparr>cw_faults := tl (cw_faults w), cw_tables := cw_tables w\<rparr>"
  show ?thesis
  proof (cases "map_res (scan_row it pt col) (\<lambda>e. e) rs")
    case (Inl e)
    have "\<not> revealed E old s (cw_tables w)"
    proof
      assume "revealed E old s (cw_tables w)"
      then have "\<exists>sr. scan_row it pt col row = Inr sr" if "row \<in> set rs" for row
        using that Some
        by (cases "scan_row it pt col row") (auto simp: revealed_def s_def list_all_iff reveal_row_def)
      then obtain f where "\<And>row. row \<in> set rs \<Longrightarrow> scan_row it pt col row = Inr (f row)" by metis
      then have "map_res (scan_row it pt col) (\<lambda>e. e) rs = Inr (map f rs)"
        by (simp add: map_res_Inr_iff list_all2_conv_all_nth)
      with Inl show False by simp
    qed
    then show ?thesis
      using Some Inl w by (simp add: transform_column_def query_rows_def wp wpo_cw_call calm_def)
  next
    case (Inr srs)
    have srs: "list_all2 (\<lambda>row sr. scan_row it pt col row = Inr sr) rs srs"
      using Inr by (simp add: map_res_Inr_iff)
    have d: "distinct (map (\<lambda>r. map_of r (IDColumnName col)) rs)"
      using k Some by (simp add: keyed_def)
    have c: "calm w0 \<longrightarrow> calm ?w"
      using w by (simp add: calm_def)
    have loop: "wpo (for_each (transform_record E old new pt col) srs)
       (\<lambda>_ w'. rows_image E old new (cw_tables w) (cw_tables w') s \<and> (calm w0 \<longrightarrow> calm w') \<and>
          (\<forall>t. t \<noteq> TableName col \<longrightarrow> map_of (cw_tables w') t = map_of (cw_tables w) t))
       (\<lambda>_ w'. \<not> (calm w0 \<and> sealable E new \<and> revealed E old s (cw_tables w))) ?w"
      by (rule wpo_mono [OF wpo_transform_records [OF p Some d srs _ c]])
        (auto simp: rows_image_def s_def Some)
    show ?thesis
      using Some Inr loop w by (auto simp: transform_column_def query_rows_def wp wpo_cw_call calm_def)
  qed
qed

lemma for_each_append: "for_each f (xs @ ys) = bind_do (for_each f xs) (\<lambda>_. for_each f ys)"
  by (induction xs) (auto simp: fun_eq_iff try_do_def ret_def split: sum.splits prod.splits)

lemma for_each_map: "for_each f (map g xs) = for_each (\<lambda>x. f (g x)) xs"
  by (induction xs) simp_all

lemma transform_all_specs:
  "transform_all E old new = for_each (\<lambda>(it, pt, col). transform_column E old new it pt col) column_specs"
  by (simp add: transform_all_def column_specs_def transformColumns_def for_each_append for_each_map)

lemma column_specs_ok:
  "distinct (map spec_table column_specs)" "list_all (\<lambda>s. proper (snd (snd s))) column_specs"
  by (simp_all add: column_specs_def secretColumns_def secretColumnsIdAsString_def
      secretColumnsPlaintextAsBytes_def secret_column_def proper_def)

definition all_revealed :: "env \<Rightarrow> string \<Rightarrow> crypt_tables \<Rightarrow> bool" where
  "all_revealed E k T = list_all (\<lambda>s. revealed E k s T) column_specs"

definition database_image :: "env \<Rightarrow> string \<Rightarrow> string \<Rightarrow> crypt_tables \<Rightarrow> crypt_tables \<Rightarrow> bool" where
  "database_image E old new T T' =
     (list_all (rows_image E old new T T') column_specs \<and>
      (\<forall>t. t \<notin> spec_table ` set column_specs \<longrightarrow> map_of T' t = map_of T t))"

lemma wpo_transform_all:
  assumes k: "well_keyed (cw_tables w)" and that: "calm w0 \<longrightarrow> calm w"
  shows "wpo (transform_all E old new)
     (\<lambda>_ w'. database_image E old new (cw_tables w) (cw_tables w') \<and> (calm w0 \<longrightarrow> calm w'))
     (\<lambda>_ w'. \<not> (calm w0 \<and> sealable E new \<and> all_revealed E old (cw_tables w)))
     w"
  unfolding transform_all_specs
proof (rule wpo_for_each_inv [where I = "\<lambda>ss w1. \<exists>ds. column_specs = ds @ ss \<and> (calm w0 \<longrightarrow> calm w1) \<and>
    list_all (rows_image E old new (cw_tables w) (cw_tables w1)) ds \<and>
    (\<forall>t. t \<notin> spec_table ` set ds \<longrightarrow> map_of (cw_tables w1) t = map_of (cw_tables w) t)"], goal_cases)
  case 1
  then show ?case using that by (intro exI [of _ "[]"]) simp
next
  case (2 s ss w1)
  then obtain ds where ds: "column_specs = ds @ s # ss" "calm w0 \<longrightarrow> calm w1"
      "list_all (rows_image E old new (cw_tables w) (cw_tables w1)) ds"
      "\<And>t. t \<notin> spec_table ` set ds \<Longrightarrow> map_of (cw_tables w1) t = map_of (cw_tables w) t" by blast
  obtain it pt col where s: "s = (it, pt, col)" by (cases s)
  have p: "proper col" using column_specs_ok(2) unfolding ds(1) s by simp
  have new: "TableName col \<notin> spec_table ` set ds"
    using column_specs_ok(1) unfolding ds(1) s by auto
  have same: "map_of (cw_tables w1) (TableName col) = map_of (cw_tables w) (TableName col)"
    by (rule ds(4) [OF new])
  have "keyed col (cw_tables w)"
    using k unfolding well_keyed_def ds(1) s by simp
  then have key: "keyed col (cw_tables w1)" by (simp add: keyed_def same)
  show ?case
    unfolding s prod.case
  proof (rule wpo_mono [OF wpo_transform_column [OF p key ds(2)]], goal_cases)
    case (1 u w2)
    then have *: "rows_image E old new (cw_tables w1) (cw_tables w2) (it, pt, col)" "calm w0 \<longrightarrow> calm w2"
      "\<And>t. t \<noteq> TableName col \<Longrightarrow> map_of (cw_tables w2) t = map_of (cw_tables w1) t" by auto
    have "rows_image E old new (cw_tables w) (cw_tables w2) x" if "x \<in> set ds" for x
    proof -
      have "spec_table x \<noteq> TableName col" using that new by (metis image_eqI)
      then show ?thesis using ds(3) that *(3) by (auto simp: rows_image_def list_all_iff)
    qed
    moreover have "rows_image E old new (cw_tables w) (cw_tables w2) s"
      using *(1) same by (simp add: rows_image_def s)
    ultimately show ?case
      using ds *(2,3) by (intro exI [of _ "ds @ [s]"]) (auto simp: s list_all_iff)
  next
    case (2 e w2)
    then show ?case
      by (auto simp: all_revealed_def ds(1) s revealed_def same)
  qed
qed (auto simp: database_image_def)

section \<open>The database before and after\<close>

lemma wpo_transformDatabase:
  assumes "well_keyed (cw_tables w)"
  shows "wpo (transformDatabase E old new)
     (\<lambda>_ w'. database_image E old new (cw_tables w) (cw_tables w'))
     (\<lambda>_ w'. cw_tables w' = cw_tables w \<and>
        \<not> (calm w \<and> sealable E new \<and> all_revealed E old (cw_tables w))) w"
proof -
  let ?w = "w\<lparr>cw_faults := tl (cw_faults w), cw_tables := cw_tables w\<rparr>"
  have k: "well_keyed (cw_tables ?w)" and c: "calm w \<longrightarrow> calm ?w"
    using assms by (simp_all add: calm_def)
  show ?thesis
    using wpo_transform_all [OF k c, of E old new]
    by (auto simp: wpo_def transformDatabase_def cw_call_def Let_def calm_def
        split: sum.splits prod.splits)
qed

lemma secrets_image:
  assumes "database_image E old new T T'" and "new \<noteq> [] \<Longrightarrow> seal_opens E new"
  shows "secrets E new T' = secrets E old T"
  unfolding secrets_def
proof (rule map_cong, goal_cases)
  case (2 s)
  obtain it pt col where s: "s = (it, pt, col)" by (cases s)
  have p: "proper (snd (snd s))" using 2 column_specs_ok(2) by (simp add: list_all_iff)
  obtain rs rs' where r: "map_of T (TableName col) = Some rs" "map_of T' (TableName col) = Some rs'"
      "list_all2 (row_image E old new s) rs rs'"
    using assms(1) 2 by (auto simp: database_image_def list_all_iff rows_image_def s)
  have "map (\<lambda>row. (map_of row (IDColumnName col), reveal_row E new s row)) rs'
    = map (\<lambda>row. (map_of row (IDColumnName col), reveal_row E old s row)) rs"
    using r(3)
  proof (induction)
    case (Cons r r' rs rs')
    then show ?case
      using row_image_reveals [OF assms(2) p Cons.hyps(1)] row_image_id [OF p Cons.hyps(1)] by (simp add: s)
  qed simp
  then show ?case by (simp add: s r)
qed simp

lemma rows_image_revealed:
  assumes "rows_image E old new T T' s"
  shows "revealed E old s T"
proof -
  obtain rs rs' where r: "map_of T (spec_table s) = Some rs" "list_all2 (row_image E old new s) rs rs'"
    using assms by (auto simp: rows_image_def)
  have "list_all (\<lambda>row. reveal_row E old s row \<noteq> None) rs"
    using r(2) by (induction) (auto simp: row_image_def)
  with r(1) show ?thesis by (simp add: revealed_def)
qed

text \<open>Everything that is not a secret: the other tables and the other columns.\<close>

definition others_kept :: "crypt_tables \<Rightarrow> crypt_tables \<Rightarrow> bool" where
  "others_kept T T' =
     ((\<forall>t. t \<notin> spec_table ` set column_specs \<longrightarrow> map_of T' t = map_of T t) \<and>
      list_all (\<lambda>s. rel_option (list_all2 (\<lambda>row row'.
          \<forall>c. c \<noteq> PlaintextColumnName (snd (snd s)) \<and> c \<noteq> CiphertextColumnName (snd (snd s)) \<longrightarrow>
            map_of row' c = map_of row c))
        (map_of T (spec_table s)) (map_of T' (spec_table s))) column_specs)"

text \<open>No secret is readable without a key.\<close>

definition no_plaintext :: "crypt_tables \<Rightarrow> bool" where
  "no_plaintext T = list_all (\<lambda>(it, pt, col). case map_of T (TableName col) of None \<Rightarrow> True
     | Some rows \<Rightarrow> list_all (\<lambda>row. map_of row (PlaintextColumnName col) \<in>
         {None, Some (CText []), Some (CBytes [])}) rows) column_specs"

lemma others_image: "database_image E old new T T' \<Longrightarrow> others_kept T T'"
  by (force simp: database_image_def others_kept_def list_all_iff rows_image_def row_image_def write_row_def
      elim!: list_all2_mono)

lemma plaintext_cell_cleared:
  assumes "row_image E old new s row row'" and "new \<noteq> []" and "proper (snd (snd s))"
  shows "map_of row' (PlaintextColumnName (snd (snd s))) \<in> {None, Some (CText []), Some (CBytes [])}"
  using assms
  by (cases "fst (snd s)") (auto simp: row_image_def write_row_def conceals_def proper_def)

lemma no_plaintext_image:
  assumes "database_image E old new T T'" and "new \<noteq> []"
  shows "no_plaintext T'"
  unfolding no_plaintext_def list_all_iff
proof clarify
  fix it pt col
  assume s: "(it, pt, col) \<in> set column_specs"
  have p: "proper col" using s column_specs_ok(2) by (auto simp: list_all_iff)
  obtain rs rs' where r: "map_of T' (TableName col) = Some rs'"
      "list_all2 (row_image E old new (it, pt, col)) rs rs'"
    using assms(1) s by (auto simp: database_image_def list_all_iff rows_image_def)
  have "map_of row' (PlaintextColumnName col) \<in> {None, Some (CText []), Some (CBytes [])}"
    if in_rs: "row' \<in> set rs'" for row'
  proof -
    obtain i where i: "i < length rs'" "row' = rs' ! i"
      using in_rs by (auto simp: in_set_conv_nth)
    have "row_image E old new (it, pt, col) (rs ! i) row'"
      using list_all2_nthD2 [OF r(2) i(1)] i(2) by simp
    from plaintext_cell_cleared [OF this assms(2)] p show ?thesis by simp
  qed
  then show "case map_of T' (TableName col) of None \<Rightarrow> True
     | Some rows \<Rightarrow> \<forall>row\<in>set rows. map_of row (PlaintextColumnName col) \<in> {None, Some (CText []), Some (CBytes [])}"
    by (simp add: r)
qed

section \<open>The command\<close>

text \<open>The key in a file; no path means no key.\<close>

definition key_at :: "(string \<Rightarrow> err + string) \<Rightarrow> string \<Rightarrow> string" where
  "key_at files path = (if path = [] then [] else case files path of Inl _ \<Rightarrow> [] | Inr k \<Rightarrow> k)"

text \<open>Whether the command is to change the database.\<close>

definition transforms :: "string \<Rightarrow> crypt_options \<Rightarrow> bool" where
  "transforms answer opts =
     (co_Mode opts \<noteq> modeStatus \<and> \<not> (co_Mode opts = modeDecrypt \<and> answer \<noteq> ''y'' \<and> answer \<noteq> ''Y''))"

abbreviation at_tables :: "crypt_tables \<Rightarrow> crypt_world \<Rightarrow> bool" where
  "at_tables T \<equiv> \<lambda>w. cw_tables w = T"

lemma preserves_tables_call: "(\<And>T. snd (f T) = T) \<Longrightarrow> preserves (at_tables T) (cw_call f)"
  unfolding preserves_def cw_call_def Let_def by (auto simp: case_prod_beta)

lemma preserves_cw_draw: "preserves (at_tables T) (cw_draw f)"
  by (simp add: preserves_def cw_draw_def)

lemma preserves_connect: "preserves (at_tables T) connectToDBAndCheckVersion"
  unfolding connectToDBAndCheckVersion_def by (intro pres preserves_tables_call) simp_all

lemma preserves_detect: "preserves (at_tables T) (detect_columns cols)"
proof (induction cols)
  case (Cons col cols)
  have "preserves (at_tables T) (query_ciphertext col)"
    unfolding query_ciphertext_def by (intro preserves_tables_call) simp
  then show ?case unfolding detect_columns.simps by (intro pres Cons.IH)
qed (simp add: pres)

lemma preserves_detectEncStatus: "preserves (at_tables T) detectEncStatus"
  unfolding detectEncStatus_def by (rule preserves_detect)

lemma preserves_print: "preserves (at_tables T) (printEncStatus s)"
  unfolding printEncStatus_def by (rule preserves_modify) simp

lemma wpo_read_key:
  "wpo (read_key E files msg path) (\<lambda>k w'. k = key_at files path \<and> cw_tables w' = cw_tables w)
     (\<lambda>_ w'. cw_tables w' = cw_tables w) w"
  by (auto simp: read_key_def ReadKeyFromFile_def aesgcm_Seal_def wp wpo_if wpo_cw_draw key_at_def
      split: sum.split)

lemma wpo_preserves: "preserves I m \<Longrightarrow> I s \<Longrightarrow> (\<And>x s'. I s' \<Longrightarrow> Q x s') \<Longrightarrow> (\<And>e s'. I s' \<Longrightarrow> F e s') \<Longrightarrow> wpo m Q F s"
  by (auto simp: preserves_def wpo_def split: sum.splits prod.splits)

lemma wpo_run_mode:
  assumes k: "well_keyed (cw_tables w)" and s: "co_Mode opts \<noteq> modeStatus"
  shows "wpo (run_mode E files opts st)
     (\<lambda>_ w'. database_image E (key_at files (co_OldKeyPath opts)) (key_at files (co_NewKeyPath opts))
          (cw_tables w) (cw_tables w'))
     (\<lambda>_ w'. cw_tables w' = cw_tables w) w"
proof -
  let ?o = "key_at files (co_OldKeyPath opts)" and ?n = "key_at files (co_NewKeyPath opts)"
  have act: "wpo (try_do (transformDatabase E ?o ?n) (wrapv ''failed to transform database'') ret)
      (\<lambda>_ w'. database_image E ?o ?n (cw_tables w) (cw_tables w')) (\<lambda>_ w'. cw_tables w' = cw_tables w) w3"
    if "cw_tables w3 = cw_tables w" for w3
    unfolding wpo_try_do wpo_ret
    by (rule wpo_mono [OF wpo_transformDatabase]) (use k that in auto)
  have new: "wpo (bind_do (read_key E files ''failed to read new key'' (co_NewKeyPath opts)) (\<lambda>newKey.
        try_do (transformDatabase E ?o newKey) (wrapv ''failed to transform database'') ret))
      (\<lambda>_ w'. database_image E ?o ?n (cw_tables w) (cw_tables w')) (\<lambda>_ w'. cw_tables w' = cw_tables w) w2"
    if "cw_tables w2 = cw_tables w" for w2
    unfolding wpo_try_do [of "read_key _ _ _ _"]
    by (rule wpo_mono [OF wpo_read_key]) (use that act in auto)
  show ?thesis
    unfolding run_mode_def if_not_P [OF s] wpo_guard_do wpo_try_do [of "read_key _ _ _ (co_OldKeyPath opts)"]
    by (auto intro!: wpo_mono [OF wpo_read_key] new)
qed

lemma wpo_runCrypt:
  assumes k: "well_keyed (cw_tables w)"
  shows "wpo (runCrypt E files answer opts)
     (\<lambda>_ w'. if transforms answer opts
        then database_image E (key_at files (co_OldKeyPath opts)) (key_at files (co_NewKeyPath opts))
          (cw_tables w) (cw_tables w')
        else cw_tables w' = cw_tables w)
     (\<lambda>_ w'. cw_tables w' = cw_tables w) w"
proof (cases "co_Mode opts = modeDecrypt \<and> answer \<noteq> ''y'' \<and> answer \<noteq> ''Y''")
  case True
  then show ?thesis by (simp add: runCrypt_def wp transforms_def)
next
  case False
  have branch: "wpo (run_mode E files opts st)
     (\<lambda>_ w'. if transforms answer opts
        then database_image E (key_at files (co_OldKeyPath opts)) (key_at files (co_NewKeyPath opts))
          (cw_tables w) (cw_tables w')
        else cw_tables w' = cw_tables w)
     (\<lambda>_ w'. cw_tables w' = cw_tables w) w1" if w1: "cw_tables w1 = cw_tables w" for st w1
  proof (cases "co_Mode opts = modeStatus")
    case True
    then show ?thesis
      using w1 by (auto simp: transforms_def run_mode_def intro: wpo_preserves [OF preserves_print])
  next
    case ne: False
    then have "transforms answer opts" using False by (simp add: transforms_def)
    with wpo_run_mode [of w1, OF _ ne] k w1 show ?thesis by simp
  qed
  show ?thesis
    unfolding runCrypt_def if_not_P [OF False] wpo_try_do wpo_lift
    by (auto split: sum.split split del: if_split
        intro!: wpo_preserves [OF preserves_connect] wpo_preserves [OF preserves_detectEncStatus] branch)
qed

section \<open>Properties\<close>

text \<open>C6. The command never loses a secret: a run that encrypts, reencrypts or decrypts the database
  leaves every record with the secret it had, now under the new key; nothing else changes, and with a
  new key no secret is left as plaintext.\<close>

theorem crypt_keeps_secrets:
  assumes "well_keyed (cw_tables w)" and "transforms answer opts"
    and "co_NewKeyPath opts \<noteq> [] \<Longrightarrow> seal_opens E (key_at files (co_NewKeyPath opts))"
    and "runCrypt E files answer opts w = (Inr u, w')"
  shows "secrets E (key_at files (co_NewKeyPath opts)) (cw_tables w') =
      secrets E (key_at files (co_OldKeyPath opts)) (cw_tables w)
    \<and> others_kept (cw_tables w) (cw_tables w')
    \<and> (key_at files (co_NewKeyPath opts) \<noteq> [] \<longrightarrow> no_plaintext (cw_tables w'))"
proof -
  have im: "database_image E (key_at files (co_OldKeyPath opts)) (key_at files (co_NewKeyPath opts))
      (cw_tables w) (cw_tables w')"
    using wpo_Inr [OF wpo_runCrypt [OF assms(1)] assms(4)] assms(2) by simp
  have law: "key_at files (co_NewKeyPath opts) \<noteq> [] \<Longrightarrow> seal_opens E (key_at files (co_NewKeyPath opts))"
    using assms(3) by (auto simp: key_at_def)
  show ?thesis
    by (intro conjI impI secrets_image [OF im law] others_image [OF im] no_plaintext_image [OF im])
qed

text \<open>A database that is not encrypted yet, and a cipher that puts the key before the text.\<close>

definition crypt_env :: env where
  "crypt_env = \<lparr>env_key = [], env_seal = (\<lambda>k _ p. Inr (CHR ''#'' # k @ p)),
     env_open = (\<lambda>k c. if take (length c - 1) (k @ drop (Suc (length k)) c) = drop 1 c \<and> c \<noteq> []
        then Inr (drop (Suc (length k)) c) else Inl (errors_new ''message authentication failed'')),
     env_keypair = (\<lambda>_. Inr ([], [])), env_psk = (\<lambda>_. Inr []), env_rand = (\<lambda>_ _. Inr []),
     env_bcrypt = (\<lambda>_ p. Inr p), env_bcrypt_ok = (\<lambda>h p. h = p), env_k8s = None, env_dpu_limit = 1\<rparr>"

lemma crypt_env_opens: "seal_opens crypt_env k"
  by (simp add: seal_opens_def crypt_env_def)

definition crypt_sample :: crypt_tables where
  "crypt_sample =
     [(''migrations'', [[(''id'', CText dbMigrationName)]]),
      (''devices'', [[(''id'', CInt 1), (''public_key'', CText ''P''), (''private_key'', CText ''s''),
         (''private_key_encrypted'', CBytes [])],
        [(''id'', CInt 2), (''public_key'', CText ''Q''), (''private_key'', CText ''t''),
         (''private_key_encrypted'', CBytes [])]]),
      (''server_wg_configs'', []), (''totp'', []),
      (''adjacencies'', [[(''id'', CInt 1), (''preshared_key'', CNull), (''preshared_key_encrypted'', CBytes [])]]),
      (''ldaps'', [[(''id'', CText ''u''), (''bind_pw'', CText ''pw''), (''bind_pw_encrypted'', CBytes [])]]),
      (''root_ca'', [])]"

definition crypt_start :: "bool list \<Rightarrow> crypt_world" where
  "crypt_start fs = \<lparr>cw_tables = crypt_sample, cw_faults = fs, cw_rnd = 0, cw_printed = []\<rparr>"

definition encrypt_options :: crypt_options where
  "encrypt_options = \<lparr>co_Mode = ''encrypt'', co_OldKeyPath = [], co_NewKeyPath = ''f''\<rparr>"

lemma crypt_start_keyed: "well_keyed (cw_tables (crypt_start fs))"
  by (simp add: crypt_start_def) code_simp

theorem crypt_keeps_secrets_witness:
  "\<exists>w'. runCrypt crypt_env (\<lambda>_. Inr ''kk'') [] encrypt_options (crypt_start []) = (Inr (), w')
    \<and> secrets crypt_env ''kk'' (cw_tables w') = secrets crypt_env [] crypt_sample \<and> no_plaintext (cw_tables w')"
proof -
  have ok: "is_ok (fst (runCrypt crypt_env (\<lambda>_. Inr ''kk'') [] encrypt_options (crypt_start [])))"
    by code_simp
  obtain u w' where r: "runCrypt crypt_env (\<lambda>_. Inr ''kk'') [] encrypt_options (crypt_start []) = (Inr u, w')"
    using is_ok_run [OF ok] by blast
  have t: "transforms [] encrypt_options"
    by code_simp
  show ?thesis
    using crypt_keeps_secrets [OF crypt_start_keyed t crypt_env_opens r] r
    by (auto simp: key_at_def encrypt_options_def crypt_start_def)
qed

text \<open>C20. The transformation of the database is all or nothing: a run that fails anywhere changes no
  table, and while the database and the cipher work it succeeds exactly when every record yields its
  secret under the old key.\<close>

theorem crypt_all_or_nothing:
  assumes "well_keyed (cw_tables w)"
  shows "(\<forall>e w'. runCrypt E files answer opts w = (Inl e, w') \<longrightarrow> cw_tables w' = cw_tables w)
    \<and> (calm w \<and> sealable E new \<longrightarrow>
         is_ok (fst (transformDatabase E old new w)) = all_revealed E old (cw_tables w))"
proof (intro conjI allI impI)
  fix e w'
  assume "runCrypt E files answer opts w = (Inl e, w')"
  then show "cw_tables w' = cw_tables w" by (rule wpo_Inl [OF wpo_runCrypt [OF assms]])
next
  assume c: "calm w \<and> sealable E new"
  show "is_ok (fst (transformDatabase E old new w)) = all_revealed E old (cw_tables w)"
  proof (cases "transformDatabase E old new w")
    case (Pair r w')
    show ?thesis
    proof (cases r)
      case (Inl e)
      then show ?thesis using wpo_Inl [OF wpo_transformDatabase [OF assms]] Pair c by force
    next
      case (Inr u)
      then have "database_image E old new (cw_tables w) (cw_tables w')"
        using wpo_Inr [OF wpo_transformDatabase [OF assms]] Pair by blast
      then have "all_revealed E old (cw_tables w)"
        by (auto simp: all_revealed_def database_image_def list_all_iff intro: rows_image_revealed)
      then show ?thesis using Pair Inr by simp
    qed
  qed
qed

theorem crypt_all_or_nothing_witness:
  "is_ok (fst (transformDatabase crypt_env [] ''kk'' (crypt_start [])))
    \<and> \<not> is_ok (fst (transformDatabase crypt_env ''k'' ''kk'' (crypt_start [])))
    \<and> cw_tables (snd (runCrypt crypt_env (\<lambda>_. Inr ''kk'') [] encrypt_options
        (crypt_start (replicate 14 False @ [True])))) = crypt_sample"
proof -
  have c: "calm (crypt_start [])" and s: "sealable crypt_env ''kk''"
    by (simp_all add: calm_def crypt_start_def sealable_def seal_total_def crypt_env_def)
  have y: "all_revealed crypt_env [] (cw_tables (crypt_start []))"
    and n: "\<not> all_revealed crypt_env ''k'' (cw_tables (crypt_start []))"
    by code_simp+
  let ?r = "runCrypt crypt_env (\<lambda>_. Inr ''kk'') [] encrypt_options (crypt_start (replicate 14 False @ [True]))"
  have "\<not> is_ok (fst ?r)"
    by code_simp
  then obtain e w' where "?r = (Inl e, w')"
    by (cases ?r; cases "fst ?r") auto
  with crypt_all_or_nothing [OF crypt_start_keyed, of crypt_env "\<lambda>_. Inr ''kk''" "[]" encrypt_options]
  have f: "cw_tables (snd ?r) = crypt_sample"
    by (simp add: crypt_start_def)
  show ?thesis
    using crypt_all_or_nothing [OF crypt_start_keyed, where E = crypt_env and new = "''kk''"] c s y n f by simp
qed

end
