(* ===== verification/Egvpn.thy ===== *)
theory Egvpn
  imports Wg_Client
begin

text \<open>
  The part of \<open>egvpn start\<close> that prepares a host for VPP (\<open>src/cmd/egvpn/cmd/start.go\<close>): the kernel
  settings for hugepages and the day-zero configuration.  \<open>sysctl\<close> and the command line of VPP are
  parameters.  \<open>int\<close> and \<open>uint64\<close> are words of 64 bits, the former read with a sign.
\<close>

section \<open>Kernel settings\<close>

record 'k sysctl =
  sc_read :: "'k \<Rightarrow> string \<Rightarrow> err + string"
  sc_write :: "string \<Rightarrow> string \<Rightarrow> 'k \<Rightarrow> (err + unit) \<times> 'k"

text \<open>\<open>strconv.ParseUint(s, 10, 0)\<close>\<close>

definition parse_uint :: "string \<Rightarrow> err + 64 word" where
  "parse_uint s =
     (if s = [] \<or> \<not> list_all is_digit s \<or> digits_val 0 s \<ge> 2 ^ 64
      then Inl (errors_new ''invalid syntax'') else Inr (of_nat (digits_val 0 s)))"

definition readIntKernelSetting :: "'k sysctl \<Rightarrow> string \<Rightarrow> ('k, 64 word) op" where
  "readIntKernelSetting K name =
     bind_do (gets (\<lambda>k. sc_read K k name)) (\<lambda>out.
     bind_do (lift out) (\<lambda>out.
     lift (parse_uint (trim_space out))))"

definition writeIntKernelSetting :: "'k sysctl \<Rightarrow> string \<Rightarrow> 64 word \<Rightarrow> ('k, unit) op" where
  "writeIntKernelSetting K name value = sc_write K name (dec (unat value))"

definition hugepagesCount :: string where "hugepagesCount = ''vm.nr_hugepages''"
definition maxMapCount :: string where "maxMapCount = ''vm.max_map_count''"
definition hugepageUsageFilter :: string where "hugepageUsageFilter = ''vm.hugetlb_shm_group''"
definition maxSharedMemory :: string where "maxSharedMemory = ''kernel.shmmax''"

lemmas setting_names = hugepagesCount_def maxMapCount_def hugepageUsageFilter_def maxSharedMemory_def

definition allocatedHugePages :: "'k sysctl \<Rightarrow> ('k, 64 word) op" where
  "allocatedHugePages K = readIntKernelSetting K hugepagesCount"

definition resizeHugePages :: "'k sysctl \<Rightarrow> 64 word \<Rightarrow> ('k, unit) op" where
  "resizeHugePages K pages =
     bind_do (writeIntKernelSetting K hugepagesCount pages) (\<lambda>_.
     bind_do (allocatedHugePages K) (\<lambda>allocatedHP.
     guard_do (pages \<noteq> allocatedHP) (errors_new ''failed to allocate enough hugepages'') (ret ())))"

text \<open>A setting that must reach a value, as the code checks and raises the last three.\<close>

definition raise_setting ::
  "'k sysctl \<Rightarrow> string \<Rightarrow> (64 word \<Rightarrow> bool) \<Rightarrow> 64 word \<Rightarrow> ('k, unit) op" where
  "raise_setting K name too_small value =
     try_do (readIntKernelSetting K name) (wrapw ''failed to read kernel setting'') (\<lambda>v.
     when_do (too_small v)
       (try_do (writeIntKernelSetting K name value) (wrapw ''failed to set kernel setting'') ret))"

definition verifyAndAllocateHugePages :: "'k sysctl \<Rightarrow> 64 word \<Rightarrow> ('k, unit) op" where
  "verifyAndAllocateHugePages K pages =
     (if sint pages < 0 then ret ()
      else
        try_do (allocatedHugePages K) (wrapw ''failed to retrieve allocated hugepages count'') (\<lambda>allocatedHP.
        bind_do (when_do (sint allocatedHP < sint pages) (resizeHugePages K pages)) (\<lambda>_.
        bind_do (raise_setting K maxMapCount (\<lambda>v. sint v < sint (2 * pages)) (2 * pages)) (\<lambda>_.
        bind_do (raise_setting K hugepageUsageFilter (\<lambda>v. v \<noteq> 0) 0) (\<lambda>_.
        raise_setting K maxSharedMemory (\<lambda>v. v < pages * 2 * 1024 * 1024) (pages * 2 * 1024 * 1024))))))"

section \<open>Day-zero configuration of VPP\<close>

text \<open>
  \<open>applyVPPDayZeroConfig\<close> on the lines of the file: empty lines and comments are skipped, the first refused
  command ends it.  \<open>cli\<close> is \<open>CliInband\<close>.
\<close>

fun applyVPPDayZeroConfig :: "(string \<Rightarrow> 'v \<Rightarrow> (err + unit) \<times> 'v) \<Rightarrow> string list \<Rightarrow> ('v, unit) op" where
  "applyVPPDayZeroConfig cli [] = ret ()"
| "applyVPPDayZeroConfig cli (line # lines) =
     (let vppCLICmd = trim_space line in
      if length vppCLICmd = 0 then applyVPPDayZeroConfig cli lines
      else if has_prefix ''#'' vppCLICmd then applyVPPDayZeroConfig cli lines
      else try_do (cli vppCLICmd) (wrapw ''failed to apply VPP CLI command'')
        (\<lambda>_. applyVPPDayZeroConfig cli lines))"

section \<open>Lawful settings\<close>

text \<open>The number a setting holds.\<close>

definition setting :: "'k sysctl \<Rightarrow> 'k \<Rightarrow> string \<Rightarrow> 64 word option" where
  "setting K k name = (case sc_read K k name of Inl _ \<Rightarrow> None
     | Inr out \<Rightarrow> (case parse_uint (trim_space out) of Inl _ \<Rightarrow> None | Inr v \<Rightarrow> Some v))"

text \<open>
  What the code relies on: a write that succeeds changes no other setting, and it sets its own; the kernel
  may give fewer hugepages than asked for.
\<close>

definition sysctl_lawful :: "'k sysctl \<Rightarrow> bool" where
  "sysctl_lawful K = (\<forall>k name v k'. sc_write K name (dec (unat v)) k = (Inr (), k') \<longrightarrow>
     (name \<noteq> hugepagesCount \<longrightarrow> setting K k' name = Some v) \<and>
     (\<forall>n. n \<noteq> name \<longrightarrow> setting K k' n = setting K k n))"

lemma readIntKernelSetting_run:
  "readIntKernelSetting K name k = (Inr v, k') \<longleftrightarrow> setting K k name = Some v \<and> k' = k"
  by (auto simp: readIntKernelSetting_def run setting_def split: sum.splits)

lemma write_run:
  assumes "sysctl_lawful K" and "writeIntKernelSetting K name v k = (Inr u, k')"
  shows "name \<noteq> hugepagesCount \<Longrightarrow> setting K k' name = Some v" and "n \<noteq> name \<Longrightarrow> setting K k' n = setting K k n"
  using assms unfolding sysctl_lawful_def writeIntKernelSetting_def by (metis old.unit.exhaust)+

lemma raise_setting_run:
  assumes "sysctl_lawful K" and "name \<noteq> hugepagesCount" and "\<not> too_small value"
    and "raise_setting K name too_small value k = (Inr u, k')"
  shows "\<exists>v. setting K k' name = Some v \<and> \<not> too_small v" and "n \<noteq> name \<Longrightarrow> setting K k' n = setting K k n"
proof -
  obtain v where v: "setting K k name = Some v"
    and c: "if too_small v then writeIntKernelSetting K name value k = (Inr (), k') else k' = k"
    using assms(4) by (auto simp: raise_setting_def run readIntKernelSetting_run split: if_splits)
  show "\<exists>v. setting K k' name = Some v \<and> \<not> too_small v"
    using v c write_run(1) [OF assms(1)] assms(2,3) by (cases "too_small v") auto
  show "setting K k' n = setting K k n" if "n \<noteq> name"
    using c write_run(2) [OF assms(1)] that by (cases "too_small v") auto
qed

lemma resize_run:
  assumes "sysctl_lawful K" and "resizeHugePages K pages k = (Inr u, k')"
  shows "setting K k' hugepagesCount = Some pages"
  using assms(2) by (auto simp: resizeHugePages_def allocatedHugePages_def run readIntKernelSetting_run)

lemma sint_small:
  assumes "uint v < 2 ^ 63"
  shows "sint (v :: 64 word) = uint v"
proof -
  have "- (2 ^ 63) \<le> uint v" by (rule order_trans [OF _ uint_ge_0]) simp
  then show ?thesis
    using assms unfolding sint_uint by (subst signed_take_bit_int_eq_self) simp_all
qed

lemma sint_nonneg:
  assumes "0 \<le> sint (v :: 64 word)"
  shows "sint v = uint v"
proof -
  have "uint v = uint (word_of_int (sint v) :: 64 word)" by simp
  also have "\<dots> = sint v"
    using assms sint_lt [of v] by (simp only: uint_word_of_int) (simp add: take_bit_int_eq_self)
  finally show ?thesis by simp
qed

lemma page_words:
  assumes "uint (pages :: 64 word) < 2 ^ 43"
  shows "sint pages = uint pages" and "sint (2 * pages) = 2 * uint pages"
    and "uint (pages * 2 * 1024 * 1024) = uint pages * 2 ^ 21"
proof -
  have "uint (2 * pages) = 2 * uint pages" and m: "uint (pages * 2097152) = uint pages * 2097152"
    using assms by (simp_all add: uint_word_ariths)
  then show "sint pages = uint pages" and "sint (2 * pages) = 2 * uint pages"
    using assms by (simp_all add: sint_small)
  have "pages * 2 * 1024 * 1024 = pages * 2097152" by simp
  with m show "uint (pages * 2 * 1024 * 1024) = uint pages * 2 ^ 21" by (simp only:) simp
qed

text \<open>C40. When the preparation succeeds for a count of hugepages below \<open>2 ^ 43\<close>, where the product with their
  size does not wrap around, every kernel setting suffices for that many pages of two megabytes.\<close>

theorem hugepages_suffice:
  assumes "sysctl_lawful K" and "uint pages < 2 ^ 43"
    and "verifyAndAllocateHugePages K pages k = (Inr u, k')"
  shows "(\<exists>v. setting K k' hugepagesCount = Some v \<and> uint pages \<le> uint v)
    \<and> (\<exists>v. setting K k' maxMapCount = Some v \<and> 2 * uint pages \<le> uint v)
    \<and> setting K k' hugepageUsageFilter = Some 0
    \<and> (\<exists>v. setting K k' maxSharedMemory = Some v \<and> uint pages * 2 ^ 21 \<le> uint v)"
proof -
  note w = page_words [OF assms(2)]
  define X where "X = pages * 2 * 1024 * 1024"
  define Y where "Y = 2 * pages"
  have pos: "\<not> sint pages < 0" by (simp add: w)
  obtain hp k1 k2 k3 where hp: "setting K k hugepagesCount = Some hp"
    and k1: "if sint hp < sint pages then resizeHugePages K pages k = (Inr (), k1) else k1 = k"
    and k2: "raise_setting K maxMapCount (\<lambda>v. sint v < sint Y) Y k1 = (Inr (), k2)"
    and k3: "raise_setting K hugepageUsageFilter (\<lambda>v. v \<noteq> 0) 0 k2 = (Inr (), k3)"
    and k4: "raise_setting K maxSharedMemory (\<lambda>v. v < X) X k3 = (Inr (), k')"
    using assms(3) unfolding verifyAndAllocateHugePages_def if_not_P [OF pos] X_def [symmetric] Y_def [symmetric]
    by (auto simp: run allocatedHugePages_def readIntKernelSetting_run)
  have n: "maxMapCount \<noteq> hugepagesCount" "hugepageUsageFilter \<noteq> hugepagesCount" "maxSharedMemory \<noteq> hugepagesCount"
      "maxMapCount \<noteq> hugepageUsageFilter" "maxMapCount \<noteq> maxSharedMemory" "hugepageUsageFilter \<noteq> maxSharedMemory"
    by (simp_all add: setting_names)
  note r2 = raise_setting_run [OF assms(1) n(1) _ k2, simplified] and r3 = raise_setting_run [OF assms(1) n(2) _ k3, simplified]
    and r4 = raise_setting_run [OF assms(1) n(3) _ k4, simplified]
  have "\<exists>v. setting K k1 hugepagesCount = Some v \<and> sint pages \<le> sint v"
    using k1 hp resize_run [OF assms(1)] by (cases "sint hp < sint pages") auto
  then obtain v1 where v1: "setting K k' hugepagesCount = Some v1" "sint pages \<le> sint v1"
    using r2(2) [of hugepagesCount] r3(2) [of hugepagesCount] r4(2) [of hugepagesCount] n by metis
  obtain v2 where v2: "setting K k' maxMapCount = Some v2" "sint Y \<le> sint v2"
    using r2(1) r3(2) [of maxMapCount] r4(2) [of maxMapCount] n by (metis not_less)
  have v3: "setting K k' hugepageUsageFilter = Some 0"
    using r3(1) r4(2) [of hugepageUsageFilter] n by metis
  obtain v4 where v4: "setting K k' maxSharedMemory = Some v4" "X \<le> v4"
    using r4(1) by (metis not_less)
  have "uint pages \<le> uint v1"
    using v1(2) sint_nonneg [of v1] uint_ge_0 [of pages] unfolding w(1) by linarith
  moreover have "2 * uint pages \<le> uint v2"
    using v2(2) sint_nonneg [of v2] uint_ge_0 [of pages] unfolding Y_def w(2) by linarith
  moreover have "uint pages * 2 ^ 21 \<le> uint v4"
    using v4(2) unfolding word_le_def X_def w(3) .
  ultimately show ?thesis
    using v1(1) v2(1) v3 v4(1) by blast
qed

text \<open>A host whose settings are numbers.\<close>

type_synonym host = "(string \<times> 64 word) list"

definition host_sysctl :: "host sysctl" where
  "host_sysctl = \<lparr>sc_read = (\<lambda>k n. case map_of k n of None \<Rightarrow> Inl DbError | Some v \<Rightarrow> Inr (dec (unat v))),
     sc_write = (\<lambda>n t k. case (map_of k n, parse_uint t) of
        (Some _, Inr v) \<Rightarrow> (Inr (), map (\<lambda>(m, x). (m, if m = n then v else x)) k)
      | _ \<Rightarrow> (Inl DbError, k))\<rparr>"

definition sample_host :: host where
  "sample_host = [(hugepagesCount, 0), (maxMapCount, 7), (hugepageUsageFilter, 1), (maxSharedMemory, 5)]"

lemma trim_digits: "list_all is_digit s \<Longrightarrow> trim_space s = s"
proof -
  assume d: "list_all is_digit s"
  have "dropWhile is_space t = t" if "list_all is_digit t" for t
    using that by (cases t) (auto simp: is_digit_def is_space_def)
  moreover have "list_all is_digit (rev s)" using d by simp
  ultimately show ?thesis using d by (simp add: trim_space_def)
qed

lemma parse_uint_dec: "parse_uint (dec (unat v)) = Inr v" "trim_space (dec n) = dec n"
proof -
  have "dec (unat v) \<noteq> []" by (subst dec.simps) simp
  moreover have "unat v < 2 ^ 64" using unsigned_less [of v, where 'a = nat] by simp
  ultimately show "parse_uint (dec (unat v)) = Inr v"
    by (simp add: parse_uint_def dec_digits)
qed (simp add: trim_digits dec_digits)

lemma host_setting: "setting host_sysctl k n = map_of k n"
  by (simp add: setting_def host_sysctl_def parse_uint_dec split: option.split)

lemma host_map_of: "map_of (map (\<lambda>(m, x). (m, if m = n then v else x)) k) m = (if m = n then map_option (\<lambda>_. v) (map_of k n) else map_of k m)"
  by (induction k) auto

lemma host_lawful: "sysctl_lawful host_sysctl"
  unfolding sysctl_lawful_def host_setting
  by (auto simp: host_sysctl_def parse_uint_dec host_map_of split: option.splits)

lemma host_ops:
  "readIntKernelSetting host_sysctl n k = (case map_of k n of None \<Rightarrow> (Inl DbError, k) | Some v \<Rightarrow> (Inr v, k))"
  "writeIntKernelSetting host_sysctl n v k = (case map_of k n of None \<Rightarrow> (Inl DbError, k)
     | Some _ \<Rightarrow> (Inr (), map (\<lambda>(m, x). (m, if m = n then v else x)) k))"
  by (simp_all add: readIntKernelSetting_def writeIntKernelSetting_def host_sysctl_def try_do_def gets_def lift_def
      parse_uint_dec split: option.split)

theorem hugepages_suffice_witness:
  "\<exists>k'. verifyAndAllocateHugePages host_sysctl 512 sample_host = (Inr (), k')
    \<and> (\<exists>v. setting host_sysctl k' maxSharedMemory = Some v \<and> 512 * 2 ^ 21 \<le> uint v)"
proof -
  have "is_ok (fst (verifyAndAllocateHugePages host_sysctl 512 sample_host))"
    by (simp add: verifyAndAllocateHugePages_def allocatedHugePages_def resizeHugePages_def raise_setting_def host_ops
        sample_host_def setting_names try_do_def when_do_def guard_do_def ret_def)
  then obtain u k' where r: "verifyAndAllocateHugePages host_sysctl 512 sample_host = (Inr u, k')"
    using is_ok_run by blast
  have "uint (512 :: 64 word) < 2 ^ 43" by simp
  from hugepages_suffice [OF host_lawful this r] r show ?thesis by auto
qed

end
