(* ===== verification/Api_Client.thy ===== *)
theory Api_Client
  imports Rest_Access
begin

text \<open>
  The client of the REST interface that the command line tool uses (\<open>src/cmd/egvpn/client/client.go\<close>).  The
  connection is a parameter: it takes a request and gives an error, or the status with the body or the error of
  reading it.  \<open>encoding/json\<close> is a parameter as for the server.  The header that the client sends is the
  one that the orchestrator reads (\<open>Rest_Server\<close>); \<open>base64_encode\<close> stands in \<open>Rpc_Client\<close>.
\<close>

section \<open>The header of a request\<close>

record api_client =
  ac_addr :: string
  ac_username :: string
  ac_password :: string
  ac_jwt :: string

definition authorization_of :: "api_client \<Rightarrow> string" where
  "authorization_of c =
     (if ac_jwt c \<noteq> [] then ''Bearer '' @ ac_jwt c
      else ''Basic '' @ base64_encode (ac_username c @ '':'' @ ac_password c))"

section \<open>Requests\<close>

record http_request =
  hr_method :: verb
  hr_url :: string
  hr_authorization :: string
  hr_body :: string

text \<open>\<open>hl_new\<close> is the error of \<open>http.NewRequest\<close>, \<open>hl_message\<close> decodes an \<open>ErrorResponse\<close>.\<close>

record 'x http_lib =
  hl_new :: "verb \<Rightarrow> string \<Rightarrow> err option"
  hl_do :: "http_request \<Rightarrow> 'x \<Rightarrow> (err + int \<times> (err + string)) \<times> 'x"
  hl_message :: "string \<Rightarrow> err + string"

text \<open>The client is updated in place, so it is part of the state.\<close>

record 'x api_session =
  se_client :: api_client
  se_net :: 'x

definition errNoAuth :: err where
  "errNoAuth = errors_new ''user credentials are required, but were not provided''"

definition request_url :: "string \<Rightarrow> string \<Rightarrow> string" where
  "request_url addr path =
     (if find_sub ''https://'' addr = None then ''https://'' @ addr @ path else addr @ path)"

definition code_error :: "int \<Rightarrow> err" where
  "code_error code = errors_new (''['' @ dec (nat code) @ '']'')"

definition exchange :: "'x http_lib \<Rightarrow> http_request \<Rightarrow> ('x api_session, int \<times> (err + string)) op" where
  "exchange H q = (\<lambda>s. case hl_do H q (se_net s) of (r, x) \<Rightarrow> (r, s\<lparr>se_net := x\<rparr>))"

text \<open>An empty body of a successful reply is the result \<open>nil\<close>.\<close>

definition MakeJSONRequest ::
  "'x http_lib \<Rightarrow> ('u \<Rightarrow> err + string) \<Rightarrow> (string \<Rightarrow> err + 't) \<Rightarrow> verb \<Rightarrow> string \<Rightarrow> 'u \<Rightarrow>
   ('x api_session, 't option) op" where
  "MakeJSONRequest H encode decode meth path body =
     bind_do (gets se_client) (\<lambda>c.
     guard_do (ac_jwt c = [] \<and> (ac_password c = [] \<or> ac_username c = [])) errNoAuth (
     try_do (lift (encode body)) (wrapw ''marshaling request'') (\<lambda>json.
     let url = request_url (ac_addr c) path in
     case hl_new H meth url of
       Some e \<Rightarrow> throw (wrapw ''creating request'' e)
     | None \<Rightarrow>
     try_do (exchange H \<lparr>hr_method = meth, hr_url = url, hr_authorization = authorization_of c, hr_body = json\<rparr>)
       (wrapw ''executing request'') (\<lambda>(code, content).
     try_do (lift content) (wrapw ''reading response body'') (\<lambda>content.
     if content = [] then
       (if code \<noteq> 200 \<and> code \<noteq> 201 then throw (code_error code) else ret None)
     else if code \<noteq> 200 \<and> code \<noteq> 201 then
       try_do (lift (hl_message H content)) (wrapw ''unmarshaling error response'') (\<lambda>msg. throw (wrapw msg (code_error code)))
     else try_do (lift (decode content)) (wrapw ''unmarshaling response'') (\<lambda>x. ret (Some x)))))))"

section \<open>Operations of the client\<close>

text \<open>\<open>New\<close>; the file of the certificate is read by \<open>read_file\<close>, and only the success of that matters here.\<close>

definition client_New :: "(string \<Rightarrow> err + string) \<Rightarrow> string \<Rightarrow> string \<Rightarrow> err + api_client" where
  "client_New read_file addr cacert =
     (if addr = [] then Inl (errors_new ''address cannot be empty'')
      else if cacert \<noteq> [] then
        bind_res (read_file cacert) (wrapw ''failed to read custom CA certificate'')
          (\<lambda>_. Inr \<lparr>ac_addr = addr, ac_username = [], ac_password = [], ac_jwt = []\<rparr>)
      else Inr \<lparr>ac_addr = addr, ac_username = [], ac_password = [], ac_jwt = []\<rparr>)"

definition UseBasicAuth :: "string \<Rightarrow> string \<Rightarrow> ('x api_session, unit) op" where
  "UseBasicAuth n pw = modify (se_client_update (\<lambda>c. c\<lparr>ac_username := n, ac_password := pw\<rparr>))"

text \<open>The token of a reply without a body is read through a \<open>nil\<close> pointer.\<close>

definition UseJWTAuth ::
  "'x http_lib \<Rightarrow> (jwt_request_creds \<Rightarrow> err + string) \<Rightarrow> (string \<Rightarrow> err + string) \<Rightarrow> string \<Rightarrow> string \<Rightarrow>
   ('x api_session, unit) op" where
  "UseJWTAuth H encode decode n pw =
     bind_do (modify (se_client_update (\<lambda>c. c\<lparr>ac_username := n, ac_password := pw\<rparr>))) (\<lambda>_.
     bind_do (MakeJSONRequest H encode decode POST ''/api/v1/jwt'' \<lparr>jc_username = n, jc_password = pw\<rparr>) (\<lambda>t. case t of
       None \<Rightarrow> throw Panic
     | Some t \<Rightarrow> modify (se_client_update (\<lambda>c. c\<lparr>ac_jwt := t, ac_username := [], ac_password := []\<rparr>))))"

record secrets =
  sx_key :: string
  sx_cert :: string

definition client_GetSecrets ::
  "'x http_lib \<Rightarrow> (string \<Rightarrow> err + string) \<Rightarrow> (string \<Rightarrow> err + secrets) \<Rightarrow> string \<Rightarrow> ('x api_session, secrets option) op" where
  "client_GetSecrets H encode decode server = MakeJSONRequest H encode decode POST ''/api/v1/servers/secrets'' server"

section \<open>What the orchestrator reads\<close>

definition clean_token :: "string \<Rightarrow> bool" where
  "clean_token t \<longleftrightarrow> trim_space t = t \<and> find_sub ''Bearer'' t = None"

lemma basic_lower: "map ascii_lower ''Basic '' = ''basic ''"
  by code_simp

lemma basic_header_read:
  "CHR '':'' \<notin> set n \<Longrightarrow> request_BasicAuth (''Basic '' @ base64_encode (n @ '':'' @ pw)) = Some (n, pw)"
  using basic_lower by (simp add: request_BasicAuth_def base64_roundtrip cut_append)

lemma bearer_header_read:
  assumes "clean_token t"
  shows "bearer_token (''Bearer '' @ t) = Some t"
proof -
  have "find_sub ''Bearer'' (''Bearer '' @ t) = Some ([], '' '' @ t)" by (simp add: has_prefix_def)
  moreover have "find_sub ''Bearer'' ('' '' @ t) = None" using assms by (simp add: clean_token_def has_prefix_def)
  ultimately have "split_at ''Bearer'' (''Bearer '' @ t) = [[], '' '' @ t]" by (simp add: split_at.simps)
  moreover have "trim_space ('' '' @ t) = t" using assms by (simp add: clean_token_def trim_space_def is_space_def)
  ultimately show ?thesis by (simp add: bearer_token_def)
qed

text \<open>What \<open>A\<close> tells the orchestrator: the token, or the name and the password.\<close>

definition carries :: "string \<Rightarrow> api_client \<Rightarrow> bool" where
  "carries A c \<longleftrightarrow>
     (if ac_jwt c \<noteq> [] then clean_token (ac_jwt c) \<longrightarrow> bearer_token A = Some (ac_jwt c)
      else ac_username c \<noteq> [] \<and> ac_password c \<noteq> [] \<and>
        (CHR '':'' \<notin> set (ac_username c) \<longrightarrow> request_BasicAuth A = Some (ac_username c, ac_password c)))"

lemma authorization_carries:
  assumes "\<not> (ac_jwt c = [] \<and> (ac_password c = [] \<or> ac_username c = []))"
  shows "carries (authorization_of c) c"
  using assms basic_header_read [of "ac_username c" "ac_password c"] bearer_header_read [of "ac_jwt c"]
  by (auto simp: carries_def authorization_of_def)


text \<open>A connection that records the request and answers with a token.\<close>

definition echo_http :: "string http_lib" where
  "echo_http = \<lparr>hl_new = (\<lambda>_ _. None), hl_do = (\<lambda>q _. (Inr (200, Inr ''ok''), hr_authorization q)), hl_message = Inr\<rparr>"


end
