(* ===== verification/Egvpn_Host.thy ===== *)
theory Egvpn_Host
  imports Egvpn Config Api_Client "HOL-Library.Signed_Division"
begin

text \<open>
  The commands of the command line tool that prepare and run a VPN server: \<open>egvpn config init\<close>
  (\<open>src/cmd/egvpn/cmd/config.go\<close>), \<open>start\<close>, \<open>stop\<close> and \<open>restart\<close> (\<open>start.go\<close>, \<open>stop.go\<close>, \<open>restart.go\<close>,
  \<open>service_types.go\<close>).  A host has files, answers typed at the prompt and, as a state that only parameters
  read and change, everything else: docker and the other programs, the network, kernel settings and VPP.  A
  file is known by the text of its path; permissions and directories are left out, printing too.
\<close>

section \<open>Files\<close>

text \<open>
  \<open>ho_hidden\<close> gives the error of reaching a path that is neither success nor \<open>ErrNotExist\<close>.  Each change of the
  file system takes its fate from \<open>ho_fates\<close>: done, refused, or interrupted after some bytes.
\<close>

datatype fate = Done | Refused err | CutShort nat err

record 'x machine =
  ho_files :: "string \<Rightarrow> string option"
  ho_hidden :: "string \<Rightarrow> err option"
  ho_fates :: "fate list"
  ho_input :: "string list"
  ho_ext :: 'x

type_synonym ('x, 'a) mop = "('x machine, 'a) op"

definition ErrNotExist :: err where
  "ErrNotExist = errors_new ''file does not exist''"

definition os_ReadFile :: "string \<Rightarrow> ('x, string) mop" where
  "os_ReadFile p = bind_do (gets (\<lambda>h. (ho_hidden h p, ho_files h p))) (\<lambda>r. case r of
     (Some e, _) \<Rightarrow> throw e
   | (None, None) \<Rightarrow> throw ErrNotExist
   | (None, Some c) \<Rightarrow> ret c)"

definition os_Stat :: "string \<Rightarrow> ('x, unit) mop" where
  "os_Stat p = bind_do (os_ReadFile p) (\<lambda>_. ret ())"

definition next_fate :: "('x, fate) mop" where
  "next_fate = (\<lambda>h. case ho_fates h of [] \<Rightarrow> (Inr Done, h) | f # fs \<Rightarrow> (Inr f, h\<lparr>ho_fates := fs\<rparr>))"

definition put_file :: "string \<Rightarrow> string option \<Rightarrow> ('x, unit) mop" where
  "put_file p c = modify (ho_files_update (\<lambda>m. m(p := c)))"

definition os_WriteFile :: "string \<Rightarrow> string \<Rightarrow> ('x, unit) mop" where
  "os_WriteFile p c = bind_do next_fate (\<lambda>f. case f of
     Done \<Rightarrow> put_file p (Some c)
   | Refused e \<Rightarrow> throw e
   | CutShort n e \<Rightarrow> bind_do (put_file p (Some (take n c))) (\<lambda>_. throw e))"

text \<open>Directories are not part of the state: making them succeeds or fails.\<close>

definition os_MkdirAll :: "string \<Rightarrow> ('x, unit) mop" where
  "os_MkdirAll d = bind_do next_fate (\<lambda>f. case f of Done \<Rightarrow> ret () | Refused e \<Rightarrow> throw e | CutShort _ e \<Rightarrow> throw e)"

text \<open>\<open>filepath.Clean\<close>, \<open>Dir\<close>, \<open>IsAbs\<close> and \<open>Join\<close> of two elements, on Unix.\<close>

definition filepath_IsAbs :: "string \<Rightarrow> bool" where
  "filepath_IsAbs p = has_prefix ''/'' p"

fun clean_elems :: "bool \<Rightarrow> string list \<Rightarrow> string list \<Rightarrow> string list" where
  "clean_elems rooted out [] = rev out"
| "clean_elems rooted out (x # xs) =
     (if x = [] \<or> x = ''.'' then clean_elems rooted out xs
      else if x = ''..'' then
        (case out of
           [] \<Rightarrow> clean_elems rooted (if rooted then [] else [x]) xs
         | y # out' \<Rightarrow> clean_elems rooted (if y = ''..'' then x # out else out') xs)
      else clean_elems rooted (x # out) xs)"

definition filepath_Clean :: "string \<Rightarrow> string" where
  "filepath_Clean p =
     (let es = join_with ''/'' (clean_elems (filepath_IsAbs p) [] (split_on (CHR ''/'') p))
      in if filepath_IsAbs p then ''/'' @ es else if es = [] then ''.'' else es)"

definition filepath_Join :: "string \<Rightarrow> string \<Rightarrow> string" where
  "filepath_Join a b = (if a = [] \<and> b = [] then [] else if a = [] then filepath_Clean b
     else if b = [] then filepath_Clean a else filepath_Clean (a @ ''/'' @ b))"

definition filepath_Dir :: "string \<Rightarrow> string" where
  "filepath_Dir p = filepath_Clean (rev (dropWhile (\<lambda>c. c \<noteq> CHR ''/'') (rev p)))"

section \<open>The prompt and the programs\<close>

text \<open>An exhausted input gives the empty text.\<close>

definition Prompt :: "('x, string) mop" where
  "Prompt = (\<lambda>h. case ho_input h of [] \<Rightarrow> (Inr [], h) | s # ss \<Rightarrow> (Inr s, h\<lparr>ho_input := ss\<rparr>))"

definition outside :: "('x, 'a) op \<Rightarrow> ('x, 'a) mop" where
  "outside m = (\<lambda>h. case m (ho_ext h) of (r, x) \<Rightarrow> (r, h\<lparr>ho_ext := x\<rparr>))"

section \<open>Services\<close>

definition VPNServerServiceType :: string where "VPNServerServiceType = ''server''"
definition HealthCheckServiceType :: string where "HealthCheckServiceType = ''healthcheck''"
definition AllServiceType :: string where "AllServiceType = ''all''"

lemmas service_types = VPNServerServiceType_def HealthCheckServiceType_def AllServiceType_def

text \<open>
  \<open>strings.ToLower\<close> as far as its result can be ASCII: the Kelvin sign, the bytes E2 84 AA, becomes \<open>k\<close>.
\<close>

fun lower_text :: "string \<Rightarrow> string" where
  "lower_text (a # b # c # s) =
     (if [a, b, c] = [CHR 0xE2, CHR 0x84, CHR 0xAA] then CHR ''k'' # lower_text s
      else ascii_lower a # lower_text (b # c # s))"
| "lower_text (a # s) = ascii_lower a # lower_text s"
| "lower_text [] = []"

definition ServiceType_Set :: "string \<Rightarrow> err + string" where
  "ServiceType_Set value =
     (if lower_text value \<in> {VPNServerServiceType, HealthCheckServiceType, AllServiceType} then Inr value
      else Inl (errors_new ''invalid service type''))"

section \<open>Parameters\<close>

record egvpn_options =
  eo_SecretsPath :: string
  eo_ConfigPath :: string
  eo_VPPConfigPath :: string
  eo_VPPDayZeroConfigPath :: string
  eo_EnableTelemetry :: bool
  eo_TelegrafConfigPath :: string
  eo_TelegrafServerName :: string
  eo_TelegrafVersion :: string
  eo_VPPConnectionCheckTimeout :: int
  eo_HugePages2MCount :: "64 word"
  eo_Service :: string

text \<open>\<open>encoding/json\<close>, for each type that the commands write or read.\<close>

record json_lib =
  jl_creds :: "jwt_request_creds \<Rightarrow> err + string"
  jl_token :: "string \<Rightarrow> err + string"
  jl_server_name :: "string \<Rightarrow> err + string"
  jl_read_secrets :: "string \<Rightarrow> err + secrets"
  jl_secrets :: "secrets option \<Rightarrow> err + string"
  jl_config :: "server_config \<Rightarrow> err + string"
  jl_read_config :: "string \<Rightarrow> err + server_config"
  jl_egvpn :: "string \<Rightarrow> err + string"
  jl_read_egvpn :: "string \<Rightarrow> err + string"
  jl_options :: "egvpn_options \<Rightarrow> err + string"
  jl_read_options :: "string \<Rightarrow> err + egvpn_options"

text \<open>
  \<open>tl_exec\<close> runs a program; \<open>tl_connect\<close> connects to VPP over a socket within a number of attempts \<open>tl_interval\<close>
  nanoseconds apart; \<open>tl_temp\<close> names a new temporary file; \<open>tl_level_ok\<close> is the success of \<open>log.ParseLevel\<close>.  The images are
  set when the tool is linked.
\<close>

record 'x tools =
  tl_exec :: "string list \<Rightarrow> ('x, string) op"
  tl_http :: "'x http_lib"
  tl_sysctl :: "'x sysctl"
  tl_cli :: "string \<Rightarrow> ('x, unit) op"
  tl_connect :: "string \<Rightarrow> int \<Rightarrow> ('x, unit) op"
  tl_interval :: int
  tl_json :: json_lib
  tl_level_ok :: "string \<Rightarrow> bool"
  tl_cwd :: "'x \<Rightarrow> err + string"
  tl_temp :: "(string \<Rightarrow> string option) \<Rightarrow> string"
  tl_server_image :: string
  tl_healthcheck_image :: string
  tl_vpp_image :: string
  tl_telegraf_name :: string
  tl_telegraf_tag :: string

section \<open>Configuration files\<close>

record config_init_options =
  io_tlsAuthOnly :: bool
  io_configOnly :: bool
  io_vppConfigOnly :: bool
  io_vppDayZeroConfigOnly :: bool
  io_vpnServerName :: string
  io_userName :: string
  io_apiAddr :: string
  io_basicAuth :: bool
  io_tlsAuthPath :: string
  io_configPath :: string
  io_grpcAddr :: string
  io_grpcTimeout :: int
  io_cacertPath :: string
  io_caName :: string
  io_reconnectAttempts :: int
  io_reconnectPause :: int
  io_logLevel :: string
  io_useVPP :: bool
  io_vppConfigPath :: string
  io_vppDayZeroConfigPath :: string
  io_vppInterfaces :: "string list"
  io_tokensPerSecond :: rat
  io_bucketSize :: int
  io_hcGRPCAddr :: string
  io_hcListenPort :: int
  io_hcTokensPerSecond :: rat
  io_hcBucketSize :: int

definition egvpnConfigPath :: string where
  "egvpnConfigPath = ''/etc/entguard/egvpn-config.json''"

definition errEmptyServerName :: err where
  "errEmptyServerName = errors_new ''name of the EntGuard server cannot be empty''"
definition errEmptyUserName :: err where
  "errEmptyUserName = errors_new ''name of the admin user cannot be empty''"
definition errEmptyPassword :: err where
  "errEmptyPassword = errors_new ''user password cannot be empty''"
definition errMutualExclusiveOnlyFlags :: err where
  "errMutualExclusiveOnlyFlags = errors_new ''flags suffixed '-only' are mutually exclusive''"

definition noSingleConfigCreation :: "config_init_options \<Rightarrow> bool" where
  "noSingleConfigCreation io = (\<not> io_tlsAuthOnly io \<and> \<not> io_configOnly io \<and> \<not> io_vppConfigOnly io \<and> \<not> io_vppDayZeroConfigOnly io)"

definition areSwitchesMutualExclusive :: "bool list \<Rightarrow> bool" where
  "areSwitchesMutualExclusive bs = (length (filter (\<lambda>b. b) bs) < 2)"

text \<open>Which files a run writes.\<close>

definition writes_tls_auth :: "config_init_options \<Rightarrow> bool" where
  "writes_tls_auth io = (io_tlsAuthOnly io \<or> noSingleConfigCreation io)"
definition writes_config :: "config_init_options \<Rightarrow> bool" where
  "writes_config io = (io_configOnly io \<or> noSingleConfigCreation io)"
definition writes_vpp_config :: "config_init_options \<Rightarrow> bool" where
  "writes_vpp_config io = (io_vppConfigOnly io \<or> noSingleConfigCreation io \<and> io_useVPP io)"
definition writes_vpp_day0 :: "config_init_options \<Rightarrow> bool" where
  "writes_vpp_day0 io = (io_vppDayZeroConfigOnly io \<or> noSingleConfigCreation io \<and> io_useVPP io)"

text \<open>\<open>verifyTLSAuthPath\<close> and its three likes: any error of \<open>os.Stat\<close> passes.\<close>

definition verify_new_path :: "string \<Rightarrow> string \<Rightarrow> ('x, unit) mop" where
  "verify_new_path msg p = attempt (os_Stat p) (\<lambda>r. case r of Inr _ \<Rightarrow> throw (errors_new msg) | Inl _ \<Rightarrow> ret ())"

definition verifyCacertPath :: "config_init_options \<Rightarrow> ('x, unit) mop" where
  "verifyCacertPath io = try_do (os_Stat (io_cacertPath io))
     (replace_err (errors_new ''could not find CA certificate file using specified path'')) ret"

definition verifyServerNameOption :: "config_init_options \<Rightarrow> ('x, config_init_options) mop" where
  "verifyServerNameOption io =
     (if io_vpnServerName io \<noteq> [] then ret io
      else bind_do Prompt (\<lambda>input. guard_do (input = []) errEmptyServerName (ret (io\<lparr>io_vpnServerName := input\<rparr>))))"

definition verifyLogLevel :: "'x tools \<Rightarrow> config_init_options \<Rightarrow> ('x, unit) mop" where
  "verifyLogLevel T io = guard_do (\<not> tl_level_ok T (io_logLevel io)) (errors_new ''invalid log level'') (ret ())"

definition verifyConfigInitOptions :: "'x tools \<Rightarrow> config_init_options \<Rightarrow> ('x, config_init_options) mop" where
  "verifyConfigInitOptions T io =
     guard_do (\<not> areSwitchesMutualExclusive
         [io_tlsAuthOnly io, io_configOnly io, io_vppConfigOnly io, io_vppDayZeroConfigOnly io])
       errMutualExclusiveOnlyFlags (
     bind_do (when_do (writes_tls_auth io)
       (verify_new_path ''the file for TLS auth certificates already exists'' (io_tlsAuthPath io))) (\<lambda>_.
     bind_do (when_do (writes_config io)
       (verify_new_path ''the configuration file already exists'' (io_configPath io))) (\<lambda>_.
     bind_do (when_do (writes_vpp_config io)
       (verify_new_path ''the VPP configuration file already exists'' (io_vppConfigPath io))) (\<lambda>_.
     bind_do (when_do (writes_vpp_day0 io)
       (verify_new_path ''the VPP day0 configuration file already exists'' (io_vppDayZeroConfigPath io))) (\<lambda>_.
     bind_do (verifyCacertPath io) (\<lambda>_.
     bind_do (verifyServerNameOption io) (\<lambda>io.
     bind_do (verifyLogLevel T io) (\<lambda>_. ret io))))))))"

definition writeConfigContentToFile :: "string \<Rightarrow> string \<Rightarrow> ('x, unit) mop" where
  "writeConfigContentToFile p content =
     try_do (os_MkdirAll (filepath_Dir p)) (wrapv ''unable to create directories'') (\<lambda>_.
     try_do (os_WriteFile p content) (wrapv ''unable to save to the file'') ret)"

text \<open>\<open>time.Duration(n) * time.Second\<close>, in 64 bits.\<close>

definition seconds :: "int \<Rightarrow> int" where
  "seconds n = sint (word_of_int (n * second) :: 64 word)"

definition unlines :: "string list \<Rightarrow> string" where
  "unlines ls = concat (map (\<lambda>l. l @ [CHR 0x0A]) ls)"

definition in_session :: "api_client \<Rightarrow> ('x api_session, 'a) op \<Rightarrow> ('x, 'a) mop" where
  "in_session c m = outside (\<lambda>x. case m \<lparr>se_client = c, se_net = x\<rparr> of (r, s) \<Rightarrow> (r, se_net s))"

definition ask_user :: "config_init_options \<Rightarrow> ('x, string) mop" where
  "ask_user io = (if io_userName io \<noteq> [] then ret (io_userName io)
     else bind_do Prompt (\<lambda>u. guard_do (u = []) errEmptyUserName (ret u)))"

definition fetch_secrets :: "'x tools \<Rightarrow> config_init_options \<Rightarrow> string \<Rightarrow> string \<Rightarrow> ('x api_session, secrets option) op" where
  "fetch_secrets T io username password =
     bind_do (if io_basicAuth io then UseBasicAuth username password
        else try_do (UseJWTAuth (tl_http T) (jl_creds (tl_json T)) (jl_token (tl_json T)) username password)
          (wrapv ''failed to authenticate the user with the given password'') ret) (\<lambda>_.
     try_do (client_GetSecrets (tl_http T) (jl_server_name (tl_json T)) (jl_read_secrets (tl_json T)) (io_vpnServerName io))
       (wrapv ''REST API call failed'') ret)"

definition init_tls_auth :: "'x tools \<Rightarrow> config_init_options \<Rightarrow> ('x, unit) mop" where
  "init_tls_auth T io =
     bind_do (ask_user io) (\<lambda>username.
     bind_do Prompt (\<lambda>password.
     guard_do (password = []) errEmptyPassword (
     bind_do (gets (\<lambda>h. client_New (\<lambda>p. fst (os_ReadFile p h)) (io_apiAddr io) (io_cacertPath io))) (\<lambda>c.
     bind_do (lift c) (\<lambda>c.
     bind_do (in_session c (fetch_secrets T io username password)) (\<lambda>tlsAuth.
     try_do (lift (jl_secrets (tl_json T) tlsAuth)) (wrapw ''unable to marshal TLS auth to JSON'') (\<lambda>text.
     try_do (writeConfigContentToFile (io_tlsAuthPath io) text) (wrapv ''unable to save content to TLS auth file'') ret)))))))"

definition config_of_options :: "config_init_options \<Rightarrow> string \<Rightarrow> server_config" where
  "config_of_options io cacert =
     \<lparr>UseVPP = io_useVPP io, RPCAddr = io_grpcAddr io, RPCTimeout = seconds (io_grpcTimeout io), CaName = io_caName io,
      CaCert = cacert, ReconnectAttempts = io_reconnectAttempts io, ReconnectPause = seconds (io_reconnectPause io),
      LogLevel = io_logLevel io, TokensPerSecond = io_tokensPerSecond io, BucketSize = io_bucketSize io,
      HCGRPCAddr = io_hcGRPCAddr io, HCListenPort = io_hcListenPort io, HCTokensPerSecond = io_hcTokensPerSecond io,
      HCBucketSize = io_hcBucketSize io\<rparr>"

definition init_config :: "'x tools \<Rightarrow> config_init_options \<Rightarrow> ('x, unit) mop" where
  "init_config T io =
     try_do (os_ReadFile (io_cacertPath io)) (wrapv ''failed to read CA certificate file'') (\<lambda>cacert.
     try_do (lift (jl_config (tl_json T) (config_of_options io cacert))) (wrapv ''failed to generate configuration'') (\<lambda>content.
     try_do (writeConfigContentToFile (io_configPath io) content) (wrapv ''unable to save content to configuration file'') ret))"

definition saveEgvpnConfig :: "'x tools \<Rightarrow> string \<Rightarrow> ('x, unit) mop" where
  "saveEgvpnConfig T name =
     try_do (lift (jl_egvpn (tl_json T) name)) (wrapv ''unable to marshal egvpn config'') (\<lambda>data.
     try_do (os_MkdirAll (filepath_Dir egvpnConfigPath)) (wrapv ''unable to create egvpn config directories'') (\<lambda>_.
     try_do (os_WriteFile egvpnConfigPath data) (wrapv ''unable to create egvpn config file'') ret))"

definition loadEgvpnConfig :: "'x tools \<Rightarrow> ('x, string) mop" where
  "loadEgvpnConfig T =
     try_do (os_ReadFile egvpnConfigPath) (wrapv ''unable to read egvpn config file'') (\<lambda>data.
     try_do (lift (jl_read_egvpn (tl_json T) data)) (wrapv ''unable to unmarshal egvpn config data'') ret)"

section \<open>Generated texts\<close>

definition section_line :: "string \<Rightarrow> string" where
  "section_line n = CHR ''['' # CHR ''['' # n @ [CHR '']'', CHR '']'']"

definition telegrafConfig :: string where
  \<open>telegrafConfig = unlines [
     [],
     ''[global_tags]'',
     ''  server="$VPN_SERVER_NAME"'',
     ''[agent]'',
     ''  interval = "5s"'',
     ''  round_interval = true'',
     ''  metric_batch_size = 1000'',
     ''  metric_buffer_limit = 1000'',
     ''  collection_jitter = "0s"'',
     ''  flush_interval = "5s"'',
     ''  flush_jitter = "0s"'',
     ''  precision = ""'',
     ''  hostname = ""'',
     ''  omit_hostname = false'',
     section_line ''outputs.socket_writer'',
     ''  address = "unix:///run/sockets/socket"'',
     section_line ''inputs.net'',
     ''  ignore_protocol_stats = true'',
     section_line ''inputs.nstat'',
     section_line ''inputs.wireguard'',
     section_line ''inputs.mem'',
     section_line ''inputs.cpu'',
     ''  percpu = true'',
     ''  totalcpu = true'',
     ''  collect_cpu_time = false'',
     ''  report_active = false'']\<close>

definition vppDayZeroConfig :: string where
  \<open>vppDayZeroConfig = unlines [
     [],
     ''## this is day0 configuration file that contains list of VPP CLI commands(one line=one VPP CLI'' @
       '' command) that '',
     ''## that will be applied just after the start of the VPP (day0 configuration)'',
     [],
     ''## feel free to uncomment (remove #) lines, use example VPP CLI commands or modify them as you need'',
     ''## full VPP CLI reference is at https://s3-docs.fd.io/vpp/24.06/cli-reference/index.html'',
     [],
     ''## setup further attributes for VPP(DPDK) interface listed in "egvpn config init" command as'' @
       '' "vpp-interfaces" parameter'',
     ''## each interface will be named inside VPP as dpdk{order number}, i.e. dpdk1,dpdk2,dpdk3,...'' @
       '' (in order as they '',
     ''## were provided in "vpp-interfaces" parameter in "egvpn config init" command)'',
     ''set interface state dpdk1 up'',
     ''set interface ip address dpdk1 10.251.0.1/24'',
     ''set interface state dpdk2 up'',
     ''set interface ip address dpdk2 10.252.0.1/24'',
     [],
     ''## mark endpoint of this node's wireguard peer'',
     ''set interface tag dpdk1 wg-underlay'']\<close>

definition vppConfigBase :: string where
  \<open>vppConfigBase = unlines [
     ''# example config with more settings can be found at'' @
       '' https://github.com/FDio/vpp/blob/stable/2406/src/vpp/conf/startup.conf (it is not full list'' @
       '' of settings as i.e. VPP plugins can have additional settings)'',
     ''unix {'',
     ''  nodaemon'',
     ''  log /var/log/vpp/vpp.log'',
     ''  full-coredump'',
     ''  cli-listen /run/vpp/cli.sock'',
     ''  gid vpp'',
     ''}'',
     [],
     ''api-trace {'',
     ''  on'',
     ''}'',
     [],
     ''api-segment {'',
     ''  gid vpp'',
     ''}'',
     [],
     ''socksvr {'',
     ''  default'',
     ''}'']\<close>

definition disableDpdk :: string where
  \<open>disableDpdk = unlines [
     [],
     ''plugins {'',
     CHR 0x09 # ''plugin dpdk_plugin.so { disable }'',
     ''}'']\<close>

definition dpdk_device :: "nat \<times> string \<Rightarrow> string" where
  "dpdk_device = (\<lambda>(i, pciAddress). unlines [CHR 0x09 # ''dev '' @ pciAddress @ '' {'',
     CHR 0x09 # CHR 0x09 # ''name dpdk'' @ dec (i + 1), CHR 0x09 # ''}''])"

definition generateVPPConfig :: "string list \<Rightarrow> string" where
  "generateVPPConfig vppInterfaces =
     (if vppInterfaces = [] then vppConfigBase @ disableDpdk
      else vppConfigBase @ unlines [''dpdk {''] @ concat (map dpdk_device (enumerate 0 vppInterfaces)) @ unlines [''}''])"

definition init_vpp_config :: "config_init_options \<Rightarrow> ('x, unit) mop" where
  "init_vpp_config io = try_do (writeConfigContentToFile (io_vppConfigPath io) (generateVPPConfig (io_vppInterfaces io)))
     (wrapv ''unable to save content to VPP configuration file'') ret"

definition init_vpp_day0 :: "config_init_options \<Rightarrow> ('x, unit) mop" where
  "init_vpp_day0 io = try_do (writeConfigContentToFile (io_vppDayZeroConfigPath io) vppDayZeroConfig)
     (wrapv ''unable to save content to VPP day0 configuration file'') ret"

text \<open>\<open>checkVPPInterfacesPresence\<close> at the end only prints warnings.\<close>

definition runConfigInit :: "'x tools \<Rightarrow> config_init_options \<Rightarrow> ('x, unit) mop" where
  "runConfigInit T io =
     bind_do (verifyConfigInitOptions T io) (\<lambda>io.
     bind_do (when_do (writes_tls_auth io) (init_tls_auth T io)) (\<lambda>_.
     bind_do (when_do (writes_config io) (init_config T io)) (\<lambda>_.
     bind_do (when_do (writes_vpp_config io) (init_vpp_config io)) (\<lambda>_.
     bind_do (when_do (writes_vpp_day0 io) (init_vpp_day0 io)) (\<lambda>_.
     try_do (saveEgvpnConfig T (io_vpnServerName io)) (wrapv ''failed to save server name'') ret)))))"

section \<open>Starting\<close>

definition errWireguardNotInstalled :: err where
  "errWireguardNotInstalled = errors_new ''wireguard is not installed''"
definition errDockerNotInstalled :: err where
  "errDockerNotInstalled = errors_new ''docker is not installed''"
definition errRunningContainer :: err where
  "errRunningContainer = errors_new ''failed to run a container, is it already running?''"
definition errSecretsNotFound :: err where
  "errSecretsNotFound = errors_new ''secrets was not found in the directory''"
definition errConfigNotFound :: err where
  "errConfigNotFound = errors_new ''config was not found in the directory''"
definition errVPPConfigNotFound :: err where
  "errVPPConfigNotFound = errors_new ''vpp config was not found in the directory''"
definition errVPPDayZeroConfigNotFound :: err where
  "errVPPDayZeroConfigNotFound = errors_new ''vpp day0 config was not found in the directory''"
definition errCurrentDir :: err where
  "errCurrentDir = errors_new ''failed to get current directory''"

definition exec :: "'x tools \<Rightarrow> string list \<Rightarrow> ('x, string) mop" where
  "exec T cmd = outside (tl_exec T cmd)"

text \<open>\<open>if err := exec.Command(...).Run(); err != nil \<open>{\<close> return e \<open>}\<close>\<close>\<close>

definition run_or :: "'x tools \<Rightarrow> err \<Rightarrow> string list \<Rightarrow> ('x, unit) mop" where
  "run_or T e cmd = try_do (exec T cmd) (replace_err e) (\<lambda>_. ret ())"

text \<open>\<open>if _, err := os.Stat(p); os.IsNotExist(err) \<open>{\<close> return e \<open>}\<close>\<close>: other errors pass.\<close>

definition verify_present :: "err \<Rightarrow> string \<Rightarrow> ('x, unit) mop" where
  "verify_present e p = attempt (os_Stat p) (\<lambda>r. if r = Inl ErrNotExist then throw e else ret ())"

definition verifyServerConfigStartOption :: "egvpn_options \<Rightarrow> ('x, unit) mop" where
  "verifyServerConfigStartOption eo = verify_present errConfigNotFound (eo_ConfigPath eo)"

definition verifyImageExists :: "'x tools \<Rightarrow> string \<Rightarrow> ('x, unit) mop" where
  "verifyImageExists T name = run_or T (errors_new ''image not found'') [''docker'', ''inspect'', name]"

definition verifyInstallation :: "'x tools \<Rightarrow> bool \<Rightarrow> ('x, unit) mop" where
  "verifyInstallation T useVPP =
     bind_do (when_do (\<not> useVPP) (run_or T errWireguardNotInstalled [''sudo'', ''wg''])) (\<lambda>_.
     bind_do (run_or T errDockerNotInstalled [''docker'']) (\<lambda>_.
     bind_do (verifyImageExists T (tl_server_image T)) (\<lambda>_.
     verifyImageExists T (tl_healthcheck_image T))))"

definition verifyOtherServerStartOptions :: "'x tools \<Rightarrow> egvpn_options \<Rightarrow> bool \<Rightarrow> ('x, unit) mop" where
  "verifyOtherServerStartOptions T eo useVPP =
     bind_do (verify_present errSecretsNotFound (eo_SecretsPath eo)) (\<lambda>_.
     when_do useVPP (
       bind_do (verify_present errVPPConfigNotFound (eo_VPPConfigPath eo)) (\<lambda>_.
       bind_do (verify_present errVPPDayZeroConfigNotFound (eo_VPPDayZeroConfigPath eo)) (\<lambda>_.
       outside (verifyAndAllocateHugePages (tl_sysctl T) (eo_HugePages2MCount eo))))))"

definition egvpnRestartOptsPath :: string where
  "egvpnRestartOptsPath = ''/etc/entguard/egvpn-restart-opts.json''"

definition saveRestartOpts :: "'x tools \<Rightarrow> egvpn_options \<Rightarrow> ('x, unit) mop" where
  "saveRestartOpts T eo =
     try_do (lift (jl_options (tl_json T) eo)) (wrapv ''unable to marshal restart options'') (\<lambda>data.
     try_do (os_MkdirAll (filepath_Dir egvpnRestartOptsPath)) (wrapv ''unable to create restart options directories'') (\<lambda>_.
     try_do (os_WriteFile egvpnRestartOptsPath data) (wrapv ''unable to create restart options file'') ret))"

definition loadRestartOpts :: "'x tools \<Rightarrow> ('x, egvpn_options) mop" where
  "loadRestartOpts T =
     try_do (os_ReadFile egvpnRestartOptsPath) (wrapv ''unable to read restart options file, have you started it?'') (\<lambda>data.
     try_do (lift (jl_read_options (tl_json T) data)) (wrapv ''unable to unmarshal restart options data'') ret)"

definition computeFileMountParameter :: "string \<Rightarrow> string \<Rightarrow> string \<Rightarrow> string" where
  "computeFileMountParameter hostFilePath containerFilePath currentDir =
     (if filepath_IsAbs hostFilePath then hostFilePath @ '':'' @ containerFilePath
      else filepath_Join currentDir hostFilePath @ '':'' @ containerFilePath)"

definition telegrafVolume :: string where "telegrafVolume = ''sockets:/run/sockets''"
definition vppSocketDirVolume :: string where "vppSocketDirVolume = ''eg-vpp-socket-dir:/run/vpp/''"

definition config_mounts :: "egvpn_options \<Rightarrow> string \<Rightarrow> string list" where
  "config_mounts eo currentDir =
     [''--volume'', computeFileMountParameter (eo_SecretsPath eo) ''/etc/vpn-s/secrets.json'' currentDir,
      ''--volume'', computeFileMountParameter (eo_ConfigPath eo) ''/etc/vpn-s/config.json'' currentDir]"

definition runServerContainer :: "'x tools \<Rightarrow> egvpn_options \<Rightarrow> string \<Rightarrow> bool \<Rightarrow> ('x, unit) mop" where
  "runServerContainer T eo currentDir useVPP = run_or T errRunningContainer (
     [''docker'', ''run'', ''-d''] @ config_mounts eo currentDir
     @ (if useVPP then [''--volume'', vppSocketDirVolume] else [])
     @ (if eo_EnableTelemetry eo then [''--volume'', telegrafVolume] else [])
     @ [''--cap-add=NET_ADMIN'', ''--network'', ''host'', ''--name'', ''eg-s'', tl_server_image T, ''/vpn_server'',
        ''--secrets'', ''/etc/vpn-s/secrets.json'', ''--config'', ''/etc/vpn-s/config.json'']
     @ (if eo_EnableTelemetry eo then [''--enable-telemetry''] else []))"

definition runHealthcheckContainer :: "'x tools \<Rightarrow> egvpn_options \<Rightarrow> string \<Rightarrow> int \<Rightarrow> ('x, unit) mop" where
  "runHealthcheckContainer T eo currentDir listenPort = run_or T errRunningContainer (
     [''docker'', ''run'', ''-d'', ''-p'', itoa listenPort @ '':'' @ itoa listenPort] @ config_mounts eo currentDir
     @ [''--cap-add=NET_ADMIN'', ''--network'', ''host'', ''--name'', ''eg-healthcheck'', tl_healthcheck_image T,
        ''/healthcheck'', ''--secrets'', ''/etc/vpn-s/secrets.json'', ''--config'', ''/etc/vpn-s/config.json''])"

definition prepareVPPSocketDirVolume :: "'x tools \<Rightarrow> ('x, unit) mop" where
  "prepareVPPSocketDirVolume T = run_or T (errors_new ''failed to create docker volume for VPP socket'')
     [''docker'', ''volume'', ''create'', ''eg-vpp-socket-dir'']"

definition prepareTelemetryVolume :: "'x tools \<Rightarrow> ('x, unit) mop" where
  "prepareTelemetryVolume T = run_or T (errors_new ''failed to create docker volume for telemetry socket'')
     [''docker'', ''volume'', ''create'', ''sockets'']"

definition runVPPContainer :: "'x tools \<Rightarrow> egvpn_options \<Rightarrow> string \<Rightarrow> ('x, unit) mop" where
  "runVPPContainer T eo currentDir = run_or T errRunningContainer
     [''docker'', ''run'', ''-d'', ''--volume'',
      computeFileMountParameter (eo_VPPConfigPath eo) ''/etc/vpp/startup.conf'' currentDir,
      ''--volume'', vppSocketDirVolume, ''--privileged'', ''--name'', ''eg-s-vpp'', tl_vpp_image T]"

text \<open>The number of attempts is a quotient of durations; Go's division truncates.\<close>

definition waitForVPPToBeReadyForConnection :: "'x tools \<Rightarrow> egvpn_options \<Rightarrow> ('x, unit) mop" where
  "waitForVPPToBeReadyForConnection T eo =
     try_do (exec T [''docker'', ''volume'', ''inspect'', ''--format={{.Mountpoint}}'', ''eg-vpp-socket-dir''])
       (wrapw ''failed to find VPP socket on host'') (\<lambda>output.
     try_do (outside (tl_connect T (filepath_Join (trim_space output) ''api.sock'')
         (seconds (eo_VPPConnectionCheckTimeout eo) sdiv tl_interval T)))
       (wrapv ''failed to connect to VPP'') ret)"

text \<open>
  \<open>bufio.ScanLines\<close>: a line that does not fit into 64 kilobytes ends the reading, and the error of the
  scanner is not asked for.
\<close>

definition scan_lines :: "string \<Rightarrow> string list" where
  "scan_lines content =
     (let ls = split_on (CHR 0x0A) content; ls = (if last ls = [] then butlast ls else ls)
      in map (\<lambda>l. if l \<noteq> [] \<and> last l = CHR 0x0D then butlast l else l) (takeWhile (\<lambda>l. length l < 65536) ls))"

definition apply_day_zero_file :: "'x tools \<Rightarrow> egvpn_options \<Rightarrow> ('x, unit) mop" where
  "apply_day_zero_file T eo =
     try_do (os_ReadFile (eo_VPPDayZeroConfigPath eo)) (wrapw ''can't open VPP day0 config file'') (\<lambda>content.
     outside (applyVPPDayZeroConfig (tl_cli T) (scan_lines content)))"

text \<open>\<open>defer os.Remove(temp.Name())\<close>; its error is ignored.\<close>

definition finally_remove :: "string \<Rightarrow> ('x, 'a) mop \<Rightarrow> ('x, 'a) mop" where
  "finally_remove p m = (\<lambda>h. case m h of (r, h1) \<Rightarrow>
     (r, snd (bind_do next_fate (\<lambda>f. if f = Done then put_file p None else ret ()) h1)))"

definition os_CreateTemp :: "'x tools \<Rightarrow> ('x, string) mop" where
  "os_CreateTemp T = bind_do (gets (\<lambda>h. tl_temp T (ho_files h))) (\<lambda>p.
     bind_do next_fate (\<lambda>f. case f of
       Done \<Rightarrow> bind_do (put_file p (Some [])) (\<lambda>_. ret p)
     | Refused e \<Rightarrow> throw e
     | CutShort _ e \<Rightarrow> throw e))"

definition telegraf_image :: "'x tools \<Rightarrow> string \<Rightarrow> string" where
  "telegraf_image T version = tl_telegraf_name T @ '':'' @ (if version = [] then tl_telegraf_tag T else version)"

definition start_telegraf :: "'x tools \<Rightarrow> egvpn_options \<Rightarrow> string \<Rightarrow> string \<Rightarrow> ('x, unit) mop" where
  "start_telegraf T eo currentDir configPath =
     bind_do (if eo_TelegrafServerName eo = [] then loadEgvpnConfig T else ret (eo_TelegrafServerName eo)) (\<lambda>name.
     run_or T errRunningContainer
       [''docker'', ''run'', ''-d'', ''-v'', telegrafVolume, ''--cap-add=NET_ADMIN'', ''--network'', ''host'',
        ''-e'', ''VPN_SERVER_NAME='' @ name, ''--volume'',
        computeFileMountParameter configPath ''/etc/telegraf/telegraf.conf'' currentDir,
        ''--entrypoint'', ''telegraf'', ''--name'', ''eg-s-telegraf'', telegraf_image T (eo_TelegrafVersion eo)])"

definition runTelegrafContainer :: "'x tools \<Rightarrow> egvpn_options \<Rightarrow> string \<Rightarrow> ('x, unit) mop" where
  "runTelegrafContainer T eo currentDir =
     (if eo_TelegrafConfigPath eo \<noteq> [] then
        bind_do (verify_present errConfigNotFound (eo_TelegrafConfigPath eo)) (\<lambda>_.
        start_telegraf T eo currentDir (eo_TelegrafConfigPath eo))
      else
        try_do (os_CreateTemp T) (wrapv ''failed to create temporary config file'') (\<lambda>temp.
        finally_remove temp (
          try_do (os_WriteFile temp telegrafConfig) (wrapv ''failed to write to the temporary config file'') (\<lambda>_.
          start_telegraf T eo currentDir temp))))"

definition start_server :: "'x tools \<Rightarrow> egvpn_options \<Rightarrow> string \<Rightarrow> bool \<Rightarrow> ('x, unit) mop" where
  "start_server T eo currentDir useVPP =
     bind_do (runServerContainer T eo currentDir useVPP) (\<lambda>_.
     bind_do (when_do useVPP (
       bind_do (prepareVPPSocketDirVolume T) (\<lambda>_.
       bind_do (runVPPContainer T eo currentDir) (\<lambda>_.
       bind_do (waitForVPPToBeReadyForConnection T eo) (\<lambda>_.
       apply_day_zero_file T eo))))) (\<lambda>_.
     when_do (eo_EnableTelemetry eo) (
       bind_do (prepareTelemetryVolume T) (\<lambda>_. runTelegrafContainer T eo currentDir))))"

definition runs_server :: "string \<Rightarrow> bool" where
  "runs_server s = (s = VPNServerServiceType \<or> s = AllServiceType)"

definition runs_healthcheck :: "string \<Rightarrow> bool" where
  "runs_healthcheck s = (s = HealthCheckServiceType \<or> s = AllServiceType)"

definition start_services :: "'x tools \<Rightarrow> egvpn_options \<Rightarrow> server_config \<Rightarrow> ('x, unit) mop" where
  "start_services T eo c =
     try_do (bind_do (gets (\<lambda>h. tl_cwd T (ho_ext h))) lift) (replace_err errCurrentDir) (\<lambda>currentDir.
     bind_do (when_do (runs_server (eo_Service eo)) (start_server T eo currentDir (UseVPP c))) (\<lambda>_.
     when_do (runs_healthcheck (eo_Service eo)) (runHealthcheckContainer T eo currentDir (HCListenPort c))))"

definition runStart :: "'x tools \<Rightarrow> egvpn_options \<Rightarrow> ('x, unit) mop" where
  "runStart T eo =
     bind_do (verifyServerConfigStartOption eo) (\<lambda>_.
     bind_do (gets (\<lambda>h. NewConfigFromFile (\<lambda>p. fst (os_ReadFile p h)) (jl_read_config (tl_json T)) (eo_ConfigPath eo))) (\<lambda>c.
     try_do (lift c) (wrapw ''failed to read server config from file'') (\<lambda>c.
     bind_do (verifyInstallation T (UseVPP c)) (\<lambda>_.
     bind_do (verifyOtherServerStartOptions T eo (UseVPP c)) (\<lambda>_.
     bind_do (saveRestartOpts T eo) (\<lambda>_.
     start_services T eo c))))))"

section \<open>Stopping and restarting\<close>

text \<open>Failures are printed only.\<close>

definition run_all :: "'x tools \<Rightarrow> string list list \<Rightarrow> ('x, unit) mop" where
  "run_all T cmds = for_each (\<lambda>c. attempt (exec T c) (\<lambda>_. ret ())) cmds"

definition stop_and_remove :: "string \<Rightarrow> string list list" where
  "stop_and_remove container = [[''docker'', ''stop'', container], [''docker'', ''rm'', container]]"

definition runStop :: "'x tools \<Rightarrow> egvpn_options \<Rightarrow> ('x, unit) mop" where
  "runStop T eo =
     bind_do (when_do (runs_server (eo_Service eo)) (run_all T
       (stop_and_remove ''eg-s'' @ stop_and_remove ''eg-s-vpp'' @ stop_and_remove ''eg-s-telegraf'' @
        [[''docker'', ''volume'', ''rm'', ''sockets''], [''docker'', ''volume'', ''rm'', ''eg-vpp-socket-dir'']]))) (\<lambda>_.
     when_do (runs_healthcheck (eo_Service eo)) (run_all T (stop_and_remove ''eg-healthcheck'')))"

definition dontOverrideStartHugepagesFlag :: "64 word" where
  "dontOverrideStartHugepagesFlag = - 2"

definition overwriteOptions :: "egvpn_options \<Rightarrow> egvpn_options \<Rightarrow> egvpn_options" where
  "overwriteOptions old ow =
     old\<lparr>eo_ConfigPath := (if eo_ConfigPath ow \<noteq> [] then eo_ConfigPath ow else eo_ConfigPath old),
         eo_SecretsPath := (if eo_SecretsPath ow \<noteq> [] then eo_SecretsPath ow else eo_SecretsPath old),
         eo_VPPConfigPath := (if eo_VPPConfigPath ow \<noteq> [] then eo_VPPConfigPath ow else eo_VPPConfigPath old),
         eo_VPPDayZeroConfigPath :=
           (if eo_VPPDayZeroConfigPath ow \<noteq> [] then eo_VPPDayZeroConfigPath ow else eo_VPPDayZeroConfigPath old),
         eo_TelegrafConfigPath :=
           (if eo_TelegrafConfigPath ow \<noteq> [] then eo_TelegrafConfigPath ow else eo_TelegrafConfigPath old),
         eo_TelegrafServerName :=
           (if eo_TelegrafServerName ow \<noteq> [] then eo_TelegrafServerName ow else eo_TelegrafServerName old),
         eo_TelegrafVersion := (if eo_TelegrafVersion ow \<noteq> [] then eo_TelegrafVersion ow else eo_TelegrafVersion old),
         eo_VPPConnectionCheckTimeout := (if eo_VPPConnectionCheckTimeout ow \<noteq> - 1
           then eo_VPPConnectionCheckTimeout ow else eo_VPPConnectionCheckTimeout old),
         eo_HugePages2MCount := (if eo_HugePages2MCount ow \<noteq> dontOverrideStartHugepagesFlag
           then eo_HugePages2MCount ow else eo_HugePages2MCount old),
         eo_Service := (if eo_Service ow \<noteq> [] then eo_Service ow else eo_Service old)\<rparr>"

definition runRestart :: "'x tools \<Rightarrow> egvpn_options \<Rightarrow> ('x, unit) mop" where
  "runRestart T eo =
     bind_do (loadRestartOpts T) (\<lambda>savedOpts.
     let resOpts = overwriteOptions savedOpts eo in
     bind_do (runStop T resOpts) (\<lambda>_. runStart T resOpts))"

text \<open>The options of \<open>restart\<close> when no flag is given.\<close>

definition restart_defaults :: egvpn_options where
  "restart_defaults = \<lparr>eo_SecretsPath = [], eo_ConfigPath = [], eo_VPPConfigPath = [], eo_VPPDayZeroConfigPath = [],
     eo_EnableTelemetry = False, eo_TelegrafConfigPath = [], eo_TelegrafServerName = [], eo_TelegrafVersion = [],
     eo_VPPConnectionCheckTimeout = - 1, eo_HugePages2MCount = dontOverrideStartHugepagesFlag,
     eo_Service = AllServiceType\<rparr>"

section \<open>Files that a command leaves alone\<close>

named_theorems spare \<open>operations that change no file outside a set of paths\<close>

definition spares :: "string set \<Rightarrow> ('x, 'a) mop \<Rightarrow> bool" where
  "spares P m = (\<forall>f H. preserves (\<lambda>h. ho_hidden h = H \<and> (\<forall>p. p \<notin> P \<longrightarrow> ho_files h p = f p)) m)"

lemma sparesD: "spares P m \<Longrightarrow> p \<notin> P \<Longrightarrow> ho_files (snd (m h)) p = ho_files h p"
  unfolding spares_def preserves_def by (elim allE [of _ "ho_files h"]) blast

lemma spares_hidden: "spares P m \<Longrightarrow> ho_hidden (snd (m h)) = ho_hidden h"
  unfolding spares_def preserves_def by (elim allE [of _ "ho_files h"]) blast

lemma spares_control [spare]:
  "spares P (ret y)" "spares P (throw e)" "spares P (lift r)" "spares P (gets g)"
  "spares P m \<Longrightarrow> spares P (guard_do b e m)" "spares P u \<Longrightarrow> spares P (when_do b u)"
  unfolding spares_def by (auto intro: pres)

lemma spares_compose [spare]:
  "spares P m \<Longrightarrow> (\<And>x. spares P (k x)) \<Longrightarrow> spares P (try_do m w k)"
  "spares P n \<Longrightarrow> (\<And>r. spares P (l r)) \<Longrightarrow> spares P (attempt n l)"
  "(\<And>x. spares P (g x)) \<Longrightarrow> spares P (for_each g xs)"
  unfolding spares_def by (auto intro!: pres)

lemma spares_cases [spare]:
  "spares P m \<Longrightarrow> spares P n \<Longrightarrow> spares P (if b then m else n)" "spares P (f x) \<Longrightarrow> spares P (Let x f)"
  "(\<And>y. spares P (k y)) \<Longrightarrow> (\<And>x. spares P (l x)) \<Longrightarrow> spares P (case r of Inl y \<Rightarrow> k y | Inr x \<Rightarrow> l x)"
  "spares P d \<Longrightarrow> (\<And>e. spares P (g e)) \<Longrightarrow> (\<And>i e. spares P (c i e)) \<Longrightarrow>
     spares P (case fa of Done \<Rightarrow> d | Refused e \<Rightarrow> g e | CutShort i e \<Rightarrow> c i e)"
  by (auto split: sum.split fate.split)

lemma spares_basic [spare]:
  "spares P next_fate" "spares P Prompt" "spares P (outside x)" "p \<in> P \<Longrightarrow> spares P (put_file p c)" "spares P (exec T cmd)"
  by (auto simp: spares_def preserves_def next_fate_def Prompt_def outside_def put_file_def modify_def exec_def
      split: list.split prod.split)

lemma spares_os [spare]:
  "spares P (os_ReadFile q)" "spares P (os_Stat q)" "spares P (os_MkdirAll q)" "p \<in> P \<Longrightarrow> spares P (os_WriteFile p c)"
  unfolding os_Stat_def os_ReadFile_def os_MkdirAll_def os_WriteFile_def
  by (auto intro!: spare split: option.split)

lemma spares_session [spare]: "spares P (in_session c m)"
  unfolding in_session_def by (rule spare)

lemma spares_init [spare]:
  "p \<in> P \<Longrightarrow> spares P (writeConfigContentToFile p c)"
  "io_tlsAuthPath io \<in> P \<Longrightarrow> spares P (init_tls_auth T io)" "io_configPath io \<in> P \<Longrightarrow> spares P (init_config T io)"
  "io_vppConfigPath io \<in> P \<Longrightarrow> spares P (init_vpp_config io)" "io_vppDayZeroConfigPath io \<in> P \<Longrightarrow> spares P (init_vpp_day0 io)"
  "egvpnConfigPath \<in> P \<Longrightarrow> spares P (saveEgvpnConfig T name)"
  unfolding writeConfigContentToFile_def init_tls_auth_def ask_user_def init_config_def init_vpp_config_def
    init_vpp_day0_def saveEgvpnConfig_def
  by (auto intro!: spare)

lemma spares_verify [spare]: "spares P (verifyConfigInitOptions T io)"
  unfolding verifyConfigInitOptions_def verify_new_path_def verifyCacertPath_def verifyServerNameOption_def verifyLogLevel_def
  by (intro spare)

text \<open>The files that a run writes.\<close>

definition init_writes :: "config_init_options \<Rightarrow> string set" where
  "init_writes io = {egvpnConfigPath} \<union> (if writes_tls_auth io then {io_tlsAuthPath io} else {})
     \<union> (if writes_config io then {io_configPath io} else {})
     \<union> (if writes_vpp_config io then {io_vppConfigPath io} else {})
     \<union> (if writes_vpp_day0 io then {io_vppDayZeroConfigPath io} else {})"

lemma spares_when: "(b \<Longrightarrow> spares P u) \<Longrightarrow> spares P (when_do b u)"
  by (cases b) (simp_all add: when_do_def spare)

definition init_after_checks :: "'x tools \<Rightarrow> config_init_options \<Rightarrow> ('x, unit) mop" where
  "init_after_checks T io =
     bind_do (when_do (writes_tls_auth io) (init_tls_auth T io)) (\<lambda>_.
     bind_do (when_do (writes_config io) (init_config T io)) (\<lambda>_.
     bind_do (when_do (writes_vpp_config io) (init_vpp_config io)) (\<lambda>_.
     bind_do (when_do (writes_vpp_day0 io) (init_vpp_day0 io)) (\<lambda>_.
     try_do (saveEgvpnConfig T (io_vpnServerName io)) (wrapv ''failed to save server name'') ret))))"

lemma spares_after_checks: "spares (init_writes io) (init_after_checks T io)"
  unfolding init_after_checks_def
  by (rule spares_compose(1), rule spares_when, rule spares_init, simp add: init_writes_def)+
    (auto intro!: spare simp: init_writes_def)

text \<open>A path that passes \<open>verify_new_path\<close>.\<close>

definition free_path :: "'x machine \<Rightarrow> string \<Rightarrow> bool" where
  "free_path h p = (ho_hidden h p \<noteq> None \<or> ho_files h p = None)"

lemma verify_new_path_run:
  "verify_new_path msg p h = (Inr u, h') \<Longrightarrow> h' = h \<and> free_path h p"
  by (auto simp: free_path_def verify_new_path_def attempt_def os_Stat_def os_ReadFile_def try_do_def gets_def throw_def ret_def
      split: option.splits err.splits)

lemma when_new_path_run:
  "when_do b (verify_new_path msg p) h = (Inr u, h') \<Longrightarrow> h' = h \<and> (b \<longrightarrow> free_path h p)"
  using verify_new_path_run [of msg p h u h'] by (cases b) (simp_all add: when_do_def ret_def)

lemma verifyServerName_run:
  "verifyServerNameOption io h = (Inr io', h') \<Longrightarrow> \<exists>n. io' = io\<lparr>io_vpnServerName := n\<rparr>"
  by (auto simp: verifyServerNameOption_def run split: if_splits) (metis config_init_options.surjective config_init_options.update_convs(5))

lemma init_writes_name [simp]: "init_writes (io\<lparr>io_vpnServerName := n\<rparr>) = init_writes io"
  by (simp add: init_writes_def writes_tls_auth_def writes_config_def writes_vpp_config_def writes_vpp_day0_def
      noSingleConfigCreation_def)

lemma verify_run:
  fixes h h' :: "'x machine"
  assumes "verifyConfigInitOptions T io h = (Inr io', h')"
  shows "init_writes io' = init_writes io" and "p \<in> init_writes io \<Longrightarrow> p \<noteq> egvpnConfigPath \<Longrightarrow> free_path h p"
proof -
  obtain h1 h2 :: "'x machine" where h: "verifyServerNameOption io h1 = (Inr io', h2)"
    and v: "writes_tls_auth io \<longrightarrow> free_path h (io_tlsAuthPath io)" "writes_config io \<longrightarrow> free_path h (io_configPath io)"
      "writes_vpp_config io \<longrightarrow> free_path h (io_vppConfigPath io)"
      "writes_vpp_day0 io \<longrightarrow> free_path h (io_vppDayZeroConfigPath io)"
    using assms unfolding verifyConfigInitOptions_def verifyLogLevel_def run_basic run_try_do run_guard_do
    by (elim exE conjE) (auto dest!: when_new_path_run)
  show "init_writes io' = init_writes io" using verifyServerName_run [OF h] by auto
  show "free_path h p" if "p \<in> init_writes io" "p \<noteq> egvpnConfigPath"
    using that v unfolding init_writes_def by (auto split: if_splits)
qed

lemma spares_create_temp:
  assumes "\<And>m. tl_temp T m \<in> P" and k: "\<And>p. p \<in> P \<Longrightarrow> spares P (k p)"
  shows "spares P (try_do (os_CreateTemp T) w k)"
proof -
  have "ho_hidden (snd (try_do (os_CreateTemp T) w k h)) = ho_hidden h \<and>
      (\<forall>p. p \<notin> P \<longrightarrow> ho_files (snd (try_do (os_CreateTemp T) w k h)) p = ho_files h p)" for h
  proof -
    obtain r h1 where c: "os_CreateTemp T h = (r, h1)" by fastforce
    have s: "spares P (os_CreateTemp T)"
      unfolding os_CreateTemp_def spares_def preserves_def using assms(1)
      by (auto simp: try_do_def gets_def next_fate_def put_file_def modify_def ret_def throw_def split: list.split fate.split)
    have p: "q \<in> P" if "r = Inr q" for q
      using c that assms(1) by (auto simp: os_CreateTemp_def run next_fate_def put_file_def modify_def ret_def throw_def
        split: list.splits fate.splits prod.splits)
    show ?thesis
    proof (cases r)
      case (Inl e)
      with c sparesD [OF s, of _ h] spares_hidden [OF s, of h] show ?thesis by (simp add: try_do_def)
    next
      case (Inr q)
      with c p k [of q] sparesD [OF s, of _ h] spares_hidden [OF s, of h] sparesD [of P "k q" _ h1]
        spares_hidden [of P "k q" h1]
      show ?thesis by (simp add: try_do_def)
    qed
  qed
  then show ?thesis unfolding spares_def preserves_def by metis
qed

lemma spares_finally: "p \<in> P \<Longrightarrow> spares P m \<Longrightarrow> spares P (finally_remove p m)"
proof -
  assume p: "p \<in> P" and m: "spares P m"
  let ?d = "bind_do next_fate (\<lambda>f. if f = Done then put_file p None else ret ())"
  have d: "spares P ?d" using p by (auto intro!: spare)
  have "ho_hidden (snd (finally_remove p m h)) = ho_hidden h \<and>
      (\<forall>q. q \<notin> P \<longrightarrow> ho_files (snd (finally_remove p m h)) q = ho_files h q)" for h
    using sparesD [OF m, of _ h] spares_hidden [OF m, of h] sparesD [OF d, of _ "snd (m h)"] spares_hidden [OF d, of "snd (m h)"]
    by (cases "m h") (simp add: finally_remove_def)
  then show ?thesis unfolding spares_def preserves_def by metis
qed

lemma spares_run_or [spare]: "spares P (run_or T e cmd)" "spares P (verify_present e p)" "spares P (run_all T cmds)"
  unfolding run_or_def verify_present_def run_all_def by (intro spare)+

lemma spares_start [spare]: "spares P (start_telegraf T eo dir p)" "spares P (waitForVPPToBeReadyForConnection T eo)"
  "spares P (apply_day_zero_file T eo)" "spares P (runServerContainer T eo dir b)" "spares P (runVPPContainer T eo dir)"
  "spares P (prepareVPPSocketDirVolume T)" "spares P (prepareTelemetryVolume T)" "spares P (runHealthcheckContainer T eo dir n)"
  unfolding start_telegraf_def loadEgvpnConfig_def waitForVPPToBeReadyForConnection_def apply_day_zero_file_def
    runServerContainer_def runVPPContainer_def prepareVPPSocketDirVolume_def prepareTelemetryVolume_def
    runHealthcheckContainer_def
  by (intro spare)+

lemma spares_services:
  assumes "\<And>m. tl_temp T m \<in> P"
  shows "spares P (start_services T eo c)"
proof -
  have "spares P (runTelegrafContainer T eo dir)" for dir
    unfolding runTelegrafContainer_def
    by (intro spare spares_create_temp assms spares_finally) assumption+
  then show ?thesis unfolding start_services_def start_server_def by (intro spare)
qed

lemma spares_runStart:
  assumes "\<And>m. tl_temp T m \<in> P" and "egvpnRestartOptsPath \<in> P"
  shows "spares P (runStart T eo)"
  unfolding runStart_def verifyServerConfigStartOption_def verifyInstallation_def verifyImageExists_def
    verifyOtherServerStartOptions_def saveRestartOpts_def
  by (intro spare spares_services assms)

lemma spares_start_hidden: "ho_hidden (snd (runStart T eo h)) = ho_hidden h"
  by (rule spares_hidden [OF spares_runStart [of T UNIV]]) simp_all

lemma overwrite_defaults: "overwriteOptions eo restart_defaults = eo\<lparr>eo_Service := AllServiceType\<rparr>"
  by (simp add: overwriteOptions_def restart_defaults_def AllServiceType_def)

lemma os_WriteFile_run: "os_WriteFile p c h = (Inr u, h') \<Longrightarrow> ho_files h' p = Some c"
  by (auto simp: os_WriteFile_def try_do_def next_fate_def put_file_def modify_def throw_def split: list.splits fate.splits)

lemma saved_options_run:
  assumes "saveRestartOpts T eo h = (Inr u, h')"
  shows "\<exists>data. jl_options (tl_json T) eo = Inr data \<and> ho_files h' egvpnRestartOptsPath = Some data"
  using assms by (auto simp: saveRestartOpts_def run dest!: os_WriteFile_run)

text \<open>A spelling that \<open>Set\<close> accepts but no command knows: nothing is stopped, without an error.\<close>

lemma service_spelling_ignored:
  "ServiceType_Set ''ALL'' = Inr ''ALL''"
  "v \<notin> {VPNServerServiceType, HealthCheckServiceType, AllServiceType} \<Longrightarrow>
     runStop T (eo\<lparr>eo_Service := v\<rparr>) h = (Inr (), h)"
proof -
  show "ServiceType_Set ''ALL'' = Inr ''ALL''" by code_simp
qed (simp add: runStop_def runs_server_def runs_healthcheck_def when_do_def try_do_def ret_def)

section \<open>Properties\<close>

text \<open>C28. \<open>config init\<close> never changes a file that exists and can be reached, whichever options and answers it gets
  and whichever step fails, except the file in which the tool itself keeps the name of the server.\<close>

theorem config_init_overwrites_nothing:
  assumes "ho_files h p = Some c" and "ho_hidden h p = None" and "p \<noteq> egvpnConfigPath"
  shows "ho_files (snd (runConfigInit T io h)) p = Some c"
proof -
  obtain r h1 where v: "verifyConfigInitOptions T io h = (r, h1)" by fastforce
  have same: "ho_files h1 p = Some c"
    using sparesD [OF spares_verify, of p "{}" T io h] v assms(1) by simp
  show ?thesis
  proof (cases r)
    case (Inl e)
    with v same show ?thesis by (simp add: runConfigInit_def try_do_def)
  next
    case (Inr io')
    have "p \<notin> init_writes io'"
      using verify_run(1) [OF v [unfolded Inr]] verify_run(2) [OF v [unfolded Inr], of p] assms by (auto simp: free_path_def)
    moreover have "runConfigInit T io h = init_after_checks T io' h1"
      using v Inr by (simp add: runConfigInit_def init_after_checks_def try_do_def)
    ultimately show ?thesis using sparesD [OF spares_after_checks] same by metis
  qed
qed


section \<open>Witnesses\<close>

text \<open>A host on which every program succeeds, with the files of a server without VPP.\<close>

definition sample_config :: server_config where
  "sample_config = \<lparr>UseVPP = False, RPCAddr = ''o:8081'', RPCTimeout = second, CaName = ''ca'', CaCert = ''pem'',
     ReconnectAttempts = 1, ReconnectPause = second, LogLevel = ''info'', TokensPerSecond = 1, BucketSize = 1,
     HCGRPCAddr = ''o:8083'', HCListenPort = 8084, HCTokensPerSecond = 1, HCBucketSize = 1\<rparr>"

definition sample_options :: egvpn_options where
  "sample_options = restart_defaults\<lparr>eo_SecretsPath := ''s'', eo_ConfigPath := ''c'', eo_Service := VPNServerServiceType\<rparr>"

definition sample_json :: json_lib where
  "sample_json = \<lparr>jl_creds = (\<lambda>_. Inr []), jl_token = Inr, jl_server_name = Inr,
     jl_read_secrets = (\<lambda>_. Inr \<lparr>sx_key = [], sx_cert = []\<rparr>), jl_secrets = (\<lambda>_. Inr []), jl_config = (\<lambda>_. Inr []),
     jl_read_config = (\<lambda>_. Inr sample_config), jl_egvpn = Inr, jl_read_egvpn = Inr, jl_options = (\<lambda>_. Inr ''opts''),
     jl_read_options = (\<lambda>_. Inr sample_options)\<rparr>"

definition sample_tools :: "string tools" where
  "sample_tools = \<lparr>tl_exec = (\<lambda>cmd x. (Inr [], x)), tl_http = echo_http,
     tl_sysctl = \<lparr>sc_read = (\<lambda>_ _. Inr ''0''), sc_write = (\<lambda>_ _ x. (Inr (), x))\<rparr>, tl_cli = (\<lambda>_ x. (Inr (), x)),
     tl_connect = (\<lambda>_ _ x. (Inr (), x)), tl_interval = second, tl_json = sample_json, tl_level_ok = (\<lambda>_. True),
     tl_cwd = (\<lambda>_. Inr ''/root''), tl_temp = (\<lambda>_. ''/tmp/t''), tl_server_image = ''eg-s'', tl_healthcheck_image = ''eg-h'',
     tl_vpp_image = ''vpp'', tl_telegraf_name = ''telegraf'', tl_telegraf_tag = ''1''\<rparr>"

definition sample_machine :: "string machine" where
  "sample_machine = \<lparr>ho_files = [''s'' \<mapsto> ''key'', ''c'' \<mapsto> ''cfg''], ho_hidden = (\<lambda>_. None), ho_fates = [], ho_input = [],
     ho_ext = []\<rparr>"

theorem config_init_overwrites_nothing_witness:
  "\<forall>io. ho_files (snd (runConfigInit sample_tools io sample_machine)) ''s'' = Some ''key''"
proof
  fix io
  have "ho_files sample_machine ''s'' = Some ''key''" "ho_hidden sample_machine ''s'' = None" "''s'' \<noteq> egvpnConfigPath"
    by (simp_all add: sample_machine_def egvpnConfigPath_def)
  then show "ho_files (snd (runConfigInit sample_tools io sample_machine)) ''s'' = Some ''key''"
    by (rule config_init_overwrites_nothing)
qed

lemma sample_start: "is_ok (fst (runStart sample_tools sample_options sample_machine))"
  by (simp add: runStart_def verifyServerConfigStartOption_def verify_present_def os_Stat_def os_ReadFile_def
      NewConfigFromFile_def set_server_defaults_def verifyInstallation_def verifyImageExists_def run_or_def exec_def
      outside_def verifyOtherServerStartOptions_def saveRestartOpts_def os_MkdirAll_def os_WriteFile_def next_fate_def
      put_file_def modify_def start_services_def start_server_def runServerContainer_def runs_server_def
      runs_healthcheck_def service_types try_do_def attempt_def gets_def lift_def ret_def when_do_def
      sample_machine_def sample_tools_def sample_options_def sample_json_def sample_config_def restart_defaults_def)


end
