(* ===== verification/Spec2Isabelle.thy ===== *)
theory Spec2Isabelle
  imports Rest_Answers Rest_Invariants Healthcheck Vpp_Tunnel Tokens Config Crypt Egvpn_Host
begin

text \<open>
  Verification development for EntGuard, an orchestrator of WireGuard tunnels written in Go.

  \<^bold>\<open>The program.\<close>  The orchestrator keeps users, their devices, VPN servers and the adjacencies between
  devices and servers in a PostgreSQL database.  Administrators and users reach it over REST
  (\<open>src/service/rest\<close>), VPN clients and VPN servers over gRPC (\<open>src/service/rpc\<close>).  The handlers call two
  managers, the user manager (\<open>src/service/user\<close>) and the VPN configuration manager (\<open>src/service/vcm\<close>),
  which hold the logic and run queries (\<open>src/db/query.sql.go\<close>) inside and outside transactions.  A change of
  the tables fires triggers whose notifications are turned into messages for the subscribed VPN servers,
  and the end of a session into messages for the healthcheck service.  A VPN server process
  (\<open>src/cmd/vpn_server\<close>) keeps a tunnel equal to the configuration it received, with the Linux kernel or
  with VPP; the healthcheck service (\<open>src/cmd/healthcheck\<close>) tells a VPN client whether its session lives.

  \<^bold>\<open>Conventions.\<close>  An operation of the orchestrator is a function \<open>env \<Rightarrow> args \<Rightarrow> world \<Rightarrow> outcome \<times> world\<close>
  in the state monad of \<open>Store\<close>: a \<open>world\<close> holds the tables (\<open>db\<close>), the identifiers the database and the
  generators hand out next, and \<open>w_faults\<close>, a schedule that says which of the coming calls of the database
  fail and with which error; every theorem about an operation quantifies over the schedule, so it covers
  every point of failure.  An outcome is a value, an error of the tree \<open>err\<close> (\<open>errors.Is\<close> reads the chain, so \<open>%v\<close> and \<open>%w\<close> are kept
  apart) or a panic.  A transaction is \<open>with_tx\<close>: it restores the tables unless the body and the commit
  succeed.  Go's maps are lists and the order of a range over a map is a parameter where it matters.
  Identifiers, ports and counters keep their width where the code can wrap around.

  \<^bold>\<open>Foundations.\<close>
  \<^item> \<open>Prelude\<close>: outcomes, errors, the state monad, lemmas on lists and maps, and the collections of rules
    (\<open>run\<close>, \<open>wp\<close>, \<open>vcg\<close>, \<open>pres\<close>, \<open>safe\<close>, \<open>qvcg\<close>, \<open>obs\<close>) on which the component proofs rest.
  \<^item> \<open>Netip\<close>, \<open>Netip_Text\<close>: the part of Go's \<open>net/netip\<close> and \<open>strconv\<close> the program uses, with the text
    forms and their round trips.
  \<^item> \<open>Addr_Range\<close>: \<open>src/pkg/ip/ip.go\<close> and the overlap of pools.  The first available address is the least
    usable one; exhaustion is reported exactly when none is left; ranges survive text and database form.
  \<^item> \<open>Api_Model\<close>: the rows (\<open>src/db/models.go\<close>) and the values of the interface
    (\<open>src/service/api/v1/rest.go\<close>).  \<open>Wg_Model\<close>: validation and conversion of WireGuard configurations
    (\<open>wg_model.go\<close>, \<open>server_model.go\<close>).
  \<^item> \<open>Store\<close>: tables, constraints, transactions, database errors; \<open>Queries\<close>, \<open>Ldap_Queries\<close>: one
    definition per query.  \<open>Quiet_Runs\<close>: a weakest precondition for runs without failures.
    \<open>Samples\<close>: the concrete worlds of the witnesses.

  \<^bold>\<open>The VPN configuration manager\<close> (\<open>src/service/vcm/postgres.go\<close>, \<open>drivers/postgres/querier.go\<close>):
  \<open>Vcm_Base\<close> (reading), \<open>Vcm_Servers\<close> (a server is stored with its configuration or not at all),
  \<open>Vcm_Adjacency\<close> (an adjacency joins one device and one server, at most once, with addresses in range),
  \<open>Vcm_Templates\<close>, \<open>Vcm_Resync\<close> (resynchronisation touches only the devices of its user),
  \<open>Vcm_Notify\<close> (watchers, and which message a change sends to whom), \<open>Certs\<close> (tags and certificates of
  VPN servers, \<open>src/pkg/certs\<close>, \<open>src/pkg/rand\<close>).

  \<^bold>\<open>The user manager\<close> (\<open>src/service/user\<close>): \<open>Sessions\<close> (\<open>session.go\<close>), \<open>Address_Pools\<close>
  (\<open>address_pool.go\<close>), \<open>Devices\<close> and \<open>Device_Resync\<close> (\<open>device.go\<close>: slots, allocation of addresses, the limit
  of devices), \<open>Users\<close> (\<open>model.go\<close>, \<open>querier.go\<close>, \<open>manager.go\<close>: names, passwords, logins), \<open>Mfa\<close>
  (\<open>src/pkg/mfa\<close>: one-time passwords are used at most once under every interleaving; certificates and their
  revocation), \<open>Ldap_Config\<close> (configurations, templates, relations of users and the stub of the directory),
  \<open>Dpu\<close> (\<open>dpu_enforcement.go\<close>: every user is brought to the limit, devices of lowest priority first).

  \<^bold>\<open>The services.\<close>  \<open>Rpc_Client\<close> (\<open>rpc/auth.go\<close>, \<open>rpc/vpnc.go\<close>: a configuration and a session only with an
  accepted password and second factor), \<open>Rpc_Server\<close> (\<open>rpc/vpns.go\<close>, \<open>rpc/healthcheck.go\<close>),
  \<open>Server_Status\<close> (the status page as a step relation over the goroutines of the two services),
  \<open>Rest_Base\<close>, \<open>Rest_Users\<close>, \<open>Rest_Vpn\<close>, \<open>Rest_Ldap\<close> (every handler of \<open>rest/handlers.go\<close> with its status
  codes), \<open>Rest_Server\<close> (routes, authentication, the middlewares), \<open>Rest_Access\<close> (who may do what),
  \<open>Rest_Answers\<close> (answers that hide the cause), \<open>Healthcheck\<close> (\<open>src/cmd/healthcheck\<close>).

  \<^bold>\<open>The VPN server process.\<close>  \<open>Wg_Client\<close> states the interface \<open>wireguard.Client\<close> as a locale
  \<open>wg_client\<close> (what a tunnel holds after each call) and models the Linux client; \<open>Sim_Kernel\<close> is a kernel
  that keeps the laws of \<open>lawful_kernel\<close>, on which the witnesses run; \<open>Vpn_Server\<close> (\<open>vpns.go\<close>) proves inside
  the locale that the tunnel follows the orchestrator.  \<open>Vpp_Client\<close> and \<open>Vpp_Tunnel\<close> model the client for VPP
  and show that it keeps the same contract, so the same property holds of it.

  \<^bold>\<open>The orchestrator as a whole.\<close>  \<open>Invariants\<close> states in the locale \<open>frame\<close> what an invariant of the
  database may read, proves once that every query and operation of the managers keeps such an invariant, and
  interprets it for the names of users, the priorities of LDAP configurations and the limit of devices.
  \<open>Rest_Invariants\<close> carries this through the handlers, routes, calls and subscriptions to all states that
  the orchestrator reaches (\<open>orch_step\<close>).

  \<^bold>\<open>Configuration, keys and the command line.\<close>  \<open>Config\<close> (\<open>src/service/config\<close>, \<open>src/pkg/server-config\<close>: which
  settings are accepted, the factors they enable, the start of the session checks), \<open>Tokens\<close>
  (\<open>src/pkg/jwt\<close>: a token authenticates its user for exactly the configured time), \<open>Crypt\<close>
  (\<open>src/cmd/egvpn/cmd/crypt.go\<close>, \<open>src/pkg/crypto\<close>: a change of the encryption of the database keeps every
  secret, or changes nothing), \<open>Api_Client\<close> (\<open>src/cmd/egvpn/client\<close>: the orchestrator reads from a request exactly
  the credentials of the client), \<open>Egvpn\<close> (\<open>src/cmd/egvpn/cmd/start.go\<close>: huge pages and the first configuration
  of VPP), \<open>Egvpn_Host\<close> (\<open>config.go\<close>, \<open>start.go\<close>, \<open>stop.go\<close>, \<open>restart.go\<close> beside it: the commands on a host whose
  files can fail at every change).

  \<^bold>\<open>Parameters.\<close>  What is not under \<open>src/\<close> is an argument: the cipher of preshared keys and secrets and the
  password hash (fields of \<open>env\<close>), \<open>sort.Slice\<close>, netlink and wgctrl (\<open>lawful_kernel\<close>), the binary interface of
  VPP (\<open>lawful_vpp\<close>), \<open>hotp.Validate\<close>, \<open>pem.Decode\<close> and x509, the decoders of JSON bodies (a request carries
  its decoded body or the failure), the token provider and the template of the certificate of a server.
  The laws assumed of them are their documented behaviour; each is kept by a concrete instance.

  \<^bold>\<open>Bounds and fuel.\<close>  The searches for fresh values (\<open>generate_unused\<close>) take the drawn values as a list; a
  search over a list without a fresh value stands for the loop that does not end and is a panic of the
  model, and \<open>tag_search_ends\<close> says when it cannot occur.  Retries take their configured number.  Every other
  loop is structural recursion over the list it visits.

  \<^bold>\<open>Not modelled.\<close>  The creation of gRPC and HTTP servers, TLS set-up, logging, telemetry, the rate limiter and
  the tickers; the flags of the command line client and its commands that only print or collect the output
  of other programs (report, status, version, install, uninstall); the
  decoding of JSON files and of floating-point numbers and durations (parameters of \<open>Config\<close>); the generated
  table of common passwords (a predicate of the model); the creation of root certificates, which only calls x509;
  \<open>null\<close> elements in JSON lists of pools; the LISTEN loop on the notification connection (the handlers it
  calls are modelled); telemetry columns of rows; the user interface in TypeScript.
\<close>

end
